(* ===== verification/Prelude.thy ===== *)
theory Prelude
  imports "HOL-Library.Word" "HOL-Library.Monad_Syntax"
begin

text \<open>
  Shared vocabulary of the development.

  \<^item> The machine types of the code: \<open>u8\<close> ... \<open>u64\<close> are words of their width; a signed
    32-bit integer is the same word, read with \<^const>\<open>sint\<close> and compared with the signed order.
  \<^item> Byte sources: a pointer the code reads through is a partial function from byte offsets
    to bytes, \<^const>\<open>None\<close> standing for a read outside the object.  A model that can read out of
    bounds therefore returns \<^typ>\<open>'a option\<close>, and that it never returns \<^const>\<open>None\<close> is memory safety.
  \<^item> Loops over an index range: \<^const>\<open>fold\<close> over \<open>[0..<n]\<close> for total bodies,
    \<open>for_opt\<close> for bodies that read memory.
  \<^item> Arrays are lists; \<open>upd_at\<close> updates one element in place.
  \<^item> The lemma collections \<open>wf_simps\<close> and \<open>wf_intros\<close> which the components extend.
\<close>

unbundle bit_operations_syntax

type_synonym u8 = "8 word"
type_synonym u16 = "16 word"
type_synonym u32 = "32 word"
type_synonym u64 = "64 word"
type_synonym s32 = "32 word"
type_synonym bytes = "nat \<Rightarrow> u8 option"

named_theorems wf_simps "facts that evaluate well-formedness conditions"
named_theorems wf_intros "introduction rules for well-formedness conditions"

section \<open>Arrays\<close>

definition upd_at :: "('a \<Rightarrow> 'a) \<Rightarrow> nat \<Rightarrow> 'a list \<Rightarrow> 'a list" where
  "upd_at f i xs = xs[i := f (xs ! i)]"

lemma length_upd_at [simp]: "length (upd_at f i xs) = length xs"
  by (simp add: upd_at_def)

lemma nth_upd_at [simp]:
  "i < length xs \<Longrightarrow> upd_at f i xs ! j = (if j = i then f (xs ! i) else xs ! j)"
  by (simp add: upd_at_def nth_list_update)

lemma nth_upd_at_other: "j \<noteq> i \<Longrightarrow> upd_at f i xs ! j = xs ! j"
  by (simp add: upd_at_def)

lemma list_all_upd_at:
  assumes "list_all P xs" "\<And>x. P x \<Longrightarrow> P (f x)"
  shows "list_all P (upd_at f i xs)"
  using assms by (cases "i < length xs") (auto simp: upd_at_def list_all_length nth_list_update)

lemma list_all_list_update:
  "list_all P xs \<Longrightarrow> P x \<Longrightarrow> list_all P (xs[i := x])"
  by (cases "i < length xs") (auto simp: list_all_length nth_list_update)

lemma upd_at_twice:
  "i < length xs \<Longrightarrow> upd_at f i (upd_at g i xs) = upd_at (f \<circ> g) i xs"
  by (simp add: upd_at_def)

lemma upd_at_swap: "i \<noteq> j \<Longrightarrow> upd_at f i (upd_at g j xs) = upd_at g j (upd_at f i xs)"
  by (simp add: upd_at_def list_update_swap)

section \<open>Loops\<close>

primrec for_opt :: "(nat \<Rightarrow> 's \<Rightarrow> 's option) \<Rightarrow> nat list \<Rightarrow> 's \<Rightarrow> 's option" where
  "for_opt f [] s = Some s"
| "for_opt f (i # is) s = Option.bind (f i s) (for_opt f is)"

lemma for_opt_append:
  "for_opt f (xs @ ys) s = Option.bind (for_opt f xs s) (for_opt f ys)"
proof (induction xs arbitrary: s)
  case (Cons x xs)
  show ?case by (cases "f x s") (simp_all add: Cons.IH)
qed simp

lemma for_opt_invariant:
  assumes "for_opt f is s = Some t" "P s"
    and "\<And>i x y. i \<in> set is \<Longrightarrow> P x \<Longrightarrow> f i x = Some y \<Longrightarrow> P y"
  shows "P t"
  using assms
proof (induction \<open>is\<close> arbitrary: s)
  case (Cons i js)
  obtain x where x: "f i s = Some x" "for_opt f js x = Some t"
    using Cons.prems(1) by (auto split: bind_splits)
  show ?case
    by (rule Cons.IH[OF x(2)]) (use Cons.prems x(1) in auto)
qed simp

lemma for_opt_total:
  assumes "\<And>i x. i \<in> set is \<Longrightarrow> f i x \<noteq> None"
  shows "for_opt f is s \<noteq> None"
  using assms
proof (induction \<open>is\<close> arbitrary: s)
  case (Cons i js)
  obtain x where "f i s = Some x" using Cons.prems[of i s] by auto
  thus ?case using Cons by simp
qed simp

lemma fold_invariant_upt:
  assumes "P s" "\<And>i x. i < n \<Longrightarrow> P x \<Longrightarrow> P (f i x)"
  shows "P (fold f [0..<n] s)"
  by (rule fold_invariant[where Q = "\<lambda>i. i < n" and P = P]) (use assms in auto)

text \<open>A predicate of a long chain of conditionals, branch by branch.\<close>
lemma if_pred: "P x \<Longrightarrow> P y \<Longrightarrow> P (if c then x else y)"
  by simp

section \<open>Signed comparison and clamping\<close>

definition smax :: "'a::len word \<Rightarrow> 'a word \<Rightarrow> 'a word" where
  "smax a b = (if a <s b then b else a)"

definition smin :: "'a::len word \<Rightarrow> 'a word \<Rightarrow> 'a word" where
  "smin a b = (if b <s a then b else a)"

lemma sint_smax: "sint (smax a b) = max (sint a) (sint b)"
  by (simp add: smax_def word_sless_alt)

lemma sint_smin: "sint (smin a b) = min (sint a) (sint b)"
  by (simp add: smin_def word_sless_alt)

definition clamp :: "'a::linorder \<Rightarrow> 'a \<Rightarrow> 'a \<Rightarrow> 'a" where
  "clamp v lo hi = (if v < lo then lo else if hi < v then hi else v)"

lemma clamp_bounds: "lo \<le> hi \<Longrightarrow> lo \<le> clamp v lo hi \<and> clamp v lo hi \<le> hi"
  by (auto simp: clamp_def)

lemma clamp_id: "lo \<le> v \<Longrightarrow> v \<le> hi \<Longrightarrow> clamp v lo hi = v"
  by (auto simp: clamp_def)

section \<open>Byte sources\<close>

definition buf :: "u8 list \<Rightarrow> bytes" where
  "buf xs i = (if i < length xs then Some (xs ! i) else None)"

definition at_offset :: "bytes \<Rightarrow> nat \<Rightarrow> bytes" where
  "at_offset b o1 i = b (o1 + i)"

definition readable :: "bytes \<Rightarrow> nat \<Rightarrow> bool" where
  "readable b n \<longleftrightarrow> (\<forall>i<n. b i \<noteq> None)"

lemma readable_buf: "readable (buf xs) n \<longleftrightarrow> n \<le> length xs"
  by (auto simp: readable_def buf_def not_less intro: ccontr)

lemma readable_at_offset_buf:
  "o1 + n \<le> length xs \<Longrightarrow> readable (at_offset (buf xs) o1) n"
  by (auto simp: readable_def buf_def at_offset_def)

lemma readable_mono: "readable b n \<Longrightarrow> m \<le> n \<Longrightarrow> readable b m"
  by (auto simp: readable_def)

section \<open>Bit fields\<close>

lemma bits_word_and_mask: "(w :: 'a::len word) AND (push_bit n 1 - 1) = take_bit n w"
  by (simp add: take_bit_eq_mask mask_eq_decr_exp)

lemma and_single_bit: "(w :: 'a::len word) AND push_bit k 1 = (if bit w k then push_bit k 1 else 0)"
  by (rule bit_word_eqI) (auto simp: bit_simps)

definition fits :: "nat \<Rightarrow> 'a::len word \<Rightarrow> bool" where
  "fits n w \<longleftrightarrow> take_bit n w = w"

lemma fits_take_bit [simp, intro]: "fits n (take_bit n w)"
  by (simp add: fits_def)

lemma fits_unat_less: "fits n w \<Longrightarrow> unat w < 2 ^ n"
  by (metis fits_def take_bit_nat_less_exp unsigned_take_bit_eq)

lemma unat_less_fits: "unat w < 2 ^ n \<Longrightarrow> fits n w"
  unfolding fits_def by (metis take_bit_nat_eq_self unsigned_take_bit_eq unsigned_word_eqI)

lemma fits_iff_unat: "fits n w \<longleftrightarrow> unat w < 2 ^ n"
  using fits_unat_less unat_less_fits by blast

lemma fits_mono: "fits m w \<Longrightarrow> m \<le> n \<Longrightarrow> fits n w"
  by (meson fits_iff_unat le_less_trans less_le_trans one_le_numeral power_increasing)

lemma fits_0 [simp]: "fits n 0"
  by (simp add: fits_def)

end
