(* ===== verification/GxSdk.thy ===== *)
theory GxSdk
  imports Prelude
begin

text \<open>
  The constants of the GX headers \<open>dolphin/gx.h\<close> and \<open>GXAurora.h\<close>, which are not part of the
  repository.  Those whose value the repository pins itself (the \<open>static_assert\<close>s of
  gx_geometry_buffer.cpp, gx_lighting_state.cpp, gx_texgen_state.cpp, gx_tev_program.cpp and
  gx_fog_state.cpp, and the array sizes that the register state is used with) are definitions.
  All others are fields of two parameter records: \<open>gx_opcodes\<close>, the opcode bytes of the command
  stream, and \<open>gx_enums\<close>, the enumerators the decoder and the initial state name.  The
  definitions take these records as arguments; \<open>sdk_opcodes\<close> and \<open>sdk_enums\<close> are the values of the
  published Revolution SDK headers (with distinct sample values for Aurora's own subcommands, which
  it does not publish), at which the witnesses evaluate.
\<close>

section \<open>Values the repository pins\<close>

abbreviation (input) GX_VA_PNMTXIDX :: nat where "GX_VA_PNMTXIDX \<equiv> 0"
abbreviation (input) GX_VA_TEX0MTXIDX :: nat where "GX_VA_TEX0MTXIDX \<equiv> 1"
abbreviation (input) GX_VA_POS :: nat where "GX_VA_POS \<equiv> 9"
abbreviation (input) GX_VA_NRM :: nat where "GX_VA_NRM \<equiv> 10"
abbreviation (input) GX_VA_CLR0 :: nat where "GX_VA_CLR0 \<equiv> 11"
abbreviation (input) GX_VA_CLR1 :: nat where "GX_VA_CLR1 \<equiv> 12"
abbreviation (input) GX_VA_TEX0 :: nat where "GX_VA_TEX0 \<equiv> 13"
abbreviation (input) GX_VA_TEX1 :: nat where "GX_VA_TEX1 \<equiv> 14"
abbreviation (input) GX_VA_TEX2 :: nat where "GX_VA_TEX2 \<equiv> 15"
abbreviation (input) GX_VA_TEX3 :: nat where "GX_VA_TEX3 \<equiv> 16"
abbreviation (input) GX_VA_TEX4 :: nat where "GX_VA_TEX4 \<equiv> 17"
abbreviation (input) GX_VA_TEX5 :: nat where "GX_VA_TEX5 \<equiv> 18"
abbreviation (input) GX_VA_TEX6 :: nat where "GX_VA_TEX6 \<equiv> 19"
abbreviation (input) GX_VA_TEX7 :: nat where "GX_VA_TEX7 \<equiv> 20"

abbreviation (input) GX_DIRECT :: u32 where "GX_DIRECT \<equiv> 1"
abbreviation (input) GX_INDEX8 :: u32 where "GX_INDEX8 \<equiv> 2"
abbreviation (input) GX_INDEX16 :: u32 where "GX_INDEX16 \<equiv> 3"

abbreviation (input) GX_AF_SPEC :: u32 where "GX_AF_SPEC \<equiv> 0"
abbreviation (input) GX_AF_SPOT :: u32 where "GX_AF_SPOT \<equiv> 1"
abbreviation (input) GX_AF_NONE :: u32 where "GX_AF_NONE \<equiv> 2"
abbreviation (input) GX_DF_NONE :: u32 where "GX_DF_NONE \<equiv> 0"
abbreviation (input) GX_SRC_REG :: u32 where "GX_SRC_REG \<equiv> 0"
abbreviation (input) GX_COLOR0 :: nat where "GX_COLOR0 \<equiv> 0"
abbreviation (input) GX_COLOR1 :: nat where "GX_COLOR1 \<equiv> 1"
abbreviation (input) GX_ALPHA0 :: nat where "GX_ALPHA0 \<equiv> 2"
abbreviation (input) GX_ALPHA1 :: nat where "GX_ALPHA1 \<equiv> 3"

abbreviation (input) GX_TG_MTX3x4 :: u32 where "GX_TG_MTX3x4 \<equiv> 0"
abbreviation (input) GX_TG_MTX2x4 :: u32 where "GX_TG_MTX2x4 \<equiv> 1"
abbreviation (input) GX_TG_SRTG :: u32 where "GX_TG_SRTG \<equiv> 10"
abbreviation (input) GX_TG_POS :: u32 where "GX_TG_POS \<equiv> 0"
abbreviation (input) GX_TG_NRM :: u32 where "GX_TG_NRM \<equiv> 1"
abbreviation (input) GX_TG_BINRM :: u32 where "GX_TG_BINRM \<equiv> 2"
abbreviation (input) GX_TG_TANGENT :: u32 where "GX_TG_TANGENT \<equiv> 3"
abbreviation (input) GX_TG_TEX0 :: u32 where "GX_TG_TEX0 \<equiv> 4"
abbreviation (input) GX_TG_TEX7 :: u32 where "GX_TG_TEX7 \<equiv> 11"
abbreviation (input) GX_TG_COLOR0 :: u32 where "GX_TG_COLOR0 \<equiv> 19"
abbreviation (input) GX_TG_COLOR1 :: u32 where "GX_TG_COLOR1 \<equiv> 20"
abbreviation (input) GX_MAX_TEXGENSRC :: u32 where "GX_MAX_TEXGENSRC \<equiv> 21"

abbreviation (input) GX_CC_CPREV :: u32 where "GX_CC_CPREV \<equiv> 0"
abbreviation (input) GX_CC_ZERO :: u32 where "GX_CC_ZERO \<equiv> 15"
abbreviation (input) GX_CA_APREV :: u32 where "GX_CA_APREV \<equiv> 0"
abbreviation (input) GX_CA_ZERO :: u32 where "GX_CA_ZERO \<equiv> 7"
abbreviation (input) GX_TEVPREV :: u32 where "GX_TEVPREV \<equiv> 0"
abbreviation (input) GX_CH_RED :: u32 where "GX_CH_RED \<equiv> 0"
abbreviation (input) GX_CH_GREEN :: u32 where "GX_CH_GREEN \<equiv> 1"
abbreviation (input) GX_CH_BLUE :: u32 where "GX_CH_BLUE \<equiv> 2"
abbreviation (input) GX_CH_ALPHA :: u32 where "GX_CH_ALPHA \<equiv> 3"
abbreviation (input) GX_COLOR_ZERO :: u32 where "GX_COLOR_ZERO \<equiv> 6"
abbreviation (input) GX_ALPHA_BUMP :: u32 where "GX_ALPHA_BUMP \<equiv> 7"
abbreviation (input) GX_ALPHA_BUMPN :: u32 where "GX_ALPHA_BUMPN \<equiv> 8"
abbreviation (input) GX_ALWAYS :: u32 where "GX_ALWAYS \<equiv> 7"
abbreviation (input) GX_AOP_AND :: u32 where "GX_AOP_AND \<equiv> 0"
abbreviation (input) GX_FOG_NONE :: u32 where "GX_FOG_NONE \<equiv> 0"

text \<open>Array sizes of the register file (register_state.hpp with the header's limits).\<close>
abbreviation (input) MaxLights :: nat where "MaxLights \<equiv> 8"
abbreviation (input) MaxTextures :: nat where "MaxTextures \<equiv> 8"
abbreviation (input) MaxTluts :: nat where "MaxTluts \<equiv> 20"
abbreviation (input) MaxTevStages :: nat where "MaxTevStages \<equiv> 16"
abbreviation (input) MaxColorChannels :: nat where "MaxColorChannels \<equiv> 4"
abbreviation (input) MaxTevRegs :: nat where "MaxTevRegs \<equiv> 4"
abbreviation (input) MaxKColors :: nat where "MaxKColors \<equiv> 4"
abbreviation (input) MaxTexMtx :: nat where "MaxTexMtx \<equiv> 10"
abbreviation (input) MaxPTTexMtx :: nat where "MaxPTTexMtx \<equiv> 20"
abbreviation (input) MaxTexCoord :: nat where "MaxTexCoord \<equiv> 8"
abbreviation (input) MaxTevSwap :: nat where "MaxTevSwap \<equiv> 4"
abbreviation (input) MaxIndStages :: nat where "MaxIndStages \<equiv> 4"
abbreviation (input) MaxIndTexMtxs :: nat where "MaxIndTexMtxs \<equiv> 3"
abbreviation (input) MaxVtxFmt :: nat where "MaxVtxFmt \<equiv> 8"
abbreviation (input) MaxPnMtx :: nat where "MaxPnMtx \<equiv> 10"

section \<open>Parameters\<close>

record gx_opcodes =
  GX_NOP :: u8
  GX_LOAD_BP_REG :: u8
  GX_LOAD_CP_REG :: u8
  GX_LOAD_XF_REG :: u8
  GX_LOAD_INDX_A :: u8
  GX_LOAD_INDX_B :: u8
  GX_LOAD_INDX_C :: u8
  GX_LOAD_INDX_D :: u8
  GX_CMD_CALL_DL :: u8
  GX_CMD_INVL_VC :: u8
  GX_OPCODE_MASK :: u8
  GX_LOAD_AURORA :: u8
  GX_POS_MTX_ARRAY :: nat
  GX_LOAD_AURORA_VIEWPORT_RENDER :: u16
  GX_LOAD_AURORA_SCISSOR_RENDER :: u16
  GX_LOAD_AURORA_ARRAYBASE :: u16
  GX_LOAD_AURORA_TEXOBJ :: u16
  GX_LOAD_AURORA_TLUT :: u16
  GX_LOAD_AURORA_DESTROY_TEXOBJ :: u16
  GX_LOAD_AURORA_DESTROY_TLUT :: u16
  GX_LOAD_AURORA_DESTROY_COPY_TEX :: u16
  GX_LOAD_AURORA_INVALIDATE_TEX_ALL :: u16
  GX_LOAD_AURORA_DEBUG_GROUP_PUSH :: u16
  GX_LOAD_AURORA_DEBUG_GROUP_POP :: u16
  GX_LOAD_AURORA_DEBUG_MARKER_INSERT :: u16

record gx_enums =
  GX_NONE :: u32
  GX_VA_MAX_ATTR :: nat
  GX_CULL_FRONT :: u32
  GX_CULL_BACK :: u32
  GX_TB_ZERO :: u32
  GX_CS_SCALE_1 :: u32
  GX_TEV_ADD :: u32
  GX_TEV_KCSEL_1 :: u32
  GX_TEV_KASEL_1 :: u32
  GX_TEXCOORD_NULL :: u32
  GX_TEXMAP_NULL :: u32
  GX_COLOR0A0 :: u32
  GX_COLOR1A1 :: u32
  GX_COLOR_NULL :: u32
  GX_NRM_XYZ :: u32
  GX_NRM_NBT :: u32
  GX_NRM_NBT3 :: u32
  GX_U8 :: u32
  GX_S8 :: u32
  GX_U16 :: u32
  GX_S16 :: u32
  GX_ORTHOGRAPHIC :: u32
  GX_MAX_VTXFMT :: u32
  GX_BL_SRCALPHA :: u32
  GX_BL_INVSRCALPHA :: u32
  GX_LO_CLEAR :: u32
  GX_LEQUAL :: u32
  GX_ZC_LINEAR :: u32
  GX_ZT_DISABLE :: u32
  GX_IDENTITY :: u32
  GX_PTIDENTITY :: u32
  GX_TLUT0 :: u32
  GX_TL_IA8 :: u32
  GX_ITM_OFF :: u32
  GX_ITW_OFF :: u32
  GX_ITW_256 :: u32
  GX_ITW_128 :: u32
  GX_ITW_64 :: u32
  GX_ITW_32 :: u32
  GX_ITW_16 :: u32
  GX_ITW_0 :: u32
  GX_GM_1_0 :: u32
  GX_CLAMP_NONE :: u32
  GX_TO_ZERO :: u32
  GX_TEV_SWAP0 :: u32
  GX_INDTEXSTAGE0 :: u32
  GX_ITF_8 :: u32
  GX_ITB_NONE :: u32
  GX_ITBA_OFF :: u32
  AURORA_VIEWPORT_FIT :: u32
  AURORA_VIEWPORT_NATIVE :: u32

text \<open>What the decoder relies on: the array-base and the indexed-matrix commands name vertex
  attributes below \<open>GX_VA_MAX_ATTR\<close>, and the vertex attributes up to \<open>GX_VA_TEX7\<close> are among them.\<close>
definition sdk_attrs_ok :: "gx_opcodes \<Rightarrow> gx_enums \<Rightarrow> bool" where
  "sdk_attrs_ok k g \<longleftrightarrow>
     GX_VA_TEX7 < GX_VA_MAX_ATTR g \<and> GX_VA_POS + 15 < GX_VA_MAX_ATTR g \<and>
     GX_POS_MTX_ARRAY k + 3 < GX_VA_MAX_ATTR g"

section \<open>The published values\<close>

definition sdk_opcodes :: gx_opcodes where
  "sdk_opcodes = \<lparr>
     GX_NOP = 0x00, GX_LOAD_BP_REG = 0x61, GX_LOAD_CP_REG = 0x08, GX_LOAD_XF_REG = 0x10,
     GX_LOAD_INDX_A = 0x20, GX_LOAD_INDX_B = 0x28, GX_LOAD_INDX_C = 0x30, GX_LOAD_INDX_D = 0x38,
     GX_CMD_CALL_DL = 0x40, GX_CMD_INVL_VC = 0x48, GX_OPCODE_MASK = 0xF8, GX_LOAD_AURORA = 0x50,
     GX_POS_MTX_ARRAY = 21,
     GX_LOAD_AURORA_VIEWPORT_RENDER = 0x01, GX_LOAD_AURORA_SCISSOR_RENDER = 0x02,
     GX_LOAD_AURORA_ARRAYBASE = 0x10, GX_LOAD_AURORA_TEXOBJ = 0x20, GX_LOAD_AURORA_TLUT = 0x21,
     GX_LOAD_AURORA_DESTROY_TEXOBJ = 0x22, GX_LOAD_AURORA_DESTROY_TLUT = 0x23,
     GX_LOAD_AURORA_DESTROY_COPY_TEX = 0x24, GX_LOAD_AURORA_INVALIDATE_TEX_ALL = 0x25,
     GX_LOAD_AURORA_DEBUG_GROUP_PUSH = 0x30, GX_LOAD_AURORA_DEBUG_GROUP_POP = 0x31,
     GX_LOAD_AURORA_DEBUG_MARKER_INSERT = 0x32 \<rparr>"

definition sdk_enums :: gx_enums where
  "sdk_enums = \<lparr>
     GX_NONE = 0, GX_VA_MAX_ATTR = 26, GX_CULL_FRONT = 1, GX_CULL_BACK = 2, GX_TB_ZERO = 0,
     GX_CS_SCALE_1 = 0, GX_TEV_ADD = 0, GX_TEV_KCSEL_1 = 0, GX_TEV_KASEL_1 = 0,
     GX_TEXCOORD_NULL = 0xFF, GX_TEXMAP_NULL = 0xFF, GX_COLOR0A0 = 4, GX_COLOR1A1 = 5,
     GX_COLOR_NULL = 0xFF, GX_NRM_XYZ = 0, GX_NRM_NBT = 1, GX_NRM_NBT3 = 2, GX_U8 = 0,
     GX_S8 = 1, GX_U16 = 2, GX_S16 = 3, GX_ORTHOGRAPHIC = 1, GX_MAX_VTXFMT = 8,
     GX_BL_SRCALPHA = 4, GX_BL_INVSRCALPHA = 5, GX_LO_CLEAR = 0, GX_LEQUAL = 3,
     GX_ZC_LINEAR = 0, GX_ZT_DISABLE = 0, GX_IDENTITY = 60, GX_PTIDENTITY = 125,
     GX_TLUT0 = 0, GX_TL_IA8 = 0, GX_ITM_OFF = 0, GX_ITW_OFF = 0, GX_ITW_256 = 1,
     GX_ITW_128 = 2, GX_ITW_64 = 3, GX_ITW_32 = 4, GX_ITW_16 = 5, GX_ITW_0 = 6,
     GX_GM_1_0 = 0, GX_CLAMP_NONE = 0, GX_TO_ZERO = 0, GX_TEV_SWAP0 = 0, GX_INDTEXSTAGE0 = 0,
     GX_ITF_8 = 0, GX_ITB_NONE = 0, GX_ITBA_OFF = 0,
     AURORA_VIEWPORT_FIT = 0, AURORA_VIEWPORT_NATIVE = 1 \<rparr>"

end
