(* ===== verification/Ieee.thy ===== *)
theory Ieee
  imports Prelude
begin

text \<open>
  Executable IEEE-754 binary arithmetic, as the C++ types \<open>float\<close> and \<open>double\<close> have it: a value
  is its bit pattern (\<open>f32\<close>, \<open>f64\<close>), an operation decodes its arguments, computes the
  exact result as an integer significand times a power of two (with a sticky bit for a quotient)
  and rounds it once, to nearest with ties to even.  Subnormals, signed zeros, infinities and
  overflow are as in the standard; a NaN result is the canonical quiet NaN, and no operation is
  contracted into a fused one.  All of it is integer arithmetic, so a result evaluates by \<open>simp\<close>
  or \<open>code_simp\<close>.
\<close>

type_synonym f32 = "32 word"
type_synonym f64 = "64 word"

text \<open>A format: the precision (significand bits) and the width of the exponent field.\<close>
record float_fmt =
  prec :: nat
  ebits :: nat

definition binary32 :: float_fmt where "binary32 = \<lparr>prec = 24, ebits = 8\<rparr>"
definition binary64 :: float_fmt where "binary64 = \<lparr>prec = 53, ebits = 11\<rparr>"

text \<open>\<open>FFin s m e\<close> is (-1)^s * m * 2^e.\<close>
datatype fval = FNan | FInf bool | FFin bool int int

definition emin :: "float_fmt \<Rightarrow> int" where
  "emin F = 3 - 2 ^ (ebits F - 1) - int (prec F)"

definition f_decode :: "float_fmt \<Rightarrow> int \<Rightarrow> fval" where
  "f_decode F b =
     (let s = (b div 2 ^ (prec F - 1 + ebits F)) mod 2 = 1;
          ex = (b div 2 ^ (prec F - 1)) mod 2 ^ ebits F;
          fr = b mod 2 ^ (prec F - 1)
      in if ex = 2 ^ ebits F - 1 then (if fr = 0 then FInf s else FNan)
         else if ex = 0 then FFin s fr (emin F)
         else FFin s (fr + 2 ^ (prec F - 1)) (ex - 1 + emin F))"

definition f_sign_bit :: "float_fmt \<Rightarrow> bool \<Rightarrow> int" where
  "f_sign_bit F s = (if s then 2 ^ (prec F - 1 + ebits F) else 0)"

definition f_inf :: "float_fmt \<Rightarrow> bool \<Rightarrow> int" where
  "f_inf F s = f_sign_bit F s + (2 ^ ebits F - 1) * 2 ^ (prec F - 1)"

definition f_nan :: "float_fmt \<Rightarrow> int" where
  "f_nan F = (2 ^ ebits F - 1) * 2 ^ (prec F - 1) + 2 ^ (prec F - 2)"

text \<open>The number of binary digits of a natural number given as an integer.\<close>
function int_bits :: "int \<Rightarrow> nat" where
  "int_bits n = (if n \<le> 0 then 0 else Suc (int_bits (n div 2)))"
  by pat_completeness auto
termination by (relation "measure nat") auto

declare int_bits.simps [simp del]

text \<open>Round half to even: the quotient of \<open>m\<close> by \<open>2 ^ k\<close>.\<close>
definition round_shift :: "int \<Rightarrow> nat \<Rightarrow> int" where
  "round_shift m k =
     (if k = 0 then m
      else let q = m div 2 ^ k; r = m mod 2 ^ k; h = 2 ^ (k - 1)
           in if r > h \<or> (r = h \<and> q mod 2 = 1) then q + 1 else q)"

text \<open>Encode the non-negative exact value \<open>m * 2^e\<close>.  A carry out of the significand
  increments the exponent field, and at the top of the range gives the infinity.\<close>
definition f_round :: "float_fmt \<Rightarrow> bool \<Rightarrow> int \<Rightarrow> int \<Rightarrow> int" where
  "f_round F s m e =
     (let q = max (e + int (int_bits m) - int (prec F)) (emin F);
          M = (if q \<le> e then m * 2 ^ nat (e - q) else round_shift m (nat (q - e)));
          b = M + (q - emin F) * 2 ^ (prec F - 1)
      in if M = 0 then f_sign_bit F s
         else if b \<ge> (2 ^ ebits F - 1) * 2 ^ (prec F - 1) then f_inf F s
         else f_sign_bit F s + b)"

section \<open>Operations on bit patterns\<close>

fun f_add_val :: "float_fmt \<Rightarrow> fval \<Rightarrow> fval \<Rightarrow> int" where
  "f_add_val F FNan _ = f_nan F"
| "f_add_val F _ FNan = f_nan F"
| "f_add_val F (FInf s) (FInf t) = (if s = t then f_inf F s else f_nan F)"
| "f_add_val F (FInf s) (FFin _ _ _) = f_inf F s"
| "f_add_val F (FFin _ _ _) (FInf t) = f_inf F t"
| "f_add_val F (FFin s m e) (FFin t n d) =
     (let g = min e d;
          a = (if s then - m else m) * 2 ^ nat (e - g);
          b = (if t then - n else n) * 2 ^ nat (d - g);
          c = a + b
      in if c = 0 then f_sign_bit F (s \<and> t) else f_round F (c < 0) \<bar>c\<bar> g)"

fun f_neg_val :: "fval \<Rightarrow> fval" where
  "f_neg_val FNan = FNan"
| "f_neg_val (FInf s) = FInf (\<not> s)"
| "f_neg_val (FFin s m e) = FFin (\<not> s) m e"

fun f_mul_val :: "float_fmt \<Rightarrow> fval \<Rightarrow> fval \<Rightarrow> int" where
  "f_mul_val F FNan _ = f_nan F"
| "f_mul_val F _ FNan = f_nan F"
| "f_mul_val F (FInf s) (FInf t) = f_inf F (s \<noteq> t)"
| "f_mul_val F (FInf s) (FFin t n _) = (if n = 0 then f_nan F else f_inf F (s \<noteq> t))"
| "f_mul_val F (FFin s m _) (FInf t) = (if m = 0 then f_nan F else f_inf F (s \<noteq> t))"
| "f_mul_val F (FFin s m e) (FFin t n d) =
     (if m = 0 \<or> n = 0 then f_sign_bit F (s \<noteq> t) else f_round F (s \<noteq> t) (m * n) (e + d))"

text \<open>The quotient is computed with two bits more than the precision, and one more bit
  tells whether a remainder is left.\<close>
fun f_div_val :: "float_fmt \<Rightarrow> fval \<Rightarrow> fval \<Rightarrow> int" where
  "f_div_val F FNan _ = f_nan F"
| "f_div_val F _ FNan = f_nan F"
| "f_div_val F (FInf s) (FInf t) = f_nan F"
| "f_div_val F (FInf s) (FFin t _ _) = f_inf F (s \<noteq> t)"
| "f_div_val F (FFin s _ _) (FInf t) = f_sign_bit F (s \<noteq> t)"
| "f_div_val F (FFin s m e) (FFin t n d) =
     (if n = 0 then (if m = 0 then f_nan F else f_inf F (s \<noteq> t))
      else if m = 0 then f_sign_bit F (s \<noteq> t)
      else let k = prec F + 2 + int_bits n;
               q = (m * 2 ^ k) div n;
               r = (m * 2 ^ k) mod n
           in f_round F (s \<noteq> t) (2 * q + (if r = 0 then 0 else 1)) (e - d - int k - 1))"

fun f_lt_val :: "fval \<Rightarrow> fval \<Rightarrow> bool" where
  "f_lt_val FNan _ = False"
| "f_lt_val _ FNan = False"
| "f_lt_val (FInf s) (FInf t) = (s \<and> \<not> t)"
| "f_lt_val (FInf s) (FFin _ _ _) = s"
| "f_lt_val (FFin _ _ _) (FInf t) = (\<not> t)"
| "f_lt_val (FFin s m e) (FFin t n d) =
     (let g = min e d
      in (if s then - m else m) * 2 ^ nat (e - g) < (if t then - n else n) * 2 ^ nat (d - g))"

fun f_eq_val :: "fval \<Rightarrow> fval \<Rightarrow> bool" where
  "f_eq_val FNan _ = False"
| "f_eq_val _ FNan = False"
| "f_eq_val (FInf s) (FInf t) = (s = t)"
| "f_eq_val (FInf _) (FFin _ _ _) = False"
| "f_eq_val (FFin _ _ _) (FInf _) = False"
| "f_eq_val (FFin s m e) (FFin t n d) =
     (let g = min e d
      in (if s then - m else m) * 2 ^ nat (e - g) = (if t then - n else n) * 2 ^ nat (d - g))"

text \<open>\<open>ldexp\<close>: scaling by a power of two, rounded where the result leaves the format.\<close>
fun f_ldexp_val :: "float_fmt \<Rightarrow> fval \<Rightarrow> int \<Rightarrow> int" where
  "f_ldexp_val F FNan _ = f_nan F"
| "f_ldexp_val F (FInf s) _ = f_inf F s"
| "f_ldexp_val F (FFin s m e) k = (if m = 0 then f_sign_bit F s else f_round F s m (e + k))"

text \<open>Rounding of a finite value to an integer: towards minus infinity and towards zero.\<close>
fun floor_val :: "fval \<Rightarrow> int option" where
  "floor_val (FFin s m e) =
     (let v = (if s then - m else m)
      in Some (if e \<ge> 0 then v * 2 ^ nat e else v div 2 ^ nat (- e)))"
| "floor_val _ = None"

fun trunc_val :: "fval \<Rightarrow> int option" where
  "trunc_val (FFin s m e) =
     (let v = (if e \<ge> 0 then m * 2 ^ nat e else m div 2 ^ nat (- e))
      in Some (if s then - v else v))"
| "trunc_val _ = None"

section \<open>The type \<open>float\<close>\<close>

definition f32_val :: "f32 \<Rightarrow> fval" where "f32_val x = f_decode binary32 (uint x)"
definition f32_add :: "f32 \<Rightarrow> f32 \<Rightarrow> f32" where
  "f32_add x y = word_of_int (f_add_val binary32 (f32_val x) (f32_val y))"
definition f32_sub :: "f32 \<Rightarrow> f32 \<Rightarrow> f32" where
  "f32_sub x y = word_of_int (f_add_val binary32 (f32_val x) (f_neg_val (f32_val y)))"
definition f32_mul :: "f32 \<Rightarrow> f32 \<Rightarrow> f32" where
  "f32_mul x y = word_of_int (f_mul_val binary32 (f32_val x) (f32_val y))"
definition f32_div :: "f32 \<Rightarrow> f32 \<Rightarrow> f32" where
  "f32_div x y = word_of_int (f_div_val binary32 (f32_val x) (f32_val y))"
definition f32_neg :: "f32 \<Rightarrow> f32" where "f32_neg x = x XOR 0x80000000"
definition f32_lt :: "f32 \<Rightarrow> f32 \<Rightarrow> bool" where "f32_lt x y = f_lt_val (f32_val x) (f32_val y)"
definition f32_eq :: "f32 \<Rightarrow> f32 \<Rightarrow> bool" where "f32_eq x y = f_eq_val (f32_val x) (f32_val y)"
definition f32_ldexp :: "f32 \<Rightarrow> int \<Rightarrow> f32" where
  "f32_ldexp x k = word_of_int (f_ldexp_val binary32 (f32_val x) k)"
definition f32_isfinite :: "f32 \<Rightarrow> bool" where
  "f32_isfinite x = (case f32_val x of FFin _ _ _ \<Rightarrow> True | _ \<Rightarrow> False)"
definition f32_of_int :: "int \<Rightarrow> f32" where
  "f32_of_int i = word_of_int (f_round binary32 (i < 0) \<bar>i\<bar> 0)"
definition f32_of_u32 :: "u32 \<Rightarrow> f32" where "f32_of_u32 w = f32_of_int (uint w)"
definition f32_of_s32 :: "s32 \<Rightarrow> f32" where "f32_of_s32 w = f32_of_int (sint w)"

section \<open>The type \<open>double\<close>\<close>

definition f64_val :: "f64 \<Rightarrow> fval" where "f64_val x = f_decode binary64 (uint x)"
definition f64_add :: "f64 \<Rightarrow> f64 \<Rightarrow> f64" where
  "f64_add x y = word_of_int (f_add_val binary64 (f64_val x) (f64_val y))"
definition f64_sub :: "f64 \<Rightarrow> f64 \<Rightarrow> f64" where
  "f64_sub x y = word_of_int (f_add_val binary64 (f64_val x) (f_neg_val (f64_val y)))"
definition f64_mul :: "f64 \<Rightarrow> f64 \<Rightarrow> f64" where
  "f64_mul x y = word_of_int (f_mul_val binary64 (f64_val x) (f64_val y))"
definition f64_div :: "f64 \<Rightarrow> f64 \<Rightarrow> f64" where
  "f64_div x y = word_of_int (f_div_val binary64 (f64_val x) (f64_val y))"
definition f64_lt :: "f64 \<Rightarrow> f64 \<Rightarrow> bool" where "f64_lt x y = f_lt_val (f64_val x) (f64_val y)"
definition f64_eq :: "f64 \<Rightarrow> f64 \<Rightarrow> bool" where "f64_eq x y = f_eq_val (f64_val x) (f64_val y)"
definition f64_of_int :: "int \<Rightarrow> f64" where
  "f64_of_int i = word_of_int (f_round binary64 (i < 0) \<bar>i\<bar> 0)"

text \<open>Conversions between the two widths; the widening one is exact.\<close>
fun f_convert_val :: "float_fmt \<Rightarrow> fval \<Rightarrow> int" where
  "f_convert_val F FNan = f_nan F"
| "f_convert_val F (FInf s) = f_inf F s"
| "f_convert_val F (FFin s m e) = (if m = 0 then f_sign_bit F s else f_round F s m e)"

definition f64_of_f32 :: "f32 \<Rightarrow> f64" where
  "f64_of_f32 x = word_of_int (f_convert_val binary64 (f32_val x))"
definition f32_of_f64 :: "f64 \<Rightarrow> f32" where
  "f32_of_f64 x = word_of_int (f_convert_val binary32 (f64_val x))"

end
