(* ===== verification/GxState.thy ===== *)
theory GxState
  imports GxSdk Ieee
begin

text \<open>
  The GX register file: the data types of gfx/render_types.hpp, dolphin/gx/texture_object.hpp and
  gx/register_state.hpp, the record \<open>GXRegisterState\<close> with its member functions, the initial state
  built by ps5/gpu/gx_register_state.cpp, and the well-formedness predicate (every fixed-size
  array has its size) that all decoder operations preserve.

  An enumerator decoded from register bits is kept as the \<open>u32\<close> it is cast from.  A matrix is its
  flat row-major list of elements, the view through which the code writes it.  A pointer is a
  \<open>u64\<close>, 0 being the null pointer.  The static variables that accompany the register file, the
  epoch counter of \<open>next_gx_state_epoch\<close> and the CP register cache of register_decoder.cpp, extend
  the record to \<open>gx_ctx\<close>, whose last field is the state of the renderer behind the callbacks.
\<close>

section \<open>Data types\<close>

record vec4 =
  v0 :: f32
  v1 :: f32
  v2 :: f32
  v3 :: f32

record Viewport =
  vp_left :: f32
  vp_top :: f32
  vp_width :: f32
  vp_height :: f32
  vp_znear :: f32
  vp_zfar :: f32

record Range =
  rg_offset :: u32
  rg_size :: u32

record ClipRect =
  cr_x :: s32
  cr_y :: s32
  cr_width :: s32
  cr_height :: s32

record TevPass =
  pass_a :: u32
  pass_b :: u32
  pass_c :: u32
  pass_d :: u32

record TevOp =
  op_op :: u32
  op_bias :: u32
  op_scale :: u32
  op_outReg :: u32
  op_clamp :: bool

record TevStage =
  colorPass :: TevPass
  alphaPass :: TevPass
  colorOp :: TevOp
  alphaOp :: TevOp
  kcSel :: u32
  kaSel :: u32
  texCoordId :: u32
  texMapId :: u32
  channelId :: u32
  tevSwapRas :: u32
  tevSwapTex :: u32
  indTexStage :: u32
  indTexFormat :: u32
  indTexBiasSel :: u32
  indTexAlphaSel :: u32
  indTexMtxId :: u32
  indTexWrapS :: u32
  indTexWrapT :: u32
  indTexUseOrigLOD :: bool
  indTexAddPrev :: bool

record IndStage =
  is_texCoordId :: u32
  is_texMapId :: u32
  is_scaleS :: u32
  is_scaleT :: u32

record ColorChannelConfig =
  cc_matSrc :: u32
  cc_ambSrc :: u32
  cc_diffFn :: u32
  cc_attnFn :: u32
  cc_lightingEnabled :: bool

record ColorChannelState =
  cs_matColor :: vec4
  cs_ambColor :: vec4
  cs_lightMask :: u8

record TcgConfig =
  tcg_type :: u32
  tcg_src :: u32
  tcg_mtx :: u32
  tcg_postMtx :: u32
  tcg_normalize :: bool
  tcg_inputFormAB11 :: bool

record FogState =
  fog_type :: u32
  fog_a :: f32
  fog_b :: f32
  fog_c :: f32
  fog_aRaw :: f32
  fog_color :: vec4
  fog0Raw :: u32
  fog1Raw :: u32
  fog2Raw :: u32
  bMagnitude :: u32
  bShift :: u32

record TevSwap =
  sw_red :: u32
  sw_green :: u32
  sw_blue :: u32
  sw_alpha :: u32

record AlphaCompare =
  ac_comp0 :: u32
  ac_ref0 :: u32
  ac_op :: u32
  ac_comp1 :: u32
  ac_ref1 :: u32

text \<open>A \<open>Mat3x2\<close> is its three columns of two elements.\<close>
record IndTexMtxInfo =
  im_mtx :: "(f32 \<times> f32) list"
  im_scaleExp :: u8
  im_adjScaleRaw :: u8

record TexCoordScale =
  ts_scaleS :: u16
  ts_scaleT :: u16
  ts_biasS :: bool
  ts_biasT :: bool
  ts_cylWrapS :: bool
  ts_cylWrapT :: bool
  ts_lineOffset :: bool
  ts_pointOffset :: bool

record VtxAttrFmt =
  va_cnt :: u32
  va_type :: u32
  va_frac :: u8

record PnMtx =
  pn_pos :: "f32 list"
  pn_nrm :: "f32 list"

record Light =
  lt_pos :: vec4
  lt_dir :: vec4
  lt_color :: vec4
  lt_cosAtt :: vec4
  lt_distAtt :: vec4

record AttrArray =
  arr_data :: u64
  arr_size :: u32
  arr_stride :: u8
  arr_le :: bool
  arr_cachedRange :: Range

record GXTexObj =
  to_mode0 :: u32
  to_mode1 :: u32
  to_image0 :: u32
  to_image3 :: u32
  to_userData :: u64
  to_data :: u64
  to_mWidth :: u32
  to_mHeight :: u32
  to_mFormat :: u32
  to_tlut :: u32
  to_texObjId :: u32
  to_texDataVersion :: u32
  to_flags :: u8

record GXTlutObj =
  tl_tlut :: u32
  tl_loadTlut0 :: u32
  tl_numEntries :: u16
  tl_data :: u64
  tl_format :: u32
  tl_tlutObjId :: u32
  tl_tlutDataVersion :: u32
  tl_flags :: u8

datatype GXPixelFmt =
  PF_RGB8_Z24 | PF_RGBA6_Z24 | PF_RGB565_Z16 | PF_Z24 | PF_Y8 | PF_U8 | PF_V8 | PF_YUV420

datatype GXBlendMode = BM_NONE | BM_BLEND | BM_LOGIC | BM_SUBTRACT

section \<open>The register file\<close>

record GXRegisterState =
  pnMtx :: "PnMtx list"
  currentPnMtx :: u32
  proj :: "f32 list"
  projType :: u32
  fog :: FogState
  cullMode :: u32
  lineWidth :: u8
  pointSize :: u8
  lineTexOffset :: u32
  pointTexOffset :: u32
  lineHalfAspect :: bool
  blendMode :: GXBlendMode
  blendFacSrc :: u32
  blendFacDst :: u32
  blendOp :: u32
  depthFunc :: u32
  clearColor :: vec4
  clearDepth :: u32
  pixelFmt :: GXPixelFmt
  zFmt :: u32
  zCompLocBeforeTex :: bool
  zTextureOp :: u32
  zTextureFmt :: u8
  zTextureBias :: u32
  dstAlpha :: u32
  alphaCompare :: AlphaCompare
  colorRegs :: "vec4 list"
  kcolors :: "vec4 list"
  colorChannelConfig :: "ColorChannelConfig list"
  colorChannelState :: "ColorChannelState list"
  lights :: "Light list"
  preparedLights :: "Light list"
  preparedLightsDirty :: bool
  tevStages :: "TevStage list"
  loadedTextures :: "GXTexObj list"
  loadedTluts :: "GXTlutObj list"
  viewportPolicy :: u32
  logicalViewport :: Viewport
  renderViewport :: Viewport
  logicalScissor :: ClipRect
  renderScissor :: ClipRect
  xfViewport :: "f32 list"
  xfProjection :: "f32 list"
  texMtxs :: "f32 list list"
  ptTexMtxs :: "f32 list list"
  tcgs :: "TcgConfig list"
  texCoordScales :: "TexCoordScale list"
  lastVtxSize :: u16
  lastVtxFmt :: u32
  vtxDesc :: "u32 list"
  sourceVtxDesc :: "u32 list"
  vtxFmts :: "VtxAttrFmt list list"
  tevSwapTable :: "TevSwap list"
  indStages :: "IndStage list"
  indTexMtxs :: "IndTexMtxInfo list"
  indTexMask :: u8
  boundingBox :: "u16 list"
  arrays :: "AttrArray list"
  texCopySrc :: ClipRect
  dispCopySrc :: ClipRect
  texCopySrcRenderSpace :: bool
  texCopyFmt :: u32
  texCopyDstWidth :: u16
  texCopyDstHeight :: u16
  texCopyHalfScale :: bool
  dispCopyDstWidth :: u16
  dispCopyDstHeight :: u16
  dispCopyYScale :: f32
  dispCopyGamma :: u32
  copyFilterAa :: bool
  copyFilterVf :: bool
  copyFilterSamplePattern :: "u8 list list"
  copyFilterVFilter :: "u8 list"
  copyClamp :: u32
  dispCopyFrame2Field :: u32
  fieldMask :: u32
  fieldMode :: u32
  revBits :: u32
  fogRange :: "u32 list"
  xfError :: u32
  dualTex :: u32
  zScale :: f32
  zOffset :: f32
  scissorOffsetX :: s32
  scissorOffsetY :: s32
  displayCopyWidth :: u32
  displayCopyHeight :: u32
  depthCompare :: bool
  depthUpdate :: bool
  colorUpdate :: bool
  alphaUpdate :: bool
  numChans :: u8
  numIndStages :: u8
  numTevStages :: u8
  numTexGens :: u8
  stateDirty :: bool
  pipelineStateGeneration :: u32
  bpRegCache :: "u32 list"
  xfRegCache :: "u32 list"
  xfRegCacheValid :: "u64 list"

text \<open>The register file with the static variables beside it; \<open>'b\<close> is the renderer's state.\<close>
record 'b gx_ctx = GXRegisterState +
  gx_epoch :: u32
  cpRegisterCache :: "u32 list"
  cpRegisterCacheValid :: "bool list"
  backend :: 'b

section \<open>The XF register cache\<close>

definition xfRegMatches :: "'a GXRegisterState_scheme \<Rightarrow> u32 \<Rightarrow> u32 \<Rightarrow> bool" where
  "xfRegMatches s reg val =
     (drop_bit (unat (reg AND 63)) (xfRegCacheValid s ! unat (drop_bit 6 reg)) AND 1 \<noteq> 0 \<and>
      xfRegCache s ! unat reg = val)"

definition storeXfReg :: "u32 \<Rightarrow> u32 \<Rightarrow> 'a GXRegisterState_scheme \<Rightarrow> 'a GXRegisterState_scheme" where
  "storeXfReg reg val s = s\<lparr>
     xfRegCache := (xfRegCache s)[unat reg := val],
     xfRegCacheValid :=
       upd_at (\<lambda>w. w OR push_bit (unat (reg AND 63)) 1) (unat (drop_bit 6 reg)) (xfRegCacheValid s)\<rparr>"

definition invalidateXfReg :: "u32 \<Rightarrow> 'a GXRegisterState_scheme \<Rightarrow> 'a GXRegisterState_scheme" where
  "invalidateXfReg reg s = s\<lparr>
     xfRegCacheValid :=
       upd_at (\<lambda>w. w AND NOT (push_bit (unat (reg AND 63)) 1)) (unat (drop_bit 6 reg))
         (xfRegCacheValid s)\<rparr>"

definition clearVtxSizeCache :: "gx_enums \<Rightarrow> 'a GXRegisterState_scheme \<Rightarrow> 'a GXRegisterState_scheme" where
  "clearVtxSizeCache g s = s\<lparr>lastVtxFmt := GX_MAX_VTXFMT g\<rparr>"

section \<open>Dirty flags\<close>

definition next_gx_state_epoch :: "'b gx_ctx \<Rightarrow> u32 \<times> 'b gx_ctx" where
  "next_gx_state_epoch s = (let e = gx_epoch s + 1 in (e, s\<lparr>gx_epoch := e\<rparr>))"

definition mark_pipeline_state_dirty :: "'b gx_ctx \<Rightarrow> 'b gx_ctx" where
  "mark_pipeline_state_dirty s =
     (let (e, s') = next_gx_state_epoch (s\<lparr>stateDirty := True\<rparr>)
      in s'\<lparr>pipelineStateGeneration := e\<rparr>)"

end
