(* ===== verification/GxInit.thy ===== *)
theory GxInit
  imports GxState
begin

text \<open>
  The initial register file (default member initialisers of register_state.hpp, the texture
  sources set by ps5/gpu/gx_register_state.cpp, zero for every member without an initialiser), the
  shape invariant \<open>wf_shape\<close> (every \<open>std::array\<close> member has its size), the range invariant
  \<open>wf_tev\<close> (every TEV selector names an existing register, table row or constant) and the laws of
  the XF register cache and of the pipeline generation.
\<close>

abbreviation (input) f32_1 :: f32 where "f32_1 \<equiv> 0x3F800000"
abbreviation (input) f32_half :: f32 where "f32_half \<equiv> 0x3F000000"

section \<open>Initial values\<close>

definition vec4_zero :: vec4 where "vec4_zero = \<lparr>v0 = 0, v1 = 0, v2 = 0, v3 = 0\<rparr>"

definition TevOp_init :: "gx_enums \<Rightarrow> TevOp" where
  "TevOp_init g = \<lparr>op_op = GX_TEV_ADD g, op_bias = GX_TB_ZERO g, op_scale = GX_CS_SCALE_1 g,
     op_outReg = GX_TEVPREV, op_clamp = True\<rparr>"

definition TevStage_init :: "gx_enums \<Rightarrow> TevStage" where
  "TevStage_init g = \<lparr>
     colorPass = \<lparr>pass_a = GX_CC_ZERO, pass_b = GX_CC_ZERO, pass_c = GX_CC_ZERO, pass_d = GX_CC_ZERO\<rparr>,
     alphaPass = \<lparr>pass_a = GX_CA_ZERO, pass_b = GX_CA_ZERO, pass_c = GX_CA_ZERO, pass_d = GX_CA_ZERO\<rparr>,
     colorOp = TevOp_init g, alphaOp = TevOp_init g,
     kcSel = GX_TEV_KCSEL_1 g, kaSel = GX_TEV_KASEL_1 g,
     texCoordId = GX_TEXCOORD_NULL g, texMapId = GX_TEXMAP_NULL g, channelId = GX_COLOR_NULL g,
     tevSwapRas = GX_TEV_SWAP0 g, tevSwapTex = GX_TEV_SWAP0 g, indTexStage = GX_INDTEXSTAGE0 g,
     indTexFormat = GX_ITF_8 g, indTexBiasSel = GX_ITB_NONE g, indTexAlphaSel = GX_ITBA_OFF g, indTexMtxId = GX_ITM_OFF g, indTexWrapS = GX_ITW_OFF g,
     indTexWrapT = GX_ITW_OFF g, indTexUseOrigLOD = False, indTexAddPrev = False\<rparr>"

definition TcgConfig_init :: "gx_enums \<Rightarrow> TcgConfig" where
  "TcgConfig_init g = \<lparr>tcg_type = GX_TG_MTX2x4, tcg_src = GX_MAX_TEXGENSRC, tcg_mtx = GX_IDENTITY g,
     tcg_postMtx = GX_PTIDENTITY g, tcg_normalize = False, tcg_inputFormAB11 = False\<rparr>"

definition FogState_init :: FogState where
  "FogState_init = \<lparr>fog_type = GX_FOG_NONE, fog_a = 0, fog_b = f32_half, fog_c = 0, fog_aRaw = 0,
     fog_color = vec4_zero, fog0Raw = 0, fog1Raw = 0, fog2Raw = 0, bMagnitude = 1, bShift = 1\<rparr>"

definition AlphaCompare_init :: AlphaCompare where
  "AlphaCompare_init = \<lparr>ac_comp0 = GX_ALWAYS, ac_ref0 = 0, ac_op = GX_AOP_AND,
     ac_comp1 = GX_ALWAYS, ac_ref1 = 0\<rparr>"

definition TevSwap_init :: TevSwap where
  "TevSwap_init = \<lparr>sw_red = GX_CH_RED, sw_green = GX_CH_GREEN, sw_blue = GX_CH_BLUE,
     sw_alpha = GX_CH_ALPHA\<rparr>"

definition tevSwapTable_init :: "TevSwap list" where
  "tevSwapTable_init = [TevSwap_init,
     \<lparr>sw_red = GX_CH_RED, sw_green = GX_CH_RED, sw_blue = GX_CH_RED, sw_alpha = GX_CH_ALPHA\<rparr>,
     \<lparr>sw_red = GX_CH_GREEN, sw_green = GX_CH_GREEN, sw_blue = GX_CH_GREEN, sw_alpha = GX_CH_ALPHA\<rparr>,
     \<lparr>sw_red = GX_CH_BLUE, sw_green = GX_CH_BLUE, sw_blue = GX_CH_BLUE, sw_alpha = GX_CH_ALPHA\<rparr>]"

definition Light_init :: Light where
  "Light_init = \<lparr>lt_pos = vec4_zero, lt_dir = vec4_zero, lt_color = vec4_zero,
     lt_cosAtt = vec4_zero, lt_distAtt = vec4_zero\<rparr>"

definition AttrArray_init :: AttrArray where
  "AttrArray_init = \<lparr>arr_data = 0, arr_size = 0, arr_stride = 0, arr_le = True,
     arr_cachedRange = \<lparr>rg_offset = 0, rg_size = 0\<rparr>\<rparr>"

definition InvalidTextureFormat :: u32 where "InvalidTextureFormat = -1"

definition GXTexObj_init :: "gx_enums \<Rightarrow> GXTexObj" where
  "GXTexObj_init g = \<lparr>to_mode0 = 0, to_mode1 = 0, to_image0 = -1, to_image3 = 0, to_userData = 0,
     to_data = 0, to_mWidth = 0, to_mHeight = 0, to_mFormat = InvalidTextureFormat,
     to_tlut = GX_TLUT0 g, to_texObjId = 0, to_texDataVersion = 0, to_flags = 0\<rparr>"

definition GXTlutObj_init :: "gx_enums \<Rightarrow> GXTlutObj" where
  "GXTlutObj_init g = \<lparr>tl_tlut = 0, tl_loadTlut0 = 0, tl_numEntries = 0, tl_data = 0,
     tl_format = GX_TL_IA8 g, tl_tlutObjId = 0, tl_tlutDataVersion = 0, tl_flags = 0\<rparr>"

definition Viewport_init :: Viewport where
  "Viewport_init = \<lparr>vp_left = 0, vp_top = 0, vp_width = f32_of_int 640, vp_height = f32_of_int 480,
     vp_znear = 0, vp_zfar = f32_1\<rparr>"

definition ClipRect_zero :: ClipRect where
  "ClipRect_zero = \<lparr>cr_x = 0, cr_y = 0, cr_width = 0, cr_height = 0\<rparr>"

definition scissor_init :: ClipRect where
  "scissor_init = \<lparr>cr_x = 0, cr_y = 0, cr_width = 640, cr_height = 480\<rparr>"

definition tcgs_init :: "gx_enums \<Rightarrow> TcgConfig list" where
  "tcgs_init g = map (\<lambda>i. (TcgConfig_init g)\<lparr>tcg_src := GX_TG_TEX0 + of_nat i\<rparr>) [0..<MaxTexCoord]"

definition GXRegisterState_init :: "gx_enums \<Rightarrow> 'b \<Rightarrow> 'b gx_ctx" where
  "GXRegisterState_init g b = \<lparr>
     pnMtx = replicate MaxPnMtx \<lparr>pn_pos = replicate 12 0, pn_nrm = replicate 12 0\<rparr>,
     currentPnMtx = 0, proj = replicate 16 0, projType = 0, fog = FogState_init,
     cullMode = GX_CULL_BACK g, lineWidth = 0, pointSize = 0, lineTexOffset = GX_TO_ZERO g,
     pointTexOffset = GX_TO_ZERO g, lineHalfAspect = False, blendMode = BM_NONE,
     blendFacSrc = GX_BL_SRCALPHA g, blendFacDst = GX_BL_INVSRCALPHA g, blendOp = GX_LO_CLEAR g,
     depthFunc = GX_LEQUAL g, clearColor = vec4_zero\<lparr>v3 := f32_1\<rparr>, clearDepth = 0xFFFFFF,
     pixelFmt = PF_RGB8_Z24, zFmt = GX_ZC_LINEAR g, zCompLocBeforeTex = False,
     zTextureOp = GX_ZT_DISABLE g, zTextureFmt = 0, zTextureBias = 0, dstAlpha = 0,
     alphaCompare = AlphaCompare_init, colorRegs = replicate MaxTevRegs vec4_zero,
     kcolors = replicate MaxKColors vec4_zero,
     colorChannelConfig = replicate MaxColorChannels
       \<lparr>cc_matSrc = GX_SRC_REG, cc_ambSrc = GX_SRC_REG, cc_diffFn = GX_DF_NONE,
        cc_attnFn = GX_AF_NONE, cc_lightingEnabled = False\<rparr>,
     colorChannelState = replicate MaxColorChannels
       \<lparr>cs_matColor = vec4_zero, cs_ambColor = vec4_zero, cs_lightMask = 0\<rparr>,
     lights = replicate MaxLights Light_init, preparedLights = replicate MaxLights Light_init,
     preparedLightsDirty = True, tevStages = replicate MaxTevStages (TevStage_init g),
     loadedTextures = replicate MaxTextures (GXTexObj_init g),
     loadedTluts = replicate MaxTluts (GXTlutObj_init g),
     viewportPolicy = AURORA_VIEWPORT_FIT g, logicalViewport = Viewport_init,
     renderViewport = Viewport_init, logicalScissor = scissor_init, renderScissor = scissor_init,
     xfViewport = map f32_of_int [320, -240, 16777215, 660, 580, 16777215],
     xfProjection = replicate 6 0, texMtxs = replicate MaxTexMtx (replicate 12 0),
     ptTexMtxs = replicate MaxPTTexMtx (replicate 12 0), tcgs = tcgs_init g,
     texCoordScales = replicate MaxTexCoord
       \<lparr>ts_scaleS = 0, ts_scaleT = 0, ts_biasS = False, ts_biasT = False, ts_cylWrapS = False,
        ts_cylWrapT = False, ts_lineOffset = False, ts_pointOffset = False\<rparr>,
     lastVtxSize = 0, lastVtxFmt = GX_MAX_VTXFMT g, vtxDesc = replicate (GX_VA_MAX_ATTR g) 0,
     sourceVtxDesc = replicate (GX_VA_MAX_ATTR g) 0,
     vtxFmts = replicate MaxVtxFmt
       (replicate (GX_VA_MAX_ATTR g) \<lparr>va_cnt = 0, va_type = 0, va_frac = 0\<rparr>),
     tevSwapTable = tevSwapTable_init,
     indStages = replicate MaxIndStages
       \<lparr>is_texCoordId = 0, is_texMapId = 0, is_scaleS = 0, is_scaleT = 0\<rparr>,
     indTexMtxs = replicate MaxIndTexMtxs
       \<lparr>im_mtx = replicate 3 (0, 0), im_scaleExp = 0, im_adjScaleRaw = 0\<rparr>,
     indTexMask = 0, boundingBox = [1023, 0, 1023, 0],
     arrays = replicate (GX_VA_MAX_ATTR g) AttrArray_init, texCopySrc = ClipRect_zero,
     dispCopySrc = ClipRect_zero, texCopySrcRenderSpace = False, texCopyFmt = 0,
     texCopyDstWidth = 0, texCopyDstHeight = 0, texCopyHalfScale = False, dispCopyDstWidth = 640,
     dispCopyDstHeight = 480, dispCopyYScale = f32_1, dispCopyGamma = GX_GM_1_0 g, copyFilterAa = False,
     copyFilterVf = False, copyFilterSamplePattern = replicate 12 (replicate 2 0),
     copyFilterVFilter = replicate 7 0, copyClamp = GX_CLAMP_NONE g, dispCopyFrame2Field = 0, fieldMask = 0,
     fieldMode = 0, revBits = 0, fogRange = replicate 6 0, xfError = 0, dualTex = 0,
     zScale = f32_1, zOffset = 0, scissorOffsetX = 0, scissorOffsetY = 0, displayCopyWidth = 0,
     displayCopyHeight = 0, depthCompare = True, depthUpdate = True, colorUpdate = True,
     alphaUpdate = True, numChans = 0, numIndStages = 0, numTevStages = 0, numTexGens = 0,
     stateDirty = True, pipelineStateGeneration = 1,
     bpRegCache = (replicate 256 0)[0xFE := 0x00FFFFFF], xfRegCache = replicate 96 0,
     xfRegCacheValid = replicate 2 0, gx_epoch = 1, cpRegisterCache = replicate 256 0,
     cpRegisterCacheValid = replicate 256 False, backend = b\<rparr>"

section \<open>Invariants\<close>

definition wf_shape :: "gx_enums \<Rightarrow> 'a GXRegisterState_scheme \<Rightarrow> bool" where
  "wf_shape g s \<longleftrightarrow>
     length (pnMtx s) = MaxPnMtx \<and>
     list_all (\<lambda>m. length (pn_pos m) = 12 \<and> length (pn_nrm m) = 12) (pnMtx s) \<and>
     length (proj s) = 16 \<and> length (colorRegs s) = MaxTevRegs \<and> length (kcolors s) = MaxKColors \<and>
     length (colorChannelConfig s) = MaxColorChannels \<and>
     length (colorChannelState s) = MaxColorChannels \<and>
     length (lights s) = MaxLights \<and> length (preparedLights s) = MaxLights \<and>
     length (tevStages s) = MaxTevStages \<and> length (loadedTextures s) = MaxTextures \<and>
     length (loadedTluts s) = MaxTluts \<and> length (xfViewport s) = 6 \<and> length (xfProjection s) = 6 \<and>
     length (texMtxs s) = MaxTexMtx \<and> list_all (\<lambda>m. length m = 12) (texMtxs s) \<and>
     length (ptTexMtxs s) = MaxPTTexMtx \<and> list_all (\<lambda>m. length m = 12) (ptTexMtxs s) \<and>
     length (tcgs s) = MaxTexCoord \<and> length (texCoordScales s) = MaxTexCoord \<and>
     length (vtxDesc s) = GX_VA_MAX_ATTR g \<and> length (sourceVtxDesc s) = GX_VA_MAX_ATTR g \<and>
     length (vtxFmts s) = MaxVtxFmt \<and> list_all (\<lambda>v. length v = GX_VA_MAX_ATTR g) (vtxFmts s) \<and>
     length (tevSwapTable s) = MaxTevSwap \<and> length (indStages s) = MaxIndStages \<and>
     length (indTexMtxs s) = MaxIndTexMtxs \<and> list_all (\<lambda>m. length (im_mtx m) = 3) (indTexMtxs s) \<and>
     length (boundingBox s) = 4 \<and> length (arrays s) = GX_VA_MAX_ATTR g \<and>
     length (copyFilterSamplePattern s) = 12 \<and>
     list_all (\<lambda>p. length p = 2) (copyFilterSamplePattern s) \<and>
     length (copyFilterVFilter s) = 7 \<and> length (fogRange s) = 6 \<and>
     length (bpRegCache s) = 256 \<and> length (xfRegCache s) = 96 \<and> length (xfRegCacheValid s) = 2"

text \<open>The CP register cache beside the register file.\<close>
definition wf_ctx :: "gx_enums \<Rightarrow> 'b gx_ctx \<Rightarrow> bool" where
  "wf_ctx g s \<longleftrightarrow> wf_shape g s \<and> length (cpRegisterCache s) = 256 \<and>
     length (cpRegisterCacheValid s) = 256"

text \<open>Ranges of the decoded fields through which the TEV indexes tables.\<close>
definition wf_op :: "TevOp \<Rightarrow> bool" where
  "wf_op p \<longleftrightarrow> fits 4 (op_op p) \<and> fits 2 (op_bias p) \<and> fits 2 (op_scale p) \<and> fits 2 (op_outReg p)"

definition wf_stage :: "gx_enums \<Rightarrow> TevStage \<Rightarrow> bool" where
  "wf_stage g t \<longleftrightarrow>
     fits 4 (pass_a (colorPass t)) \<and> fits 4 (pass_b (colorPass t)) \<and>
     fits 4 (pass_c (colorPass t)) \<and> fits 4 (pass_d (colorPass t)) \<and>
     fits 3 (pass_a (alphaPass t)) \<and> fits 3 (pass_b (alphaPass t)) \<and>
     fits 3 (pass_c (alphaPass t)) \<and> fits 3 (pass_d (alphaPass t)) \<and>
     wf_op (colorOp t) \<and> wf_op (alphaOp t) \<and> fits 5 (kcSel t) \<and> fits 5 (kaSel t) \<and>
     (fits 3 (texCoordId t) \<or> texCoordId t = GX_TEXCOORD_NULL g) \<and>
     (fits 3 (texMapId t) \<or> texMapId t = GX_TEXMAP_NULL g) \<and>
     fits 2 (tevSwapRas t) \<and> fits 2 (tevSwapTex t) \<and> fits 2 (indTexStage t) \<and>
     fits 2 (indTexFormat t) \<and> fits 3 (indTexBiasSel t) \<and> fits 2 (indTexAlphaSel t) \<and>
     fits 4 (indTexMtxId t) \<and> fits 3 (indTexWrapS t) \<and> fits 3 (indTexWrapT t)"

definition wf_swap :: "TevSwap \<Rightarrow> bool" where
  "wf_swap w \<longleftrightarrow> fits 2 (sw_red w) \<and> fits 2 (sw_green w) \<and> fits 2 (sw_blue w) \<and> fits 2 (sw_alpha w)"

definition wf_ind :: "IndStage \<Rightarrow> bool" where
  "wf_ind i \<longleftrightarrow> fits 3 (is_texCoordId i) \<and> fits 3 (is_texMapId i) \<and> fits 4 (is_scaleS i) \<and>
     fits 4 (is_scaleT i)"

definition wf_tev :: "gx_enums \<Rightarrow> 'a GXRegisterState_scheme \<Rightarrow> bool" where
  "wf_tev g s \<longleftrightarrow> list_all (wf_stage g) (tevStages s) \<and> list_all wf_swap (tevSwapTable s) \<and>
     list_all wf_ind (indStages s) \<and> unat (numTevStages s) \<le> 16 \<and> fits 3 (numIndStages s) \<and>
     fits 3 (ac_comp0 (alphaCompare s)) \<and> fits 3 (ac_comp1 (alphaCompare s)) \<and>
     fits 2 (ac_op (alphaCompare s)) \<and> fits 8 (ac_ref0 (alphaCompare s)) \<and>
     fits 8 (ac_ref1 (alphaCompare s))"

text \<open>What the enumerators of the initial stage have to satisfy for the ranges to hold at the start.\<close>
definition sdk_ranges_ok :: "gx_enums \<Rightarrow> bool" where
  "sdk_ranges_ok g \<longleftrightarrow> fits 4 (GX_TEV_ADD g) \<and> fits 2 (GX_TB_ZERO g) \<and> fits 2 (GX_CS_SCALE_1 g) \<and>
     fits 5 (GX_TEV_KCSEL_1 g) \<and> fits 5 (GX_TEV_KASEL_1 g) \<and> fits 2 (GX_TEV_SWAP0 g) \<and>
     fits 2 (GX_INDTEXSTAGE0 g) \<and> fits 2 (GX_ITF_8 g) \<and> fits 3 (GX_ITB_NONE g) \<and>
     fits 2 (GX_ITBA_OFF g) \<and> fits 4 (GX_ITM_OFF g) \<and> fits 3 (GX_ITW_OFF g)"

lemma sdk_ranges_ok_sdk: "sdk_ranges_ok sdk_enums"
  by (simp add: sdk_ranges_ok_def sdk_enums_def fits_def)

lemma sdk_attrs_ok_sdk: "sdk_attrs_ok sdk_opcodes sdk_enums"
  by (simp add: sdk_attrs_ok_def sdk_enums_def sdk_opcodes_def)

lemma wf_shape_init: "wf_shape g (GXRegisterState_init g b)"
  by (simp add: wf_shape_def GXRegisterState_init_def list_all_iff tcgs_init_def
      tevSwapTable_init_def)

lemma wf_ctx_init: "wf_ctx g (GXRegisterState_init g b)"
  by (simp add: wf_ctx_def wf_shape_init) (simp add: GXRegisterState_init_def)

lemma wf_tev_init:
  assumes "sdk_ranges_ok g"
  shows "wf_tev g (GXRegisterState_init g b)"
  using assms
  by (simp add: wf_tev_def GXRegisterState_init_def TevStage_init_def TevOp_init_def wf_stage_def
      wf_op_def wf_swap_def wf_ind_def sdk_ranges_ok_def tevSwapTable_init_def TevSwap_init_def
      list_all_iff AlphaCompare_init_def fits_def)

end
