(* ===== verification/RegCache.thy ===== *)
theory RegCache
  imports GxInit
begin

text \<open>
  The register caches.  The decoder keeps, for each of its three register banks, the last raw
  value written to a register, and skips a write that repeats it.  The locale \<open>write_cache\<close> states
  what such a cache promises (a lookup after a store sees exactly that store) and derives what
  the skip logic relies on: after any sequence of stores, a lookup succeeds only for the value of
  the last store to that register.  It is interpreted on the XF cache of \<open>GXRegisterState\<close>
  (\<open>xfRegMatches\<close>, \<open>storeXfReg\<close>) here and on the CP cache of register_decoder.cpp in CpDecoder.
\<close>

section \<open>The contract\<close>

locale write_cache =
  fixes hit :: "'s \<Rightarrow> 'r \<Rightarrow> 'v \<Rightarrow> bool"
    and store :: "'r \<Rightarrow> 'v \<Rightarrow> 's \<Rightarrow> 's"
    and inv :: "'s \<Rightarrow> bool"
    and reg_ok :: "'r \<Rightarrow> bool"
  assumes hit_same: "inv s \<Longrightarrow> reg_ok r \<Longrightarrow> hit (store r v s) r w \<longleftrightarrow> w = v"
    and hit_other: "inv s \<Longrightarrow> reg_ok r \<Longrightarrow> reg_ok q \<Longrightarrow> q \<noteq> r \<Longrightarrow> hit (store r v s) q w \<longleftrightarrow> hit s q w"
    and inv_store: "inv s \<Longrightarrow> inv (store r v s)"
begin

definition stores :: "('r \<times> 'v) list \<Rightarrow> 's \<Rightarrow> 's" where
  "stores ws s = fold (\<lambda>(r, v). store r v) ws s"

lemma stores_inv: "inv s \<Longrightarrow> inv (stores ws s)"
  unfolding stores_def by (induction ws arbitrary: s) (auto simp: inv_store)

lemma stores_snoc: "stores (ws @ [(r, v)]) s = store r v (stores ws s)"
  by (simp add: stores_def)

text \<open>The last store to a register decides; without one, the initial cache does.\<close>
lemma hit_stores:
  assumes "inv s" "reg_ok q" "\<forall>(r, v) \<in> set ws. reg_ok r"
  shows "hit (stores ws s) q w \<longleftrightarrow>
    (case map_of (rev ws) q of Some v \<Rightarrow> w = v | None \<Rightarrow> hit s q w)"
  using assms(3)
proof (induction ws rule: rev_induct)
  case Nil
  show ?case by (simp add: stores_def)
next
  case (snoc x ws)
  obtain r v where x: "x = (r, v)" by (cases x)
  have i: "inv (stores ws s)" using assms(1) by (rule stores_inv)
  show ?case
    using snoc i assms(2) by (cases "q = r") (auto simp: x stores_snoc hit_same hit_other)
qed

lemma hit_unique: "inv s \<Longrightarrow> reg_ok r \<Longrightarrow> hit (store r v s) r w \<Longrightarrow> hit (store r v s) r x \<Longrightarrow> w = x"
  by (simp add: hit_same)

end

section \<open>The XF cache\<close>

definition xf_valid :: "'a GXRegisterState_scheme \<Rightarrow> u32 \<Rightarrow> bool" where
  "xf_valid s reg = bit (xfRegCacheValid s ! (unat reg div 64)) (unat reg mod 64)"

lemma unat_drop_bit_6: "unat (drop_bit 6 (r :: u32)) = unat r div 64"
proof -
  have "take_bit 32 (unat r) = unat r"
    using unsigned_less[of r] by (intro take_bit_nat_eq_self) simp
  thus ?thesis by (simp only: unsigned_drop_bit_eq) (simp add: drop_bit_eq_div)
qed

lemma unat_and_63: "unat ((r :: u32) AND 63) = unat r mod 64"
proof -
  have "r AND 63 = take_bit 6 r" by (simp add: take_bit_eq_mask mask_eq_exp_minus_1)
  hence "unat (r AND 63) = take_bit 6 (unat r)" by (simp only: unsigned_take_bit_eq)
  thus ?thesis by (simp add: take_bit_eq_mod)
qed

lemma xfRegMatches_iff:
  "xfRegMatches s reg val \<longleftrightarrow> xf_valid s reg \<and> xfRegCache s ! unat reg = val"
  by (simp add: xfRegMatches_def xf_valid_def unat_drop_bit_6 unat_and_63 and_one_eq
      bit_iff_odd_drop_bit odd_iff_mod_2_eq_one)

lemma xf_valid_storeXfReg:
  assumes "length (xfRegCacheValid s) = 2" "r < 0x60" "q < 0x60"
  shows "xf_valid (storeXfReg r v s) q \<longleftrightarrow> q = r \<or> xf_valid s q"
proof -
  have "unat r < 96" "unat q < 96" using assms(2,3) by (simp_all add: word_less_nat_alt)
  hence "unat r div 64 < 2" by simp
  moreover have "q = r \<longleftrightarrow> unat q div 64 = unat r div 64 \<and> unat q mod 64 = unat r mod 64"
    by (metis div_mult_mod_eq unsigned_word_eqI)
  ultimately show ?thesis
    using assms(1)
    by (auto simp: xf_valid_def storeXfReg_def unat_drop_bit_6 unat_and_63 upd_at_def
        nth_list_update bit_or_iff bit_push_bit_iff bit_exp_iff)
qed

lemma xf_valid_invalidateXfReg:
  assumes "length (xfRegCacheValid s) = 2" "r < 0x60" "q < 0x60"
  shows "xf_valid (invalidateXfReg r s) q \<longleftrightarrow> q \<noteq> r \<and> xf_valid s q"
proof -
  have "unat r < 96" "unat q < 96" using assms(2,3) by (simp_all add: word_less_nat_alt)
  hence "unat r div 64 < 2" by simp
  moreover have "q = r \<longleftrightarrow> unat q div 64 = unat r div 64 \<and> unat q mod 64 = unat r mod 64"
    by (metis div_mult_mod_eq unsigned_word_eqI)
  ultimately show ?thesis
    using assms(1)
    by (auto simp: xf_valid_def invalidateXfReg_def unat_drop_bit_6 unat_and_63 upd_at_def
        nth_list_update bit_and_iff bit_not_iff bit_push_bit_iff bit_exp_iff)
qed

lemma xfRegCache_invalidateXfReg [simp]: "xfRegCache (invalidateXfReg r s) = xfRegCache s"
  by (simp add: invalidateXfReg_def)

lemma xfRegMatches_invalidateXfReg:
  assumes "length (xfRegCacheValid s) = 2" "r < 0x60" "q < 0x60"
  shows "xfRegMatches (invalidateXfReg r s) q v \<longleftrightarrow> q \<noteq> r \<and> xfRegMatches s q v"
  using assms by (auto simp: xfRegMatches_iff xf_valid_invalidateXfReg xfRegCache_invalidateXfReg)

definition xf_cache_shape :: "'a GXRegisterState_scheme \<Rightarrow> bool" where
  "xf_cache_shape s \<longleftrightarrow> length (xfRegCache s) = 96 \<and> length (xfRegCacheValid s) = 2"

lemma xf_cache_shape_wf: "wf_shape g s \<Longrightarrow> xf_cache_shape s"
  by (simp add: wf_shape_def xf_cache_shape_def)

interpretation xfc: write_cache
  "\<lambda>s :: 'b gx_ctx. xfRegMatches s" storeXfReg xf_cache_shape "\<lambda>r. r < 0x60"
proof (standard, goal_cases)
  case (1 s r v w)
  hence "unat r < 96" by (simp add: word_less_nat_alt)
  thus ?case using 1
    by (auto simp: xfRegMatches_iff xf_valid_storeXfReg xf_cache_shape_def)
       (auto simp: storeXfReg_def)
next
  case (2 s r q v w)
  hence "unat q \<noteq> unat r" using unsigned_word_eqI by blast
  thus ?case using 2
    by (auto simp: xfRegMatches_iff xf_valid_storeXfReg xf_cache_shape_def)
       (auto simp: storeXfReg_def)
next
  case (3 s r v)
  thus ?case by (simp add: xf_cache_shape_def storeXfReg_def)
qed

section \<open>The pipeline generation\<close>

lemma mark_pipeline_state_dirty_simps [simp]:
  "stateDirty (mark_pipeline_state_dirty s)"
  "pipelineStateGeneration (mark_pipeline_state_dirty s) = gx_epoch s + 1"
  "gx_epoch (mark_pipeline_state_dirty s) = gx_epoch s + 1"
  by (simp_all add: mark_pipeline_state_dirty_def next_gx_state_epoch_def Let_def)

lemma mark_pipeline_state_dirty_alt:
  "mark_pipeline_state_dirty s =
     s\<lparr>stateDirty := True, pipelineStateGeneration := gx_epoch s + 1, gx_epoch := gx_epoch s + 1\<rparr>"
  by (simp add: mark_pipeline_state_dirty_def next_gx_state_epoch_def Let_def)

lemma mark_pipeline_wf [wf_simps]:
  "wf_shape g (mark_pipeline_state_dirty s) = wf_shape g s"
  "wf_ctx g (mark_pipeline_state_dirty s) = wf_ctx g s"
  "wf_tev g (mark_pipeline_state_dirty s) = wf_tev g s"
  by (simp_all add: mark_pipeline_state_dirty_alt wf_shape_def wf_ctx_def wf_tev_def)

lemma wf_invalidateXfReg [wf_simps]:
  "wf_shape g s \<Longrightarrow> wf_shape g (invalidateXfReg r s)"
  "wf_tev g (invalidateXfReg r s) = wf_tev g s"
  by (simp_all add: invalidateXfReg_def wf_shape_def wf_tev_def)

lemma wf_storeXfReg [wf_simps]:
  "wf_shape g s \<Longrightarrow> wf_shape g (storeXfReg r v s)"
  "wf_tev g (storeXfReg r v s) = wf_tev g s"
  by (simp_all add: storeXfReg_def wf_shape_def wf_tev_def)

end
