(* ===== verification/GxBackend.thy ===== *)
theory GxBackend
  imports RegCache
begin

text \<open>
  The callbacks the decoder requires from a renderer (gx/register_backend.hpp and the two
  declarations at the end of gx/register_state.hpp), as a record of functions that the decoder
  definitions take as an argument, and the contract the decoder relies on: a callback touches
  only the resolved viewport and scissor, the dirty flag and the renderer's own state, and a draw
  moves the read position forwards within the buffer.
  A draw may also end with an exception (\<open>Inl\<close> its message).
\<close>

record 'b gx_backend =
  be_set_logical_viewport :: "Viewport \<Rightarrow> 'b gx_ctx \<Rightarrow> 'b gx_ctx"
  be_set_logical_scissor :: "ClipRect \<Rightarrow> 'b gx_ctx \<Rightarrow> 'b gx_ctx"
  be_set_render_viewport :: "Viewport \<Rightarrow> 'b gx_ctx \<Rightarrow> 'b gx_ctx"
  be_set_render_scissor :: "ClipRect \<Rightarrow> 'b gx_ctx \<Rightarrow> 'b gx_ctx"
  be_evict_texture_object :: "u32 \<Rightarrow> 'b gx_ctx \<Rightarrow> 'b gx_ctx"
  be_evict_tlut_object :: "u32 \<Rightarrow> 'b gx_ctx \<Rightarrow> 'b gx_ctx"
  be_evict_copy_texture :: "u64 \<Rightarrow> 'b gx_ctx \<Rightarrow> 'b gx_ctx"
  be_invalidate_static_texture_cache :: "'b gx_ctx \<Rightarrow> 'b gx_ctx"
  be_push_debug_group :: "u8 list \<Rightarrow> 'b gx_ctx \<Rightarrow> 'b gx_ctx"
  be_pop_debug_group :: "'b gx_ctx \<Rightarrow> 'b gx_ctx"
  be_insert_debug_marker :: "u8 list \<Rightarrow> 'b gx_ctx \<Rightarrow> 'b gx_ctx"
  be_handle_draw :: "u8 \<Rightarrow> bytes \<Rightarrow> u32 \<Rightarrow> u32 \<Rightarrow> bool \<Rightarrow> 'b gx_ctx \<Rightarrow>
    ((string + bool) \<times> u32 \<times> 'b gx_ctx) option"

text \<open>\<open>t\<close> differs from \<open>s\<close> at most in the resolved viewport state, the bound texture objects and
  the renderer.\<close>
definition render_frame :: "'b gx_ctx \<Rightarrow> 'b gx_ctx \<Rightarrow> bool" where
  "render_frame s t \<longleftrightarrow>
     t = s\<lparr>logicalViewport := logicalViewport t, renderViewport := renderViewport t,
           logicalScissor := logicalScissor t, renderScissor := renderScissor t,
           loadedTextures := loadedTextures t, loadedTluts := loadedTluts t,
           stateDirty := stateDirty t, backend := backend t\<rparr> \<and>
     length (loadedTextures t) = length (loadedTextures s) \<and>
     length (loadedTluts t) = length (loadedTluts s)"

lemma render_frame_refl [simp]: "render_frame s s"
  by (simp add: render_frame_def)

lemma render_frame_eq:
  assumes "render_frame s t"
  shows "t = s\<lparr>logicalViewport := logicalViewport t, renderViewport := renderViewport t,
           logicalScissor := logicalScissor t, renderScissor := renderScissor t,
           loadedTextures := loadedTextures t, loadedTluts := loadedTluts t,
           stateDirty := stateDirty t, backend := backend t\<rparr>"
    "length (loadedTextures t) = length (loadedTextures s)"
    "length (loadedTluts t) = length (loadedTluts s)"
  using assms by (auto simp only: render_frame_def)

lemma render_frame_trans:
  assumes "render_frame s t" "render_frame t u"
  shows "render_frame s u"
proof -
  have "u = s\<lparr>logicalViewport := logicalViewport u, renderViewport := renderViewport u,
           logicalScissor := logicalScissor u, renderScissor := renderScissor u,
           loadedTextures := loadedTextures u, loadedTluts := loadedTluts u,
           stateDirty := stateDirty u, backend := backend u\<rparr>"
    using render_frame_eq(1)[OF assms(1)] render_frame_eq(1)[OF assms(2)]
    by (cases s, cases t, cases u) simp
  thus ?thesis
    using render_frame_eq(2,3)[OF assms(1)] render_frame_eq(2,3)[OF assms(2)]
    by (simp add: render_frame_def)
qed

lemma render_frame_wf:
  assumes "render_frame s t"
  shows "wf_shape g t = wf_shape g s" "wf_ctx g t = wf_ctx g s" "wf_tev g t = wf_tev g s"
proof -
  note e = render_frame_eq(1)[OF assms] and l = render_frame_eq(2,3)[OF assms]
  show w: "wf_shape g t = wf_shape g s"
    using l by (subst e) (simp add: wf_shape_def)
  have "cpRegisterCache t = cpRegisterCache s" "cpRegisterCacheValid t = cpRegisterCacheValid s"
    by (subst e, simp)+
  thus "wf_ctx g t = wf_ctx g s" using w by (simp add: wf_ctx_def)
  show "wf_tev g t = wf_tev g s" by (subst e) (simp add: wf_tev_def)
qed

lemma render_frame_fields:
  assumes "render_frame s t"
  shows "bpRegCache t = bpRegCache s" "xfRegCache t = xfRegCache s"
    "xfRegCacheValid t = xfRegCacheValid s" "cpRegisterCache t = cpRegisterCache s"
    "cpRegisterCacheValid t = cpRegisterCacheValid s" "tevStages t = tevStages s"
    "numTevStages t = numTevStages s" "gx_epoch t = gx_epoch s" "tcgs t = tcgs s"
    "pipelineStateGeneration t = pipelineStateGeneration s" "arrays t = arrays s"
    "currentPnMtx t = currentPnMtx s" "numChans t = numChans s" "numTexGens t = numTexGens s"
  by (subst render_frame_eq(1)[OF assms], simp)+

locale gx_backend_contract =
  fixes B :: "'b gx_backend" and g :: gx_enums
  assumes logical_viewport: "render_frame s (be_set_logical_viewport B v s)"
    and logical_scissor: "render_frame s (be_set_logical_scissor B r s)"
    and render_viewport: "render_frame s (be_set_render_viewport B v s)"
    and render_scissor: "render_frame s (be_set_render_scissor B r s)"
    and evict_texture: "render_frame s (be_evict_texture_object B i s)"
    and evict_tlut: "render_frame s (be_evict_tlut_object B i s)"
    and evict_copy: "render_frame s (be_evict_copy_texture B a s)"
    and invalidate_static: "render_frame s (be_invalidate_static_texture_cache B s)"
    and push_group: "render_frame s (be_push_debug_group B l s)"
    and pop_group: "render_frame s (be_pop_debug_group B s)"
    and insert_marker: "render_frame s (be_insert_debug_marker B l s)"
    and draw_reads: "readable b (unat n) \<Longrightarrow> p \<le> n \<Longrightarrow> wf_ctx g s \<Longrightarrow> be_handle_draw B c b p n be s \<noteq> None"
    and draw_pos: "be_handle_draw B c b p n be s = Some (ok, q, t) \<Longrightarrow> p \<le> n \<Longrightarrow> p \<le> q \<and> q \<le> n"
    and draw_frame: "be_handle_draw B c b p n be s = Some (ok, q, t) \<Longrightarrow> render_frame s t"
begin

lemmas frames = logical_viewport logical_scissor render_viewport render_scissor evict_texture
  evict_tlut evict_copy invalidate_static push_group pop_group insert_marker

lemma callbacks_wf_ctx:
  "wf_ctx g (be_set_logical_viewport B v s) = wf_ctx g s"
  "wf_ctx g (be_set_logical_scissor B r s) = wf_ctx g s"
  "wf_ctx g (be_set_render_viewport B v s) = wf_ctx g s"
  "wf_ctx g (be_set_render_scissor B r s) = wf_ctx g s"
  "wf_ctx g (be_evict_texture_object B i s) = wf_ctx g s"
  "wf_ctx g (be_evict_tlut_object B i s) = wf_ctx g s"
  "wf_ctx g (be_evict_copy_texture B a s) = wf_ctx g s"
  "wf_ctx g (be_invalidate_static_texture_cache B s) = wf_ctx g s"
  "wf_ctx g (be_push_debug_group B l s) = wf_ctx g s"
  "wf_ctx g (be_pop_debug_group B s) = wf_ctx g s"
  "wf_ctx g (be_insert_debug_marker B l s) = wf_ctx g s"
  by (rule render_frame_wf frames)+

lemma callbacks_wf_tev:
  "wf_tev g (be_set_logical_viewport B v s) = wf_tev g s"
  "wf_tev g (be_set_logical_scissor B r s) = wf_tev g s"
  "wf_tev g (be_set_render_viewport B v s) = wf_tev g s"
  "wf_tev g (be_set_render_scissor B r s) = wf_tev g s"
  "wf_tev g (be_evict_texture_object B i s) = wf_tev g s"
  "wf_tev g (be_evict_tlut_object B i s) = wf_tev g s"
  "wf_tev g (be_evict_copy_texture B a s) = wf_tev g s"
  "wf_tev g (be_invalidate_static_texture_cache B s) = wf_tev g s"
  "wf_tev g (be_push_debug_group B l s) = wf_tev g s"
  "wf_tev g (be_pop_debug_group B s) = wf_tev g s"
  "wf_tev g (be_insert_debug_marker B l s) = wf_tev g s"
  by (rule render_frame_wf frames)+

end

end
