(* ===== verification/BpDecoder.thy ===== *)
theory BpDecoder
  imports GxBackend
begin

text \<open>
  The BP half of gx/register_decoder.cpp: bit-field extraction, the pixel-format and
  texture-register tables, and \<open>handle_bp\<close>, the decoder of the rasteriser and pixel-engine
  registers, with one definition per register group in the order of the code.  \<open>handle_bp\<close>
  applies the one-shot write mask of register 0xFE, skips a write that repeats the cached value,
  and dispatches on the register number.
\<close>

section \<open>Helpers\<close>

definition bp_get :: "u32 \<Rightarrow> nat \<Rightarrow> nat \<Rightarrow> u32" where
  "bp_get reg n shift = drop_bit shift reg AND (push_bit n 1 - 1)"

definition bp_flag :: "u32 \<Rightarrow> nat \<Rightarrow> bool" where
  "bp_flag reg shift = (bp_get reg 1 shift \<noteq> 0)"

definition decode_pixel_fmt :: "u32 \<Rightarrow> u32 \<Rightarrow> GXPixelFmt" where
  "decode_pixel_fmt peCtrl cmode1 =
     (let f = bp_get peCtrl 3 0; sub = bp_get cmode1 2 9 in
      if f = 0 then PF_RGB8_Z24
      else if f = 1 then PF_RGBA6_Z24
      else if f = 2 then PF_RGB565_Z16
      else if f = 3 then PF_Z24
      else if f = 4 then
        (if sub = 0 then PF_Y8 else if sub = 1 then PF_U8 else if sub = 2 then PF_V8 else PF_Y8)
      else if f = 5 then PF_YUV420
      else PF_RGB8_Z24)"

datatype TexBpKind = Mode0 | Mode1 | Image0 | Image1 | Image2 | Image3 | Tlut

definition mode0Ids :: "u32 list" where "mode0Ids = [0x80, 0x81, 0x82, 0x83, 0xA0, 0xA1, 0xA2, 0xA3]"
definition mode1Ids :: "u32 list" where "mode1Ids = [0x84, 0x85, 0x86, 0x87, 0xA4, 0xA5, 0xA6, 0xA7]"
definition image0Ids :: "u32 list" where "image0Ids = [0x88, 0x89, 0x8A, 0x8B, 0xA8, 0xA9, 0xAA, 0xAB]"
definition image1Ids :: "u32 list" where "image1Ids = [0x8C, 0x8D, 0x8E, 0x8F, 0xAC, 0xAD, 0xAE, 0xAF]"
definition image2Ids :: "u32 list" where "image2Ids = [0x90, 0x91, 0x92, 0x93, 0xB0, 0xB1, 0xB2, 0xB3]"
definition image3Ids :: "u32 list" where "image3Ids = [0x94, 0x95, 0x96, 0x97, 0xB4, 0xB5, 0xB6, 0xB7]"
definition tlutIds :: "u32 list" where "tlutIds = [0x98, 0x99, 0x9A, 0x9B, 0xB8, 0xB9, 0xBA, 0xBB]"

fun tex_bp_scan :: "u32 \<Rightarrow> nat list \<Rightarrow> (nat \<times> TexBpKind) option" where
  "tex_bp_scan r [] = None"
| "tex_bp_scan r (i # is) =
     (if r = mode0Ids ! i then Some (i, Mode0)
      else if r = mode1Ids ! i then Some (i, Mode1)
      else if r = image0Ids ! i then Some (i, Image0)
      else if r = image1Ids ! i then Some (i, Image1)
      else if r = image2Ids ! i then Some (i, Image2)
      else if r = image3Ids ! i then Some (i, Image3)
      else if r = tlutIds ! i then Some (i, Tlut)
      else tex_bp_scan r is)"

definition decode_tex_bp_reg :: "u32 \<Rightarrow> (nat \<times> TexBpKind) option" where
  "decode_tex_bp_reg regId = tex_bp_scan regId [0..<MaxTextures]"

definition f32_255 :: f32 where "f32_255 = f32_of_int 255"

definition byte_unorm :: "u32 \<Rightarrow> f32" where
  "byte_unorm b = f32_div (f32_of_u32 b) f32_255"

definition unpack_color :: "u32 \<Rightarrow> vec4" where
  "unpack_color packed = \<lparr>
     v0 = byte_unorm (drop_bit 24 packed AND 0xFF), v1 = byte_unorm (drop_bit 16 packed AND 0xFF),
     v2 = byte_unorm (drop_bit 8 packed AND 0xFF), v3 = byte_unorm (packed AND 0xFF)\<rparr>"

text \<open>Sign extension of an 11-bit field, \<open>if (r & 0x400) r |= ~0x7FF\<close>.\<close>
definition sext11 :: "u32 \<Rightarrow> s32" where
  "sext11 r = (if r AND 0x400 \<noteq> 0 then r OR NOT 0x7FF else r)"

definition refresh_copy_filter_flags :: "'b gx_ctx \<Rightarrow> 'b gx_ctx" where
  "refresh_copy_filter_flags s = s\<lparr>
     copyFilterAa := list_ex (\<lambda>p. p ! 0 \<noteq> 6 \<or> p ! 1 \<noteq> 6) (copyFilterSamplePattern s),
     copyFilterVf := list_ex (\<lambda>i. copyFilterVFilter s ! i \<noteq> [0, 0, 21, 22, 21, 0, 0] ! i) [0..<7]\<rparr>"

section \<open>TEV combiner stages\<close>

text \<open>The operation half of a combiner register; bias 3 selects a compare operation.\<close>
definition decode_tev_op :: "gx_enums \<Rightarrow> u32 \<Rightarrow> TevOp" where
  "decode_tev_op g value =
     (let clmp = bp_flag value 19; out = bp_get value 2 22 in
      if bp_get value 2 16 = 3 then
        let hwOp = bp_get value 1 18 OR push_bit 1 (bp_get value 2 20) in
        \<lparr>op_op = hwOp + 8, op_bias = GX_TB_ZERO g, op_scale = GX_CS_SCALE_1 g, op_outReg = out,
         op_clamp = clmp\<rparr>
      else
        \<lparr>op_op = bp_get value 1 18, op_bias = bp_get value 2 16, op_scale = bp_get value 2 20,
         op_outReg = out, op_clamp = clmp\<rparr>)"

definition tev_color_stage :: "gx_enums \<Rightarrow> u32 \<Rightarrow> TevStage \<Rightarrow> TevStage" where
  "tev_color_stage g value t = t\<lparr>
     colorPass := \<lparr>pass_a = bp_get value 4 12, pass_b = bp_get value 4 8, pass_c = bp_get value 4 4,
                   pass_d = bp_get value 4 0\<rparr>,
     colorOp := decode_tev_op g value\<rparr>"

definition bp_tev_color :: "gx_enums \<Rightarrow> u32 \<Rightarrow> u32 \<Rightarrow> 'b gx_ctx \<Rightarrow> 'b gx_ctx" where
  "bp_tev_color g regId value s =
     (let stage = unat ((regId - 0xC0) div 2) in
      if stage < MaxTevStages then
        mark_pipeline_state_dirty (s\<lparr>tevStages := upd_at (tev_color_stage g value) stage (tevStages s)\<rparr>)
      else s)"

definition tev_alpha_stage :: "gx_enums \<Rightarrow> u32 \<Rightarrow> TevStage \<Rightarrow> TevStage" where
  "tev_alpha_stage g value t = t\<lparr>
     tevSwapRas := bp_get value 2 0, tevSwapTex := bp_get value 2 2,
     alphaPass := \<lparr>pass_a = bp_get value 3 13, pass_b = bp_get value 3 10, pass_c = bp_get value 3 7,
                   pass_d = bp_get value 3 4\<rparr>,
     alphaOp := decode_tev_op g value\<rparr>"

definition bp_tev_alpha :: "gx_enums \<Rightarrow> u32 \<Rightarrow> u32 \<Rightarrow> 'b gx_ctx \<Rightarrow> 'b gx_ctx" where
  "bp_tev_alpha g regId value s =
     (let stage = unat ((regId - 0xC1) div 2) in
      if stage < MaxTevStages then
        mark_pipeline_state_dirty (s\<lparr>tevStages := upd_at (tev_alpha_stage g value) stage (tevStages s)\<rparr>)
      else s)"

section \<open>genMode, copy filter, indirect stages\<close>

definition bp_genmode :: "gx_enums \<Rightarrow> u32 \<Rightarrow> 'b gx_ctx \<Rightarrow> 'b gx_ctx" where
  "bp_genmode g value s =
     (let s1 = s\<lparr>numTexGens := ucast (bp_get value 4 0), numChans := ucast (bp_get value 3 4)\<rparr>;
          s2 = invalidateXfReg 0x09 (invalidateXfReg 0x3F s1);
          hwCull = bp_get value 2 14;
          s3 = s2\<lparr>numTevStages := ucast (bp_get value 4 10 + 1),
                  cullMode := (if hwCull = GX_CULL_FRONT g then GX_CULL_BACK g
                               else if hwCull = GX_CULL_BACK g then GX_CULL_FRONT g
                               else hwCull),
                  numIndStages := ucast (bp_get value 3 16)\<rparr>
      in mark_pipeline_state_dirty s3)"

definition bp_sample_pattern :: "u32 \<Rightarrow> u32 \<Rightarrow> 'b gx_ctx \<Rightarrow> 'b gx_ctx" where
  "bp_sample_pattern regId value s =
     (let first = unat (regId - 0x01) * 6 in
      refresh_copy_filter_flags
        (s\<lparr>copyFilterSamplePattern :=
             fold (\<lambda>i ps. upd_at (\<lambda>p. p[(first + i) mod 2 := ucast (bp_get value 4 (i * 4))])
                     ((first + i) div 2) ps) [0..<6] (copyFilterSamplePattern s)\<rparr>))"

definition bp_ind_mask :: "u32 \<Rightarrow> 'b gx_ctx \<Rightarrow> 'b gx_ctx" where
  "bp_ind_mask value s = s\<lparr>indTexMask := ucast (value AND 0xFF), stateDirty := True\<rparr>"

definition tev_ind_stage :: "u32 \<Rightarrow> TevStage \<Rightarrow> TevStage" where
  "tev_ind_stage value t = t\<lparr>
     indTexStage := bp_get value 2 0, indTexFormat := bp_get value 2 2,
     indTexBiasSel := bp_get value 3 4, indTexAlphaSel := bp_get value 2 7,
     indTexMtxId := bp_get value 4 9, indTexWrapS := bp_get value 3 13,
     indTexWrapT := bp_get value 3 16, indTexUseOrigLOD := bp_flag value 19,
     indTexAddPrev := bp_flag value 20\<rparr>"

definition bp_tev_ind :: "u32 \<Rightarrow> u32 \<Rightarrow> 'b gx_ctx \<Rightarrow> 'b gx_ctx" where
  "bp_tev_ind regId value s =
     (let stage = unat (regId - 0x10) in
      if stage < MaxTevStages then
        mark_pipeline_state_dirty (s\<lparr>tevStages := upd_at (tev_ind_stage value) stage (tevStages s)\<rparr>)
      else s)"

definition bp_scissor :: "'b gx_backend \<Rightarrow> 'b gx_ctx \<Rightarrow> 'b gx_ctx" where
  "bp_scissor B s =
     (let scis0 = bpRegCache s ! 0x20; scis1 = bpRegCache s ! 0x21;
          tp = bp_get scis0 11 0 - 342; lf = bp_get scis0 11 12 - 342;
          bm = bp_get scis1 11 0 - 342; rt = bp_get scis1 11 12 - 342;
          wd = smax (rt - lf + 1) 0; ht = smax (bm - tp + 1) 0
      in be_set_logical_scissor B \<lparr>cr_x = lf, cr_y = tp, cr_width = wd, cr_height = ht\<rparr> s)"

definition bp_line_point :: "u32 \<Rightarrow> 'b gx_ctx \<Rightarrow> 'b gx_ctx" where
  "bp_line_point value s = s\<lparr>
     lineWidth := ucast (bp_get value 8 0), pointSize := ucast (bp_get value 8 8),
     lineTexOffset := bp_get value 3 16, pointTexOffset := bp_get value 3 19,
     lineHalfAspect := bp_flag value 22, stateDirty := True\<rparr>"

definition ind_scale :: "u32 \<Rightarrow> nat \<Rightarrow> IndStage \<Rightarrow> IndStage" where
  "ind_scale value shift i = i\<lparr>is_scaleS := bp_get value 4 shift, is_scaleT := bp_get value 4 (shift + 4)\<rparr>"

definition bp_ind_scale0 :: "u32 \<Rightarrow> 'b gx_ctx \<Rightarrow> 'b gx_ctx" where
  "bp_ind_scale0 value s = mark_pipeline_state_dirty
     (s\<lparr>indStages := upd_at (ind_scale value 8) 1 (upd_at (ind_scale value 0) 0 (indStages s))\<rparr>)"

definition bp_ind_scale1 :: "u32 \<Rightarrow> 'b gx_ctx \<Rightarrow> 'b gx_ctx" where
  "bp_ind_scale1 value s = mark_pipeline_state_dirty
     (s\<lparr>indStages := upd_at (ind_scale value 8) 3 (upd_at (ind_scale value 0) 2 (indStages s))\<rparr>)"

definition bp_ind_ref :: "u32 \<Rightarrow> 'b gx_ctx \<Rightarrow> 'b gx_ctx" where
  "bp_ind_ref value s = mark_pipeline_state_dirty
     (s\<lparr>indStages := fold (\<lambda>i. upd_at (\<lambda>x. x\<lparr>is_texMapId := bp_get value 3 (i * 6),
                                         is_texCoordId := bp_get value 3 (i * 6 + 3)\<rparr>) i)
                      [0..<MaxIndStages] (indStages s)\<rparr>)"

section \<open>TEV order\<close>

definition r2c :: "gx_enums \<Rightarrow> u32 list" where
  "r2c g = [GX_COLOR0A0 g, GX_COLOR1A1 g, GX_COLOR0A0 g, GX_COLOR1A1 g, GX_COLOR0A0 g,
            GX_ALPHA_BUMP, GX_ALPHA_BUMPN, GX_COLOR_ZERO]"

text \<open>Half of a reference register: the stage whose fields start at bit \<open>sh\<close>.\<close>
definition tev_order_stage :: "gx_enums \<Rightarrow> u32 \<Rightarrow> nat \<Rightarrow> TevStage \<Rightarrow> TevStage" where
  "tev_order_stage g value sh t =
     (let chanHw = bp_get value 3 (sh + 7) in t\<lparr>
        texMapId := (if bp_get value 1 (sh + 6) = 0 then GX_TEXMAP_NULL g else bp_get value 3 sh),
        texCoordId := bp_get value 3 (sh + 3),
        channelId := (if chanHw < 8 then r2c g ! unat chanHw else GX_COLOR_NULL g)\<rparr>)"

definition bp_tev_order :: "gx_enums \<Rightarrow> u32 \<Rightarrow> u32 \<Rightarrow> 'b gx_ctx \<Rightarrow> 'b gx_ctx" where
  "bp_tev_order g regId value s =
     (let idx = unat (regId - 0x28); stage0 = idx * 2; stage1 = idx * 2 + 1;
          t0 = (if stage0 < MaxTevStages then upd_at (tev_order_stage g value 0) stage0 (tevStages s)
                else tevStages s);
          t1 = (if stage1 < MaxTevStages then upd_at (tev_order_stage g value 12) stage1 t0 else t0)
      in mark_pipeline_state_dirty (s\<lparr>tevStages := t1\<rparr>))"

section \<open>Pixel engine\<close>

definition bp_zmode :: "u32 \<Rightarrow> 'b gx_ctx \<Rightarrow> 'b gx_ctx" where
  "bp_zmode value s = mark_pipeline_state_dirty
     (s\<lparr>depthCompare := bp_flag value 0, depthFunc := bp_get value 3 1, depthUpdate := bp_flag value 4\<rparr>)"

definition bp_cmode0 :: "u32 \<Rightarrow> 'b gx_ctx \<Rightarrow> 'b gx_ctx" where
  "bp_cmode0 value s =
     (let blendEn = bp_flag value 0; logicEn = bp_flag value 1; subtract = bp_flag value 11 in
      mark_pipeline_state_dirty
        (s\<lparr>colorUpdate := bp_flag value 3, alphaUpdate := bp_flag value 4,
           blendFacDst := bp_get value 3 5, blendFacSrc := bp_get value 3 8,
           blendOp := bp_get value 4 12,
           blendMode := (if subtract then BM_SUBTRACT else if blendEn then BM_BLEND
                         else if logicEn then BM_LOGIC else BM_NONE)\<rparr>))"

definition bp_cmode1 :: "u32 \<Rightarrow> 'b gx_ctx \<Rightarrow> 'b gx_ctx" where
  "bp_cmode1 value s = mark_pipeline_state_dirty
     (s\<lparr>dstAlpha := (if bp_flag value 8 then bp_get value 8 0 else - 1),
        pixelFmt := decode_pixel_fmt (bpRegCache s ! 0x43) value\<rparr>)"

definition bp_pe_control :: "u32 \<Rightarrow> 'b gx_ctx \<Rightarrow> 'b gx_ctx" where
  "bp_pe_control value s = mark_pipeline_state_dirty
     (s\<lparr>pixelFmt := decode_pixel_fmt value (bpRegCache s ! 0x42), zFmt := bp_get value 3 3,
        zCompLocBeforeTex := bp_flag value 6\<rparr>)"

definition bp_field_mask :: "u32 \<Rightarrow> 'b gx_ctx \<Rightarrow> 'b gx_ctx" where
  "bp_field_mask value s = s\<lparr>fieldMask := value AND 0x3\<rparr>"

definition bp_bounding_box :: "u32 \<Rightarrow> u32 \<Rightarrow> 'b gx_ctx \<Rightarrow> 'b gx_ctx" where
  "bp_bounding_box regId value s =
     (let off = unat (regId AND 2) in
      s\<lparr>boundingBox := (boundingBox s)[off := ucast (value AND 0x3ff),
                                        off + 1 := ucast (drop_bit 10 value AND 0x3ff)]\<rparr>)"

definition bp_rev_bits :: "u32 \<Rightarrow> 'b gx_ctx \<Rightarrow> 'b gx_ctx" where
  "bp_rev_bits value s = s\<lparr>revBits := value AND 0x00FFFFFF\<rparr>"

definition bp_scissor_offset :: "'b gx_backend \<Rightarrow> u32 \<Rightarrow> 'b gx_ctx \<Rightarrow> 'b gx_ctx" where
  "bp_scissor_offset B value s =
     (let s1 = s\<lparr>scissorOffsetX := push_bit 1 (value AND 0x3ff) - 0x156,
                 scissorOffsetY := drop_bit 9 (value AND 0xffc00) - 0x156\<rparr>
      in be_set_logical_scissor B (logicalScissor s1) s1)"

definition bp_load_tlut :: "u32 \<Rightarrow> 'b gx_ctx \<Rightarrow> 'b gx_ctx" where
  "bp_load_tlut value s =
     (let idx = unat (bp_get value 10 0) in
      if idx < MaxTluts then
        s\<lparr>loadedTluts := upd_at (\<lambda>t. t\<lparr>tl_loadTlut0 := bpRegCache s ! 0x64,
                                     tl_numEntries := ucast (bp_get value 10 10 + 1)\<rparr>)
                          idx (loadedTluts s)\<rparr>
      else s)"

definition bp_field_mode :: "u32 \<Rightarrow> 'b gx_ctx \<Rightarrow> 'b gx_ctx" where
  "bp_field_mode value s = s\<lparr>fieldMode := value AND 0x1\<rparr>"

definition bp_alpha_compare :: "u32 \<Rightarrow> 'b gx_ctx \<Rightarrow> 'b gx_ctx" where
  "bp_alpha_compare value s = mark_pipeline_state_dirty
     (s\<lparr>alphaCompare := \<lparr>ac_comp0 = bp_get value 3 16, ac_ref0 = bp_get value 8 0,
        ac_op = bp_get value 2 22, ac_comp1 = bp_get value 3 19, ac_ref1 = bp_get value 8 8\<rparr>\<rparr>)"

section \<open>K selects and swap tables\<close>

definition ksel_swap :: "u32 \<Rightarrow> u32 \<Rightarrow> TevSwap \<Rightarrow> TevSwap" where
  "ksel_swap kselIdx value w =
     (if kselIdx AND 1 \<noteq> 0 then w\<lparr>sw_blue := bp_get value 2 0, sw_alpha := bp_get value 2 2\<rparr>
      else w\<lparr>sw_red := bp_get value 2 0, sw_green := bp_get value 2 2\<rparr>)"

definition bp_ksel :: "u32 \<Rightarrow> u32 \<Rightarrow> 'b gx_ctx \<Rightarrow> 'b gx_ctx" where
  "bp_ksel regId value s =
     (let kselIdx = regId - 0xF6; k = unat kselIdx;
          s1 = (if k < MaxTevSwap * 2 then
                  s\<lparr>tevSwapTable := upd_at (ksel_swap kselIdx value) (k div 2) (tevSwapTable s)\<rparr>
                else s);
          stage0 = k * 2; stage1 = k * 2 + 1;
          s2 = (if stage0 < MaxTevStages then
                  s1\<lparr>tevStages := upd_at (\<lambda>t. t\<lparr>kcSel := bp_get value 5 4, kaSel := bp_get value 5 9\<rparr>)
                                   stage0 (tevStages s1)\<rparr>
                else s1);
          s3 = (if stage1 < MaxTevStages then
                  s2\<lparr>tevStages := upd_at (\<lambda>t. t\<lparr>kcSel := bp_get value 5 14, kaSel := bp_get value 5 19\<rparr>)
                                   stage1 (tevStages s2)\<rparr>
                else s2)
      in mark_pipeline_state_dirty s3)"

section \<open>Fog\<close>

text \<open>The partial float of the A and C parameters: sign, exponent and the top of the fraction.\<close>
definition fog_partial_float :: "u32 \<Rightarrow> f32" where
  "fog_partial_float v =
     push_bit 31 (bp_get v 1 19) OR push_bit 23 (bp_get v 8 11) OR push_bit 12 (bp_get v 11 0)"

definition fog_b_value :: "u32 \<Rightarrow> u32 \<Rightarrow> f32" where
  "fog_b_value mag b_s = f32_ldexp (f32_div (f32_of_u32 mag) (f32_of_int 8388638)) (sint b_s - 1)"

definition bp_fog0 :: "u32 \<Rightarrow> 'b gx_ctx \<Rightarrow> 'b gx_ctx" where
  "bp_fog0 value s =
     (let b_s = fog2Raw (fog s) AND 0x1F; r = fog_partial_float value in
      s\<lparr>fog := (fog s)\<lparr>fog0Raw := value, fog_aRaw := r, fog_a := f32_ldexp r (sint b_s)\<rparr>,
        stateDirty := True\<rparr>)"

definition bp_fog1 :: "u32 \<Rightarrow> 'b gx_ctx \<Rightarrow> 'b gx_ctx" where
  "bp_fog1 value s =
     (let b_s = fog2Raw (fog s) AND 0x1F; mag = bp_get value 24 0 in
      s\<lparr>fog := (fog s)\<lparr>fog1Raw := value, bMagnitude := mag, fog_b := fog_b_value mag b_s\<rparr>,
        stateDirty := True\<rparr>)"

definition bp_fog2 :: "u32 \<Rightarrow> 'b gx_ctx \<Rightarrow> 'b gx_ctx" where
  "bp_fog2 value s =
     (let b_s = bp_get value 5 0; r = fog_partial_float (fog0Raw (fog s));
          mag = bp_get (fog1Raw (fog s)) 24 0 in
      s\<lparr>fog := (fog s)\<lparr>fog2Raw := value, bShift := b_s, fog_aRaw := r,
          fog_a := f32_ldexp r (sint b_s), bMagnitude := mag, fog_b := fog_b_value mag b_s\<rparr>,
        stateDirty := True\<rparr>)"

definition bp_fog3 :: "u32 \<Rightarrow> 'b gx_ctx \<Rightarrow> 'b gx_ctx" where
  "bp_fog3 value s =
     (let fogFunc = bp_get value 3 21; fogProj = bp_get value 1 20 in
      mark_pipeline_state_dirty
        (s\<lparr>fog := (fog s)\<lparr>fog_type := fogFunc OR push_bit 3 fogProj,
                           fog_c := fog_partial_float value\<rparr>\<rparr>))"

definition bp_fog_color :: "u32 \<Rightarrow> 'b gx_ctx \<Rightarrow> 'b gx_ctx" where
  "bp_fog_color value s = s\<lparr>
     fog := (fog s)\<lparr>fog_color := \<lparr>v0 = byte_unorm (bp_get value 8 16), v1 = byte_unorm (bp_get value 8 8),
                                  v2 = byte_unorm (bp_get value 8 0), v3 = f32_1\<rparr>\<rparr>,
     stateDirty := True\<rparr>"

section \<open>TEV and K colours\<close>

definition kcolor_update :: "bool \<Rightarrow> u32 \<Rightarrow> vec4 \<Rightarrow> vec4" where
  "kcolor_update isRA value c =
     (if isRA then c\<lparr>v0 := byte_unorm (bp_get value 8 0), v3 := byte_unorm (bp_get value 8 12)\<rparr>
      else c\<lparr>v2 := byte_unorm (bp_get value 8 0), v1 := byte_unorm (bp_get value 8 12)\<rparr>)"

definition s11_unorm :: "u32 \<Rightarrow> f32" where
  "s11_unorm field = f32_div (f32_of_s32 (sext11 field)) f32_255"

definition tevreg_update :: "bool \<Rightarrow> u32 \<Rightarrow> vec4 \<Rightarrow> vec4" where
  "tevreg_update isRA value c =
     (if isRA then c\<lparr>v0 := s11_unorm (bp_get value 11 0), v3 := s11_unorm (bp_get value 11 12)\<rparr>
      else c\<lparr>v2 := s11_unorm (bp_get value 11 0), v1 := s11_unorm (bp_get value 11 12)\<rparr>)"

definition bp_tev_registers :: "u32 \<Rightarrow> u32 \<Rightarrow> 'b gx_ctx \<Rightarrow> 'b gx_ctx" where
  "bp_tev_registers regId value s =
     (let idx = unat ((regId - 0xE0) div 2); isRA = (regId AND 1 = 0); isKColor = bp_flag value 23 in
      if isKColor then
        (if idx < MaxKColors then
           s\<lparr>kcolors := upd_at (kcolor_update isRA value) idx (kcolors s), stateDirty := True\<rparr>
         else s)
      else
        (if idx < MaxTevRegs then
           s\<lparr>colorRegs := upd_at (tevreg_update isRA value) idx (colorRegs s), stateDirty := True\<rparr>
         else s))"

section \<open>Indirect matrices and texture coordinate scales\<close>

definition ind_mtx_update :: "nat \<Rightarrow> u32 \<Rightarrow> IndTexMtxInfo \<Rightarrow> IndTexMtxInfo" where
  "ind_mtx_update column value m =
     (let col0 = sext11 (bp_get value 11 0); col1 = sext11 (bp_get value 11 11);
          x = f32_div (f32_of_s32 col0) (f32_of_int 1024);
          y = f32_div (f32_of_s32 col1) (f32_of_int 1024);
          scaleBits = bp_get value 2 22; shift = column * 2; raw = (ucast (im_adjScaleRaw m) :: u32);
          raw' = (if column = 2
                  then (raw AND NOT (push_bit shift 1)) OR push_bit shift (scaleBits AND 1)
                  else (raw AND NOT (push_bit shift 3)) OR push_bit shift scaleBits);
          adj = (ucast raw' :: u8)
      in m\<lparr>im_mtx := (im_mtx m)[(if column = 0 then 0 else if column = 1 then 1 else 2) := (x, y)],
           im_adjScaleRaw := adj, im_scaleExp := adj - 17\<rparr>)"

definition bp_ind_mtx :: "u32 \<Rightarrow> u32 \<Rightarrow> 'b gx_ctx \<Rightarrow> 'b gx_ctx" where
  "bp_ind_mtx regId value s =
     (let idx = unat ((regId - 0x06) div 3); column = unat ((regId - 0x06) mod 3) in
      s\<lparr>indTexMtxs := upd_at (ind_mtx_update column value) idx (indTexMtxs s), stateDirty := True\<rparr>)"

definition su_scale_update :: "bool \<Rightarrow> u32 \<Rightarrow> TexCoordScale \<Rightarrow> TexCoordScale" where
  "su_scale_update isT value t =
     (if isT then t\<lparr>ts_scaleT := ucast (bp_get value 16 0), ts_biasT := bp_flag value 16,
                    ts_cylWrapT := bp_flag value 17\<rparr>
      else t\<lparr>ts_scaleS := ucast (bp_get value 16 0), ts_biasS := bp_flag value 16,
              ts_cylWrapS := bp_flag value 17, ts_lineOffset := bp_flag value 18,
              ts_pointOffset := bp_flag value 19\<rparr>)"

definition bp_su_scale :: "u32 \<Rightarrow> u32 \<Rightarrow> 'b gx_ctx \<Rightarrow> 'b gx_ctx" where
  "bp_su_scale regId value s =
     (let coordIdx = unat ((regId - 0x30) div 2); isT = (regId AND 1 \<noteq> 0) in
      s\<lparr>texCoordScales := upd_at (su_scale_update isT value) coordIdx (texCoordScales s),
        stateDirty := True\<rparr>)"

section \<open>Copy registers\<close>

definition bp_disp_src_xy :: "u32 \<Rightarrow> 'b gx_ctx \<Rightarrow> 'b gx_ctx" where
  "bp_disp_src_xy value s = s\<lparr>dispCopySrc := (dispCopySrc s)
     \<lparr>cr_x := bp_get value 10 0, cr_y := bp_get value 10 10\<rparr>\<rparr>"

definition bp_disp_src_wh :: "u32 \<Rightarrow> 'b gx_ctx \<Rightarrow> 'b gx_ctx" where
  "bp_disp_src_wh value s = s\<lparr>dispCopySrc := (dispCopySrc s)
     \<lparr>cr_width := bp_get value 10 0 + 1, cr_height := bp_get value 10 10 + 1\<rparr>\<rparr>"

definition bp_disp_dst_width :: "u32 \<Rightarrow> 'b gx_ctx \<Rightarrow> 'b gx_ctx" where
  "bp_disp_dst_width value s = s\<lparr>dispCopyDstWidth := ucast (push_bit 4 (bp_get value 10 0))\<rparr>"

definition bp_y_scale :: "u32 \<Rightarrow> 'b gx_ctx \<Rightarrow> 'b gx_ctx" where
  "bp_y_scale value s =
     (let iScale = bp_get value 9 0 in
      if iScale \<noteq> 0 then s\<lparr>dispCopyYScale := f32_div (f32_of_int 256) (f32_of_u32 iScale)\<rparr> else s)"

definition bp_clear_ar :: "u32 \<Rightarrow> 'b gx_ctx \<Rightarrow> 'b gx_ctx" where
  "bp_clear_ar value s = s\<lparr>
     clearColor := (clearColor s)\<lparr>v0 := byte_unorm (bp_get value 8 0), v3 := byte_unorm (bp_get value 8 8)\<rparr>,
     stateDirty := True\<rparr>"

definition bp_clear_gb :: "u32 \<Rightarrow> 'b gx_ctx \<Rightarrow> 'b gx_ctx" where
  "bp_clear_gb value s = s\<lparr>
     clearColor := (clearColor s)\<lparr>v2 := byte_unorm (bp_get value 8 0), v1 := byte_unorm (bp_get value 8 8)\<rparr>,
     stateDirty := True\<rparr>"

definition bp_clear_z :: "u32 \<Rightarrow> 'b gx_ctx \<Rightarrow> 'b gx_ctx" where
  "bp_clear_z value s = s\<lparr>clearDepth := bp_get value 24 0, stateDirty := True\<rparr>"

definition bp_z_texture_bias :: "u32 \<Rightarrow> 'b gx_ctx \<Rightarrow> 'b gx_ctx" where
  "bp_z_texture_bias value s = mark_pipeline_state_dirty (s\<lparr>zTextureBias := value AND 0x00FFFFFF\<rparr>)"

definition bp_z_texture :: "u32 \<Rightarrow> 'b gx_ctx \<Rightarrow> 'b gx_ctx" where
  "bp_z_texture value s = mark_pipeline_state_dirty
     (s\<lparr>zTextureFmt := ucast (bp_get value 2 0), zTextureOp := bp_get value 2 2\<rparr>)"

definition bp_copy_control :: "u32 \<Rightarrow> 'b gx_ctx \<Rightarrow> 'b gx_ctx" where
  "bp_copy_control value s = s\<lparr>
     copyClamp := bp_get value 2 0, texCopyFmt := bp_get value 4 3, dispCopyGamma := bp_get value 2 7,
     texCopyHalfScale := bp_flag value 9, dispCopyFrame2Field := bp_get value 2 12\<rparr>"

definition bp_vfilter0 :: "u32 \<Rightarrow> 'b gx_ctx \<Rightarrow> 'b gx_ctx" where
  "bp_vfilter0 value s = refresh_copy_filter_flags
     (s\<lparr>copyFilterVFilter := (copyFilterVFilter s)[0 := ucast (bp_get value 6 0),
         1 := ucast (bp_get value 6 6), 2 := ucast (bp_get value 6 12), 3 := ucast (bp_get value 6 18)]\<rparr>)"

definition bp_vfilter1 :: "u32 \<Rightarrow> 'b gx_ctx \<Rightarrow> 'b gx_ctx" where
  "bp_vfilter1 value s = refresh_copy_filter_flags
     (s\<lparr>copyFilterVFilter := (copyFilterVFilter s)[4 := ucast (bp_get value 6 0),
         5 := ucast (bp_get value 6 6), 6 := ucast (bp_get value 6 12)]\<rparr>)"

definition bp_fog_range :: "u32 \<Rightarrow> u32 \<Rightarrow> 'b gx_ctx \<Rightarrow> 'b gx_ctx" where
  "bp_fog_range regId value s = mark_pipeline_state_dirty
     (s\<lparr>fogRange := (fogRange s)[unat (regId - 0xE8) := value AND 0x00FFFFFF]\<rparr>)"

section \<open>Texture registers\<close>

text \<open>The write to a texture slot, and whether it changed the slot.\<close>
fun tex_reg_update :: "TexBpKind \<Rightarrow> u32 \<Rightarrow> GXTexObj \<Rightarrow> GXTexObj \<times> bool" where
  "tex_reg_update Mode0 value t = (t\<lparr>to_mode0 := value\<rparr>, to_mode0 t \<noteq> value)"
| "tex_reg_update Mode1 value t = (t\<lparr>to_mode1 := value\<rparr>, to_mode1 t \<noteq> value)"
| "tex_reg_update Image0 value t =
     (if to_image0 t \<noteq> value
      then (t\<lparr>to_image0 := value, to_mWidth := 0, to_mHeight := 0, to_mFormat := InvalidTextureFormat\<rparr>, True)
      else (t, False))"
| "tex_reg_update Image3 value t = (t\<lparr>to_image3 := value\<rparr>, to_image3 t \<noteq> value)"
| "tex_reg_update Tlut value t = (t, False)"
| "tex_reg_update Image1 value t = (t, False)"
| "tex_reg_update Image2 value t = (t, False)"

definition bp_texture :: "u32 \<Rightarrow> u32 \<Rightarrow> 'b gx_ctx \<Rightarrow> 'b gx_ctx" where
  "bp_texture regId value s =
     (case decode_tex_bp_reg regId of
        None \<Rightarrow> s
      | Some (i, kind) \<Rightarrow>
          (let (slot, changed) = tex_reg_update kind value (loadedTextures s ! i);
               s1 = s\<lparr>loadedTextures := (loadedTextures s)[i := slot]\<rparr>
           in if changed then s1\<lparr>stateDirty := True\<rparr> else s1))"

section \<open>Dispatch\<close>

definition bp_switch :: "gx_enums \<Rightarrow> 'b gx_backend \<Rightarrow> u32 \<Rightarrow> u32 \<Rightarrow> 'b gx_ctx \<Rightarrow> 'b gx_ctx" where
  "bp_switch g B regId value s =
     (if regId = 0x00 then bp_genmode g value s
      else if 0x01 \<le> regId \<and> regId \<le> 0x04 then bp_sample_pattern regId value s
      else if regId = 0x0F then bp_ind_mask value s
      else if 0x10 \<le> regId \<and> regId \<le> 0x1F then bp_tev_ind regId value s
      else if regId = 0x20 \<or> regId = 0x21 then bp_scissor B s
      else if regId = 0x22 then bp_line_point value s
      else if regId = 0x25 then bp_ind_scale0 value s
      else if regId = 0x26 then bp_ind_scale1 value s
      else if regId = 0x27 then bp_ind_ref value s
      else if 0x28 \<le> regId \<and> regId \<le> 0x2F then bp_tev_order g regId value s
      else if regId = 0x40 then bp_zmode value s
      else if regId = 0x41 then bp_cmode0 value s
      else if regId = 0x42 then bp_cmode1 value s
      else if regId = 0x43 then bp_pe_control value s
      else if regId = 0x44 then bp_field_mask value s
      else if regId = 0x55 \<or> regId = 0x56 then bp_bounding_box regId value s
      else if regId = 0x58 then bp_rev_bits value s
      else if regId = 0x59 then bp_scissor_offset B value s
      else if regId = 0x64 then s
      else if regId = 0x65 then bp_load_tlut value s
      else if regId = 0x68 then bp_field_mode value s
      else if regId = 0xF3 then bp_alpha_compare value s
      else if 0xF6 \<le> regId \<and> regId \<le> 0xFD then bp_ksel regId value s
      else if regId = 0xEE then bp_fog0 value s
      else if regId = 0xEF then bp_fog1 value s
      else if regId = 0xF0 then bp_fog2 value s
      else if regId = 0xF1 then bp_fog3 value s
      else if regId = 0xF2 then bp_fog_color value s
      else if 0xE0 \<le> regId \<and> regId \<le> 0xE7 then bp_tev_registers regId value s
      else if 0x06 \<le> regId \<and> regId \<le> 0x0E then bp_ind_mtx regId value s
      else if 0x30 \<le> regId \<and> regId \<le> 0x3F then bp_su_scale regId value s
      else if regId = 0x49 then bp_disp_src_xy value s
      else if regId = 0x4A then bp_disp_src_wh value s
      else if regId = 0x4D then bp_disp_dst_width value s
      else if regId = 0x4E then bp_y_scale value s
      else if regId = 0x4F then bp_clear_ar value s
      else if regId = 0x50 then bp_clear_gb value s
      else if regId = 0x51 then bp_clear_z value s
      else if regId = 0xF4 then bp_z_texture_bias value s
      else if regId = 0xF5 then bp_z_texture value s
      else if regId = 0x52 then bp_copy_control value s
      else if regId = 0x53 then bp_vfilter0 value s
      else if regId = 0x54 then bp_vfilter1 value s
      else if 0xE8 \<le> regId \<and> regId \<le> 0xED then bp_fog_range regId value s
      else bp_texture regId value s)"

definition bp_decode :: "gx_enums \<Rightarrow> 'b gx_backend \<Rightarrow> u32 \<Rightarrow> u32 \<Rightarrow> 'b gx_ctx \<Rightarrow> 'b gx_ctx" where
  "bp_decode g B regId value s =
     (if 0xC0 \<le> regId \<and> regId \<le> 0xDE \<and> regId AND 1 = 0 then bp_tev_color g regId value s
      else if 0xC1 \<le> regId \<and> regId \<le> 0xDF \<and> regId AND 1 = 1 then bp_tev_alpha g regId value s
      else bp_switch g B regId value s)"

text \<open>The cached value a write leaves: the written bits under the one-shot mask, the others kept.\<close>
definition bp_merged :: "u32 \<Rightarrow> 'b gx_ctx \<Rightarrow> u32" where
  "bp_merged value s =
     (let regId = drop_bit 24 value AND 0xFF; ssMask = bpRegCache s ! 0xFE;
          old = bpRegCache s ! unat regId;
          merged = (old AND NOT ssMask) OR (value AND ssMask)
      in push_bit 24 regId OR (merged AND 0x00FFFFFF))"

definition handle_bp :: "gx_enums \<Rightarrow> 'b gx_backend \<Rightarrow> u32 \<Rightarrow> 'b gx_ctx \<Rightarrow> 'b gx_ctx" where
  "handle_bp g B value0 s =
     (let regId = drop_bit 24 value0 AND 0xFF in
      if regId = 0xFE then
        s\<lparr>bpRegCache := (bpRegCache s)[unat regId := value0 AND 0x00FFFFFF]\<rparr>
      else
        (let ssMask = bpRegCache s ! 0xFE;
             s1 = (if ssMask \<noteq> 0x00FFFFFF then s\<lparr>bpRegCache := (bpRegCache s)[0xFE := 0x00FFFFFF]\<rparr>
                   else s);
             value = bp_merged value0 s
         in if bpRegCache s1 ! unat regId = value then s1
            else bp_decode g B regId value
                   (s1\<lparr>bpRegCache := (bpRegCache s1)[unat regId := value]\<rparr>)))"

definition GXApplyBPReg :: "gx_enums \<Rightarrow> 'b gx_backend \<Rightarrow> u8 \<Rightarrow> u32 \<Rightarrow> 'b gx_ctx \<Rightarrow> 'b gx_ctx" where
  "GXApplyBPReg g B reg value s = handle_bp g B (push_bit 24 (ucast reg) OR (value AND 0x00FFFFFF)) s"

end
