(* ===== verification/BpLemmas.thy ===== *)
theory BpLemmas
  imports BpDecoder
begin

text \<open>
  Facts about the BP decoder: field extraction is bounded by the field width, every register group
  keeps the shape and range invariants and leaves the BP register cache alone, and \<open>handle_bp\<close>
  implements masked, duplicate-suppressed writes.
\<close>

section \<open>Fields\<close>

lemma bp_get_take_bit: "bp_get w n k = take_bit n (drop_bit k w)"
  by (simp add: bp_get_def take_bit_eq_mask mask_eq_exp_minus_1)

lemma fits_bp_get [simp]: "fits n (bp_get w n k)"
  by (simp add: bp_get_take_bit)

lemma fits_bp_get_le: "m \<le> n \<Longrightarrow> fits n (bp_get w m k)"
  by (meson fits_bp_get fits_mono)

lemma unat_bp_get_less: "unat (bp_get w n k) < 2 ^ n"
  by (rule fits_unat_less) simp

lemma bp_flag_bit: "bp_flag w k \<longleftrightarrow> bit w k"
  by (simp add: bp_flag_def bp_get_take_bit take_bit_Suc bit_iff_odd_drop_bit odd_iff_mod_2_eq_one)

lemma fits_or_push:
  assumes "fits m a" "fits n b" "k + n \<le> w" "m \<le> w"
  shows "fits w (a OR push_bit k b)"
proof -
  have "take_bit w a = a" using assms fits_mono unfolding fits_def by blast
  moreover have "fits (w - k) b" by (rule fits_mono[OF assms(2)]) (use assms in simp)
  hence "take_bit (w - k) b = b" by (simp add: fits_def)
  ultimately show ?thesis by (simp add: fits_def take_bit_or take_bit_push_bit)
qed

section \<open>Shape\<close>

lemmas bp_group_defs = bp_tev_color_def bp_tev_alpha_def bp_genmode_def bp_sample_pattern_def
  bp_ind_mask_def bp_tev_ind_def bp_line_point_def bp_ind_scale0_def bp_ind_scale1_def
  bp_ind_ref_def bp_tev_order_def bp_zmode_def bp_cmode0_def bp_cmode1_def bp_pe_control_def
  bp_field_mask_def bp_bounding_box_def bp_rev_bits_def bp_load_tlut_def bp_field_mode_def
  bp_alpha_compare_def bp_ksel_def bp_fog0_def bp_fog1_def bp_fog2_def bp_fog3_def
  bp_fog_color_def bp_tev_registers_def bp_ind_mtx_def bp_su_scale_def bp_disp_src_xy_def
  bp_disp_src_wh_def bp_disp_dst_width_def bp_y_scale_def bp_clear_ar_def bp_clear_gb_def
  bp_clear_z_def bp_z_texture_bias_def bp_z_texture_def bp_copy_control_def bp_vfilter0_def
  bp_vfilter1_def bp_fog_range_def bp_texture_def refresh_copy_filter_flags_def

lemma length_fold_upd_at: "length (fold (\<lambda>i. upd_at (f i) (h i)) is xs) = length xs"
  by (induction \<open>is\<close> arbitrary: xs) simp_all

lemma list_all_fold_upd_at:
  "list_all P xs \<Longrightarrow> (\<And>i x. P x \<Longrightarrow> P (f i x)) \<Longrightarrow> list_all P (fold (\<lambda>i. upd_at (f i) (h i)) is xs)"
  by (induction \<open>is\<close> arbitrary: xs) (auto intro: list_all_upd_at)

lemma refresh_wf [wf_simps]:
  "wf_shape g (refresh_copy_filter_flags s) = wf_shape g s"
  "wf_tev g (refresh_copy_filter_flags s) = wf_tev g s"
  by (simp_all add: refresh_copy_filter_flags_def wf_shape_def wf_tev_def)

lemma wf_shape_bp_groups [wf_intros]:
  assumes "wf_shape g s"
  shows "wf_shape g (bp_tev_color e r v s)" "wf_shape g (bp_tev_alpha e r v s)"
    "wf_shape g (bp_tev_ind r v s)" "wf_shape g (bp_tev_order e r v s)"
    "wf_shape g (bp_ind_mask v s)" "wf_shape g (bp_line_point v s)"
    "wf_shape g (bp_ind_scale0 v s)" "wf_shape g (bp_ind_scale1 v s)"
    "wf_shape g (bp_zmode v s)" "wf_shape g (bp_cmode0 v s)" "wf_shape g (bp_cmode1 v s)"
    "wf_shape g (bp_pe_control v s)" "wf_shape g (bp_field_mask v s)"
    "wf_shape g (bp_bounding_box r v s)" "wf_shape g (bp_rev_bits v s)"
    "wf_shape g (bp_load_tlut v s)" "wf_shape g (bp_field_mode v s)"
    "wf_shape g (bp_alpha_compare v s)" "wf_shape g (bp_ksel r v s)"
    "wf_shape g (bp_fog0 v s)" "wf_shape g (bp_fog1 v s)" "wf_shape g (bp_fog2 v s)"
    "wf_shape g (bp_fog3 v s)" "wf_shape g (bp_fog_color v s)"
    "wf_shape g (bp_tev_registers r v s)" "wf_shape g (bp_su_scale r v s)"
    "wf_shape g (bp_disp_src_xy v s)" "wf_shape g (bp_disp_src_wh v s)"
    "wf_shape g (bp_disp_dst_width v s)" "wf_shape g (bp_y_scale v s)"
    "wf_shape g (bp_clear_ar v s)" "wf_shape g (bp_clear_gb v s)" "wf_shape g (bp_clear_z v s)"
    "wf_shape g (bp_z_texture_bias v s)" "wf_shape g (bp_z_texture v s)"
    "wf_shape g (bp_copy_control v s)" "wf_shape g (bp_vfilter0 v s)" "wf_shape g (bp_vfilter1 v s)"
    "wf_shape g (bp_fog_range r v s)"
  using assms
  by (simp_all add: bp_group_defs Let_def wf_simps) (simp_all add: wf_shape_def)

lemma wf_shape_bp_genmode [wf_intros]: "wf_shape g s \<Longrightarrow> wf_shape g (bp_genmode e v s)"
  by (simp add: bp_genmode_def Let_def wf_simps) (simp add: wf_shape_def invalidateXfReg_def)

lemma wf_shape_bp_ind_ref [wf_intros]: "wf_shape g s \<Longrightarrow> wf_shape g (bp_ind_ref v s)"
  by (simp add: bp_ind_ref_def wf_simps) (simp add: wf_shape_def length_fold_upd_at)

lemma wf_shape_bp_sample_pattern [wf_intros]:
  "wf_shape g s \<Longrightarrow> wf_shape g (bp_sample_pattern r v s)"
  by (simp add: bp_sample_pattern_def Let_def wf_simps del: upt_conv_Cons upt_rec_numeral)
     (simp add: wf_shape_def length_fold_upd_at list_all_fold_upd_at del: upt_conv_Cons upt_rec_numeral)

lemma wf_shape_bp_ind_mtx [wf_intros]: "wf_shape g s \<Longrightarrow> wf_shape g (bp_ind_mtx r v s)"
  by (simp add: bp_ind_mtx_def Let_def)
     (auto simp: wf_shape_def ind_mtx_update_def Let_def intro: list_all_upd_at)

lemma wf_shape_bp_texture [wf_intros]: "wf_shape g s \<Longrightarrow> wf_shape g (bp_texture r v s)"
  by (simp add: bp_texture_def Let_def split: option.split prod.split) (simp add: wf_shape_def)

section \<open>Ranges\<close>

lemma wf_op_decode: "sdk_ranges_ok g \<Longrightarrow> wf_op (decode_tev_op g v)"
proof -
  assume g: "sdk_ranges_ok g"
  define h where "h = bp_get v 1 18 OR push_bit 1 (bp_get v 2 20)"
  have f: "fits 3 h"
    unfolding h_def by (rule fits_or_push[where m = 1 and n = 2]) simp_all
  have "unat (h + 8) < 16"
    using fits_unat_less[OF f] by (simp add: unat_word_ariths)
  hence "fits 4 (h + 8)" by (intro unat_less_fits) simp
  moreover have "fits 4 (bp_get v 1 18)" by (simp add: fits_bp_get_le)
  ultimately show ?thesis
    using g by (simp add: wf_op_def decode_tev_op_def Let_def sdk_ranges_ok_def h_def)
qed

lemma wf_stage_updates:
  assumes "sdk_ranges_ok g" "wf_stage g t"
  shows "wf_stage g (tev_color_stage g v t)" "wf_stage g (tev_alpha_stage g v t)"
    "wf_stage g (tev_ind_stage v t)" "wf_stage g (tev_order_stage g v k t)"
    "wf_stage g (t\<lparr>kcSel := bp_get v 5 a, kaSel := bp_get v 5 b\<rparr>)"
  using assms
  by (simp_all add: wf_stage_def tev_color_stage_def tev_alpha_stage_def tev_ind_stage_def
      tev_order_stage_def wf_op_decode Let_def)

lemma wf_swap_ksel: "wf_swap w \<Longrightarrow> wf_swap (ksel_swap k v w)"
  by (simp add: wf_swap_def ksel_swap_def)

lemma wf_ind_updates:
  assumes "wf_ind i"
  shows "wf_ind (ind_scale v k i)"
    "wf_ind (i\<lparr>is_texMapId := bp_get v 3 a, is_texCoordId := bp_get v 3 b\<rparr>)"
  using assms by (simp_all add: wf_ind_def ind_scale_def)

lemma ucast_genmode_ranges:
  "unat (ucast (bp_get v 4 10 + 1) :: u8) \<le> 16" "fits 3 (ucast (bp_get v 3 16) :: u8)"
proof -
  have a: "unat (bp_get v 4 10) < 16" using unat_bp_get_less[of v 4 10] by simp
  hence b: "unat (bp_get v 4 10 + 1) = unat (bp_get v 4 10) + 1" by (simp add: unat_word_ariths)
  show "unat (ucast (bp_get v 4 10 + 1) :: u8) \<le> 16"
    using a by (simp add: unsigned_ucast_eq b take_bit_nat_eq_self)
  have "unat (bp_get v 3 16) < 8" using unat_bp_get_less[of v 3 16] by simp
  thus "fits 3 (ucast (bp_get v 3 16) :: u8)"
    by (intro unat_less_fits) (simp add: unsigned_ucast_eq take_bit_nat_eq_self)
qed

lemma wf_tev_bp_stages [wf_intros]:
  assumes "sdk_ranges_ok g" "wf_tev g s"
  shows "wf_tev g (bp_tev_color g r v s)" "wf_tev g (bp_tev_alpha g r v s)"
    "wf_tev g (bp_tev_ind r v s)" "wf_tev g (bp_tev_order g r v s)" "wf_tev g (bp_ksel r v s)"
    "wf_tev g (bp_ind_scale0 v s)" "wf_tev g (bp_ind_scale1 v s)" "wf_tev g (bp_ind_ref v s)"
  using assms
  by (simp_all add: bp_group_defs Let_def wf_simps)
     (simp_all add: wf_tev_def list_all_upd_at list_all_fold_upd_at wf_stage_updates wf_swap_ksel
       wf_ind_updates upt_rec_numeral)

lemma wf_tev_bp_genmode [wf_intros]: "wf_tev g s \<Longrightarrow> wf_tev g (bp_genmode e v s)"
  by (simp add: bp_genmode_def Let_def wf_simps)
     (simp add: wf_tev_def invalidateXfReg_def ucast_genmode_ranges)

lemma wf_tev_bp_other [wf_intros]:
  assumes "wf_tev g s"
  shows "wf_tev g (bp_sample_pattern r v s)" "wf_tev g (bp_ind_mask v s)"
    "wf_tev g (bp_line_point v s)" "wf_tev g (bp_zmode v s)" "wf_tev g (bp_cmode0 v s)"
    "wf_tev g (bp_cmode1 v s)" "wf_tev g (bp_pe_control v s)" "wf_tev g (bp_field_mask v s)"
    "wf_tev g (bp_bounding_box r v s)" "wf_tev g (bp_rev_bits v s)" "wf_tev g (bp_load_tlut v s)"
    "wf_tev g (bp_field_mode v s)" "wf_tev g (bp_alpha_compare v s)" "wf_tev g (bp_fog0 v s)"
    "wf_tev g (bp_fog1 v s)" "wf_tev g (bp_fog2 v s)" "wf_tev g (bp_fog3 v s)"
    "wf_tev g (bp_fog_color v s)" "wf_tev g (bp_tev_registers r v s)" "wf_tev g (bp_ind_mtx r v s)"
    "wf_tev g (bp_su_scale r v s)" "wf_tev g (bp_disp_src_xy v s)" "wf_tev g (bp_disp_src_wh v s)"
    "wf_tev g (bp_disp_dst_width v s)" "wf_tev g (bp_y_scale v s)" "wf_tev g (bp_clear_ar v s)"
    "wf_tev g (bp_clear_gb v s)" "wf_tev g (bp_clear_z v s)" "wf_tev g (bp_z_texture_bias v s)"
    "wf_tev g (bp_z_texture v s)" "wf_tev g (bp_copy_control v s)" "wf_tev g (bp_vfilter0 v s)"
    "wf_tev g (bp_vfilter1 v s)" "wf_tev g (bp_fog_range r v s)"
  using assms
  by (simp_all add: bp_group_defs Let_def wf_simps) (simp_all add: wf_tev_def)

lemma wf_tev_bp_texture [wf_intros]: "wf_tev g s \<Longrightarrow> wf_tev g (bp_texture r v s)"
  by (simp add: bp_texture_def Let_def split: option.split prod.split) (simp add: wf_tev_def)

section \<open>The BP cache is untouched by decoding\<close>

lemma bpRegCache_mark [simp]: "bpRegCache (mark_pipeline_state_dirty s) = bpRegCache s"
  by (simp add: mark_pipeline_state_dirty_alt)

lemma cp_caches_mark [simp]:
  "cpRegisterCache (mark_pipeline_state_dirty s) = cpRegisterCache s"
  "cpRegisterCacheValid (mark_pipeline_state_dirty s) = cpRegisterCacheValid s"
  by (simp_all add: mark_pipeline_state_dirty_alt)

definition same_bp_cp :: "'b gx_ctx \<Rightarrow> 'b gx_ctx \<Rightarrow> bool" where
  "same_bp_cp s t \<longleftrightarrow> bpRegCache t = bpRegCache s \<and> cpRegisterCache t = cpRegisterCache s \<and>
     cpRegisterCacheValid t = cpRegisterCacheValid s"

lemma same_bp_cp_groups:
  "same_bp_cp s (bp_tev_color e r v s)" "same_bp_cp s (bp_tev_alpha e r v s)"
  "same_bp_cp s (bp_tev_ind r v s)" "same_bp_cp s (bp_tev_order e r v s)"
  "same_bp_cp s (bp_ind_mask v s)" "same_bp_cp s (bp_line_point v s)"
  "same_bp_cp s (bp_ind_scale0 v s)" "same_bp_cp s (bp_ind_scale1 v s)"
  "same_bp_cp s (bp_ind_ref v s)" "same_bp_cp s (bp_sample_pattern r v s)"
  "same_bp_cp s (bp_zmode v s)" "same_bp_cp s (bp_cmode0 v s)" "same_bp_cp s (bp_cmode1 v s)"
  "same_bp_cp s (bp_pe_control v s)" "same_bp_cp s (bp_field_mask v s)"
  "same_bp_cp s (bp_bounding_box r v s)" "same_bp_cp s (bp_rev_bits v s)"
  "same_bp_cp s (bp_load_tlut v s)" "same_bp_cp s (bp_field_mode v s)"
  "same_bp_cp s (bp_alpha_compare v s)" "same_bp_cp s (bp_ksel r v s)"
  "same_bp_cp s (bp_fog0 v s)" "same_bp_cp s (bp_fog1 v s)" "same_bp_cp s (bp_fog2 v s)"
  "same_bp_cp s (bp_fog3 v s)" "same_bp_cp s (bp_fog_color v s)"
  "same_bp_cp s (bp_tev_registers r v s)" "same_bp_cp s (bp_ind_mtx r v s)"
  "same_bp_cp s (bp_su_scale r v s)" "same_bp_cp s (bp_disp_src_xy v s)"
  "same_bp_cp s (bp_disp_src_wh v s)" "same_bp_cp s (bp_disp_dst_width v s)"
  "same_bp_cp s (bp_y_scale v s)" "same_bp_cp s (bp_clear_ar v s)" "same_bp_cp s (bp_clear_gb v s)"
  "same_bp_cp s (bp_clear_z v s)" "same_bp_cp s (bp_z_texture_bias v s)"
  "same_bp_cp s (bp_z_texture v s)" "same_bp_cp s (bp_copy_control v s)"
  "same_bp_cp s (bp_vfilter0 v s)" "same_bp_cp s (bp_vfilter1 v s)"
  "same_bp_cp s (bp_fog_range r v s)" "same_bp_cp s (bp_genmode e v s)"
  by (simp_all add: bp_group_defs Let_def same_bp_cp_def invalidateXfReg_def)

lemma same_bp_cp_texture: "same_bp_cp s (bp_texture r v s)"
  by (simp add: bp_texture_def Let_def same_bp_cp_def split: option.split prod.split)

lemma same_bp_cp_frame: "render_frame s t \<Longrightarrow> same_bp_cp s t"
  by (simp add: same_bp_cp_def render_frame_fields)

lemma same_bp_cp_wf: "same_bp_cp s t \<Longrightarrow> wf_ctx g s \<Longrightarrow> wf_shape g t \<Longrightarrow> wf_ctx g t"
  by (simp add: same_bp_cp_def wf_ctx_def)

section \<open>\<open>handle_bp\<close>\<close>

definition bp_reg :: "u32 \<Rightarrow> u32" where "bp_reg value = drop_bit 24 value AND 0xFF"

lemma unat_bp_reg_less: "unat (bp_reg v) < 256"
proof -
  have "bp_reg v = take_bit 8 (drop_bit 24 v)"
    by (simp add: bp_reg_def take_bit_eq_mask mask_eq_exp_minus_1)
  thus ?thesis using fits_unat_less[of 8 "bp_reg v"] by simp
qed

lemma handle_bp_mask_write:
  "bp_reg v = 0xFE \<Longrightarrow> handle_bp g B v s = s\<lparr>bpRegCache := (bpRegCache s)[0xFE := v AND 0x00FFFFFF]\<rparr>"
  by (simp add: handle_bp_def bp_reg_def)

lemma bp_merged_full_mask:
  assumes "bpRegCache s ! 0xFE = 0x00FFFFFF"
  shows "bp_merged v s = push_bit 24 (bp_reg v) OR (v AND 0x00FFFFFF)"
proof -
  have "((x AND NOT 0x00FFFFFF) OR (v AND 0x00FFFFFF)) AND 0x00FFFFFF = v AND (0x00FFFFFF :: u32)"
    for x :: u32
    by (rule bit_eqI) (auto simp: bit_simps)
  thus ?thesis by (simp add: bp_merged_def bp_reg_def assms)
qed

context gx_backend_contract
begin

lemma scissor_groups:
  "same_bp_cp s (bp_scissor B s)" "same_bp_cp s (bp_scissor_offset B v s)"
  "wf_shape g s \<Longrightarrow> wf_shape g (bp_scissor B s)"
  "wf_shape g s \<Longrightarrow> wf_shape g (bp_scissor_offset B v s)"
  "wf_tev g s \<Longrightarrow> wf_tev g (bp_scissor B s)"
  "wf_tev g s \<Longrightarrow> wf_tev g (bp_scissor_offset B v s)"
proof -
  let ?t = "s\<lparr>scissorOffsetX := push_bit 1 (v AND 0x3ff) - 0x156,
              scissorOffsetY := drop_bit 9 (v AND 0xffc00) - 0x156\<rparr>"
  have "same_bp_cp s ?t" by (simp add: same_bp_cp_def)
  thus "same_bp_cp s (bp_scissor_offset B v s)"
    using same_bp_cp_frame[OF logical_scissor, of ?t]
    by (simp add: bp_scissor_offset_def Let_def same_bp_cp_def)
  show "wf_shape g s \<Longrightarrow> wf_shape g (bp_scissor_offset B v s)"
    by (simp add: bp_scissor_offset_def Let_def render_frame_wf[OF logical_scissor])
       (simp add: wf_shape_def)
  show "wf_tev g s \<Longrightarrow> wf_tev g (bp_scissor_offset B v s)"
    by (simp add: bp_scissor_offset_def Let_def render_frame_wf[OF logical_scissor])
       (simp add: wf_tev_def)
qed (simp_all add: bp_scissor_def Let_def same_bp_cp_frame[OF logical_scissor]
       render_frame_wf[OF logical_scissor])

lemma bp_decode_same: "same_bp_cp s (bp_decode g B r v s)"
  unfolding bp_decode_def bp_switch_def
  by (intro if_pred[where P = "same_bp_cp s"] same_bp_cp_groups same_bp_cp_texture scissor_groups)
     (simp add: same_bp_cp_def)

lemma bp_decode_wf_shape: "wf_shape g s \<Longrightarrow> wf_shape g (bp_decode g B r v s)"
  unfolding bp_decode_def bp_switch_def
  by (intro if_pred[where P = "wf_shape g"] wf_intros scissor_groups)

lemma bp_decode_wf_tev: "sdk_ranges_ok g \<Longrightarrow> wf_tev g s \<Longrightarrow> wf_tev g (bp_decode g B r v s)"
  unfolding bp_decode_def bp_switch_def
  by (intro if_pred[where P = "wf_tev g"] wf_intros scissor_groups)

lemma handle_bp_wf_ctx:
  assumes "wf_ctx g s"
  shows "wf_ctx g (handle_bp g B v s)"
proof -
  have upd: "wf_ctx g (s\<lparr>bpRegCache := c\<rparr>)" if "length c = 256" for c
    using assms that by (simp add: wf_ctx_def wf_shape_def)
  have len: "length (bpRegCache s) = 256"
    using assms by (simp add: wf_ctx_def wf_shape_def)
  have dec: "wf_ctx g (bp_decode g B r w t)" if "wf_ctx g t" for r w t
    using same_bp_cp_wf[OF bp_decode_same that] bp_decode_wf_shape that by (simp add: wf_ctx_def)
  show ?thesis
    using assms len by (simp add: handle_bp_def Let_def dec upd)
qed

lemma handle_bp_wf_tev:
  assumes "sdk_ranges_ok g" "wf_tev g s"
  shows "wf_tev g (handle_bp g B v s)"
proof -
  have upd: "wf_tev g (s\<lparr>bpRegCache := c\<rparr>)" for c
    using assms by (simp add: wf_tev_def)
  show ?thesis
    using assms by (simp add: handle_bp_def Let_def upd bp_decode_wf_tev)
qed

text \<open>After any write but one to the mask register, the register's cache holds the merged value
  and the mask is fully open again; no other cached register changes.\<close>
lemma handle_bp_cache:
  assumes "wf_shape g s" "bp_reg v \<noteq> 0xFE"
  shows "bpRegCache (handle_bp g B v s) =
    (bpRegCache s)[0xFE := 0x00FFFFFF, unat (bp_reg v) := bp_merged v s]"
proof -
  have len: "length (bpRegCache s) = 256" using assms(1) by (simp add: wf_shape_def)
  have ne: "unat (bp_reg v) \<noteq> 0xFE"
    using assms(2) by (simp add: word_unat_eq_iff)
  have full: "(bpRegCache s)[0xFE := 0x00FFFFFF] = bpRegCache s" if "bpRegCache s ! 0xFE = 0x00FFFFFF"
    using that by (metis list_update_id)
  show ?thesis
    using len ne bp_decode_same assms(2)
    by (cases "bpRegCache s ! 0xFE = 0x00FFFFFF")
       (auto simp: handle_bp_def Let_def same_bp_cp_def full simp flip: bp_reg_def,
        (metis list_update_id length_list_update nth_list_update_neq)+)
qed

end

end
