(* ===== verification/CpDecoder.thy ===== *)
theory CpDecoder
  imports BpLemmas
begin

text \<open>
  The CP half of gx/register_decoder.cpp: the CP register cache (\<open>cacheable_cp_register\<close>,
  \<open>cp_register_write_unchanged\<close>, \<open>reset_cp_register_cache\<close>) and \<open>handle_cp\<close>, which decodes the
  vertex descriptor, the vertex attribute tables, the matrix indices and the array strides.
  The CP cache is a second instance of the contract \<open>write_cache\<close>.
\<close>

definition cacheable_cp_register :: "u8 \<Rightarrow> bool" where
  "cacheable_cp_register addr \<longleftrightarrow>
     addr = 0x30 \<or> addr = 0x40 \<or> addr = 0x50 \<or> addr = 0x60 \<or> (0x70 \<le> addr \<and> addr \<le> 0x97)"

definition reset_cp_register_cache :: "'b gx_ctx \<Rightarrow> 'b gx_ctx" where
  "reset_cp_register_cache s = s\<lparr>
     cpRegisterCache := replicate (length (cpRegisterCache s)) 0,
     cpRegisterCacheValid := replicate (length (cpRegisterCacheValid s)) False\<rparr>"

definition cp_hit :: "'b gx_ctx \<Rightarrow> u8 \<Rightarrow> u32 \<Rightarrow> bool" where
  "cp_hit s addr value \<longleftrightarrow>
     cpRegisterCacheValid s ! unat addr \<and> cpRegisterCache s ! unat addr = value"

definition cp_store :: "u8 \<Rightarrow> u32 \<Rightarrow> 'b gx_ctx \<Rightarrow> 'b gx_ctx" where
  "cp_store addr value s = s\<lparr>
     cpRegisterCacheValid := (cpRegisterCacheValid s)[unat addr := True],
     cpRegisterCache := (cpRegisterCache s)[unat addr := value]\<rparr>"

definition cp_register_write_unchanged :: "u8 \<Rightarrow> u32 \<Rightarrow> 'b gx_ctx \<Rightarrow> bool \<times> 'b gx_ctx" where
  "cp_register_write_unchanged addr value s =
     (if \<not> cacheable_cp_register addr then (False, s)
      else if cp_hit s addr value then (True, s)
      else (False, cp_store addr value s))"

definition normal_frac_bits :: "gx_enums \<Rightarrow> u32 \<Rightarrow> u8" where
  "normal_frac_bits g t =
     (if t = GX_U8 g then 7 else if t = GX_S8 g then 6 else if t = GX_U16 g then 15
      else if t = GX_S16 g then 14 else 0)"

section \<open>Register groups\<close>

definition vcd_lo :: "u32 \<Rightarrow> u32 list \<Rightarrow> u32 list" where
  "vcd_lo value vd =
     vd[GX_VA_PNMTXIDX := bp_get value 1 0, GX_VA_TEX0MTXIDX := bp_get value 1 1,
        GX_VA_TEX0MTXIDX + 1 := bp_get value 1 2, GX_VA_TEX0MTXIDX + 2 := bp_get value 1 3,
        GX_VA_TEX0MTXIDX + 3 := bp_get value 1 4, GX_VA_TEX0MTXIDX + 4 := bp_get value 1 5,
        GX_VA_TEX0MTXIDX + 5 := bp_get value 1 6, GX_VA_TEX0MTXIDX + 6 := bp_get value 1 7,
        GX_VA_TEX0MTXIDX + 7 := bp_get value 1 8, GX_VA_POS := bp_get value 2 9,
        GX_VA_NRM := bp_get value 2 11, GX_VA_CLR0 := bp_get value 2 13,
        GX_VA_CLR1 := bp_get value 2 15]"

definition cp_vcd_lo :: "gx_enums \<Rightarrow> u32 \<Rightarrow> 'b gx_ctx \<Rightarrow> 'b gx_ctx" where
  "cp_vcd_lo g value s =
     (let vd = vcd_lo value (vtxDesc s);
          svd = fold (\<lambda>a d. d[a := vd ! a]) [GX_VA_PNMTXIDX..<Suc GX_VA_CLR1] (sourceVtxDesc s)
      in clearVtxSizeCache g (mark_pipeline_state_dirty (s\<lparr>vtxDesc := vd, sourceVtxDesc := svd\<rparr>)))"

definition vcd_hi :: "u32 \<Rightarrow> u32 list \<Rightarrow> u32 list" where
  "vcd_hi value vd =
     vd[GX_VA_TEX0 := bp_get value 2 0, GX_VA_TEX1 := bp_get value 2 2,
        GX_VA_TEX2 := bp_get value 2 4, GX_VA_TEX3 := bp_get value 2 6,
        GX_VA_TEX4 := bp_get value 2 8, GX_VA_TEX5 := bp_get value 2 10,
        GX_VA_TEX6 := bp_get value 2 12, GX_VA_TEX7 := bp_get value 2 14]"

definition cp_vcd_hi :: "gx_enums \<Rightarrow> u32 \<Rightarrow> 'b gx_ctx \<Rightarrow> 'b gx_ctx" where
  "cp_vcd_hi g value s =
     (let vd = vcd_hi value (vtxDesc s);
          svd = fold (\<lambda>a d. d[a := vd ! a]) [GX_VA_TEX0..<Suc GX_VA_TEX7] (sourceVtxDesc s)
      in clearVtxSizeCache g (mark_pipeline_state_dirty (s\<lparr>vtxDesc := vd, sourceVtxDesc := svd\<rparr>)))"

text \<open>Four texture matrix indices of six bits each, from bit \<open>sh\<close> on, for coordinates \<open>base\<close>...\<close>
definition tex_mtx_indices :: "u32 \<Rightarrow> nat \<Rightarrow> nat \<Rightarrow> TcgConfig list \<Rightarrow> TcgConfig list" where
  "tex_mtx_indices value base sh ts =
     fold (\<lambda>i. upd_at (\<lambda>t. t\<lparr>tcg_mtx := bp_get value 6 (sh + i * 6)\<rparr>) (base + i)) [0..<4] ts"

definition cp_matrix_index_a :: "u32 \<Rightarrow> 'b gx_ctx \<Rightarrow> 'b gx_ctx" where
  "cp_matrix_index_a value s =
     mark_pipeline_state_dirty (invalidateXfReg 0x18
       (s\<lparr>currentPnMtx := bp_get value 6 0 div 3, tcgs := tex_mtx_indices value 0 6 (tcgs s)\<rparr>))"

definition cp_matrix_index_b :: "u32 \<Rightarrow> 'b gx_ctx \<Rightarrow> 'b gx_ctx" where
  "cp_matrix_index_b value s =
     mark_pipeline_state_dirty (invalidateXfReg 0x19
       (s\<lparr>tcgs := tex_mtx_indices value 4 0 (tcgs s)\<rparr>))"

definition vat_set :: "nat \<Rightarrow> u32 \<Rightarrow> u32 \<Rightarrow> u8 \<Rightarrow> VtxAttrFmt list \<Rightarrow> VtxAttrFmt list" where
  "vat_set attr cnt ty fr vf = upd_at (\<lambda>a. a\<lparr>va_cnt := cnt, va_type := ty, va_frac := fr\<rparr>) attr vf"

definition vat_a :: "gx_enums \<Rightarrow> u32 \<Rightarrow> VtxAttrFmt list \<Rightarrow> VtxAttrFmt list" where
  "vat_a g value vf =
     (let nty = bp_get value 3 10;
          ncnt = (if bp_get value 1 31 \<noteq> 0 then GX_NRM_NBT3 g
                  else if bp_get value 1 9 \<noteq> 0 then GX_NRM_NBT g else GX_NRM_XYZ g)
      in vat_set GX_VA_TEX0 (bp_get value 1 21) (bp_get value 3 22) (ucast (bp_get value 5 25))
        (vat_set GX_VA_CLR1 (bp_get value 1 17) (bp_get value 3 18) 0
        (vat_set GX_VA_CLR0 (bp_get value 1 13) (bp_get value 3 14) 0
        (vat_set GX_VA_NRM ncnt nty (normal_frac_bits g nty)
        (vat_set GX_VA_POS (bp_get value 1 0) (bp_get value 3 1) (ucast (bp_get value 5 4)) vf)))))"

definition vat_b :: "u32 \<Rightarrow> VtxAttrFmt list \<Rightarrow> VtxAttrFmt list" where
  "vat_b value vf =
     upd_at (\<lambda>a. a\<lparr>va_cnt := bp_get value 1 27, va_type := bp_get value 3 28\<rparr>) GX_VA_TEX4
       (vat_set GX_VA_TEX3 (bp_get value 1 18) (bp_get value 3 19) (ucast (bp_get value 5 22))
       (vat_set GX_VA_TEX2 (bp_get value 1 9) (bp_get value 3 10) (ucast (bp_get value 5 13))
       (vat_set GX_VA_TEX1 (bp_get value 1 0) (bp_get value 3 1) (ucast (bp_get value 5 4)) vf)))"

definition vat_c :: "u32 \<Rightarrow> VtxAttrFmt list \<Rightarrow> VtxAttrFmt list" where
  "vat_c value vf =
     vat_set GX_VA_TEX7 (bp_get value 1 23) (bp_get value 3 24) (ucast (bp_get value 5 27))
       (vat_set GX_VA_TEX6 (bp_get value 1 14) (bp_get value 3 15) (ucast (bp_get value 5 18))
       (vat_set GX_VA_TEX5 (bp_get value 1 5) (bp_get value 3 6) (ucast (bp_get value 5 9))
       (upd_at (\<lambda>a. a\<lparr>va_frac := ucast (bp_get value 5 0)\<rparr>) GX_VA_TEX4 vf)))"

definition cp_vat :: "gx_enums \<Rightarrow> (VtxAttrFmt list \<Rightarrow> VtxAttrFmt list) \<Rightarrow> nat \<Rightarrow> 'b gx_ctx \<Rightarrow> 'b gx_ctx" where
  "cp_vat g f fmt s =
     clearVtxSizeCache g (mark_pipeline_state_dirty (s\<lparr>vtxFmts := upd_at f fmt (vtxFmts s)\<rparr>))"

definition cp_array_stride :: "gx_enums \<Rightarrow> u8 \<Rightarrow> u32 \<Rightarrow> 'b gx_ctx \<Rightarrow> 'b gx_ctx" where
  "cp_array_stride g addr value s =
     (let attrIdx = unat (addr - 0xB0) + GX_VA_POS; newStride = (ucast value :: u8) in
      if attrIdx < GX_VA_MAX_ATTR g then
        (if arr_stride (arrays s ! attrIdx) \<noteq> newStride then
           mark_pipeline_state_dirty
             (s\<lparr>arrays := upd_at (\<lambda>a. a\<lparr>arr_stride := newStride\<rparr>) attrIdx (arrays s)\<rparr>)
         else s)
      else s)"

definition cp_decode :: "gx_enums \<Rightarrow> u8 \<Rightarrow> u32 \<Rightarrow> 'b gx_ctx \<Rightarrow> 'b gx_ctx" where
  "cp_decode g addr value s =
     (if addr = 0x50 then cp_vcd_lo g value s
      else if addr = 0x60 then cp_vcd_hi g value s
      else if addr = 0x30 then cp_matrix_index_a value s
      else if addr = 0x40 then cp_matrix_index_b value s
      else if 0x70 \<le> addr \<and> addr \<le> 0x77 then cp_vat g (vat_a g value) (unat (addr - 0x70)) s
      else if 0x80 \<le> addr \<and> addr \<le> 0x87 then cp_vat g (vat_b value) (unat (addr - 0x80)) s
      else if 0x90 \<le> addr \<and> addr \<le> 0x97 then cp_vat g (vat_c value) (unat (addr - 0x90)) s
      else if 0xA0 \<le> addr \<and> addr \<le> 0xAF then s
      else if 0xB0 \<le> addr \<and> addr \<le> 0xBF then cp_array_stride g addr value s
      else s)"

definition handle_cp :: "gx_enums \<Rightarrow> u8 \<Rightarrow> u32 \<Rightarrow> 'b gx_ctx \<Rightarrow> 'b gx_ctx" where
  "handle_cp g addr value s =
     (let (same, s1) = cp_register_write_unchanged addr value s in
      if same then s1 else cp_decode g addr value s1)"

section \<open>The CP cache is a write cache\<close>

definition cp_cache_shape :: "'b gx_ctx \<Rightarrow> bool" where
  "cp_cache_shape s \<longleftrightarrow> length (cpRegisterCache s) = 256 \<and> length (cpRegisterCacheValid s) = 256"

interpretation cpc: write_cache "cp_hit :: 'b gx_ctx \<Rightarrow> _" cp_store cp_cache_shape "\<lambda>_. True"
proof (standard, goal_cases)
  case (1 s r v w)
  have "unat r < 256" using unsigned_less[of r] by simp
  thus ?case using 1 by (auto simp: cp_hit_def cp_store_def cp_cache_shape_def)
next
  case (2 s r q v w)
  hence "unat q \<noteq> unat r" using unsigned_word_eqI by blast
  thus ?case by (simp add: cp_hit_def cp_store_def)
next
  case (3 s r v)
  thus ?case by (simp add: cp_cache_shape_def cp_store_def)
qed

section \<open>Shape and ranges\<close>

lemma wf_clearVtxSizeCache [wf_simps]:
  "wf_shape g (clearVtxSizeCache e s) = wf_shape g s"
  "wf_tev g (clearVtxSizeCache e s) = wf_tev g s"
  by (simp_all add: clearVtxSizeCache_def wf_shape_def wf_tev_def)

lemma length_fold_copy: "length (fold (\<lambda>a d. d[a := vd ! a]) is d) = length d"
  by (induction \<open>is\<close> arbitrary: d) simp_all

lemma length_vats [simp]:
  "length (vat_a g v vf) = length vf" "length (vat_b v vf) = length vf"
  "length (vat_c v vf) = length vf" "length (tex_mtx_indices v b k ts) = length ts"
  "length (vcd_lo v vd) = length vd" "length (vcd_hi v vd) = length vd"
  by (simp_all add: vat_a_def vat_b_def vat_c_def vat_set_def Let_def tex_mtx_indices_def
      length_fold_upd_at vcd_lo_def vcd_hi_def)

lemma wf_shape_cp_groups [wf_intros]:
  assumes "wf_shape g s"
  shows "wf_shape g (cp_vcd_lo e v s)" "wf_shape g (cp_vcd_hi e v s)"
    "wf_shape g (cp_matrix_index_a v s)" "wf_shape g (cp_matrix_index_b v s)"
    "wf_shape g (cp_array_stride e a v s)"
    "(\<And>vf. length (f vf) = length vf) \<Longrightarrow> wf_shape g (cp_vat e f i s)"
  using assms
  by (simp_all add: cp_vcd_lo_def cp_vcd_hi_def cp_matrix_index_a_def cp_matrix_index_b_def
      cp_array_stride_def cp_vat_def Let_def wf_simps)
     (simp_all add: wf_shape_def invalidateXfReg_def length_fold_copy list_all_upd_at)

lemma wf_shape_cp_decode: "wf_shape g s \<Longrightarrow> wf_shape g (cp_decode e a v s)"
  unfolding cp_decode_def by (intro if_pred[where P = "wf_shape g"] wf_intros) simp_all

lemma wf_tev_cp_decode: "wf_tev g (cp_decode e a v s) = wf_tev g s"
  unfolding cp_decode_def
  by (intro if_pred[where P = "\<lambda>t. wf_tev g t = wf_tev g s"])
     (simp_all add: cp_vcd_lo_def cp_vcd_hi_def cp_matrix_index_a_def cp_matrix_index_b_def
       cp_array_stride_def cp_vat_def Let_def wf_simps, simp_all add: wf_tev_def)

lemma cp_decode_caches:
  "bpRegCache (cp_decode e a v s) = bpRegCache s"
  "cpRegisterCache (cp_decode e a v s) = cpRegisterCache s"
  "cpRegisterCacheValid (cp_decode e a v s) = cpRegisterCacheValid s"
  unfolding cp_decode_def
  by (simp_all add: cp_vcd_lo_def cp_vcd_hi_def cp_matrix_index_a_def cp_matrix_index_b_def
       cp_array_stride_def cp_vat_def clearVtxSizeCache_def invalidateXfReg_def Let_def)

lemma cp_store_wf:
  "wf_shape g (cp_store a v s) = wf_shape g s" "wf_tev g (cp_store a v s) = wf_tev g s"
  "wf_ctx g (cp_store a v s) = wf_ctx g s"
  by (simp_all add: cp_store_def wf_shape_def wf_tev_def wf_ctx_def)

lemma handle_cp_wf_ctx: "wf_ctx g s \<Longrightarrow> wf_ctx g (handle_cp e a v s)"
proof -
  have d: "wf_ctx g t \<Longrightarrow> wf_ctx g (cp_decode e a v t)" for t
    by (simp add: wf_ctx_def wf_shape_cp_decode cp_decode_caches)
  show "wf_ctx g s \<Longrightarrow> wf_ctx g (handle_cp e a v s)"
    by (simp add: handle_cp_def cp_register_write_unchanged_def d cp_store_wf)
qed

lemma handle_cp_wf_tev: "wf_tev g (handle_cp e a v s) = wf_tev g s"
  by (simp add: handle_cp_def cp_register_write_unchanged_def wf_tev_cp_decode cp_store_wf)

end
