(* ===== verification/CommandReader.thy ===== *)
theory CommandReader
  imports Ieee
begin

text \<open>
  Reads from the command stream (gx/command_reader.hpp): an unaligned little-endian load of the
  host, swapped when the stream is big-endian.  A read outside the buffer is \<^const>\<open>None\<close>.
\<close>

fun load_le :: "bytes \<Rightarrow> nat \<Rightarrow> nat \<Rightarrow> 'a::len word option" where
  "load_le b p 0 = Some 0"
| "load_le b p (Suc n) =
     do { x \<leftarrow> b p; r \<leftarrow> load_le b (Suc p) n; Some (ucast x OR push_bit 8 r) }"

definition bswap16 :: "u16 \<Rightarrow> u16" where
  "bswap16 w = push_bit 8 w OR drop_bit 8 w"

definition bswap32 :: "u32 \<Rightarrow> u32" where
  "bswap32 w = push_bit 24 w OR push_bit 8 (w AND 0xFF00) OR
     (drop_bit 8 w AND 0xFF00) OR drop_bit 24 w"

definition bswap64 :: "u64 \<Rightarrow> u64" where
  "bswap64 w =
     push_bit 32 (ucast (bswap32 (ucast w))) OR ucast (bswap32 (ucast (drop_bit 32 w)))"

definition read_u16 :: "bytes \<Rightarrow> nat \<Rightarrow> bool \<Rightarrow> u16 option" where
  "read_u16 b p bigEndian =
     do { v \<leftarrow> load_le b p 2; Some (if bigEndian then bswap16 v else v) }"

definition read_u32 :: "bytes \<Rightarrow> nat \<Rightarrow> bool \<Rightarrow> u32 option" where
  "read_u32 b p bigEndian =
     do { v \<leftarrow> load_le b p 4; Some (if bigEndian then bswap32 v else v) }"

definition read_u64 :: "bytes \<Rightarrow> nat \<Rightarrow> bool \<Rightarrow> u64 option" where
  "read_u64 b p bigEndian =
     do { v \<leftarrow> load_le b p 8; Some (if bigEndian then bswap64 v else v) }"

definition read_f32 :: "bytes \<Rightarrow> nat \<Rightarrow> bool \<Rightarrow> f32 option" where
  "read_f32 b p bigEndian = read_u32 b p bigEndian"

section \<open>Reads inside the buffer succeed\<close>

lemma load_le_total: "(\<And>i. i < n \<Longrightarrow> b (p + i) \<noteq> None) \<Longrightarrow> load_le b p n \<noteq> None"
proof (induction n arbitrary: p)
  case (Suc n)
  have "b p \<noteq> None" using Suc.prems[of 0] by simp
  moreover have "(load_le b (Suc p) n :: 'a word option) \<noteq> None"
    using Suc.prems[of "Suc _"] by (intro Suc.IH) (metis Suc_less_eq add_Suc_shift)
  ultimately show ?case by auto
qed simp

lemma load_le_readable:
  assumes "readable b n" "p + k \<le> n"
  shows "\<exists>v. (load_le b p k :: 'a::len word option) = Some v"
proof -
  have "(load_le b p k :: 'a word option) \<noteq> None"
    using assms by (intro load_le_total) (auto simp: readable_def)
  thus ?thesis by simp
qed

lemma read_total:
  assumes "readable b n"
  shows "p + 2 \<le> n \<Longrightarrow> \<exists>v. read_u16 b p be = Some v"
    "p + 4 \<le> n \<Longrightarrow> \<exists>v. read_u32 b p be = Some v"
    "p + 8 \<le> n \<Longrightarrow> \<exists>v. read_u64 b p be = Some v"
    "p + 4 \<le> n \<Longrightarrow> \<exists>v. read_f32 b p be = Some v"
proof -
  show "p + 2 \<le> n \<Longrightarrow> \<exists>v. read_u16 b p be = Some v"
    using load_le_readable[OF assms, of p 2, where 'a = 16] by (auto simp: read_u16_def)
  show "p + 4 \<le> n \<Longrightarrow> \<exists>v. read_u32 b p be = Some v"
    using load_le_readable[OF assms, of p 4, where 'a = 32] by (auto simp: read_u32_def)
  thus "p + 4 \<le> n \<Longrightarrow> \<exists>v. read_f32 b p be = Some v" by (simp add: read_f32_def)
  show "p + 8 \<le> n \<Longrightarrow> \<exists>v. read_u64 b p be = Some v"
    using load_le_readable[OF assms, of p 8, where 'a = 64] by (auto simp: read_u64_def)
qed

lemma readable_at: "readable b n \<Longrightarrow> i < n \<Longrightarrow> \<exists>v. b i = Some v"
  by (auto simp: readable_def)

section \<open>The value read\<close>

text \<open>The wire encodings of a 32-bit word.\<close>
definition wire32 :: "bool \<Rightarrow> u32 \<Rightarrow> u8 list" where
  "wire32 bigEndian w =
     (if bigEndian then [ucast (drop_bit 24 w), ucast (drop_bit 16 w), ucast (drop_bit 8 w), ucast w]
      else [ucast w, ucast (drop_bit 8 w), ucast (drop_bit 16 w), ucast (drop_bit 24 w)])"

lemma length_wire32 [simp]: "length (wire32 be w) = 4"
  by (simp add: wire32_def)

lemma load_le_buf4:
  "load_le (buf (xs @ a # b # c # d # ys)) (length xs) 4 =
     Some (ucast a OR push_bit 8 (ucast b) OR push_bit 16 (ucast c) OR push_bit 24 (ucast d :: u32))"
proof -
  have e: "(4 :: nat) = Suc (Suc (Suc (Suc 0)))" by simp
  have "load_le (buf (xs @ a # b # c # d # ys)) (length xs) 4 =
     Some (ucast a OR push_bit 8 (ucast b OR push_bit 8 (ucast c OR push_bit 8 (ucast d :: u32))))"
    unfolding e by (simp add: buf_def nth_append)
  thus ?thesis by (simp add: push_bit_or or.assoc)
qed

lemma bit_bswap32:
  "bit (bswap32 w) n \<longleftrightarrow> n < 32 \<and>
     (if n < 8 then bit w (n + 24) else if n < 16 then bit w (n + 8)
      else if n < 24 then bit w (n - 8) else bit w (n - 24))"
proof -
  define K :: u32 where "K = 0xFF00"
  have "K = push_bit 8 (mask 8)" by (simp add: K_def mask_eq_exp_minus_1)
  hence m: "bit K k \<longleftrightarrow> 8 \<le> k \<and> k < 16" for k
    by (simp only: bit_simps) (auto simp: bit_simps)
  show ?thesis
    unfolding bswap32_def K_def[symmetric]
    by (auto simp: bit_simps m add.commute dest: bit_imp_le_length)
qed

text \<open>A word written in either byte order is read back.\<close>
lemma read_u32_wire32: "read_u32 (buf (xs @ wire32 be w @ ys)) (length xs) be = Some w"
proof -
  define p where "p a b c d = (ucast (a :: u8) OR push_bit 8 (ucast (b :: u8)) OR
    push_bit 16 (ucast (c :: u8)) OR push_bit 24 (ucast (d :: u8) :: u32))" for a b c d
  have p: "bit (p a b c d) n \<longleftrightarrow> n < 32 \<and> (if n < 8 then bit a n else if n < 16 then bit b (n - 8)
      else if n < 24 then bit c (n - 16) else bit d (n - 24))" for a b c d n
    by (auto simp: p_def bit_simps dest: bit_imp_le_length)
  have le: "p (ucast w) (ucast (drop_bit 8 w)) (ucast (drop_bit 16 w)) (ucast (drop_bit 24 w)) = w"
    by (rule bit_eqI) (auto simp: p bit_simps)
  have be: "bswap32 (p (ucast (drop_bit 24 w)) (ucast (drop_bit 16 w)) (ucast (drop_bit 8 w)) (ucast w)) = w"
    by (rule bit_eqI) (auto simp: p bit_bswap32 bit_simps)
  show ?thesis
    using le be by (simp add: read_u32_def wire32_def load_le_buf4 p_def)
qed

end
