(* ===== verification/XfDecoder.thy ===== *)
theory XfDecoder
  imports CpDecoder CommandReader
begin

text \<open>
  The XF half of gx/register_decoder.cpp: \<open>copy_xf_data\<close> (matrix and light memory),
  \<open>apply_xf_viewport\<close>, \<open>apply_xf_projection\<close> and \<open>handle_xf\<close>, which reads a block of transform-unit
  registers from the stream.  A register write that repeats the cached value is skipped, except in
  the viewport and projection banks.
\<close>

section \<open>Matrix and light memory\<close>

definition copy_floats :: "bytes \<Rightarrow> bool \<Rightarrow> (nat \<Rightarrow> nat) \<Rightarrow> nat \<Rightarrow> f32 list \<Rightarrow> f32 list option" where
  "copy_floats src bigEndian dst n flat =
     for_opt (\<lambda>i fl. do { v \<leftarrow> read_f32 src (i * 4) bigEndian; Some (fl[dst i := v]) }) [0..<n] flat"

definition light_field :: "nat \<Rightarrow> f32 \<Rightarrow> u32 \<Rightarrow> Light \<Rightarrow> Light" where
  "light_field field val ival l =
     (if field = 3 then l\<lparr>lt_color := unpack_color ival\<rparr>
      else if field = 4 then l\<lparr>lt_cosAtt := (lt_cosAtt l)\<lparr>v0 := val\<rparr>\<rparr>
      else if field = 5 then l\<lparr>lt_cosAtt := (lt_cosAtt l)\<lparr>v1 := val\<rparr>\<rparr>
      else if field = 6 then l\<lparr>lt_cosAtt := (lt_cosAtt l)\<lparr>v2 := val\<rparr>\<rparr>
      else if field = 7 then l\<lparr>lt_distAtt := (lt_distAtt l)\<lparr>v0 := val\<rparr>\<rparr>
      else if field = 8 then l\<lparr>lt_distAtt := (lt_distAtt l)\<lparr>v1 := val\<rparr>\<rparr>
      else if field = 9 then l\<lparr>lt_distAtt := (lt_distAtt l)\<lparr>v2 := val\<rparr>\<rparr>
      else if field = 10 then l\<lparr>lt_pos := (lt_pos l)\<lparr>v0 := val\<rparr>\<rparr>
      else if field = 11 then l\<lparr>lt_pos := (lt_pos l)\<lparr>v1 := val\<rparr>\<rparr>
      else if field = 12 then l\<lparr>lt_pos := (lt_pos l)\<lparr>v2 := val\<rparr>\<rparr>
      else if field = 13 then l\<lparr>lt_dir := (lt_dir l)\<lparr>v0 := val\<rparr>\<rparr>
      else if field = 14 then l\<lparr>lt_dir := (lt_dir l)\<lparr>v1 := val\<rparr>\<rparr>
      else if field = 15 then l\<lparr>lt_dir := (lt_dir l)\<lparr>v2 := val\<rparr>\<rparr>
      else l)"

definition copy_light :: "bytes \<Rightarrow> bool \<Rightarrow> nat \<Rightarrow> nat \<Rightarrow> Light \<Rightarrow> Light option" where
  "copy_light src bigEndian startOffset n l =
     for_opt (\<lambda>i l. do { val \<leftarrow> read_f32 src (i * 4) bigEndian;
                         ival \<leftarrow> read_u32 src (i * 4) bigEndian;
                         Some (light_field (startOffset + i) val ival l) }) [0..<n] l"

text \<open>Position matrices, 0x000 to 0x077.\<close>
definition xf_copy_pos :: "nat \<Rightarrow> bytes \<Rightarrow> nat \<Rightarrow> bool \<Rightarrow> 'b gx_ctx \<Rightarrow> 'b gx_ctx option" where
  "xf_copy_pos addr src n bigEndian s =
     (let mtxIdx = addr div 12; startOffset = addr mod 12 in
      if \<not> mtxIdx < MaxPnMtx then Some s
      else if \<not> (startOffset = 0 \<and> n = 12) then Some s
      else do { fl \<leftarrow> copy_floats src bigEndian id n (pn_pos (pnMtx s ! mtxIdx));
                Some (s\<lparr>pnMtx := upd_at (\<lambda>m. m\<lparr>pn_pos := fl\<rparr>) mtxIdx (pnMtx s), stateDirty := True\<rparr>) })"

text \<open>Texture matrices, 0x078 to 0x0EF; two or three rows.\<close>
definition xf_copy_tex :: "nat \<Rightarrow> bytes \<Rightarrow> nat \<Rightarrow> bool \<Rightarrow> 'b gx_ctx \<Rightarrow> 'b gx_ctx option" where
  "xf_copy_tex addr src n bigEndian s =
     (let texBase = addr - 0x078; mtxIdx = texBase div 12; startOffset = texBase mod 12 in
      if \<not> mtxIdx < MaxTexMtx then Some s
      else if \<not> (startOffset = 0 \<and> (n = 8 \<or> n = 12)) then Some s
      else do { fl \<leftarrow> copy_floats src bigEndian id n (texMtxs s ! mtxIdx);
                Some (s\<lparr>texMtxs := (texMtxs s)[mtxIdx := fl], stateDirty := True\<rparr>) })"

text \<open>Normal matrices, 0x400 to 0x459, three columns stored at a stride of four.\<close>
definition xf_copy_nrm :: "nat \<Rightarrow> bytes \<Rightarrow> nat \<Rightarrow> bool \<Rightarrow> 'b gx_ctx \<Rightarrow> 'b gx_ctx option" where
  "xf_copy_nrm addr src n bigEndian s =
     (let nrmBase = addr - 0x400; mtxIdx = nrmBase div 9; startOffset = nrmBase mod 9 in
      if \<not> mtxIdx < MaxPnMtx then Some s
      else if \<not> (startOffset = 0 \<and> n = 9) then Some s
      else do { fl \<leftarrow> copy_floats src bigEndian (\<lambda>i. i div 3 * 4 + i mod 3) n (pn_nrm (pnMtx s ! mtxIdx));
                Some (s\<lparr>pnMtx := upd_at (\<lambda>m. m\<lparr>pn_nrm := fl\<rparr>) mtxIdx (pnMtx s), stateDirty := True\<rparr>) })"

text \<open>Post-transform matrices, 0x500 to 0x5EF.\<close>
definition xf_copy_pt :: "nat \<Rightarrow> bytes \<Rightarrow> nat \<Rightarrow> bool \<Rightarrow> 'b gx_ctx \<Rightarrow> 'b gx_ctx option" where
  "xf_copy_pt addr src n bigEndian s =
     (let ptBase = addr - 0x500; mtxIdx = ptBase div 12; startOffset = ptBase mod 12 in
      if \<not> mtxIdx < MaxPTTexMtx then Some s
      else if \<not> (startOffset = 0 \<and> n = 12) then Some s
      else do { fl \<leftarrow> copy_floats src bigEndian (\<lambda>i. startOffset + i) n (ptTexMtxs s ! mtxIdx);
                Some (s\<lparr>ptTexMtxs := (ptTexMtxs s)[mtxIdx := fl], stateDirty := True\<rparr>) })"

text \<open>Lights, 0x600 to 0x67F, sixteen words each.\<close>
definition xf_copy_light :: "nat \<Rightarrow> bytes \<Rightarrow> nat \<Rightarrow> bool \<Rightarrow> 'b gx_ctx \<Rightarrow> 'b gx_ctx option" where
  "xf_copy_light addr src n bigEndian s =
     (let lightBase = addr - 0x600; lightIdx = lightBase div 0x10; startOffset = lightBase mod 0x10 in
      if \<not> lightIdx < MaxLights then Some s
      else if \<not> startOffset + n \<le> 0x10 then Some s
      else do { l \<leftarrow> copy_light src bigEndian startOffset n (lights s ! lightIdx);
                Some (s\<lparr>lights := (lights s)[lightIdx := l], preparedLightsDirty := True,
                        stateDirty := True\<rparr>) })"

text \<open>The boolean says whether the address belongs to matrix or light memory.\<close>
definition copy_xf_data :: "u32 \<Rightarrow> bytes \<Rightarrow> u32 \<Rightarrow> bool \<Rightarrow> 'b gx_ctx \<Rightarrow> (bool \<times> 'b gx_ctx) option" where
  "copy_xf_data addr src len bigEndian s =
     (let a = unat addr; n = unat len in
      if addr < 0x78 then map_option (Pair True) (xf_copy_pos a src n bigEndian s)
      else if addr < 0x0F0 then map_option (Pair True) (xf_copy_tex a src n bigEndian s)
      else if addr \<ge> 0x400 \<and> addr < 0x45A then map_option (Pair True) (xf_copy_nrm a src n bigEndian s)
      else if addr \<ge> 0x500 \<and> addr < 0x5F0 then map_option (Pair True) (xf_copy_pt a src n bigEndian s)
      else if addr \<ge> 0x600 \<and> addr < 0x680 then map_option (Pair True) (xf_copy_light a src n bigEndian s)
      else Some (False, s))"

section \<open>Viewport and projection\<close>

definition apply_xf_viewport :: "'b gx_backend \<Rightarrow> 'b gx_ctx \<Rightarrow> 'b gx_ctx" where
  "apply_xf_viewport B s =
     (let vp = xfViewport s;
          sx = vp ! 0; sy = vp ! 1; sz = vp ! 2; ox = vp ! 3; oy = vp ! 4; oz = vp ! 5;
          two = f32_of_int 2; c340 = f32_of_int 340; z24Scale = f32_of_int 16777216;
          width = f32_mul sx two; height = f32_mul (f32_neg sy) two
      in be_set_logical_viewport B
        \<lparr>vp_left = f32_sub (f32_sub ox c340) (f32_div width two),
         vp_top = f32_sub (f32_sub oy c340) (f32_div height two),
         vp_width = width, vp_height = height,
         vp_znear = f32_div (f32_sub oz sz) z24Scale, vp_zfar = f32_div oz z24Scale\<rparr> s)"

definition apply_xf_projection :: "gx_enums \<Rightarrow> 'b gx_ctx \<Rightarrow> 'b gx_ctx" where
  "apply_xf_projection g s =
     (let raw = xfProjection s;
          p = (replicate 16 (0 :: f32))[0 := raw ! 0, 5 := raw ! 2, 10 := raw ! 4, 11 := raw ! 5];
          p' = (if projType s = GX_ORTHOGRAPHIC g
                then p[3 := raw ! 1, 7 := raw ! 3, 15 := f32_1]
                else p[2 := raw ! 1, 6 := raw ! 3, 14 := f32_neg f32_1])
      in s\<lparr>proj := p', stateDirty := True\<rparr>)"

section \<open>Registers\<close>

definition amb_update :: "nat \<Rightarrow> u32 \<Rightarrow> ColorChannelState list \<Rightarrow> ColorChannelState list" where
  "amb_update i val cs = upd_at (\<lambda>c. c\<lparr>cs_ambColor := unpack_color val\<rparr>) i cs"

definition mat_update :: "nat \<Rightarrow> u32 \<Rightarrow> ColorChannelState list \<Rightarrow> ColorChannelState list" where
  "mat_update i val cs = upd_at (\<lambda>c. c\<lparr>cs_matColor := unpack_color val\<rparr>) i cs"

definition chan_config :: "u32 \<Rightarrow> ColorChannelConfig" where
  "chan_config val = \<lparr>
     cc_matSrc = bp_get val 1 0, cc_ambSrc = bp_get val 1 6, cc_diffFn = bp_get val 2 7,
     cc_attnFn = (let a = bp_get val 2 9 in
       if a = 1 then GX_AF_SPEC else if a = 3 then GX_AF_SPOT else GX_AF_NONE),
     cc_lightingEnabled = bp_flag val 1\<rparr>"

definition chan_lights :: "u32 \<Rightarrow> u8" where
  "chan_lights val = ucast (bp_get val 4 2 OR push_bit 4 (bp_get val 4 11))"

definition xf_chan :: "u32 \<Rightarrow> u32 \<Rightarrow> 'b gx_ctx \<Rightarrow> 'b gx_ctx" where
  "xf_chan reg val s =
     (let chanId = unat (reg - 0x0E) in
      if chanId < MaxColorChannels then
        mark_pipeline_state_dirty (s\<lparr>
          colorChannelConfig := upd_at (\<lambda>_. chan_config val) chanId (colorChannelConfig s),
          colorChannelState := upd_at (\<lambda>c. c\<lparr>cs_lightMask := chan_lights val\<rparr>) chanId
                                 (colorChannelState s)\<rparr>)
      else s)"

definition rowToSrc :: "u32 list" where
  "rowToSrc = [GX_TG_POS, GX_TG_NRM, GX_TG_COLOR0, GX_TG_BINRM, GX_TG_TANGENT, 4, 5, 6, 7, 8, 9, 10, 11]"

text \<open>The texture-generation register: input form, type and source row.\<close>
definition texgen_update :: "u32 \<Rightarrow> TcgConfig \<Rightarrow> TcgConfig" where
  "texgen_update val t =
     (let prj = bp_flag val 1; form = bp_get val 1 2; tgType = bp_get val 3 4; srcRow = bp_get val 5 7
      in t\<lparr>tcg_inputFormAB11 := (form = 0),
           tcg_type := (if tgType = 0 then (if prj then GX_TG_MTX3x4 else GX_TG_MTX2x4)
                        else if tgType = 1 then bp_get val 3 15 + 2
                        else if tgType = 2 \<or> tgType = 3 then GX_TG_SRTG
                        else tcg_type t),
           tcg_src := (if srcRow < 13 then rowToSrc ! unat srcRow else tcg_src t)\<rparr>)"

definition xf_texgen :: "u32 \<Rightarrow> u32 \<Rightarrow> 'b gx_ctx \<Rightarrow> 'b gx_ctx" where
  "xf_texgen reg val s =
     (let tcIdx = unat (reg - 0x40) in
      if tcIdx < MaxTexCoord then
        mark_pipeline_state_dirty (s\<lparr>tcgs := upd_at (texgen_update val) tcIdx (tcgs s)\<rparr>)
      else s)"

definition xf_post_mtx :: "u32 \<Rightarrow> u32 \<Rightarrow> 'b gx_ctx \<Rightarrow> 'b gx_ctx" where
  "xf_post_mtx reg val s =
     (let tcIdx = unat (reg - 0x50) in
      if tcIdx < MaxTexCoord then
        mark_pipeline_state_dirty (s\<lparr>tcgs := upd_at (\<lambda>t. t\<lparr>tcg_postMtx := bp_get val 6 0 + 64,
           tcg_normalize := bp_flag val 8\<rparr>) tcIdx (tcgs s)\<rparr>)
      else s)"

text \<open>The registers without an effect on the viewport or the projection.\<close>
definition xf_reg_decode :: "u32 \<Rightarrow> u32 \<Rightarrow> 'b gx_ctx \<Rightarrow> 'b gx_ctx" where
  "xf_reg_decode reg val s =
     (if reg = 0x00 then s\<lparr>xfError := val\<rparr>
      else if reg = 0x08 then s
      else if reg = 0x09 then s\<lparr>numChans := ucast val, stateDirty := True\<rparr>
      else if reg = 0x0A then
        s\<lparr>colorChannelState := amb_update GX_ALPHA0 val (amb_update GX_COLOR0 val (colorChannelState s)),
          stateDirty := True\<rparr>
      else if reg = 0x0B then
        s\<lparr>colorChannelState := amb_update GX_ALPHA1 val (amb_update GX_COLOR1 val (colorChannelState s)),
          stateDirty := True\<rparr>
      else if reg = 0x0C then
        s\<lparr>colorChannelState := mat_update GX_ALPHA0 val (mat_update GX_COLOR0 val (colorChannelState s)),
          stateDirty := True\<rparr>
      else if reg = 0x0D then
        s\<lparr>colorChannelState := mat_update GX_ALPHA1 val (mat_update GX_COLOR1 val (colorChannelState s)),
          stateDirty := True\<rparr>
      else if 0x0E \<le> reg \<and> reg \<le> 0x11 then xf_chan reg val s
      else if reg = 0x12 then mark_pipeline_state_dirty (s\<lparr>dualTex := val\<rparr>)
      else if reg = 0x18 then
        mark_pipeline_state_dirty
          (s\<lparr>currentPnMtx := bp_get val 6 0 div 3, tcgs := tex_mtx_indices val 0 6 (tcgs s)\<rparr>)
      else if reg = 0x19 then
        mark_pipeline_state_dirty (s\<lparr>tcgs := tex_mtx_indices val 4 0 (tcgs s)\<rparr>)
      else if reg = 0x3F then mark_pipeline_state_dirty (s\<lparr>numTexGens := ucast val\<rparr>)
      else if 0x40 \<le> reg \<and> reg \<le> 0x4F then xf_texgen reg val s
      else if 0x50 \<le> reg \<and> reg \<le> 0x5F then xf_post_mtx reg val s
      else s)"

text \<open>One register of the block: cache lookup and store, skip, decode; the two flags record
  that the viewport or the projection has to be applied.\<close>
definition xf_reg_write ::
  "u32 \<Rightarrow> u32 \<Rightarrow> bool \<times> bool \<times> 'b gx_ctx \<Rightarrow> bool \<times> bool \<times> 'b gx_ctx" where
  "xf_reg_write reg val st =
     (let (vpu, pju, s) = st;
          cacheable = (unat reg < length (xfRegCache s));
          unchanged = (cacheable \<and> xfRegMatches s reg val);
          s1 = (if cacheable then storeXfReg reg val s else s)
      in if unchanged \<and> (reg \<le> 0x19 \<or> reg \<ge> 0x3F) then (vpu, pju, s1)
         else if 0x1A \<le> reg \<and> reg \<le> 0x1F then
           (True, pju, s1\<lparr>xfViewport := (xfViewport s1)[unat (reg - 0x1A) := val]\<rparr>)
         else if 0x20 \<le> reg \<and> reg \<le> 0x26 then
           (let projOff = unat (reg - 0x20) in
            if projOff < length (xfProjection s1)
            then (vpu, True, s1\<lparr>xfProjection := (xfProjection s1)[projOff := val]\<rparr>)
            else (vpu, True, s1\<lparr>projType := val\<rparr>))
         else (vpu, pju, xf_reg_decode reg val s1))"

definition xf_write_block ::
  "gx_enums \<Rightarrow> 'b gx_backend \<Rightarrow> u32 \<Rightarrow> bytes \<Rightarrow> nat \<Rightarrow> bool \<Rightarrow> 'b gx_ctx \<Rightarrow> 'b gx_ctx option" where
  "xf_write_block g B xfAddr src count bigEndian s = do {
     (vpu, pju, s1) \<leftarrow> for_opt (\<lambda>i st. do { val \<leftarrow> read_u32 src (i * 4) bigEndian;
                                          Some (xf_reg_write (xfAddr + of_nat i) val st) })
                            [0..<count] (False, False, s);
     let s2 = (if vpu then apply_xf_viewport B s1 else s1);
     let s3 = (if pju then apply_xf_projection g s2 else s2);
     Some s3 }"

definition handle_xf ::
  "gx_enums \<Rightarrow> 'b gx_backend \<Rightarrow> bytes \<Rightarrow> u32 \<Rightarrow> u32 \<Rightarrow> bool \<Rightarrow> 'b gx_ctx \<Rightarrow> (u32 \<times> 'b gx_ctx) option" where
  "handle_xf g B d pos sz bigEndian s =
     (if pos > sz \<or> sz - pos < 4 then Some (sz, s)
      else do {
        header \<leftarrow> read_u32 d (unat pos) bigEndian;
        let pos1 = pos + 4;
        let count = (drop_bit 16 header AND 0xFFFF) + 1;
        let addr = header AND 0xFFFF;
        let dataBytes = count * 4;
        if sz - pos1 < dataBytes then Some (sz, s)
        else do {
          let xfData = at_offset d (unat pos1);
          (handled, s1) \<leftarrow> copy_xf_data addr xfData count bigEndian s;
          s2 \<leftarrow> (if handled then Some s1
                else if addr \<ge> 0x1000 then
                  xf_write_block g B (addr - 0x1000) xfData (unat count) bigEndian s1
                else Some s1);
          Some (pos1 + dataBytes, s2) } })"

end
