(* ===== verification/XfLemmas.thy ===== *)
theory XfLemmas
  imports XfDecoder
begin

text \<open>
  Facts about the XF decoder: reads inside the block succeed, shape and ranges are kept, and the
  coherence invariant of the XF register cache, \<open>xf_coherent\<close>: for every register with skip
  semantics whose cached value is valid, the decoded state is the one that value decodes to, so
  that skipping a repeated write loses nothing.
\<close>

section \<open>Reads\<close>

lemma at_offset_readable: "readable b (p + n) \<Longrightarrow> readable (at_offset b p) n"
  by (auto simp: readable_def at_offset_def)

lemma copy_floats_total:
  assumes "readable src (n * 4)"
  shows "\<exists>fl'. copy_floats src be dst n fl = Some fl'"
proof -
  have "copy_floats src be dst n fl \<noteq> None"
    unfolding copy_floats_def
  proof (rule for_opt_total)
    fix i x assume "i \<in> set [0..<n]"
    hence "i * 4 + 4 \<le> n * 4" by simp
    thus "do { v \<leftarrow> read_f32 src (i * 4) be; Some (x[dst i := v]) } \<noteq> None"
      using read_total(4)[OF assms, of "i * 4" be] by auto
  qed
  thus ?thesis by simp
qed

lemma copy_floats_length: "copy_floats src be dst n fl = Some fl' \<Longrightarrow> length fl' = length fl"
  unfolding copy_floats_def
  by (erule for_opt_invariant[where P = "\<lambda>x. length x = length fl"]) (auto split: bind_splits)

lemma copy_light_total:
  assumes "readable src (n * 4)"
  shows "\<exists>l'. copy_light src be k n l = Some l'"
proof -
  have "copy_light src be k n l \<noteq> None"
    unfolding copy_light_def
  proof (rule for_opt_total)
    fix i x assume "i \<in> set [0..<n]"
    hence "i * 4 + 4 \<le> n * 4" by simp
    then obtain v where "read_u32 src (i * 4) be = Some v"
      using read_total(2)[OF assms] by blast
    thus "do { val \<leftarrow> read_f32 src (i * 4) be; ival \<leftarrow> read_u32 src (i * 4) be;
               Some (light_field (k + i) val ival x) } \<noteq> None"
      by (simp add: read_f32_def)
  qed
  thus ?thesis by simp
qed

lemmas xf_copy_defs = xf_copy_pos_def xf_copy_tex_def xf_copy_nrm_def xf_copy_pt_def
  xf_copy_light_def

lemma xf_copy_total:
  assumes "readable src (n * 4)"
  shows "\<exists>t. xf_copy_pos a src n be s = Some t" "\<exists>t. xf_copy_tex a src n be s = Some t"
    "\<exists>t. xf_copy_nrm a src n be s = Some t" "\<exists>t. xf_copy_pt a src n be s = Some t"
    "\<exists>t. xf_copy_light a src n be s = Some t"
proof -
  have f: "\<exists>y. Option.bind (copy_floats src be dst n fl) (\<lambda>x. Some (F x)) = Some y" for dst fl F
    using copy_floats_total[OF assms, of be dst fl] by auto
  have l: "\<exists>y. Option.bind (copy_light src be k n l) (\<lambda>x. Some (F x)) = Some y" for k l F
    using copy_light_total[OF assms, of be k l] by auto
  show "\<exists>t. xf_copy_pos a src n be s = Some t"
    unfolding xf_copy_pos_def Let_def by (intro if_pred[where P = "\<lambda>x. \<exists>t. x = Some t"] f) simp_all
  show "\<exists>t. xf_copy_tex a src n be s = Some t"
    unfolding xf_copy_tex_def Let_def by (intro if_pred[where P = "\<lambda>x. \<exists>t. x = Some t"] f) simp_all
  show "\<exists>t. xf_copy_nrm a src n be s = Some t"
    unfolding xf_copy_nrm_def Let_def by (intro if_pred[where P = "\<lambda>x. \<exists>t. x = Some t"] f) simp_all
  show "\<exists>t. xf_copy_pt a src n be s = Some t"
    unfolding xf_copy_pt_def Let_def by (intro if_pred[where P = "\<lambda>x. \<exists>t. x = Some t"] f) simp_all
  show "\<exists>t. xf_copy_light a src n be s = Some t"
    unfolding xf_copy_light_def Let_def by (intro if_pred[where P = "\<lambda>x. \<exists>t. x = Some t"] l) simp_all
qed

lemma copy_xf_data_total:
  assumes "readable src (unat len * 4)"
  shows "\<exists>h t. copy_xf_data addr src len be s = Some (h, t)"
proof -
  note t = xf_copy_total[OF assms, of "unat addr" be s]
  consider "addr < 0x78" | "\<not> addr < 0x78" "addr < 0x0F0" | "\<not> addr < 0x0F0" "addr \<ge> 0x400 \<and> addr < 0x45A"
    | "\<not> addr < 0x0F0" "\<not> (addr \<ge> 0x400 \<and> addr < 0x45A)" by blast
  thus ?thesis
    by (cases; use t in \<open>auto simp: copy_xf_data_def Let_def\<close>)
qed

section \<open>What a memory write leaves alone\<close>

text \<open>Matrix and light memory are the only members that \<open>copy_xf_data\<close> changes.\<close>
definition mem_frame :: "'b gx_ctx \<Rightarrow> 'b gx_ctx \<Rightarrow> bool" where
  "mem_frame s t \<longleftrightarrow>
     t = s\<lparr>pnMtx := pnMtx t, texMtxs := texMtxs t, ptTexMtxs := ptTexMtxs t, lights := lights t,
           preparedLightsDirty := preparedLightsDirty t, stateDirty := stateDirty t\<rparr>"

definition mem_shape :: "'b gx_ctx \<Rightarrow> bool" where
  "mem_shape s \<longleftrightarrow> length (pnMtx s) = MaxPnMtx \<and>
     list_all (\<lambda>m. length (pn_pos m) = 12 \<and> length (pn_nrm m) = 12) (pnMtx s) \<and>
     length (lights s) = MaxLights \<and>
     length (texMtxs s) = MaxTexMtx \<and> list_all (\<lambda>m. length m = 12) (texMtxs s) \<and>
     length (ptTexMtxs s) = MaxPTTexMtx \<and> list_all (\<lambda>m. length m = 12) (ptTexMtxs s)"

lemma mem_shape_wf: "wf_shape g s \<Longrightarrow> mem_shape s"
  by (simp add: wf_shape_def mem_shape_def)

lemma mem_frame_wf: "mem_frame s t \<Longrightarrow> mem_shape t \<Longrightarrow> wf_shape g s \<Longrightarrow> wf_shape g t"
  unfolding mem_frame_def by (erule ssubst[where t = t]) (simp add: wf_shape_def mem_shape_def)

lemma xf_copy_pos_props:
  assumes "xf_copy_pos a src n be s = Some t"
  shows "mem_frame s t" "mem_shape s \<Longrightarrow> mem_shape t"
proof -
  show "mem_frame s t"
    using assms by (auto simp: xf_copy_pos_def Let_def mem_frame_def split: if_splits bind_splits)
  show "mem_shape s \<Longrightarrow> mem_shape t"
    using assms
    by (auto simp: xf_copy_pos_def Let_def mem_shape_def upd_at_def list_all_length nth_list_update
        split: if_splits bind_splits dest!: copy_floats_length)
qed

lemma xf_copy_nrm_props:
  assumes "xf_copy_nrm a src n be s = Some t"
  shows "mem_frame s t" "mem_shape s \<Longrightarrow> mem_shape t"
proof -
  show "mem_frame s t"
    using assms by (auto simp: xf_copy_nrm_def Let_def mem_frame_def split: if_splits bind_splits)
  show "mem_shape s \<Longrightarrow> mem_shape t"
    using assms
    by (auto simp: xf_copy_nrm_def Let_def mem_shape_def upd_at_def list_all_length nth_list_update
        split: if_splits bind_splits dest!: copy_floats_length)
qed

lemma xf_copy_tex_props:
  assumes "xf_copy_tex a src n be s = Some t"
  shows "mem_frame s t" "mem_shape s \<Longrightarrow> mem_shape t"
proof -
  show "mem_frame s t"
    using assms by (auto simp: xf_copy_tex_def Let_def mem_frame_def split: if_splits bind_splits)
  show "mem_shape s \<Longrightarrow> mem_shape t"
    using assms
    by (auto simp: xf_copy_tex_def Let_def mem_shape_def list_all_length nth_list_update
        split: if_splits bind_splits dest!: copy_floats_length)
qed

lemma xf_copy_pt_props:
  assumes "xf_copy_pt a src n be s = Some t"
  shows "mem_frame s t" "mem_shape s \<Longrightarrow> mem_shape t"
proof -
  show "mem_frame s t"
    using assms by (auto simp: xf_copy_pt_def Let_def mem_frame_def split: if_splits bind_splits)
  show "mem_shape s \<Longrightarrow> mem_shape t"
    using assms
    by (auto simp: xf_copy_pt_def Let_def mem_shape_def list_all_length nth_list_update
        split: if_splits bind_splits dest!: copy_floats_length)
qed

lemma xf_copy_light_props:
  assumes "xf_copy_light a src n be s = Some t"
  shows "mem_frame s t" "mem_shape s \<Longrightarrow> mem_shape t"
proof -
  show "mem_frame s t"
    using assms by (auto simp: xf_copy_light_def Let_def mem_frame_def split: if_splits bind_splits)
  show "mem_shape s \<Longrightarrow> mem_shape t"
    using assms
    by (auto simp: xf_copy_light_def Let_def mem_shape_def split: if_splits bind_splits)
qed

lemma copy_xf_data_props:
  assumes "copy_xf_data addr src len be s = Some (h, t)"
  shows "mem_frame s t" "mem_shape s \<Longrightarrow> mem_shape t"
proof -
  have r: "mem_frame x x" for x :: "'a gx_ctx" by (simp add: mem_frame_def)
  note p = xf_copy_pos_props xf_copy_nrm_props xf_copy_tex_props xf_copy_pt_props xf_copy_light_props
  show "mem_frame s t"
    using assms by (simp add: copy_xf_data_def Let_def split: if_splits) (auto intro: p r)
  show "mem_shape s \<Longrightarrow> mem_shape t"
    using assms by (simp add: copy_xf_data_def Let_def split: if_splits) (auto intro: p(2,4,6,8,10))
qed

lemma copy_xf_data_wf:
  assumes "copy_xf_data addr src len be s = Some (h, t)"
  shows "wf_shape g s \<Longrightarrow> wf_shape g t" "wf_ctx g s \<Longrightarrow> wf_ctx g t" "wf_tev g t = wf_tev g s"
proof -
  show w: "wf_shape g s \<Longrightarrow> wf_shape g t"
    using copy_xf_data_props[OF assms] mem_frame_wf mem_shape_wf by blast
  note f = copy_xf_data_props(1)[OF assms, unfolded mem_frame_def]
  have "cpRegisterCache t = cpRegisterCache s \<and> cpRegisterCacheValid t = cpRegisterCacheValid s"
    by (subst f, subst f) simp
  thus "wf_ctx g s \<Longrightarrow> wf_ctx g t" using w by (simp add: wf_ctx_def)
  show "wf_tev g t = wf_tev g s" by (subst f) (simp add: wf_tev_def)
qed

section \<open>What a register holds\<close>

text \<open>The registers whose repeated writes are skipped.\<close>
definition xf_skippable :: "u32 \<Rightarrow> bool" where
  "xf_skippable reg \<longleftrightarrow> reg < 0x60 \<and> (reg \<le> 0x19 \<or> reg \<ge> 0x3F)"

text \<open>The state holds what the value \<open>val\<close> of register \<open>reg\<close> decodes to.\<close>
definition xf_holds :: "u32 \<Rightarrow> u32 \<Rightarrow> 'b gx_ctx \<Rightarrow> bool" where
  "xf_holds reg val s \<longleftrightarrow>
     (reg = 0x00 \<longrightarrow> xfError s = val) \<and>
     (reg = 0x09 \<longrightarrow> numChans s = ucast val) \<and>
     (reg = 0x0A \<longrightarrow> cs_ambColor (colorChannelState s ! GX_COLOR0) = unpack_color val \<and>
                     cs_ambColor (colorChannelState s ! GX_ALPHA0) = unpack_color val) \<and>
     (reg = 0x0B \<longrightarrow> cs_ambColor (colorChannelState s ! GX_COLOR1) = unpack_color val \<and>
                     cs_ambColor (colorChannelState s ! GX_ALPHA1) = unpack_color val) \<and>
     (reg = 0x0C \<longrightarrow> cs_matColor (colorChannelState s ! GX_COLOR0) = unpack_color val \<and>
                     cs_matColor (colorChannelState s ! GX_ALPHA0) = unpack_color val) \<and>
     (reg = 0x0D \<longrightarrow> cs_matColor (colorChannelState s ! GX_COLOR1) = unpack_color val \<and>
                     cs_matColor (colorChannelState s ! GX_ALPHA1) = unpack_color val) \<and>
     (0x0E \<le> reg \<and> reg \<le> 0x11 \<longrightarrow>
        colorChannelConfig s ! unat (reg - 0x0E) = chan_config val \<and>
        cs_lightMask (colorChannelState s ! unat (reg - 0x0E)) = chan_lights val) \<and>
     (reg = 0x12 \<longrightarrow> dualTex s = val) \<and>
     (reg = 0x18 \<longrightarrow> currentPnMtx s = bp_get val 6 0 div 3 \<and>
        (\<forall>i<4. tcg_mtx (tcgs s ! i) = bp_get val 6 (6 + i * 6))) \<and>
     (reg = 0x19 \<longrightarrow> (\<forall>i<4. tcg_mtx (tcgs s ! (4 + i)) = bp_get val 6 (i * 6))) \<and>
     (reg = 0x3F \<longrightarrow> numTexGens s = ucast val) \<and>
     (0x40 \<le> reg \<and> reg \<le> 0x47 \<longrightarrow>
        texgen_update val (tcgs s ! unat (reg - 0x40)) = tcgs s ! unat (reg - 0x40)) \<and>
     (0x50 \<le> reg \<and> reg \<le> 0x57 \<longrightarrow>
        tcg_postMtx (tcgs s ! unat (reg - 0x50)) = bp_get val 6 0 + 64 \<and>
        tcg_normalize (tcgs s ! unat (reg - 0x50)) = bp_flag val 8)"

definition xf_coherent :: "'b gx_ctx \<Rightarrow> bool" where
  "xf_coherent s \<longleftrightarrow>
     (\<forall>q. xf_skippable q \<and> xf_valid s q \<longrightarrow> xf_holds q (xfRegCache s ! unat q) s)"

text \<open>Everything the invariant depends on.\<close>
definition same_xf :: "'b gx_ctx \<Rightarrow> 'b gx_ctx \<Rightarrow> bool" where
  "same_xf s t \<longleftrightarrow> xfError t = xfError s \<and> numChans t = numChans s \<and> numTexGens t = numTexGens s \<and>
     colorChannelState t = colorChannelState s \<and> colorChannelConfig t = colorChannelConfig s \<and>
     dualTex t = dualTex s \<and> currentPnMtx t = currentPnMtx s \<and> tcgs t = tcgs s \<and>
     xfRegCache t = xfRegCache s \<and> xfRegCacheValid t = xfRegCacheValid s"

lemma same_xf_refl [simp]: "same_xf s s" by (simp add: same_xf_def)

lemma same_xf_trans: "same_xf s t \<Longrightarrow> same_xf t u \<Longrightarrow> same_xf s u"
  by (simp add: same_xf_def)

lemma same_xf_holds: "same_xf s t \<Longrightarrow> xf_holds q w t = xf_holds q w s"
  by (simp add: same_xf_def xf_holds_def)

lemma same_xf_coherent: "same_xf s t \<Longrightarrow> xf_coherent t = xf_coherent s"
  by (simp add: xf_coherent_def same_xf_holds)
     (simp add: same_xf_def xf_valid_def)

lemma same_xf_mark [simp]: "same_xf s (mark_pipeline_state_dirty t) = same_xf s t"
  by (simp add: same_xf_def mark_pipeline_state_dirty_alt)

lemma same_xf_mem: "mem_frame s t \<Longrightarrow> same_xf s t"
  unfolding mem_frame_def by (erule ssubst[where t = t]) (simp add: same_xf_def)

lemma same_xf_render: "render_frame s t \<Longrightarrow> same_xf s t"
  by (drule render_frame_eq(1), erule ssubst[where t = t]) (simp add: same_xf_def)

lemma nth_tex_mtx_indices:
  "b + 4 \<le> length ts \<Longrightarrow> j < length ts \<Longrightarrow> tex_mtx_indices v b k ts ! j =
     (if b \<le> j \<and> j < b + 4 then (ts ! j)\<lparr>tcg_mtx := bp_get v 6 (k + (j - b) * 6)\<rparr> else ts ! j)"
proof -
  have u: "[0..<4] = [0, 1, 2, 3 :: nat]" by (simp add: upt_rec)
  assume "b + 4 \<le> length ts" "j < length ts"
  moreover have "b \<le> j \<and> j < b + 4 \<longleftrightarrow> j = b \<or> j = b + 1 \<or> j = b + 2 \<or> j = b + 3" by auto
  ultimately show ?thesis
    by (auto simp: tex_mtx_indices_def u)
qed

lemma nat_lt_4: "(\<forall>i<4. P i) \<longleftrightarrow> P 0 \<and> P 1 \<and> P 2 \<and> P (3 :: nat)"
  by (auto simp: numeral_eq_Suc less_Suc_eq)

lemma texgen_update_idem: "texgen_update v (texgen_update v t) = texgen_update v t"
  by (simp add: texgen_update_def Let_def)

lemma texgen_update_fields:
  "tcg_mtx (texgen_update v t) = tcg_mtx t" "tcg_postMtx (texgen_update v t) = tcg_postMtx t"
  "tcg_normalize (texgen_update v t) = tcg_normalize t"
  by (simp_all add: texgen_update_def Let_def)

text \<open>Updating the other members of a coordinate does not disturb its generation register.\<close>
lemma texgen_update_fix:
  "(texgen_update v (t\<lparr>tcg_mtx := a\<rparr>) = t\<lparr>tcg_mtx := a\<rparr>) = (texgen_update v t = t)"
  "(texgen_update v (t\<lparr>tcg_postMtx := b, tcg_normalize := c\<rparr>) = t\<lparr>tcg_postMtx := b, tcg_normalize := c\<rparr>)
   = (texgen_update v t = t)"
  by (cases t, simp add: texgen_update_def Let_def)+

lemma unat_sub_eq: "(a :: u32) \<le> q \<Longrightarrow> unat (q - a) = unat q - unat a"
  by (rule unat_sub)

lemma unat_diff_neq:
  "(a :: u32) \<le> q \<Longrightarrow> a \<le> r \<Longrightarrow> q \<noteq> r \<Longrightarrow> unat (q - a) \<noteq> unat (r - a)"
  by (metis add.commute diff_add_cancel unsigned_word_eqI)

end
