(* ===== verification/XfCoherence.thy ===== *)
theory XfCoherence
  imports XfLemmas
begin

text \<open>
  The register cache of the XF bank is coherent: every decoder operation keeps \<open>xf_coherent\<close>.  A
  register write establishes what its own register holds and leaves every other register's
  state alone; the BP and CP registers that overlap the XF bank invalidate the overlapped slots.
\<close>

definition xf_sizes :: "'b gx_ctx \<Rightarrow> bool" where
  "xf_sizes s \<longleftrightarrow> length (colorChannelState s) = MaxColorChannels \<and>
     length (colorChannelConfig s) = MaxColorChannels \<and> length (tcgs s) = MaxTexCoord \<and>
     length (xfRegCache s) = 96 \<and> length (xfRegCacheValid s) = 2"

lemma xf_sizes_wf: "wf_shape g s \<Longrightarrow> xf_sizes s"
  by (simp add: wf_shape_def xf_sizes_def)

section \<open>A write establishes its register\<close>

text \<open>The register numbers of a bank, one by one.\<close>
lemma xf_banks:
  "0x0E \<le> (r :: u32) \<and> r \<le> 0x11 \<longleftrightarrow> r = 0x0E \<or> r = 0x0F \<or> r = 0x10 \<or> r = 0x11"
  "0x40 \<le> r \<and> r \<le> 0x47 \<longleftrightarrow> r = 0x40 \<or> r = 0x41 \<or> r = 0x42 \<or> r = 0x43 \<or> r = 0x44 \<or>
     r = 0x45 \<or> r = 0x46 \<or> r = 0x47"
  "0x50 \<le> r \<and> r \<le> 0x57 \<longleftrightarrow> r = 0x50 \<or> r = 0x51 \<or> r = 0x52 \<or> r = 0x53 \<or> r = 0x54 \<or>
     r = 0x55 \<or> r = 0x56 \<or> r = 0x57"
  by (simp_all add: word_le_nat_alt word_unat_eq_iff) arith+

lemma xf_holds_mark [simp]: "xf_holds q w (mark_pipeline_state_dirty s) = xf_holds q w s"
  by (rule same_xf_holds) simp

lemmas xf_group_defs = xf_chan_def xf_texgen_def xf_post_mtx_def amb_update_def mat_update_def Let_def

text \<open>The decoded registers, and the ones without an effect.\<close>
definition xf_plain :: "u32 \<Rightarrow> bool" where
  "xf_plain r \<longleftrightarrow> r \<in> {0x00, 0x09, 0x0A, 0x0B, 0x0C, 0x0D, 0x12, 0x18, 0x19, 0x3F}"

lemma xf_plain_cases:
  assumes "xf_plain r"
  obtains "r = 0x00" | "r = 0x09" | "r = 0x0A" | "r = 0x0B" | "r = 0x0C" | "r = 0x0D" | "r = 0x12"
    | "r = 0x18" | "r = 0x19" | "r = 0x3F"
  using assms unfolding xf_plain_def by blast

lemma xf_decode_plain_holds:
  assumes "xf_sizes s" "xf_plain r"
  shows "xf_holds r v (xf_reg_decode r v s)"
  using assms(2)
  by (cases rule: xf_plain_cases)
     (use assms(1) in \<open>simp_all add: xf_sizes_def xf_reg_decode_def xf_holds_def xf_group_defs nat_lt_4
        nth_tex_mtx_indices mark_pipeline_state_dirty_alt\<close>)

lemma xf_decode_plain_other:
  assumes "xf_sizes s" "xf_plain r" "q \<noteq> r"
  shows "xf_holds q w (xf_reg_decode r v s) = xf_holds q w s"
  using assms(2)
proof (cases rule: xf_plain_cases)
qed (use assms(1,3) in \<open>simp_all add: xf_sizes_def xf_reg_decode_def xf_group_defs\<close>,
     use assms(1) in \<open>auto simp: xf_holds_def xf_banks xf_sizes_def nth_tex_mtx_indices nat_lt_4
       texgen_update_fix\<close>)

text \<open>The bank registers.\<close>
lemma xf_decode_chan_holds:
  assumes "xf_sizes s" "0x0E \<le> r \<and> r \<le> 0x11"
  shows "xf_holds r v (xf_reg_decode r v s)"
  using assms(2) unfolding xf_banks
  by (elim disjE)
     (use assms(1) in \<open>simp_all add: xf_sizes_def xf_reg_decode_def xf_holds_def xf_group_defs
        mark_pipeline_state_dirty_alt\<close>)

lemma xf_decode_tg_holds:
  assumes "xf_sizes s" "0x40 \<le> r \<and> r \<le> 0x47"
  shows "xf_holds r v (xf_reg_decode r v s)"
  using assms(2) unfolding xf_banks
  by (elim disjE)
     (use assms(1) in \<open>simp_all add: xf_sizes_def xf_reg_decode_def xf_holds_def xf_group_defs
        mark_pipeline_state_dirty_alt texgen_update_idem\<close>)

lemma xf_decode_pt_holds:
  assumes "xf_sizes s" "0x50 \<le> r \<and> r \<le> 0x57"
  shows "xf_holds r v (xf_reg_decode r v s)"
  using assms(2) unfolding xf_banks
  by (elim disjE)
     (use assms(1) in \<open>simp_all add: xf_sizes_def xf_reg_decode_def xf_holds_def xf_group_defs
        mark_pipeline_state_dirty_alt\<close>)

lemma xf_decode_chan_other:
  assumes "xf_sizes s" "0x0E \<le> r \<and> r \<le> 0x11" "q \<noteq> r"
  shows "xf_holds q w (xf_reg_decode r v s) = xf_holds q w s"
  using assms(2) unfolding xf_banks
  by (elim disjE)
     (use assms(1,3) in \<open>simp_all add: xf_sizes_def xf_reg_decode_def xf_group_defs\<close>,
      use assms(1) in \<open>auto simp: xf_holds_def xf_banks xf_sizes_def\<close>)

lemma xf_decode_tg_other:
  assumes "xf_sizes s" "0x40 \<le> r \<and> r \<le> 0x47" "q \<noteq> r"
  shows "xf_holds q w (xf_reg_decode r v s) = xf_holds q w s"
  using assms(2) unfolding xf_banks
  by (elim disjE)
     (use assms(1,3) in \<open>simp_all add: xf_sizes_def xf_reg_decode_def xf_group_defs\<close>,
      use assms(1) in \<open>auto simp: xf_holds_def xf_banks xf_sizes_def texgen_update_fields nat_lt_4\<close>)

lemma xf_decode_pt_other:
  assumes "xf_sizes s" "0x50 \<le> r \<and> r \<le> 0x57" "q \<noteq> r"
  shows "xf_holds q w (xf_reg_decode r v s) = xf_holds q w s"
  using assms(2) unfolding xf_banks
  by (elim disjE)
     (use assms(1,3) in \<open>simp_all add: xf_sizes_def xf_reg_decode_def xf_group_defs\<close>,
      use assms(1) in \<open>auto simp: xf_holds_def xf_banks xf_sizes_def texgen_update_fix nat_lt_4\<close>)

text \<open>Every other register holds anything and changes nothing.\<close>
lemma xf_decode_inert:
  assumes "\<not> xf_plain r" "\<not> (0x0E \<le> r \<and> r \<le> 0x11)" "\<not> (0x40 \<le> r \<and> r \<le> 0x47)"
    "\<not> (0x50 \<le> r \<and> r \<le> 0x57)"
  shows "xf_holds r v s" "xf_reg_decode r v s = s"
proof -
  show "xf_holds r v s" using assms by (auto simp: xf_holds_def xf_plain_def)
  have tg: "\<not> unat (r - 0x40) < 8" if "0x40 \<le> r" "\<not> r \<le> 0x47"
    using that by (simp add: unat_sub word_le_nat_alt)
  have pt: "\<not> unat (r - 0x50) < 8" if "0x50 \<le> r" "\<not> r \<le> 0x57"
    using that by (simp add: unat_sub word_le_nat_alt)
  show "xf_reg_decode r v s = s"
    using assms tg pt
    by (auto simp: xf_reg_decode_def xf_plain_def xf_texgen_def xf_post_mtx_def Let_def)
qed

lemma xf_decode_holds:
  assumes "xf_sizes s"
  shows "xf_holds r v (xf_reg_decode r v s)"
proof -
  consider "xf_plain r" | "0x0E \<le> r \<and> r \<le> 0x11" | "0x40 \<le> r \<and> r \<le> 0x47" | "0x50 \<le> r \<and> r \<le> 0x57"
    | "\<not> xf_plain r" "\<not> (0x0E \<le> r \<and> r \<le> 0x11)" "\<not> (0x40 \<le> r \<and> r \<le> 0x47)"
      "\<not> (0x50 \<le> r \<and> r \<le> 0x57)" by blast
  thus ?thesis
  proof cases
    case 1
    with assms show ?thesis by (intro xf_decode_plain_holds)
  next
    case 2
    with assms show ?thesis by (intro xf_decode_chan_holds)
  next
    case 3
    with assms show ?thesis by (intro xf_decode_tg_holds)
  next
    case 4
    with assms show ?thesis by (intro xf_decode_pt_holds)
  next
    case 5
    show ?thesis by (rule xf_decode_inert(1)[OF 5])
  qed
qed

lemma xf_decode_other:
  assumes "xf_sizes s" "q \<noteq> r"
  shows "xf_holds q w (xf_reg_decode r v s) = xf_holds q w s"
proof -
  consider "xf_plain r" | "0x0E \<le> r \<and> r \<le> 0x11" | "0x40 \<le> r \<and> r \<le> 0x47" | "0x50 \<le> r \<and> r \<le> 0x57"
    | "\<not> xf_plain r" "\<not> (0x0E \<le> r \<and> r \<le> 0x11)" "\<not> (0x40 \<le> r \<and> r \<le> 0x47)"
      "\<not> (0x50 \<le> r \<and> r \<le> 0x57)" by blast
  thus ?thesis
  proof cases
    case 1
    with assms show ?thesis by (intro xf_decode_plain_other)
  next
    case 2
    with assms show ?thesis by (intro xf_decode_chan_other)
  next
    case 3
    with assms show ?thesis by (intro xf_decode_tg_other)
  next
    case 4
    with assms show ?thesis by (intro xf_decode_pt_other)
  next
    case 5
    show ?thesis by (simp only: xf_decode_inert(2)[OF 5])
  qed
qed

text \<open>Decoding never touches the cache itself.\<close>
lemma xf_decode_cache:
  "xfRegCache (xf_reg_decode r v s) = xfRegCache s"
  "xfRegCacheValid (xf_reg_decode r v s) = xfRegCacheValid s"
  by (simp_all add: xf_reg_decode_def xf_group_defs mark_pipeline_state_dirty_alt)

section \<open>Coherence of a register write\<close>

lemma xf_holds_store [simp]: "xf_holds q w (storeXfReg r v s) = xf_holds q w s"
  by (simp add: storeXfReg_def xf_holds_def)

lemma xf_sizes_store [simp]: "xf_sizes (storeXfReg r v s) = xf_sizes s"
  by (simp add: storeXfReg_def xf_sizes_def)

lemma xf_store_lookup:
  assumes "xf_sizes s" "r < 0x60" "q < 0x60"
  shows "xf_valid (storeXfReg r v s) q \<longleftrightarrow> q = r \<or> xf_valid s q"
    "xfRegCache (storeXfReg r v s) ! unat q = (if q = r then v else xfRegCache s ! unat q)"
proof -
  show "xf_valid (storeXfReg r v s) q \<longleftrightarrow> q = r \<or> xf_valid s q"
    using assms by (simp add: xf_valid_storeXfReg xf_sizes_def)
  have "unat r < 96" using assms(2) by (simp add: word_less_nat_alt)
  moreover have "q = r \<longleftrightarrow> unat q = unat r" using unsigned_word_eqI by blast
  ultimately show "xfRegCache (storeXfReg r v s) ! unat q = (if q = r then v else xfRegCache s ! unat q)"
    using assms(1) by (simp add: storeXfReg_def xf_sizes_def nth_list_update)
qed

lemma xf_valid_cong: "xfRegCacheValid t = xfRegCacheValid s \<Longrightarrow> xf_valid t q = xf_valid s q"
  by (simp add: xf_valid_def)

text \<open>Storing a value that the state then holds keeps the cache coherent.\<close>
lemma xf_coherent_store:
  assumes "xf_sizes s" "xf_coherent s"
    and "xfRegCache t = xfRegCache (storeXfReg r v s)"
    and "xfRegCacheValid t = xfRegCacheValid (storeXfReg r v s)"
    and "r < 0x60" "xf_skippable r \<Longrightarrow> xf_holds r v t"
    and "\<And>q w. q \<noteq> r \<Longrightarrow> xf_skippable q \<Longrightarrow> xf_holds q w t = xf_holds q w s"
  shows "xf_coherent t"
  unfolding xf_coherent_def
proof (intro allI impI, elim conjE)
  fix q assume q: "xf_skippable q" "xf_valid t q"
  hence q60: "q < 0x60" by (simp add: xf_skippable_def)
  have v: "xf_valid (storeXfReg r v s) q" using q(2) assms(4) xf_valid_cong by blast
  show "xf_holds q (xfRegCache t ! unat q) t"
  proof (cases "q = r")
    case True
    thus ?thesis using assms(3,6) q xf_store_lookup(2)[OF assms(1,5) q60] by simp
  next
    case False
    hence "xf_valid s q" using v xf_store_lookup(1)[OF assms(1,5) q60] by simp
    thus ?thesis
      using assms(2,3) assms(7)[OF False q(1)] False q(1) xf_store_lookup(2)[OF assms(1,5) q60]
      by (simp add: xf_coherent_def)
  qed
qed

lemma xf_not_skippable:
  "0x1A \<le> r \<Longrightarrow> r \<le> 0x1F \<Longrightarrow> \<not> xf_skippable r" "0x20 \<le> r \<Longrightarrow> r \<le> 0x26 \<Longrightarrow> \<not> xf_skippable r"
  by (simp_all add: xf_skippable_def word_le_nat_alt)

lemma xf_reg_write_cases:
  assumes "xf_reg_write reg val (a, b, s) = (a', b', t)" "xf_sizes s"
    and s1: "s1 = (if reg < 0x60 then storeXfReg reg val s else s)"
  obtains (skip) "t = s1" "reg < 0x60" "xfRegMatches s reg val"
    | (vp) "t = s1\<lparr>xfViewport := (xfViewport s1)[unat (reg - 0x1A) := val]\<rparr>" "\<not> xf_skippable reg"
    | (pj) "t = s1\<lparr>xfProjection := (xfProjection s1)[unat (reg - 0x20) := val]\<rparr>" "\<not> xf_skippable reg"
    | (pt) "t = s1\<lparr>projType := val\<rparr>" "\<not> xf_skippable reg"
    | (dec) "t = xf_reg_decode reg val s1"
proof -
  have len: "unat reg < length (xfRegCache s) \<longleftrightarrow> reg < 0x60"
    using assms(2) by (simp add: xf_sizes_def word_less_nat_alt)
  define sk where "sk \<longleftrightarrow> (reg < 0x60 \<and> xfRegMatches s reg val) \<and> (reg \<le> 0x19 \<or> reg \<ge> 0x3F)"
  define v where "v \<longleftrightarrow> 0x1A \<le> reg \<and> reg \<le> 0x1F"
  define j where "j \<longleftrightarrow> 0x20 \<le> reg \<and> reg \<le> 0x26"
  have t: "t = (if sk then s1 else if v then s1\<lparr>xfViewport := (xfViewport s1)[unat (reg - 0x1A) := val]\<rparr>
      else if j then (if unat (reg - 0x20) < length (xfProjection s1)
        then s1\<lparr>xfProjection := (xfProjection s1)[unat (reg - 0x20) := val]\<rparr> else s1\<lparr>projType := val\<rparr>)
      else xf_reg_decode reg val s1)"
    using arg_cong[OF assms(1), of "\<lambda>x. snd (snd x)"]
    unfolding xf_reg_write_def Let_def len prod.case s1[symmetric] sk_def[symmetric] v_def[symmetric]
      j_def[symmetric]
    by (simp split: if_split_asm)
  have nv: "v \<Longrightarrow> \<not> xf_skippable reg" and nj: "j \<Longrightarrow> \<not> xf_skippable reg"
    using xf_not_skippable[of reg] by (simp_all add: v_def j_def)
  show thesis
  proof (cases sk)
    case True
    thus thesis using t skip by (simp add: sk_def)
  next
    case nsk: False
    show thesis
    proof (cases v)
      case True
      show thesis by (rule vp) (use t nsk True nv in simp_all)
    next
      case nv: False
      show thesis
      proof (cases j)
        case True
        thus thesis
          using t nsk nv nj pj pt by (cases "unat (reg - 0x20) < length (xfProjection s1)") simp_all
      next
        case False
        thus thesis using t nsk nv dec by simp
      qed
    qed
  qed
qed

lemma xf_reg_write_props:
  fixes s :: "'b gx_ctx"
  assumes "xf_reg_write reg val (a, b, s) = (a', b', t)" "xf_sizes s" "xf_coherent s"
  shows "xf_sizes t" "xf_coherent t"
proof -
  define s1 where "s1 = (if reg < 0x60 then storeXfReg reg val s else s)"
  have z1: "xf_sizes s1" using assms(2) by (simp add: s1_def)
  have h1: "xf_holds q w s1 = xf_holds q w s" for q w by (simp add: s1_def)
  note cases5 = xf_reg_write_cases[OF assms(1,2) s1_def]
  have sz: "xf_sizes (xf_reg_decode reg val s1)"
    using z1 by (simp add: xf_sizes_def xf_reg_decode_def xf_group_defs mark_pipeline_state_dirty_alt)
  show "xf_sizes t"
    by (rule cases5) (use z1 sz in \<open>simp_all add: xf_sizes_def\<close>)
  show "xf_coherent t"
  proof (cases "reg < 0x60")
    case False
    hence s1: "s1 = s" by (simp add: s1_def)
    have "\<not> 0x40 \<le> reg \<or> \<not> reg \<le> 0x4F" "\<not> 0x50 \<le> reg \<or> \<not> reg \<le> 0x5F" "\<not> reg \<le> 0x3F"
      using False by (auto simp: word_le_nat_alt word_less_nat_alt)
    hence "\<not> xf_plain reg" "\<not> (0x0E \<le> reg \<and> reg \<le> 0x11)" "\<not> (0x40 \<le> reg \<and> reg \<le> 0x47)"
      "\<not> (0x50 \<le> reg \<and> reg \<le> 0x57)"
      by (auto simp: xf_plain_def word_le_nat_alt)
    hence d: "xf_reg_decode reg val s = s" by (rule xf_decode_inert(2))
    have "same_xf s t"
      by (rule cases5) (simp_all add: s1 d same_xf_def)
    thus ?thesis using assms(3) same_xf_coherent by blast
  next
    case True
    hence s1: "s1 = storeXfReg reg val s" by (simp add: s1_def)
    have c: "xfRegCache t = xfRegCache s1 \<and> xfRegCacheValid t = xfRegCacheValid s1"
      by (rule cases5) (simp_all add: xf_decode_cache)
    have o1: "xf_holds q w t = xf_holds q w s" if "q \<noteq> reg" for q w
    proof -
      have "t = xf_reg_decode reg val s1 \<or> same_xf s1 t"
        by (rule cases5) (simp_all add: same_xf_def)
      thus ?thesis
        by (auto simp: xf_decode_other[OF z1 that] h1 same_xf_holds[of s1 t])
    qed
    have r1: "xf_holds reg val t" if sk: "xf_skippable reg"
    proof (rule cases5)
      assume t: "t = s1" and m: "xfRegMatches s reg val"
      have "xf_valid s reg" "xfRegCache s ! unat reg = val"
        using m by (simp_all add: xfRegMatches_iff)
      thus ?thesis using assms(3) sk t h1 by (auto simp: xf_coherent_def)
    next
      assume "t = xf_reg_decode reg val s1"
      thus ?thesis using xf_decode_holds[OF z1] by simp
    qed (use sk in simp_all)
    show ?thesis
      by (rule xf_coherent_store[OF assms(2,3) _ _ True r1 o1]) (use c s1 in simp_all)
  qed
qed

lemma same_xf_projection: "same_xf s (apply_xf_projection g s)"
  by (simp add: apply_xf_projection_def Let_def same_xf_def)

lemma same_xf_sizes: "same_xf s t \<Longrightarrow> xf_sizes t = xf_sizes s"
  by (simp add: same_xf_def xf_sizes_def)

text \<open>The ways a block is consumed: not at all, or a memory or register write of its words.\<close>
lemma handle_xf_cases:
  assumes "handle_xf g B d pos sz be s = Some (p, t)"
  obtains (short) "p = sz" "t = s"
    | (block) header h u where "pos \<le> sz" "4 \<le> sz - pos" "read_u32 d (unat pos) be = Some header"
      "((drop_bit 16 header AND 0xFFFF) + 1) * 4 \<le> sz - (pos + 4)"
      "p = pos + 4 + ((drop_bit 16 header AND 0xFFFF) + 1) * 4"
      "copy_xf_data (header AND 0xFFFF) (at_offset d (unat (pos + 4)))
         ((drop_bit 16 header AND 0xFFFF) + 1) be s = Some (h, u)"
      "t = u \<or> (\<not> h \<and> 0x1000 \<le> header AND 0xFFFF \<and>
        xf_write_block g B ((header AND 0xFFFF) - 0x1000) (at_offset d (unat (pos + 4)))
          (unat ((drop_bit 16 header AND 0xFFFF) + 1)) be u = Some t)"
proof (cases "pos > sz \<or> sz - pos < 4")
  case True
  thus thesis using assms short by (simp add: handle_xf_def)
next
  case False
  then obtain header where hd: "read_u32 d (unat pos) be = Some header"
    using assms by (auto simp: handle_xf_def split: bind_splits)
  define c where "c = (drop_bit 16 header AND 0xFFFF) + 1"
  define a where "a = header AND 0xFFFF"
  note r = assms[unfolded handle_xf_def if_not_P[OF False] hd Option.bind.simps Let_def,
      folded c_def a_def]
  show thesis
  proof (cases "sz - (pos + 4) < c * 4")
    case True
    thus thesis using r short by simp
  next
    case F2: False
    then obtain h u where u: "copy_xf_data a (at_offset d (unat (pos + 4))) c be s = Some (h, u)"
      using r by (auto split: bind_splits)
    show thesis
      by (rule block[OF _ _ hd, folded c_def a_def, OF _ _ _ _ u])
         (use False F2 r u in \<open>auto split: if_splits bind_splits\<close>)
  qed
qed

context gx_backend_contract
begin

lemma same_xf_viewport: "same_xf s (apply_xf_viewport B s)"
  unfolding apply_xf_viewport_def Let_def by (rule same_xf_render[OF logical_viewport])

lemma xf_write_block_coherent:
  assumes "xf_write_block g B a src n be s = Some t" "xf_sizes s" "xf_coherent s"
  shows "xf_coherent t"
proof -
  define f where "f = (\<lambda>i (st :: bool \<times> bool \<times> 'b gx_ctx). Option.bind (read_u32 src (i * 4) be)
    (\<lambda>val. Some (xf_reg_write (a + of_nat i) val st)))"
  obtain x y u where l: "for_opt f [0..<n] (False, False, s) = Some (x, y, u)"
    and t: "t = (if y then apply_xf_projection g (if x then apply_xf_viewport B u else u)
                 else (if x then apply_xf_viewport B u else u))"
    using assms(1) unfolding xf_write_block_def f_def[symmetric] Let_def
    by (auto split: bind_splits)
  have "(\<lambda>(_, _, v). xf_sizes v \<and> xf_coherent v) (x, y, u)"
    by (rule for_opt_invariant[OF l])
       (use assms(2,3) in \<open>auto simp: f_def split: bind_splits dest: xf_reg_write_props\<close>)
  hence "xf_coherent u" by simp
  thus ?thesis
    using same_xf_coherent[OF same_xf_viewport] same_xf_coherent[OF same_xf_projection]
    by (auto simp: t)
qed

lemma handle_xf_coherent:
  assumes "handle_xf g B d pos sz be s = Some (p, t)" "xf_sizes s" "xf_coherent s"
  shows "xf_coherent t"
  using assms(1)
proof (cases rule: handle_xf_cases)
  case short
  thus ?thesis using assms(3) by simp
next
  case (block header h u)
  have "same_xf s u" using copy_xf_data_props(1)[OF block(6)] by (rule same_xf_mem)
  hence "xf_coherent u" "xf_sizes u"
    using assms(2,3) same_xf_coherent same_xf_sizes by blast+
  thus ?thesis using block(7) xf_write_block_coherent by blast
qed

end

section \<open>Coherence under the other banks\<close>

lemma same_xf_bp_groups:
  "same_xf s (bp_tev_color e r v s)" "same_xf s (bp_tev_alpha e r v s)"
  "same_xf s (bp_tev_ind r v s)" "same_xf s (bp_tev_order e r v s)"
  "same_xf s (bp_ind_mask v s)" "same_xf s (bp_line_point v s)"
  "same_xf s (bp_ind_scale0 v s)" "same_xf s (bp_ind_scale1 v s)"
  "same_xf s (bp_ind_ref v s)" "same_xf s (bp_sample_pattern r v s)"
  "same_xf s (bp_zmode v s)" "same_xf s (bp_cmode0 v s)" "same_xf s (bp_cmode1 v s)"
  "same_xf s (bp_pe_control v s)" "same_xf s (bp_field_mask v s)"
  "same_xf s (bp_bounding_box r v s)" "same_xf s (bp_rev_bits v s)"
  "same_xf s (bp_load_tlut v s)" "same_xf s (bp_field_mode v s)"
  "same_xf s (bp_alpha_compare v s)" "same_xf s (bp_ksel r v s)"
  "same_xf s (bp_fog0 v s)" "same_xf s (bp_fog1 v s)" "same_xf s (bp_fog2 v s)"
  "same_xf s (bp_fog3 v s)" "same_xf s (bp_fog_color v s)"
  "same_xf s (bp_tev_registers r v s)" "same_xf s (bp_ind_mtx r v s)"
  "same_xf s (bp_su_scale r v s)" "same_xf s (bp_disp_src_xy v s)"
  "same_xf s (bp_disp_src_wh v s)" "same_xf s (bp_disp_dst_width v s)"
  "same_xf s (bp_y_scale v s)" "same_xf s (bp_clear_ar v s)" "same_xf s (bp_clear_gb v s)"
  "same_xf s (bp_clear_z v s)" "same_xf s (bp_z_texture_bias v s)"
  "same_xf s (bp_z_texture v s)" "same_xf s (bp_copy_control v s)"
  "same_xf s (bp_vfilter0 v s)" "same_xf s (bp_vfilter1 v s)"
  "same_xf s (bp_fog_range r v s)"
  by (simp_all add: bp_group_defs Let_def)
     (simp_all add: same_xf_def split: option.split prod.split)

lemma same_xf_bp_texture: "same_xf s (bp_texture r v s)"
  by (simp add: bp_texture_def Let_def same_xf_def split: option.split prod.split)

text \<open>Invalidating a slot may accompany any change of the state that slot describes.\<close>
lemma xf_coherent_invalidate:
  assumes "xf_sizes s" "xf_coherent s" "r < 0x60" "xfRegCache t = xfRegCache s"
    and "\<And>q. q < 0x60 \<Longrightarrow> xf_valid t q \<Longrightarrow> q \<noteq> r \<and> xf_valid s q"
    and "\<And>q w. q \<noteq> r \<Longrightarrow> xf_skippable q \<Longrightarrow> xf_valid t q \<Longrightarrow> xf_holds q w s \<Longrightarrow> xf_holds q w t"
  shows "xf_coherent t"
  using assms by (auto simp: xf_coherent_def xf_skippable_def)

lemma xf_coherent_genmode:
  assumes "xf_sizes s" "xf_coherent s"
  shows "xf_coherent (bp_genmode e v s)"
proof -
  let ?t = "bp_genmode e v s"
  have c: "xfRegCache ?t = xfRegCache s"
    by (simp add: bp_genmode_def Let_def mark_pipeline_state_dirty_alt)
  have val: "xf_valid ?t q \<longleftrightarrow> q \<noteq> 0x3F \<and> q \<noteq> 0x09 \<and> xf_valid s q" if "q < 0x60" for q
  proof -
    have "xf_valid ?t q = xf_valid (invalidateXfReg 0x09 (invalidateXfReg 0x3F s)) q"
      by (rule xf_valid_cong)
         (simp add: bp_genmode_def Let_def mark_pipeline_state_dirty_alt invalidateXfReg_def)
    moreover have "length (xfRegCacheValid s) = 2"
      "length (xfRegCacheValid (invalidateXfReg 0x3F s)) = 2"
      using assms(1) by (simp_all add: xf_sizes_def invalidateXfReg_def)
    ultimately show ?thesis using that by (auto simp: xf_valid_invalidateXfReg)
  qed
  have h: "xf_holds q w ?t = xf_holds q w s" if "q \<noteq> 0x3F" "q \<noteq> 0x09" for q w
    using that by (simp add: bp_genmode_def Let_def) (simp add: xf_holds_def invalidateXfReg_def)
  show ?thesis
    using assms(2) val h unfolding xf_coherent_def c xf_skippable_def by auto
qed

lemma xf_coherent_cp_index:
  assumes "xf_sizes s" "xf_coherent s"
  shows "xf_coherent (cp_matrix_index_a v s)" "xf_coherent (cp_matrix_index_b v s)"
proof -
  have len: "length (xfRegCacheValid s) = 2" using assms(1) by (simp add: xf_sizes_def)
  show "xf_coherent (cp_matrix_index_a v s)"
  proof (rule xf_coherent_invalidate[where r = "0x18", OF assms])
    fix q :: u32 assume q: "q < 0x60" "xf_valid (cp_matrix_index_a v s) q"
    have "xf_valid (cp_matrix_index_a v s) q = xf_valid (invalidateXfReg 0x18 s) q"
      by (rule xf_valid_cong)
         (simp add: cp_matrix_index_a_def mark_pipeline_state_dirty_alt invalidateXfReg_def)
    thus "q \<noteq> 0x18 \<and> xf_valid s q" using q len by (simp add: xf_valid_invalidateXfReg)
  next
    fix q w assume "q \<noteq> 0x18" "xf_holds q w s"
    thus "xf_holds q w (cp_matrix_index_a v s)"
      using assms(1)
      by (simp add: cp_matrix_index_a_def)
         (auto simp: invalidateXfReg_def xf_holds_def xf_banks xf_sizes_def nth_tex_mtx_indices
           nat_lt_4 texgen_update_fix)
  qed (simp_all add: cp_matrix_index_a_def mark_pipeline_state_dirty_alt)
  show "xf_coherent (cp_matrix_index_b v s)"
  proof (rule xf_coherent_invalidate[where r = "0x19", OF assms])
    fix q :: u32 assume q: "q < 0x60" "xf_valid (cp_matrix_index_b v s) q"
    have "xf_valid (cp_matrix_index_b v s) q = xf_valid (invalidateXfReg 0x19 s) q"
      by (rule xf_valid_cong)
         (simp add: cp_matrix_index_b_def mark_pipeline_state_dirty_alt invalidateXfReg_def)
    thus "q \<noteq> 0x19 \<and> xf_valid s q" using q len by (simp add: xf_valid_invalidateXfReg)
  next
    fix q w assume "q \<noteq> 0x19" "xf_holds q w s"
    thus "xf_holds q w (cp_matrix_index_b v s)"
      using assms(1)
      by (simp add: cp_matrix_index_b_def)
         (auto simp: invalidateXfReg_def xf_holds_def xf_banks xf_sizes_def nth_tex_mtx_indices
           nat_lt_4 texgen_update_fix)
  qed (simp_all add: cp_matrix_index_b_def mark_pipeline_state_dirty_alt)
qed

lemma same_xf_cp_groups:
  "same_xf s (cp_vcd_lo e v s)" "same_xf s (cp_vcd_hi e v s)" "same_xf s (cp_vat e f i s)"
  "same_xf s (cp_array_stride e a v s)" "same_xf s (cp_store c v s)"
  by (simp_all add: cp_vcd_lo_def cp_vcd_hi_def cp_vat_def cp_array_stride_def Let_def
      clearVtxSizeCache_def same_xf_def mark_pipeline_state_dirty_alt cp_store_def)

lemma handle_cp_coherent:
  assumes "xf_sizes s" "xf_coherent s"
  shows "xf_coherent (handle_cp e a v s)"
proof -
  have d: "xf_coherent (cp_decode e a v t)" if "xf_sizes t" "xf_coherent t" for t :: "'a gx_ctx"
    unfolding cp_decode_def
    by (intro if_pred[where P = xf_coherent] xf_coherent_cp_index that)
       (use that same_xf_cp_groups same_xf_coherent in blast)+
  have "xf_sizes (cp_store a v s)" "xf_coherent (cp_store a v s)"
    by (simp_all add: assms same_xf_sizes[OF same_xf_cp_groups(5)]
        same_xf_coherent[OF same_xf_cp_groups(5)])
  thus ?thesis
    using assms d by (simp add: handle_cp_def cp_register_write_unchanged_def)
qed

context gx_backend_contract
begin

lemma bp_decode_coherent:
  assumes "xf_sizes s" "xf_coherent s"
  shows "xf_coherent (bp_decode g B r v s)"
proof -
  have sx: "xf_coherent t" if "same_xf s t" for t using assms(2) same_xf_coherent[OF that] by simp
  have sc: "same_xf s (bp_scissor B s)"
    unfolding bp_scissor_def Let_def by (rule same_xf_render[OF logical_scissor])
  have so: "same_xf s (bp_scissor_offset B v s)"
    unfolding bp_scissor_offset_def Let_def
    by (rule same_xf_trans[OF _ same_xf_render[OF logical_scissor]]) (simp add: same_xf_def)
  show ?thesis
    unfolding bp_decode_def bp_switch_def
    by (intro if_pred[where P = xf_coherent] xf_coherent_genmode[OF assms] sx same_xf_bp_groups
        same_xf_bp_texture sc so same_xf_refl)
qed

lemma handle_bp_coherent:
  assumes "xf_sizes s" "xf_coherent s"
  shows "xf_coherent (handle_bp g B v s)"
proof -
  have u: "same_xf s (s\<lparr>bpRegCache := c\<rparr>)" for c by (simp add: same_xf_def)
  have "xf_sizes (s\<lparr>bpRegCache := c\<rparr>)" "xf_coherent (s\<lparr>bpRegCache := c\<rparr>)" for c
    using assms same_xf_sizes[OF u] same_xf_coherent[OF u] by auto
  thus ?thesis
    using assms bp_decode_coherent by (simp add: handle_bp_def Let_def)
qed

end

end
