(* ===== verification/FifoDispatch.thy ===== *)
theory FifoDispatch
  imports XfCoherence
begin

text \<open>
  The command-stream loop of gx/register_dispatch.cpp: \<open>process\<close> decodes one command after another
  and hands it to the register decoders, to \<open>handle_aurora\<close> (the subcommands of this port) or to
  the renderer's draw.  The loop is a partial function: \<^const>\<open>None\<close> is a loop that does not end.
  One iteration, \<open>fifo_step\<close>, either faults (a read outside the buffer or outside host memory),
  ends the loop, throws (only a draw can), or continues at a new position.

  \<open>mem\<close> is host memory, read through the vertex-array pointers by the indexed loads.
\<close>

section \<open>Subcommands\<close>

definition has_bytes :: "u32 \<Rightarrow> u32 \<Rightarrow> u32 \<Rightarrow> bool" where
  "has_bytes pos sz needed \<longleftrightarrow> pos \<le> sz \<and> needed \<le> sz - pos"

fun read_bytes :: "bytes \<Rightarrow> nat \<Rightarrow> nat \<Rightarrow> u8 list option" where
  "read_bytes b p 0 = Some []"
| "read_bytes b p (Suc n) = do { x \<leftarrow> b p; xs \<leftarrow> read_bytes b (Suc p) n; Some (x # xs) }"

text \<open>The string and the new position; \<open>Some (p, None)\<close> is the code's \<open>return false\<close>.\<close>
definition read_string :: "bytes \<Rightarrow> u32 \<Rightarrow> u32 \<Rightarrow> bool \<Rightarrow> (u32 \<times> u8 list option) option" where
  "read_string d pos sz bigEndian =
     (if \<not> has_bytes pos sz 2 then Some (pos, None)
      else do {
        len \<leftarrow> read_u16 d (unat pos) bigEndian;
        let pos1 = pos + 2;
        if \<not> has_bytes pos1 sz (ucast len) then Some (pos1, None)
        else do {
          str \<leftarrow> read_bytes d (unat pos1) (unat len);
          Some (pos1 + ucast len, Some str) } })"

definition aurora_viewport ::
  "'b gx_backend \<Rightarrow> bytes \<Rightarrow> u32 \<Rightarrow> u32 \<Rightarrow> bool \<Rightarrow> 'b gx_ctx \<Rightarrow> (bool \<times> u32 \<times> 'b gx_ctx) option" where
  "aurora_viewport B d pos sz bigEndian s =
     (if \<not> has_bytes pos sz 24 then Some (False, pos, s)
      else do {
        left \<leftarrow> read_f32 d (unat pos) bigEndian;
        top \<leftarrow> read_f32 d (unat (pos + 4)) bigEndian;
        width \<leftarrow> read_f32 d (unat (pos + 8)) bigEndian;
        height \<leftarrow> read_f32 d (unat (pos + 12)) bigEndian;
        nearZ \<leftarrow> read_f32 d (unat (pos + 16)) bigEndian;
        farZ \<leftarrow> read_f32 d (unat (pos + 20)) bigEndian;
        Some (True, pos + 24, be_set_render_viewport B
          \<lparr>vp_left = left, vp_top = top, vp_width = width, vp_height = height,
           vp_znear = nearZ, vp_zfar = farZ\<rparr> s) })"

definition aurora_scissor ::
  "'b gx_backend \<Rightarrow> bytes \<Rightarrow> u32 \<Rightarrow> u32 \<Rightarrow> bool \<Rightarrow> 'b gx_ctx \<Rightarrow> (bool \<times> u32 \<times> 'b gx_ctx) option" where
  "aurora_scissor B d pos sz bigEndian s =
     (if \<not> has_bytes pos sz 16 then Some (False, pos, s)
      else do {
        left \<leftarrow> read_u32 d (unat pos) bigEndian;
        top \<leftarrow> read_u32 d (unat (pos + 4)) bigEndian;
        width \<leftarrow> read_u32 d (unat (pos + 8)) bigEndian;
        height \<leftarrow> read_u32 d (unat (pos + 12)) bigEndian;
        Some (True, pos + 16, be_set_render_scissor B
          \<lparr>cr_x = left, cr_y = top, cr_width = width, cr_height = height\<rparr> s) })"

definition aurora_array_base ::
  "gx_opcodes \<Rightarrow> bytes \<Rightarrow> u32 \<Rightarrow> u32 \<Rightarrow> bool \<Rightarrow> u16 \<Rightarrow> 'b gx_ctx \<Rightarrow> (bool \<times> u32 \<times> 'b gx_ctx) option" where
  "aurora_array_base k d pos sz bigEndian subCmd s =
     (if \<not> has_bytes pos sz 13 then Some (False, pos, s)
      else do {
        let attrIdx = unat (subCmd - GX_LOAD_AURORA_ARRAYBASE k) + GX_VA_POS;
        arrayAddr \<leftarrow> read_u64 d (unat pos) bigEndian;
        arraySize \<leftarrow> read_u32 d (unat (pos + 8)) bigEndian;
        leByte \<leftarrow> d (unat (pos + 12));
        let le = (leByte = 1);
        let a = arrays s ! attrIdx;
        let s1 = (if arr_data a \<noteq> arrayAddr \<or> arr_size a \<noteq> arraySize \<or> arr_le a \<noteq> le then
            mark_pipeline_state_dirty (s\<lparr>arrays := (arrays s)[attrIdx :=
              a\<lparr>arr_data := arrayAddr, arr_size := arraySize, arr_le := le,
                arr_cachedRange := \<lparr>rg_offset = 0, rg_size = 0\<rparr>\<rparr>]\<rparr>)
          else s);
        Some (True, pos + 13, s1) })"

definition texobj_changed :: "GXTexObj \<Rightarrow> GXTexObj \<Rightarrow> bool" where
  "texobj_changed slot nxt \<longleftrightarrow>
     to_data slot \<noteq> to_data nxt \<or> to_mWidth slot \<noteq> to_mWidth nxt \<or> to_mHeight slot \<noteq> to_mHeight nxt \<or>
     to_mFormat slot \<noteq> to_mFormat nxt \<or> to_tlut slot \<noteq> to_tlut nxt \<or> to_flags slot \<noteq> to_flags nxt \<or>
     to_texObjId slot \<noteq> to_texObjId nxt \<or> to_texDataVersion slot \<noteq> to_texDataVersion nxt"

definition set_no_cache :: "bool \<Rightarrow> u8 \<Rightarrow> u8" where
  "set_no_cache v flags = (if v then flags OR 0x80 else flags AND NOT 0x80)"

definition aurora_texobj ::
  "bytes \<Rightarrow> u32 \<Rightarrow> u32 \<Rightarrow> bool \<Rightarrow> 'b gx_ctx \<Rightarrow> (bool \<times> u32 \<times> 'b gx_ctx) option" where
  "aurora_texobj d pos sz bigEndian s =
     (if \<not> has_bytes pos sz 34 then Some (False, pos, s)
      else do {
        texMapId \<leftarrow> d (unat pos);
        if unat texMapId \<ge> MaxTextures then Some (False, pos + 1, s)
        else do {
          let slot = loadedTextures s ! unat texMapId;
          addr \<leftarrow> read_u64 d (unat (pos + 1)) bigEndian;
          w \<leftarrow> read_u32 d (unat (pos + 9)) bigEndian;
          h \<leftarrow> read_u32 d (unat (pos + 13)) bigEndian;
          fmt \<leftarrow> read_u32 d (unat (pos + 17)) bigEndian;
          tlut \<leftarrow> read_u32 d (unat (pos + 21)) bigEndian;
          mips \<leftarrow> d (unat (pos + 25));
          objId \<leftarrow> read_u32 d (unat (pos + 26)) bigEndian;
          ver \<leftarrow> read_u32 d (unat (pos + 30)) bigEndian;
          let fl = (if mips \<noteq> 0 then to_flags slot OR 1 else to_flags slot AND NOT 1);
          let nxt = slot\<lparr>to_data := addr, to_mWidth := w, to_mHeight := h, to_mFormat := fmt,
            to_tlut := tlut, to_texObjId := objId, to_texDataVersion := ver,
            to_flags := set_no_cache False fl\<rparr>;
          let s1 = s\<lparr>loadedTextures := (loadedTextures s)[unat texMapId := nxt]\<rparr>;
          Some (True, pos + 34, if texobj_changed slot nxt then s1\<lparr>stateDirty := True\<rparr> else s1) } })"

definition aurora_tlut ::
  "bytes \<Rightarrow> u32 \<Rightarrow> u32 \<Rightarrow> bool \<Rightarrow> 'b gx_ctx \<Rightarrow> (bool \<times> u32 \<times> 'b gx_ctx) option" where
  "aurora_tlut d pos sz bigEndian s =
     (if \<not> has_bytes pos sz 23 then Some (False, pos, s)
      else do {
        idx \<leftarrow> d (unat pos);
        if unat idx \<ge> MaxTluts then Some (False, pos + 1, s)
        else do {
          addr \<leftarrow> read_u64 d (unat (pos + 1)) bigEndian;
          fmt \<leftarrow> read_u32 d (unat (pos + 9)) bigEndian;
          n \<leftarrow> read_u16 d (unat (pos + 13)) bigEndian;
          objId \<leftarrow> read_u32 d (unat (pos + 15)) bigEndian;
          ver \<leftarrow> read_u32 d (unat (pos + 19)) bigEndian;
          Some (True, pos + 23, s\<lparr>stateDirty := True,
            loadedTluts := upd_at (\<lambda>t. t\<lparr>tl_data := addr, tl_format := fmt, tl_numEntries := n,
              tl_tlutObjId := objId, tl_tlutDataVersion := ver,
              tl_flags := set_no_cache False (tl_flags t)\<rparr>) (unat idx) (loadedTluts s)\<rparr>) } })"

definition aurora_word_call ::
  "(u32 \<Rightarrow> 'b gx_ctx \<Rightarrow> 'b gx_ctx) \<Rightarrow> bytes \<Rightarrow> u32 \<Rightarrow> u32 \<Rightarrow> bool \<Rightarrow> 'b gx_ctx \<Rightarrow>
   (bool \<times> u32 \<times> 'b gx_ctx) option" where
  "aurora_word_call f d pos sz bigEndian s =
     (if \<not> has_bytes pos sz 4 then Some (False, pos, s)
      else do { v \<leftarrow> read_u32 d (unat pos) bigEndian; Some (True, pos + 4, f v s) })"

definition aurora_ptr_call ::
  "(u64 \<Rightarrow> 'b gx_ctx \<Rightarrow> 'b gx_ctx) \<Rightarrow> bytes \<Rightarrow> u32 \<Rightarrow> u32 \<Rightarrow> bool \<Rightarrow> 'b gx_ctx \<Rightarrow>
   (bool \<times> u32 \<times> 'b gx_ctx) option" where
  "aurora_ptr_call f d pos sz bigEndian s =
     (if \<not> has_bytes pos sz 8 then Some (False, pos, s)
      else do { v \<leftarrow> read_u64 d (unat pos) bigEndian; Some (True, pos + 8, f v s) })"

definition aurora_string_call ::
  "(u8 list \<Rightarrow> 'b gx_ctx \<Rightarrow> 'b gx_ctx) \<Rightarrow> bytes \<Rightarrow> u32 \<Rightarrow> u32 \<Rightarrow> bool \<Rightarrow> 'b gx_ctx \<Rightarrow>
   (bool \<times> u32 \<times> 'b gx_ctx) option" where
  "aurora_string_call f d pos sz bigEndian s = do {
     (p, r) \<leftarrow> read_string d pos sz bigEndian;
     Some (case r of None \<Rightarrow> (False, p, s) | Some str \<Rightarrow> (True, p, f str s)) }"

definition handle_aurora ::
  "gx_opcodes \<Rightarrow> 'b gx_backend \<Rightarrow> bytes \<Rightarrow> u32 \<Rightarrow> u32 \<Rightarrow> bool \<Rightarrow> 'b gx_ctx \<Rightarrow>
   (bool \<times> u32 \<times> 'b gx_ctx) option" where
  "handle_aurora k B d pos sz be s =
     (if \<not> has_bytes pos sz 2 then Some (False, pos, s)
      else do {
        subCmd \<leftarrow> read_u16 d (unat pos) be;
        let p = pos + 2;
        if subCmd = GX_LOAD_AURORA_VIEWPORT_RENDER k then aurora_viewport B d p sz be s
        else if subCmd = GX_LOAD_AURORA_SCISSOR_RENDER k then aurora_scissor B d p sz be s
        else if GX_LOAD_AURORA_ARRAYBASE k \<le> subCmd \<and> subCmd \<le> GX_LOAD_AURORA_ARRAYBASE k OR 0x0f then
          aurora_array_base k d p sz be subCmd s
        else if subCmd = GX_LOAD_AURORA_TEXOBJ k then aurora_texobj d p sz be s
        else if subCmd = GX_LOAD_AURORA_TLUT k then aurora_tlut d p sz be s
        else if subCmd = GX_LOAD_AURORA_DESTROY_TEXOBJ k then
          aurora_word_call (be_evict_texture_object B) d p sz be s
        else if subCmd = GX_LOAD_AURORA_DESTROY_TLUT k then
          aurora_word_call (be_evict_tlut_object B) d p sz be s
        else if subCmd = GX_LOAD_AURORA_DESTROY_COPY_TEX k then
          aurora_ptr_call (be_evict_copy_texture B) d p sz be s
        else if subCmd = GX_LOAD_AURORA_INVALIDATE_TEX_ALL k then
          Some (True, p, be_invalidate_static_texture_cache B s)
        else if subCmd = GX_LOAD_AURORA_DEBUG_GROUP_PUSH k then
          aurora_string_call (be_push_debug_group B) d p sz be s
        else if subCmd = GX_LOAD_AURORA_DEBUG_GROUP_POP k then Some (True, p, be_pop_debug_group B s)
        else if subCmd = GX_LOAD_AURORA_DEBUG_MARKER_INSERT k then
          aurora_string_call (be_insert_debug_marker B) d p sz be s
        else Some (False, p, s) })"

section \<open>The loop\<close>

datatype 'b fifo_step =
  StepFault
| StepThrow string "'b gx_ctx"
| StepStop "'b gx_ctx"
| StepNext u32 "'b gx_ctx"

datatype 'b fifo_result =
  FifoFault
| FifoThrow string "'b gx_ctx"
| FifoDone "'b gx_ctx"

definition is_draw_cmd :: "u8 \<Rightarrow> bool" where
  "is_draw_cmd cmd \<longleftrightarrow> 0x80 \<le> cmd \<and> cmd \<le> 0xBF"

definition step_of :: "(bool \<times> u32 \<times> 'b gx_ctx) option \<Rightarrow> 'b fifo_step" where
  "step_of r = (case r of None \<Rightarrow> StepFault
     | Some (ok, p, t) \<Rightarrow> (if ok then StepNext p t else StepStop t))"

text \<open>The array element an indexed load names: offset and byte count.\<close>
definition indexed_span :: "u32 \<Rightarrow> AttrArray \<Rightarrow> u32 \<times> u32" where
  "indexed_span value arr =
     (let srcArrayIdx = drop_bit 16 value;
          len = (ucast ((drop_bit 12 value AND 0x0f) + 1) :: u16)
      in (srcArrayIdx * ucast (arr_stride arr), ucast len * 4))"

definition indexed_ok :: "u32 \<Rightarrow> AttrArray \<Rightarrow> bool" where
  "indexed_ok value arr \<longleftrightarrow>
     (let (off, cnt) = indexed_span value arr in
      \<not> (arr_data arr = 0 \<or> arr_stride arr = 0 \<or> off + cnt > arr_size arr))"

definition load_indexed ::
  "gx_opcodes \<Rightarrow> (u64 \<Rightarrow> u8 option) \<Rightarrow> u8 \<Rightarrow> u32 \<Rightarrow> bool \<Rightarrow> 'b gx_ctx \<Rightarrow> 'b gx_ctx option" where
  "load_indexed k mem opcode value bigEndian s =
     (let arrayType = GX_POS_MTX_ARRAY k + unat ((opcode - GX_LOAD_INDX_A k) div 8);
          arr = arrays s ! arrayType;
          len = (ucast ((drop_bit 12 value AND 0x0f) + 1) :: u16);
          dstAddr = (ucast (value AND 0x0fff) :: u16);
          byteOffset = fst (indexed_span value arr)
      in if \<not> indexed_ok value arr then Some s
         else map_option snd (copy_xf_data (ucast dstAddr)
           (\<lambda>i. mem (arr_data arr + ucast byteOffset + of_nat i)) (ucast len) bigEndian s))"

definition invalidate_vertex_cache :: "'b gx_ctx \<Rightarrow> 'b gx_ctx" where
  "invalidate_vertex_cache s = s\<lparr>
     arrays := fold (\<lambda>i. upd_at (\<lambda>a. a\<lparr>arr_cachedRange := \<lparr>rg_offset = 0, rg_size = 0\<rparr>\<rparr>) i)
                 [GX_VA_POS..<Suc GX_VA_TEX7] (arrays s)\<rparr>"

definition fifo_step ::
  "gx_opcodes \<Rightarrow> gx_enums \<Rightarrow> 'b gx_backend \<Rightarrow> (u64 \<Rightarrow> u8 option) \<Rightarrow> bytes \<Rightarrow> u32 \<Rightarrow> bool \<Rightarrow>
   u32 \<Rightarrow> 'b gx_ctx \<Rightarrow> 'b fifo_step" where
  "fifo_step k g B mem d sz be pos0 s =
     (case d (unat pos0) of None \<Rightarrow> StepFault | Some cmd \<Rightarrow>
      (let pos = pos0 + 1; opcode = cmd AND GX_OPCODE_MASK k in
       if opcode = GX_NOP k then StepNext pos s
       else if opcode = GX_LOAD_BP_REG k AND GX_OPCODE_MASK k then
         (if \<not> has_bytes pos sz 4 then StepStop s
          else case read_u32 d (unat pos) be of None \<Rightarrow> StepFault
             | Some value \<Rightarrow> StepNext (pos + 4) (handle_bp g B value s))
       else if opcode = GX_LOAD_CP_REG k then
         (if \<not> has_bytes pos sz 5 then StepStop s
          else case d (unat pos) of None \<Rightarrow> StepFault
             | Some addr \<Rightarrow> (case read_u32 d (unat (pos + 1)) be of None \<Rightarrow> StepFault
                | Some value \<Rightarrow> StepNext (pos + 5) (handle_cp g addr value s)))
       else if opcode = GX_LOAD_XF_REG k then
         (case handle_xf g B d pos sz be s of None \<Rightarrow> StepFault | Some (p, t) \<Rightarrow> StepNext p t)
       else if opcode = GX_LOAD_INDX_A k \<or> opcode = GX_LOAD_INDX_B k \<or> opcode = GX_LOAD_INDX_C k \<or>
               opcode = GX_LOAD_INDX_D k then
         (if \<not> has_bytes pos sz 4 then StepStop s
          else case read_u32 d (unat pos) be of None \<Rightarrow> StepFault
             | Some value \<Rightarrow> (case load_indexed k mem opcode value be s of None \<Rightarrow> StepFault
                | Some t \<Rightarrow> StepNext (pos + 4) t))
       else if opcode = GX_CMD_CALL_DL k then
         (if \<not> has_bytes pos sz 8 then StepStop s else StepNext (pos + 8) s)
       else if opcode = GX_CMD_INVL_VC k then StepNext pos (invalidate_vertex_cache s)
       else if opcode = GX_LOAD_AURORA k then step_of (handle_aurora k B d pos sz be s)
       else if is_draw_cmd cmd then
         (case be_handle_draw B cmd d pos sz be s of None \<Rightarrow> StepFault
            | Some (Inl e, p, t) \<Rightarrow> StepThrow e t
            | Some (Inr ok, p, t) \<Rightarrow> (if ok then StepNext p t else StepStop t))
       else StepNext pos s))"

partial_function (option) process_loop ::
  "gx_opcodes \<Rightarrow> gx_enums \<Rightarrow> 'b gx_backend \<Rightarrow> (u64 \<Rightarrow> u8 option) \<Rightarrow> bytes \<Rightarrow> u32 \<Rightarrow> bool \<Rightarrow>
   u32 \<Rightarrow> 'b gx_ctx \<Rightarrow> 'b fifo_result option" where
  [code]: "process_loop k g B mem d sz be pos s =
     (if pos < sz then
        (case fifo_step k g B mem d sz be pos s of
           StepFault \<Rightarrow> Some FifoFault
         | StepThrow e t \<Rightarrow> Some (FifoThrow e t)
         | StepStop t \<Rightarrow> Some (FifoDone t)
         | StepNext p t \<Rightarrow> process_loop k g B mem d sz be p t)
      else Some (FifoDone s))"

text \<open>\<open>data = None\<close> is the null pointer.\<close>
definition process ::
  "gx_opcodes \<Rightarrow> gx_enums \<Rightarrow> 'b gx_backend \<Rightarrow> (u64 \<Rightarrow> u8 option) \<Rightarrow> bytes option \<Rightarrow> u32 \<Rightarrow> bool \<Rightarrow>
   'b gx_ctx \<Rightarrow> 'b fifo_result option" where
  "process k g B mem d sz be s =
     (case d of None \<Rightarrow> Some (FifoDone s)
      | Some b \<Rightarrow> process_loop k g B mem b sz be 0 s)"

end
