(* ===== verification/IeeeLemmas.thy ===== *)
theory IeeeLemmas
  imports Ieee Complex_Main
begin

text \<open>
  The standard library's floating-point helpers (\<open>min\<close>, \<open>max\<close>, \<open>clamp\<close>, \<open>floor\<close>, \<open>ceil\<close>, \<open>abs\<close> and
  the conversion to an integer) on the bit patterns of \<open>Ieee\<close>, and the facts about the arithmetic
  the components use: comparison and truncation agree with the real value \<open>rv\<close>, small integers
  are represented exactly, and the operations on finite values never give a NaN.
\<close>

section \<open>Library functions\<close>

definition f32_min :: "f32 \<Rightarrow> f32 \<Rightarrow> f32" where "f32_min a b = (if f32_lt b a then b else a)"
definition f32_max :: "f32 \<Rightarrow> f32 \<Rightarrow> f32" where "f32_max a b = (if f32_lt a b then b else a)"
definition f32_abs :: "f32 \<Rightarrow> f32" where "f32_abs x = x AND 0x7FFFFFFF"
definition f32_le :: "f32 \<Rightarrow> f32 \<Rightarrow> bool" where "f32_le a b \<longleftrightarrow> f32_lt a b \<or> f32_eq a b"
definition f64_min :: "f64 \<Rightarrow> f64 \<Rightarrow> f64" where "f64_min a b = (if f64_lt b a then b else a)"
definition f64_max :: "f64 \<Rightarrow> f64 \<Rightarrow> f64" where "f64_max a b = (if f64_lt a b then b else a)"
definition f64_clamp :: "f64 \<Rightarrow> f64 \<Rightarrow> f64 \<Rightarrow> f64" where
  "f64_clamp v lo hi = (if f64_lt v lo then lo else if f64_lt hi v then hi else v)"

text \<open>An integral result keeps the argument's sign when it is zero.\<close>
definition f64_floor :: "f64 \<Rightarrow> f64" where
  "f64_floor x = (case floor_val (f64_val x) of None \<Rightarrow> x
     | Some i \<Rightarrow> if i = 0 then x AND 0x8000000000000000 else f64_of_int i)"
definition f64_ceil :: "f64 \<Rightarrow> f64" where
  "f64_ceil x = (case floor_val (f_neg_val (f64_val x)) of None \<Rightarrow> x
     | Some i \<Rightarrow> if i = 0 then x AND 0x8000000000000000 else f64_of_int (- i))"

text \<open>The conversion to an integer type truncates; it is undefined outside the type's range.\<close>
definition f64_trunc :: "f64 \<Rightarrow> int option" where "f64_trunc x = trunc_val (f64_val x)"
definition f32_trunc :: "f32 \<Rightarrow> int option" where "f32_trunc x = trunc_val (f32_val x)"

section \<open>Digits\<close>

lemma int_bits_bounds: "0 < n \<Longrightarrow> 2 ^ (int_bits n - 1) \<le> n \<and> n < 2 ^ int_bits n \<and> 0 < int_bits n"
proof (induction n rule: int_bits.induct)
  case (1 n)
  show ?case
  proof (cases "n div 2 > 0")
    case True
    have ih: "2 ^ (int_bits (n div 2) - 1) \<le> n div 2" "n div 2 < 2 ^ int_bits (n div 2)"
      "0 < int_bits (n div 2)" using "1.IH" "1.prems" True by auto
    obtain k where k: "int_bits (n div 2) = Suc k" using ih(3) by (cases "int_bits (n div 2)") auto
    have "int_bits n = Suc (Suc k)" using "1.prems" k by (simp add: int_bits.simps[of n])
    moreover have "2 ^ k \<le> n div 2" "n div 2 < 2 * 2 ^ k" using ih(1,2) k by simp_all
    hence "2 * 2 ^ k \<le> n" "n < 2 * (2 * 2 ^ k)" by linarith+
    ultimately show ?thesis by simp
  next
    case False
    hence "n = 1" using "1.prems" by linarith
    thus ?thesis by (simp add: int_bits.simps)
  qed
qed

lemma int_bits_le: "0 < n \<Longrightarrow> n < 2 ^ k \<Longrightarrow> int_bits n \<le> k"
proof (rule ccontr)
  assume "0 < n" "n < 2 ^ k" "\<not> int_bits n \<le> k"
  hence "k \<le> int_bits n - 1" by simp
  hence "(2::int) ^ k \<le> 2 ^ (int_bits n - 1)" by (simp add: power_increasing)
  thus False using int_bits_bounds[OF \<open>0 < n\<close>] \<open>n < 2 ^ k\<close> by linarith
qed

section \<open>Real values\<close>

fun rv :: "fval \<Rightarrow> real" where
  "rv (FFin s m e) = (if s then - real_of_int m else real_of_int m) * 2 powi e"
| "rv _ = 0"

lemma scale_real: "g \<le> e \<Longrightarrow> real_of_int (a * 2 ^ nat (e - g)) = real_of_int a * 2 powi e / 2 powi g"
  by (simp add: power_int_def[of 2 "e - g", symmetric] power_int_diff flip: power_int_of_nat)
    (simp add: power_int_def power_int_diff[symmetric] field_simps)?

lemma f_lt_rv: "f_lt_val (FFin s m e) (FFin t n d) \<longleftrightarrow> rv (FFin s m e) < rv (FFin t n d)"
proof -
  let ?a = "if s then - m else m" and ?b = "if t then - n else n" and ?g = "min e d"
  have p: "\<not> (2 :: real) powi ?g < 0" by (simp add: not_less)
  have "f_lt_val (FFin s m e) (FFin t n d) \<longleftrightarrow>
      real_of_int (?a * 2 ^ nat (e - ?g)) < real_of_int (?b * 2 ^ nat (d - ?g))"
    by (simp add: Let_def del: of_int_mult)
  also have "\<dots> \<longleftrightarrow> real_of_int ?a * 2 powi e / 2 powi ?g < real_of_int ?b * 2 powi d / 2 powi ?g"
    by (simp only: scale_real min.cobounded1 min.cobounded2)
  also have "\<dots> \<longleftrightarrow> rv (FFin s m e) < rv (FFin t n d)"
    using p by (simp add: divide_less_cancel)
  finally show ?thesis .
qed

lemma trunc_mag:
  fixes m e :: int
  assumes "0 \<le> m"
  defines "v \<equiv> if 0 \<le> e then m * 2 ^ nat e else m div 2 ^ nat (- e)"
  shows "0 \<le> v" "real_of_int v \<le> real_of_int m * 2 powi e"
proof -
  show "0 \<le> v" using assms by (simp add: pos_imp_zdiv_nonneg_iff)
  show "real_of_int v \<le> real_of_int m * 2 powi e"
  proof (cases "0 \<le> e")
    case False
    have "real_of_int (m div 2 ^ nat (- e)) \<le> real_of_int m / real_of_int (2 ^ nat (- e))"
      by (rule real_of_int_div4)
    also have "\<dots> = real_of_int m * 2 powi e"
    proof -
      have "(2 :: real) powi e = 1 / 2 ^ nat (- e)"
        using False by (simp only: power_int_def if_False inverse_eq_divide power_one_over)
      thus ?thesis by simp
    qed
    finally show ?thesis using False by (simp add: v_def)
  qed (simp add: v_def power_int_def)
qed

lemma trunc_val_bounds:
  assumes "x = FFin s m e" "0 \<le> m" "0 \<le> rv x" "rv x \<le> real_of_int T"
  shows "\<exists>i. trunc_val x = Some i \<and> 0 \<le> i \<and> i \<le> T"
proof -
  define v where "v = (if 0 \<le> e then m * 2 ^ nat e else m div 2 ^ nat (- e))"
  have v: "0 \<le> v" "real_of_int v \<le> real_of_int m * 2 powi e" using trunc_mag[OF assms(2)] v_def by auto
  have t: "trunc_val x = Some (if s then - v else v)" by (simp add: assms(1) v_def)
  show ?thesis
  proof (cases s)
    case True
    hence "real_of_int m * 2 powi e \<le> 0" using assms(1,3) by simp
    hence "v = 0" using v by linarith
    moreover have "0 \<le> T" using assms(3,4) by linarith
    ultimately show ?thesis using t by simp
  next
    case False
    hence "real_of_int m * 2 powi e \<le> real_of_int T" using assms(1,4) by simp
    hence "v \<le> T" using v(2) by linarith
    thus ?thesis using v(1) t False by simp
  qed
qed

section \<open>Results of the operations on \<open>double\<close>\<close>

lemma fmt64 [simp]: "prec binary64 = 53" "ebits binary64 = 11" "emin binary64 = - 1074"
  by (simp_all add: binary64_def emin_def)

lemma f64_val_of: "0 \<le> b \<Longrightarrow> b < 2 ^ 64 \<Longrightarrow> f64_val (word_of_int b) = f_decode binary64 b"
  by (simp add: f64_val_def uint_word_of_int)

lemma f_decode_small:
  assumes "0 \<le> b" "b < (2 ^ 11 - 1) * 2 ^ 52"
  shows "f_decode binary64 (f_sign_bit binary64 s + b) =
    (if b div 2 ^ 52 = 0 then FFin s (b mod 2 ^ 52) (- 1074)
     else FFin s (b mod 2 ^ 52 + 2 ^ 52) (b div 2 ^ 52 - 1075))"
    "0 \<le> f_sign_bit binary64 s + b" "f_sign_bit binary64 s + b < 2 ^ 64"
proof -
  have e: "0 \<le> b div 2 ^ 52" "b div 2 ^ 52 < 2 ^ 11 - 1" using assms by auto
  have h: "b div 2 ^ 63 = 0" using assms by simp
  have sg: "f_sign_bit binary64 s = (if s then 1 else 0) * 2 ^ 63" by (simp add: f_sign_bit_def)
  have 1: "(f_sign_bit binary64 s + b) div 2 ^ 63 = (if s then 1 else 0)"
    using h by (simp add: sg)
  have 2: "(f_sign_bit binary64 s + b) mod 2 ^ 52 = b mod 2 ^ 52"
    by (simp add: sg mod_add_left_eq[symmetric])
  have 3: "(f_sign_bit binary64 s + b) div 2 ^ 52 mod 2 ^ 11 = b div 2 ^ 52"
  proof -
    have "(f_sign_bit binary64 s + b) div 2 ^ 52 = (if s then 1 else 0) * 2 ^ 11 + b div 2 ^ 52"
      by (simp add: sg)
    moreover have "((if s then 1 else 0) * 2 ^ 11 + b div 2 ^ 52) mod 2 ^ 11 = b div 2 ^ 52 mod 2 ^ 11"
      by simp
    moreover have "b div 2 ^ 52 mod 2 ^ 11 = b div 2 ^ 52" using e by simp
    ultimately show ?thesis by simp
  qed
  show "f_decode binary64 (f_sign_bit binary64 s + b) =
    (if b div 2 ^ 52 = 0 then FFin s (b mod 2 ^ 52) (- 1074)
     else FFin s (b mod 2 ^ 52 + 2 ^ 52) (b div 2 ^ 52 - 1075))"
  proof -
    have nm: "(53 :: nat) - 1 = 52" "(52 :: nat) + 11 = 63"
      "b div 2 ^ 52 - 1 + - 1074 = b div 2 ^ 52 - 1075" by simp_all
    have "b div 2 ^ 52 \<noteq> 2 ^ 11 - 1" using e(2) by (rule less_imp_neq)
    moreover have "((if s then 1 else 0) mod 2 = (1 :: int)) = s" by simp
    ultimately show ?thesis
      unfolding f_decode_def Let_def fmt64 nm 1 2 3 by (simp only: if_False if_True)
  qed
  show "0 \<le> f_sign_bit binary64 s + b" "f_sign_bit binary64 s + b < 2 ^ 64"
    using assms by (simp_all add: sg)
qed

lemma f_round64:
  assumes "0 \<le> m"
  shows "(\<exists>t n d. f64_val (word_of_int (f_round binary64 s m e)) = FFin t n d \<and> 0 \<le> n) \<or>
    (\<exists>t. f64_val (word_of_int (f_round binary64 s m e)) = FInf t)"
proof -
  define q where "q = max (e + int (int_bits m) - 53) (- 1074)"
  define M where "M = (if q \<le> e then m * 2 ^ nat (e - q) else round_shift m (nat (q - e)))"
  define b where "b = M + (q + 1074) * 2 ^ 52"
  have M: "0 \<le> M"
    using assms by (auto simp: M_def round_shift_def Let_def pos_imp_zdiv_nonneg_iff add_nonneg_nonneg)
  have "- 1074 \<le> q" by (simp add: q_def)
  hence b0: "0 \<le> b" using M by (simp add: b_def)
  have r: "f_round binary64 s m e = (if M = 0 then f_sign_bit binary64 s
     else if b \<ge> (2 ^ 11 - 1) * 2 ^ 52 then f_inf binary64 s else f_sign_bit binary64 s + b)"
  proof -
    have nm: "q - - 1074 = q + 1074" "(53 :: nat) - 1 = 52" by simp_all
    show ?thesis
      unfolding f_round_def Let_def fmt64 of_nat_numeral q_def[symmetric] M_def[symmetric] nm b_def[symmetric] ..
  qed
  have fin: "\<exists>t n d. f64_val (word_of_int (f_sign_bit binary64 s + c)) = FFin t n d \<and> 0 \<le> n"
    if "0 \<le> c" "c < (2 ^ 11 - 1) * 2 ^ 52" for c
  proof -
    have "f64_val (word_of_int (f_sign_bit binary64 s + c)) = f_decode binary64 (f_sign_bit binary64 s + c)"
      by (rule f64_val_of[OF f_decode_small(2,3)[OF that]])
    also have "\<dots> = (if c div 2 ^ 52 = 0 then FFin s (c mod 2 ^ 52) (- 1074)
        else FFin s (c mod 2 ^ 52 + 2 ^ 52) (c div 2 ^ 52 - 1075))"
      by (rule f_decode_small(1)[OF that])
    finally show ?thesis using that(1) by simp
  qed
  have inf: "f64_val (word_of_int (f_inf binary64 s)) = FInf s"
    by (cases s) (simp_all add: f64_val_def f_inf_def f_sign_bit_def f_decode_def)
  show ?thesis
    using fin[of 0] fin[of b] b0 inf by (auto simp: r)
qed

lemma f_round64_nan: "0 \<le> m \<Longrightarrow> f64_val (word_of_int (f_round binary64 s m e)) \<noteq> FNan"
  using f_round64[of m s e] by auto

lemma f64_val_nonneg: "f64_val x = FFin s m e \<Longrightarrow> 0 \<le> m"
  by (auto simp: f64_val_def f_decode_def Let_def split: if_splits)

text \<open>Integers below \<open>2 ^ 53\<close> are exact.\<close>
lemma f64_of_int_exact:
  assumes "0 \<le> T" "T < 2 ^ 53"
  obtains m e where "f64_val (f64_of_int T) = FFin False m e" "rv (FFin False m e) = real_of_int T"
    "0 \<le> m" "m = 0 \<longleftrightarrow> T = 0"
proof (cases "T = 0")
  case True
  have "f64_val (f64_of_int T) = FFin False 0 (- 1074)"
    by (simp add: True f64_of_int_def f_round_def Let_def round_shift_def f64_val_def f_sign_bit_def
        int_bits.simps[of 0] f_decode_def)
  thus ?thesis by (rule that) (simp_all add: True)
next
  case False
  hence T: "0 < T" using assms by simp
  define k where "k = int_bits T"
  have k: "2 ^ (k - 1) \<le> T" "T < 2 ^ k" "0 < k" "k \<le> 53"
    using int_bits_bounds[OF T] int_bits_le[OF T assms(2)] by (simp_all add: k_def)
  define M where "M = T * 2 ^ (53 - k)"
  have "(2 :: int) ^ (k - 1) * 2 ^ (53 - k) = 2 ^ 52" using k(3,4) by (simp flip: power_add)
  moreover have "(2 :: int) ^ k * 2 ^ (53 - k) = 2 ^ 53" using k(3,4) by (simp flip: power_add)
  moreover have "(2 :: int) ^ (k - 1) * 2 ^ (53 - k) \<le> M" "M < 2 ^ k * 2 ^ (53 - k)"
    using k(1,2) by (simp_all add: M_def)
  ultimately have M: "2 ^ 52 \<le> M" "M < 2 ^ 53" by simp_all
  define b where "b = M + (int k - 53 + 1074) * 2 ^ 52"
  have r: "f_round binary64 False T 0 = f_sign_bit binary64 False + b"
  proof -
    have q: "max (0 + int k - 53) (- 1074) = int k - 53" by simp
    have "nat (0 - (int k - 53)) = 53 - k" by simp
    moreover have "b < (2 ^ 11 - 1) * 2 ^ 52" using M(2) k(4) by (simp add: b_def)
    moreover have "int k - 53 \<le> 0" using k(4) by simp
    ultimately show ?thesis
      using M(1) by (simp add: f_round_def Let_def k_def[symmetric] q M_def[symmetric] b_def)
  qed
  have bb: "0 \<le> b" "b < (2 ^ 11 - 1) * 2 ^ 52" using M k(4) by (simp_all add: b_def)
  have d: "b div 2 ^ 52 = int k + 1022" "b mod 2 ^ 52 = M - 2 ^ 52"
  proof -
    have e: "b = (M - 2 ^ 52) + (int k + 1022) * 2 ^ 52" by (simp add: b_def algebra_simps)
    show "b div 2 ^ 52 = int k + 1022" unfolding e using M by simp
    have "b mod 2 ^ 52 = (M - 2 ^ 52) mod 2 ^ 52" unfolding e by (rule mod_mult_self1)
    also have "\<dots> = M - 2 ^ 52" by (rule mod_pos_pos_trivial) (use M in simp_all)
    finally show "b mod 2 ^ 52 = M - 2 ^ 52" .
  qed
  have v: "f64_val (f64_of_int T) = FFin False M (int k - 53)"
  proof -
    have "f64_of_int T = word_of_int (f_sign_bit binary64 False + b)"
      using T r by (simp only: f64_of_int_def abs_of_pos) simp
    moreover have "int k + 1022 \<noteq> 0" "int k + 1022 - 1075 = int k - 53" "M - 2 ^ 52 + 2 ^ 52 = M" by simp_all
    ultimately show ?thesis
      by (simp only: f64_val_of[OF f_decode_small(2,3)[OF bb]] f_decode_small(1)[OF bb] d if_False)
  qed
  have "(2 :: real) ^ (53 - k) * 2 powi (int k - 53) = 1"
  proof -
    have "(2 :: real) ^ (53 - k) = 2 powi (53 - int k)"
      using k(4) by (simp add: power_int_def nat_diff_distrib)
    thus ?thesis by (simp flip: power_int_add)
  qed
  hence "rv (FFin False M (int k - 53)) = real_of_int T" by (simp add: M_def)
  thus ?thesis using v M T by (intro that) (auto simp: M_def)
qed

lemma f64_mul_div_not_nan:
  assumes "0 \<le> T" "T < 2 ^ 53" "0 \<le> v" "v < 2 ^ 53" "0 < L" "L < 2 ^ 53"
  shows "f64_val (f64_div (f64_mul (f64_of_int v) (f64_of_int T)) (f64_of_int L)) \<noteq> FNan"
proof -
  obtain a i where a: "f64_val (f64_of_int v) = FFin False a i" "0 \<le> a"
    by (rule f64_of_int_exact[OF assms(3,4)])
  obtain c j where c: "f64_val (f64_of_int T) = FFin False c j" "0 \<le> c"
    by (rule f64_of_int_exact[OF assms(1,2)])
  obtain d l where d: "f64_val (f64_of_int L) = FFin False d l" "0 \<le> d" "d \<noteq> 0"
    by (rule f64_of_int_exact[of L]) (use assms in auto)
  let ?x = "f64_mul (f64_of_int v) (f64_of_int T)"
  have z: "f64_val (word_of_int (f_sign_bit binary64 s)) = FFin s 0 (- 1074)" for s
    by (cases s) (simp_all add: f64_val_def f_sign_bit_def f_decode_def)
  have i: "f64_val (word_of_int (f_inf binary64 s)) = FInf s" for s
    by (cases s) (simp_all add: f64_val_def f_inf_def f_sign_bit_def f_decode_def)
  have "(\<exists>s m e. f64_val ?x = FFin s m e \<and> 0 \<le> m) \<or> (\<exists>s. f64_val ?x = FInf s)"
    using f_round64[of "a * c" False "i + j"] a c by (auto simp: f64_mul_def z)
  thus ?thesis
  proof (elim disjE exE conjE)
    fix s m e assume x: "f64_val ?x = FFin s m e" "0 \<le> m"
    let ?q = "m * 2 ^ (prec binary64 + 2 + int_bits d)"
    have q: "0 \<le> 2 * (?q div d) + (if ?q mod d = 0 then 0 else 1)"
    proof -
      have "0 \<le> ?q div d" using x(2) d(2,3) by (intro div_int_pos_iff[THEN iffD2]) simp
      thus ?thesis by (auto simp del: fmt64)
    qed
    show ?thesis
      unfolding f64_div_def x d(1) f_div_val.simps Let_def
      using d(3) f_round64_nan[OF q] by (simp only: if_False if_True) (simp add: z del: fmt64)
  next
    fix s assume "f64_val ?x = FInf s"
    thus ?thesis by (simp add: f64_div_def d i)
  qed
qed

lemma f64_trunc_clamp:
  assumes "0 \<le> T" "T < 2 ^ 53" "f64_val n \<noteq> FNan"
  shows "\<exists>i. f64_trunc (f64_clamp n 0 (f64_of_int T)) = Some i \<and> 0 \<le> i \<and> i \<le> T"
proof -
  obtain c j where c: "f64_val (f64_of_int T) = FFin False c j" "0 \<le> c"
    "rv (FFin False c j) = real_of_int T"
    by (rule f64_of_int_exact[OF assms(1,2)])
  have z: "f64_val 0 = FFin False 0 (- 1074)" by (simp add: f64_val_def f_decode_def)
  have lo: "\<exists>i. f64_trunc 0 = Some i \<and> 0 \<le> i \<and> i \<le> T" using assms(1) by (simp add: f64_trunc_def z)
  have hi: "\<exists>i. f64_trunc (f64_of_int T) = Some i \<and> 0 \<le> i \<and> i \<le> T"
    unfolding f64_trunc_def c(1) by (rule trunc_val_bounds[OF refl c(2)]) (use c(3) assms in simp_all)
  have mid: "\<exists>i. f64_trunc n = Some i \<and> 0 \<le> i \<and> i \<le> T"
    if "\<not> f64_lt n 0" "\<not> f64_lt (f64_of_int T) n"
  proof (cases "f64_val n")
    case (FFin s m e)
    have "0 \<le> rv (FFin s m e)" "rv (FFin s m e) \<le> real_of_int T"
      using that c(3) by (simp_all only: f64_lt_def FFin z c(1) f_lt_rv not_less) simp
    thus ?thesis
      unfolding f64_trunc_def FFin by (intro trunc_val_bounds[OF refl f64_val_nonneg[OF FFin]])
  qed (use that assms(3) in \<open>auto simp: f64_lt_def z c(1)\<close>)
  show ?thesis unfolding f64_clamp_def using lo hi mid by simp
qed

end
