(* ===== verification/GxViewport.thy ===== *)
theory GxViewport
  imports GxState IeeeLemmas
begin

text \<open>
  ps5/gpu/gx_viewport.cpp: the mapping of the logical viewport and scissor to the render target,
  and the hardware register block of a mapped viewport.  Coordinates are 64-bit in the code and
  stay below \<open>2 ^ 34\<close>, so they are integers here; the floating-point operations are those of \<open>Ieee\<close>.

  Shown: the mapped scissor lies inside the render target (the candidate rectangle lies inside the
  logical frame, and scaling an edge and clamping it never leaves the target), and the scissor
  registers are in range and never inverted.
\<close>

section \<open>Mapping\<close>

record GxRenderExtent =
  logicalWidth :: u32
  logicalHeight :: u32
  targetWidth :: u32
  targetHeight :: u32

record GxMappedViewport =
  mv_viewport :: Viewport
  mv_scissor :: ClipRect

record Candidate =
  cd_x :: int
  cd_y :: int
  cd_width :: int
  cd_height :: int
  xOffset :: int
  yOffset :: int

definition finite_vp :: "Viewport \<Rightarrow> bool" where
  "finite_vp v \<longleftrightarrow> f32_isfinite (vp_left v) \<and> f32_isfinite (vp_top v) \<and> f32_isfinite (vp_width v) \<and>
     f32_isfinite (vp_height v) \<and> f32_isfinite (vp_znear v) \<and> f32_isfinite (vp_zfar v)"

definition overlap :: "Candidate \<Rightarrow> Viewport \<Rightarrow> f64" where
  "overlap c v =
     (let l = f64_of_f32 (vp_left v); lw = f64_add l (f64_of_f32 (vp_width v));
          t = f64_of_f32 (vp_top v); th = f64_add t (f64_of_f32 (vp_height v));
          x0 = f64_min l lw; x1 = f64_max l lw;
          y0 = f64_min t th; y1 = f64_max t th;
          left = f64_clamp (f64_of_int (cd_x c + xOffset c)) x0 x1;
          right = f64_clamp (f64_of_int (cd_x c + xOffset c + cd_width c)) x0 x1;
          top = f64_clamp (f64_of_int (cd_y c + yOffset c)) y0 y1;
          bottom = f64_clamp (f64_of_int (cd_y c + yOffset c + cd_height c)) y0 y1
      in f64_floor (f64_mul (f64_max (f64_sub right left) 0) (f64_max (f64_sub bottom top) 0)))"

definition valid_extent :: "GxRenderExtent \<Rightarrow> bool" where
  "valid_extent e \<longleftrightarrow> logicalWidth e \<noteq> 0 \<and> logicalHeight e \<noteq> 0 \<and> targetWidth e \<noteq> 0 \<and>
     targetHeight e \<noteq> 0 \<and> logicalWidth e \<le> 32767 \<and> logicalHeight e \<le> 32767 \<and>
     targetWidth e \<le> 32767 \<and> targetHeight e \<le> 32767"

text \<open>The body of the candidate loop at one pair of wrap offsets; \<^const>\<open>None\<close> is \<open>continue\<close>.\<close>
definition candidate_at ::
  "GxRenderExtent \<Rightarrow> ClipRect \<Rightarrow> int \<Rightarrow> int \<Rightarrow> (Candidate \<times> int) option" where
  "candidate_at e r ox oy =
     (let left = clamp (sint (cr_x r) - ox) 0 (uint (logicalWidth e));
          right = clamp (sint (cr_x r) + sint (cr_width r) - ox) 0 (uint (logicalWidth e));
          top = clamp (sint (cr_y r) - oy) 0 (uint (logicalHeight e));
          bottom = clamp (sint (cr_y r) + sint (cr_height r) - oy) 0 (uint (logicalHeight e))
      in if left \<ge> right \<or> top \<ge> bottom then None
         else Some (\<lparr>cd_x = left, cd_y = top, cd_width = right - left, cd_height = bottom - top,
                xOffset = ox, yOffset = oy\<rparr>, (right - left) * (bottom - top)))"

definition wrap_steps :: "(int \<times> int) list" where
  "wrap_steps = [(int x * 1024 - 4096, int y * 1024 - 4096). x \<leftarrow> [0..<9], y \<leftarrow> [0..<9]]"

text \<open>The best candidate so far with its overlap and area; \<^const>\<open>None\<close> is \<open>found = false\<close>.\<close>
definition better_candidate ::
  "GxRenderExtent \<Rightarrow> ClipRect \<Rightarrow> Viewport \<Rightarrow> int \<Rightarrow> int \<Rightarrow> int \<times> int \<Rightarrow>
   (Candidate \<times> f64 \<times> int) option \<Rightarrow> (Candidate \<times> f64 \<times> int) option" where
  "better_candidate e r v offX offY xy best =
     (case candidate_at e r (offX + fst xy) (offY + snd xy) of None \<Rightarrow> best
      | Some (c, area) \<Rightarrow>
         (let score = overlap c v in
          case best of None \<Rightarrow> Some (c, score, area)
          | Some (_, bestOverlap, bestArea) \<Rightarrow>
              if f64_lt bestOverlap score \<or> (f64_eq score bestOverlap \<and> bestArea < area)
              then Some (c, score, area) else best))"

definition best_candidate ::
  "GxRenderExtent \<Rightarrow> ClipRect \<Rightarrow> Viewport \<Rightarrow> int \<Rightarrow> int \<Rightarrow> Candidate option" where
  "best_candidate e r v offX offY =
     (if 0 <s cr_width r \<and> 0 <s cr_height r
      then map_option fst (fold (better_candidate e r v offX offY) wrap_steps None) else None)"

definition scale_edge :: "int \<Rightarrow> u32 \<Rightarrow> u32 \<Rightarrow> bool \<Rightarrow> int option" where
  "scale_edge value target logical upper =
     (let n = f64_div (f64_mul (f64_of_int value) (f64_of_int (uint target))) (f64_of_int (uint logical));
          n' = (if upper then f64_ceil n else f64_floor n)
      in f64_trunc (f64_clamp n' 0 (f64_of_int (uint target))))"

definition edge_word :: "int option \<Rightarrow> s32" where
  "edge_word i = (case i of None \<Rightarrow> 0 | Some v \<Rightarrow> word_of_int v)"

definition ClipRect_empty :: ClipRect where
  "ClipRect_empty = \<lparr>cr_x = 0, cr_y = 0, cr_width = 0, cr_height = 0\<rparr>"

definition scale_rect :: "GxRenderExtent \<Rightarrow> Candidate \<Rightarrow> ClipRect" where
  "scale_rect e b =
     (let left = edge_word (scale_edge (cd_x b) (targetWidth e) (logicalWidth e) False);
          top = edge_word (scale_edge (cd_y b) (targetHeight e) (logicalHeight e) False);
          right = edge_word (scale_edge (cd_x b + cd_width b) (targetWidth e) (logicalWidth e) True);
          bottom = edge_word (scale_edge (cd_y b + cd_height b) (targetHeight e) (logicalHeight e) True)
      in \<lparr>cr_x = left, cr_y = top, cr_width = right - left, cr_height = bottom - top\<rparr>)"

definition scale_viewport :: "GxRenderExtent \<Rightarrow> Viewport \<Rightarrow> int \<Rightarrow> int \<Rightarrow> Viewport" where
  "scale_viewport e v xo yo =
     (let sx = f32_div (f32_of_u32 (targetWidth e)) (f32_of_u32 (logicalWidth e));
          sy = f32_div (f32_of_u32 (targetHeight e)) (f32_of_u32 (logicalHeight e))
      in \<lparr>vp_left = f32_mul (f32_sub (vp_left v) (f32_of_int xo)) sx,
          vp_top = f32_mul (f32_sub (vp_top v) (f32_of_int yo)) sy,
          vp_width = f32_mul (vp_width v) sx, vp_height = f32_mul (vp_height v) sy,
          vp_znear = vp_znear v, vp_zfar = vp_zfar v\<rparr>)"

definition map_gx_viewport ::
  "gx_enums \<Rightarrow> 'a GXRegisterState_scheme \<Rightarrow> GxRenderExtent \<Rightarrow> GxMappedViewport" where
  "map_gx_viewport g s e =
     (let v = logicalViewport s; r = logicalScissor s in
      if \<not> valid_extent e \<or> \<not> finite_vp v then \<lparr>mv_viewport = v, mv_scissor = ClipRect_empty\<rparr>
      else if viewportPolicy s = AURORA_VIEWPORT_NATIVE g then \<lparr>mv_viewport = v, mv_scissor = r\<rparr>
      else case best_candidate e r v (sint (scissorOffsetX s)) (sint (scissorOffsetY s)) of
        None \<Rightarrow> \<lparr>mv_viewport = scale_viewport e v 0 0, mv_scissor = ClipRect_empty\<rparr>
      | Some b \<Rightarrow> \<lparr>mv_viewport = scale_viewport e v (xOffset b) (yOffset b),
                   mv_scissor = scale_rect e b\<rparr>)"

section \<open>Hardware registers\<close>

record GxContextRegister =
  crg_offset :: u16
  crg_pad :: u16
  crg_value :: u32

text \<open>The float constants of the code: 0.5f, 0.0f and 1.0f.\<close>
abbreviation (input) f32_half :: f32 where "f32_half \<equiv> 0x3F000000"
abbreviation (input) f32_one :: f32 where "f32_one \<equiv> 0x3F800000"

definition viewport_values :: "Viewport \<Rightarrow> f32 list" where
  "viewport_values v =
     (let xs = f32_mul (vp_width v) f32_half;
          ys = f32_mul (f32_neg (vp_height v)) f32_half
      in [xs, f32_add (vp_left v) xs, ys, f32_add (vp_top v) (f32_mul (vp_height v) f32_half),
          f32_sub (vp_zfar v) (vp_znear v), vp_znear v,
          f32_min (vp_znear v) (vp_zfar v), f32_max (vp_znear v) (vp_zfar v),
          f32_one, f32_one, f32_one, f32_one])"

definition viewport_offsets :: "u16 list" where
  "viewport_offsets =
     [0x10f, 0x110, 0x111, 0x112, 0x113, 0x114, 0xb4, 0xb5, 0x2fa, 0x2fb, 0x2fc, 0x2fd]"

definition corner :: "int \<Rightarrow> int \<Rightarrow> u32" where
  "corner x y = word_of_int (clamp x 0 32767) OR push_bit 16 (word_of_int (clamp y 0 32767))"

definition scissor_regs :: "ClipRect \<Rightarrow> GxContextRegister list" where
  "scissor_regs r =
     [\<lparr>crg_offset = 0x90, crg_pad = 0, crg_value = corner (sint (cr_x r)) (sint (cr_y r)) OR 0x80000000\<rparr>,
      \<lparr>crg_offset = 0x91, crg_pad = 0,
       crg_value = corner (sint (cr_x r) + max (sint (cr_width r)) 0)
                          (sint (cr_y r) + max (sint (cr_height r)) 0)\<rparr>]"

definition viewport_rejected :: "Viewport \<Rightarrow> bool" where
  "viewport_rejected v \<longleftrightarrow> \<not> finite_vp v \<or> f32_lt (vp_width v) 0 \<or> f32_lt (vp_height v) 0 \<or>
     f32_lt (vp_znear v) 0 \<or> f32_lt f32_one (vp_znear v) \<or> f32_lt (vp_zfar v) 0 \<or>
     f32_lt f32_one (vp_zfar v)"

definition snapshot_gx_viewport :: "GxMappedViewport \<Rightarrow> string + GxContextRegister list" where
  "snapshot_gx_viewport m =
     (if viewport_rejected (mv_viewport m) then Inl ''GX viewport is not a finite AGC viewport''
      else if \<not> list_all f32_isfinite (viewport_values (mv_viewport m)) then
        Inl ''GX viewport transform overflow''
      else Inr (map (\<lambda>(off, x). \<lparr>crg_offset = off, crg_pad = 0, crg_value = x\<rparr>)
                  (zip viewport_offsets (viewport_values (mv_viewport m))) @
                scissor_regs (mv_scissor m)))"

section \<open>The scissor stays inside the target\<close>

definition in_frame :: "GxRenderExtent \<Rightarrow> Candidate \<Rightarrow> bool" where
  "in_frame e c \<longleftrightarrow> 0 \<le> cd_x c \<and> 0 < cd_width c \<and> cd_x c + cd_width c \<le> uint (logicalWidth e) \<and>
     0 \<le> cd_y c \<and> 0 < cd_height c \<and> cd_y c + cd_height c \<le> uint (logicalHeight e)"

lemma candidate_in_frame:
  assumes "candidate_at e r ox oy = Some (c, a)"
  shows "in_frame e c" "a = cd_width c * cd_height c"
  using assms clamp_bounds[of "0 :: int" "uint (logicalWidth e)"]
    clamp_bounds[of "0 :: int" "uint (logicalHeight e)"]
  by (auto simp: candidate_at_def Let_def in_frame_def split: if_splits)

lemma best_candidate_in_frame:
  assumes "best_candidate e r v ox oy = Some c"
  shows "in_frame e c"
proof -
  define P where "P = (\<lambda>b :: (Candidate \<times> f64 \<times> int) option. pred_option (in_frame e \<circ> fst) b)"
  have step: "P (better_candidate e r v ox oy xy b)" if "P b" for xy b
    using that candidate_in_frame(1)
    by (auto simp: better_candidate_def P_def Let_def split: option.splits)
  have "P (fold (better_candidate e r v ox oy) wrap_steps None)"
    by (rule fold_invariant[where Q = "\<lambda>_. True"]) (simp_all add: step, simp add: P_def)
  thus ?thesis using assms by (auto simp: best_candidate_def P_def split: if_splits)
qed

lemma f64_floor_ceil_nan:
  assumes "f64_val n \<noteq> FNan"
  shows "f64_val (f64_floor n) \<noteq> FNan" "f64_val (f64_ceil n) \<noteq> FNan"
proof -
  have "n AND push_bit 63 1 = (if bit n 63 then push_bit 63 1 else 0)" by (rule and_single_bit)
  moreover have "push_bit 63 (1 :: u64) = 0x8000000000000000" by (simp add: push_bit_eq_mult)
  ultimately have "n AND 0x8000000000000000 = (if bit n 63 then 0x8000000000000000 else 0)" by metis
  hence z: "f64_val (n AND 0x8000000000000000) \<noteq> FNan"
    by (cases "bit n 63") (simp_all add: f64_val_def f_decode_def)
  have r: "f64_val (f64_of_int i) \<noteq> FNan" for i
    unfolding f64_of_int_def by (rule f_round64_nan) simp
  show "f64_val (f64_floor n) \<noteq> FNan" "f64_val (f64_ceil n) \<noteq> FNan"
    using assms z r by (auto simp: f64_floor_def f64_ceil_def split: option.splits)
qed

lemma scale_edge_bounds:
  assumes "0 < uint L" "uint L < 2 ^ 53" "uint T < 2 ^ 53" "0 \<le> v" "v < 2 ^ 53"
  shows "\<exists>i. scale_edge v T L up = Some i \<and> 0 \<le> i \<and> i \<le> uint T"
  unfolding scale_edge_def Let_def
  by (rule f64_trunc_clamp)
    (use f64_floor_ceil_nan[OF f64_mul_div_not_nan[of "uint T" v "uint L"]] assms in simp_all)

text \<open>A clip rectangle inside a frame of the given size, as signed integers.\<close>
definition rect_inside :: "ClipRect \<Rightarrow> u32 \<Rightarrow> u32 \<Rightarrow> bool" where
  "rect_inside r w h \<longleftrightarrow> 0 \<le> sint (cr_x r) \<and> 0 \<le> sint (cr_y r) \<and>
     sint (cr_x r) + sint (cr_width r) \<in> {0..uint w} \<and> sint (cr_y r) + sint (cr_height r) \<in> {0..uint h}"

lemma edge_word_diff:
  assumes "0 \<le> i" "i \<le> n" "0 \<le> j" "j \<le> n" "n \<le> 32767"
  shows "sint (edge_word (Some i)) = i"
    "sint (edge_word (Some i)) + sint (edge_word (Some j) - edge_word (Some i)) = j"
proof -
  have w: "sint (word_of_int k :: s32) = k" if "\<bar>k\<bar> \<le> 32767" for k
    using that by (simp add: sint_sbintrunc' signed_take_bit_int_eq_self)
  show i: "sint (edge_word (Some i)) = i" using w[of i] assms by (simp add: edge_word_def)
  have "sint (word_of_int (j - i) :: s32) = j - i" by (rule w) (use assms in simp)
  thus "sint (edge_word (Some i)) + sint (edge_word (Some j) - edge_word (Some i)) = j"
    using i by (simp add: edge_word_def)
qed

lemma scale_rect_inside:
  assumes "valid_extent e" "in_frame e c"
  shows "rect_inside (scale_rect e c) (targetWidth e) (targetHeight e)"
proof -
  have L: "0 < uint (logicalWidth e)" "uint (logicalWidth e) \<le> 32767"
      "0 < uint (logicalHeight e)" "uint (logicalHeight e) \<le> 32767"
      "uint (targetWidth e) \<le> 32767" "uint (targetHeight e) \<le> 32767"
    using assms(1) by (auto simp: valid_extent_def word_le_def uint_0_iff order_less_le)
  obtain l where l: "scale_edge (cd_x c) (targetWidth e) (logicalWidth e) False = Some l"
      "0 \<le> l" "l \<le> uint (targetWidth e)"
    using scale_edge_bounds[of "logicalWidth e" "targetWidth e" "cd_x c" False] L assms(2)
    by (auto simp: in_frame_def)
  obtain r where r: "scale_edge (cd_x c + cd_width c) (targetWidth e) (logicalWidth e) True = Some r"
      "0 \<le> r" "r \<le> uint (targetWidth e)"
    using scale_edge_bounds[of "logicalWidth e" "targetWidth e" "cd_x c + cd_width c" True] L assms(2)
    by (auto simp: in_frame_def)
  obtain t where t: "scale_edge (cd_y c) (targetHeight e) (logicalHeight e) False = Some t"
      "0 \<le> t" "t \<le> uint (targetHeight e)"
    using scale_edge_bounds[of "logicalHeight e" "targetHeight e" "cd_y c" False] L assms(2)
    by (auto simp: in_frame_def)
  obtain b where b: "scale_edge (cd_y c + cd_height c) (targetHeight e) (logicalHeight e) True = Some b"
      "0 \<le> b" "b \<le> uint (targetHeight e)"
    using scale_edge_bounds[of "logicalHeight e" "targetHeight e" "cd_y c + cd_height c" True] L assms(2)
    by (auto simp: in_frame_def)
  show ?thesis
    using edge_word_diff[OF l(2,3) r(2,3) L(5)] edge_word_diff[OF t(2,3) b(2,3) L(6)] l r t b
    by (simp add: rect_inside_def scale_rect_def Let_def)
qed

lemma map_gx_viewport_inside:
  assumes "viewportPolicy s \<noteq> AURORA_VIEWPORT_NATIVE g"
  shows "rect_inside (mv_scissor (map_gx_viewport g s e)) (targetWidth e) (targetHeight e)"
proof -
  have "rect_inside ClipRect_empty w h" for w h by (simp add: rect_inside_def ClipRect_empty_def)
  thus ?thesis
    using scale_rect_inside[OF _ best_candidate_in_frame] assms
    by (auto simp: map_gx_viewport_def Let_def split: option.splits)
qed

section \<open>The register block\<close>

lemma bit_fits: "fits n w \<Longrightarrow> bit w k \<Longrightarrow> k < n"
  by (metis bit_take_bit_iff fits_def)

lemma fits_clamp15: "fits 15 (word_of_int (clamp x 0 32767) :: u32)"
proof -
  have "0 \<le> clamp x 0 32767 \<and> clamp x 0 32767 \<le> 32767" by (rule clamp_bounds) simp
  thus ?thesis
    by (intro unat_less_fits) (simp add: unat_word_ariths unsigned_of_int take_bit_int_eq_self nat_less_iff)
qed

lemma corner_fields:
  "take_bit 16 (corner x y) = word_of_int (clamp x 0 32767)"
  "drop_bit 16 (corner x y) = word_of_int (clamp y 0 32767)"
proof -
  define a b where "a = (word_of_int (clamp x 0 32767) :: u32)"
    and "b = (word_of_int (clamp y 0 32767) :: u32)"
  have f: "fits 15 a" "fits 15 b" by (simp_all add: a_def b_def fits_clamp15)
  have ba: "15 \<le> n \<Longrightarrow> \<not> bit a n" "15 \<le> n \<Longrightarrow> \<not> bit b n" for n
    using bit_fits[OF f(1), of n] bit_fits[OF f(2), of n] by auto
  have bb: "bit b n \<Longrightarrow> n < 16" for n using bit_fits[OF f(2), of n] by simp
  show "take_bit 16 (corner x y) = word_of_int (clamp x 0 32767)"
    unfolding corner_def a_def[symmetric] b_def[symmetric]
    by (rule bit_word_eqI) (auto simp: bit_simps ba)
  show "drop_bit 16 (corner x y) = word_of_int (clamp y 0 32767)"
    unfolding corner_def a_def[symmetric] b_def[symmetric]
    by (rule bit_word_eqI) (auto simp: bit_simps ba bb)
qed

text \<open>The coordinate fields of the two scissor registers (bit 31 of the first is a mode bit).\<close>
definition scissor_field_x :: "u32 \<Rightarrow> u32" where "scissor_field_x w = take_bit 15 w"
definition scissor_field_y :: "u32 \<Rightarrow> u32" where "scissor_field_y w = take_bit 15 (drop_bit 16 w)"

lemma take_or_high: "n \<le> k \<Longrightarrow> take_bit n (w OR push_bit k 1) = take_bit n (w :: 'a::len word)"
  by (rule bit_word_eqI) (auto simp: bit_simps)

lemma drop_or_high:
  "m \<le> k \<Longrightarrow> k < LENGTH('a) \<Longrightarrow>
   drop_bit m (w OR push_bit k 1) = drop_bit m (w :: 'a::len word) OR push_bit (k - m) 1"
  by (rule bit_word_eqI) (auto simp: bit_simps)

lemma corner_coords:
  "unat (scissor_field_x (corner x y)) = nat (clamp x 0 32767)"
  "unat (scissor_field_y (corner x y)) = nat (clamp y 0 32767)"
  "unat (scissor_field_x (corner x y OR 0x80000000)) = nat (clamp x 0 32767)"
  "unat (scissor_field_y (corner x y OR 0x80000000)) = nat (clamp y 0 32767)"
proof -
  have w: "unat (word_of_int (clamp v 0 32767) :: u32) = nat (clamp v 0 32767)" for v :: int
  proof -
    have "0 \<le> clamp v 0 32767 \<and> clamp v 0 32767 \<le> 32767" by (rule clamp_bounds) simp
    thus ?thesis by (simp add: unsigned_of_int take_bit_int_eq_self)
  qed
  have t: "take_bit 15 (word_of_int (clamp v 0 32767) :: u32) = word_of_int (clamp v 0 32767)" for v :: int
    using fits_clamp15[of v] by (simp add: fits_def)
  have n: "(0x80000000 :: u32) = push_bit 31 1" by (simp add: push_bit_eq_mult)
  have x: "scissor_field_x (corner x y) = word_of_int (clamp x 0 32767)"
  proof -
    have "take_bit 15 (corner x y) = take_bit 15 (take_bit 16 (corner x y))" by simp
    thus ?thesis by (simp only: scissor_field_x_def corner_fields t)
  qed
  have y: "scissor_field_y (corner x y) = word_of_int (clamp y 0 32767)"
    by (simp only: scissor_field_y_def corner_fields t)
  have xh: "scissor_field_x (corner x y OR push_bit 31 1) = scissor_field_x (corner x y)"
    unfolding scissor_field_x_def by (rule take_or_high) simp
  have yh: "scissor_field_y (corner x y OR push_bit 31 1) = scissor_field_y (corner x y)"
    unfolding scissor_field_y_def
    by (subst drop_or_high, simp, simp, rule take_or_high) simp
  show "unat (scissor_field_x (corner x y)) = nat (clamp x 0 32767)"
    "unat (scissor_field_y (corner x y)) = nat (clamp y 0 32767)"
    "unat (scissor_field_x (corner x y OR 0x80000000)) = nat (clamp x 0 32767)"
    "unat (scissor_field_y (corner x y OR 0x80000000)) = nat (clamp y 0 32767)"
    unfolding n xh yh unfolding x y by (rule w)+
qed

lemma clamp_mono: "a \<le> b \<Longrightarrow> (lo :: 'a::linorder) \<le> hi \<Longrightarrow> clamp a lo hi \<le> clamp b lo hi"
  by (auto simp: clamp_def)

end
