(* ===== verification/GxSdkRender.thy ===== *)
theory GxSdkRender
  imports GxSdk
begin

text \<open>
  Further enumerators of the GX headers, those the renderer of ps5/gpu names: vertex formats, cull
  modes, texture formats and sampler modes, as a second parameter record, and its published
  values \<open>sdk_render\<close>.
\<close>

record gx_render_enums =
  GX_F32 :: u32
  GX_POS_XY :: u32
  GX_POS_XYZ :: u32
  GX_TEX_S :: u32
  GX_TEX_ST :: u32
  GX_RGB565 :: u32
  GX_RGB8 :: u32
  GX_RGBX8 :: u32
  GX_RGBA4 :: u32
  GX_RGBA6 :: u32
  GX_RGBA8 :: u32
  GX_CULL_ALL :: u32
  GX_LO_COPY :: u32
  GX_LO_NOOP :: u32
  GX_LO_INVAND :: u32
  GX_LO_OR :: u32
  GX_CC_TEXC :: u32
  GX_CC_TEXA :: u32
  GX_CC_KONST :: u32
  GX_CA_TEXA :: u32
  GX_CA_KONST :: u32
  GX_CS_DIVIDE_2 :: u32
  GX_TB_ADDHALF :: u32
  GX_TB_SUBHALF :: u32
  GX_TG_TEXCOORD0 :: u32
  GX_TG_TEXCOORD6 :: u32
  GX_CLAMP :: u32
  GX_REPEAT :: u32
  GX_MIRROR :: u32
  GX_NEAR :: u32
  GX_LINEAR :: u32
  GX_NEAR_MIP_NEAR :: u32
  GX_LIN_MIP_NEAR :: u32
  GX_NEAR_MIP_LIN :: u32
  GX_LIN_MIP_LIN :: u32
  GX_ANISO_1 :: u32
  GX_ANISO_2 :: u32
  GX_ANISO_4 :: u32
  GX_MAX_ANISOTROPY :: u32

definition sdk_render :: gx_render_enums where
  "sdk_render = \<lparr>
     GX_F32 = 4, GX_POS_XY = 0, GX_POS_XYZ = 1, GX_TEX_S = 0, GX_TEX_ST = 1, GX_RGB565 = 0,
     GX_RGB8 = 1, GX_RGBX8 = 2, GX_RGBA4 = 3, GX_RGBA6 = 4, GX_RGBA8 = 5, GX_CULL_ALL = 3,
     GX_LO_COPY = 3, GX_LO_NOOP = 5, GX_LO_INVAND = 4, GX_LO_OR = 7,
     GX_CC_TEXC = 8, GX_CC_TEXA = 9, GX_CC_KONST = 14, GX_CA_TEXA = 4, GX_CA_KONST = 6,
     GX_CS_DIVIDE_2 = 3, GX_TB_ADDHALF = 1, GX_TB_SUBHALF = 2,
     GX_TG_TEXCOORD0 = 12, GX_TG_TEXCOORD6 = 18,
     GX_CLAMP = 0, GX_REPEAT = 1, GX_MIRROR = 2, GX_NEAR = 0, GX_LINEAR = 1,
     GX_NEAR_MIP_NEAR = 2, GX_LIN_MIP_NEAR = 3, GX_NEAR_MIP_LIN = 4, GX_LIN_MIP_LIN = 5,
     GX_ANISO_1 = 0, GX_ANISO_2 = 1, GX_ANISO_4 = 2, GX_MAX_ANISOTROPY = 3\<rparr>"

end
