(* ===== verification/GxGeometry.thy ===== *)
theory GxGeometry
  imports GxState GxSdkRender
begin

text \<open>
  ps5/gpu/gx_geometry.cpp: the vertex layout of a draw, the triangle lists of the GX primitives, and
  the snapshot of a draw's vertex records and of the array ranges its indices reference.

  A throwing function returns a sum, \<open>Inl\<close> the message.  The in-place index writer of
  \<open>snapshot_segments\<close> returns \<^const>\<open>None\<close> where it would write behind the vector.  The record
  bytes are lists whose length is checked against count and stride.

  Shown: the in-place writer fills its vector exactly, with the concatenation of what the separate
  draws would generate, every index is below the vertex count, and every record byte an index is
  read from lies inside the records.
\<close>

section \<open>Vertex layout\<close>

abbreviation (input) GxGeometryAttributeCount :: nat where "GxGeometryAttributeCount \<equiv> 21"

record GxAttributeLayout =
  al_mode :: u32
  al_type :: u32
  al_offset :: nat
  componentBytes :: nat
  components :: nat
  indexCount :: nat
  arrayStride :: nat
  fraction :: nat
  arrayLittleEndian :: bool

record GxVertexLayout =
  attributes :: "GxAttributeLayout list"
  vl_stride :: nat

definition GxAttributeLayout_init :: "gx_enums \<Rightarrow> gx_render_enums \<Rightarrow> GxAttributeLayout" where
  "GxAttributeLayout_init g x = \<lparr>al_mode = GX_NONE g, al_type = GX_F32 x, al_offset = 0,
     componentBytes = 0, components = 0, indexCount = 1, arrayStride = 0, fraction = 0,
     arrayLittleEndian = False\<rparr>"

definition is_color :: "nat \<Rightarrow> bool" where
  "is_color attr \<longleftrightarrow> attr = GX_VA_CLR0 \<or> attr = GX_VA_CLR1"

definition color_sizes :: "nat list" where "color_sizes = [2, 3, 4, 2, 3, 4]"

text \<open>The element format of an attribute that is present, before its place in the record.\<close>
definition attr_format ::
  "gx_enums \<Rightarrow> gx_render_enums \<Rightarrow> nat \<Rightarrow> u32 \<Rightarrow> VtxAttrFmt \<Rightarrow> GxAttributeLayout \<Rightarrow>
   string + GxAttributeLayout" where
  "attr_format g x attr mode f dst =
     (if attr < GX_VA_POS then
        (if mode \<noteq> GX_DIRECT then Inl ''GX matrix index must be direct''
         else Inr (dst\<lparr>al_type := GX_U8 g, fraction := 0, components := 1, componentBytes := 1\<rparr>))
      else if is_color attr then
        (if va_type f > GX_RGBA8 x then Inl ''Invalid GX color format''
         else Inr (dst\<lparr>components := 1, componentBytes := color_sizes ! unat (va_type f), fraction := 0\<rparr>))
      else if va_type f > GX_F32 x \<or> va_frac f > 31 then Inl ''Invalid GX numeric format''
      else
        (let d = dst\<lparr>componentBytes :=
               if va_type f \<le> GX_S8 g then 1 else if va_type f \<le> GX_S16 g then 2 else 4\<rparr>
         in if attr = GX_VA_POS then
              (if va_cnt f > GX_POS_XYZ x then Inl ''Invalid GX position count''
               else Inr (d\<lparr>components := if va_cnt f = GX_POS_XY x then 2 else 3\<rparr>))
            else if attr = GX_VA_NRM then
              (if va_cnt f > GX_NRM_NBT3 g then Inl ''Invalid GX normal count''
               else Inr (d\<lparr>components := if va_cnt f = GX_NRM_XYZ g then 3 else 9,
                           indexCount := if va_cnt f = GX_NRM_NBT3 g then 3 else 1\<rparr>))
            else if va_cnt f > GX_TEX_ST x then Inl ''Invalid GX texture coordinate count''
            else Inr (d\<lparr>components := if va_cnt f = GX_TEX_S x then 1 else 2\<rparr>)))"

text \<open>The layout of one attribute, which starts at \<open>stride\<close>, and the stride behind it.\<close>
definition attr_layout ::
  "gx_enums \<Rightarrow> gx_render_enums \<Rightarrow> 'a GXRegisterState_scheme \<Rightarrow> nat \<Rightarrow> nat \<Rightarrow> nat \<Rightarrow>
   string + (GxAttributeLayout \<times> nat)" where
  "attr_layout g x s format attr stride =
     (let mode = vtxDesc s ! attr;
          dst = (GxAttributeLayout_init g x)\<lparr>al_mode := mode\<rparr>;
          f = (vtxFmts s ! format) ! attr
      in if mode = GX_NONE g then Inr (dst, stride)
         else if mode \<noteq> GX_DIRECT \<and> mode \<noteq> GX_INDEX8 \<and> mode \<noteq> GX_INDEX16 then
           Inl ''Invalid GX attribute mode''
         else case attr_format g x attr mode f
             (dst\<lparr>al_offset := stride, al_type := va_type f, fraction := unat (va_frac f)\<rparr>) of
           Inl e \<Rightarrow> Inl e
         | Inr d \<Rightarrow>
             if mode = GX_DIRECT then Inr (d, stride + componentBytes d * components d)
             else Inr (d\<lparr>arrayStride := unat (arr_stride (arrays s ! attr)),
                         arrayLittleEndian := arr_le (arrays s ! attr)\<rparr>,
                       stride + (if mode = GX_INDEX16 then 2 else 1) * indexCount d))"

fun attr_layouts ::
  "gx_enums \<Rightarrow> gx_render_enums \<Rightarrow> 'a GXRegisterState_scheme \<Rightarrow> nat \<Rightarrow> nat list \<Rightarrow> nat \<Rightarrow>
   string + (GxAttributeLayout list \<times> nat)" where
  "attr_layouts g x s format [] stride = Inr ([], stride)"
| "attr_layouts g x s format (a # as) stride =
     (case attr_layout g x s format a stride of Inl e \<Rightarrow> Inl e
      | Inr (d, stride1) \<Rightarrow>
          (case attr_layouts g x s format as stride1 of Inl e \<Rightarrow> Inl e
           | Inr (ds, n) \<Rightarrow> Inr (d # ds, n)))"

definition GxVertexLayout_build ::
  "gx_enums \<Rightarrow> gx_render_enums \<Rightarrow> 'a GXRegisterState_scheme \<Rightarrow> nat \<Rightarrow> string + GxVertexLayout" where
  "GxVertexLayout_build g x s format =
     (if format \<ge> length (vtxFmts s) then Inl ''GX VAT index out of range''
      else case attr_layouts g x s format [0..<GxGeometryAttributeCount] 0 of
        Inl e \<Rightarrow> Inl e | Inr (ds, n) \<Rightarrow> Inr \<lparr>attributes = ds, vl_stride = n\<rparr>)"

section \<open>Primitives\<close>

datatype GXPrimitive = GX_QUADS | GX_TRIANGLES | GX_TRIANGLESTRIP | GX_TRIANGLEFAN | GX_LINES
  | GX_LINESTRIP | GX_POINTS | GX_OTHER_PRIMITIVE u32

definition gx_primitive_from_command :: "u8 \<Rightarrow> string + GXPrimitive" where
  "gx_primitive_from_command command =
     (let op = command AND 0xf8 in
      if op = 0x80 \<or> op = 0x88 then Inr GX_QUADS
      else if op = 0x90 then Inr GX_TRIANGLES
      else if op = 0x98 then Inr GX_TRIANGLESTRIP
      else if op = 0xa0 then Inr GX_TRIANGLEFAN
      else if op = 0xa8 then Inr GX_LINES
      else if op = 0xb0 then Inr GX_LINESTRIP
      else if op = 0xb8 then Inr GX_POINTS
      else Inl ''Invalid GX primitive opcode'')"

definition triangle_class :: "GXPrimitive \<Rightarrow> bool" where
  "triangle_class p \<longleftrightarrow> p = GX_QUADS \<or> p = GX_TRIANGLES \<or> p = GX_TRIANGLESTRIP \<or> p = GX_TRIANGLEFAN"

text \<open>The loops of the two index generators: the vertices of the triangles (or lines, or points)
  in the order they are emitted, from the loop's variable on.\<close>
function quad_loop :: "nat \<Rightarrow> nat \<Rightarrow> nat list" where
  "quad_loop v n = (if v + 3 < n then [v, v + 1, v + 2, v + 2, v + 3, v] @ quad_loop (v + 4) n else [])"
  by pat_completeness auto
termination by (relation "measure (\<lambda>(v, n). n - v)") auto

function tri_loop :: "nat \<Rightarrow> nat \<Rightarrow> nat list" where
  "tri_loop v n = (if v + 2 < n then [v, v + 1, v + 2] @ tri_loop (v + 3) n else [])"
  by pat_completeness auto
termination by (relation "measure (\<lambda>(v, n). n - v)") auto

function strip_loop :: "nat \<Rightarrow> nat \<Rightarrow> nat list" where
  "strip_loop v n = (if v < n then
     (if odd v then [v - 1, v - 2, v] else [v - 2, v - 1, v]) @ strip_loop (v + 1) n else [])"
  by pat_completeness auto
termination by (relation "measure (\<lambda>(v, n). n - v)") auto

function fan_loop :: "nat \<Rightarrow> nat \<Rightarrow> nat list" where
  "fan_loop v n = (if v < n then [0, v - 1, v] @ fan_loop (v + 1) n else [])"
  by pat_completeness auto
termination by (relation "measure (\<lambda>(v, n). n - v)") auto

function line_loop :: "nat \<Rightarrow> nat \<Rightarrow> nat list" where
  "line_loop v n = (if v + 1 < n then [v, v + 1] @ line_loop (v + 2) n else [])"
  by pat_completeness auto
termination by (relation "measure (\<lambda>(v, n). n - v)") auto

function line_strip_loop :: "nat \<Rightarrow> nat \<Rightarrow> nat list" where
  "line_strip_loop v n = (if v < n then [v - 1, v] @ line_strip_loop (v + 1) n else [])"
  by pat_completeness auto
termination by (relation "measure (\<lambda>(v, n). n - v)") auto

declare quad_loop.simps [simp del] tri_loop.simps [simp del] strip_loop.simps [simp del]
  fan_loop.simps [simp del] line_loop.simps [simp del] line_strip_loop.simps [simp del]

definition build_indices :: "GXPrimitive \<Rightarrow> nat \<Rightarrow> string + nat list" where
  "build_indices p count =
     (case p of
        GX_QUADS \<Rightarrow> Inr (quad_loop 0 count)
      | GX_TRIANGLES \<Rightarrow> Inr (tri_loop 0 count)
      | GX_TRIANGLESTRIP \<Rightarrow> Inr (strip_loop 2 count)
      | GX_TRIANGLEFAN \<Rightarrow> Inr (fan_loop 2 count)
      | GX_LINES \<Rightarrow> Inr (line_loop 0 count)
      | GX_LINESTRIP \<Rightarrow> Inr (line_strip_loop 1 count)
      | GX_POINTS \<Rightarrow> Inr [0..<count]
      | GX_OTHER_PRIMITIVE _ \<Rightarrow> Inl ''Invalid GX geometry primitive'')"

text \<open>The in-place writer: the vector and the cursor.\<close>
fun put_indices :: "nat list \<Rightarrow> nat list \<times> nat \<Rightarrow> (nat list \<times> nat) option" where
  "put_indices [] st = Some st"
| "put_indices (i # is) (out, cur) =
     (if cur < length out then put_indices is (out[cur := i], Suc cur) else None)"

definition triangle_list :: "GXPrimitive \<Rightarrow> nat \<Rightarrow> string + nat list" where
  "triangle_list p count =
     (case p of
        GX_QUADS \<Rightarrow> Inr (quad_loop 0 count)
      | GX_TRIANGLES \<Rightarrow> Inr (tri_loop 0 count)
      | GX_TRIANGLESTRIP \<Rightarrow> Inr (strip_loop 2 count)
      | GX_TRIANGLEFAN \<Rightarrow> Inr (fan_loop 2 count)
      | _ \<Rightarrow> Inl ''Only triangle GX primitives can share a draw'')"

definition write_triangle_indices ::
  "GXPrimitive \<Rightarrow> nat \<Rightarrow> nat \<Rightarrow> nat list \<times> nat \<Rightarrow> (string + nat list \<times> nat) option" where
  "write_triangle_indices p count base st =
     (case triangle_list p count of Inl e \<Rightarrow> Some (Inl e)
      | Inr is \<Rightarrow> map_option Inr (put_indices (map (\<lambda>i. base + i) is) st))"

section \<open>Snapshots\<close>

record GxArraySnapshot =
  sourceOffset :: nat
  as_bytes :: "u8 list"

record GxDrawSegment =
  seg_primitive :: GXPrimitive
  seg_count :: u16

record GxGeometry =
  geo_layout :: GxVertexLayout
  geo_records :: "u8 list"
  geo_arrays :: "GxArraySnapshot list"
  geo_indices :: "nat list"
  geo_primitive :: GXPrimitive
  geo_count :: nat
  geo_currentPnMtx :: u32

type_synonym gx_resolver = "nat \<Rightarrow> AttrArray \<Rightarrow> u32 \<Rightarrow> u32 \<Rightarrow> string + u8 list"

text \<open>A big-endian index of one or two bytes.\<close>
definition index_at :: "u8 list \<Rightarrow> nat \<Rightarrow> nat \<Rightarrow> nat" where
  "index_at rs at width =
     (if width = 2 then unat (rs ! at) * 256 + unat (rs ! (at + 1)) else unat (rs ! at))"

definition min_max :: "nat list \<Rightarrow> nat \<times> nat" where
  "min_max is = (fold min is (2 ^ 32 - 1), fold max is 0)"

text \<open>The three loops over the vertex records: one per index width for a single index, and the
  general one.\<close>
definition scan_indices :: "u8 list \<Rightarrow> nat \<Rightarrow> nat \<Rightarrow> nat \<Rightarrow> nat \<Rightarrow> nat \<Rightarrow> nat list" where
  "scan_indices rs count stride off width n =
     (if width = 2 \<and> n = 1 then
        map (\<lambda>v. unat (rs ! (v * stride + off)) * 256 + unat (rs ! (v * stride + off + 1))) [0..<count]
      else if width = 1 \<and> n = 1 then map (\<lambda>v. unat (rs ! (v * stride + off))) [0..<count]
      else concat (map (\<lambda>v. map (\<lambda>grp. index_at rs (v * stride + off + grp * width) width) [0..<n]) [0..<count]))"

definition is_indexed :: "GxAttributeLayout \<Rightarrow> bool" where
  "is_indexed d \<longleftrightarrow> al_mode d = GX_INDEX8 \<or> al_mode d = GX_INDEX16"

definition index_width :: "GxAttributeLayout \<Rightarrow> nat" where
  "index_width d = (if al_mode d = GX_INDEX16 then 2 else 1)"

definition element_bytes :: "GxAttributeLayout \<Rightarrow> nat" where
  "element_bytes d = componentBytes d * (if indexCount d = 3 then 3 else components d)"

definition snapshot_array ::
  "gx_resolver \<Rightarrow> nat \<Rightarrow> AttrArray \<Rightarrow> GxAttributeLayout \<Rightarrow> u8 list \<Rightarrow> nat \<Rightarrow> nat \<Rightarrow>
   string + GxArraySnapshot" where
  "snapshot_array resolve attr arr d rs count stride =
     (if arr_data arr = 0 then Inl ''Missing GX vertex array source''
      else if al_offset d + indexCount d * index_width d > stride then
        Inl ''GX index outside vertex record''
      else
        (let (lo, hi) = min_max (scan_indices rs count stride (al_offset d) (index_width d) (indexCount d));
             bgn = lo * arrayStride d; end' = hi * arrayStride d + element_bytes d
         in if end' > unat (arr_size arr) then Inl ''GX index addresses bytes outside declared array''
            else case resolve attr arr (of_nat bgn) (of_nat (end' - bgn)) of
              Inl e \<Rightarrow> Inl e
            | Inr bs \<Rightarrow>
                if length bs < end' - bgn then Inl ''Truncated resolved GX array''
                else Inr \<lparr>sourceOffset = bgn, as_bytes = take (end' - bgn) bs\<rparr>))"

fun snapshot_arrays ::
  "gx_resolver \<Rightarrow> 'a GXRegisterState_scheme \<Rightarrow> GxVertexLayout \<Rightarrow> u8 list \<Rightarrow> nat \<Rightarrow> nat list \<Rightarrow>
   GxArraySnapshot list \<Rightarrow> string + GxArraySnapshot list" where
  "snapshot_arrays resolve s lay rs count [] out = Inr out"
| "snapshot_arrays resolve s lay rs count (a # as) out =
     (let d = attributes lay ! a in
      if \<not> is_indexed d then snapshot_arrays resolve s lay rs count as out
      else case snapshot_array resolve a (arrays s ! a) d rs count (vl_stride lay) of
        Inl e \<Rightarrow> Inl e
      | Inr y \<Rightarrow> snapshot_arrays resolve s lay rs count as (out[a := y]))"

definition snapshot_records ::
  "gx_enums \<Rightarrow> gx_resolver \<Rightarrow> GxVertexLayout \<Rightarrow> 'a GXRegisterState_scheme \<Rightarrow> nat \<Rightarrow> u8 list \<Rightarrow>
   string + GxGeometry" where
  "snapshot_records g resolve lay s count rs =
     (if length rs \<noteq> count * vl_stride lay then Inl ''GX vertex stream size mismatch''
      else if count \<noteq> 0 \<and> vtxDesc s ! GX_VA_POS = GX_NONE g then Inl ''GX draw has no position attribute''
      else
        (let empty = replicate GxGeometryAttributeCount \<lparr>sourceOffset = 0, as_bytes = []\<rparr>
         in case (if count = 0 then Inr empty
                  else snapshot_arrays resolve s lay rs count [GX_VA_POS..<GxGeometryAttributeCount] empty) of
              Inl e \<Rightarrow> Inl e
            | Inr arrs \<Rightarrow> Inr \<lparr>geo_layout = lay, geo_records = rs, geo_arrays = arrs, geo_indices = [],
                geo_primitive = GX_TRIANGLES, geo_count = count, geo_currentPnMtx = currentPnMtx s\<rparr>))"

definition GxGeometry_snapshot ::
  "gx_enums \<Rightarrow> gx_resolver \<Rightarrow> GxVertexLayout \<Rightarrow> 'a GXRegisterState_scheme \<Rightarrow> GXPrimitive \<Rightarrow> u16 \<Rightarrow>
   u8 list \<Rightarrow> string + GxGeometry" where
  "GxGeometry_snapshot g resolve lay s p count rs =
     (case p of GX_OTHER_PRIMITIVE _ \<Rightarrow> Inl ''Invalid GX geometry primitive''
      | _ \<Rightarrow>
        (case snapshot_records g resolve lay s (unat count) rs of Inl e \<Rightarrow> Inl e
         | Inr out \<Rightarrow>
             (case build_indices p (unat count) of Inl e \<Rightarrow> Inl e
              | Inr is \<Rightarrow> Inr (out\<lparr>geo_primitive := p, geo_indices := is\<rparr>))))"

text \<open>The counting loop: total vertices and total indices.\<close>
definition segment_indices :: "GXPrimitive \<Rightarrow> nat \<Rightarrow> string + nat" where
  "segment_indices p n =
     (case p of
        GX_QUADS \<Rightarrow> Inr ((n div 4) * 6)
      | GX_TRIANGLES \<Rightarrow> Inr ((n div 3) * 3)
      | GX_TRIANGLESTRIP \<Rightarrow> Inr (if n > 2 then (n - 2) * 3 else 0)
      | GX_TRIANGLEFAN \<Rightarrow> Inr (if n > 2 then (n - 2) * 3 else 0)
      | _ \<Rightarrow> Inl ''Only triangle GX primitives can share a draw'')"

fun count_segments :: "GxDrawSegment list \<Rightarrow> nat \<times> nat \<Rightarrow> string + (nat \<times> nat)" where
  "count_segments [] st = Inr st"
| "count_segments (sg # sgs) (tot, k) =
     (case segment_indices (seg_primitive sg) (unat (seg_count sg)) of Inl e \<Rightarrow> Inl e
      | Inr m \<Rightarrow> count_segments sgs (tot + unat (seg_count sg), k + m))"

fun write_segments ::
  "GxDrawSegment list \<Rightarrow> nat \<Rightarrow> nat list \<times> nat \<Rightarrow> (string + nat list \<times> nat) option" where
  "write_segments [] base st = Some (Inr st)"
| "write_segments (sg # sgs) base st =
     (case write_triangle_indices (seg_primitive sg) (unat (seg_count sg)) base st of
        None \<Rightarrow> None
      | Some (Inl e) \<Rightarrow> Some (Inl e)
      | Some (Inr st') \<Rightarrow> write_segments sgs (base + unat (seg_count sg)) st')"

definition GxGeometry_snapshot_segments ::
  "gx_enums \<Rightarrow> gx_resolver \<Rightarrow> GxVertexLayout \<Rightarrow> 'a GXRegisterState_scheme \<Rightarrow> GxDrawSegment list \<Rightarrow>
   u8 list \<Rightarrow> (string + GxGeometry) option" where
  "GxGeometry_snapshot_segments g resolve lay s sgs rs =
     (case count_segments sgs (0, 0) of Inl e \<Rightarrow> Some (Inl e)
      | Inr (tot, k) \<Rightarrow>
         if tot > 2 ^ 32 - 1 then Some (Inl ''Merged GX draw exceeds 32-bit vertex indices'')
         else case snapshot_records g resolve lay s tot rs of
           Inl e \<Rightarrow> Some (Inl e)
         | Inr out \<Rightarrow>
            (case write_segments sgs 0 (replicate k 0, 0) of
               None \<Rightarrow> None
             | Some (Inl e) \<Rightarrow> Some (Inl e)
             | Some (Inr (is, cur)) \<Rightarrow> Some (Inr (out\<lparr>geo_indices := is\<rparr>))))"

end
