(* ===== verification/GxGeometryLemmas.thy ===== *)
theory GxGeometryLemmas
  imports GxGeometry
begin

text \<open>
  Correctness of the geometry snapshot: the index generators emit the announced number of indices,
  all below the vertex count; the in-place writer of merged draws never leaves its vector and
  produces the concatenation of the separate draws; a built layout keeps every index inside its
  record, and the array snapshot covers every element an index names.
\<close>

section \<open>Index generators\<close>

lemma quad_loop_props: "v \<le> n \<Longrightarrow> length (quad_loop v n) = (n - v) div 4 * 6 \<and> set (quad_loop v n) \<subseteq> {..<n}"
proof (induction v n rule: quad_loop.induct)
  case (1 v n)
  show ?case
  proof (cases "v + 3 < n")
    case True
    hence d: "(n - v) div 4 = Suc ((n - (v + 4)) div 4)" by (simp add: le_div_geq)
    have "v + 4 \<le> n" using True by simp
    note ih = 1(1)[OF True this]
    have "quad_loop v n = [v, v + 1, v + 2, v + 2, v + 3, v] @ quad_loop (v + 4) n"
      using True by (subst quad_loop.simps) (simp only: if_True)
    thus ?thesis using ih d True by auto
  next
    case False
    hence "quad_loop v n = []" "(n - v) div 4 = 0" using 1(2) by (subst quad_loop.simps, simp, simp)
    thus ?thesis by simp
  qed
qed

lemma tri_loop_props: "v \<le> n \<Longrightarrow> length (tri_loop v n) = (n - v) div 3 * 3 \<and> set (tri_loop v n) \<subseteq> {..<n}"
proof (induction v n rule: tri_loop.induct)
  case (1 v n)
  show ?case
  proof (cases "v + 2 < n")
    case True
    hence "(n - v) div 3 = Suc ((n - (v + 3)) div 3)" by presburger
    thus ?thesis using 1 True by (simp add: tri_loop.simps[of v n])
  qed (use 1 in \<open>simp add: tri_loop.simps[of v n]\<close>)
qed

lemma strip_loop_props:
  "2 \<le> v \<Longrightarrow> length (strip_loop v n) = (n - v) * 3 \<and> set (strip_loop v n) \<subseteq> {..<n}"
proof (induction v n rule: strip_loop.induct)
  case (1 v n)
  show ?case
  proof (cases "v < n")
    case True
    hence "n - v = Suc (n - (v + 1))" by simp
    thus ?thesis using 1 True by (auto simp: strip_loop.simps[of v n])
  qed (simp add: strip_loop.simps[of v n])
qed

lemma fan_loop_props:
  "2 \<le> v \<Longrightarrow> length (fan_loop v n) = (n - v) * 3 \<and> set (fan_loop v n) \<subseteq> {..<n}"
proof (induction v n rule: fan_loop.induct)
  case (1 v n)
  show ?case
  proof (cases "v < n")
    case True
    hence "n - v = Suc (n - (v + 1))" by simp
    thus ?thesis using 1 True by (auto simp: fan_loop.simps[of v n])
  qed (simp add: fan_loop.simps[of v n])
qed

lemma line_loop_props: "set (line_loop v n) \<subseteq> {..<n}"
proof (induction v n rule: line_loop.induct)
  case (1 v n)
  thus ?case by (auto simp: line_loop.simps[of v n])
qed

lemma line_strip_loop_props: "1 \<le> v \<Longrightarrow> set (line_strip_loop v n) \<subseteq> {..<n}"
proof (induction v n rule: line_strip_loop.induct)
  case (1 v n)
  thus ?case by (auto simp: line_strip_loop.simps[of v n])
qed

lemma build_indices_below: "build_indices p n = Inr is \<Longrightarrow> set is \<subseteq> {..<n}"
  using quad_loop_props[of 0 n] tri_loop_props[of 0 n] strip_loop_props[of 2 n]
    fan_loop_props[of 2 n] line_loop_props[of 0 n] line_strip_loop_props[of 1 n]
  by (auto simp: build_indices_def split: GXPrimitive.splits)

lemma triangle_list_class:
  "triangle_class p \<Longrightarrow> \<exists>is. triangle_list p n = Inr is \<and> build_indices p n = Inr is \<and>
     segment_indices p n = Inr (length is)"
  using quad_loop_props[of 0 n] tri_loop_props[of 0 n] strip_loop_props[of 2 n] fan_loop_props[of 2 n]
  by (auto simp: triangle_class_def triangle_list_def segment_indices_def build_indices_def)

lemma triangle_list_other:
  "\<not> triangle_class p \<Longrightarrow> \<exists>e. triangle_list p n = Inl e \<and> segment_indices p n = Inl e"
  by (cases p) (auto simp: triangle_class_def triangle_list_def segment_indices_def)

section \<open>The in-place writer\<close>

lemma put_indices_spec:
  "cur + length is \<le> length out \<Longrightarrow>
   put_indices is (out, cur) = Some (take cur out @ is @ drop (cur + length is) out, cur + length is)"
proof (induction \<open>is\<close> arbitrary: out cur)
  case (Cons i js)
  have "take (Suc cur) (out[cur := i]) = take cur out @ [i]"
    using Cons.prems by (simp add: take_Suc_conv_app_nth)
  thus ?case using Cons by simp
qed simp

text \<open>What the separate draws of the segments would generate, each offset by the vertices before it.\<close>
fun merged_indices :: "GxDrawSegment list \<Rightarrow> nat \<Rightarrow> nat list" where
  "merged_indices [] base = []"
| "merged_indices (sg # sgs) base =
     (case build_indices (seg_primitive sg) (unat (seg_count sg)) of
        Inl _ \<Rightarrow> [] | Inr is \<Rightarrow> map (\<lambda>i. base + i) is) @
     merged_indices sgs (base + unat (seg_count sg))"

definition segment_total :: "GxDrawSegment list \<Rightarrow> nat" where
  "segment_total sgs = (\<Sum>sg\<leftarrow>sgs. unat (seg_count sg))"

lemma count_segments_ok:
  "list_all (\<lambda>sg. triangle_class (seg_primitive sg)) sgs \<Longrightarrow>
   count_segments sgs (t, k) = Inr (t + segment_total sgs, k + length (merged_indices sgs b))"
proof (induction sgs arbitrary: t k b)
  case (Cons sg sgs)
  obtain js where "build_indices (seg_primitive sg) (unat (seg_count sg)) = Inr js"
      "segment_indices (seg_primitive sg) (unat (seg_count sg)) = Inr (length js)"
    using triangle_list_class[of "seg_primitive sg" "unat (seg_count sg)"] Cons.prems by auto
  thus ?case
    using Cons.IH[of "t + unat (seg_count sg)" "k + length js" "b + unat (seg_count sg)"] Cons.prems
    by (simp add: segment_total_def)
qed (simp add: segment_total_def)

lemma count_segments_error:
  "\<not> list_all (\<lambda>sg. triangle_class (seg_primitive sg)) sgs \<Longrightarrow> \<exists>e. count_segments sgs st = Inl e"
proof (induction sgs arbitrary: st)
  case (Cons sg sgs)
  show ?case
  proof (cases "triangle_class (seg_primitive sg)")
    case False
    obtain e where "segment_indices (seg_primitive sg) (unat (seg_count sg)) = Inl e"
      using triangle_list_other[OF False] by blast
    thus ?thesis by (cases st) simp
  next
    case True
    hence "\<not> list_all (\<lambda>sg. triangle_class (seg_primitive sg)) sgs" using Cons.prems by simp
    thus ?thesis using Cons.IH by (cases st) (auto split: sum.splits)
  qed
qed simp

lemma write_segments_ok:
  assumes "list_all (\<lambda>sg. triangle_class (seg_primitive sg)) sgs"
    "cur + length (merged_indices sgs base) \<le> length out"
  shows "write_segments sgs base (out, cur) =
    Some (Inr (take cur out @ merged_indices sgs base @ drop (cur + length (merged_indices sgs base)) out,
               cur + length (merged_indices sgs base)))"
  using assms
proof (induction sgs arbitrary: base out cur)
  case (Cons sg sgs)
  obtain js where j: "build_indices (seg_primitive sg) (unat (seg_count sg)) = Inr js"
      "triangle_list (seg_primitive sg) (unat (seg_count sg)) = Inr js"
    using triangle_list_class[of "seg_primitive sg" "unat (seg_count sg)"] Cons.prems(1) by auto
  define is' where "is' = map (\<lambda>i. base + i) js"
  define rest where "rest = merged_indices sgs (base + unat (seg_count sg))"
  have m: "merged_indices (sg # sgs) base = is' @ rest" by (simp add: j is'_def rest_def)
  have b: "cur + length is' + length rest \<le> length out" using Cons.prems(2) unfolding m by simp
  define out1 where "out1 = take cur out @ is' @ drop (cur + length is') out"
  have l: "length out1 = length out" using b by (simp add: out1_def)
  have w: "write_triangle_indices (seg_primitive sg) (unat (seg_count sg)) base (out, cur) =
      Some (Inr (out1, cur + length is'))"
    using put_indices_spec[of cur is' out] b
    by (simp add: write_triangle_indices_def j is'_def[symmetric] out1_def)
  have ih: "write_segments sgs (base + unat (seg_count sg)) (out1, cur + length is') =
     Some (Inr (take (cur + length is') out1 @ rest @ drop (cur + length is' + length rest) out1,
       cur + length is' + length rest))"
    unfolding rest_def by (rule Cons.IH) (use Cons.prems(1) b l rest_def in simp_all)
  have t: "take (cur + length is') out1 = take cur out @ is'"
    using b by (simp add: out1_def)
  have d: "drop (cur + length is' + length rest) out1 = drop (cur + length is' + length rest) out"
    using b by (simp add: out1_def) (simp only: ac_simps)
  show ?case unfolding m using w ih t d by (simp add: add.assoc)
qed simp

lemma merged_indices_below:
  assumes "list_all (\<lambda>sg. triangle_class (seg_primitive sg)) sgs"
  shows "set (merged_indices sgs base) \<subseteq> {..<base + segment_total sgs}"
  using assms
proof (induction sgs arbitrary: base)
  case (Cons sg sgs)
  obtain js where j: "build_indices (seg_primitive sg) (unat (seg_count sg)) = Inr js"
    using triangle_list_class[of "seg_primitive sg" "unat (seg_count sg)"] Cons.prems by auto
  show ?case
    using build_indices_below[OF j] Cons.IH[of "base + unat (seg_count sg)"] Cons.prems
    by (fastforce simp: j segment_total_def)
qed simp

lemma snapshot_records_fields:
  assumes "snapshot_records g resolve lay s n rs = Inr out"
  shows "geo_count out = n" "geo_records out = rs" "geo_layout out = lay" "length rs = n * vl_stride lay"
  using assms
  by (auto simp: snapshot_records_def Let_def simp del: snapshot_arrays.simps split: if_splits sum.splits)

text \<open>The merged snapshot: it never writes outside its index vector, it fails on a segment that is
  not triangles, and otherwise has exactly the separate draws' indices.\<close>
lemma snapshot_segments_cases:
  obtains (error) e where "GxGeometry_snapshot_segments g resolve lay s sgs rs = Some (Inl e)"
  | (ok) out where "GxGeometry_snapshot_segments g resolve lay s sgs rs = Some (Inr out)"
      "list_all (\<lambda>sg. triangle_class (seg_primitive sg)) sgs"
      "geo_count out = segment_total sgs" "geo_indices out = merged_indices sgs 0"
      "geo_records out = rs" "segment_total sgs \<le> 2 ^ 32 - 1"
proof (cases "list_all (\<lambda>sg. triangle_class (seg_primitive sg)) sgs")
  case False
  thus ?thesis
    using count_segments_error[of sgs "(0, 0)"] error by (auto simp: GxGeometry_snapshot_segments_def)
next
  case True
  have c: "count_segments sgs (0, 0) = Inr (segment_total sgs, length (merged_indices sgs 0))"
    using count_segments_ok[OF True, of 0 0 0] by simp
  show ?thesis
  proof (cases "segment_total sgs > 2 ^ 32 - 1")
    case True
    thus ?thesis using c error by (simp add: GxGeometry_snapshot_segments_def)
  next
    case F: False
    show ?thesis
    proof (cases "snapshot_records g resolve lay s (segment_total sgs) rs")
      case (Inl e)
      thus ?thesis using c F error by (simp add: GxGeometry_snapshot_segments_def)
    next
      case (Inr out)
      note f = snapshot_records_fields[OF Inr]
      let ?m = "merged_indices sgs 0"
      have "write_segments sgs 0 (replicate (length ?m) 0, 0) = Some (Inr (?m, length ?m))"
        using write_segments_ok[OF True, of 0 0 "replicate (length ?m) 0"] by simp
      hence "GxGeometry_snapshot_segments g resolve lay s sgs rs = Some (Inr (out\<lparr>geo_indices := ?m\<rparr>))"
        using c F Inr by (simp add: GxGeometry_snapshot_segments_def)
      thus ?thesis by (rule ok) (use True F f in simp_all)
    qed
  qed
qed

section \<open>Index reads\<close>

lemma scan_indices_general:
  assumes "width = 1 \<or> width = 2"
  shows "scan_indices rs count stride off width n =
    concat (map (\<lambda>v. map (\<lambda>grp. index_at rs (v * stride + off + grp * width) width) [0..<n]) [0..<count])"
  using assms by (auto simp: scan_indices_def index_at_def)

text \<open>Every byte the scan reads is inside the records.\<close>
lemma index_read_inside:
  assumes "length rs = count * stride" "off + n * width \<le> stride" "v < count" "grp < n"
  shows "v * stride + off + grp * width + width \<le> length rs"
proof -
  have "grp * width + width \<le> n * width" using assms(4) by (metis Suc_leI mult_le_mono1 mult_Suc add.commute)
  hence "v * stride + off + grp * width + width \<le> v * stride + stride" using assms(2) by linarith
  also have "\<dots> \<le> count * stride" using assms(3) by (metis Suc_leI mult_le_mono1 mult_Suc add.commute)
  finally show ?thesis using assms(1) by simp
qed

lemma fold_min_le: "fold min is b \<le> b \<and> (\<forall>i\<in>set is. fold min is b \<le> (i :: nat))"
proof (induction \<open>is\<close> arbitrary: b)
  case (Cons a js)
  show ?case using Cons.IH[of "min a b"] by auto
qed simp

lemma fold_max_ge: "b \<le> fold max is b \<and> (\<forall>i\<in>set is. (i :: nat) \<le> fold max is b)"
proof (induction \<open>is\<close> arbitrary: b)
  case (Cons a js)
  show ?case using Cons.IH[of "max a b"] by auto
qed simp

lemma min_max_bounds:
  assumes "min_max is = (lo, hi)" "i \<in> set is"
  shows "lo \<le> i" "i \<le> hi"
  using assms fold_min_le[of "is" "2 ^ 32 - 1"] fold_max_ge[of 0 "is"] by (auto simp: min_max_def)

text \<open>The array snapshot covers every element that an index names, and the resolver is asked for a
  range inside the declared array only.\<close>
lemma snapshot_array_covers:
  assumes "snapshot_array resolve attr arr d rs count stride = Inr sn"
    "i \<in> set (scan_indices rs count stride (al_offset d) (index_width d) (indexCount d))"
  shows "sourceOffset sn \<le> i * arrayStride d"
    "i * arrayStride d + element_bytes d \<le> sourceOffset sn + length (as_bytes sn)"
    "sourceOffset sn + length (as_bytes sn) \<le> unat (arr_size arr)"
proof -
  obtain lo hi where mm: "min_max (scan_indices rs count stride (al_offset d) (index_width d) (indexCount d)) = (lo, hi)"
    by (cases "min_max (scan_indices rs count stride (al_offset d) (index_width d) (indexCount d))")
  let ?b = "lo * arrayStride d" and ?e = "hi * arrayStride d + element_bytes d"
  have "\<exists>bs. ?e \<le> unat (arr_size arr) \<and> ?e - ?b \<le> length bs \<and>
      sn = \<lparr>sourceOffset = ?b, as_bytes = take (?e - ?b) bs\<rparr>"
  proof (cases "resolve attr arr (of_nat ?b) (of_nat (?e - ?b))")
    case (Inr bs)
    show ?thesis
      by (intro exI[of _ bs]) (use assms(1) Inr in \<open>auto simp: snapshot_array_def mm Let_def split: if_splits\<close>)
  qed (use assms(1) in \<open>auto simp: snapshot_array_def mm Let_def split: if_splits\<close>)
  then obtain bs where r: "?e \<le> unat (arr_size arr)" "?e - ?b \<le> length bs"
      "sn = \<lparr>sourceOffset = ?b, as_bytes = take (?e - ?b) bs\<rparr>" by blast
  note i = min_max_bounds[OF mm assms(2)]
  have le: "?b \<le> i * arrayStride d" "i * arrayStride d \<le> hi * arrayStride d" using i by simp_all
  have f: "sourceOffset sn = ?b" "length (as_bytes sn) = ?e - ?b" using r(2,3) by simp_all
  show "sourceOffset sn \<le> i * arrayStride d"
    "i * arrayStride d + element_bytes d \<le> sourceOffset sn + length (as_bytes sn)"
    "sourceOffset sn + length (as_bytes sn) \<le> unat (arr_size arr)"
    unfolding f using r(1) le by linarith+
qed

section \<open>Layouts\<close>

definition layout_attr_ok :: "gx_enums \<Rightarrow> nat \<Rightarrow> GxAttributeLayout \<Rightarrow> bool" where
  "layout_attr_ok g n d \<longleftrightarrow> (is_indexed d \<longrightarrow> al_offset d + indexCount d * index_width d \<le> n) \<and>
     (al_mode d = GX_DIRECT \<longrightarrow> al_offset d + componentBytes d * components d \<le> n)"

lemma attr_format_keeps:
  "attr_format g x attr mode f dst = Inr d \<Longrightarrow> al_mode d = al_mode dst \<and> al_offset d = al_offset dst"
  by (auto simp: attr_format_def Let_def split: if_splits)

lemma attr_layout_ok:
  assumes "attr_layout g x s format attr stride = Inr (d, n)" "GX_NONE g = 0"
  shows "stride \<le> n \<and> layout_attr_ok g n d"
  using assms attr_format_keeps
  by (fastforce simp: attr_layout_def Let_def layout_attr_ok_def is_indexed_def index_width_def
      split: if_splits sum.splits)

lemma layout_attr_ok_mono: "layout_attr_ok g m d \<Longrightarrow> m \<le> n \<Longrightarrow> layout_attr_ok g n d"
  by (auto simp: layout_attr_ok_def)

lemma attr_layouts_ok:
  assumes "attr_layouts g x s format as stride = Inr (ds, n)" "GX_NONE g = 0"
  shows "stride \<le> n \<and> length ds = length as \<and> list_all (layout_attr_ok g n) ds"
  using assms(1)
proof (induction "as" arbitrary: stride ds n)
  case (Cons a as)
  obtain d m es where p: "attr_layout g x s format a stride = Inr (d, m)"
      "attr_layouts g x s format as m = Inr (es, n)" "ds = d # es"
    using Cons.prems by (auto split: sum.splits)
  show ?case
    using Cons.IH[OF p(2)] attr_layout_ok[OF p(1) assms(2)] p(3) layout_attr_ok_mono by fastforce
qed simp

lemma layout_build_ok:
  assumes "GxVertexLayout_build g x s format = Inr lay" "GX_NONE g = 0"
  shows "length (attributes lay) = GxGeometryAttributeCount"
    "list_all (layout_attr_ok g (vl_stride lay)) (attributes lay)"
  using assms attr_layouts_ok[OF _ assms(2)]
  by (fastforce simp: GxVertexLayout_build_def split: if_splits sum.splits)+

end
