(* ===== verification/NativeBackend.thy ===== *)
theory NativeBackend
  imports FifoDispatch GxViewport GxGeometryLemmas
begin

text \<open>
  The renderer of ps5/gpu behind the decoder's callbacks: gx_viewport_backend.cpp (the render extent
  and the viewport callbacks), gx_texture_cache.cpp and gx_copy_texture_cache.cpp (the eviction
  callbacks), runtime/aurora_debug_ps5.cpp (the debug labels, which do nothing), gx_draw_dispatch.cpp
  (the installed receiver of draws) and gx_draw.cpp (a draw command, and the merging of
  consecutive triangle draws).  The receiver's two functions are values of the state: the resolver
  returns the bytes of an array range or throws, the submission throws or accepts a geometry, and
  the accepted geometries are kept in order.  Performance counters are left out.
\<close>

section \<open>State\<close>

record PendingDraws =
  pd_records :: "u8 list"
  pd_segments :: "GxDrawSegment list"
  pd_layout :: GxVertexLayout
  pd_format :: nat
  pd_vertices :: nat

record GxDrawSink =
  sink_resolve :: "gx_resolver option"
  sink_submit :: "(GxGeometry \<Rightarrow> GXRegisterState \<Rightarrow> string option) option"

text \<open>A published copy of the frame buffer; its GPU target is named by an address.\<close>
record GxColorCopy =
  cpy_width :: u32
  cpy_height :: u32
  cpy_format :: u32
  cpy_target :: u64

record native_state =
  nb_extent :: GxRenderExtent
  nb_sink :: GxDrawSink
  nb_pending :: PendingDraws
  nb_submitted :: "GxGeometry list"
  nb_copies :: "u64 \<rightharpoonup> GxColorCopy"

type_synonym native_ctx = "native_state gx_ctx"

definition GxRenderExtent_init :: GxRenderExtent where
  "GxRenderExtent_init = \<lparr>logicalWidth = 640, logicalHeight = 480, targetWidth = 640, targetHeight = 480\<rparr>"

definition PendingDraws_init :: PendingDraws where
  "PendingDraws_init = \<lparr>pd_records = [], pd_segments = [],
     pd_layout = \<lparr>attributes = [], vl_stride = 0\<rparr>, pd_format = 0, pd_vertices = 0\<rparr>"

definition native_init :: native_state where
  "native_init = \<lparr>nb_extent = GxRenderExtent_init,
     nb_sink = \<lparr>sink_resolve = None, sink_submit = None\<rparr>, nb_pending = PendingDraws_init,
     nb_submitted = [], nb_copies = (\<lambda>_. None)\<rparr>"

definition with_backend :: "(native_state \<Rightarrow> native_state) \<Rightarrow> native_ctx \<Rightarrow> native_ctx" where
  "with_backend f s = s\<lparr>backend := f (backend s)\<rparr>"

section \<open>Viewport callbacks\<close>

definition Viewport_eq :: "Viewport \<Rightarrow> Viewport \<Rightarrow> bool" where
  "Viewport_eq a b \<longleftrightarrow> f32_eq (vp_left a) (vp_left b) \<and> f32_eq (vp_top a) (vp_top b) \<and>
     f32_eq (vp_width a) (vp_width b) \<and> f32_eq (vp_height a) (vp_height b) \<and>
     f32_eq (vp_znear a) (vp_znear b) \<and> f32_eq (vp_zfar a) (vp_zfar b)"

definition set_render_viewport :: "Viewport \<Rightarrow> native_ctx \<Rightarrow> native_ctx" where
  "set_render_viewport v s =
     (if \<not> Viewport_eq (renderViewport s) v then s\<lparr>renderViewport := v, stateDirty := True\<rparr> else s)"

definition set_render_scissor :: "ClipRect \<Rightarrow> native_ctx \<Rightarrow> native_ctx" where
  "set_render_scissor r s =
     (if renderScissor s \<noteq> r then s\<lparr>renderScissor := r, stateDirty := True\<rparr> else s)"

definition apply_extent :: "gx_enums \<Rightarrow> native_ctx \<Rightarrow> native_ctx" where
  "apply_extent g s =
     (let m = map_gx_viewport g s (nb_extent (backend s))
      in set_render_scissor (mv_scissor m) (set_render_viewport (mv_viewport m) s))"

definition configure_gx_render_extent ::
  "gx_enums \<Rightarrow> GxRenderExtent \<Rightarrow> native_ctx \<Rightarrow> string + native_ctx" where
  "configure_gx_render_extent g e s =
     (if \<not> valid_extent e then Inl ''Invalid GX render-target extent''
      else Inr (apply_extent g (with_backend (\<lambda>b. b\<lparr>nb_extent := e\<rparr>) s)))"

definition set_logical_viewport :: "gx_enums \<Rightarrow> Viewport \<Rightarrow> native_ctx \<Rightarrow> native_ctx" where
  "set_logical_viewport g v s = apply_extent g
     (if \<not> Viewport_eq (logicalViewport s) v then s\<lparr>logicalViewport := v, stateDirty := True\<rparr> else s)"

definition set_logical_scissor :: "gx_enums \<Rightarrow> ClipRect \<Rightarrow> native_ctx \<Rightarrow> native_ctx" where
  "set_logical_scissor g r s = apply_extent g (s\<lparr>logicalScissor := r\<rparr>)"

section \<open>Evictions\<close>

definition evict_texture_object :: "u32 \<Rightarrow> native_ctx \<Rightarrow> native_ctx" where
  "evict_texture_object i s = s\<lparr>loadedTextures :=
     map (\<lambda>t. if to_texObjId t = i then t\<lparr>to_flags := set_no_cache True (to_flags t)\<rparr> else t)
       (loadedTextures s)\<rparr>"

definition evict_tlut_object :: "u32 \<Rightarrow> native_ctx \<Rightarrow> native_ctx" where
  "evict_tlut_object i s = s\<lparr>loadedTluts :=
     map (\<lambda>t. if tl_tlutObjId t = i then t\<lparr>tl_flags := set_no_cache True (tl_flags t)\<rparr> else t)
       (loadedTluts s)\<rparr>"

definition evict_copy_texture :: "u64 \<Rightarrow> native_ctx \<Rightarrow> native_ctx" where
  "evict_copy_texture destination s =
     (with_backend (\<lambda>b. b\<lparr>nb_copies := if destination \<noteq> 0 then (nb_copies b)(destination := None)
                             else (\<lambda>_. None)\<rparr>) s)\<lparr>stateDirty := True\<rparr>"

definition invalidate_static_texture_cache :: "native_ctx \<Rightarrow> native_ctx" where
  "invalidate_static_texture_cache s = s\<lparr>stateDirty := True\<rparr>"

section \<open>The receiver of draws\<close>

definition exchange_gx_draw_sink :: "GxDrawSink \<Rightarrow> native_ctx \<Rightarrow> string + (GxDrawSink \<times> native_ctx)" where
  "exchange_gx_draw_sink snk s =
     (if (sink_resolve snk \<noteq> None) \<noteq> (sink_submit snk \<noteq> None) then Inl ''Incomplete GX draw receiver''
      else Inr (nb_sink (backend s), with_backend (\<lambda>b. b\<lparr>nb_sink := snk\<rparr>) s))"

definition resolve_gx_array :: "GxDrawSink \<Rightarrow> gx_resolver" where
  "resolve_gx_array snk attr arr offset n =
     (case sink_resolve snk of None \<Rightarrow> Inl ''GX arrays require the active renderer''
      | Some f \<Rightarrow>
         if arr_data arr = 0 \<or> offset > arr_size arr \<or> n > arr_size arr - offset then
           Inl ''GX array exceeds declared interval''
         else case f attr arr offset n of Inl e \<Rightarrow> Inl e
            | Inr bs \<Rightarrow> if length bs < unat n then Inl ''GX array resolver returned truncated storage''
                       else Inr (take (unat n) bs))"

definition submit_gx_geometry :: "GxGeometry \<Rightarrow> native_ctx \<Rightarrow> string + native_ctx" where
  "submit_gx_geometry geo s =
     (case sink_submit (nb_sink (backend s)) of None \<Rightarrow> Inl ''GX draws require the active renderer''
      | Some f \<Rightarrow>
         (case f geo (GXRegisterState.truncate s) of Some e \<Rightarrow> Inl e
          | None \<Rightarrow> Inr (with_backend (\<lambda>b. b\<lparr>nb_submitted := nb_submitted b @ [geo]\<rparr>) s)))"

section \<open>Draw commands\<close>

definition is_line_class :: "GXPrimitive \<Rightarrow> bool" where
  "is_line_class p \<longleftrightarrow> p = GX_LINES \<or> p = GX_LINESTRIP \<or> p = GX_POINTS"

definition submit_draw ::
  "gx_enums \<Rightarrow> gx_render_enums \<Rightarrow> GxVertexLayout \<Rightarrow> GXPrimitive \<Rightarrow> u16 \<Rightarrow> u8 list \<Rightarrow> native_ctx \<Rightarrow>
   string + native_ctx" where
  "submit_draw g x lay p count rs s =
     (if count = 0 then Inr s
      else if cullMode s = GX_CULL_ALL x \<and> \<not> is_line_class p then Inr s
      else case GxGeometry_snapshot g (resolve_gx_array (nb_sink (backend s))) lay s p count rs of
        Inl e \<Rightarrow> Inl e
      | Inr packet \<Rightarrow> if geo_indices packet = [] then Inr s else submit_gx_geometry packet s)"

definition clear_pending :: "native_ctx \<Rightarrow> native_ctx" where
  "clear_pending = with_backend (\<lambda>b. b\<lparr>nb_pending :=
     (nb_pending b)\<lparr>pd_records := [], pd_segments := [], pd_vertices := 0\<rparr>\<rparr>)"

text \<open>The group is cleared on every way out, an exception included.\<close>
definition submit_pending ::
  "gx_enums \<Rightarrow> gx_render_enums \<Rightarrow> native_ctx \<Rightarrow> ((string + unit) \<times> native_ctx) option" where
  "submit_pending g x s =
     (let p = nb_pending (backend s);
          finish = (\<lambda>r. case r of Inl e \<Rightarrow> Some (Inl e, clear_pending s)
                               | Inr t \<Rightarrow> Some (Inr (), clear_pending t))
      in case pd_segments p of
        [] \<Rightarrow> finish (Inr s)
      | [sg] \<Rightarrow> finish (submit_draw g x (pd_layout p) (seg_primitive sg) (seg_count sg) (pd_records p) s)
      | _ \<Rightarrow>
         if cullMode s = GX_CULL_ALL x then finish (Inr s)
         else case GxGeometry_snapshot_segments g (resolve_gx_array (nb_sink (backend s)))
                (pd_layout p) s (pd_segments p) (pd_records p) of
           None \<Rightarrow> None
         | Some (Inl e) \<Rightarrow> finish (Inl e)
         | Some (Inr packet) \<Rightarrow>
             finish (if geo_indices packet = [] then Inr s else submit_gx_geometry packet s))"

function skip_nops :: "bytes \<Rightarrow> nat \<Rightarrow> nat \<Rightarrow> nat option" where
  "skip_nops d loc sz =
     (if loc < sz then
        (case d loc of None \<Rightarrow> None
         | Some b \<Rightarrow> if b = 0 then skip_nops d (Suc loc) sz else Some loc)
      else Some loc)"
  by pat_completeness auto
termination by (relation "measure (\<lambda>(d, loc, sz). sz - loc)") auto

declare skip_nops.simps [simp del]

definition next_draw_joins ::
  "bytes \<Rightarrow> nat \<Rightarrow> nat \<Rightarrow> bool \<Rightarrow> nat \<Rightarrow> nat \<Rightarrow> bool option" where
  "next_draw_joins d pos sz be format stride = do {
     loc \<leftarrow> skip_nops d pos sz;
     if loc \<ge> sz \<or> sz - loc < 3 then Some False
     else do {
       command \<leftarrow> d loc;
       let opcode = command AND 0xf8;
       if opcode < 0x80 \<or> opcode > 0xa0 \<or> unat (command AND 7) \<noteq> format then Some False
       else do {
         count \<leftarrow> read_u16 d (loc + 1) be;
         Some (unat count * stride \<le> sz - loc - 3) } } }"

text \<open>\<open>size_t(1)<<18\<close>.\<close>
definition kMergedRecordBytes :: nat where "kMergedRecordBytes = 2 ^ 18"

definition join_pending :: "GxVertexLayout \<Rightarrow> nat \<Rightarrow> GXPrimitive \<Rightarrow> u16 \<Rightarrow> u8 list \<Rightarrow> PendingDraws \<Rightarrow> PendingDraws" where
  "join_pending lay format p count rs pd =
     (let pd1 = (if pd_segments pd = [] then pd\<lparr>pd_layout := lay, pd_format := format\<rparr> else pd)
      in pd1\<lparr>pd_records := pd_records pd1 @ rs,
             pd_segments := pd_segments pd1 @ [\<lparr>seg_primitive = p, seg_count = count\<rparr>],
             pd_vertices := pd_vertices pd1 + unat count\<rparr>)"

text \<open>A triangle draw joins the pending group, which is submitted unless the next command joins too.\<close>
definition draw_triangles ::
  "gx_enums \<Rightarrow> gx_render_enums \<Rightarrow> bytes \<Rightarrow> u32 \<Rightarrow> u32 \<Rightarrow> bool \<Rightarrow> GxVertexLayout \<Rightarrow> nat \<Rightarrow> GXPrimitive \<Rightarrow>
   u16 \<Rightarrow> u8 list \<Rightarrow> native_ctx \<Rightarrow> ((string + bool) \<times> u32 \<times> native_ctx) option" where
  "draw_triangles g x d pos sz be lay format p count rs s =
     (let pd = join_pending lay format p count rs (nb_pending (backend s));
          s1 = with_backend (\<lambda>b. b\<lparr>nb_pending := pd\<rparr>) s;
          submit = (case submit_pending g x s1 of None \<Rightarrow> None
            | Some (Inl e, t) \<Rightarrow> Some (Inl e, pos, t)
            | Some (Inr _, t) \<Rightarrow> Some (Inr True, pos, t))
      in if length (pd_records pd) < kMergedRecordBytes \<and> pd_vertices pd \<le> 65535 * 64 then
           (case next_draw_joins d (unat pos) (unat sz) be format (vl_stride lay) of
              None \<Rightarrow> None
            | Some j \<Rightarrow> if j then Some (Inr True, pos, s1) else submit)
         else submit)"

definition handle_draw ::
  "gx_enums \<Rightarrow> gx_render_enums \<Rightarrow> u8 \<Rightarrow> bytes \<Rightarrow> u32 \<Rightarrow> u32 \<Rightarrow> bool \<Rightarrow> native_ctx \<Rightarrow>
   ((string + bool) \<times> u32 \<times> native_ctx) option" where
  "handle_draw g x command d pos sz be s =
     (if pos > sz \<or> sz - pos < 2 then Some (Inr False, pos, s)
      else case gx_primitive_from_command command of Inl e \<Rightarrow> Some (Inl e, pos, s)
      | Inr p \<Rightarrow>
        (let format = unat (command AND 7); pending = nb_pending (backend s) in
         case read_u16 d (unat pos) be of None \<Rightarrow> None
         | Some count \<Rightarrow>
           (let joined = (pd_segments pending \<noteq> [] \<and> triangle_class p \<and> pd_format pending = format) in
            case (if joined then Inr (pd_layout pending) else GxVertexLayout_build g x s format) of
              Inl e \<Rightarrow> Some (Inl e, pos, s)
            | Inr lay \<Rightarrow>
              (let n = unat count * vl_stride lay in
               if n > unat (sz - pos - 2) then Some (Inr False, pos, s)
               else case read_bytes d (unat pos + 2) n of None \<Rightarrow> None
               | Some rs \<Rightarrow>
                 (if \<not> triangle_class p then
                    (case submit_draw g x lay p count rs s of Inl e \<Rightarrow> Some (Inl e, pos, s)
                     | Inr t \<Rightarrow> Some (Inr True, pos + 2 + of_nat n, t))
                  else draw_triangles g x d (pos + 2 + of_nat n) sz be lay format p count rs s)))))"

definition native_backend :: "gx_enums \<Rightarrow> gx_render_enums \<Rightarrow> native_state gx_backend" where
  "native_backend g x = \<lparr>
     be_set_logical_viewport = set_logical_viewport g,
     be_set_logical_scissor = set_logical_scissor g,
     be_set_render_viewport = set_render_viewport,
     be_set_render_scissor = set_render_scissor,
     be_evict_texture_object = evict_texture_object,
     be_evict_tlut_object = evict_tlut_object,
     be_evict_copy_texture = evict_copy_texture,
     be_invalidate_static_texture_cache = invalidate_static_texture_cache,
     be_push_debug_group = (\<lambda>_ s. s),
     be_pop_debug_group = (\<lambda>s. s),
     be_insert_debug_marker = (\<lambda>_ s. s),
     be_handle_draw = handle_draw g x\<rparr>"

end
