(* ===== verification/FifoLemmas.thy ===== *)
theory FifoLemmas
  imports FifoDispatch
begin

text \<open>
  Safety of the command loop: under the renderer contract no command reads outside the buffer,
  every command keeps the decoder invariant \<open>fifo_inv\<close> (shape, ranges and coherence of the XF
  cache), and the position moves strictly forwards within the buffer, so the loop ends.
\<close>

definition fifo_inv :: "gx_enums \<Rightarrow> 'b gx_ctx \<Rightarrow> bool" where
  "fifo_inv g s \<longleftrightarrow> wf_ctx g s \<and> wf_tev g s \<and> xf_coherent s"

lemma fifo_inv_sizes: "fifo_inv g s \<Longrightarrow> xf_sizes s"
  by (auto simp: fifo_inv_def wf_ctx_def intro: xf_sizes_wf)

lemma fifo_inv_frame: "render_frame s t \<Longrightarrow> fifo_inv g t = fifo_inv g s"
  by (simp add: fifo_inv_def render_frame_wf same_xf_coherent[OF same_xf_render])

section \<open>Positions\<close>

lemma within: "(p :: u32) \<le> sz \<Longrightarrow> n \<le> sz - p \<Longrightarrow> unat p + unat n \<le> unat sz"
  by (simp add: word_le_nat_alt unat_sub)

lemma unat_succ_below: "(p :: u32) < sz \<Longrightarrow> unat (p + 1) = unat p + 1"
proof -
  assume "p < sz"
  moreover have "unat sz < 2 ^ 32" by (rule less_le_trans[OF unsigned_less]) simp
  ultimately show ?thesis by (simp add: unat_word_ariths word_less_nat_alt)
qed

lemma unat_add_within:
  assumes "(p :: u32) \<le> sz" "n \<le> sz - p"
  shows "unat (p + n) = unat p + unat n"
  proof -
  have "unat sz < 2 ^ 32" by (rule less_le_trans[OF unsigned_less]) simp
  thus ?thesis using within[OF assms] by (simp add: unat_word_ariths)
qed

lemma within_le: "(p :: u32) \<le> sz \<Longrightarrow> n \<le> sz - p \<Longrightarrow> p \<le> p + n \<and> p + n \<le> sz"
  using within[of p sz n] unat_add_within[of p sz n] by (simp add: word_le_nat_alt)

lemma has_bytes_unat: "has_bytes p sz n \<Longrightarrow> unat p + unat n \<le> unat sz"
  by (auto simp: has_bytes_def within)

lemma has_bytes_offset:
  assumes "has_bytes p sz n" "m \<le> n"
  shows "unat (p + m) = unat p + unat m" "p \<le> p + m" "p + m \<le> sz"
proof -
  have "p \<le> sz" "m \<le> sz - p" using assms by (auto simp: has_bytes_def intro: order_trans)
  thus "unat (p + m) = unat p + unat m" "p \<le> p + m" "p + m \<le> sz"
    using unat_add_within within_le by blast+
qed

section \<open>XF blocks\<close>

lemma xf_block_bounds:
  assumes "(pos :: u32) \<le> sz" "4 \<le> sz - pos" "n * 4 \<le> sz - (pos + 4)"
    "n = (drop_bit 16 header AND 0xFFFF) + 1"
  shows "unat (pos + 4) = unat pos + 4" "unat (n * 4) = unat n * 4"
    "unat pos + 4 + unat n * 4 \<le> unat sz" "unat (pos + 4 + n * 4) = unat pos + 4 + unat n * 4"
proof -
  have h: "has_bytes pos sz 4" using assms by (simp add: has_bytes_def)
  show p4: "unat (pos + 4) = unat pos + 4" using has_bytes_offset(1)[OF h, of 4] by simp
  have "(drop_bit 16 header AND 0xFFFF) = take_bit 16 (drop_bit 16 header)"
    by (simp add: take_bit_eq_mask mask_eq_exp_minus_1)
  hence "unat (drop_bit 16 header AND 0xFFFF) < 2 ^ 16"
    by (metis fits_take_bit fits_unat_less)
  hence "unat n \<le> 2 ^ 16" using assms(4) by (simp add: unat_word_ariths)
  thus n4: "unat (n * 4) = unat n * 4" by (simp add: unat_word_ariths)
  have le: "pos + 4 \<le> sz" using has_bytes_offset(3)[OF h, of 4] by simp
  show "unat pos + 4 + unat n * 4 \<le> unat sz"
    using within[OF le assms(3)] p4 n4 by simp
  show "unat (pos + 4 + n * 4) = unat pos + 4 + unat n * 4"
    using unat_add_within[OF le assms(3)] p4 n4 by simp
qed

lemma handle_xf_pos:
  assumes "handle_xf g B d pos sz be s = Some (p, t)" "pos \<le> sz"
  shows "pos \<le> p \<and> p \<le> sz"
  using assms(1)
proof (cases rule: handle_xf_cases)
  case (block header h u)
  note b = xf_block_bounds[OF block(1,2,4) refl]
  show ?thesis unfolding block(5) using b(3,4) by (simp add: word_le_nat_alt)
qed (use assms in simp)

lemma wf_xf_decode [wf_intros]: "wf_shape g s \<Longrightarrow> wf_shape g (xf_reg_decode r v s)"
  unfolding xf_reg_decode_def
  by (intro if_pred[where P = "wf_shape g"])
     (simp_all add: xf_group_defs wf_simps, simp_all add: wf_shape_def)

lemma wf_tev_xf_decode: "wf_tev g (xf_reg_decode r v s) = wf_tev g s"
  unfolding xf_reg_decode_def
  by (intro if_pred[where P = "\<lambda>t. wf_tev g t = wf_tev g s"])
     (simp_all add: xf_group_defs wf_simps, simp_all add: wf_tev_def)

lemma cp_caches_xf_decode:
  "cpRegisterCache (xf_reg_decode r v s) = cpRegisterCache s"
  "cpRegisterCacheValid (xf_reg_decode r v s) = cpRegisterCacheValid s"
  by (simp_all add: xf_reg_decode_def xf_group_defs)

lemma xf_reg_write_wf:
  assumes "xf_reg_write reg val (a, b, s) = (a', b', t)" "wf_ctx g s"
  shows "wf_ctx g t" "wf_tev g t = wf_tev g s"
proof -
  define s1 where "s1 = (if reg < 0x60 then storeXfReg reg val s else s)"
  have z: "xf_sizes s" using assms(2) xf_sizes_wf by (auto simp: wf_ctx_def)
  have w1: "wf_ctx g s1" "wf_tev g s1 = wf_tev g s"
    using assms(2) by (simp_all add: s1_def wf_ctx_def wf_storeXfReg) (simp_all add: storeXfReg_def)
  note cases5 = xf_reg_write_cases[OF assms(1) z s1_def]
  have d: "wf_ctx g (xf_reg_decode reg val s1)"
    using w1(1) by (simp add: wf_ctx_def wf_xf_decode cp_caches_xf_decode)
  show "wf_ctx g t"
    by (rule cases5) (use w1 d in \<open>simp_all add: wf_ctx_def wf_shape_def\<close>)
  show "wf_tev g t = wf_tev g s"
    unfolding w1(2)[symmetric]
    by (rule cases5) (simp_all add: wf_tev_xf_decode, simp_all add: wf_tev_def)
qed

lemma wf_projection:
  "wf_ctx g (apply_xf_projection e s) = wf_ctx g (s\<lparr>proj := replicate 16 0\<rparr>)"
  "wf_tev g (apply_xf_projection e s) = wf_tev g s"
  by (simp_all add: apply_xf_projection_def Let_def wf_ctx_def wf_shape_def wf_tev_def)

lemma wf_proj_reset: "wf_ctx g s \<Longrightarrow> wf_ctx g (s\<lparr>proj := replicate 16 0\<rparr>)"
  by (simp add: wf_ctx_def wf_shape_def)

context gx_backend_contract
begin

lemma wf_viewport:
  "wf_ctx g (apply_xf_viewport B s) = wf_ctx g s" "wf_tev g (apply_xf_viewport B s) = wf_tev g s"
  unfolding apply_xf_viewport_def Let_def by (rule render_frame_wf[OF logical_viewport])+

lemma xf_write_block_wf:
  assumes "xf_write_block g B a src n be s = Some t" "wf_ctx g s" "wf_tev g s"
  shows "wf_ctx g t \<and> wf_tev g t"
proof -
  define f where "f = (\<lambda>i (st :: bool \<times> bool \<times> 'b gx_ctx). Option.bind (read_u32 src (i * 4) be)
    (\<lambda>val. Some (xf_reg_write (a + of_nat i) val st)))"
  obtain x y u where l: "for_opt f [0..<n] (False, False, s) = Some (x, y, u)"
    and t: "t = (if y then apply_xf_projection g (if x then apply_xf_viewport B u else u)
                 else (if x then apply_xf_viewport B u else u))"
    using assms(1) unfolding xf_write_block_def f_def[symmetric] Let_def
    by (auto split: bind_splits)
  have "(\<lambda>(_, _, v). wf_ctx g v \<and> wf_tev g v) (x, y, u)"
    by (rule for_opt_invariant[OF l])
       (use assms(2,3) in \<open>auto simp: f_def split: bind_splits dest: xf_reg_write_wf\<close>)
  thus ?thesis by (simp add: t wf_projection wf_proj_reset wf_viewport)
qed

lemma xf_write_block_total:
  assumes "readable src (n * 4)"
  shows "\<exists>t. xf_write_block g B a src n be s = Some t"
proof -
  define f where "f = (\<lambda>i (st :: bool \<times> bool \<times> 'b gx_ctx). Option.bind (read_u32 src (i * 4) be)
    (\<lambda>val. Some (xf_reg_write (a + of_nat i) val st)))"
  have "for_opt f [0..<n] (False, False, s) \<noteq> None"
  proof (rule for_opt_total)
    fix i x assume "i \<in> set [0..<n]"
    hence "i * 4 + 4 \<le> n * 4" by simp
    then obtain v where "read_u32 src (i * 4) be = Some v"
      using read_total(2)[OF assms, of "i * 4" be] by blast
    hence "f i x = Some (xf_reg_write (a + of_nat i) v x)" by (simp add: f_def)
    thus "f i x \<noteq> None" by (rule ssubst) (rule option.distinct)
  qed
  thus ?thesis unfolding xf_write_block_def f_def[symmetric] Let_def by auto
qed

lemma handle_xf_inv:
  assumes "handle_xf g B d pos sz be s = Some (p, t)" "fifo_inv g s"
  shows "fifo_inv g t"
proof -
  have c: "xf_coherent t"
    using handle_xf_coherent[OF assms(1)] fifo_inv_sizes[OF assms(2)] assms(2)
    by (simp add: fifo_inv_def)
  show ?thesis
    using assms(1)
  proof (cases rule: handle_xf_cases)
    case (block header h u)
    have "wf_ctx g u" "wf_tev g u"
      using copy_xf_data_wf[OF block(6), of g] assms(2) by (simp_all add: fifo_inv_def)
    thus ?thesis using block(7) xf_write_block_wf c by (auto simp: fifo_inv_def)
  qed (use assms(2) in simp)
qed

lemma handle_xf_total:
  assumes "readable d (unat sz)" "pos \<le> sz"
  shows "\<exists>p t. handle_xf g B d pos sz be s = Some (p, t)"
proof (cases "pos > sz \<or> sz - pos < 4")
  case True
  thus ?thesis by (simp add: handle_xf_def)
next
  case False
  hence hb: "has_bytes pos sz 4" using assms(2) by (auto simp: has_bytes_def)
  obtain header where hd: "read_u32 d (unat pos) be = Some header"
    using read_total(2)[OF assms(1), of "unat pos" be] has_bytes_unat[OF hb] by auto
  define c where "c = (drop_bit 16 header AND 0xFFFF) + 1"
  show ?thesis
  proof (cases "sz - (pos + 4) < c * 4")
    case True
    thus ?thesis using False hd by (simp add: handle_xf_def Let_def c_def)
  next
    case F2: False
    have "c * 4 \<le> sz - (pos + 4)" "4 \<le> sz - pos" using F2 False by auto
    note b = xf_block_bounds[OF assms(2) this(2,1) c_def]
    have rd: "readable (at_offset d (unat (pos + 4))) (unat c * 4)"
      by (rule at_offset_readable, rule readable_mono[OF assms(1)]) (use b in simp)
    obtain h u where u: "copy_xf_data (header AND 0xFFFF) (at_offset d (unat (pos + 4))) c be s = Some (h, u)"
      using copy_xf_data_total[OF rd] by blast
    obtain t where "xf_write_block g B ((header AND 0xFFFF) - 0x1000) (at_offset d (unat (pos + 4)))
        (unat c) be u = Some t"
      using xf_write_block_total[OF rd] by blast
    thus ?thesis
      unfolding handle_xf_def if_not_P[OF False] hd Option.bind.simps Let_def c_def[symmetric]
        if_not_P[OF F2] u by simp
  qed
qed

end

section \<open>Subcommands\<close>

lemma read_bytes_total:
  assumes "readable d n" "p + m \<le> n"
  shows "\<exists>xs. read_bytes d p m = Some xs"
  using assms(2)
proof (induction m arbitrary: p)
  case (Suc m)
  obtain x where "d p = Some x" using readable_at[OF assms(1), of p] Suc.prems by auto
  moreover obtain xs where "read_bytes d (Suc p) m = Some xs" using Suc.IH[of "Suc p"] Suc.prems by auto
  ultimately show ?case by simp
qed simp

text \<open>A handler of a subcommand is good when it does not fault, keeps the invariant and leaves the
  position within the buffer, not before where it started.\<close>
definition good_result ::
  "gx_enums \<Rightarrow> u32 \<Rightarrow> u32 \<Rightarrow> (bool \<times> u32 \<times> 'b gx_ctx) option \<Rightarrow> bool" where
  "good_result g pos sz r \<longleftrightarrow> (case r of None \<Rightarrow> False
     | Some (ok, p, t) \<Rightarrow> fifo_inv g t \<and> (ok \<longrightarrow> pos \<le> p \<and> p \<le> sz))"

lemma fifo_inv_updates:
  assumes "fifo_inv g s"
  shows "fifo_inv g (s\<lparr>stateDirty := b\<rparr>)" "fifo_inv g (mark_pipeline_state_dirty s)"
    "length a = GX_VA_MAX_ATTR g \<Longrightarrow> fifo_inv g (s\<lparr>arrays := a\<rparr>)"
    "length lt = MaxTextures \<Longrightarrow> fifo_inv g (s\<lparr>loadedTextures := lt\<rparr>)"
    "length lu = MaxTluts \<Longrightarrow> fifo_inv g (s\<lparr>loadedTluts := lu\<rparr>)"
proof -
  have c: "same_xf s t \<Longrightarrow> xf_coherent t" for t
    using assms same_xf_coherent by (auto simp: fifo_inv_def)
  show "fifo_inv g (s\<lparr>stateDirty := b\<rparr>)"
    using assms c[of "s\<lparr>stateDirty := b\<rparr>"]
    by (simp add: fifo_inv_def wf_ctx_def wf_shape_def wf_tev_def same_xf_def)
  show "fifo_inv g (mark_pipeline_state_dirty s)"
    using assms c[of "mark_pipeline_state_dirty s"] by (simp add: fifo_inv_def wf_simps)
  show "length a = GX_VA_MAX_ATTR g \<Longrightarrow> fifo_inv g (s\<lparr>arrays := a\<rparr>)"
    using assms c[of "s\<lparr>arrays := a\<rparr>"]
    by (simp add: fifo_inv_def wf_ctx_def wf_shape_def wf_tev_def same_xf_def)
  show "length lt = MaxTextures \<Longrightarrow> fifo_inv g (s\<lparr>loadedTextures := lt\<rparr>)"
    using assms c[of "s\<lparr>loadedTextures := lt\<rparr>"]
    by (simp add: fifo_inv_def wf_ctx_def wf_shape_def wf_tev_def same_xf_def)
  show "length lu = MaxTluts \<Longrightarrow> fifo_inv g (s\<lparr>loadedTluts := lu\<rparr>)"
    using assms c[of "s\<lparr>loadedTluts := lu\<rparr>"]
    by (simp add: fifo_inv_def wf_ctx_def wf_shape_def wf_tev_def same_xf_def)
qed

lemma fifo_inv_lengths:
  assumes "fifo_inv g s"
  shows "length (arrays s) = GX_VA_MAX_ATTR g" "length (loadedTextures s) = MaxTextures"
    "length (loadedTluts s) = MaxTluts"
  using assms by (simp_all add: fifo_inv_def wf_ctx_def wf_shape_def)

text \<open>Every read of a checked span succeeds.\<close>
lemma span_reads:
  assumes "readable d (unat sz)" "has_bytes pos sz n" "m \<le> n"
  shows "unat m + 4 \<le> unat n \<Longrightarrow> \<exists>v. read_u32 d (unat (pos + m)) be = Some v"
    "unat m + 4 \<le> unat n \<Longrightarrow> \<exists>v. read_f32 d (unat (pos + m)) be = Some v"
    "unat m + 2 \<le> unat n \<Longrightarrow> \<exists>v. read_u16 d (unat (pos + m)) be = Some v"
    "unat m + 8 \<le> unat n \<Longrightarrow> \<exists>v. read_u64 d (unat (pos + m)) be = Some v"
    "unat m + 1 \<le> unat n \<Longrightarrow> \<exists>v. d (unat (pos + m)) = Some v"
  using has_bytes_unat[OF assms(2)] has_bytes_offset(1)[OF assms(2,3)]
  by (auto intro!: read_total[OF assms(1)] readable_at[OF assms(1)])

lemma span_reads0:
  assumes "readable d (unat sz)" "has_bytes pos sz n"
  shows "4 \<le> unat n \<Longrightarrow> \<exists>v. read_u32 d (unat pos) be = Some v"
    "4 \<le> unat n \<Longrightarrow> \<exists>v. read_f32 d (unat pos) be = Some v"
    "2 \<le> unat n \<Longrightarrow> \<exists>v. read_u16 d (unat pos) be = Some v"
    "8 \<le> unat n \<Longrightarrow> \<exists>v. read_u64 d (unat pos) be = Some v"
    "1 \<le> unat n \<Longrightarrow> \<exists>v. d (unat pos) = Some v"
  using span_reads[OF assms, of 0] by auto

lemma good_stop: "fifo_inv g s \<Longrightarrow> good_result g pos sz (Some (False, p, s))"
  by (simp add: good_result_def)

lemma good_next:
  "has_bytes pos sz n \<Longrightarrow> fifo_inv g t \<Longrightarrow> good_result g pos sz (Some (True, pos + n, t))"
  using has_bytes_offset[of pos sz n n] by (simp add: good_result_def)

lemma good_texobj:
  assumes "readable d (unat sz)" "fifo_inv g s"
  shows "good_result g pos sz (aurora_texobj d pos sz be s)"
proof (cases "has_bytes pos sz 34")
  case True
  note rd = span_reads[OF assms(1) True] and r0 = span_reads0[OF assms(1) True]
  obtain a where a: "d (unat pos) = Some a" using r0(5) by auto
  obtain x1 where x1: "read_u64 d (unat (pos + 1)) be = Some x1" using rd(4)[of 1 be] by auto
  obtain x2 where x2: "read_u32 d (unat (pos + 9)) be = Some x2" using rd(1)[of 9 be] by auto
  obtain x3 where x3: "read_u32 d (unat (pos + 13)) be = Some x3" using rd(1)[of 13 be] by auto
  obtain x4 where x4: "read_u32 d (unat (pos + 17)) be = Some x4" using rd(1)[of 17 be] by auto
  obtain x5 where x5: "read_u32 d (unat (pos + 21)) be = Some x5" using rd(1)[of 21 be] by auto
  obtain x6 where x6: "d (unat (pos + 25)) = Some x6" using rd(5)[of 25] by auto
  obtain x7 where x7: "read_u32 d (unat (pos + 26)) be = Some x7" using rd(1)[of 26 be] by auto
  obtain x8 where x8: "read_u32 d (unat (pos + 30)) be = Some x8" using rd(1)[of 30 be] by auto
  show ?thesis
    using assms(2) fifo_inv_lengths(2)[OF assms(2)]
    by (simp add: aurora_texobj_def True a x1 x2 x3 x4 x5 x6 x7 x8 good_stop good_next[OF True]
        fifo_inv_updates Let_def del: not_None_eq)
qed (simp add: aurora_texobj_def good_stop assms(2))

lemma good_tlut:
  assumes "readable d (unat sz)" "fifo_inv g s"
  shows "good_result g pos sz (aurora_tlut d pos sz be s)"
proof (cases "has_bytes pos sz 23")
  case True
  note rd = span_reads[OF assms(1) True] and r0 = span_reads0[OF assms(1) True]
  obtain a where a: "d (unat pos) = Some a" using r0(5) by auto
  obtain x1 where x1: "read_u64 d (unat (pos + 1)) be = Some x1" using rd(4)[of 1 be] by auto
  obtain x2 where x2: "read_u32 d (unat (pos + 9)) be = Some x2" using rd(1)[of 9 be] by auto
  obtain x3 where x3: "read_u16 d (unat (pos + 13)) be = Some x3" using rd(3)[of 13 be] by auto
  obtain x4 where x4: "read_u32 d (unat (pos + 15)) be = Some x4" using rd(1)[of 15 be] by auto
  obtain x5 where x5: "read_u32 d (unat (pos + 19)) be = Some x5" using rd(1)[of 19 be] by auto
  have u: "fifo_inv g (s\<lparr>stateDirty := True, loadedTluts := lu\<rparr>)" if "length lu = MaxTluts" for lu
    using fifo_inv_updates(5)[OF fifo_inv_updates(1)[OF assms(2)] that] by simp
  show ?thesis
    using assms(2) fifo_inv_lengths(3)[OF assms(2)]
    by (simp add: aurora_tlut_def True a x1 x2 x3 x4 x5 good_stop good_next[OF True] u)
qed (simp add: aurora_tlut_def good_stop assms(2))

lemma good_array_base:
  assumes "readable d (unat sz)" "fifo_inv g s"
  shows "good_result g pos sz (aurora_array_base k d pos sz be c s)"
proof (cases "has_bytes pos sz 13")
  case True
  note rd = span_reads[OF assms(1) True] and r0 = span_reads0[OF assms(1) True]
  obtain x1 where x1: "read_u64 d (unat pos) be = Some x1" using r0(4) by auto
  obtain x2 where x2: "read_u32 d (unat (pos + 8)) be = Some x2" using rd(1)[of 8 be] by auto
  obtain x3 where x3: "d (unat (pos + 12)) = Some x3" using rd(5)[of 12] by auto
  show ?thesis
    using assms(2) fifo_inv_lengths(1)[OF assms(2)]
    by (simp add: aurora_array_base_def True x1 x2 x3 good_next[OF True] fifo_inv_updates Let_def)
qed (simp add: aurora_array_base_def good_stop assms(2))

lemma good_word_call:
  assumes "readable d (unat sz)" "fifo_inv g s" "\<And>v. fifo_inv g (f v s)"
  shows "good_result g pos sz (aurora_word_call f d pos sz be s)"
proof (cases "has_bytes pos sz 4")
  case True
  obtain x where "read_u32 d (unat pos) be = Some x"
    using span_reads0(1)[OF assms(1) True] by auto
  thus ?thesis by (simp add: aurora_word_call_def True good_next[OF True] assms(3))
qed (simp add: aurora_word_call_def good_stop assms(2))

lemma good_ptr_call:
  assumes "readable d (unat sz)" "fifo_inv g s" "\<And>v. fifo_inv g (f v s)"
  shows "good_result g pos sz (aurora_ptr_call f d pos sz be s)"
proof (cases "has_bytes pos sz 8")
  case True
  obtain x where "read_u64 d (unat pos) be = Some x"
    using span_reads0(4)[OF assms(1) True] by auto
  thus ?thesis by (simp add: aurora_ptr_call_def True good_next[OF True] assms(3))
qed (simp add: aurora_ptr_call_def good_stop assms(2))

lemma good_string_call:
  assumes "readable d (unat sz)" "fifo_inv g s" "\<And>v. fifo_inv g (f v s)"
  shows "good_result g pos sz (aurora_string_call f d pos sz be s)"
proof (cases "has_bytes pos sz 2")
  case True
  obtain n where n: "read_u16 d (unat pos) be = Some n"
    using span_reads0(3)[OF assms(1) True] by auto
  note o2 = has_bytes_offset[OF True, of 2, simplified]
  show ?thesis
  proof (cases "has_bytes (pos + 2) sz (ucast n)")
    case hb: True
    have "unat n < 2 ^ 32" by (rule less_le_trans[OF unsigned_less]) simp
    hence un: "unat (ucast n :: u32) = unat n"
      by (simp only: unsigned_ucast_eq) (simp add: take_bit_nat_eq_self)
    have "unat (pos + 2) + unat n \<le> unat sz" using has_bytes_unat[OF hb] un by simp
    then obtain xs where xs: "read_bytes d (unat (pos + 2)) (unat n) = Some xs"
      using read_bytes_total[OF assms(1)] by blast
    have "pos \<le> pos + 2 + ucast n \<and> pos + 2 + ucast n \<le> sz"
      using has_bytes_offset(2,3)[OF hb order_refl] o2(2) by (meson order_trans)
    thus ?thesis
      by (simp add: aurora_string_call_def read_string_def True n hb xs good_result_def assms(3) Let_def)
  qed (simp add: aurora_string_call_def read_string_def True n good_stop assms(2))
qed (simp add: aurora_string_call_def read_string_def good_stop assms(2))

context gx_backend_contract
begin

lemma good_viewport:
  assumes "readable d (unat sz)" "fifo_inv g s"
  shows "good_result g pos sz (aurora_viewport B d pos sz be s)"
proof (cases "has_bytes pos sz 24")
  case True
  note rd = span_reads(2)[OF assms(1) True, where be = be]
  obtain x0 where x0: "read_f32 d (unat pos) be = Some x0"
    using span_reads0(2)[OF assms(1) True] by auto
  obtain x1 where x1: "read_f32 d (unat (pos + 4)) be = Some x1" using rd[of 4] by auto
  obtain x2 where x2: "read_f32 d (unat (pos + 8)) be = Some x2" using rd[of 8] by auto
  obtain x3 where x3: "read_f32 d (unat (pos + 12)) be = Some x3" using rd[of 12] by auto
  obtain x4 where x4: "read_f32 d (unat (pos + 16)) be = Some x4" using rd[of 16] by auto
  obtain x5 where x5: "read_f32 d (unat (pos + 20)) be = Some x5" using rd[of 20] by auto
  show ?thesis
    by (simp add: aurora_viewport_def True x0 x1 x2 x3 x4 x5 good_next[OF True]
        fifo_inv_frame[OF render_viewport] assms(2))
qed (simp add: aurora_viewport_def good_stop assms(2))

lemma good_scissor:
  assumes "readable d (unat sz)" "fifo_inv g s"
  shows "good_result g pos sz (aurora_scissor B d pos sz be s)"
proof (cases "has_bytes pos sz 16")
  case True
  note rd = span_reads(1)[OF assms(1) True, where be = be]
  obtain x0 where x0: "read_u32 d (unat pos) be = Some x0"
    using span_reads0(1)[OF assms(1) True] by auto
  obtain x1 where x1: "read_u32 d (unat (pos + 4)) be = Some x1" using rd[of 4] by auto
  obtain x2 where x2: "read_u32 d (unat (pos + 8)) be = Some x2" using rd[of 8] by auto
  obtain x3 where x3: "read_u32 d (unat (pos + 12)) be = Some x3" using rd[of 12] by auto
  show ?thesis
    by (simp add: aurora_scissor_def True x0 x1 x2 x3 good_next[OF True]
        fifo_inv_frame[OF render_scissor] assms(2))
qed (simp add: aurora_scissor_def good_stop assms(2))

lemma good_aurora:
  assumes "readable d (unat sz)" "fifo_inv g s"
  shows "good_result g pos sz (handle_aurora k B d pos sz be s)"
proof (cases "has_bytes pos sz 2")
  case True
  obtain c where c: "read_u16 d (unat pos) be = Some c"
    using span_reads0(3)[OF assms(1) True] by auto
  note o2 = has_bytes_offset[OF True order_refl]
  have later: "good_result g pos sz r" if "good_result g (pos + 2) sz r" for r :: "(bool \<times> u32 \<times> 'b gx_ctx) option"
    using that o2(2) by (auto simp: good_result_def split: option.splits intro: order_trans)
  have here: "good_result g (pos + 2) sz (Some (True, pos + 2, t))" if "fifo_inv g t" for t :: "'b gx_ctx"
    using that o2 by (simp add: good_result_def)
  note f = fifo_inv_frame[OF evict_texture] fifo_inv_frame[OF evict_tlut] fifo_inv_frame[OF evict_copy]
    fifo_inv_frame[OF invalidate_static] fifo_inv_frame[OF push_group] fifo_inv_frame[OF pop_group]
    fifo_inv_frame[OF insert_marker]
  note gs = good_viewport[OF assms] good_scissor[OF assms] good_array_base[OF assms]
    good_texobj[OF assms] good_tlut[OF assms] good_word_call[OF assms] good_ptr_call[OF assms]
    good_string_call[OF assms] good_stop[OF assms(2)]
  show ?thesis
    unfolding handle_aurora_def if_not_P[OF not_not[THEN iffD2, OF True]] c Option.bind.simps Let_def
    by (rule later, intro if_pred[where P = "good_result g (pos + 2) sz"] gs here)
       (simp_all add: f assms(2))
qed (simp add: handle_aurora_def good_stop assms(2))

end

section \<open>One iteration\<close>

definition good_step :: "gx_enums \<Rightarrow> u32 \<Rightarrow> u32 \<Rightarrow> 'b fifo_step \<Rightarrow> bool" where
  "good_step g pos sz r \<longleftrightarrow> (case r of StepFault \<Rightarrow> False
     | StepThrow e t \<Rightarrow> fifo_inv g t | StepStop t \<Rightarrow> fifo_inv g t
     | StepNext p t \<Rightarrow> pos < p \<and> p \<le> sz \<and> fifo_inv g t)"

lemma load_indexed_inv:
  assumes "load_indexed k mem c v be s = Some t" "fifo_inv g s"
  shows "fifo_inv g t"
proof -
  have "s = t \<or> (\<exists>a src n h. copy_xf_data a src n be s = Some (h, t))"
    using assms(1) by (auto simp: load_indexed_def Let_def split: if_splits)
  thus ?thesis
  proof (elim disjE exE)
    fix a src n h assume c: "copy_xf_data a src n be s = Some (h, t)"
    have "xf_coherent t = xf_coherent s"
      by (rule same_xf_coherent[OF same_xf_mem[OF copy_xf_data_props(1)[OF c]]])
    thus ?thesis using copy_xf_data_wf[OF c, of g] assms(2) by (simp add: fifo_inv_def)
  qed (use assms(2) in simp)
qed

lemma load_indexed_total:
  assumes "\<And>a. mem a \<noteq> None"
  shows "\<exists>t. load_indexed k mem c v be s = Some t"
proof -
  have r: "readable (\<lambda>i. mem (a + b + of_nat i)) n" for a b n
    using assms by (simp add: readable_def)
  have "\<exists>t. map_option snd (copy_xf_data x (\<lambda>i. mem (a + b + of_nat i)) n be s) = Some t" for x a b n
    using copy_xf_data_total[OF r, where addr = x and be = be and s = s and len = n] by fastforce
  thus ?thesis by (simp add: load_indexed_def Let_def)
qed

lemma invalidate_vertex_cache_inv: "fifo_inv g s \<Longrightarrow> fifo_inv g (invalidate_vertex_cache s)"
  unfolding invalidate_vertex_cache_def
  by (rule fifo_inv_updates(3)) (simp_all add: length_fold_upd_at fifo_inv_lengths)

context gx_backend_contract
begin

lemma handle_bp_inv:
  assumes "sdk_ranges_ok g" "fifo_inv g s"
  shows "fifo_inv g (handle_bp g B v s)"
  using assms handle_bp_wf_ctx handle_bp_wf_tev handle_bp_coherent fifo_inv_sizes[OF assms(2)]
  by (simp add: fifo_inv_def)

lemma handle_cp_inv: "fifo_inv g s \<Longrightarrow> fifo_inv g (handle_cp g a v s)"
  using fifo_inv_sizes[of g s]
  by (simp add: fifo_inv_def handle_cp_wf_ctx handle_cp_wf_tev handle_cp_coherent)

text \<open>The commands that only need a checked span behind the opcode.\<close>
lemma good_after:
  assumes "has_bytes p1 sz n" "pos < sz" "p1 = pos + 1" "fifo_inv g t"
  shows "good_step g pos sz (StepNext (p1 + n) t)"
  using has_bytes_offset[OF assms(1) order_refl] unat_succ_below[OF assms(2)] assms(2,3,4)
  by (simp add: good_step_def word_less_nat_alt word_le_nat_alt)

lemma good_after1: "pos < sz \<Longrightarrow> fifo_inv g t \<Longrightarrow> good_step g pos sz (StepNext (pos + 1) t)"
  using unat_succ_below[of pos sz] by (simp add: good_step_def word_less_nat_alt word_le_nat_alt)

lemma good_step_of:
  "pos < sz \<Longrightarrow> good_result g (pos + 1) sz r \<Longrightarrow> good_step g pos sz (step_of r)"
  using unat_succ_below[of pos sz]
  by (auto simp: good_step_def good_result_def step_of_def word_less_nat_alt word_le_nat_alt
      split: option.splits)

lemma fifo_step_good:
  assumes rd: "readable d (unat sz)" and mem: "\<And>a. mem a \<noteq> None" and pos: "pos < sz"
    and g: "sdk_ranges_ok g" and inv: "fifo_inv g s"
  shows "good_step g pos sz (fifo_step k g B mem d sz be pos s)"
proof -
  let ?P = "good_step g pos sz"
  have le: "pos + 1 \<le> sz"
    using pos unat_succ_below[OF pos] by (simp add: word_less_nat_alt word_le_nat_alt)
  obtain cmd where cmd: "d (unat pos) = Some cmd"
    using readable_at[OF rd, of "unat pos"] pos by (auto simp: word_less_nat_alt)
  have stop: "?P (StepStop s)" using inv by (simp add: good_step_def)
  obtain p1 where p1: "p1 = pos + 1" by simp
  have bp: "?P (if \<not> has_bytes p1 sz 4 then StepStop s
      else case read_u32 d (unat p1) be of None \<Rightarrow> StepFault
        | Some value \<Rightarrow> StepNext (p1 + 4) (handle_bp g B value s))"
  proof (cases "has_bytes p1 sz 4")
    case True
    obtain v where v: "read_u32 d (unat p1) be = Some v"
      using span_reads0(1)[OF rd True, of be] by auto
    show ?thesis
      unfolding v option.case using True good_after[OF True pos p1 handle_bp_inv[OF g inv]] by simp
  qed (use stop in simp)
  have cp: "?P (if \<not> has_bytes p1 sz 5 then StepStop s
      else case d (unat p1) of None \<Rightarrow> StepFault
        | Some addr \<Rightarrow> (case read_u32 d (unat (p1 + 1)) be of None \<Rightarrow> StepFault
           | Some value \<Rightarrow> StepNext (p1 + 5) (handle_cp g addr value s)))"
  proof (cases "has_bytes p1 sz 5")
    case True
    obtain v where v: "read_u32 d (unat (p1 + 1)) be = Some v"
      using span_reads(1)[OF rd True, of 1 be] by auto
    obtain a where a: "d (unat p1) = Some a"
      using span_reads0(5)[OF rd True] by auto
    show ?thesis
      unfolding v a option.case using True good_after[OF True pos p1 handle_cp_inv[OF inv]] by simp
  qed (use stop in simp)
  have xf: "?P (case handle_xf g B d p1 sz be s of None \<Rightarrow> StepFault | Some (p, t) \<Rightarrow> StepNext p t)"
  proof -
    obtain p t where x: "handle_xf g B d p1 sz be s = Some (p, t)"
      using handle_xf_total[OF rd le[folded p1]] by blast
    show ?thesis
      unfolding x option.case prod.case
      using handle_xf_pos[OF x le[folded p1]] handle_xf_inv[OF x inv] unat_succ_below[OF pos] p1
      by (simp add: good_step_def word_less_nat_alt word_le_nat_alt)
  qed
  have ix: "?P (if \<not> has_bytes p1 sz 4 then StepStop s
      else case read_u32 d (unat p1) be of None \<Rightarrow> StepFault
        | Some value \<Rightarrow> (case load_indexed k mem oc value be s of None \<Rightarrow> StepFault
            | Some t \<Rightarrow> StepNext (p1 + 4) t))" for oc
  proof (cases "has_bytes p1 sz 4")
    case True
    obtain v where v: "read_u32 d (unat p1) be = Some v"
      using span_reads0(1)[OF rd True, of be] by auto
    obtain t where t: "load_indexed k mem oc v be s = Some t"
      using load_indexed_total[where mem = mem] mem by blast
    show ?thesis
      unfolding v option.case t
      using True good_after[OF True pos p1 load_indexed_inv[OF t inv]] by simp
  qed (use stop in simp)
  have dl: "?P (if \<not> has_bytes p1 sz 8 then StepStop s else StepNext (p1 + 8) s)"
    using stop inv by (auto intro: good_after[OF _ pos p1])
  have vc: "?P (StepNext (pos + 1) (invalidate_vertex_cache s))"
    by (rule good_after1[OF pos invalidate_vertex_cache_inv[OF inv]])
  have au: "?P (step_of (handle_aurora k B d (pos + 1) sz be s))"
    by (rule good_step_of[OF pos good_aurora[OF rd inv]])
  have dr: "?P (case be_handle_draw B cmd d (pos + 1) sz be s of None \<Rightarrow> StepFault
      | Some (Inl e, p, t) \<Rightarrow> StepThrow e t
      | Some (Inr ok, p, t) \<Rightarrow> (if ok then StepNext p t else StepStop t))"
  proof -
    have w: "wf_ctx g s" using inv by (simp add: fifo_inv_def)
    obtain r p t where x: "be_handle_draw B cmd d (pos + 1) sz be s = Some (r, p, t)"
      using draw_reads[OF rd le w, of cmd be] by auto
    have "fifo_inv g t" using fifo_inv_frame[OF draw_frame[OF x]] inv by simp
    thus ?thesis
      using draw_pos[OF x le] unat_succ_below[OF pos] x
      by (auto simp: good_step_def word_less_nat_alt word_le_nat_alt split: sum.splits)
  qed
  show ?thesis
    unfolding fifo_step_def cmd option.case Let_def p1[symmetric]
    by (intro if_pred[where P = ?P] bp cp xf ix dl vc[folded p1] au[folded p1] dr[folded p1]
        good_after1[OF pos inv, folded p1])
qed

section \<open>The whole stream\<close>

lemma process_loop_safe:
  assumes rd: "readable d (unat sz)" and mem: "\<And>a. mem a \<noteq> None" and g: "sdk_ranges_ok g"
    and "fifo_inv g s"
  shows "\<exists>t. fifo_inv g t \<and> (process_loop k g B mem d sz be pos s = Some (FifoDone t) \<or>
    (\<exists>e. process_loop k g B mem d sz be pos s = Some (FifoThrow e t)))"
  using assms(4)
proof (induction "unat sz - unat pos" arbitrary: pos s rule: less_induct)
  case less
  show ?case
  proof (cases "pos < sz")
    case True
    have good: "good_step g pos sz (fifo_step k g B mem d sz be pos s)"
      by (rule fifo_step_good[OF rd _ True g less.prems]) (rule mem)
    show ?thesis
    proof (cases "fifo_step k g B mem d sz be pos s")
      case (StepNext p t)
      hence n: "pos < p" "p \<le> sz" "fifo_inv g t" using good by (simp_all add: good_step_def)
      hence "unat sz - unat p < unat sz - unat pos"
        by (simp add: word_less_nat_alt word_le_nat_alt)
      from less.hyps[OF this n(3)] show ?thesis
        by (simp add: process_loop.simps[of k g B mem d sz be pos] True StepNext)
    qed (use good True in \<open>auto simp: good_step_def process_loop.simps[of k g B mem d sz be pos]\<close>)
  next
    case False
    thus ?thesis using less.prems by (auto simp: process_loop.simps)
  qed
qed

lemma process_safe:
  assumes "\<And>b. d = Some b \<Longrightarrow> readable b (unat sz)" and "\<And>a. mem a \<noteq> None"
    and "sdk_ranges_ok g" and "fifo_inv g s"
  shows "\<exists>t. fifo_inv g t \<and> (process k g B mem d sz be s = Some (FifoDone t) \<or>
    (\<exists>e. process k g B mem d sz be s = Some (FifoThrow e t)))"
  using assms process_loop_safe[OF _ assms(2,3)]
  by (cases d) (auto simp: process_def)

end

lemma fifo_inv_init:
  assumes "sdk_ranges_ok g"
  shows "fifo_inv g (GXRegisterState_init g b)"
proof -
  have "xf_coherent (GXRegisterState_init g b)"
    unfolding xf_coherent_def
  proof (intro allI impI, elim conjE)
    fix q assume "xf_skippable q" and v: "xf_valid (GXRegisterState_init g b) q"
    hence "unat q < 96" by (simp add: xf_skippable_def word_less_nat_alt)
    hence "unat q div 64 < 2" by simp
    thus "xf_holds q (xfRegCache (GXRegisterState_init g b) ! unat q) (GXRegisterState_init g b)"
      using v by (simp add: xf_valid_def GXRegisterState_init_def)
  qed
  thus ?thesis by (simp add: fifo_inv_def wf_ctx_init wf_tev_init assms)
qed

end
