(* ===== verification/RendererFrame.thy ===== *)
theory RendererFrame
  imports FifoLemmas
begin

text \<open>
  What the decoder does to the renderer's state: nothing, except through the callbacks.  The locale
  \<open>renderer_keeps\<close> states that every callback but the draw keeps a predicate of the renderer's
  state; then every command but a draw keeps it.
\<close>

lemma backend_mark [simp]: "backend (mark_pipeline_state_dirty s) = backend s"
  by (simp add: mark_pipeline_state_dirty_def next_gx_state_epoch_def Let_def)

lemma backend_bp_groups:
  "backend (bp_tev_color e r v s) = backend s" "backend (bp_tev_alpha e r v s) = backend s"
  "backend (bp_tev_ind r v s) = backend s" "backend (bp_tev_order e r v s) = backend s"
  "backend (bp_ind_mask v s) = backend s" "backend (bp_line_point v s) = backend s"
  "backend (bp_ind_scale0 v s) = backend s" "backend (bp_ind_scale1 v s) = backend s"
  "backend (bp_ind_ref v s) = backend s" "backend (bp_sample_pattern r v s) = backend s"
  "backend (bp_zmode v s) = backend s" "backend (bp_cmode0 v s) = backend s"
  "backend (bp_cmode1 v s) = backend s" "backend (bp_pe_control v s) = backend s"
  "backend (bp_field_mask v s) = backend s" "backend (bp_bounding_box r v s) = backend s"
  "backend (bp_rev_bits v s) = backend s" "backend (bp_load_tlut v s) = backend s"
  "backend (bp_field_mode v s) = backend s" "backend (bp_alpha_compare v s) = backend s"
  "backend (bp_ksel r v s) = backend s" "backend (bp_fog0 v s) = backend s"
  "backend (bp_fog1 v s) = backend s" "backend (bp_fog2 v s) = backend s"
  "backend (bp_fog3 v s) = backend s" "backend (bp_fog_color v s) = backend s"
  "backend (bp_tev_registers r v s) = backend s" "backend (bp_ind_mtx r v s) = backend s"
  "backend (bp_su_scale r v s) = backend s" "backend (bp_disp_src_xy v s) = backend s"
  "backend (bp_disp_src_wh v s) = backend s" "backend (bp_disp_dst_width v s) = backend s"
  "backend (bp_y_scale v s) = backend s" "backend (bp_clear_ar v s) = backend s"
  "backend (bp_clear_gb v s) = backend s" "backend (bp_clear_z v s) = backend s"
  "backend (bp_z_texture_bias v s) = backend s" "backend (bp_z_texture v s) = backend s"
  "backend (bp_copy_control v s) = backend s" "backend (bp_vfilter0 v s) = backend s"
  "backend (bp_vfilter1 v s) = backend s" "backend (bp_fog_range r v s) = backend s"
  "backend (bp_genmode e v s) = backend s" "backend (bp_texture r v s) = backend s"
  by (simp_all add: bp_group_defs bp_texture_def Let_def invalidateXfReg_def
      split: option.split prod.split)

lemma backend_cp: "backend (handle_cp e a v s) = backend s"
  by (simp add: handle_cp_def cp_register_write_unchanged_def cp_store_def cp_decode_def cp_vcd_lo_def
      cp_vcd_hi_def cp_matrix_index_a_def cp_matrix_index_b_def cp_array_stride_def cp_vat_def
      clearVtxSizeCache_def invalidateXfReg_def Let_def)

lemma backend_xf_reg_decode: "backend (xf_reg_decode r v s) = backend s"
  by (simp add: xf_reg_decode_def xf_group_defs)

lemma mem_frame_backend: "mem_frame s t \<Longrightarrow> backend t = backend s"
  by (auto simp: mem_frame_def dest: arg_cong[where f = backend])

locale renderer_keeps =
  fixes B :: "'b gx_backend" and P :: "'b \<Rightarrow> bool"
  assumes keep_logical_viewport: "P (backend s) \<Longrightarrow> P (backend (be_set_logical_viewport B v s))"
    and keep_logical_scissor: "P (backend s) \<Longrightarrow> P (backend (be_set_logical_scissor B r s))"
    and keep_render_viewport: "P (backend s) \<Longrightarrow> P (backend (be_set_render_viewport B v s))"
    and keep_render_scissor: "P (backend s) \<Longrightarrow> P (backend (be_set_render_scissor B r s))"
    and keep_evict_texture: "P (backend s) \<Longrightarrow> P (backend (be_evict_texture_object B i s))"
    and keep_evict_tlut: "P (backend s) \<Longrightarrow> P (backend (be_evict_tlut_object B i s))"
    and keep_evict_copy: "P (backend s) \<Longrightarrow> P (backend (be_evict_copy_texture B a s))"
    and keep_invalidate: "P (backend s) \<Longrightarrow> P (backend (be_invalidate_static_texture_cache B s))"
    and keep_push: "P (backend s) \<Longrightarrow> P (backend (be_push_debug_group B l s))"
    and keep_pop: "P (backend s) \<Longrightarrow> P (backend (be_pop_debug_group B s))"
    and keep_marker: "P (backend s) \<Longrightarrow> P (backend (be_insert_debug_marker B l s))"
begin

lemma bp_decode_keeps: "P (backend s) \<Longrightarrow> P (backend (bp_decode g B r v s))"
  unfolding bp_decode_def bp_switch_def
  by (intro if_pred[where P = "\<lambda>t. P (backend t)"])
    (simp_all add: backend_bp_groups bp_scissor_def bp_scissor_offset_def Let_def keep_logical_scissor)

lemma handle_bp_keeps: "P (backend s) \<Longrightarrow> P (backend (handle_bp g B v s))"
  by (simp add: handle_bp_def Let_def bp_decode_keeps)

lemma xf_reg_write_backend:
  assumes "xf_reg_write reg val (a, b, s) = (a', b', t)"
  shows "backend t = backend s"
  using assms
  by (auto simp: xf_reg_write_def Let_def backend_xf_reg_decode storeXfReg_def split: if_split_asm)

lemma xf_write_block_keeps:
  assumes "xf_write_block g B a src n be s = Some t" "P (backend s)"
  shows "P (backend t)"
proof -
  define f where "f = (\<lambda>i (st :: bool \<times> bool \<times> 'b gx_ctx). Option.bind (read_u32 src (i * 4) be)
    (\<lambda>val. Some (xf_reg_write (a + of_nat i) val st)))"
  obtain x y u where l: "for_opt f [0..<n] (False, False, s) = Some (x, y, u)"
    and t: "t = (if y then apply_xf_projection g (if x then apply_xf_viewport B u else u)
                 else (if x then apply_xf_viewport B u else u))"
    using assms(1) unfolding xf_write_block_def f_def[symmetric] Let_def
    by (auto split: bind_splits)
  have "(\<lambda>(_, _, v). P (backend v)) (x, y, u)"
    by (rule for_opt_invariant[OF l])
       (use assms(2) in \<open>auto simp: f_def split: bind_splits dest: xf_reg_write_backend\<close>)
  thus ?thesis
    by (simp add: t apply_xf_projection_def apply_xf_viewport_def Let_def keep_logical_viewport)
qed

lemma handle_xf_keeps:
  assumes "handle_xf g B d pos sz be s = Some (p, t)" "P (backend s)"
  shows "P (backend t)"
  using assms(1)
proof (cases rule: handle_xf_cases)
  case (block header h u)
  have "backend u = backend s" by (rule mem_frame_backend[OF copy_xf_data_props(1)[OF block(6)]])
  thus ?thesis using block(7) xf_write_block_keeps assms(2) by metis
qed (use assms(2) in simp)

definition keeps_result :: "(bool \<times> u32 \<times> 'b gx_ctx) option \<Rightarrow> bool" where
  "keeps_result r \<longleftrightarrow> (case r of None \<Rightarrow> True | Some (_, _, t) \<Rightarrow> P (backend t))"

lemma keeps_result_intros:
  "keeps_result None" "P (backend t) \<Longrightarrow> keeps_result (Some (ok, p, t))"
  "(\<And>x. keeps_result (f x)) \<Longrightarrow> keeps_result (Option.bind m f)"
  by (auto simp: keeps_result_def split: bind_splits option.splits)

lemma aurora_calls_keep:
  assumes "P (backend s)" "\<And>v. P (backend (f v s))"
  shows "keeps_result (aurora_word_call f d pos sz be s)"
  using assms by (auto simp: aurora_word_call_def intro!: keeps_result_intros)

lemma aurora_ptr_keeps:
  assumes "P (backend s)" "\<And>v. P (backend (f v s))"
  shows "keeps_result (aurora_ptr_call f d pos sz be s)"
  using assms by (auto simp: aurora_ptr_call_def intro!: keeps_result_intros)

lemma aurora_string_keeps:
  assumes "P (backend s)" "\<And>v. P (backend (f v s))"
  shows "keeps_result (aurora_string_call f d pos sz be s)"
  unfolding aurora_string_call_def
  by (rule keeps_result_intros(3)) (use assms in \<open>auto split: option.splits simp: keeps_result_def\<close>)

lemma aurora_state_keeps:
  assumes "P (backend s)"
  shows "keeps_result (aurora_viewport B d pos sz be s)" "keeps_result (aurora_scissor B d pos sz be s)"
    "keeps_result (aurora_array_base k d pos sz be c s)" "keeps_result (aurora_texobj d pos sz be s)"
    "keeps_result (aurora_tlut d pos sz be s)"
  unfolding aurora_viewport_def aurora_scissor_def aurora_array_base_def aurora_texobj_def
    aurora_tlut_def Let_def
  by (intro if_pred[where P = keeps_result] keeps_result_intros;
      simp add: assms keep_render_viewport keep_render_scissor)+

lemma aurora_keeps:
  assumes "handle_aurora k B d pos sz be s = Some (ok, p, t)" "P (backend s)"
  shows "P (backend t)"
proof -
  have "keeps_result (handle_aurora k B d pos sz be s)"
    unfolding handle_aurora_def Let_def
    by (intro if_pred[where P = keeps_result] keeps_result_intros aurora_calls_keep aurora_ptr_keeps
        aurora_string_keeps aurora_state_keeps;
        simp add: assms(2) keep_evict_texture keep_evict_tlut keep_evict_copy keep_invalidate keep_push
          keep_pop keep_marker)
  thus ?thesis by (simp add: assms(1) keeps_result_def)
qed

text \<open>A step of the loop whose command is not a draw.\<close>
definition keeps_step :: "'b fifo_step \<Rightarrow> bool" where
  "keeps_step r \<longleftrightarrow> (case r of StepFault \<Rightarrow> True | StepThrow _ _ \<Rightarrow> False
     | StepStop t \<Rightarrow> P (backend t) | StepNext _ t \<Rightarrow> P (backend t))"

lemma load_indexed_keeps: "load_indexed k mem c v be s = Some t \<Longrightarrow> backend t = backend s"
  by (auto simp: load_indexed_def Let_def split: if_splits
      dest!: copy_xf_data_props(1) intro: mem_frame_backend)

lemma fifo_step_keeps:
  assumes "d (unat pos) = Some cmd" "\<not> is_draw_cmd cmd" "P (backend s)"
  shows "keeps_step (fifo_step k g B mem d sz be pos s)"
proof -
  have a: "keeps_step (step_of (handle_aurora k B d p sz be s))" for p
    using aurora_keeps[OF _ assms(3)] by (auto simp: keeps_step_def step_of_def split: option.splits)
  have x: "keeps_step (case handle_xf g B d p sz be s of None \<Rightarrow> StepFault | Some (q, t) \<Rightarrow> StepNext q t)" for p
    using handle_xf_keeps[OF _ assms(3)] by (auto simp: keeps_step_def split: option.splits)
  have l: "keeps_step (StepNext p t)" if "load_indexed k mem oc v be s = Some t" for oc v p t
    using assms(3) load_indexed_keeps[OF that] by (simp add: keeps_step_def)
  have b: "keeps_step (StepNext p (handle_bp g B v s))" for p v
    using handle_bp_keeps[OF assms(3)] by (simp add: keeps_step_def)
  have c: "keeps_step (StepNext p (handle_cp g ad v s))" for p ad v
    using assms(3) by (simp add: keeps_step_def backend_cp)
  have n: "keeps_step (StepNext p s)" "keeps_step (StepStop s)" "keeps_step StepFault"
    "keeps_step (StepNext p (invalidate_vertex_cache s))" for p
    using assms(3) by (simp_all add: keeps_step_def invalidate_vertex_cache_def)
  show ?thesis
    unfolding fifo_step_def assms(1) option.case Let_def if_not_P[OF assms(2)]
    by (intro if_pred[where P = keeps_step] n a x)
      (auto split: option.split intro: b c l n)
qed

end

end
