(* ===== verification/NativeLemmas.thy ===== *)
theory NativeLemmas
  imports NativeBackend RendererFrame
begin

text \<open>
  The native renderer satisfies the contract the decoder relies on: \<open>native\<close> interprets
  \<open>gx_backend_contract\<close> on \<open>native_backend\<close>, so the decoder's lemmas hold for the two together.
  Beyond the contract: a group of merged draws never outlives the stream it was started in.
\<close>

section \<open>Frames\<close>

lemma frame_with_backend: "render_frame s (with_backend f s)"
  by (simp add: render_frame_def with_backend_def)

lemma frame_set_render_viewport: "render_frame s (set_render_viewport v s)"
  by (simp add: render_frame_def set_render_viewport_def)

lemma frame_set_render_scissor: "render_frame s (set_render_scissor r s)"
  by (simp add: render_frame_def set_render_scissor_def)

lemma frame_apply_extent: "render_frame s (apply_extent g s)"
  unfolding apply_extent_def Let_def
  by (rule render_frame_trans[OF frame_set_render_viewport frame_set_render_scissor])

lemma frame_set_logical_viewport: "render_frame s (set_logical_viewport g v s)"
  unfolding set_logical_viewport_def
  by (rule render_frame_trans[OF _ frame_apply_extent]) (simp add: render_frame_def)

lemma frame_set_logical_scissor: "render_frame s (set_logical_scissor g r s)"
  unfolding set_logical_scissor_def
  by (rule render_frame_trans[OF _ frame_apply_extent]) (simp add: render_frame_def)

lemma frame_evictions:
  "render_frame s (evict_texture_object i s)" "render_frame s (evict_tlut_object i s)"
  "render_frame s (evict_copy_texture a s)" "render_frame s (invalidate_static_texture_cache s)"
  by (simp_all add: render_frame_def evict_texture_object_def evict_tlut_object_def
      evict_copy_texture_def invalidate_static_texture_cache_def with_backend_def)

lemma frame_submit_geometry: "submit_gx_geometry geo s = Inr t \<Longrightarrow> render_frame s t"
  by (auto simp: submit_gx_geometry_def frame_with_backend split: option.splits)

lemma frame_submit_draw: "submit_draw g x lay p n rs s = Inr t \<Longrightarrow> render_frame s t"
  by (auto simp: submit_draw_def frame_submit_geometry split: if_splits sum.splits)

lemma frame_clear_pending: "render_frame s t \<Longrightarrow> render_frame s (clear_pending t)"
  unfolding clear_pending_def by (rule render_frame_trans[OF _ frame_with_backend])

lemma submit_pending_some: "\<exists>r t. submit_pending g x s = Some (r, t)"
proof -
  define p where "p = nb_pending (backend s)"
  show ?thesis
  proof (cases "pd_segments p")
    case (Cons sg sgs)
    show ?thesis
    proof (cases sgs)
      case (Cons sg2 rest)
      show ?thesis
        using \<open>pd_segments p = sg # sgs\<close> Cons
          snapshot_segments_cases[of g "resolve_gx_array (nb_sink (backend s))" "pd_layout p" s
            "sg # sg2 # rest" "pd_records p"]
        by (cases "GxGeometry_snapshot_segments g (resolve_gx_array (nb_sink (backend s)))
              (pd_layout p) s (sg # sg2 # rest) (pd_records p)")
          (auto simp: submit_pending_def Let_def p_def split: sum.splits)
    qed (use Cons in \<open>auto simp: submit_pending_def Let_def p_def split: sum.splits\<close>)
  qed (auto simp: submit_pending_def Let_def p_def)
qed

lemma frame_submit_pending:
  assumes "submit_pending g x s = Some (r, t)"
  shows "render_frame s t"
  using assms frame_clear_pending[OF render_frame_refl, of s]
  by (auto simp: submit_pending_def Let_def frame_clear_pending frame_submit_draw frame_submit_geometry
      split: list.splits sum.splits if_splits option.splits)

section \<open>Draw commands\<close>

lemma draw_triangles_frame:
  assumes "draw_triangles g x d pos sz be lay f p n rs s = Some (r, q, t)"
  shows "render_frame s t" "q = pos"
proof -
  define s1 where "s1 = with_backend (\<lambda>b. b\<lparr>nb_pending := join_pending lay f p n rs (nb_pending (backend s))\<rparr>) s"
  have 1: "render_frame s s1" unfolding s1_def by (rule frame_with_backend)
  have "(t = s1 \<or> (\<exists>r'. submit_pending g x s1 = Some (r', t))) \<and> q = pos"
    using assms by (auto simp: draw_triangles_def Let_def s1_def[symmetric]
        split: if_splits option.splits sum.splits)
  thus "render_frame s t" "q = pos"
    using render_frame_trans[OF 1] 1 frame_submit_pending by blast+
qed

lemma handle_draw_cases [consumes 1, case_names early line tri]:
  assumes "handle_draw g x c d pos sz be s = Some (r, q, t)"
  obtains "t = s" "q = pos" "r \<noteq> Inr True"
  | p n lay rs count where "r = Inr True" "q = pos + 2 + of_nat n" "n \<le> unat (sz - pos - 2)" "pos \<le> sz"
      "2 \<le> sz - pos" "gx_primitive_from_command c = Inr p" "\<not> triangle_class p"
      "submit_draw g x lay p count rs s = Inr t"
  | p n lay rs count where "n \<le> unat (sz - pos - 2)" "pos \<le> sz" "2 \<le> sz - pos"
      "gx_primitive_from_command c = Inr p" "triangle_class p"
      "read_u16 d (unat pos) be = Some count" "n = unat count * vl_stride lay"
      "read_bytes d (unat pos + 2) n = Some rs"
      "pd_segments (nb_pending (backend s)) \<noteq> [] \<Longrightarrow> pd_format (nb_pending (backend s)) = unat (c AND 7) \<Longrightarrow>
        lay = pd_layout (nb_pending (backend s))"
      "draw_triangles g x d (pos + 2 + of_nat n) sz be lay (unat (c AND 7)) p count rs s = Some (r, q, t)"
proof (cases "pos > sz \<or> sz - pos < 2")
  case True
  thus ?thesis using assms that(1) by (auto simp: handle_draw_def)
next
  case b: False
  hence b': "pos \<le> sz" "2 \<le> sz - pos" by auto
  show ?thesis
  proof (cases "gx_primitive_from_command c")
    case (Inl e)
    thus ?thesis using assms that(1) b by (auto simp: handle_draw_def)
  next
    case (Inr p)
    let ?pd = "nb_pending (backend s)"
    define L where "L = (if pd_segments ?pd \<noteq> [] \<and> triangle_class p \<and> pd_format ?pd = unat (c AND 7)
      then Inr (pd_layout ?pd) else GxVertexLayout_build g x s (unat (c AND 7)))"
    obtain count where c: "read_u16 d (unat pos) be = Some count"
      using assms b Inr by (auto simp: handle_draw_def Let_def split: option.splits)
    note h = assms[unfolded handle_draw_def if_not_P[OF b] Inr sum.case Let_def c option.case L_def[symmetric]]
    show ?thesis
    proof (cases L)
      case (Inl e)
      thus ?thesis using h that(1) by auto
    next
      case l: (Inr lay)
      let ?n = "unat count * vl_stride lay"
      note h = h[unfolded l sum.case]
      show ?thesis
      proof (cases "?n > unat (sz - pos - 2)")
        case True
        thus ?thesis using h that(1) by auto
      next
        case n: False
        then obtain rs where rs: "read_bytes d (unat pos + 2) ?n = Some rs"
          using h by (auto split: option.splits)
        note h = h[unfolded if_not_P[OF n] rs option.case]
        show ?thesis
        proof (cases "triangle_class p")
          case False
          show ?thesis
          proof (cases "submit_draw g x lay p count rs s")
            case (Inl e)
            thus ?thesis using h False that(1) by auto
          next
            case sd: (Inr u)
            hence "t = u" "r = Inr True" "q = pos + 2 + of_nat ?n" using h False by simp_all
            thus ?thesis using that(2)[of ?n p lay count rs] sd n b' Inr False by simp
          qed
        next
          case True
          have "lay = pd_layout ?pd" if "pd_segments ?pd \<noteq> []" "pd_format ?pd = unat (c AND 7)"
            using l that True by (simp add: L_def)
          thus ?thesis
            using that(3)[of ?n p count lay rs] h n b' Inr True c rs by simp
        qed
      qed
    qed
  qed
qed

lemma draw_span:
  assumes "n \<le> unat (sz - pos - 2)" "pos \<le> (sz :: u32)" "2 \<le> sz - pos"
  shows "unat (pos + 2 + of_nat n) = unat pos + 2 + n" "unat pos + 2 + n \<le> unat sz"
proof -
  have d: "unat (sz - pos - 2) = unat sz - unat pos - 2"
    using assms(2,3) by (simp add: unat_sub)
  have e: "unat pos + 2 \<le> unat sz"
    using assms(2,3) by (simp add: word_le_nat_alt unat_sub)
  show le: "unat pos + 2 + n \<le> unat sz" using assms(1) d e by simp
  have s: "unat sz < 2 ^ 32" by (rule less_le_trans[OF unsigned_less]) simp
  hence "n < 2 ^ 32" using le by simp
  hence n: "unat (of_nat n :: u32) = n" by (simp add: unat_of_nat)
  have p2: "unat (pos + 2) = unat pos + 2" using e s by (simp add: unat_word_ariths)
  show "unat (pos + 2 + of_nat n) = unat pos + 2 + n"
    using le s n p2 by (simp add: unat_word_ariths(1)[of "pos + 2"])
qed

lemma handle_draw_frame: "handle_draw g x c d pos sz be s = Some (r, q, t) \<Longrightarrow> render_frame s t"
  by (cases rule: handle_draw_cases) (auto intro: frame_submit_draw draw_triangles_frame(1))

lemma handle_draw_pos:
  assumes "handle_draw g x c d pos sz be s = Some (r, q, t)" "pos \<le> sz"
  shows "pos \<le> q \<and> q \<le> sz"
  using assms(1)
proof (cases rule: handle_draw_cases)
  case (line p n lay rs count)
  show ?thesis using draw_span[OF line(3,4,5)] line(2) by (simp add: word_le_nat_alt)
next
  case (tri p n lay rs count)
  show ?thesis
    using draw_span[OF tri(1,2,3)] draw_triangles_frame(2)[OF tri(10)] by (simp add: word_le_nat_alt)
qed (use assms(2) in simp)

section \<open>Reads\<close>

lemma skip_nops_some:
  "readable d sz \<Longrightarrow> \<exists>l. skip_nops d p sz = Some l \<and> p \<le> l"
proof (induction d p sz rule: skip_nops.induct)
  case (1 d p sz)
  show ?case
  proof (cases "p < sz")
    case True
    obtain b where "d p = Some b" using readable_at[OF "1.prems" True] by auto
    thus ?thesis using "1.IH"[OF True, of b] "1.prems" True
      by (cases "b = 0") (auto simp: skip_nops.simps[of d p sz])
  qed (simp add: skip_nops.simps[of d p sz])
qed

lemma next_draw_joins_some:
  assumes "readable d sz"
  shows "\<exists>j. next_draw_joins d p sz be f n = Some j"
proof -
  obtain l where l: "skip_nops d p sz = Some l" using skip_nops_some[OF assms] by blast
  show ?thesis
  proof (cases "l \<ge> sz \<or> sz - l < 3")
    case False
    hence le: "l < sz" "l + 1 + 2 \<le> sz" by auto
    obtain c where "d l = Some c" using readable_at[OF assms le(1)] by auto
    moreover obtain v where "read_u16 d (l + 1) be = Some v" using read_total(1)[OF assms le(2)] by auto
    ultimately show ?thesis using l by (auto simp: next_draw_joins_def Let_def)
  qed (auto simp: next_draw_joins_def l)
qed

lemma draw_triangles_some:
  assumes "readable d (unat sz)"
  shows "\<exists>r q t. draw_triangles g x d p sz be lay f pr n rs u = Some (r, q, t)"
proof -
  define pd where "pd = join_pending lay f pr n rs (nb_pending (backend u))"
  define u1 where "u1 = with_backend (\<lambda>b. b\<lparr>nb_pending := pd\<rparr>) u"
  obtain j where j: "next_draw_joins d (unat p) (unat sz) be f (vl_stride lay) = Some j"
    using next_draw_joins_some[OF assms] by blast
  obtain r t where "submit_pending g x u1 = Some (r, t)" using submit_pending_some by blast
  thus ?thesis
    by (cases r) (simp_all add: draw_triangles_def Let_def j pd_def[symmetric] u1_def[symmetric])
qed

lemma handle_draw_some:
  assumes rd: "readable d (unat sz)" and pos: "pos \<le> sz"
  shows "\<exists>r q t. handle_draw g x c d pos sz be s = Some (r, q, t)"
proof (cases "pos > sz \<or> sz - pos < 2")
  case b: False
  hence b': "2 \<le> sz - pos" by auto
  have e: "unat pos + 2 \<le> unat sz" using draw_span(2)[OF _ pos b', of 0] by simp
  obtain count where c: "read_u16 d (unat pos) be = Some count"
    using read_total(1)[OF rd e] by auto
  note h = handle_draw_def[of g x c d pos sz be s, unfolded if_not_P[OF b] Let_def c option.case]
  show ?thesis
  proof (cases "gx_primitive_from_command c")
    case (Inr p)
    let ?pd = "nb_pending (backend s)"
    define L where "L = (if pd_segments ?pd \<noteq> [] \<and> triangle_class p \<and> pd_format ?pd = unat (c AND 7)
      then Inr (pd_layout ?pd) else GxVertexLayout_build g x s (unat (c AND 7)))"
    note h = h[unfolded Inr sum.case L_def[symmetric]]
    show ?thesis
    proof (cases L)
      case l: (Inr lay)
      let ?n = "unat count * vl_stride lay"
      note h = h[unfolded l sum.case]
      show ?thesis
      proof (cases "?n > unat (sz - pos - 2)")
        case n: False
        hence "unat pos + 2 + ?n \<le> unat sz" using draw_span(2)[OF _ pos b'] by simp
        then obtain rs where rs: "read_bytes d (unat pos + 2) ?n = Some rs"
          using read_bytes_total[OF rd] by blast
        obtain r q t where "draw_triangles g x d (pos + 2 + of_nat ?n) sz be lay (unat (c AND 7)) p count rs s
            = Some (r, q, t)"
          using draw_triangles_some[OF rd] by blast
        thus ?thesis
          unfolding h if_not_P[OF n] rs option.case
          by (cases "submit_draw g x lay p count rs s") simp_all
      qed (simp add: h)
    qed (simp add: h)
  qed (simp add: h)
qed (simp add: handle_draw_def)

section \<open>The contract\<close>

interpretation native: gx_backend_contract "native_backend g x" g for g x
  by unfold_locales
    (auto simp: native_backend_def frame_set_logical_viewport frame_set_logical_scissor
      frame_set_render_viewport frame_set_render_scissor frame_evictions
      dest: handle_draw_frame handle_draw_pos intro: handle_draw_some)

section \<open>Merged draws\<close>

definition no_pending :: "native_state \<Rightarrow> bool" where
  "no_pending b \<longleftrightarrow> pd_segments (nb_pending b) = []"

interpretation pending: renderer_keeps "native_backend g x" no_pending for g x
proof unfold_locales
  have ap: "nb_pending (backend (apply_extent g s)) = nb_pending (backend s)" for s
    by (simp add: apply_extent_def Let_def set_render_viewport_def set_render_scissor_def)
  show "no_pending (backend s) \<Longrightarrow> no_pending (backend (be_set_logical_viewport (native_backend g x) v s))"
    and "no_pending (backend s) \<Longrightarrow> no_pending (backend (be_set_logical_scissor (native_backend g x) r s))" for s v r
    by (simp_all add: native_backend_def no_pending_def set_logical_viewport_def set_logical_scissor_def ap)
qed (simp_all add: native_backend_def no_pending_def set_render_viewport_def set_render_scissor_def
    evict_texture_object_def evict_tlut_object_def evict_copy_texture_def
    invalidate_static_texture_cache_def with_backend_def)

text \<open>The opcodes: the no-operation is zero and only draw commands have the top bit.\<close>
definition draw_opcodes_ok :: "gx_opcodes \<Rightarrow> bool" where
  "draw_opcodes_ok k \<longleftrightarrow> GX_OPCODE_MASK k = 0xF8 \<and> GX_NOP k = 0 \<and>
     GX_LOAD_BP_REG k AND 0xF8 < 0x80 \<and> GX_LOAD_CP_REG k < 0x80 \<and> GX_LOAD_XF_REG k < 0x80 \<and>
     GX_LOAD_INDX_A k < 0x80 \<and> GX_LOAD_INDX_B k < 0x80 \<and> GX_LOAD_INDX_C k < 0x80 \<and>
     GX_LOAD_INDX_D k < 0x80 \<and> GX_CMD_CALL_DL k < 0x80 \<and> GX_CMD_INVL_VC k < 0x80 \<and>
     GX_LOAD_AURORA k < 0x80"

lemma draw_opcodes_ok_sdk: "draw_opcodes_ok sdk_opcodes"
  by (simp add: draw_opcodes_ok_def sdk_opcodes_def)

lemma fifo_step_draw:
  assumes "draw_opcodes_ok k" "d (unat pos) = Some cmd" "0x80 \<le> cmd AND 0xF8" "is_draw_cmd cmd"
  shows "fifo_step k g B mem d sz be pos s =
    (case be_handle_draw B cmd d (pos + 1) sz be s of None \<Rightarrow> StepFault
       | Some (Inl e, p, t) \<Rightarrow> StepThrow e t
       | Some (Inr ok, p, t) \<Rightarrow> (if ok then StepNext p t else StepStop t))"
proof -
  have n: "cmd AND 0xF8 \<noteq> v" if "v < 0x80" for v using assms(3) that by auto
  show ?thesis
    using assms(1,4) unfolding fifo_step_def assms(2) option.case Let_def draw_opcodes_ok_def
    by (simp add: n)
qed

lemma fifo_step_nop:
  assumes "draw_opcodes_ok k" "d (unat pos) = Some 0"
  shows "fifo_step k g B mem d sz be pos s = StepNext (pos + 1) s"
  using assms by (simp add: fifo_step_def draw_opcodes_ok_def Let_def)

text \<open>The group is open only if the stream goes on with a draw that joins it.\<close>
definition pending_ok :: "bytes \<Rightarrow> nat \<Rightarrow> nat \<Rightarrow> bool \<Rightarrow> native_state \<Rightarrow> bool" where
  "pending_ok d pos sz be b \<longleftrightarrow> no_pending b \<or>
     next_draw_joins d pos sz be (pd_format (nb_pending b)) (vl_stride (pd_layout (nb_pending b))) = Some True"

lemma submit_draw_pending:
  "submit_draw g x lay p n rs s = Inr t \<Longrightarrow> nb_pending (backend t) = nb_pending (backend s)"
  by (auto simp: submit_draw_def submit_gx_geometry_def with_backend_def
      split: if_splits sum.splits option.splits)

lemma submit_pending_clears:
  "submit_pending g x s = Some (r, t) \<Longrightarrow> no_pending (backend t)"
  by (auto simp: submit_pending_def Let_def no_pending_def clear_pending_def with_backend_def
      split: list.splits sum.splits if_splits option.splits)

lemma draw_triangles_pending:
  assumes "draw_triangles g x d pos sz be lay f p n rs s = Some (r, q, t)"
    and "\<not> no_pending (backend s) \<Longrightarrow> pd_format (nb_pending (backend s)) = f \<and> pd_layout (nb_pending (backend s)) = lay"
  shows "r = Inr True \<and> pending_ok d (unat q) (unat sz) be (backend t) \<or> no_pending (backend t)"
    "r \<noteq> Inr False"
proof -
  define pd where "pd = join_pending lay f p n rs (nb_pending (backend s))"
  define s1 where "s1 = with_backend (\<lambda>b. b\<lparr>nb_pending := pd\<rparr>) s"
  have pd: "pd_format pd = f" "pd_layout pd = lay"
    using assms(2) by (auto simp: pd_def join_pending_def Let_def no_pending_def)
  have s1: "nb_pending (backend s1) = pd" by (simp add: s1_def with_backend_def)
  consider "t = s1" "q = pos" "r = Inr True" "next_draw_joins d (unat pos) (unat sz) be f (vl_stride lay) = Some True"
    | r' where "submit_pending g x s1 = Some (r', t)" "r \<noteq> Inr False"
    using assms(1) unfolding draw_triangles_def Let_def pd_def[symmetric] s1_def[symmetric]
    by (auto split: if_splits option.splits sum.splits)
  hence "(r = Inr True \<and> pending_ok d (unat q) (unat sz) be (backend t) \<or> no_pending (backend t)) \<and> r \<noteq> Inr False"
    by cases (use s1 pd submit_pending_clears in \<open>auto simp: pending_ok_def\<close>)
  thus "r = Inr True \<and> pending_ok d (unat q) (unat sz) be (backend t) \<or> no_pending (backend t)" "r \<noteq> Inr False"
    by auto
qed

lemma high_five_bits: "(c :: u8) AND 0xf8 = push_bit 3 (drop_bit 3 c)"
proof -
  have m: "(0xf8 :: u8) = NOT (mask 3)" by (simp add: mask_eq_exp_minus_1)
  show ?thesis unfolding m by (rule bit_word_eqI) (auto simp: bit_simps)
qed

lemma unat_high_five: "unat ((c :: u8) AND 0xf8) = 8 * (unat c div 8)"
proof -
  have c: "unat c < 256" by (rule less_le_trans[OF unsigned_less]) simp
  have "unat (push_bit 3 (drop_bit 3 c)) = 8 * unat (drop_bit 3 c)"
    using c by (simp add: push_bit_eq_mult unat_word_ariths drop_bit_eq_div unat_div)
  thus ?thesis by (simp add: high_five_bits drop_bit_eq_div unat_div)
qed

lemma draw_cmd_high: "is_draw_cmd c \<Longrightarrow> 0x80 \<le> c AND 0xF8"
  using div_le_mono[of 128 "unat c" 8] by (simp add: is_draw_cmd_def word_le_nat_alt unat_high_five)

lemma joining_primitive:
  assumes "\<not> c AND 0xf8 < 0x80" "\<not> c AND 0xf8 > (0xa0 :: u8)"
  shows "(\<exists>p. gx_primitive_from_command c = Inr p \<and> triangle_class p) \<and> is_draw_cmd c"
proof -
  define h where "h = unat c div 8"
  have u: "unat (c AND 0xf8) = 8 * h" by (simp add: unat_high_five h_def)
  have "c AND 0xf8 = of_nat (unat (c AND 0xf8))" by simp
  hence e: "c AND 0xf8 = of_nat (8 * h)" unfolding u .
  have r: "16 \<le> h" "h \<le> 20" using assms u by (simp_all add: word_less_nat_alt)
  hence "128 \<le> unat c" "unat c \<le> 191" unfolding h_def by linarith+
  hence "is_draw_cmd c" by (simp add: is_draw_cmd_def word_le_nat_alt)
  moreover have "h = 16 \<or> h = 17 \<or> h = 18 \<or> h = 19 \<or> h = 20" using r by arith
  hence "\<exists>p. gx_primitive_from_command c = Inr p \<and> triangle_class p"
    by (elim disjE) (simp_all add: gx_primitive_from_command_def triangle_class_def e)
  ultimately show ?thesis by simp
qed

text \<open>A draw command that the open group was kept for joins it.\<close>
lemma joined_draw:
  assumes "\<not> no_pending (backend s)" "next_draw_joins d loc (unat sz) be (pd_format (nb_pending (backend s)))
      (vl_stride (pd_layout (nb_pending (backend s)))) = Some True"
    and "skip_nops d loc (unat sz) = Some l"
  shows "\<exists>c. l < unat sz \<and> d l = Some c \<and> 0x80 \<le> c AND 0xF8 \<and> is_draw_cmd c \<and>
    (\<forall>pos r q t. unat pos = l + 1 \<longrightarrow> handle_draw g x c d pos sz be s = Some (r, q, t) \<longrightarrow>
       r = Inr True \<and> pending_ok d (unat q) (unat sz) be (backend t) \<or>
       r \<noteq> Inr False \<and> no_pending (backend t))"
proof -
  let ?p = "nb_pending (backend s)"
  let ?lay = "pd_layout ?p"
  have l: "\<not> (l \<ge> unat sz \<or> unat sz - l < 3)"
    using assms(2,3) by (auto simp: next_draw_joins_def split: if_splits)
  then obtain c where c: "d l = Some c"
    using assms(2,3) by (auto simp: next_draw_joins_def split: bind_splits)
  have op: "\<not> c AND 0xf8 < 0x80" "\<not> c AND 0xf8 > 0xa0" "unat (c AND 7) = pd_format ?p"
    using assms(2,3) l c by (auto simp: next_draw_joins_def Let_def split: if_splits)
  obtain count where n: "read_u16 d (l + 1) be = Some count" "unat count * vl_stride ?lay \<le> unat sz - l - 3"
    using assms(2,3) l c op by (auto simp: next_draw_joins_def Let_def split: bind_splits)
  obtain p where p: "gx_primitive_from_command c = Inr p" "triangle_class p"
    using joining_primitive[OF op(1,2)] by blast
  have j: "pd_segments ?p \<noteq> [] \<and> triangle_class p \<and> pd_format ?p = unat (c AND 7)"
    using assms(1) p(2) op(3) by (simp add: no_pending_def)
  have "r = Inr True \<and> pending_ok d (unat q) (unat sz) be (backend t) \<or> r \<noteq> Inr False \<and> no_pending (backend t)"
    if "unat pos = l + 1" "handle_draw g x c d pos sz be s = Some (r, q, t)" for pos r q t
  proof -
    have b: "\<not> (pos > sz \<or> sz - pos < 2)" and m: "unat (sz - pos - 2) = unat sz - l - 3"
      using l that(1) by (auto simp: word_less_nat_alt unat_sub word_le_nat_alt)
    have cnt: "read_u16 d (unat pos) be = Some count" using n(1) that(1) by simp
    have k: "\<not> unat count * vl_stride ?lay > unat (sz - pos - 2)" using n(2) m by simp
    note h = that(2)[unfolded handle_draw_def if_not_P[OF b] p(1) sum.case Let_def cnt option.case
        if_P[OF j] if_not_P[OF k]]
    obtain rs where "draw_triangles g x d (pos + 2 + of_nat (unat count * vl_stride ?lay)) sz be ?lay
        (unat (c AND 7)) p count rs s = Some (r, q, t)"
      using h p(2) by (auto split: option.splits)
    from draw_triangles_pending[OF this] show ?thesis using op(3) by auto
  qed
  thus ?thesis using l c op(1,2) joining_primitive by (intro exI[of _ c]) auto
qed

lemma skip_nops_zero:
  "loc < sz \<Longrightarrow> d loc = Some 0 \<Longrightarrow> skip_nops d loc sz = skip_nops d (Suc loc) sz"
  by (simp add: skip_nops.simps[of d loc])

lemma skip_nops_stop:
  "loc < sz \<Longrightarrow> d loc = Some c \<Longrightarrow> c \<noteq> 0 \<Longrightarrow> skip_nops d loc sz = Some loc"
  by (simp add: skip_nops.simps[of d loc])

lemma pending_ok_end:
  assumes "pending_ok d loc sz be b" "sz \<le> loc"
  shows "no_pending b"
  using assms by (auto simp: pending_ok_def next_draw_joins_def skip_nops.simps[of d loc])

definition step_pending_ok :: "bytes \<Rightarrow> u32 \<Rightarrow> bool \<Rightarrow> native_state fifo_step \<Rightarrow> bool" where
  "step_pending_ok d sz be r \<longleftrightarrow> (case r of StepFault \<Rightarrow> True
     | StepThrow _ t \<Rightarrow> no_pending (backend t) | StepStop t \<Rightarrow> no_pending (backend t)
     | StepNext p t \<Rightarrow> pending_ok d (unat p) (unat sz) be (backend t))"

lemma fifo_step_pending:
  assumes k: "draw_opcodes_ok k" and pos: "pos < sz" and rd: "readable d (unat sz)"
    and ok: "pending_ok d (unat pos) (unat sz) be (backend s)"
  shows "step_pending_ok d sz be (fifo_step k g (native_backend g x) mem d sz be pos s)"
proof -
  have p1: "unat (pos + 1) = unat pos + 1" by (rule unat_succ_below[OF pos])
  have ps: "unat pos < unat sz" using pos by (simp add: word_less_nat_alt)
  obtain cmd where cmd: "d (unat pos) = Some cmd" using readable_at[OF rd ps] by auto
  have hd: "be_handle_draw (native_backend g x) = handle_draw g x" by (simp add: native_backend_def)
  show ?thesis
  proof (cases "no_pending (backend s)")
    case np: True
    show ?thesis
    proof (cases "is_draw_cmd cmd")
      case False
      show ?thesis
        using pending.fifo_step_keeps[where d = d and pos = pos and s = s and cmd = cmd, OF cmd False np, of k g g x mem sz be]
        by (auto simp: step_pending_ok_def pending.keeps_step_def pending_ok_def split: fifo_step.splits)
    next
      case True
      have "r = Inr True \<and> pending_ok d (unat q) (unat sz) be (backend t) \<or> no_pending (backend t)"
        if "handle_draw g x cmd d (pos + 1) sz be s = Some (r, q, t)" for r q t
        using that
      proof (cases rule: handle_draw_cases)
        case (line p n lay rs count)
        thus ?thesis using np by (simp add: no_pending_def submit_draw_pending)
      next
        case (tri p n lay rs count)
        from draw_triangles_pending(1)[OF tri(10)] np show ?thesis by blast
      qed (use np in simp)
      thus ?thesis
        unfolding fifo_step_draw[where d = d and pos = pos and cmd = cmd, OF k cmd draw_cmd_high[OF True] True] hd
        by (fastforce simp: step_pending_ok_def pending_ok_def split: option.splits sum.splits)
    qed
  next
    case False
    hence nx: "next_draw_joins d (unat pos) (unat sz) be (pd_format (nb_pending (backend s)))
        (vl_stride (pd_layout (nb_pending (backend s)))) = Some True"
      using ok by (simp add: pending_ok_def)
    show ?thesis
    proof (cases "cmd = 0")
      case True
      hence z: "d (unat pos) = Some 0" using cmd by simp
      have "pending_ok d (unat pos + 1) (unat sz) be (backend s)"
        using nx skip_nops_zero[where d = d, OF ps z] by (simp add: pending_ok_def next_draw_joins_def)
      thus ?thesis using p1 by (simp add: step_pending_ok_def fifo_step_nop[where d = d and pos = pos, OF k z])
    next
      case nz: False
      from joined_draw[OF False nx skip_nops_stop[where d = d, OF ps cmd nz], of g x] cmd
      have c: "0x80 \<le> cmd AND 0xF8" "is_draw_cmd cmd"
        and res: "\<And>r q t. handle_draw g x cmd d (pos + 1) sz be s = Some (r, q, t) \<Longrightarrow>
          r = Inr True \<and> pending_ok d (unat q) (unat sz) be (backend t) \<or>
          r \<noteq> Inr False \<and> no_pending (backend t)"
        using p1 by auto
      show ?thesis
        unfolding fifo_step_draw[where d = d and pos = pos and cmd = cmd, OF k cmd c] hd
        using res by (fastforce simp: step_pending_ok_def pending_ok_def split: option.splits sum.splits)
    qed
  qed
qed

lemma process_loop_pending:
  assumes k: "draw_opcodes_ok k" and rd: "readable d (unat sz)" and "pending_ok d (unat pos) (unat sz) be (backend s)"
    and "sdk_ranges_ok g" "fifo_inv g s" "\<And>a. mem a \<noteq> None"
    and "process_loop k g (native_backend g x) mem d sz be pos s = Some r"
  shows "case r of FifoFault \<Rightarrow> True | FifoThrow _ t \<Rightarrow> no_pending (backend t)
    | FifoDone t \<Rightarrow> no_pending (backend t)"
  using assms(3,5,7)
proof (induction "unat sz - unat pos" arbitrary: pos s rule: less_induct)
  case less
  show ?case
  proof (cases "pos < sz")
    case True
    note st = fifo_step_pending[OF k True rd less.prems(1), of g x mem]
    have good: "good_step g pos sz (fifo_step k g (native_backend g x) mem d sz be pos s)"
      by (rule native.fifo_step_good[OF rd _ True assms(4) less.prems(2)]) (rule assms(6))
    show ?thesis
    proof (cases "fifo_step k g (native_backend g x) mem d sz be pos s")
      case (StepNext p t)
      hence n: "pos < p" "p \<le> sz" "fifo_inv g t" using good by (simp_all add: good_step_def)
      have q: "pending_ok d (unat p) (unat sz) be (backend t)"
        using st StepNext by (simp add: step_pending_ok_def)
      have "unat sz - unat p < unat sz - unat pos"
        using n by (simp add: word_less_nat_alt word_le_nat_alt)
      from less.hyps[OF this q n(3)] show ?thesis
        using less.prems(3) True StepNext
        by (simp add: process_loop.simps[of k g "native_backend g x" mem d sz be pos])
    qed (use st True less.prems(3) in
        \<open>auto simp: step_pending_ok_def process_loop.simps[of k g "native_backend g x" mem d sz be pos]\<close>)
  next
    case False
    hence "no_pending (backend s)"
      using pending_ok_end[OF less.prems(1)] by (simp add: word_less_nat_alt)
    thus ?thesis using False less.prems(3) by (auto simp: process_loop.simps)
  qed
qed

end
