(* ===== verification/DecoderProps.thy ===== *)
theory DecoderProps
  imports NativeLemmas
begin

text \<open>
  Properties of the register decoder: the skip of repeated XF and CP writes is an optimisation
  that changes no decoded state, the masked BP write, the vertex descriptor, the texture register
  table, and the bound of an indexed XF load.  \<open>settled\<close> forgets the markers that only record
  that something has to be uploaded again.
\<close>

definition settled :: "'b gx_ctx \<Rightarrow> 'b gx_ctx" where
  "settled s = s\<lparr>stateDirty := False, pipelineStateGeneration := 0, gx_epoch := 0\<rparr>"

lemma settled_mark [simp]: "settled (mark_pipeline_state_dirty s) = settled s"
  by (simp add: settled_def mark_pipeline_state_dirty_alt)

lemma settled_dirty [simp]: "settled (s\<lparr>stateDirty := b\<rparr>) = settled s"
  by (simp add: settled_def)

lemma upd_at_same: "f (xs ! i) = xs ! i \<Longrightarrow> upd_at f i xs = xs"
  by (simp add: upd_at_def)

section \<open>Skipped XF writes\<close>

lemma amb_same: "cs_ambColor (cs ! i) = unpack_color v \<Longrightarrow> amb_update i v cs = cs"
  unfolding amb_update_def by (rule upd_at_same) (cases "cs ! i", simp)

lemma mat_same: "cs_matColor (cs ! i) = unpack_color v \<Longrightarrow> mat_update i v cs = cs"
  unfolding mat_update_def by (rule upd_at_same) (cases "cs ! i", simp)

lemma tex_mtx_same:
  assumes "\<forall>i<4. tcg_mtx (ts ! (b + i)) = bp_get v 6 (k + i * 6)"
  shows "tex_mtx_indices v b k ts = ts"
proof -
  have "upd_at (\<lambda>t. t\<lparr>tcg_mtx := bp_get v 6 (k + i * 6)\<rparr>) (b + i) ts = ts" if "i < 4" for i
    using assms that by (intro upd_at_same) (cases "ts ! (b + i)", auto)
  thus ?thesis unfolding tex_mtx_indices_def by (intro fold_invariant_upt[where P = "\<lambda>x. x = ts"]) auto
qed

lemma xf_decode_settled:
  assumes "xf_holds reg val s" "xf_sizes s" "xf_skippable reg"
  shows "settled (xf_reg_decode reg val s) = settled s"
proof -
  consider (plain) "xf_plain reg" | (chan) "0x0E \<le> reg \<and> reg \<le> 0x11"
    | (tg) "0x40 \<le> reg \<and> reg \<le> 0x47" | (pt) "0x50 \<le> reg \<and> reg \<le> 0x57"
    | (inert) "\<not> xf_plain reg" "\<not> (0x0E \<le> reg \<and> reg \<le> 0x11)" "\<not> (0x40 \<le> reg \<and> reg \<le> 0x47)"
        "\<not> (0x50 \<le> reg \<and> reg \<le> 0x57)"
    by blast
  thus ?thesis
  proof cases
    case plain
    thus ?thesis
      using assms(1)
      by (elim xf_plain_cases)
         (simp_all add: xf_holds_def xf_reg_decode_def amb_same mat_same tex_mtx_same,
          simp_all add: settled_def)
  next
    case inert
    thus ?thesis by (simp add: xf_decode_inert(2))
  next
    case chan
    have u: "upd_at (\<lambda>_. chan_config val) k cs = cs" if "cs ! k = chan_config val" for k cs
      using that by (intro upd_at_same) simp
    have l: "upd_at (\<lambda>c. c\<lparr>cs_lightMask := m\<rparr>) k cs = cs" if "cs_lightMask (cs ! k) = m" for k m cs
      using that by (intro upd_at_same) (cases "cs ! k", simp)
    from chan have "reg = 0x0E \<or> reg = 0x0F \<or> reg = 0x10 \<or> reg = 0x11" by (simp only: xf_banks)
    thus ?thesis
      using assms(1) by (elim disjE) (simp_all add: xf_holds_def xf_reg_decode_def xf_chan_def u l)
  next
    case tg
    from tg have "reg = 0x40 \<or> reg = 0x41 \<or> reg = 0x42 \<or> reg = 0x43 \<or> reg = 0x44 \<or> reg = 0x45 \<or>
        reg = 0x46 \<or> reg = 0x47"
      by (simp only: xf_banks)
    thus ?thesis
      using assms(1) by (elim disjE) (simp_all add: xf_holds_def xf_reg_decode_def xf_texgen_def upd_at_same)
  next
    case pt
    have l: "upd_at (\<lambda>t. t\<lparr>tcg_postMtx := a, tcg_normalize := b\<rparr>) k ts = ts"
      if "tcg_postMtx (ts ! k) = a" "tcg_normalize (ts ! k) = b" for k a b ts
      using that by (intro upd_at_same) (cases "ts ! k", simp)
    from pt have "reg = 0x50 \<or> reg = 0x51 \<or> reg = 0x52 \<or> reg = 0x53 \<or> reg = 0x54 \<or> reg = 0x55 \<or>
        reg = 0x56 \<or> reg = 0x57"
      by (simp only: xf_banks)
    thus ?thesis
      using assms(1) by (elim disjE) (simp_all add: xf_holds_def xf_reg_decode_def xf_post_mtx_def l)
  qed
qed

section \<open>BP writes\<close>

lemma bit_bp_merged:
  "k < 24 \<Longrightarrow> bit (bp_merged v s) k =
     (if bit (bpRegCache s ! 0xFE) k then bit v k else bit (bpRegCache s ! unat (bp_reg v)) k)"
proof -
  assume k: "k < 24"
  have "bit (0x00FFFFFF :: u32) k"
  proof -
    have "(0x00FFFFFF :: u32) = mask 24" by (simp add: mask_eq_exp_minus_1)
    thus ?thesis using k by (simp only: bit_mask_iff) simp
  qed
  thus ?thesis
    using k by (simp add: bp_merged_def bp_reg_def Let_def bit_or_iff bit_and_iff bit_not_iff bit_push_bit_iff)
qed

context gx_backend_contract
begin

lemma handle_bp_twice:
  assumes "wf_shape g s" "bpRegCache s ! 0xFE = 0x00FFFFFF"
  shows "handle_bp g B v (handle_bp g B v s) = handle_bp g B v s"
proof (cases "bp_reg v = 0xFE")
  case True
  thus ?thesis by (simp add: handle_bp_mask_write)
next
  case False
  define t where "t = handle_bp g B v s"
  have len: "length (bpRegCache s) = 256" using assms(1) by (simp add: wf_shape_def)
  have r: "unat (bp_reg v) < 256" by (rule unat_bp_reg_less)
  have ne: "unat (bp_reg v) \<noteq> 0xFE" using False by (simp add: word_unat_eq_iff)
  have c: "bpRegCache t = (bpRegCache s)[0xFE := 0x00FFFFFF, unat (bp_reg v) := bp_merged v s]"
    unfolding t_def by (rule handle_bp_cache[OF assms(1) False])
  have m: "bpRegCache t ! 0xFE = 0x00FFFFFF" using c ne len by simp
  have e: "bpRegCache t ! unat (bp_reg v) = bp_merged v t"
    using c r len by (simp add: bp_merged_full_mask[OF m] bp_merged_full_mask[OF assms(2)])
  have "handle_bp g B v t = t"
    using False m e by (simp add: handle_bp_def bp_reg_def Let_def)
  thus ?thesis by (simp add: t_def)
qed

end

section \<open>CP writes\<close>

lemma cp_array_stride_twice:
  assumes "wf_shape g s"
  shows "cp_array_stride g a v (cp_array_stride g a v s) = cp_array_stride g a v s"
proof -
  have "length (arrays s) = GX_VA_MAX_ATTR g" using assms by (simp add: wf_shape_def)
  thus ?thesis by (simp add: cp_array_stride_def Let_def mark_pipeline_state_dirty_alt)
qed

lemma cp_decode_uncached:
  assumes "\<not> cacheable_cp_register a"
  shows "cp_decode g a v s = (if 0xB0 \<le> a \<and> a \<le> 0xBF then cp_array_stride g a v s else s)"
proof -
  have n: "a \<noteq> 0x50" "a \<noteq> 0x60" "a \<noteq> 0x30" "a \<noteq> 0x40" "\<not> (0x70 \<le> a \<and> a \<le> 0x97)"
    using assms by (simp_all add: cacheable_cp_register_def)
  hence "\<not> (0x70 \<le> a \<and> a \<le> 0x77)" "\<not> (0x80 \<le> a \<and> a \<le> 0x87)" "\<not> (0x90 \<le> a \<and> a \<le> 0x97)"
    by (simp_all only: word_le_nat_alt) auto
  moreover have "0xA0 \<le> a \<and> a \<le> 0xAF \<Longrightarrow> \<not> 0xB0 \<le> a" by (simp add: word_le_nat_alt)
  ultimately show ?thesis using n(1-4) unfolding cp_decode_def by auto
qed

lemma handle_cp_fresh:
  assumes "\<not> cp_hit s a v"
  shows "handle_cp g a v s = cp_decode g a v (if cacheable_cp_register a then cp_store a v s else s)"
  using assms by (simp add: handle_cp_def cp_register_write_unchanged_def)

lemma cp_hit_decode: "cp_hit (cp_decode g a v t) q w = cp_hit t q w"
  by (simp add: cp_hit_def cp_decode_caches)

text \<open>The CP cache is not told of an XF write to the same matrix indices.\<close>
lemma xf_decode_keeps_cp_cache: "cp_hit (xf_reg_decode r b s) a v = cp_hit s a v"
proof -
  have m: "cp_hit (mark_pipeline_state_dirty t) a v = cp_hit t a v" for t :: "'b gx_ctx"
    by (simp add: cp_hit_def)
  show ?thesis
    unfolding xf_reg_decode_def
    by (intro if_pred[where P = "\<lambda>t. cp_hit t a v = cp_hit s a v"])
       (simp_all add: xf_group_defs m, simp_all add: cp_hit_def)
qed

lemma handle_cp_hits:
  assumes "wf_ctx g s" "cacheable_cp_register a"
  shows "cp_hit (handle_cp g a v s) a v"
proof (cases "cp_hit s a v")
  case False
  have shape: "cp_cache_shape s" using assms(1) by (simp add: wf_ctx_def cp_cache_shape_def)
  thus ?thesis
    using cpc.hit_same[OF shape, where r = a] assms(2)
    by (simp add: handle_cp_fresh[OF False] cp_hit_decode)
qed (simp add: handle_cp_def cp_register_write_unchanged_def assms(2))

lemma handle_cp_twice:
  assumes "wf_ctx g s"
  shows "handle_cp g a v (handle_cp g a v s) = handle_cp g a v s"
proof (cases "cacheable_cp_register a")
  case True
  thus ?thesis
    using handle_cp_hits[OF assms True, of v]
    by (simp add: handle_cp_def[of g a v "handle_cp g a v s"] cp_register_write_unchanged_def)
next
  case False
  have "wf_shape g s" using assms by (simp add: wf_ctx_def)
  hence "cp_decode g a v (cp_decode g a v s) = cp_decode g a v s"
    unfolding cp_decode_uncached[OF False] by (simp add: cp_array_stride_twice)
  thus ?thesis using False by (simp add: handle_cp_def cp_register_write_unchanged_def)
qed

text \<open>The descriptor of attribute \<open>a\<close> in the two descriptor words.\<close>
definition vcd_field :: "u32 \<Rightarrow> u32 \<Rightarrow> nat \<Rightarrow> u32" where
  "vcd_field lo hi a =
     (if a < 9 then take_bit 1 (drop_bit a lo)
      else if a < 13 then take_bit 2 (drop_bit (9 + 2 * (a - 9)) lo)
      else take_bit 2 (drop_bit (2 * (a - 13)) hi))"

lemma upt_21: "[0..<21] = [0, 1, 2, 3, 4, 5, 6, 7, 8, 9, 10, 11, 12, 13, 14, 15, 16, 17, 18, 19, 20]"
  by code_simp

lemma all_lt_21: "(\<forall>a<21. P a) \<longleftrightarrow> list_all P [0..<21]"
  by (auto simp: list_all_iff)

lemma vcd_words:
  assumes "21 \<le> length vd" "vd \<noteq> []"
  shows "\<forall>a<21. vcd_hi hi (vcd_lo lo vd) ! a = vcd_field lo hi a"
  unfolding all_lt_21 upt_21 using assms
  by (simp add: numeral_eq_Suc vcd_hi_def vcd_lo_def vcd_field_def bp_get_take_bit)

lemma handle_cp_hit_other:
  assumes "cp_cache_shape s" "q \<noteq> a"
  shows "cp_hit (handle_cp g a v s) q w = cp_hit s q w"
proof -
  show ?thesis
    using cpc.hit_other[OF assms(1), where r = a and q = q] assms(2)
    by (simp add: handle_cp_def cp_register_write_unchanged_def cp_hit_decode)
qed

lemma handle_cp_vcd:
  assumes "wf_ctx g s" "\<not> cp_hit s 0x50 lo" "\<not> cp_hit s 0x60 hi"
  shows "vtxDesc (handle_cp g 0x60 hi (handle_cp g 0x50 lo s)) = vcd_hi hi (vcd_lo lo (vtxDesc s))"
proof -
  have shape: "cp_cache_shape s" using assms(1) by (simp add: wf_ctx_def cp_cache_shape_def)
  have c: "vtxDesc (clearVtxSizeCache g t) = vtxDesc t" "vtxDesc (mark_pipeline_state_dirty t) = vtxDesc t"
    for t by (simp_all add: clearVtxSizeCache_def mark_pipeline_state_dirty_alt)
  have lo: "vtxDesc (handle_cp g 0x50 lo s) = vcd_lo lo (vtxDesc s)"
    by (simp add: handle_cp_fresh[OF assms(2)] cacheable_cp_register_def cp_decode_def cp_vcd_lo_def
        Let_def c cp_store_def)
  have "\<not> cp_hit (handle_cp g 0x50 lo s) 0x60 hi"
    using assms(3) by (simp add: handle_cp_hit_other[OF shape])
  from handle_cp_fresh[OF this] lo show ?thesis
    by (simp add: cacheable_cp_register_def cp_decode_def cp_vcd_hi_def Let_def c cp_store_def)
qed

section \<open>Texture registers\<close>

fun tex_ids :: "TexBpKind \<Rightarrow> u32 list" where
  "tex_ids Mode0 = mode0Ids" | "tex_ids Mode1 = mode1Ids" | "tex_ids Image0 = image0Ids"
| "tex_ids Image1 = image1Ids" | "tex_ids Image2 = image2Ids" | "tex_ids Image3 = image3Ids"
| "tex_ids Tlut = tlutIds"

lemmas tex_id_tables = mode0Ids_def mode1Ids_def image0Ids_def image1Ids_def image2Ids_def
  image3Ids_def tlutIds_def

lemma tex_bp_scan_some:
  "tex_bp_scan r is = Some (i, k) \<Longrightarrow> i \<in> set is \<and> tex_ids k ! i = r"
  by (induction \<open>is\<close>) (auto split: if_splits)

lemma upt_8: "[0..<8] = [0, 1, 2, 3, 4, 5, 6, 7 :: nat]"
  by (simp add: upt_rec)

lemma nat_lt_8: "i < 8 \<longleftrightarrow> i = 0 \<or> i = 1 \<or> i = 2 \<or> i = 3 \<or> i = 4 \<or> i = 5 \<or> i = 6 \<or> i = (7 :: nat)"
  by auto

lemma decode_tex_bp_reg_ids:
  assumes "i < 8"
  shows "decode_tex_bp_reg (tex_ids k ! i) = Some (i, k)"
  using assms unfolding nat_lt_8
  by (elim disjE; cases k) (simp_all add: decode_tex_bp_reg_def upt_8 tex_id_tables)

text \<open>The addresses of the tables.\<close>
lemma tex_ids_address:
  assumes "i < 8"
  shows "uint (tex_ids k ! i) = (if i < 4 then 0x80 + int i else 0xA0 + int i - 4) +
    4 * (case k of Mode0 \<Rightarrow> 0 | Mode1 \<Rightarrow> 1 | Image0 \<Rightarrow> 2 | Image1 \<Rightarrow> 3 | Image2 \<Rightarrow> 4 | Image3 \<Rightarrow> 5 | Tlut \<Rightarrow> 6)"
  using assms unfolding nat_lt_8
  by (elim disjE; cases k) (simp_all add: tex_id_tables)

section \<open>Indexed XF loads\<close>

lemma unat_ucast16_less: "unat (ucast (y :: u16) :: u32) < 2 ^ 16"
proof -
  have "unat y < 2 ^ 16" by (rule less_le_trans[OF unsigned_less]) simp
  from le_less_trans[OF take_bit_nat_less_eq_self this] show ?thesis by (simp add: unsigned_ucast_eq)
qed

lemma indexed_span_bounds:
  assumes "indexed_span v arr = (off, cnt)"
  shows "unat off + unat cnt < 2 ^ 32" "unat off = unat (drop_bit 16 v) * unat (arr_stride arr)"
proof -
  have "fits 16 (drop_bit 16 v)"
    by (auto simp: fits_def bit_eq_iff bit_take_bit_iff bit_drop_bit_eq dest: bit_imp_le_length)
  hence a: "unat (drop_bit 16 v) < 2 ^ 16" by (rule fits_unat_less)
  have b: "unat (arr_stride arr) < 2 ^ 8" by (rule less_le_trans[OF unsigned_less]) simp
  have "unat (drop_bit 16 v) * unat (arr_stride arr) \<le> (2 ^ 16 - 1) * (2 ^ 8 - 1)"
    using a b by (intro mult_le_mono) simp_all
  hence p: "unat (drop_bit 16 v) * unat (arr_stride arr) \<le> 16711425" by simp
  have off: "off = drop_bit 16 v * ucast (arr_stride arr)" "cnt = ucast (ucast ((drop_bit 12 v AND 0x0f) + 1) :: u16) * 4"
    using assms by (simp_all add: indexed_span_def Let_def)
  have u8: "unat (ucast (arr_stride arr) :: u32) = unat (arr_stride arr)"
    by (simp add: unsigned_ucast_eq take_bit_nat_eq_self_iff less_le_trans[OF b])
  show o1: "unat off = unat (drop_bit 16 v) * unat (arr_stride arr)"
    using p u8 unfolding off(1) by (simp add: unat_word_ariths)
  from unat_ucast16_less[of "ucast ((drop_bit 12 v AND 0x0f) + 1)"]
  have "unat cnt < 2 ^ 18" unfolding off(2) by (simp add: unat_word_ariths)
  thus "unat off + unat cnt < 2 ^ 32" using o1 p by simp
qed

lemma indexed_ok_inside:
  assumes "indexed_ok v arr" "indexed_span v arr = (off, cnt)"
  shows "unat off + unat cnt \<le> unat (arr_size arr)"
proof -
  have "off + cnt \<le> arr_size arr" using assms by (auto simp: indexed_ok_def)
  thus ?thesis using indexed_span_bounds(1)[OF assms(2)] by (simp add: word_le_nat_alt unat_word_ariths)
qed

lemma load_indexed_inside:
  assumes "arr = arrays s ! (GX_POS_MTX_ARRAY k + unat ((opc - GX_LOAD_INDX_A k) div 8))"
    and "\<And>i. i < unat (arr_size arr) \<Longrightarrow> mem (arr_data arr + of_nat i) \<noteq> None"
  shows "\<exists>t. load_indexed k mem opc v be s = Some t"
proof (cases "indexed_ok v arr")
  case True
  define len where "len = (ucast (ucast ((drop_bit 12 v AND 0x0f) + 1) :: u16) :: u32)"
  obtain off cnt where sp: "indexed_span v arr = (off, cnt)" by (cases "indexed_span v arr")
  have "unat len < 2 ^ 16" unfolding len_def by (rule unat_ucast16_less)
  hence n: "unat cnt = unat len * 4"
    using sp by (auto simp: indexed_span_def Let_def len_def[symmetric] unat_word_ariths)
  have le: "unat off + unat cnt \<le> unat (arr_size arr)" by (rule indexed_ok_inside[OF True sp])
  have "unat off < 2 ^ 64" by (rule less_le_trans[OF unsigned_less[of off]]) simp
  hence o64: "(ucast off :: u64) = of_nat (unat off)" by simp
  have "readable (\<lambda>i. mem (arr_data arr + ucast off + of_nat i)) (unat len * 4)"
    unfolding readable_def
  proof (intro allI impI)
    fix i assume "i < unat len * 4"
    hence "unat off + i < unat (arr_size arr)" using le n by simp
    from assms(2)[OF this] show "mem (arr_data arr + ucast off + of_nat i) \<noteq> None"
      unfolding o64 by (simp add: add.assoc)
  qed
  from copy_xf_data_total[OF this] show ?thesis
    using True sp by (fastforce simp: load_indexed_def Let_def assms(1)[symmetric] len_def[symmetric])
qed (simp add: load_indexed_def Let_def assms(1))

section \<open>Encoded commands\<close>

text \<open>Register writes as the fifo carries them, and their effect.\<close>
datatype reg_write = BpWrite u32 | CpWrite u8 u32

fun encode :: "bool \<Rightarrow> reg_write \<Rightarrow> u8 list" where
  "encode be (BpWrite w) = 0x61 # wire32 be w"
| "encode be (CpWrite a w) = 0x08 # a # wire32 be w"

fun apply_write :: "gx_enums \<Rightarrow> 'b gx_backend \<Rightarrow> reg_write \<Rightarrow> 'b gx_ctx \<Rightarrow> 'b gx_ctx" where
  "apply_write g B (BpWrite w) = handle_bp g B w"
| "apply_write g B (CpWrite a w) = handle_cp g a w"

lemma buf_at: "buf (xs @ y # ys) (length xs) = Some y"
  by (simp add: buf_def)

lemma fifo_step_encode:
  fixes pos :: u32
  assumes d: "d = xs @ encode be c @ ys" and p: "unat pos = length xs" and sz: "unat sz = length d"
  shows "fifo_step sdk_opcodes g B mem (buf d) sz be pos s =
    StepNext (pos + of_nat (length (encode be c))) (apply_write g B c s)"
proof -
  have lim: "length d < 2 ^ 32" unfolding sz[symmetric] by (rule less_le_trans[OF unsigned_less]) simp
  have room: "length xs + length (encode be c) \<le> unat sz" using d sz by simp
  have p1: "unat (pos + 1) = Suc (length xs)"
    using lim room p sz by (cases c) (simp_all add: unat_word_ariths)
  show ?thesis
  proof (cases c)
    case (BpWrite w)
    have "has_bytes (pos + 1) sz 4"
      using room p1 BpWrite by (simp add: has_bytes_def word_le_nat_alt unat_sub)
    moreover have "read_u32 (buf d) (unat (pos + 1)) be = Some w"
      using read_u32_wire32[of "xs @ [0x61]" be w ys] p1 by (simp add: d BpWrite)
    moreover have "buf d (unat pos) = Some 0x61" by (simp add: d BpWrite p buf_at)
    ultimately show ?thesis
      by (simp add: fifo_step_def sdk_opcodes_def BpWrite Let_def)
  next
    case (CpWrite a w)
    have h: "has_bytes (pos + 1) sz 5"
      using room p1 CpWrite by (simp add: has_bytes_def word_le_nat_alt unat_sub)
    have p2: "unat (pos + 1 + 1) = length xs + 2"
      using lim room p sz CpWrite by (simp add: unat_word_ariths)
    have "read_u32 (buf d) (unat (pos + 1 + 1)) be = Some w"
      using read_u32_wire32[of "xs @ [0x08, a]" be w ys] p2 by (simp add: d CpWrite)
    moreover have "buf d (unat (pos + 1)) = Some a"
      using buf_at[of "xs @ [0x08]" a] p1 by (simp add: d CpWrite)
    moreover have "buf d (unat pos) = Some 0x08" by (simp add: d CpWrite p buf_at)
    ultimately show ?thesis
      using h by (simp add: fifo_step_def sdk_opcodes_def CpWrite Let_def)
  qed
qed

lemma process_loop_encode:
  assumes "d = xs @ concat (map (encode be) cs)" "unat pos = length xs" "unat sz = length d"
  shows "process_loop sdk_opcodes g B mem (buf d) sz be pos s = Some (FifoDone (fold (apply_write g B) cs s))"
  using assms(1,2)
proof (induction cs arbitrary: xs pos s)
  case Nil
  thus ?case using assms(3) by (simp add: process_loop.simps word_less_nat_alt)
next
  case (Cons c cs)
  have d: "d = xs @ encode be c @ concat (map (encode be) cs)" using Cons.prems(1) by simp
  have pos: "pos < sz"
    using Cons.prems(2) assms(3) d by (cases c) (simp_all add: word_less_nat_alt)
  have lim: "length d < 2 ^ 32" unfolding assms(3)[symmetric] by (rule less_le_trans[OF unsigned_less]) simp
  have n: "unat (pos + of_nat (length (encode be c))) = length (xs @ encode be c)"
    using Cons.prems(2) lim d by (cases c) (simp_all add: unat_word_ariths unat_of_nat)
  have "process_loop sdk_opcodes g B mem (buf d) sz be (pos + of_nat (length (encode be c)))
      (apply_write g B c s) = Some (FifoDone (fold (apply_write g B) cs (apply_write g B c s)))"
    by (rule Cons.IH[OF _ n]) (simp add: d)
  moreover note fifo_step_encode[OF d Cons.prems(2) assms(3), where g = g and B = B and mem = mem and s = s]
  ultimately show ?case
    using pos by (subst process_loop.simps) simp
qed

end
