(* ===== verification/GxSdkTexture.thy ===== *)
theory GxSdkTexture
  imports GxSdkRender
begin

text \<open>
  The texture, copy and palette formats of the GX headers as a third parameter record, and their
  published values \<open>sdk_texture\<close>.
\<close>

record gx_texture_enums =
  GX_TF_I4 :: u32
  GX_TF_I8 :: u32
  GX_TF_IA4 :: u32
  GX_TF_IA8 :: u32
  GX_TF_RGB565 :: u32
  GX_TF_RGB5A3 :: u32
  GX_TF_RGBA8 :: u32
  GX_TF_C4 :: u32
  GX_TF_C8 :: u32
  GX_TF_C14X2 :: u32
  GX_TF_CMPR :: u32
  GX_TF_A8 :: u32
  GX_TF_Z8 :: u32
  GX_TF_Z16 :: u32
  GX_TF_Z24X8 :: u32
  GX_TF_R8_PC :: u32
  GX_TF_RGBA8_PC :: u32
  GX_CTF_R4 :: u32
  GX_CTF_RA4 :: u32
  GX_CTF_RA8 :: u32
  GX_CTF_YUVA8 :: u32
  GX_CTF_A8 :: u32
  GX_CTF_R8 :: u32
  GX_CTF_G8 :: u32
  GX_CTF_B8 :: u32
  GX_CTF_RG8 :: u32
  GX_CTF_GB8 :: u32
  GX_CTF_Z4 :: u32
  GX_CTF_Z8M :: u32
  GX_CTF_Z8L :: u32
  GX_CTF_Z16L :: u32
  GX_TL_RGB565 :: u32
  GX_TL_RGB5A3 :: u32

definition sdk_texture :: gx_texture_enums where
  "sdk_texture = \<lparr>
     GX_TF_I4 = 0, GX_TF_I8 = 1, GX_TF_IA4 = 2, GX_TF_IA8 = 3, GX_TF_RGB565 = 4, GX_TF_RGB5A3 = 5,
     GX_TF_RGBA8 = 6, GX_TF_C4 = 8, GX_TF_C8 = 9, GX_TF_C14X2 = 10, GX_TF_CMPR = 14, GX_TF_A8 = 0x27,
     GX_TF_Z8 = 0x11, GX_TF_Z16 = 0x13, GX_TF_Z24X8 = 0x16, GX_TF_R8_PC = 0x60, GX_TF_RGBA8_PC = 0x61,
     GX_CTF_R4 = 0x20, GX_CTF_RA4 = 0x22, GX_CTF_RA8 = 0x23, GX_CTF_YUVA8 = 0x26, GX_CTF_A8 = 0x27,
     GX_CTF_R8 = 0x28, GX_CTF_G8 = 0x29, GX_CTF_B8 = 0x2A, GX_CTF_RG8 = 0x2B, GX_CTF_GB8 = 0x2C,
     GX_CTF_Z4 = 0x30, GX_CTF_Z8M = 0x39, GX_CTF_Z8L = 0x3A, GX_CTF_Z16L = 0x3C,
     GX_TL_RGB565 = 1, GX_TL_RGB5A3 = 2\<rparr>"

end
