(* ===== verification/TextureObject.thy ===== *)
theory TextureObject
  imports GxInit GxSdkTexture IeeeLemmas BpDecoder
begin

text \<open>
  The accessors of a texture object (lib/dolphin/gx/texture_object.hpp) and
  \<open>max_texture_mip_count\<close> of lib/gfx/texture_data.hpp.  \<open>get_bits\<close> is the formula of \<open>bp_get\<close>.
\<close>

function mip_count_loop :: "nat \<Rightarrow> nat \<Rightarrow> nat" where
  "mip_count_loop dimension count = (if dimension > 1 then mip_count_loop (dimension div 2) (count + 1) else count)"
  by pat_completeness auto
termination by (relation "measure fst") auto

declare mip_count_loop.simps [simp del]

definition max_texture_mip_count :: "u32 \<Rightarrow> u32 \<Rightarrow> nat" where
  "max_texture_mip_count w h = mip_count_loop (max (unat w) (unat h)) 1"

definition to_width :: "GXTexObj \<Rightarrow> u32" where
  "to_width t = (if to_mWidth t \<noteq> 0 then to_mWidth t else (bp_get (to_image0 t) 10 0 + 1) AND 0x3FF)"

definition to_height :: "GXTexObj \<Rightarrow> u32" where
  "to_height t = (if to_mHeight t \<noteq> 0 then to_mHeight t else (bp_get (to_image0 t) 10 10 + 1) AND 0x3FF)"

definition raw_format :: "GXTexObj \<Rightarrow> u32" where "raw_format t = bp_get (to_image0 t) 4 20"

definition to_format :: "GXTexObj \<Rightarrow> u32" where
  "to_format t = (if to_mFormat t \<noteq> InvalidTextureFormat then to_mFormat t else raw_format t)"

definition wrap_s :: "GXTexObj \<Rightarrow> u32" where "wrap_s t = bp_get (to_mode0 t) 2 0"
definition wrap_t :: "GXTexObj \<Rightarrow> u32" where "wrap_t t = bp_get (to_mode0 t) 2 2"

definition kHwToGxFilter :: "gx_render_enums \<Rightarrow> u32 list" where
  "kHwToGxFilter x = [GX_NEAR x, GX_NEAR_MIP_NEAR x, GX_NEAR_MIP_LIN x, GX_NEAR x,
     GX_LINEAR x, GX_LIN_MIP_NEAR x, GX_LIN_MIP_LIN x, GX_NEAR x]"

definition min_filter :: "gx_render_enums \<Rightarrow> GXTexObj \<Rightarrow> u32" where
  "min_filter x t = kHwToGxFilter x ! unat (bp_get (to_mode0 t) 3 5)"

definition mag_filter :: "gx_render_enums \<Rightarrow> GXTexObj \<Rightarrow> u32" where
  "mag_filter x t = (if bp_get (to_mode0 t) 1 4 \<noteq> 0 then GX_LINEAR x else GX_NEAR x)"

definition has_mips :: "GXTexObj \<Rightarrow> bool" where "has_mips t \<longleftrightarrow> to_flags t AND 1 \<noteq> 0"

definition f32_16 :: f32 where "f32_16 = f32_of_int 16"

definition min_lod :: "GXTexObj \<Rightarrow> f32" where
  "min_lod t = f32_div (f32_of_u32 (bp_get (to_mode1 t) 8 0)) f32_16"

definition max_lod :: "GXTexObj \<Rightarrow> f32" where
  "max_lod t = f32_div (f32_of_u32 (bp_get (to_mode1 t) 8 8)) f32_16"

text \<open>The eight bits of the bias are a signed byte.\<close>
definition lod_bias :: "GXTexObj \<Rightarrow> f32" where
  "lod_bias t = f32_div (f32_of_int (sint (ucast (bp_get (to_mode0 t) 8 9) :: u8))) (f32_of_int 32)"

text \<open>\<open>max_lod\<close> is at most 255/16, so its conversion to an integer is defined.\<close>
definition mip_count :: "GXTexObj \<Rightarrow> nat" where
  "mip_count t =
     (if \<not> has_mips t then 1
      else min (max (case f32_trunc (max_lod t) of Some i \<Rightarrow> nat i + 1 | None \<Rightarrow> 1) 1)
               (max_texture_mip_count (to_width t) (to_height t)))"

definition do_edge_lod :: "GXTexObj \<Rightarrow> bool" where "do_edge_lod t \<longleftrightarrow> bp_get (to_mode0 t) 1 8 = 0"
definition max_aniso :: "GXTexObj \<Rightarrow> u32" where "max_aniso t = bp_get (to_mode0 t) 2 19"
definition bias_clamp :: "GXTexObj \<Rightarrow> bool" where "bias_clamp t \<longleftrightarrow> bp_get (to_mode0 t) 1 21 \<noteq> 0"
definition no_cache :: "u8 \<Rightarrow> bool" where "no_cache flags \<longleftrightarrow> flags AND 0x80 \<noteq> 0"

section \<open>Facts\<close>

lemma mip_count_loop_ge: "c \<le> mip_count_loop d c"
proof (induction d c rule: mip_count_loop.induct)
  case (1 d c)
  thus ?case by (cases "d > 1") (simp_all add: mip_count_loop.simps[of d])
qed

lemma mip_count_bounds:
  "1 \<le> mip_count t" "mip_count t \<le> max_texture_mip_count (to_width t) (to_height t)"
  using mip_count_loop_ge[of 1] by (auto simp: mip_count_def max_texture_mip_count_def)

end
