(* ===== verification/TextureLayout.thy ===== *)
theory TextureLayout
  imports TextureObject
begin

text \<open>
  ps5/gpu/texture_layout.cpp: the storage of an RGBA8 texture in 64 KiB blocks of 128 by 128
  texels, the last mip levels packed into one tail block.  The dimensions are checked to be at
  most 16384 before anything is computed, so no 32-bit value wraps and the sizes are naturals; the
  swizzle inside a block is the bit equation of the code on words.
\<close>

definition mip_tail :: "(nat \<times> nat) list" where
  "mip_tail = [(64, 0), (0, 64), (32, 0), (0, 32), (16, 0), (8, 16), (0, 24), (0, 16), (8, 8), (8, 0),
     (0, 8), (0, 0)]"

definition aligned :: "nat \<Rightarrow> nat" where "aligned n = (n + 127) div 128 * 128"

definition ceil_mip :: "nat \<Rightarrow> nat \<Rightarrow> nat" where
  "ceil_mip n m = max 1 ((n + (2 ^ m - 1)) div 2 ^ m)"

definition swizzle :: "u32 \<Rightarrow> u32 \<Rightarrow> u32" where
  "swizzle x y =
     (push_bit 4 y AND 0x70) XOR (push_bit 5 y AND 0xf00) XOR (push_bit 9 y AND 0x1000) XOR
     (push_bit 8 y AND 0x4000) XOR (push_bit 2 x AND 0xc) XOR (push_bit 5 x AND 0x380) XOR
     (push_bit 4 x AND 0x400) XOR (push_bit 6 x AND 0x800) XOR (push_bit 9 x AND 0xa000)"

record Mip =
  mp_width :: nat
  mp_height :: nat
  mp_paddedWidth :: nat
  mp_tailX :: nat
  mp_tailY :: nat
  mp_offset :: nat

record TextureLayout =
  tx_width :: nat
  tx_height :: nat
  tx_count :: nat
  tx_bytes :: nat
  tx_linearBytes :: nat
  tx_mips :: "Mip list"

definition starts_tail :: "nat \<Rightarrow> nat \<Rightarrow> nat \<Rightarrow> nat \<Rightarrow> bool" where
  "starts_tail w h n m \<longleftrightarrow> n > 1 \<and> ceil_mip w m \<le> 64 \<and> ceil_mip h m \<le> 128 \<and> n - m \<le> 12"

text \<open>One round of the constructor's loop: the record of level \<open>m\<close>, its size in storage (0 in the
  tail), and the first tail level so far.\<close>
definition layout_level :: "nat \<Rightarrow> nat \<Rightarrow> nat \<Rightarrow> nat \<Rightarrow> nat \<Rightarrow> Mip \<times> nat \<times> nat" where
  "layout_level w h n firstTail m =
     (let ft = (if firstTail = n \<and> starts_tail w h n m then m else firstTail);
          rec = \<lparr>mp_width = max 1 (w div 2 ^ m), mp_height = max 1 (h div 2 ^ m), mp_paddedWidth = 128,
                 mp_tailX = 0, mp_tailY = 0, mp_offset = 0\<rparr>
      in if m < ft then
           (let pw = aligned (ceil_mip w m)
            in (rec\<lparr>mp_paddedWidth := pw\<rparr>, pw * aligned (ceil_mip h m) * 4, ft))
         else (rec\<lparr>mp_tailX := fst (mip_tail ! (m - ft)), mp_tailY := snd (mip_tail ! (m - ft))\<rparr>, 0, ft))"

fun layout_levels :: "nat \<Rightarrow> nat \<Rightarrow> nat \<Rightarrow> nat \<Rightarrow> nat list \<Rightarrow> Mip list \<times> nat list \<times> nat" where
  "layout_levels w h n firstTail [] = ([], [], firstTail)"
| "layout_levels w h n firstTail (m # ms) =
     (let (r, sz, ft) = layout_level w h n firstTail m;
          (rs, szs, ft') = layout_levels w h n ft ms
      in (r # rs, sz # szs, ft'))"

text \<open>The second loop: offsets from the last level before the tail down to level 0.\<close>
fun assign_offsets :: "nat list \<Rightarrow> nat \<Rightarrow> nat \<Rightarrow> Mip list \<Rightarrow> Mip list" where
  "assign_offsets sizes 0 offset mips = mips"
| "assign_offsets sizes (Suc m) offset mips =
     assign_offsets sizes m (offset + sizes ! m) (upd_at (\<lambda>r. r\<lparr>mp_offset := offset\<rparr>) m mips)"

definition linear_bytes :: "Mip list \<Rightarrow> nat" where
  "linear_bytes mips = (\<Sum>r\<leftarrow>mips. mp_width r * mp_height r * 4)"

text \<open>The loop that counts the levels of the larger dimension is the one of \<open>max_texture_mip_count\<close>.\<close>
definition TextureLayout_new :: "nat \<Rightarrow> nat \<Rightarrow> nat \<Rightarrow> string + TextureLayout" where
  "TextureLayout_new w h n =
     (if w = 0 \<or> h = 0 \<or> w > 16384 \<or> h > 16384 \<or> n = 0 \<or> n > 15 then Inl ''Invalid AGC texture dimensions/mips''
      else if n > mip_count_loop (max w h) 1 then Inl ''Too many AGC texture mips''
      else
        (let (mips, sizes, firstTail) = layout_levels w h n n [0..<n];
             base = (if firstTail < n then 65536 else 0)
         in Inr \<lparr>tx_width = w, tx_height = h, tx_count = n, tx_bytes = sum_list sizes + base,
                 tx_linearBytes = linear_bytes mips,
                 tx_mips = assign_offsets sizes firstTail base mips\<rparr>))"

definition tx_mip :: "TextureLayout \<Rightarrow> nat \<Rightarrow> string + Mip" where
  "tx_mip lay level = (if level \<ge> tx_count lay then Inl ''AGC mip level'' else Inr (tx_mips lay ! level))"

definition mip_texel_offset :: "Mip \<Rightarrow> nat \<Rightarrow> nat \<Rightarrow> nat" where
  "mip_texel_offset m x y =
     (let block = (y div 128) * (mp_paddedWidth m div 128) + x div 128
      in mp_offset m + block * 65536 +
         unat (swizzle (of_nat (x + mp_tailX m)) (of_nat (y + mp_tailY m))))"

definition pixel_offset :: "TextureLayout \<Rightarrow> nat \<Rightarrow> nat \<Rightarrow> nat \<Rightarrow> string + nat" where
  "pixel_offset lay x y level =
     (case tx_mip lay level of Inl e \<Rightarrow> Inl e
      | Inr m \<Rightarrow> if x \<ge> mp_width m \<or> y \<ge> mp_height m then Inl ''AGC texel coordinate''
                else Inr (mip_texel_offset m x y))"

text \<open>The order in which \<open>tile\<close> visits the texels.\<close>
definition mip_texels :: "Mip \<Rightarrow> (nat \<times> nat) list" where
  "mip_texels m = concat (map (\<lambda>y. map (\<lambda>x. (x, y)) [0..<mp_width m]) [0..<mp_height m])"

definition layout_texels :: "TextureLayout \<Rightarrow> (nat \<times> nat \<times> nat) list" where
  "layout_texels lay =
     concat (map (\<lambda>l. map (\<lambda>(x, y). (l, x, y)) (mip_texels (tx_mips lay ! l))) [0..<tx_count lay])"

text \<open>\<open>memcpy\<close> of four bytes into storage; \<open>None\<close> is a write outside it.\<close>
definition store4 :: "nat \<Rightarrow> u8 list \<Rightarrow> u8 list \<Rightarrow> u8 list option" where
  "store4 off bs st = (if off + 4 \<le> length st then Some (take off st @ take 4 bs @ drop (off + 4) st) else None)"

fun tile_texels :: "TextureLayout \<Rightarrow> u8 list \<Rightarrow> (nat \<times> nat \<times> nat) list \<Rightarrow> nat \<Rightarrow> u8 list \<Rightarrow>
   (string + u8 list) option" where
  "tile_texels lay pixels [] source st = Some (Inr st)"
| "tile_texels lay pixels ((l, x, y) # ts) source st =
     (case pixel_offset lay x y l of Inl e \<Rightarrow> Some (Inl e)
      | Inr off \<Rightarrow>
         if source + 4 > length pixels then None
         else case store4 off (drop source pixels) st of
           None \<Rightarrow> None | Some st' \<Rightarrow> tile_texels lay pixels ts (source + 4) st')"

text \<open>\<open>dst\<close> and \<open>src\<close> are the addresses of the two buffers; when the check passes they share no byte
  that is written, so the buffers are two lists.\<close>
definition buffers_overlap :: "TextureLayout \<Rightarrow> nat \<Rightarrow> nat \<Rightarrow> bool" where
  "buffers_overlap lay dst src \<longleftrightarrow>
     (if dst \<le> src then src - dst < tx_bytes lay else dst - src < tx_linearBytes lay)"

definition tile :: "TextureLayout \<Rightarrow> nat \<Rightarrow> u8 list \<Rightarrow> nat \<Rightarrow> u8 list \<Rightarrow> (string + u8 list) option" where
  "tile lay dst storage src pixels =
     (if length storage < tx_bytes lay \<or> length pixels \<noteq> tx_linearBytes lay then
        Some (Inl ''AGC texture byte size mismatch'')
      else if buffers_overlap lay dst src then
        Some (Inl ''AGC upload source and destination overlap'')
      else tile_texels lay pixels (layout_texels lay) 0
        (replicate (tx_bytes lay) 0 @ drop (tx_bytes lay) storage))"

definition tx_descriptor :: "TextureLayout \<Rightarrow> u64 \<Rightarrow> string + u32 list" where
  "tx_descriptor lay address =
     (if address AND 65535 \<noteq> 0 \<or> address \<ge> push_bit 48 1 then Inl ''AGC texture base alignment/range''
      else
        (let w = (of_nat (tx_width lay) - 1 :: u32); h = (of_nat (tx_height lay) - 1 :: u32);
             c = (of_nat (tx_count lay) - 1 :: u32)
         in Inr [ucast (drop_bit 8 address),
                 ucast (drop_bit 40 address AND 255) OR push_bit 20 56 OR push_bit 30 (w AND 3),
                 drop_bit 2 w OR push_bit 14 h,
                 4 OR push_bit 3 5 OR push_bit 6 6 OR push_bit 9 7 OR push_bit 16 c OR push_bit 20 27 OR
                   push_bit 28 9,
                 0, push_bit 4 c, 0, 0]))"

definition bgra_descriptor :: "TextureLayout \<Rightarrow> u64 \<Rightarrow> string + u32 list" where
  "bgra_descriptor lay address =
     (case tx_descriptor lay address of Inl e \<Rightarrow> Inl e
      | Inr ws \<Rightarrow> Inr (upd_at (\<lambda>w. (w AND NOT 0xfff) OR 6 OR push_bit 3 5 OR push_bit 6 4 OR push_bit 9 7) 3 ws))"

end
