(* ===== verification/TextureLayoutLemmas.thy ===== *)
theory TextureLayoutLemmas
  imports TextureLayout
begin

text \<open>
  Every texel of a texture layout has four bytes of its own inside the storage: the swizzle is
  injective on a block, the blocks of a level and the levels are disjoint, and so are the
  rectangles of the tail block.  Hence \<open>tile\<close> neither fails nor overwrites a texel.
\<close>

section \<open>The swizzle\<close>

lemma swizzle_bits:
  "bit (swizzle x y) 0 = False" "bit (swizzle x y) 1 = False"
  "bit (swizzle x y) 2 = bit x 0" "bit (swizzle x y) 3 = bit x 1"
  "bit (swizzle x y) 4 = bit y 0" "bit (swizzle x y) 5 = bit y 1"
  "bit (swizzle x y) 6 = bit y 2" "bit (swizzle x y) 7 = bit x 2"
  "bit (swizzle x y) 8 = (bit y 3 \<noteq> bit x 3)" "bit (swizzle x y) 9 = (bit y 4 \<noteq> bit x 4)"
  "bit (swizzle x y) 10 = (bit y 5 \<noteq> bit x 6)" "bit (swizzle x y) 11 = (bit y 6 \<noteq> bit x 5)"
  "bit (swizzle x y) 12 = bit y 3" "bit (swizzle x y) 13 = bit x 4"
  "bit (swizzle x y) 14 = bit y 6" "bit (swizzle x y) 15 = bit x 6"
  unfolding swizzle_def bit_xor_iff bit_and_iff bit_push_bit_iff by simp_all

lemma fits_and: "fits n b \<Longrightarrow> fits n (a AND b)"
  unfolding fits_def take_bit_eq_mask by (simp add: and.assoc)

lemma fits_xor: "fits n a \<Longrightarrow> fits n b \<Longrightarrow> fits n (a XOR b)"
  by (simp add: fits_def)

lemma swizzle_range: "unat (swizzle x y) < 65536" "unat (swizzle x y) mod 4 = 0"
proof -
  have "fits 16 (swizzle x y)"
    unfolding swizzle_def by (intro fits_xor fits_and) (simp_all add: fits_def)
  thus "unat (swizzle x y) < 65536" using fits_unat_less[of 16] by fastforce
  have "take_bit 2 (swizzle x y) = 0"
  proof (rule bit_word_eqI)
    fix n
    have "n < 2 \<Longrightarrow> n = 0 \<or> n = (1 :: nat)" by auto
    thus "bit (take_bit 2 (swizzle x y)) n = bit (0 :: u32) n"
      using swizzle_bits(1,2)[of x y] by (auto simp: bit_take_bit_iff)
  qed
  hence "take_bit 2 (unat (swizzle x y)) = 0"
    by (metis unsigned_0 unsigned_take_bit_eq)
  thus "unat (swizzle x y) mod 4 = 0" by (simp add: take_bit_eq_mod)
qed

lemma take_bit_7_eqI:
  assumes "bit a 0 = bit b 0" "bit a 1 = bit b 1" "bit a 2 = bit b 2" "bit a 3 = bit b 3"
    "bit a 4 = bit b 4" "bit a 5 = bit b 5" "bit a 6 = bit b 6"
  shows "take_bit 7 (a :: u32) = take_bit 7 b"
proof (rule bit_word_eqI)
  fix n
  have "n < 7 \<Longrightarrow> n = 0 \<or> n = 1 \<or> n = 2 \<or> n = 3 \<or> n = 4 \<or> n = 5 \<or> n = (6 :: nat)" by auto
  thus "bit (take_bit 7 a) n = bit (take_bit 7 b) n"
    using assms by (auto simp: bit_take_bit_iff)
qed

lemma swizzle_inj:
  assumes "swizzle x y = swizzle x' y'"
  shows "take_bit 7 x = take_bit 7 x'" "take_bit 7 y = take_bit 7 y'"
  by (rule take_bit_7_eqI; use swizzle_bits[of x y] swizzle_bits[of x' y'] assms in metis)+

lemma take_bit_7_nat: "take_bit 7 (of_nat a :: u32) = take_bit 7 (of_nat b) \<longleftrightarrow> a mod 128 = b mod 128"
proof -
  have u: "unat (take_bit 7 (of_nat a :: u32)) = a mod 128" for a
    by (simp only: unsigned_take_bit_eq unat_of_nat) (simp add: take_bit_eq_mod mod_mod_cancel)
  show ?thesis unfolding word_unat_eq_iff u ..
qed

lemma swizzle_nat_inj:
  "swizzle (of_nat x) (of_nat y) = swizzle (of_nat x') (of_nat y') \<Longrightarrow>
   x mod 128 = x' mod 128 \<and> y mod 128 = y' mod 128"
  using swizzle_inj take_bit_7_nat by blast

section \<open>Blocks of a level\<close>

lemma digit_inj:
  assumes "a * n + s = b * n + t" "s < n" "t < (n :: nat)"
  shows "a = b \<and> s = t"
proof -
  have "(a * n + s) div n = a" "(b * n + t) div n = b" using assms(2,3) by simp_all
  thus ?thesis using assms(1) by auto
qed

lemma block_inj:
  assumes "mip_texel_offset m x y = mip_texel_offset m' x' y'"
    "mp_offset m = mp_offset m'" "mp_paddedWidth m = mp_paddedWidth m'"
    "mp_tailX m = 0" "mp_tailY m = 0" "mp_tailX m' = 0" "mp_tailY m' = 0"
    "x div 128 < mp_paddedWidth m div 128" "x' div 128 < mp_paddedWidth m div 128"
  shows "x = x' \<and> y = y'"
proof -
  let ?s = "swizzle (of_nat x) (of_nat y)" and ?s' = "swizzle (of_nat x') (of_nat y')"
  let ?p = "mp_paddedWidth m div 128"
  have e: "((y div 128) * ?p + x div 128) * 65536 + unat ?s = ((y' div 128) * ?p + x' div 128) * 65536 + unat ?s'"
    using assms by (simp add: mip_texel_offset_def Let_def)
  note k = digit_inj[OF e swizzle_range(1) swizzle_range(1)]
  from k have "?s = ?s'" by (simp only: word_unat_eq_iff)
  from swizzle_nat_inj[OF this] have s: "x mod 128 = x' mod 128" "y mod 128 = y' mod 128" by blast+
  from k have "(y div 128) * ?p + x div 128 = (y' div 128) * ?p + x' div 128" by blast
  hence "y div 128 = y' div 128" "x div 128 = x' div 128"
    using digit_inj assms(8,9) by blast+
  thus ?thesis using s by (metis div_mult_mod_eq)
qed

lemma div_below_aligned: "x < n \<Longrightarrow> x div 128 < aligned n div 128"
  unfolding aligned_def using div_le_mono[of "x + 128" "n + 127" 128] by simp

lemma block_end: "(k + 1) * 65536 \<le> n \<Longrightarrow> s + 4 \<le> 65536 \<Longrightarrow> off + k * 65536 + s + 4 \<le> off + (n :: nat)"
  by simp

lemma block_below:
  assumes "x < cw" "y < ch" "mp_paddedWidth m = aligned cw"
  shows "mip_texel_offset m x y + 4 \<le> mp_offset m + aligned cw * aligned ch * 4"
proof -
  let ?p = "aligned cw div 128" and ?q = "aligned ch div 128"
  let ?s = "unat (swizzle (of_nat (x + mp_tailX m)) (of_nat (y + mp_tailY m)))"
  have a: "aligned cw = ?p * 128" "aligned ch = ?q * 128" by (simp_all add: aligned_def)
  have x: "x div 128 < ?p" and y: "y div 128 < ?q" using assms by (simp_all add: div_below_aligned)
  have "?s mod 4 = 0" "?s < 65536" by (rule swizzle_range)+
  hence s: "?s + 4 \<le> 65536" by (cases "?s \<le> 65532") auto
  have "(y div 128) * ?p + x div 128 + 1 \<le> (y div 128 + 1) * ?p" using x by simp
  also have "\<dots> \<le> ?q * ?p" using y by (intro mult_le_mono1) simp
  finally have "((y div 128) * ?p + x div 128 + 1) * 65536 \<le> ?q * ?p * 65536" by (rule mult_le_mono1)
  also have "\<dots> = aligned cw * aligned ch * 4" by (subst (2) a(1), subst (2) a(2)) simp
  finally have le: "((y div 128) * ?p + x div 128 + 1) * 65536 \<le> aligned cw * aligned ch * 4" .
  have "mip_texel_offset m x y = mp_offset m + ((y div 128) * ?p + x div 128) * 65536 + ?s"
    using assms(3) by (simp add: mip_texel_offset_def Let_def)
  thus ?thesis using block_end[OF le s, of "mp_offset m"] by (simp only:)
qed

section \<open>The levels\<close>

definition first_tail :: "nat \<Rightarrow> nat \<Rightarrow> nat \<Rightarrow> nat" where
  "first_tail w h n = (case find (starts_tail w h n) [0..<n] of Some m \<Rightarrow> m | None \<Rightarrow> n)"

lemma find_upt_Some:
  assumes "find P [0..<n] = Some m"
  shows "m < n" "P m" "\<And>k. k < m \<Longrightarrow> \<not> P k"
proof -
  obtain i where i: "i < n" "m = [0..<n] ! i" "P m" "\<forall>j<i. \<not> P ([0..<n] ! j)"
    using assms unfolding find_Some_iff by auto
  hence "m = i" by simp
  thus "m < n" "P m" "\<And>k. k < m \<Longrightarrow> \<not> P k" using i by auto
qed

lemma first_tail_cases:
  obtains (none) "first_tail w h n = n" "\<And>m. m < n \<Longrightarrow> \<not> starts_tail w h n m"
  | (some) "first_tail w h n < n" "starts_tail w h n (first_tail w h n)"
      "\<And>m. m < first_tail w h n \<Longrightarrow> \<not> starts_tail w h n m"
proof (cases "find (starts_tail w h n) [0..<n]")
  case None
  hence "\<And>m. m < n \<Longrightarrow> \<not> starts_tail w h n m" by (auto simp: find_None_iff)
  thus ?thesis using None by (intro none) (auto simp: first_tail_def)
next
  case (Some m)
  from find_upt_Some[OF this] Some show ?thesis by (intro some) (auto simp: first_tail_def)
qed

lemma first_tail_le: "first_tail w h n \<le> n"
  by (cases rule: first_tail_cases[of w h n]) auto

definition level_size :: "nat \<Rightarrow> nat \<Rightarrow> nat \<Rightarrow> nat \<Rightarrow> nat" where
  "level_size w h F m = (if m < F then aligned (ceil_mip w m) * aligned (ceil_mip h m) * 4 else 0)"

definition level_mip :: "nat \<Rightarrow> nat \<Rightarrow> nat \<Rightarrow> nat \<Rightarrow> Mip" where
  "level_mip w h F m = \<lparr>mp_width = max 1 (w div 2 ^ m), mp_height = max 1 (h div 2 ^ m),
     mp_paddedWidth = if m < F then aligned (ceil_mip w m) else 128,
     mp_tailX = if m < F then 0 else fst (mip_tail ! (m - F)),
     mp_tailY = if m < F then 0 else snd (mip_tail ! (m - F)), mp_offset = 0\<rparr>"

lemma layout_level_step:
  assumes "k < n" "F = first_tail w h n"
  shows "layout_level w h n (if F < k then F else n) k =
    (level_mip w h F k, level_size w h F k, if F < Suc k then F else n)"
proof -
  have "(if (if F < k then F else n) = n \<and> starts_tail w h n k then k else (if F < k then F else n)) =
      (if F \<le> k then F else n)"
    using assms(1) unfolding assms(2)
    by (cases rule: first_tail_cases[of w h n]) (auto simp: nat_less_le)
  thus ?thesis
    using assms(1) by (auto simp: layout_level_def Let_def level_mip_def level_size_def)
qed

lemma layout_levels_from:
  assumes "k \<le> n" "F = first_tail w h n"
  shows "layout_levels w h n (if F < k then F else n) [k..<n] =
    (map (level_mip w h F) [k..<n], map (level_size w h F) [k..<n], F)"
  using assms(1)
proof (induction "n - k" arbitrary: k)
  case 0
  thus ?case using first_tail_le[of w h n] assms(2) by (auto simp: nat_less_le)
next
  case (Suc d)
  hence k: "k < n" by simp
  show ?case
    using layout_level_step[OF k assms(2)] Suc.hyps(1)[of "Suc k"] Suc.hyps(2) k
    by (simp add: upt_conv_Cons Let_def)
qed

lemma layout_levels_all:
  assumes "F = first_tail w h n"
  shows "layout_levels w h n n [0..<n] = (map (level_mip w h F) [0..<n], map (level_size w h F) [0..<n], F)"
  using layout_levels_from[of 0 n F w h] assms by simp

lemma assign_offsets_nth:
  assumes "F \<le> length mips" "i < length mips"
  shows "assign_offsets sizes F off mips ! i =
    (if i < F then (mips ! i)\<lparr>mp_offset := off + (\<Sum>k\<in>{Suc i..<F}. sizes ! k)\<rparr> else mips ! i)"
  using assms
proof (induction F arbitrary: off mips)
  case (Suc F)
  show ?case
  proof (cases "i < F")
    case True
    hence "{Suc i..<Suc F} = insert F {Suc i..<F}" by auto
    thus ?thesis using Suc True by simp
  next
    case False
    thus ?thesis using Suc by (cases "i = F") auto
  qed
qed simp

definition level_offset :: "nat \<Rightarrow> nat \<Rightarrow> nat \<Rightarrow> nat \<Rightarrow> nat \<Rightarrow> nat" where
  "level_offset w h n F m =
     (if m < F then (if F < n then 65536 else 0) + (\<Sum>k\<in>{Suc m..<F}. level_size w h F k) else 0)"

text \<open>What the constructor builds.\<close>
lemma TextureLayout_new_cases:
  assumes "TextureLayout_new w h n = Inr lay"
  obtains F where "F = first_tail w h n" "F \<le> n" "n \<le> 15" "0 < n" "tx_count lay = n"
    "tx_bytes lay = (\<Sum>k<F. level_size w h F k) + (if F < n then 65536 else 0)"
    "length (tx_mips lay) = n"
    "\<And>m. m < n \<Longrightarrow> tx_mips lay ! m = (level_mip w h F m)\<lparr>mp_offset := level_offset w h n F m\<rparr>"
    "tx_linearBytes lay = linear_bytes (tx_mips lay)"
proof (rule that[OF refl first_tail_le])
  let ?F = "first_tail w h n"
  let ?mips = "assign_offsets (map (level_size w h ?F) [0..<n]) ?F (if ?F < n then 65536 else 0)
      (map (level_mip w h ?F) [0..<n])"
  have b: "w \<noteq> 0" "h \<noteq> 0" "n \<le> 15" "0 < n" and
    l: "lay = \<lparr>tx_width = w, tx_height = h, tx_count = n,
        tx_bytes = sum_list (map (level_size w h ?F) [0..<n]) + (if ?F < n then 65536 else 0),
        tx_linearBytes = linear_bytes (map (level_mip w h ?F) [0..<n]), tx_mips = ?mips\<rparr>"
    using assms unfolding TextureLayout_new_def layout_levels_all[OF refl]
    by (auto split: if_splits)
  show "n \<le> 15" "0 < n" "tx_count lay = n" using b l by simp_all
  have len: "length (assign_offsets sz F off ms) = length ms" for sz F off ms
    by (induction F arbitrary: off ms) simp_all
  show "length (tx_mips lay) = n" by (simp add: l len)
  have "sum_list (map (level_size w h ?F) [0..<n]) = (\<Sum>k\<in>{0..<n}. level_size w h ?F k)"
    by (simp add: sum_list_sum_nth atLeast0LessThan interv_sum_list_conv_sum_set_nat)
  also have "\<dots> = (\<Sum>k<?F. level_size w h ?F k)"
    using first_tail_le[of w h n]
    by (intro sum.mono_neutral_right) (auto simp: level_size_def atLeast0LessThan)
  finally show "tx_bytes lay = (\<Sum>k<?F. level_size w h ?F k) + (if ?F < n then 65536 else 0)"
    by (simp add: l)
  have nth: "tx_mips lay ! m = (level_mip w h ?F m)\<lparr>mp_offset := level_offset w h n ?F m\<rparr>" if "m < n" for m
  proof -
    have "(\<Sum>k\<in>{Suc m..<?F}. map (level_size w h ?F) [0..<n] ! k) = (\<Sum>k\<in>{Suc m..<?F}. level_size w h ?F k)"
      using first_tail_le[of w h n] by (intro sum.cong) auto
    thus ?thesis
      using that first_tail_le[of w h n]
      by (simp add: l assign_offsets_nth level_offset_def) (simp add: level_mip_def)
  qed
  thus "\<And>m. m < n \<Longrightarrow> tx_mips lay ! m = (level_mip w h ?F m)\<lparr>mp_offset := level_offset w h n ?F m\<rparr>" .
  have "map (\<lambda>r. mp_width r * mp_height r * 4) (tx_mips lay) =
      map (\<lambda>r. mp_width r * mp_height r * 4) (map (level_mip w h ?F) [0..<n])"
    by (rule nth_equalityI) (use \<open>length (tx_mips lay) = n\<close> nth in \<open>auto simp: level_mip_def\<close>)
  thus "tx_linearBytes lay = linear_bytes (tx_mips lay)" by (simp add: l linear_bytes_def)
qed

section \<open>Texels of a level before the tail\<close>

lemma mip_le_ceil: "max 1 (w div 2 ^ m) \<le> ceil_mip w m"
proof -
  have "w div 2 ^ m \<le> (w + (2 ^ m - 1)) div 2 ^ m" by (intro div_le_mono le_add1)
  thus ?thesis unfolding ceil_mip_def by (rule max.mono[OF order_refl])
qed

lemma level_order:
  assumes "i < j" "j < F"
  shows "level_offset w h n F j + level_size w h F j \<le> level_offset w h n F i"
proof -
  have "(\<Sum>k\<in>{j..<F}. level_size w h F k) \<le> (\<Sum>k\<in>{Suc i..<F}. level_size w h F k)"
    using assms by (intro sum_mono2) auto
  moreover have "{j..<F} = insert j {Suc j..<F}" using assms by auto
  ultimately show ?thesis using assms by (simp add: level_offset_def)
qed

lemma level_end:
  assumes "i < F"
  shows "level_offset w h n F i + level_size w h F i \<le> (\<Sum>k<F. level_size w h F k) + (if F < n then 65536 else 0)"
proof -
  have "(\<Sum>k\<in>{i..<F}. level_size w h F k) \<le> (\<Sum>k<F. level_size w h F k)"
    by (intro sum_mono2) auto
  moreover have "{i..<F} = insert i {Suc i..<F}" using assms by auto
  ultimately show ?thesis using assms by (simp add: level_offset_def)
qed

lemma mod4_offset: "s mod 4 = 0 \<Longrightarrow> (off + b * 65536 + s) mod 4 = off mod (4::nat)" by presburger

lemma plain_texel:
  assumes "m = (level_mip w h F l)\<lparr>mp_offset := off\<rparr>" "l < F" "x < mp_width m" "y < mp_height m"
  shows "off \<le> mip_texel_offset m x y" "mip_texel_offset m x y + 4 \<le> off + level_size w h F l"
    "mip_texel_offset m x y mod 4 = off mod 4"
    "mp_tailX m = 0" "mp_tailY m = 0" "x div 128 < mp_paddedWidth m div 128"
proof -
  have f: "mp_tailX m = 0" "mp_tailY m = 0" "mp_offset m = off" "mp_paddedWidth m = aligned (ceil_mip w l)"
    "level_size w h F l = aligned (ceil_mip w l) * aligned (ceil_mip h l) * 4"
    using assms(1,2) by (simp_all add: level_mip_def level_size_def)
  have xy: "x < ceil_mip w l" "y < ceil_mip h l"
    using assms by (auto simp: level_mip_def simp del: max_less_iff_conj less_max_iff_disj intro: less_le_trans[OF _ mip_le_ceil])
  show "off \<le> mip_texel_offset m x y" by (simp add: mip_texel_offset_def f Let_def)
  show "mip_texel_offset m x y + 4 \<le> off + level_size w h F l"
    using block_below[OF xy f(4)] f by simp
  have "unat (swizzle (of_nat (x + mp_tailX m)) (of_nat (y + mp_tailY m))) mod 4 = 0" by (rule swizzle_range)
  thus "mip_texel_offset m x y mod 4 = off mod 4"
    unfolding mip_texel_offset_def Let_def f(3) by (rule mod4_offset)
  show "mp_tailX m = 0" "mp_tailY m = 0" by (rule f)+
  show "x div 128 < mp_paddedWidth m div 128" using div_below_aligned[OF xy(1)] f(4) by simp
qed

section \<open>Texels of the tail\<close>

definition tail_w :: "nat \<Rightarrow> nat" where "tail_w j = max 1 (64 div 2 ^ j)"
definition tail_h :: "nat \<Rightarrow> nat" where "tail_h j = max 1 (128 div 2 ^ j)"

definition tail_apart :: "nat \<Rightarrow> nat \<Rightarrow> bool" where
  "tail_apart i j \<longleftrightarrow>
     fst (mip_tail ! i) + tail_w i \<le> fst (mip_tail ! j) \<or> fst (mip_tail ! j) + tail_w j \<le> fst (mip_tail ! i) \<or>
     snd (mip_tail ! i) + tail_h i \<le> snd (mip_tail ! j) \<or> snd (mip_tail ! j) + tail_h j \<le> snd (mip_tail ! i)"

lemma tail_table:
  "list_all (\<lambda>i. fst (mip_tail ! i) + tail_w i \<le> 128 \<and> snd (mip_tail ! i) + tail_h i \<le> 128) [0..<12]"
  "list_all (\<lambda>i. list_all (\<lambda>j. i = j \<or> tail_apart i j) [0..<12]) [0..<12]"
  by code_simp+

lemma mip_shrinks: "ceil_mip w F \<le> k \<Longrightarrow> F \<le> l \<Longrightarrow> max 1 (w div 2 ^ l) \<le> max 1 (k div 2 ^ (l - F))"
proof -
  assume "ceil_mip w F \<le> k" and F: "F \<le> l"
  hence "w div 2 ^ F \<le> k" using mip_le_ceil[of w F] by simp
  hence "w div 2 ^ F div 2 ^ (l - F) \<le> k div 2 ^ (l - F)" by (rule div_le_mono)
  moreover have "w div 2 ^ l = w div 2 ^ F div 2 ^ (l - F)"
    using F by (simp add: div_mult2_eq[symmetric] power_add[symmetric])
  ultimately show ?thesis by simp
qed

lemma tail_texel:
  assumes "m = (level_mip w h F l)\<lparr>mp_offset := 0\<rparr>" "F \<le> l" "l < n" "starts_tail w h n F"
    and "x < mp_width m" "y < mp_height m"
  shows "mip_texel_offset m x y = unat (swizzle (of_nat (x + mp_tailX m)) (of_nat (y + mp_tailY m)))"
    "x < tail_w (l - F)" "y < tail_h (l - F)" "l - F < 12"
    "x + mp_tailX m < 128" "y + mp_tailY m < 128"
    "mp_tailX m = fst (mip_tail ! (l - F))" "mp_tailY m = snd (mip_tail ! (l - F))"
proof -
  have f: "mp_tailX m = fst (mip_tail ! (l - F))" "mp_tailY m = snd (mip_tail ! (l - F))"
    "mp_offset m = 0" "mp_paddedWidth m = 128" using assms(1,2) by (simp_all add: level_mip_def)
  have st: "ceil_mip w F \<le> 64" "ceil_mip h F \<le> 128" "n - F \<le> 12" using assms(4) by (auto simp: starts_tail_def)
  show j: "l - F < 12" using st(3) assms(2,3) by simp
  show x: "x < tail_w (l - F)" and y: "y < tail_h (l - F)"
    using mip_shrinks[OF st(1) assms(2)] mip_shrinks[OF st(2) assms(2)] assms(1,5,6)
    by (simp_all add: level_mip_def tail_w_def tail_h_def)
  have "l - F \<in> set [0..<12]" using j by simp
  with tail_table(1) have "fst (mip_tail ! (l - F)) + tail_w (l - F) \<le> 128 \<and>
      snd (mip_tail ! (l - F)) + tail_h (l - F) \<le> 128"
    unfolding list_all_iff by blast
  thus xy: "x + mp_tailX m < 128" "y + mp_tailY m < 128" using x y f by simp_all
  hence "x div 128 = 0" "y div 128 = 0" by simp_all
  thus "mip_texel_offset m x y = unat (swizzle (of_nat (x + mp_tailX m)) (of_nat (y + mp_tailY m)))"
    by (simp add: mip_texel_offset_def Let_def f)
qed (use assms(1,2) in \<open>simp_all add: level_mip_def\<close>)

end
