(* ===== verification/TextureTile.thy ===== *)
theory TextureTile
  imports TextureLayoutLemmas
begin

text \<open>
  The texels of a layout have disjoint places inside the storage, so \<open>tile\<close> copies every texel of
  the source to where \<open>pixelOffset\<close> looks for it.
\<close>

section \<open>Where a texel lies\<close>

lemma pixel_offset_cases:
  assumes "TextureLayout_new w h n = Inr lay" "pixel_offset lay x y l = Inr a"
  obtains F where "F = first_tail w h n" "l < n" "tx_mips lay ! l = (level_mip w h F l)\<lparr>mp_offset := level_offset w h n F l\<rparr>"
    "x < mp_width (tx_mips lay ! l)" "y < mp_height (tx_mips lay ! l)" "a = mip_texel_offset (tx_mips lay ! l) x y"
    "tx_bytes lay = (\<Sum>k<F. level_size w h F k) + (if F < n then 65536 else 0)"
  using assms(2)
  by (rule_tac TextureLayout_new_cases[OF assms(1)])
     (auto simp: pixel_offset_def tx_mip_def split: if_splits)

lemma level_offset_mod4: "level_offset w h n F l mod 4 = 0"
proof -
  have "(\<Sum>k\<in>S. level_size w h F k) mod 4 = 0" for S
    by (subst mod_sum_eq[symmetric]) (simp add: level_size_def)
  thus ?thesis unfolding level_offset_def by (simp add: mod_add_eq[symmetric, of 65536])
qed

lemma tail_starts: "F = first_tail w h n \<Longrightarrow> F \<le> l \<Longrightarrow> l < n \<Longrightarrow> starts_tail w h n F"
  by (cases rule: first_tail_cases[of w h n]) auto

lemma texel_place:
  assumes "TextureLayout_new w h n = Inr lay" "pixel_offset lay x y l = Inr a" "F = first_tail w h n"
  shows "l < F \<Longrightarrow> level_offset w h n F l \<le> a \<and> a + 4 \<le> level_offset w h n F l + level_size w h F l"
    "F \<le> l \<Longrightarrow> a + 4 \<le> 65536 \<and> F < n" "a mod 4 = 0" "a + 4 \<le> tx_bytes lay"
proof -
  from pixel_offset_cases[OF assms(1,2)] obtain F' where
    k: "F' = F" "l < n" "tx_mips lay ! l = (level_mip w h F l)\<lparr>mp_offset := level_offset w h n F l\<rparr>"
      "x < mp_width (tx_mips lay ! l)" "y < mp_height (tx_mips lay ! l)" "a = mip_texel_offset (tx_mips lay ! l) x y"
      "tx_bytes lay = (\<Sum>k<F. level_size w h F k) + (if F < n then 65536 else 0)"
    using assms(3) by metis
  show p: "level_offset w h n F l \<le> a \<and> a + 4 \<le> level_offset w h n F l + level_size w h F l" if "l < F"
    using plain_texel[OF k(3) that k(4,5)] k(6) by simp
  have t: "a + 4 \<le> 65536 \<and> F < n \<and> a mod 4 = 0" if "F \<le> l"
  proof -
    have off: "level_offset w h n F l = 0" using that by (simp add: level_offset_def)
    let ?s = "unat (swizzle (of_nat (x + mp_tailX (tx_mips lay ! l))) (of_nat (y + mp_tailY (tx_mips lay ! l))))"
    have "a = ?s" using tail_texel(1)[OF k(3)[unfolded off] that k(2) tail_starts[OF assms(3) that k(2)] k(4,5)] k(6) by simp
    moreover have "?s < 65536" "?s mod 4 = 0" by (rule swizzle_range)+
    ultimately show ?thesis using that k(2) by presburger
  qed
  show "a + 4 \<le> 65536 \<and> F < n" if "F \<le> l" using t[OF that] by simp
  show "a mod 4 = 0"
    using t plain_texel(3)[OF k(3) _ k(4,5)] level_offset_mod4 k(6) by (cases "l < F") auto
  show "a + 4 \<le> tx_bytes lay"
    using p level_end[of l F w h n] t k(7) by (cases "l < F") auto
qed

lemma texels_differ:
  assumes "TextureLayout_new w h n = Inr lay" "pixel_offset lay x y l = Inr a" "pixel_offset lay x' y' l = Inr a"
  shows "x = x' \<and> y = y'"
proof -
  from pixel_offset_cases[OF assms(1,2)] obtain F where
    k: "F = first_tail w h n" "l < n" "tx_mips lay ! l = (level_mip w h F l)\<lparr>mp_offset := level_offset w h n F l\<rparr>"
      "x < mp_width (tx_mips lay ! l)" "y < mp_height (tx_mips lay ! l)" "a = mip_texel_offset (tx_mips lay ! l) x y"
    by metis
  have k': "x' < mp_width (tx_mips lay ! l)" "y' < mp_height (tx_mips lay ! l)" "a = mip_texel_offset (tx_mips lay ! l) x' y'"
    using pixel_offset_cases[OF assms(1,3)] by metis+
  show ?thesis
  proof (cases "l < F")
    case True
    note p = plain_texel[OF k(3) True k(4,5)] and p' = plain_texel[OF k(3) True k'(1,2)]
    show ?thesis
      by (rule block_inj[OF _ refl refl p(4,5) p(4,5) p(6) p'(6)]) (use k(6) k'(3) in simp)
  next
    case False
    hence F: "F \<le> l" and off: "level_offset w h n F l = 0" by (simp_all add: level_offset_def)
    note st = tail_starts[OF k(1) F k(2)]
    note p = tail_texel[OF k(3)[unfolded off] F k(2) st k(4,5)]
    note p' = tail_texel[OF k(3)[unfolded off] F k(2) st k'(1,2)]
    from p(1) p'(1) k(6) k'(3)
    have "swizzle (of_nat (x + mp_tailX (tx_mips lay ! l))) (of_nat (y + mp_tailY (tx_mips lay ! l))) =
       swizzle (of_nat (x' + mp_tailX (tx_mips lay ! l))) (of_nat (y' + mp_tailY (tx_mips lay ! l)))"
      by (simp only: word_unat_eq_iff)
    from swizzle_nat_inj[OF this] show ?thesis using p(5,6) p'(5,6) by simp
  qed
qed

lemma tail_levels_differ:
  assumes "TextureLayout_new w h n = Inr lay" "pixel_offset lay x y l = Inr a" "pixel_offset lay x' y' l' = Inr a"
    "first_tail w h n \<le> l" "first_tail w h n \<le> l'"
  shows "l = l'"
proof (rule ccontr)
  assume ne: "l \<noteq> l'"
  let ?F = "first_tail w h n" and ?m = "tx_mips lay ! l" and ?m' = "tx_mips lay ! l'"
  have off: "level_offset w h n ?F l = 0" "level_offset w h n ?F l' = 0" using assms(4,5) by (simp_all add: level_offset_def)
  from pixel_offset_cases[OF assms(1,2)] off have k: "l < n" "?m = (level_mip w h ?F l)\<lparr>mp_offset := 0\<rparr>"
     "x < mp_width ?m" "y < mp_height ?m" "a = mip_texel_offset ?m x y" by metis+
  from pixel_offset_cases[OF assms(1,3)] off have k': "l' < n" "?m' = (level_mip w h ?F l')\<lparr>mp_offset := 0\<rparr>"
     "x' < mp_width ?m'" "y' < mp_height ?m'" "a = mip_texel_offset ?m' x' y'" by metis+
  note p = tail_texel[OF k(2) assms(4) k(1) tail_starts[OF refl assms(4) k(1)] k(3,4)]
  note p' = tail_texel[OF k'(2) assms(5) k'(1) tail_starts[OF refl assms(5) k'(1)] k'(3,4)]
  from p(1) p'(1) k(5) k'(5)
  have "swizzle (of_nat (x + mp_tailX ?m)) (of_nat (y + mp_tailY ?m)) =
     swizzle (of_nat (x' + mp_tailX ?m')) (of_nat (y' + mp_tailY ?m'))"
    by (simp only: word_unat_eq_iff)
  from swizzle_nat_inj[OF this] have e: "x + mp_tailX ?m = x' + mp_tailX ?m'" "y + mp_tailY ?m = y' + mp_tailY ?m'"
    using p(5,6) p'(5,6) by simp_all
  have "l - ?F \<in> set [0..<12]" "l' - ?F \<in> set [0..<12]" "l - ?F \<noteq> l' - ?F"
    using p(4) p'(4) ne assms(4,5) by auto
  with tail_table(2) have "tail_apart (l - ?F) (l' - ?F)" unfolding list_all_iff by blast
  thus False using e p(2,3) p'(2,3) unfolding tail_apart_def p(7,8) p'(7,8) by linarith
qed

lemma texel_injective:
  assumes "TextureLayout_new w h n = Inr lay" "pixel_offset lay x y l = Inr a" "pixel_offset lay x' y' l' = Inr a"
  shows "l = l' \<and> x = x' \<and> y = y'"
proof -
  let ?F = "first_tail w h n" and ?o = "level_offset w h n (first_tail w h n)" and ?s = "level_size w h (first_tail w h n)"
  note p = texel_place[OF assms(1,2) refl] and p' = texel_place[OF assms(1,3) refl]
  have base: "65536 \<le> ?o i" if "i < ?F" "?F < n" for i using that by (simp add: level_offset_def)
  have "l = l'"
  proof (rule ccontr)
    assume ne: "l \<noteq> l'"
    consider "l < ?F" "l' < ?F" | "l < ?F" "?F \<le> l'" | "?F \<le> l" "l' < ?F" | "?F \<le> l" "?F \<le> l'" by linarith
    thus False
    proof cases
      case 1
      thus ?thesis using p(1) p'(1) level_order[of l l' ?F w h n] level_order[of l' l ?F w h n] ne by linarith
    next
      case 2 thus ?thesis using p(1) p'(2) base[of l] by linarith
    next
      case 3 thus ?thesis using p(2) p'(1) base[of l'] by linarith
    next
      case 4 thus ?thesis using tail_levels_differ[OF assms] ne by simp
    qed
  qed
  thus ?thesis using texels_differ[OF assms(1)] assms(2,3) by simp
qed

lemma mod4_apart: "a mod 4 = 0 \<Longrightarrow> b mod 4 = 0 \<Longrightarrow> a \<noteq> (b :: nat) \<Longrightarrow> a + 4 \<le> b \<or> b + 4 \<le> a" by presburger

lemma texels_apart:
  assumes "TextureLayout_new w h n = Inr lay" "pixel_offset lay x y l = Inr a" "pixel_offset lay x' y' l' = Inr b"
    "(l, x, y) \<noteq> (l', x', y')"
  shows "a + 4 \<le> b \<or> b + 4 \<le> a"
  by (rule mod4_apart[OF texel_place(3)[OF assms(1,2) refl] texel_place(3)[OF assms(1,3) refl]])
     (use texel_injective[OF assms(1,2)] assms(3,4) in auto)


section \<open>Copying the texels\<close>

definition texel_ok :: "TextureLayout \<Rightarrow> nat \<times> nat \<times> nat \<Rightarrow> bool" where
  "texel_ok lay t \<longleftrightarrow> (case t of (l, x, y) \<Rightarrow> l < tx_count lay \<and> x < mp_width (tx_mips lay ! l) \<and> y < mp_height (tx_mips lay ! l))"

definition texel_at :: "TextureLayout \<Rightarrow> nat \<times> nat \<times> nat \<Rightarrow> nat" where
  "texel_at lay t = (case t of (l, x, y) \<Rightarrow> mip_texel_offset (tx_mips lay ! l) x y)"

lemma texel_ok_offset: "texel_ok lay (l, x, y) \<Longrightarrow> pixel_offset lay x y l = Inr (texel_at lay (l, x, y))"
  by (simp add: texel_ok_def texel_at_def pixel_offset_def tx_mip_def)

lemma store4_nth:
  assumes "off + 4 \<le> length st" "4 \<le> length bs"
  obtains st' where "store4 off bs st = Some st'" "length st' = length st"
    "\<And>k. k < 4 \<Longrightarrow> st' ! (off + k) = bs ! k"
    "\<And>k. k < length st \<Longrightarrow> k < off \<or> off + 4 \<le> k \<Longrightarrow> st' ! k = st ! k"
  by (rule that[of "take off st @ take 4 bs @ drop (off + 4) st"])
     (use assms in \<open>auto simp: store4_def nth_append\<close>)

lemma tile_texels_copies:
  assumes "TextureLayout_new w h n = Inr lay" "list_all (texel_ok lay) ts" "distinct ts"
    "src + 4 * length ts = length pixels" "tx_bytes lay \<le> length st"
  shows "\<exists>st'. tile_texels lay pixels ts src st = Some (Inr st') \<and> length st' = length st \<and>
    (\<forall>i<length ts. \<forall>k<4. st' ! (texel_at lay (ts ! i) + k) = pixels ! (src + 4 * i + k)) \<and>
    (\<forall>k<length st. (\<forall>t\<in>set ts. k < texel_at lay t \<or> texel_at lay t + 4 \<le> k) \<longrightarrow> st' ! k = st ! k)"
  using assms(2-)
proof (induction ts arbitrary: src st)
  case (Cons t ts)
  obtain l x y where t: "t = (l, x, y)" by (cases t)
  let ?a = "texel_at lay t"
  have a: "pixel_offset lay x y l = Inr ?a" using Cons.prems(1) texel_ok_offset t by simp
  note pl = texel_place[OF assms(1) a refl]
  obtain st1 where s1: "store4 ?a (drop src pixels) st = Some st1" "length st1 = length st"
    "\<And>k. k < 4 \<Longrightarrow> st1 ! (?a + k) = drop src pixels ! k"
    "\<And>k. k < length st \<Longrightarrow> k < ?a \<or> ?a + 4 \<le> k \<Longrightarrow> st1 ! k = st ! k"
  proof (rule store4_nth)
    show "?a + 4 \<le> length st" using pl(4) Cons.prems(4) by simp
    show "4 \<le> length (drop src pixels)" using Cons.prems(3) by simp
  qed blast
  obtain st' where r: "tile_texels lay pixels ts (src + 4) st1 = Some (Inr st')" "length st' = length st1"
    "\<forall>i<length ts. \<forall>k<4. st' ! (texel_at lay (ts ! i) + k) = pixels ! (src + 4 + 4 * i + k)"
    "\<forall>k<length st1. (\<forall>t\<in>set ts. k < texel_at lay t \<or> texel_at lay t + 4 \<le> k) \<longrightarrow> st' ! k = st1 ! k"
    using Cons.IH[of "src + 4" st1] Cons.prems s1(2) by auto
  have apart: "?a + 4 \<le> texel_at lay u \<or> texel_at lay u + 4 \<le> ?a" if "u \<in> set ts" for u
  proof -
    obtain l' x' y' where u: "u = (l', x', y')" by (cases u)
    have "texel_ok lay u" using Cons.prems(1) that by (auto simp: list_all_iff)
    hence "pixel_offset lay x' y' l' = Inr (texel_at lay u)" using texel_ok_offset u by simp
    moreover have "(l, x, y) \<noteq> (l', x', y')" using Cons.prems(2) that t u by auto
    ultimately show ?thesis using texels_apart[OF assms(1) a] by blast
  qed
  have keep: "st' ! (?a + k) = pixels ! (src + k)" if "k < 4" for k
  proof -
    have "\<forall>u\<in>set ts. ?a + k < texel_at lay u \<or> texel_at lay u + 4 \<le> ?a + k" using apart that by fastforce
    moreover have "?a + k < length st1" using that pl(4) Cons.prems(4) s1(2) by simp
    ultimately have "st' ! (?a + k) = st1 ! (?a + k)" using r(4) by blast
    thus ?thesis using s1(3)[OF that] Cons.prems(3) by simp
  qed
  have "\<forall>i<length (t # ts). \<forall>k<4. st' ! (texel_at lay ((t # ts) ! i) + k) = pixels ! (src + 4 * i + k)"
  proof (intro allI impI)
    fix i k assume "i < length (t # ts)" "k < (4 :: nat)"
    thus "st' ! (texel_at lay ((t # ts) ! i) + k) = pixels ! (src + 4 * i + k)"
      using keep r(3) by (cases i) (auto simp: add.assoc)
  qed
  moreover have "tile_texels lay pixels (t # ts) src st = Some (Inr st')"
    using a s1(1) r(1) Cons.prems(3) t by simp
  moreover have "\<forall>k<length st. (\<forall>u\<in>set (t # ts). k < texel_at lay u \<or> texel_at lay u + 4 \<le> k) \<longrightarrow> st' ! k = st ! k"
    using r(4) s1(2,4) by simp
  ultimately show ?case using r(2) s1(2) by auto
qed simp

lemma mip_texels_set: "set (mip_texels m) = {(x, y). x < mp_width m \<and> y < mp_height m}"
  by (auto simp: mip_texels_def)

lemma mip_texels_length: "length (mip_texels m) = mp_width m * mp_height m"
  by (simp add: mip_texels_def length_concat o_def sum_list_triv)

lemma distinct_concat_tagged:
  assumes "distinct ks" "\<And>k. k \<in> set ks \<Longrightarrow> distinct (f k)" "\<And>k v. k \<in> set ks \<Longrightarrow> v \<in> set (f k) \<Longrightarrow> g v = k"
  shows "distinct (concat (map f ks))"
  using assms
proof (induction ks)
  case (Cons k ks)
  have "set (f k) \<inter> (\<Union>j\<in>set ks. set (f j)) = {}" using Cons.prems(1) Cons.prems(3)
    by (auto simp: disjoint_iff)
  thus ?case using Cons by auto
qed simp

lemma mip_texels_distinct: "distinct (mip_texels m)"
  unfolding mip_texels_def
  by (rule distinct_concat_tagged[where g = snd]) (auto simp: distinct_map inj_on_def)

lemma layout_texels_distinct: "distinct (layout_texels lay)"
  unfolding layout_texels_def
  by (rule distinct_concat_tagged[where g = fst])
     (auto simp: distinct_map inj_on_def mip_texels_distinct)

lemma layout_texels_ok: "list_all (texel_ok lay) (layout_texels lay)"
  by (auto simp: list_all_iff layout_texels_def texel_ok_def mip_texels_set)

lemma layout_texels_length:
  assumes "length (tx_mips lay) = tx_count lay" "tx_linearBytes lay = linear_bytes (tx_mips lay)"
  shows "4 * length (layout_texels lay) = tx_linearBytes lay"
proof -
  have "4 * length (layout_texels lay) = (\<Sum>l\<leftarrow>[0..<tx_count lay]. mp_width (tx_mips lay ! l) * mp_height (tx_mips lay ! l) * 4)"
    by (simp add: layout_texels_def length_concat o_def mip_texels_length sum_list_const_mult[symmetric] ac_simps)
  also have "\<dots> = (\<Sum>r\<leftarrow>map (\<lambda>l. tx_mips lay ! l) [0..<tx_count lay]. mp_width r * mp_height r * 4)"
    by (simp add: o_def)
  also have "map (\<lambda>l. tx_mips lay ! l) [0..<tx_count lay] = tx_mips lay"
    using assms(1) map_nth[of "tx_mips lay"] by simp
  finally show ?thesis using assms(2) by (simp add: linear_bytes_def)
qed

lemma tile_copies:
  assumes "TextureLayout_new w h n = Inr lay" "tx_bytes lay \<le> length storage" "length pixels = tx_linearBytes lay"
    "\<not> buffers_overlap lay dst src"
  shows "\<exists>st'. tile lay dst storage src pixels = Some (Inr st') \<and> length st' = length storage \<and>
    drop (tx_bytes lay) st' = drop (tx_bytes lay) storage \<and>
    (\<forall>i<length (layout_texels lay). \<forall>k<4.
       st' ! (texel_at lay (layout_texels lay ! i) + k) = pixels ! (4 * i + k))"
proof -
  let ?z = "replicate (tx_bytes lay) 0 @ drop (tx_bytes lay) storage"
  have len: "length ?z = length storage" using assms(2) by simp
  have l: "0 + 4 * length (layout_texels lay) = length pixels"
    using layout_texels_length TextureLayout_new_cases[OF assms(1)] assms(3) by (metis add_0)
  obtain st' where s: "tile_texels lay pixels (layout_texels lay) 0 ?z = Some (Inr st')" "length st' = length ?z"
    "\<forall>i<length (layout_texels lay). \<forall>k<4. st' ! (texel_at lay (layout_texels lay ! i) + k) = pixels ! (0 + 4 * i + k)"
    "\<forall>k<length ?z. (\<forall>t\<in>set (layout_texels lay). k < texel_at lay t \<or> texel_at lay t + 4 \<le> k) \<longrightarrow> st' ! k = ?z ! k"
    using tile_texels_copies[OF assms(1) layout_texels_ok layout_texels_distinct l] len assms(2) by metis
  have "texel_at lay t + 4 \<le> tx_bytes lay" if "t \<in> set (layout_texels lay)" for t
  proof -
    have "texel_ok lay t" using layout_texels_ok that by (auto simp: list_all_iff)
    thus ?thesis using texel_place(4)[OF assms(1) texel_ok_offset refl] by (cases t) simp
  qed
  hence "st' ! k = ?z ! k" if "tx_bytes lay \<le> k" "k < length ?z" for k
    using s(4) that by (meson le_trans)
  hence "drop (tx_bytes lay) st' = drop (tx_bytes lay) storage"
    using s(2) len by (intro nth_equalityI) (auto simp: nth_append)
  thus ?thesis using s(1-3) len assms(2-4) by (auto simp: tile_def)
qed

end
