(* ===== verification/GxTextureCache.thy ===== *)
theory GxTextureCache
  imports TextureTile TextureObject
begin

text \<open>
  ps5/gpu/gx_texture_cache.cpp: the cache of converted textures, keyed by the digest of the source
  bytes, with its byte budget, its least-recently-used eviction and the memo of digests; and the
  write-tracking wrappers of lib/hash.hpp.

  What the code calls outside the repository is the record \<open>texture_env\<close>: the xxHash digest, the
  guest-write hook, the size computation of the GX library, the texture converters and the GPU
  upload, which may fail.  \<open>unordered_map\<close> is an association list; its iteration order, which only
  decides between entries of equal age, is that of the list.
\<close>

record ConvertedTexture =
  cv_rgba8 :: bool
  cv_width :: nat
  cv_height :: nat
  cv_mips :: nat
  cv_data :: "u8 list"
  cv_arbitrary :: bool

record texture_env =
  xxh3_hash_s :: "u8 list \<Rightarrow> u64"
  kGuestWriteUntracked :: u64
  generation_hook :: "(u64 \<Rightarrow> nat \<Rightarrow> u64) option"
  tex_buffer_size :: "u16 \<Rightarrow> u16 \<Rightarrow> u32 \<Rightarrow> bool \<Rightarrow> u8 \<Rightarrow> nat"
  convert_texture :: "u32 \<Rightarrow> u32 \<Rightarrow> u32 \<Rightarrow> nat \<Rightarrow> u8 list \<Rightarrow> string + ConvertedTexture"
  convert_texture_palette :: "u32 \<Rightarrow> u32 \<Rightarrow> u32 \<Rightarrow> nat \<Rightarrow> u8 list \<Rightarrow> u32 \<Rightarrow> u16 \<Rightarrow> u8 list \<Rightarrow> string + ConvertedTexture"
  gpu_upload_fails :: "TextureLayout \<Rightarrow> u8 list \<Rightarrow> string option"

text \<open>An uploaded texture is immutable, so a handle to it is its contents.\<close>
record GxTexture =
  gt_layout :: TextureLayout
  gt_rgba :: "u8 list"
  gt_arbitrary :: bool

record DigestMemo =
  dm_size :: nat
  dm_digest :: u64
  dm_generation :: u64

record Entry =
  en_texture :: GxTexture
  en_stamp :: u64

type_synonym Key = "u64 list"

record GxTextureCache =
  tc_entries :: "(Key \<times> Entry) list"
  tc_budget :: nat
  tc_used :: nat
  tc_clock :: u64
  tc_uploads :: u64
  tc_hits :: u64
  tc_memo :: "(u64 \<times> DigestMemo) list"
  tc_digests :: u64
  tc_digestSkips :: u64

definition GxTextureCache_new :: "nat \<Rightarrow> GxTextureCache" where
  "GxTextureCache_new byteBudget = \<lparr>tc_entries = [], tc_budget = byteBudget, tc_used = 0, tc_clock = 0,
     tc_uploads = 0, tc_hits = 0, tc_memo = [], tc_digests = 0, tc_digestSkips = 0\<rparr>"

section \<open>Digests\<close>

definition guest_write_generation :: "texture_env \<Rightarrow> u64 \<Rightarrow> nat \<Rightarrow> u64" where
  "guest_write_generation e data sz =
     (case generation_hook e of None \<Rightarrow> kGuestWriteUntracked e
      | Some hook \<Rightarrow> if data = 0 \<or> sz = 0 then kGuestWriteUntracked e else hook data sz)"

definition guest_write_generation_matches :: "texture_env \<Rightarrow> u64 \<Rightarrow> u64 \<Rightarrow> bool" where
  "guest_write_generation_matches e stored current \<longleftrightarrow> current \<noteq> kGuestWriteUntracked e \<and> stored = current"

definition kDigestMemoSoftLimit :: nat where "kDigestMemoSoftLimit = 4096"

definition memo_put :: "u64 \<Rightarrow> DigestMemo \<Rightarrow> (u64 \<times> DigestMemo) list \<Rightarrow> (u64 \<times> DigestMemo) list" where
  "memo_put a m memo = (a, m) # filter (\<lambda>p. fst p \<noteq> a) memo"

definition source_digest ::
  "texture_env \<Rightarrow> u64 \<Rightarrow> u8 list \<Rightarrow> bool \<Rightarrow> GxTextureCache \<Rightarrow> u64 \<times> GxTextureCache" where
  "source_digest e data bytes memoize c =
     (let generation = (if memoize then guest_write_generation e data (length bytes) else kGuestWriteUntracked e)
      in if generation = kGuestWriteUntracked e \<or> bytes = [] then
           (xxh3_hash_s e bytes, c\<lparr>tc_digests := tc_digests c + 1\<rparr>)
         else
           (let memo = (if length (tc_memo c) \<ge> kDigestMemoSoftLimit \<and> map_of (tc_memo c) data = None then []
                        else tc_memo c);
                m = (case map_of memo data of Some m \<Rightarrow> m
                     | None \<Rightarrow> \<lparr>dm_size = 0, dm_digest = 0, dm_generation = 0\<rparr>)
            in if dm_size m = length bytes \<and> guest_write_generation_matches e (dm_generation m) generation then
                 (dm_digest m, c\<lparr>tc_memo := memo_put data m memo, tc_digestSkips := tc_digestSkips c + 1\<rparr>)
               else
                 (let d = xxh3_hash_s e bytes
                  in (d, c\<lparr>tc_memo := memo_put data \<lparr>dm_size = length bytes, dm_digest = d, dm_generation = generation\<rparr> memo,
                          tc_digests := tc_digests c + 1\<rparr>))))"

section \<open>Keys\<close>

definition indexed :: "gx_texture_enums \<Rightarrow> u32 \<Rightarrow> bool" where
  "indexed x f \<longleftrightarrow> f = GX_TF_C4 x \<or> f = GX_TF_C8 x \<or> f = GX_TF_C14X2 x"

definition validate_format :: "gx_texture_enums \<Rightarrow> u32 \<Rightarrow> bool" where
  "validate_format x f \<longleftrightarrow>
     f \<in> {GX_TF_I4 x, GX_TF_I8 x, GX_TF_IA4 x, GX_TF_IA8 x, GX_TF_RGB565 x, GX_TF_RGB5A3 x, GX_TF_RGBA8 x,
          GX_TF_CMPR x, GX_TF_C4 x, GX_TF_C8 x, GX_TF_C14X2 x, GX_TF_Z8 x, GX_TF_Z16 x, GX_TF_Z24X8 x,
          GX_TF_R8_PC x, GX_TF_RGBA8_PC x}"

definition pair_key :: "u32 \<Rightarrow> u32 \<Rightarrow> u64" where
  "pair_key a b = push_bit 32 (ucast a) OR ucast b"

definition texture_layout :: "GXTexObj \<Rightarrow> string + TextureLayout" where
  "texture_layout t = TextureLayout_new (unat (to_width t)) (unat (to_height t)) (mip_count t)"

definition source_byte_size :: "texture_env \<Rightarrow> gx_texture_enums \<Rightarrow> GXTexObj \<Rightarrow> string + nat" where
  "source_byte_size e x t =
     (if \<not> validate_format x (to_format t) then Inl ''Unsupported static GX texture format''
      else case texture_layout t of Inl err \<Rightarrow> Inl err
        | Inr lay \<Rightarrow> Inr (tex_buffer_size e (of_nat (tx_width lay)) (of_nat (tx_height lay)) (to_format t)
            (tx_count lay > 1) (of_nat (tx_count lay - 1))))"

text \<open>A source range: its address and the bytes there.\<close>
type_synonym source = "u64 \<times> u8 list"

definition palette_ok :: "gx_enums \<Rightarrow> gx_texture_enums \<Rightarrow> GXTlutObj option \<Rightarrow> bool" where
  "palette_ok g x p \<longleftrightarrow>
     (case p of None \<Rightarrow> False
      | Some pl \<Rightarrow> tl_data pl \<noteq> 0 \<and> tl_numEntries pl \<noteq> 0 \<and>
          (tl_format pl = GX_TL_IA8 g \<or> tl_format pl = GX_TL_RGB565 x \<or> tl_format pl = GX_TL_RGB5A3 x))"

text \<open>The checks on the arguments; the sizes the digests and the converters then see.\<close>
definition resolve_sources :: "texture_env \<Rightarrow> gx_enums \<Rightarrow> gx_texture_enums \<Rightarrow> GXTexObj \<Rightarrow> u8 list \<Rightarrow>
    GXTlutObj option \<Rightarrow> u8 list \<Rightarrow> string + (u8 list \<times> u8 list)" where
  "resolve_sources e g x t bytes palette paletteBytes =
     (case source_byte_size e x t of Inl err \<Rightarrow> Inl err
      | Inr sz \<Rightarrow>
          if to_data t = 0 \<or> length bytes < sz then Inl ''Missing/truncated GX texture bytes''
          else if indexed x (to_format t) then
            (if \<not> palette_ok g x palette then Inl ''Missing/invalid GX texture palette''
             else
               (let count = unat (tl_numEntries (the palette)) * 2
                in if length paletteBytes < count then Inl ''Truncated GX texture palette''
                   else Inr (take sz bytes, take count paletteBytes)))
          else Inr (take sz bytes, paletteBytes))"

definition texture_key :: "GXTexObj \<Rightarrow> u64 \<Rightarrow> Key" where
  "texture_key t d = [pair_key (to_width t) (to_height t), pair_key (to_format t) (of_nat (mip_count t)), d, 0, 0]"

definition tlut_no_cache :: "GXTlutObj option \<Rightarrow> bool" where
  "tlut_no_cache p \<longleftrightarrow> (case p of None \<Rightarrow> False | Some pl \<Rightarrow> no_cache (tl_flags pl))"

definition resolve_key :: "texture_env \<Rightarrow> gx_texture_enums \<Rightarrow> GXTexObj \<Rightarrow> source \<Rightarrow> GXTlutObj option \<Rightarrow> source \<Rightarrow>
    GxTextureCache \<Rightarrow> Key \<times> GxTextureCache" where
  "resolve_key e x t src palette psrc c =
     (let (d, c1) = source_digest e (fst src) (snd src) (\<not> no_cache (to_flags t)) c;
          key = texture_key t d
      in if indexed x (to_format t) then
           (let pl = the palette;
                (pd, c2) = source_digest e (fst psrc) (snd psrc) (\<not> no_cache (tl_flags pl)) c1
            in (key[3 := pair_key (tl_format pl) (ucast (tl_numEntries pl)), 4 := pd], c2))
         else (key, c1))"

definition cacheable :: "gx_texture_enums \<Rightarrow> GXTexObj \<Rightarrow> GXTlutObj option \<Rightarrow> bool" where
  "cacheable x t palette \<longleftrightarrow>
     \<not> no_cache (to_flags t) \<and> (\<not> indexed x (to_format t) \<or> \<not> tlut_no_cache palette)"

section \<open>Conversion\<close>

definition decode_texture :: "texture_env \<Rightarrow> gx_texture_enums \<Rightarrow> GXTexObj \<Rightarrow> u8 list \<Rightarrow> GXTlutObj option \<Rightarrow> u8 list \<Rightarrow>
    TextureLayout \<Rightarrow> string + (u8 list \<times> bool)" where
  "decode_texture e x t bytes palette pbytes lay =
     (if to_format t = GX_TF_RGBA8_PC x then Inr (bytes, False)
      else case (if indexed x (to_format t) then
                   convert_texture_palette e (to_format t) (to_width t) (to_height t) (mip_count t) bytes
                     (tl_format (the palette)) (tl_numEntries (the palette)) pbytes
                 else convert_texture e (to_format t) (to_width t) (to_height t) (mip_count t) bytes) of
        Inl err \<Rightarrow> Inl err
      | Inr d \<Rightarrow>
          if \<not> cv_rgba8 d \<or> cv_width d \<noteq> tx_width lay \<or> cv_height d \<noteq> tx_height lay \<or> cv_mips d \<noteq> tx_count lay then
            Inl ''Aurora texture conversion did not produce the requested mip chain''
          else Inr (cv_data d, cv_arbitrary d))"

definition upload_texture :: "texture_env \<Rightarrow> gx_texture_enums \<Rightarrow> GXTexObj \<Rightarrow> u8 list \<Rightarrow> GXTlutObj option \<Rightarrow> u8 list \<Rightarrow>
    string + GxTexture" where
  "upload_texture e x t bytes palette pbytes =
     (case texture_layout t of Inl err \<Rightarrow> Inl err
      | Inr lay \<Rightarrow>
          (case decode_texture e x t bytes palette pbytes lay of Inl err \<Rightarrow> Inl err
           | Inr (rgba, arb) \<Rightarrow>
               if length rgba \<noteq> tx_linearBytes lay then Inl ''Wrong converted GX texture size''
               else (case gpu_upload_fails e lay rgba of Some err \<Rightarrow> Inl err
                 | None \<Rightarrow> Inr \<lparr>gt_layout = lay, gt_rgba = rgba, gt_arbitrary = arb\<rparr>)))"

section \<open>Ages and eviction\<close>

definition next_stamp :: "GxTextureCache \<Rightarrow> u64 \<times> GxTextureCache" where
  "next_stamp c =
     (let clk = tc_clock c + 1
      in if clk = 0 then
           (1, c\<lparr>tc_clock := 1, tc_entries := map (\<lambda>(k, en). (k, en\<lparr>en_stamp := 0\<rparr>)) (tc_entries c)\<rparr>)
         else (clk, c\<lparr>tc_clock := clk\<rparr>))"

fun oldest :: "Key \<times> Entry \<Rightarrow> (Key \<times> Entry) list \<Rightarrow> Key \<times> Entry" where
  "oldest best [] = best"
| "oldest best (p # ps) = oldest (if en_stamp (snd p) < en_stamp (snd best) then p else best) ps"

lemma oldest_mem: "oldest p ps \<in> set (p # ps)"
  by (induction ps arbitrary: p) (auto split: if_splits)

lemma filter_length_less: "x \<in> set xs \<Longrightarrow> \<not> P x \<Longrightarrow> length (filter P xs) < length xs"
  by (induction xs) (auto simp: less_Suc_eq_le)

definition entry_bytes :: "Entry \<Rightarrow> nat" where "entry_bytes en = tx_bytes (gt_layout (en_texture en))"

text \<open>The loop that makes room; \<open>None\<close> is the access to the oldest entry of an empty map.\<close>
function evict_loop :: "nat \<Rightarrow> nat \<Rightarrow> (Key \<times> Entry) list \<Rightarrow> (nat \<times> (Key \<times> Entry) list) option" where
  "evict_loop budget used [] = (if used > budget then None else Some (used, []))"
| "evict_loop budget used (p # ps) =
     (if used > budget then
        (let old = oldest p ps
         in evict_loop budget (used - entry_bytes (snd old)) (filter (\<lambda>q. fst q \<noteq> fst old) (p # ps)))
      else Some (used, p # ps))"
  by pat_completeness auto
termination
  by (relation "measure (\<lambda>(b, u, es). length es)")
     (use filter_length_less[OF oldest_mem] in \<open>auto simp del: filter.simps oldest.simps\<close>)

text \<open>The insertion of an uploaded texture.\<close>
definition insert_texture :: "Key \<Rightarrow> GxTexture \<Rightarrow> GxTextureCache \<Rightarrow> (string + GxTextureCache) option" where
  "insert_texture key tex c =
     (let (stamp, c1) = next_stamp c
      in if map_of (tc_entries c1) key \<noteq> None then Some (Inl ''Concurrent GX texture cache access'')
         else
           (case evict_loop (tc_budget c1) (tc_used c1 + tx_bytes (gt_layout tex))
                  ((key, \<lparr>en_texture = tex, en_stamp = stamp\<rparr>) # tc_entries c1) of
              None \<Rightarrow> None
            | Some (used, es) \<Rightarrow> Some (Inr (c1\<lparr>tc_used := used, tc_entries := es\<rparr>))))"

definition touch :: "Key \<Rightarrow> GxTextureCache \<Rightarrow> GxTextureCache" where
  "touch key c =
     (let (stamp, c1) = next_stamp c
      in c1\<lparr>tc_entries := map (\<lambda>(k, en). if k = key then (k, en\<lparr>en_stamp := stamp\<rparr>) else (k, en)) (tc_entries c1),
            tc_hits := tc_hits c1 + 1\<rparr>)"

text \<open>The result and the cache, also when an exception leaves the function.\<close>
definition resolve :: "texture_env \<Rightarrow> gx_enums \<Rightarrow> gx_texture_enums \<Rightarrow> GXTexObj \<Rightarrow> source \<Rightarrow> GXTlutObj option \<Rightarrow> source \<Rightarrow>
    GxTextureCache \<Rightarrow> ((string + GxTexture) \<times> GxTextureCache) option" where
  "resolve e g x t src palette psrc c =
     (case resolve_sources e g x t (snd src) palette (snd psrc) of Inl err \<Rightarrow> Some (Inl err, c)
      | Inr (bytes, pbytes) \<Rightarrow>
          (let (key, c1) = resolve_key e x t (fst src, bytes) palette (fst psrc, pbytes) c
           in case (if cacheable x t palette then map_of (tc_entries c1) key else None) of
                Some en \<Rightarrow> Some (Inr (en_texture en), touch key c1)
              | None \<Rightarrow>
                  (case upload_texture e x t bytes palette pbytes of Inl err \<Rightarrow> Some (Inl err, c1)
                   | Inr tex \<Rightarrow>
                       (let c2 = c1\<lparr>tc_uploads := tc_uploads c1 + 1\<rparr>
                        in if cacheable x t palette \<and> tx_bytes (gt_layout tex) \<le> tc_budget c2 then
                             (case insert_texture key tex c2 of None \<Rightarrow> None
                              | Some (Inl err) \<Rightarrow> Some (Inl err, snd (next_stamp c2))
                              | Some (Inr c3) \<Rightarrow> Some (Inr tex, c3))
                           else Some (Inr tex, c2)))))"

definition cache_clear :: "GxTextureCache \<Rightarrow> GxTextureCache" where
  "cache_clear c = c\<lparr>tc_entries := [], tc_memo := [], tc_used := 0\<rparr>"

end
