(* ===== verification/GxTextureCacheLemmas.thy ===== *)
theory GxTextureCacheLemmas
  imports GxTextureCache
begin

text \<open>
  The texture cache stays inside its byte budget, the eviction loop always finds an entry to evict
  and never evicts the texture just inserted, and a cached result is the one a fresh conversion
  would give, as long as the digests of the byte strings in play differ and the write generations
  tell the truth.
\<close>

section \<open>The budget invariant\<close>

definition total_bytes :: "(Key \<times> Entry) list \<Rightarrow> nat" where
  "total_bytes es = (\<Sum>p\<leftarrow>es. entry_bytes (snd p))"

definition cache_ok :: "GxTextureCache \<Rightarrow> bool" where
  "cache_ok c \<longleftrightarrow> distinct (map fst (tc_entries c)) \<and> tc_used c = total_bytes (tc_entries c) \<and>
     tc_used c \<le> tc_budget c \<and> list_all (\<lambda>p. en_stamp (snd p) \<le> tc_clock c) (tc_entries c)"

lemma total_remove:
  "distinct (map fst es) \<Longrightarrow> p \<in> set es \<Longrightarrow>
   total_bytes es = entry_bytes (snd p) + total_bytes (filter (\<lambda>q. fst q \<noteq> fst p) es)"
proof (induction es)
  case (Cons q es)
  show ?case
  proof (cases "fst q = fst p")
    case True
    hence "q = p" using Cons.prems by (auto simp: image_iff)
    moreover have "filter (\<lambda>q. fst q \<noteq> fst p) es = es"
      using Cons.prems True by (auto simp: filter_id_conv image_iff)
    ultimately show ?thesis by (simp add: total_bytes_def)
  next
    case False
    hence "p \<in> set es" using Cons.prems by auto
    thus ?thesis using Cons False by (simp add: total_bytes_def)
  qed
qed simp

lemma oldest_le: "q \<in> set (p # ps) \<Longrightarrow> en_stamp (snd (oldest p ps)) \<le> en_stamp (snd q)"
proof (induction ps arbitrary: p q)
  case (Cons r ps)
  let ?b = "if en_stamp (snd r) < en_stamp (snd p) then r else p"
  have b: "en_stamp (snd ?b) \<le> en_stamp (snd p)" "en_stamp (snd ?b) \<le> en_stamp (snd r)" by auto
  have "en_stamp (snd (oldest ?b ps)) \<le> en_stamp (snd ?b)" by (rule Cons.IH) simp
  moreover have "q \<in> set ps \<Longrightarrow> en_stamp (snd (oldest ?b ps)) \<le> en_stamp (snd q)" using Cons.IH[of q ?b] by simp
  ultimately show ?case using Cons.prems b by (auto simp del: oldest.simps simp: oldest.simps(2)[of p r ps])
qed simp

lemma evict_loop_ok:
  assumes "distinct (map fst es)" "used = total_bytes es"
  shows "\<exists>used' es'. evict_loop budget used es = Some (used', es') \<and> used' = total_bytes es' \<and> used' \<le> budget \<and>
    set es' \<subseteq> set es \<and> distinct (map fst es')"
  using assms
proof (induction budget used es rule: evict_loop.induct)
  case (1 budget used)
  thus ?case by (simp add: total_bytes_def)
next
  case (2 budget used p ps)
  let ?old = "oldest p ps" and ?es = "p # ps"
  show ?case
  proof (cases "used > budget")
    case True
    let ?es' = "filter (\<lambda>q. fst q \<noteq> fst ?old) ?es"
    have d: "distinct (map fst ?es')" using 2(2) by (rule distinct_map_filter)
    have t: "used - entry_bytes (snd ?old) = total_bytes ?es'"
      using total_remove[OF 2(2) oldest_mem] 2(3) by simp
    obtain used' es' where r: "evict_loop budget (used - entry_bytes (snd ?old)) ?es' = Some (used', es')"
      "used' = total_bytes es'" "used' \<le> budget" "set es' \<subseteq> set ?es'" "distinct (map fst es')"
      using 2(1)[OF True refl d t] by blast
    have "evict_loop budget used ?es = Some (used', es')"
      using True r(1) by (simp only: evict_loop.simps Let_def if_True)
    moreover have "set es' \<subseteq> set ?es" using r(4) filter_is_subset by (rule subset_trans)
    ultimately show ?thesis using r by blast
  next
    case False
    thus ?thesis using 2(2,3) by simp
  qed
qed

text \<open>The entry with the largest age survives when it fits alone.\<close>
lemma evict_loop_keeps:
  assumes "distinct (map fst es)" "used = total_bytes es" "n \<in> set es" "entry_bytes (snd n) \<le> budget"
    "\<And>p. p \<in> set es \<Longrightarrow> p \<noteq> n \<Longrightarrow> en_stamp (snd p) < en_stamp (snd n)"
    "evict_loop budget used es = Some (used', es')"
  shows "n \<in> set es'"
  using assms
proof (induction budget used es rule: evict_loop.induct)
  case (1 budget used)
  thus ?case by simp
next
  case (2 budget used p ps)
  let ?old = "oldest p ps" and ?es = "p # ps"
  show ?case
  proof (cases "used > budget")
    case True
    let ?es' = "filter (\<lambda>q. fst q \<noteq> fst ?old) ?es"
    have "?old \<noteq> n"
    proof
      assume old: "?old = n"
      have "q = n" if "q \<in> set ?es" for q
      proof (rule ccontr)
        assume "q \<noteq> n"
        hence "en_stamp (snd q) < en_stamp (snd n)" using 2(6) that by blast
        moreover have "en_stamp (snd n) \<le> en_stamp (snd q)" using oldest_le[OF that] old by simp
        ultimately show False by simp
      qed
      hence "filter (\<lambda>q. fst q \<noteq> fst n) ?es = []" unfolding filter_empty_conv by auto
      hence "used = entry_bytes (snd n)"
        using total_remove[OF 2(2,4)] 2(3) by (simp only: total_bytes_def list.map sum_list.Nil add_0_right)
      thus False using True 2(5) by simp
    qed
    hence "fst n \<noteq> fst ?old"
      using 2(2) oldest_mem[of p ps] 2(4) by (metis distinct_map inj_onD)
    hence n: "n \<in> set ?es'" using 2(4) unfolding set_filter by blast
    have d: "distinct (map fst ?es')" using 2(2) by (rule distinct_map_filter)
    have t: "used - entry_bytes (snd ?old) = total_bytes ?es'"
      using total_remove[OF 2(2) oldest_mem] 2(3) by simp
    have r: "evict_loop budget (used - entry_bytes (snd ?old)) ?es' = Some (used', es')"
      using True 2(7) by (simp only: evict_loop.simps Let_def if_True)
    show ?thesis
      by (rule 2(1)[OF True refl d t n 2(5) _ r]) (rule 2(6)[OF subsetD[OF filter_is_subset]])
  next
    case False
    thus ?thesis using 2(4,7) by auto
  qed
qed

section \<open>Frames\<close>

lemma source_digest_frame:
  "tc_entries (snd (source_digest e a bs mm c)) = tc_entries c"
  "tc_used (snd (source_digest e a bs mm c)) = tc_used c"
  "tc_budget (snd (source_digest e a bs mm c)) = tc_budget c"
  "tc_clock (snd (source_digest e a bs mm c)) = tc_clock c"
  by (simp_all add: source_digest_def Let_def)

lemma resolve_key_frame:
  assumes "resolve_key e x t src pal psrc c = (key, c1)"
  shows "tc_entries c1 = tc_entries c" "tc_used c1 = tc_used c" "tc_budget c1 = tc_budget c" "tc_clock c1 = tc_clock c"
  using assms source_digest_frame[of e "fst src" "snd src" "\<not> no_cache (to_flags t)" c]
  unfolding resolve_key_def
  by (auto simp: Let_def source_digest_frame split: prod.splits if_splits dest!: arg_cong[where f = snd])

lemma cache_ok_key:
  "resolve_key e x t src pal psrc c = (key, c1) \<Longrightarrow> cache_ok c \<Longrightarrow> cache_ok c1"
  using resolve_key_frame[of e x t src pal psrc c key c1] by (simp add: cache_ok_def)

lemma cache_ok_transfer:
  assumes "cache_ok c" "map fst (tc_entries d) = map fst (tc_entries c)"
    "total_bytes (tc_entries d) = total_bytes (tc_entries c)" "tc_used d = tc_used c" "tc_budget d = tc_budget c"
    "list_all (\<lambda>p. en_stamp (snd p) \<le> tc_clock d) (tc_entries d)"
  shows "cache_ok d"
proof -
  have "distinct (map fst (tc_entries d))" "tc_used d = total_bytes (tc_entries d)" "tc_used d \<le> tc_budget d"
    using assms(1) unfolding cache_ok_def assms(2-5) by blast+
  thus ?thesis using assms(6) unfolding cache_ok_def by blast
qed

lemma next_stamp_facts:
  assumes "cache_ok c" "next_stamp c = (st, c1)"
  shows "cache_ok c1" "tc_budget c1 = tc_budget c" "tc_used c1 = tc_used c" "tc_clock c1 = st"
    "map fst (tc_entries c1) = map fst (tc_entries c)"
    "map (\<lambda>p. (fst p, en_texture (snd p))) (tc_entries c1) = map (\<lambda>p. (fst p, en_texture (snd p))) (tc_entries c)"
    "p \<in> set (tc_entries c1) \<Longrightarrow> en_stamp (snd p) < st"
proof -
  let ?z = "map (\<lambda>(k, en). (k, en\<lparr>en_stamp := 0\<rparr>)) (tc_entries c)"
  have z: "map fst ?z = map fst (tc_entries c)" "total_bytes ?z = total_bytes (tc_entries c)"
    "map (\<lambda>p. (fst p, en_texture (snd p))) ?z = map (\<lambda>p. (fst p, en_texture (snd p))) (tc_entries c)"
    "list_all (\<lambda>p. en_stamp (snd p) = 0) ?z"
    by (auto simp: total_bytes_def entry_bytes_def o_def split_beta list_all_iff)
  have r: "(tc_clock c + 1 = 0 \<and> st = 1 \<and> c1 = c\<lparr>tc_clock := 1, tc_entries := ?z\<rparr>) \<or>
      (tc_clock c + 1 \<noteq> 0 \<and> st = tc_clock c + 1 \<and> c1 = c\<lparr>tc_clock := st\<rparr>)"
    using assms(2) by (auto simp: next_stamp_def Let_def split: if_splits)
  have up: "w \<le> tc_clock c \<Longrightarrow> tc_clock c + 1 \<noteq> 0 \<Longrightarrow> w < tc_clock c + 1" for w
    using unatSuc[of "tc_clock c"] by (simp add: word_less_nat_alt word_le_nat_alt add.commute)
  show "tc_budget c1 = tc_budget c" "tc_used c1 = tc_used c" "tc_clock c1 = st"
    "map fst (tc_entries c1) = map fst (tc_entries c)"
    "map (\<lambda>p. (fst p, en_texture (snd p))) (tc_entries c1) = map (\<lambda>p. (fst p, en_texture (snd p))) (tc_entries c)"
    using r z by auto
  have s: "list_all (\<lambda>p. en_stamp (snd p) < st) (tc_entries c1)"
    using r
  proof (elim disjE conjE)
    assume "tc_clock c + 1 \<noteq> 0" "st = tc_clock c + 1" "c1 = c\<lparr>tc_clock := st\<rparr>"
    thus ?thesis using assms(1) up by (simp add: cache_ok_def list_all_iff)
  qed (use z(4) in \<open>auto simp: list_all_iff\<close>)
  thus "p \<in> set (tc_entries c1) \<Longrightarrow> en_stamp (snd p) < st" by (auto simp: list_all_iff)
  have "list_all (\<lambda>p. en_stamp (snd p) \<le> tc_clock c1) (tc_entries c1)"
    using s r by (auto simp: list_all_iff)
  moreover have "total_bytes (tc_entries c1) = total_bytes (tc_entries c)" using r z(2) by auto
  moreover have "map fst (tc_entries c1) = map fst (tc_entries c)" "tc_used c1 = tc_used c" "tc_budget c1 = tc_budget c"
    using r z(1) by auto
  ultimately show "cache_ok c1" by (intro cache_ok_transfer[OF assms(1)])
qed

section \<open>Insertion and reuse\<close>

lemma touch_ok: "cache_ok c \<Longrightarrow> cache_ok (touch key c)"
proof -
  assume ok: "cache_ok c"
  obtain st c1 where n: "next_stamp c = (st, c1)" by (cases "next_stamp c")
  note f = next_stamp_facts[OF ok n]
  let ?m = "map (\<lambda>(k, en). if k = key then (k, en\<lparr>en_stamp := st\<rparr>) else (k, en)) (tc_entries c1)"
  have "map fst ?m = map fst (tc_entries c1)" "total_bytes ?m = total_bytes (tc_entries c1)"
    by (auto simp: total_bytes_def entry_bytes_def o_def split_beta intro!: arg_cong[where f = sum_list])
  moreover have "list_all (\<lambda>p. en_stamp (snd p) \<le> st) ?m"
    using less_imp_le[OF f(7)] by (auto simp: list_all_iff)
  ultimately show ?thesis
    using f(4) by (intro cache_ok_transfer[OF f(1)]) (simp_all only: touch_def n Let_def prod.case, simp_all)
qed

lemma map_of_None_fst: "map_of xs k = None \<longleftrightarrow> k \<notin> set (map fst xs)"
  by (simp add: map_of_eq_None_iff)

lemma insert_texture_ok:
  assumes "cache_ok c" "map_of (tc_entries c) key = None" "tx_bytes (gt_layout tex) \<le> tc_budget c"
  obtains c3 en where "insert_texture key tex c = Some (Inr c3)" "cache_ok c3" "(key, en) \<in> set (tc_entries c3)"
    "en_texture en = tex"
    "\<And>k en'. (k, en') \<in> set (tc_entries c3) \<Longrightarrow> k = key \<and> en_texture en' = tex \<or>
       (\<exists>en0. (k, en0) \<in> set (tc_entries c) \<and> en_texture en0 = en_texture en')"
    "tc_memo c3 = tc_memo c"
proof -
  obtain st c1 where n: "next_stamp c = (st, c1)" by (cases "next_stamp c")
  note f = next_stamp_facts[OF assms(1) n]
  define en where "en = \<lparr>en_texture = tex, en_stamp = st\<rparr>"
  let ?es = "(key, en) # tc_entries c1" and ?used = "tc_used c1 + tx_bytes (gt_layout tex)"
  have nk: "key \<notin> set (map fst (tc_entries c1))" using assms(2) f(5) by (simp add: map_of_None_fst)
  have d: "distinct (map fst ?es)" using nk f(1) by (simp add: cache_ok_def)
  have u: "?used = total_bytes ?es" using f(1) by (simp add: cache_ok_def total_bytes_def entry_bytes_def en_def)
  obtain used' es' where r: "evict_loop (tc_budget c1) ?used ?es = Some (used', es')" "used' = total_bytes es'"
    "used' \<le> tc_budget c1" "set es' \<subseteq> set ?es" "distinct (map fst es')"
    using evict_loop_ok[OF d u] by blast
  have k: "(key, en) \<in> set es'"
  proof (rule evict_loop_keeps[OF d u _ _ _ r(1)])
    show "entry_bytes (snd (key, en)) \<le> tc_budget c1" using assms(3) f(2) by (simp add: entry_bytes_def en_def)
    show "en_stamp (snd p) < en_stamp (snd (key, en))" if "p \<in> set ?es" "p \<noteq> (key, en)" for p
      using that f(7) by (auto simp: en_def)
  qed simp
  let ?c3 = "c1\<lparr>tc_used := used', tc_entries := es'\<rparr>"
  have mem: "map_of (tc_entries c1) key = None" using nk by (simp add: map_of_None_fst)
  show thesis
  proof (rule that[of ?c3 en])
    show "insert_texture key tex c = Some (Inr ?c3)"
      using n mem r(1) by (simp add: insert_texture_def en_def)
    have "list_all (\<lambda>p. en_stamp (snd p) \<le> st) es'"
      using r(4) less_imp_le[OF f(7)] by (auto simp: list_all_iff en_def)
    thus "cache_ok ?c3" using r f(4) by (simp add: cache_ok_def)
    show "(key, en) \<in> set (tc_entries ?c3)" using k by simp
    show "en_texture en = tex" by (simp add: en_def)
    show "tc_memo ?c3 = tc_memo c" using n by (auto simp: next_stamp_def Let_def split: if_splits)
    fix k en' assume "(k, en') \<in> set (tc_entries ?c3)"
    hence "(k, en') = (key, en) \<or> (k, en') \<in> set (tc_entries c1)" using r(4) by auto
    moreover have "\<exists>en0. (k, en0) \<in> set (tc_entries c) \<and> en_texture en0 = en_texture en'"
      if "(k, en') \<in> set (tc_entries c1)"
    proof -
      have "(k, en_texture en') \<in> set (map (\<lambda>p. (fst p, en_texture (snd p))) (tc_entries c1))" using that by force
      thus ?thesis unfolding f(6) by auto
    qed
    ultimately show "k = key \<and> en_texture en' = tex \<or>
       (\<exists>en0. (k, en0) \<in> set (tc_entries c) \<and> en_texture en0 = en_texture en')"
      by (auto simp: en_def)
  qed
qed

text \<open>Resolving never fails to evict and keeps the invariant; a cacheable result that fits is found again.\<close>
lemma resolve_ok:
  assumes "cache_ok c"
  shows "\<exists>r c'. resolve e g x t src pal psrc c = Some (r, c') \<and> cache_ok c'"
proof (cases "resolve_sources e g x t (snd src) pal (snd psrc)")
  case (Inl err)
  thus ?thesis using assms by (simp add: resolve_def)
next
  case (Inr bp)
  obtain bytes pbytes where b: "bp = (bytes, pbytes)" by (cases bp)
  obtain key c1 where k: "resolve_key e x t (fst src, bytes) pal (fst psrc, pbytes) c = (key, c1)"
    by (cases "resolve_key e x t (fst src, bytes) pal (fst psrc, pbytes) c")
  have ok1: "cache_ok c1" by (rule cache_ok_key[OF k assms])
  show ?thesis
  proof (cases "if cacheable x t pal then map_of (tc_entries c1) key else None")
    case (Some en)
    thus ?thesis using Inr b k touch_ok[OF ok1] by (simp add: resolve_def)
  next
    case None
    show ?thesis
    proof (cases "upload_texture e x t bytes pal pbytes")
      case (Inl err)
      thus ?thesis using Inr b k None ok1 by (simp add: resolve_def)
    next
      case up: (Inr tex)
      let ?c2 = "c1\<lparr>tc_uploads := tc_uploads c1 + 1\<rparr>"
      have ok2: "cache_ok ?c2" using ok1 by (simp add: cache_ok_def)
      show ?thesis
      proof (cases "cacheable x t pal \<and> tx_bytes (gt_layout tex) \<le> tc_budget ?c2")
        case True
        hence "map_of (tc_entries ?c2) key = None" using None by simp
        from insert_texture_ok[OF ok2 this conjunct2[OF True]]
        obtain c3 where "insert_texture key tex ?c2 = Some (Inr c3)" "cache_ok c3" by metis
        thus ?thesis using Inr b k None up True by (simp add: resolve_def)
      next
        case False
        thus ?thesis using Inr b k None up ok2 by (auto simp: resolve_def)
      qed
    qed
  qed
qed

section \<open>Digests tell the bytes\<close>

text \<open>\<open>mem a n\<close> is what the \<open>n\<close> bytes at address \<open>a\<close> are when the function is called.\<close>
definition holds_at :: "(u64 \<Rightarrow> nat \<Rightarrow> u8 list) \<Rightarrow> u64 \<Rightarrow> u8 list \<Rightarrow> bool" where
  "holds_at mem a bs \<longleftrightarrow> (\<forall>n\<le>length bs. mem a n = take n bs)"

text \<open>A remembered digest whose write generation is still current is that of the bytes there now.\<close>
definition memo_valid :: "texture_env \<Rightarrow> (u64 \<Rightarrow> nat \<Rightarrow> u8 list) \<Rightarrow> GxTextureCache \<Rightarrow> bool" where
  "memo_valid e mem c \<longleftrightarrow> (\<forall>a m. map_of (tc_memo c) a = Some m \<longrightarrow>
     guest_write_generation_matches e (dm_generation m) (guest_write_generation e a (dm_size m)) \<longrightarrow>
     dm_digest m = xxh3_hash_s e (mem a (dm_size m)))"

lemma memo_valid_cong: "tc_memo c = tc_memo d \<Longrightarrow> memo_valid e mem c = memo_valid e mem d"
  by (simp add: memo_valid_def)

lemma map_of_put: "map_of (memo_put a m memo) b = (if b = a then Some m else map_of memo b)"
proof -
  have "map_of (filter (\<lambda>p. fst p \<noteq> a) memo) b = (if b = a then None else map_of memo b)"
    by (induction memo) auto
  thus ?thesis by (simp add: memo_put_def)
qed

lemma source_digest_value:
  assumes "memo_valid e mem c" "holds_at mem a bs"
  shows "fst (source_digest e a bs mm c) = xxh3_hash_s e bs" "memo_valid e mem (snd (source_digest e a bs mm c))"
proof -
  let ?gen = "if mm then guest_write_generation e a (length bs) else kGuestWriteUntracked e"
  let ?memo = "if length (tc_memo c) \<ge> kDigestMemoSoftLimit \<and> map_of (tc_memo c) a = None then [] else tc_memo c"
  have bs: "mem a (length bs) = bs" using assms(2) by (simp add: holds_at_def)
  have sub: "map_of ?memo b = Some m \<Longrightarrow> map_of (tc_memo c) b = Some m" for b m by (auto split: if_splits)
  have v: "dm_digest m = xxh3_hash_s e bs"
    if "map_of ?memo a = Some m" "dm_size m = length bs" "guest_write_generation_matches e (dm_generation m) ?gen" for m
  proof -
    have "mm" using that(3) by (auto simp: guest_write_generation_matches_def split: if_splits)
    thus ?thesis using assms(1) sub[OF that(1)] that(2,3) bs unfolding memo_valid_def by metis
  qed
  have keep: "memo_valid e mem (c\<lparr>tc_memo := memo_put a m ?memo, tc_digests := i, tc_digestSkips := j\<rparr>)"
    if "dm_size m = length bs" "dm_digest m = xxh3_hash_s e bs" for m i j
  proof -
    define mo where "mo = memo_put a m ?memo"
    have p: "m' = m \<and> b = a \<or> map_of (tc_memo c) b = Some m'" if "map_of mo b = Some m'" for b m'
      using that sub[of b m'] unfolding mo_def map_of_put by (cases "b = a") simp_all
    have "dm_digest m' = xxh3_hash_s e (mem b (dm_size m'))"
      if "map_of mo b = Some m'" "guest_write_generation_matches e (dm_generation m') (guest_write_generation e b (dm_size m'))" for b m'
      using p[OF that(1)] that(2) assms(1) \<open>dm_size m = length bs\<close> \<open>dm_digest m = xxh3_hash_s e bs\<close> bs
      unfolding memo_valid_def by auto
    thus ?thesis unfolding mo_def[symmetric] memo_valid_def by simp
  qed
  have z: "map_of memo a = Some m"
    if "(case map_of memo a of Some m \<Rightarrow> m | None \<Rightarrow> \<lparr>dm_size = 0, dm_digest = 0, dm_generation = 0\<rparr>) = m"
      "dm_size m = length bs" "bs \<noteq> []" for m memo
    using that by (cases "map_of memo a") auto
  show "fst (source_digest e a bs mm c) = xxh3_hash_s e bs"
    unfolding source_digest_def Let_def using v z by auto
  show "memo_valid e mem (snd (source_digest e a bs mm c))"
  proof -
    have same: "memo_valid e mem (c\<lparr>tc_digests := i\<rparr>)" for i using assms(1) by (simp add: memo_valid_def)
    have k1: "memo_valid e mem (c\<lparr>tc_memo := memo_put a m ?memo, tc_digestSkips := j\<rparr>)"
      if "dm_size m = length bs" "dm_digest m = xxh3_hash_s e bs" for m j
      by (rule iffD1[OF memo_valid_cong keep[OF that]]) simp
    have k2: "memo_valid e mem (c\<lparr>tc_memo := memo_put a m ?memo, tc_digests := i\<rparr>)"
      if "dm_size m = length bs" "dm_digest m = xxh3_hash_s e bs" for m i
      by (rule iffD1[OF memo_valid_cong keep[OF that]]) simp
    show ?thesis unfolding source_digest_def Let_def using same k1 k2 v z by auto
  qed
qed

section \<open>A hit is what a conversion would give\<close>

definition ideal_key :: "texture_env \<Rightarrow> gx_texture_enums \<Rightarrow> GXTexObj \<Rightarrow> u8 list \<Rightarrow> GXTlutObj option \<Rightarrow> u8 list \<Rightarrow> Key" where
  "ideal_key e x t bytes pal pbytes =
     (let key = texture_key t (xxh3_hash_s e bytes)
      in if indexed x (to_format t) then
           key[3 := pair_key (tl_format (the pal)) (ucast (tl_numEntries (the pal))), 4 := xxh3_hash_s e pbytes]
         else key)"

lemma resolve_key_ideal:
  assumes "memo_valid e mem c" "holds_at mem a bytes" "holds_at mem b pbytes"
    "resolve_key e x t (a, bytes) pal (b, pbytes) c = (key, c1)"
  shows "key = ideal_key e x t bytes pal pbytes" "memo_valid e mem c1"
proof -
  obtain d c2 where d: "source_digest e a bytes (\<not> no_cache (to_flags t)) c = (d, c2)" by fastforce
  note v = source_digest_value[OF assms(1,2), of "\<not> no_cache (to_flags t)", unfolded d fst_conv snd_conv]
  obtain d' c3 where d': "source_digest e b pbytes (\<not> no_cache (tl_flags (the pal))) c2 = (d', c3)" by fastforce
  note v' = source_digest_value[OF v(2) assms(3), of "\<not> no_cache (tl_flags (the pal))", unfolded d' fst_conv snd_conv]
  show "key = ideal_key e x t bytes pal pbytes" "memo_valid e mem c1"
    using assms(4) v v' unfolding resolve_key_def ideal_key_def fst_conv snd_conv d Let_def prod.case d'
    by (auto split: if_splits)
qed

lemma pair_key_inj: "pair_key a b = pair_key c d \<longleftrightarrow> a = c \<and> b = d"
proof
  assume e: "pair_key a b = pair_key c d"
  have b: "bit (pair_key u v) n = (if n < 32 then bit v n else bit u (n - 32))" if "n < 64" for u v n
    using that unfolding pair_key_def by (auto simp: bit_simps dest: bit_imp_le_length)
  have "bit b n = bit d n" if "n < 32" for n using b[of n a b] b[of n c d] that e by simp
  moreover have "bit a n = bit c n" if "n < 32" for n using b[of "n + 32" a b] b[of "n + 32" c d] that e by simp
  ultimately show "a = c \<and> b = d" by (auto intro!: bit_word_eqI)
qed simp

lemma mip_count_loop_le: "mip_count_loop d c \<le> c + d"
proof (induction d c rule: mip_count_loop.induct)
  case (1 d c)
  thus ?case by (cases "d > 1") (auto simp: mip_count_loop.simps[of d])
qed

lemma mip_count_u32: "mip_count t < 2 ^ 32"
proof -
  have l: "mip_count_loop d 1 < 2 ^ 32" if "d < 2 ^ 32" for d
  proof (cases "d > 1")
    case True
    have "mip_count_loop d 1 = mip_count_loop (d div 2) 2" using True by (simp add: mip_count_loop.simps[of d] numeral_2_eq_2)
    also have "\<dots> \<le> 2 + d div 2" by (rule mip_count_loop_le)
    also have "\<dots> < 2 ^ 32" using that by simp
    finally show ?thesis .
  qed (simp add: mip_count_loop.simps[of d])
  have "max_texture_mip_count w h < 2 ^ 32" for w h :: u32
  proof -
    have "unat w < 2 ^ 32" "unat h < 2 ^ 32" using unsigned_less[of w] unsigned_less[of h] by simp_all
    thus ?thesis unfolding max_texture_mip_count_def by (intro l) simp
  qed
  thus ?thesis using mip_count_bounds(2) by (rule le_less_trans[rotated])
qed

lemma ideal_key_determines:
  assumes "inj_on (xxh3_hash_s e) B" "bytes \<in> B" "bytes' \<in> B" "pbytes \<in> B" "pbytes' \<in> B"
    "ideal_key e x t bytes pal pbytes = ideal_key e x t' bytes' pal' pbytes'"
  shows "upload_texture e x t bytes pal pbytes = upload_texture e x t' bytes' pal' pbytes'"
proof -
  have n: "ideal_key e x u bs q ps ! 0 = pair_key (to_width u) (to_height u)"
    "ideal_key e x u bs q ps ! 1 = pair_key (to_format u) (of_nat (mip_count u))"
    "ideal_key e x u bs q ps ! 2 = xxh3_hash_s e bs"
    "indexed x (to_format u) \<Longrightarrow> ideal_key e x u bs q ps ! 3 = pair_key (tl_format (the q)) (ucast (tl_numEntries (the q)))"
    "indexed x (to_format u) \<Longrightarrow> ideal_key e x u bs q ps ! 4 = xxh3_hash_s e ps" for u bs q ps
    by (auto simp: ideal_key_def texture_key_def Let_def)
  have f: "to_width t = to_width t'" "to_height t = to_height t'" "to_format t = to_format t'"
    "(of_nat (mip_count t) :: u32) = of_nat (mip_count t')" "xxh3_hash_s e bytes = xxh3_hash_s e bytes'"
    using n[of t bytes pal pbytes] n[of t' bytes' pal' pbytes'] assms(6) by (simp_all add: pair_key_inj)
  have m: "mip_count t = mip_count t'"
    using f(4) mip_count_u32[of t] mip_count_u32[of t'] by (simp add: word_of_nat_eq_iff take_bit_nat_eq_self)
  have b: "bytes = bytes'" using f(5) assms(1-3) by (auto dest: inj_onD)
  have p: "tl_format (the pal) = tl_format (the pal') \<and> tl_numEntries (the pal) = tl_numEntries (the pal') \<and> pbytes = pbytes'"
    if i: "indexed x (to_format t)"
  proof -
    have "indexed x (to_format t')" using i f(3) by simp
    hence "pair_key (tl_format (the pal)) (ucast (tl_numEntries (the pal))) =
        pair_key (tl_format (the pal')) (ucast (tl_numEntries (the pal')))" "xxh3_hash_s e pbytes = xxh3_hash_s e pbytes'"
      using n(4,5)[of t bytes pal pbytes] n(4,5)[of t' bytes' pal' pbytes'] assms(6) i by simp_all
    moreover have "a = b" if "(ucast a :: u32) = ucast b" for a b :: u16
    proof (rule bit_word_eqI)
      fix n assume "n < LENGTH(16)"
      have "bit (ucast a :: u32) n = bit (ucast b :: u32) n" using that by simp
      thus "bit a n = bit b n" using \<open>n < LENGTH(16)\<close> by (simp add: bit_simps)
    qed
    ultimately show ?thesis using assms(1,4,5) by (auto simp: pair_key_inj dest: inj_onD)
  qed
  have "texture_layout t = texture_layout t'" using f m by (simp add: texture_layout_def)
  moreover have "decode_texture e x t bytes pal pbytes lay = decode_texture e x t' bytes' pal' pbytes' lay" for lay
    using f m b p by (simp add: decode_texture_def)
  ultimately show ?thesis by (cases "texture_layout t'") (simp_all add: upload_texture_def)
qed

definition entries_from :: "texture_env \<Rightarrow> gx_texture_enums \<Rightarrow> u8 list set \<Rightarrow> GxTextureCache \<Rightarrow> bool" where
  "entries_from e x B c \<longleftrightarrow> (\<forall>k en. (k, en) \<in> set (tc_entries c) \<longrightarrow>
     (\<exists>t bytes pal pbytes. bytes \<in> B \<and> pbytes \<in> B \<and> k = ideal_key e x t bytes pal pbytes \<and>
        upload_texture e x t bytes pal pbytes = Inr (en_texture en)))"

lemma holds_at_take: "holds_at mem a bs \<Longrightarrow> holds_at mem a (take n bs)"
  by (simp add: holds_at_def)

lemma resolve_sources_take:
  assumes "resolve_sources e g x t bs pal pbs = Inr (bytes, pbytes)"
  shows "\<exists>m n. bytes = take m bs \<and> pbytes = take n pbs"
  using assms unfolding resolve_sources_def
  by (auto simp: Let_def split: sum.splits if_splits) (metis take_all order_refl)+

lemma entries_from_same:
  assumes "entries_from e x B c"
    "\<And>k en'. (k, en') \<in> set (tc_entries d) \<Longrightarrow> \<exists>en0. (k, en0) \<in> set (tc_entries c) \<and> en_texture en0 = en_texture en'"
  shows "entries_from e x B d"
  using assms unfolding entries_from_def by metis

lemma touch_entries:
  assumes "cache_ok c" "(k, en') \<in> set (tc_entries (touch key c))"
  shows "\<exists>en0. (k, en0) \<in> set (tc_entries c) \<and> en_texture en0 = en_texture en'"
proof -
  obtain st c1 where n: "next_stamp c = (st, c1)" by (cases "next_stamp c")
  obtain en1 where "(k, en1) \<in> set (tc_entries c1)" "en_texture en1 = en_texture en'"
    using assms(2) by (auto simp: touch_def n split: if_splits)
  hence "(k, en_texture en') \<in> set (map (\<lambda>p. (fst p, en_texture (snd p))) (tc_entries c1))" by force
  thus ?thesis unfolding next_stamp_facts(6)[OF assms(1) n] by auto
qed

lemma touch_memo: "tc_memo (touch key c) = tc_memo c"
  by (simp add: touch_def next_stamp_def Let_def)

lemma map_of_mem: "map_of xs k = Some v \<Longrightarrow> (k, v) \<in> set xs"
  by (rule map_of_SomeD)

text \<open>The cache refines the conversion: its results and its entries are those of \<open>upload_texture\<close>.\<close>
lemma resolve_transparent:
  assumes inj: "inj_on (xxh3_hash_s e) B" and ok: "cache_ok c" and mv: "memo_valid e mem c"
    and from_B: "entries_from e x B c"
    and mem: "holds_at mem (fst src) (snd src)" "holds_at mem (fst psrc) (snd psrc)"
    and B: "\<And>n. take n (snd src) \<in> B" "\<And>n. take n (snd psrc) \<in> B"
    and res: "resolve e g x t src pal psrc c = Some (r, c')"
  shows "r = (case resolve_sources e g x t (snd src) pal (snd psrc) of Inl err \<Rightarrow> Inl err
      | Inr (bytes, pbytes) \<Rightarrow> upload_texture e x t bytes pal pbytes)"
    "memo_valid e mem c'" "entries_from e x B c'"
proof -
  let ?goal = "r = (case resolve_sources e g x t (snd src) pal (snd psrc) of Inl err \<Rightarrow> Inl err
      | Inr (bytes, pbytes) \<Rightarrow> upload_texture e x t bytes pal pbytes) \<and> memo_valid e mem c' \<and> entries_from e x B c'"
  have ?goal
  proof (cases "resolve_sources e g x t (snd src) pal (snd psrc)")
    case (Inl err)
    thus ?thesis using res mv from_B by (auto simp: resolve_def)
  next
    case (Inr bp)
    obtain bytes pbytes where b: "bp = (bytes, pbytes)" by (cases bp)
    have tk: "bytes \<in> B" "pbytes \<in> B" "holds_at mem (fst src) bytes" "holds_at mem (fst psrc) pbytes"
      using resolve_sources_take[OF Inr[unfolded b]] B mem holds_at_take by blast+
    obtain key c1 where k: "resolve_key e x t (fst src, bytes) pal (fst psrc, pbytes) c = (key, c1)"
      by (cases "resolve_key e x t (fst src, bytes) pal (fst psrc, pbytes) c")
    note id = resolve_key_ideal[OF mv tk(3,4) k]
    have ok1: "cache_ok c1" by (rule cache_ok_key[OF k ok])
    have ent1: "entries_from e x B c1" using from_B resolve_key_frame(1)[OF k] by (simp add: entries_from_def)
    show ?thesis
    proof (cases "if cacheable x t pal then map_of (tc_entries c1) key else None")
      case (Some en)
      hence "(key, en) \<in> set (tc_entries c1)" by (auto split: if_splits dest: map_of_mem)
      then obtain t' bytes' pal' pbytes' where q: "bytes' \<in> B" "pbytes' \<in> B"
        "key = ideal_key e x t' bytes' pal' pbytes'" "upload_texture e x t' bytes' pal' pbytes' = Inr (en_texture en)"
        using ent1 unfolding entries_from_def by blast
      have "upload_texture e x t bytes pal pbytes = Inr (en_texture en)"
        using ideal_key_determines[OF inj tk(1) q(1) tk(2) q(2)] id(1) q(3,4) by metis
      moreover have "r = Inr (en_texture en)" "c' = touch key c1"
        using res Inr b k Some by (simp_all add: resolve_def)
      moreover have "memo_valid e mem (touch key c1)" by (rule iffD1[OF memo_valid_cong id(2)]) (simp add: touch_memo)
      ultimately show ?thesis
        using Inr b entries_from_same[OF ent1 touch_entries[OF ok1]] by simp
    next
      case None
      show ?thesis
      proof (cases "upload_texture e x t bytes pal pbytes")
        case (Inl err)
        thus ?thesis using res Inr b k None id(2) ent1 by (simp add: resolve_def)
      next
        case up: (Inr tex)
        let ?c2 = "c1\<lparr>tc_uploads := tc_uploads c1 + 1\<rparr>"
        have c2: "cache_ok ?c2" "memo_valid e mem ?c2" "entries_from e x B ?c2"
          using ok1 id(2) ent1 by (simp_all add: cache_ok_def memo_valid_def entries_from_def)
        show ?thesis
        proof (cases "cacheable x t pal \<and> tx_bytes (gt_layout tex) \<le> tc_budget ?c2")
          case True
          hence nk: "map_of (tc_entries ?c2) key = None" using None by simp
          obtain c3 en where i: "insert_texture key tex ?c2 = Some (Inr c3)"
            "\<And>k en'. (k, en') \<in> set (tc_entries c3) \<Longrightarrow> k = key \<and> en_texture en' = tex \<or>
               (\<exists>en0. (k, en0) \<in> set (tc_entries ?c2) \<and> en_texture en0 = en_texture en')"
            "tc_memo c3 = tc_memo ?c2"
            using insert_texture_ok[OF c2(1) nk conjunct2[OF True]] by metis
          have r: "r = Inr tex" "c' = c3" using res Inr b k None up True i(1) by (simp_all add: resolve_def)
          have "memo_valid e mem c3" by (rule iffD1[OF memo_valid_cong c2(2)]) (rule i(3)[symmetric])
          moreover have "entries_from e x B c3"
            unfolding entries_from_def
          proof (intro allI impI)
            fix k' en' assume "(k', en') \<in> set (tc_entries c3)"
            from i(2)[OF this] show "\<exists>t bytes pal pbytes. bytes \<in> B \<and> pbytes \<in> B \<and>
                k' = ideal_key e x t bytes pal pbytes \<and> upload_texture e x t bytes pal pbytes = Inr (en_texture en')"
            proof (elim disjE)
              assume "k' = key \<and> en_texture en' = tex"
              thus ?thesis using id(1) up tk(1,2) by blast
            next
              assume "\<exists>en0. (k', en0) \<in> set (tc_entries ?c2) \<and> en_texture en0 = en_texture en'"
              thus ?thesis using c2(3) unfolding entries_from_def by metis
            qed
          qed
          ultimately show ?thesis using Inr b up r by simp
        next
          case False
          thus ?thesis using res Inr b k None up c2 by (auto simp: resolve_def)
        qed
      qed
    qed
  qed
  thus "r = (case resolve_sources e g x t (snd src) pal (snd psrc) of Inl err \<Rightarrow> Inl err
      | Inr (bytes, pbytes) \<Rightarrow> upload_texture e x t bytes pal pbytes)" "memo_valid e mem c'" "entries_from e x B c'"
    by blast+
qed

section \<open>The texture of the last request is found again\<close>

lemma source_digest_counts:
  "tc_uploads (snd (source_digest e a bs mm c)) = tc_uploads c" "tc_hits (snd (source_digest e a bs mm c)) = tc_hits c"
  by (simp_all add: source_digest_def Let_def)

lemma resolve_key_counts:
  assumes "resolve_key e x t src pal psrc c = (key, c1)"
  shows "tc_uploads c1 = tc_uploads c" "tc_hits c1 = tc_hits c"
  using assms source_digest_counts[of e "fst src" "snd src" "\<not> no_cache (to_flags t)" c]
  unfolding resolve_key_def
  by (auto simp: Let_def source_digest_counts split: prod.splits if_splits dest!: arg_cong[where f = snd])

lemma touch_counts: "tc_uploads (touch key c) = tc_uploads c" "tc_hits (touch key c) = tc_hits c + 1"
  by (simp_all add: touch_def next_stamp_def Let_def)

lemma touch_holds:
  assumes "cache_ok c" "(key, en) \<in> set (tc_entries c)"
  obtains en' where "(key, en') \<in> set (tc_entries (touch key c))" "en_texture en' = en_texture en"
proof -
  obtain st c1 where n: "next_stamp c = (st, c1)" by (cases "next_stamp c")
  have "(key, en_texture en) \<in> set (map (\<lambda>p. (fst p, en_texture (snd p))) (tc_entries c))" using assms(2) by force
  then obtain en1 where e: "(key, en1) \<in> set (tc_entries c1)" "en_texture en1 = en_texture en"
    unfolding next_stamp_facts(6)[OF assms(1) n, symmetric] by auto
  have "(key, en1\<lparr>en_stamp := st\<rparr>) \<in> set (tc_entries (touch key c))"
    using e(1) by (force simp: touch_def n)
  thus thesis by (rule that) (simp add: e(2))
qed

lemma resolve_holds:
  assumes "cache_ok c" "cacheable x t pal" "resolve_sources e g x t (snd src) pal (snd psrc) = Inr (bytes, pbytes)"
    "resolve_key e x t (fst src, bytes) pal (fst psrc, pbytes) c = (key, c1)"
    "resolve e g x t src pal psrc c = Some (Inr tex, c')" "tx_bytes (gt_layout tex) \<le> tc_budget c"
  obtains en where "(key, en) \<in> set (tc_entries c')" "en_texture en = tex" "tc_memo c' = tc_memo c1" "cache_ok c'"
proof -
  have ok1: "cache_ok c1" by (rule cache_ok_key[OF assms(4,1)])
  have ok': "cache_ok c'" using resolve_ok[OF assms(1), of e g x t src pal psrc] assms(5) by auto
  show thesis
  proof (cases "map_of (tc_entries c1) key")
    case (Some en)
    hence m: "(key, en) \<in> set (tc_entries c1)" by (rule map_of_mem)
    have r: "tex = en_texture en" "c' = touch key c1"
      using assms(2-5) Some by (simp_all add: resolve_def)
    from touch_holds[OF ok1 m] r ok' show thesis by (metis that touch_memo)
  next
    case None
    let ?c2 = "c1\<lparr>tc_uploads := tc_uploads c1 + 1\<rparr>"
    have up: "upload_texture e x t bytes pal pbytes = Inr tex"
      using assms(2-5) None
      by (cases "upload_texture e x t bytes pal pbytes") (auto simp: resolve_def Let_def split: if_splits option.splits sum.splits)
    have c2: "cache_ok ?c2" "map_of (tc_entries ?c2) key = None" "tx_bytes (gt_layout tex) \<le> tc_budget ?c2"
      using ok1 None assms(6) resolve_key_frame(3)[OF assms(4)] by (simp_all add: cache_ok_def)
    from insert_texture_ok[OF c2] obtain c3 en where i: "insert_texture key tex ?c2 = Some (Inr c3)"
      "(key, en) \<in> set (tc_entries c3)" "en_texture en = tex" "tc_memo c3 = tc_memo ?c2" by metis
    have "c' = c3" using assms(2-5) None up c2(3) i(1) by (simp add: resolve_def)
    thus thesis using that[of en] i(2-4) ok' by simp
  qed
qed

text \<open>Asking again for a texture that fits the budget is a hit: nothing is uploaded a second time.\<close>
lemma resolve_again:
  assumes "cache_ok c" "memo_valid e mem c" "holds_at mem (fst src) (snd src)" "holds_at mem (fst psrc) (snd psrc)"
    "cacheable x t pal" "resolve e g x t src pal psrc c = Some (Inr tex, c')" "tx_bytes (gt_layout tex) \<le> tc_budget c"
  shows "\<exists>c''. resolve e g x t src pal psrc c' = Some (Inr tex, c'') \<and>
    tc_uploads c'' = tc_uploads c' \<and> tc_hits c'' = tc_hits c' + 1"
proof (cases "resolve_sources e g x t (snd src) pal (snd psrc)")
  case (Inl err)
  thus ?thesis using assms(6) by (simp add: resolve_def)
next
  case (Inr bp)
  obtain bytes pbytes where s: "resolve_sources e g x t (snd src) pal (snd psrc) = Inr (bytes, pbytes)"
    using Inr by (cases bp) simp
  have h: "holds_at mem (fst src) bytes" "holds_at mem (fst psrc) pbytes"
    using resolve_sources_take[OF s] assms(3,4) holds_at_take by blast+
  obtain key c1 where k: "resolve_key e x t (fst src, bytes) pal (fst psrc, pbytes) c = (key, c1)"
    by (cases "resolve_key e x t (fst src, bytes) pal (fst psrc, pbytes) c")
  obtain key' c2 where k': "resolve_key e x t (fst src, bytes) pal (fst psrc, pbytes) c' = (key', c2)"
    by (cases "resolve_key e x t (fst src, bytes) pal (fst psrc, pbytes) c'")
  obtain en where en: "(key, en) \<in> set (tc_entries c')" "en_texture en = tex" "tc_memo c' = tc_memo c1" "cache_ok c'"
    by (rule resolve_holds[OF assms(1,5) s k assms(6,7)])
  note id = resolve_key_ideal[OF assms(2) h k]
  have "memo_valid e mem c'" by (rule iffD2[OF memo_valid_cong[OF en(3)] id(2)])
  hence "key' = key" using resolve_key_ideal(1)[OF _ h k'] id(1) by simp
  moreover have "distinct (map fst (tc_entries c2))" "(key, en) \<in> set (tc_entries c2)"
    using en(1,4) resolve_key_frame(1)[OF k'] by (simp_all add: cache_ok_def)
  ultimately have "map_of (tc_entries c2) key' = Some en" by simp
  thus ?thesis
    using assms(5) s k' en(2) resolve_key_counts[OF k'] by (simp add: resolve_def touch_counts)
qed

end
