(* ===== verification/BitFields.thy ===== *)
theory BitFields
  imports BpDecoder
begin

text \<open>
  Packed descriptor words: reading a field back out of an OR of shifted fields.  Used by every
  component that encodes register state for the GPU.
\<close>

named_theorems field_bits "bitwise description of packed words"

lemma fits_bit: "fits k w \<Longrightarrow> bit w n \<Longrightarrow> n < k"
  unfolding fits_def by (metis bit_take_bit_iff)

lemma bp_get_bit [field_bits]: "bit (bp_get w k sh) n \<longleftrightarrow> n < k \<and> bit w (n + sh)"
  unfolding bp_get_def bits_word_and_mask by (auto simp: bit_simps ac_simps dest: bit_imp_le_length)

lemma bp_get_fits: "fits k (bp_get w k sh)"
  unfolding bp_get_def bits_word_and_mask by (rule fits_take_bit)

lemma bp_get_or [simp]: "bp_get (a OR b) k sh = bp_get a k sh OR bp_get b k sh"
  by (rule bit_word_eqI) (auto simp: field_bits bit_simps)

text \<open>A field in its own place, and one that does not reach the place.\<close>
lemma bp_get_here: "fits k a \<Longrightarrow> sh + k \<le> 32 \<Longrightarrow> bp_get (push_bit sh a) k sh = a"
  by (rule bit_word_eqI) (auto simp: field_bits bit_simps dest: fits_bit)

lemma bp_get_here0: "fits k a \<Longrightarrow> bp_get a k 0 = a"
  by (rule bit_word_eqI) (auto simp: field_bits dest: fits_bit)

lemma bp_get_below: "fits j a \<Longrightarrow> m + j \<le> sh \<Longrightarrow> bp_get (push_bit m a) k sh = 0"
  by (rule bit_word_eqI) (auto simp: field_bits bit_simps dest: fits_bit)

lemma bp_get_below0: "fits j a \<Longrightarrow> j \<le> sh \<Longrightarrow> bp_get a k sh = 0"
  by (rule bit_word_eqI) (auto simp: field_bits dest: fits_bit)

lemma bp_get_above: "sh + k \<le> m \<Longrightarrow> bp_get (push_bit m a) k sh = 0"
  by (rule bit_word_eqI) (auto simp: field_bits bit_simps)

lemma bp_get_masked: "bp_get m k sh = take_bit k (-1) \<Longrightarrow> bp_get (d AND NOT m) k sh = 0"
proof (rule bit_word_eqI)
  fix n assume m: "bp_get m k sh = take_bit k (-1)" and n: "n < LENGTH(32)"
  have "bit (bp_get m k sh) n \<longleftrightarrow> n < k" using n by (simp add: m bit_simps)
  thus "bit (bp_get (d AND NOT m) k sh) n = bit 0 n" using n by (auto simp: field_bits bit_simps)
qed

lemma push_in_mask:
  assumes "fits k (a :: u32)" "push_bit sh (mask k) AND NOT m = (0 :: u32)"
  shows "push_bit sh a AND NOT m = 0"
proof (rule bit_word_eqI)
  fix n assume "n < LENGTH(32)"
  have "bit (push_bit sh (mask k) AND NOT m) n = bit (0 :: u32) n" using assms(2) by (rule arg_cong)
  thus "bit (push_bit sh a AND NOT m) n = bit 0 n"
    using fits_bit[OF assms(1)] by (auto simp: bit_simps)
qed

lemmas bp_get_field = bp_get_here bp_get_here0 bp_get_below bp_get_below0 bp_get_above

lemma fits_numeral: "unat w < 2 ^ n \<Longrightarrow> fits n w"
  by (rule unat_less_fits)

end
