(* ===== verification/Ieee32.thy ===== *)
theory Ieee32
  imports IeeeLemmas
begin

text \<open>
  \<open>float\<close> arithmetic on integers: rounding does not depend on how a value is split into significand
  and exponent, a value of at most 24 significant bits is represented exactly, and so sums,
  differences and products of small integers are those of the integers.  Also \<open>floor\<close> and
  \<open>roundeven\<close>, the conversions the combiner and the copy filters use.
\<close>

definition f32_floor :: "f32 \<Rightarrow> f32" where
  "f32_floor x = (case floor_val (f32_val x) of None \<Rightarrow> x
     | Some i \<Rightarrow> if i = 0 then x AND 0x80000000 else f32_of_int i)"

text \<open>To the nearest integer, ties to even.\<close>
fun roundeven_val :: "fval \<Rightarrow> int option" where
  "roundeven_val (FFin s m e) =
     (let v = (if e \<ge> 0 then m * 2 ^ nat e else round_shift m (nat (- e))) in Some (if s then - v else v))"
| "roundeven_val _ = None"

definition f32_roundeven :: "f32 \<Rightarrow> f32" where
  "f32_roundeven x = (case roundeven_val (f32_val x) of None \<Rightarrow> x
     | Some i \<Rightarrow> if i = 0 then x AND 0x80000000 else f32_of_int i)"

section \<open>Rounding and the split of a value\<close>

lemma int_bits_double: "0 < m \<Longrightarrow> int_bits (2 * m) = Suc (int_bits m)"
  by (subst int_bits.simps) simp

lemma round_shift_double: "round_shift (2 * m) (Suc k) = round_shift m k"
proof (cases k)
  case 0
  thus ?thesis by (simp add: round_shift_def)
next
  case (Suc j)
  have "2 * m div 2 ^ Suc k = m div 2 ^ k" "2 * m mod 2 ^ Suc k = 2 * (m mod 2 ^ k)"
    by simp_all
  thus ?thesis using Suc by (simp add: round_shift_def Let_def del: power_Suc) auto
qed

lemma f_round_double:
  assumes "0 < m"
  shows "f_round F s (2 * m) (e - 1) = f_round F s m e"
proof -
  have q: "e - 1 + int (int_bits (2 * m)) - int (prec F) = e + int (int_bits m) - int (prec F)"
    using int_bits_double[OF assms] by simp
  define r where "r = max (e + int (int_bits m) - int (prec F)) (emin F)"
  have "(if r \<le> e - 1 then 2 * m * 2 ^ nat (e - 1 - r) else round_shift (2 * m) (nat (r - (e - 1)))) =
      (if r \<le> e then m * 2 ^ nat (e - r) else round_shift m (nat (r - e)))"
  proof -
    consider "r \<le> e - 1" | "r = e" | "e < r" by linarith
    thus ?thesis
    proof cases
      case 1
      hence "nat (e - r) = Suc (nat (e - 1 - r))" by simp
      thus ?thesis using 1 by simp
    next
      case 2
      hence "nat (r - (e - 1)) = Suc 0" by simp
      thus ?thesis using 2 round_shift_double[of m 0] by (simp add: round_shift_def)
    next
      case 3
      hence "nat (r - (e - 1)) = Suc (nat (r - e))" by simp
      thus ?thesis using 3 round_shift_double by simp
    qed
  qed
  thus ?thesis unfolding f_round_def Let_def q r_def by simp
qed

lemma f_round_scale: "0 < m \<Longrightarrow> f_round F s (m * 2 ^ j) (e - int j) = f_round F s m e"
proof (induction j arbitrary: e)
  case (Suc j)
  have "f_round F s (2 * (m * 2 ^ j)) (e - int j - 1) = f_round F s (m * 2 ^ j) (e - int j)"
    by (rule f_round_double) (use Suc.prems in simp)
  moreover have "e - int (Suc j) = e - int j - 1" "m * 2 ^ Suc j = 2 * (m * 2 ^ j)" by simp_all
  ultimately show ?case using Suc by metis
qed simp

section \<open>Exact values\<close>

lemma fmt32 [simp]: "prec binary32 = 24" "ebits binary32 = 8" "emin binary32 = - 149"
  by (simp_all add: binary32_def emin_def)

lemma f32_decode_small:
  assumes "0 \<le> b" "b < (2 ^ 8 - 1) * 2 ^ 23"
  shows "f32_val (word_of_int (f_sign_bit binary32 s + b)) =
    (if b div 2 ^ 23 = 0 then FFin s (b mod 2 ^ 23) (- 149)
     else FFin s (b mod 2 ^ 23 + 2 ^ 23) (b div 2 ^ 23 - 150))"
proof -
  let ?w = "f_sign_bit binary32 s + b"
  have sg: "f_sign_bit binary32 s = (if s then 1 else 0) * 2 ^ 31" by (simp add: f_sign_bit_def)
  have e: "0 \<le> b div 2 ^ 23" "b div 2 ^ 23 < 2 ^ 8 - 1" using assms by auto
  have h: "b div 2 ^ 31 = 0" using assms by simp
  have u: "uint (word_of_int ?w :: u32) = ?w"
    using assms by (simp only: uint_word_of_int) (simp add: sg)
  have 1: "?w div 2 ^ 31 = (if s then 1 else 0)" using h by (simp add: sg)
  have 2: "?w mod 2 ^ 23 = b mod 2 ^ 23" by (simp add: sg mod_add_left_eq[symmetric])
  have 3: "?w div 2 ^ 23 mod 2 ^ 8 = b div 2 ^ 23"
  proof -
    have "?w div 2 ^ 23 = (if s then 1 else 0) * 2 ^ 8 + b div 2 ^ 23" by (simp add: sg)
    moreover have "((if s then 1 else 0) * 2 ^ 8 + b div 2 ^ 23) mod 2 ^ 8 = b div 2 ^ 23 mod 2 ^ 8" by simp
    moreover have "b div 2 ^ 23 mod 2 ^ 8 = b div 2 ^ 23" using e by simp
    ultimately show ?thesis by simp
  qed
  have nm: "(24 :: nat) - 1 = 23" "(23 :: nat) + 8 = 31" "b div 2 ^ 23 - 1 + - 149 = b div 2 ^ 23 - 150" by simp_all
  have "b div 2 ^ 23 \<noteq> 2 ^ 8 - 1" using e(2) by (rule less_imp_neq)
  moreover have "((if s then 1 else 0) mod 2 = (1 :: int)) = s" by simp
  ultimately show ?thesis
    unfolding f32_val_def u f_decode_def Let_def fmt32 nm 1 2 3 by (simp only: if_False if_True)
qed

lemma f32_zero: "f32_val (word_of_int (f_sign_bit binary32 s)) = FFin s 0 (- 149)"
  using f32_decode_small[of 0 s] by simp

text \<open>A value with at most 24 significant bits keeps them.\<close>
lemma f_round32_exact:
  assumes "0 < m" "m < 2 ^ 24" "- 149 \<le> e" "e \<le> 80"
  obtains j where "f32_val (word_of_int (f_round binary32 s m e)) = FFin s (m * 2 ^ j) (e - int j)"
proof -
  define k where "k = int_bits m"
  have k: "2 ^ (k - 1) \<le> m" "m < 2 ^ k" "0 < k" "k \<le> 24"
    using int_bits_bounds[OF assms(1)] int_bits_le[OF assms(1,2)] by (simp_all add: k_def)
  define q where "q = max (e + int k - 24) (- 149)"
  define j where "j = nat (e - q)"
  have qe: "q \<le> e" "- 149 \<le> q" "q = e - int j" "q \<le> 80" using k(4) assms(3,4) by (simp_all add: q_def j_def)
  define M where "M = m * 2 ^ j"
  have M0: "0 < M" using assms(1) by (simp add: M_def)
  define b where "b = M + (q + 149) * 2 ^ 23"
  have dec: "f32_val (word_of_int (f_sign_bit binary32 s + b)) = FFin s M q \<and> b < (2 ^ 8 - 1) * 2 ^ 23"
  proof (cases "- 149 \<le> e + int k - 24")
    case True
    hence j: "j = 24 - k" "q = e + int k - 24" using k(4) by (simp_all add: j_def q_def)
    have "(2 :: int) ^ (k - 1) * 2 ^ j = 2 ^ 23" "(2 :: int) ^ k * 2 ^ j = 2 ^ 24"
      using k(3,4) j(1) by (simp_all flip: power_add)
    moreover have "(2 :: int) ^ (k - 1) * 2 ^ j \<le> M" "M < 2 ^ k * 2 ^ j" using k(1,2) by (simp_all add: M_def)
    ultimately have M: "2 ^ 23 \<le> M" "M < 2 ^ 24" by simp_all
    have e: "b = (M - 2 ^ 23) + (q + 150) * 2 ^ 23" by (simp add: b_def algebra_simps)
    have "b div 2 ^ 23 = q + 150" unfolding e using M by simp
    moreover have "b mod 2 ^ 23 = M - 2 ^ 23"
    proof -
      have "b mod 2 ^ 23 = (M - 2 ^ 23) mod 2 ^ 23" unfolding e by (rule mod_mult_self1)
      also have "\<dots> = M - 2 ^ 23" by (rule mod_pos_pos_trivial) (use M in simp_all)
      finally show ?thesis .
    qed
    moreover have b: "0 \<le> b" "b < (2 ^ 8 - 1) * 2 ^ 23" using M qe by (simp_all add: b_def)
    moreover have "q + 150 \<noteq> 0" "q + 150 - 150 = q" "M - 2 ^ 23 + 2 ^ 23 = M" using qe(2) by simp_all
    ultimately show ?thesis by (simp only: f32_decode_small if_False)
  next
    case False
    hence j: "q = - 149" "k + j \<le> 23" using assms(3) by (simp_all add: j_def q_def)
    have "M < 2 ^ k * 2 ^ j" using k(2) by (simp add: M_def)
    also have "(2 :: int) ^ k * 2 ^ j \<le> 2 ^ 23" using power_increasing[OF j(2), of "2 :: int"] by (simp add: power_add)
    finally have M: "M < 2 ^ 23" .
    have b: "b = M" "0 \<le> b" "b < (2 ^ 8 - 1) * 2 ^ 23" using M M0 j(1) by (simp_all add: b_def)
    have "b div 2 ^ 23 = 0" "b mod 2 ^ 23 = M" using M M0 b(1) by simp_all
    thus ?thesis using b(2,3) j(1) by (simp only: f32_decode_small if_True simp_thms)
  qed
  have "f_round binary32 s m e = f_sign_bit binary32 s + b"
  proof -
    have nm: "q - - 149 = q + 149" "(24 :: nat) - 1 = 23" by simp_all
    have "M \<noteq> 0" "\<not> (2 ^ 8 - 1) * 2 ^ 23 \<le> b" using M0 dec by simp_all
    thus ?thesis
      unfolding f_round_def Let_def fmt32 of_nat_numeral k_def[symmetric] q_def[symmetric] nm
        if_P[OF qe(1)] j_def[symmetric] M_def[symmetric] b_def[symmetric] by (simp only: if_False)
  qed
  thus thesis using that[of j] dec qe(3) by (simp add: M_def)
qed

section \<open>Integers as floats\<close>

text \<open>\<open>x\<close> is the integer \<open>n\<close> (the two zeros are both 0).\<close>
definition f32_is :: "f32 \<Rightarrow> int \<Rightarrow> bool" where
  "f32_is x n \<longleftrightarrow> (\<exists>s m j. f32_val x = FFin s m (- int j) \<and> 0 \<le> m \<and> (if s then - m else m) = n * 2 ^ j)"

lemma f32_isI: "f32_val x = FFin s m (- int j) \<Longrightarrow> 0 \<le> m \<Longrightarrow> (if s then - m else m) = n * 2 ^ j \<Longrightarrow> f32_is x n"
  unfolding f32_is_def by blast

lemma f32_is_zero: "f32_is (word_of_int (f_sign_bit binary32 s)) 0"
  by (rule f32_isI[of _ s 0 149]) (simp_all add: f32_zero)

text \<open>Rounding an integer given with a power of two.\<close>
lemma f32_is_round:
  assumes "c = n * 2 ^ j" "\<bar>n\<bar> < 2 ^ 24" "n \<noteq> 0"
  shows "f32_is (word_of_int (f_round binary32 (c < 0) \<bar>c\<bar> (- int j))) n"
proof -
  have "\<bar>c\<bar> = \<bar>n\<bar> * 2 ^ j" "(c < 0) = (n < 0)" using assms(1) by (simp_all add: abs_mult mult_less_0_iff)
  hence r: "f_round binary32 (c < 0) \<bar>c\<bar> (- int j) = f_round binary32 (n < 0) \<bar>n\<bar> 0"
    using f_round_scale[of "\<bar>n\<bar>" binary32 "n < 0" j 0] assms(3) by simp
  obtain i where "f32_val (word_of_int (f_round binary32 (n < 0) \<bar>n\<bar> 0)) = FFin (n < 0) (\<bar>n\<bar> * 2 ^ i) (0 - int i)"
    by (rule f_round32_exact[of "\<bar>n\<bar>" 0]) (use assms in simp_all)
  thus ?thesis unfolding r by (intro f32_isI[of _ "n < 0" _ i]) (auto simp: abs_if)
qed

lemma f32_is_of_int: "\<bar>n\<bar> < 2 ^ 24 \<Longrightarrow> f32_is (f32_of_int n) n"
proof (cases "n = 0")
  case True
  have "f_round binary32 False 0 0 = f_sign_bit binary32 False"
    by (simp add: f_round_def Let_def round_shift_def int_bits.simps[of 0])
  thus ?thesis using True f32_is_zero[of False] by (simp add: f32_of_int_def)
next
  case False
  assume "\<bar>n\<bar> < 2 ^ 24"
  from f32_is_round[of n n 0, OF _ this False] show ?thesis by (simp add: f32_of_int_def)
qed

lemma min_neg: "min (- int i) (- int j) = - int (max i j)" by simp

lemma rescale:
  assumes "v = n * 2 ^ i"
  shows "v * 2 ^ nat (- int i - - int (max i j)) = (n :: int) * 2 ^ max i j"
proof -
  have "nat (- int i - - int (max i j)) = max i j - i" by simp
  moreover have "(2 :: int) ^ i * 2 ^ (max i j - i) = 2 ^ max i j" by (simp flip: power_add)
  ultimately show ?thesis using assms by simp
qed

lemma f32_is_add_val:
  assumes "f32_val x = FFin s m (- int i)" "(if s then - m else m) = a * 2 ^ i"
    "v = FFin t n (- int j)" "(if t then - n else n) = b * 2 ^ j" "\<bar>a + b\<bar> < 2 ^ 24"
  shows "f32_is (word_of_int (f_add_val binary32 (f32_val x) v)) (a + b)"
proof -
  have c: "a * 2 ^ max i j + b * 2 ^ max j i = (a + b) * 2 ^ max i j" by (simp add: distrib_right max.commute)
  have r: "f_add_val binary32 (f32_val x) v =
     (if (a + b) * 2 ^ max i j = 0 then f_sign_bit binary32 (s \<and> t)
      else f_round binary32 ((a + b) * 2 ^ max i j < 0) \<bar>(a + b) * 2 ^ max i j\<bar> (- int (max i j)))"
    unfolding assms(1,3) f_add_val.simps Let_def min_neg assms(2,4) rescale[OF refl]
    using rescale[OF refl, of b j i] c by (simp only: max.commute)
  show ?thesis
  proof (cases "a + b = 0")
    case True
    thus ?thesis unfolding r True using f32_is_zero[of "s \<and> t"] by simp
  next
    case False
    thus ?thesis unfolding r using f32_is_round[OF refl assms(5) False] by simp
  qed
qed

lemma f32_is_add:
  assumes "f32_is x a" "f32_is y b" "\<bar>a + b\<bar> < 2 ^ 24"
  shows "f32_is (f32_add x y) (a + b)"
proof -
  obtain s m i where x: "f32_val x = FFin s m (- int i)" "(if s then - m else m) = a * 2 ^ i"
    using assms(1) unfolding f32_is_def by blast
  obtain t n j where y: "f32_val y = FFin t n (- int j)" "(if t then - n else n) = b * 2 ^ j"
    using assms(2) unfolding f32_is_def by blast
  show ?thesis unfolding f32_add_def by (rule f32_is_add_val[OF x y assms(3)])
qed

lemma f32_is_sub:
  assumes "f32_is x a" "f32_is y b" "\<bar>a - b\<bar> < 2 ^ 24"
  shows "f32_is (f32_sub x y) (a - b)"
proof -
  obtain s m i where x: "f32_val x = FFin s m (- int i)" "(if s then - m else m) = a * 2 ^ i"
    using assms(1) unfolding f32_is_def by blast
  obtain t n j where y: "f32_val y = FFin t n (- int j)" "(if t then - n else n) = b * 2 ^ j"
    using assms(2) unfolding f32_is_def by blast
  have "f_neg_val (f32_val y) = FFin (\<not> t) n (- int j)" by (simp add: y(1))
  moreover have "(if \<not> t then - n else n) = - b * 2 ^ j" using y(2) by (auto split: if_splits)
  ultimately have "f32_is (word_of_int (f_add_val binary32 (f32_val x) (f_neg_val (f32_val y)))) (a + - b)"
    by (rule f32_is_add_val[OF x]) (use assms(3) in simp)
  thus ?thesis by (simp add: f32_sub_def)
qed

lemma f32_is_mul:
  assumes "f32_is x a" "f32_is y b" "\<bar>a * b\<bar> < 2 ^ 24"
  shows "f32_is (f32_mul x y) (a * b)"
proof -
  obtain s m i where x: "f32_val x = FFin s m (- int i)" "0 \<le> m" "(if s then - m else m) = a * 2 ^ i"
    using assms(1) unfolding f32_is_def by blast
  obtain t n j where y: "f32_val y = FFin t n (- int j)" "0 \<le> n" "(if t then - n else n) = b * 2 ^ j"
    using assms(2) unfolding f32_is_def by blast
  have p: "(if s \<noteq> t then - (m * n) else m * n) = a * b * 2 ^ (i + j)"
  proof -
    have "(if s \<noteq> t then - (m * n) else m * n) = (if s then - m else m) * (if t then - n else n)" by simp
    thus ?thesis unfolding x(3) y(3) by (simp add: power_add)
  qed
  show ?thesis
  proof (cases "m = 0 \<or> n = 0")
    case True
    hence ab: "a * b = 0" using p by (auto split: if_splits)
    show ?thesis unfolding ab using True f32_is_zero[of "s \<noteq> t"] by (simp add: f32_mul_def x(1) y(1))
  next
    case False
    let ?c = "a * b * 2 ^ (i + j)"
    have mn: "0 < m * n" using False x(2) y(2) by simp
    hence ab: "a * b \<noteq> 0" using p by (auto split: if_splits)
    have "m * n = \<bar>?c\<bar>" "(s \<noteq> t) = (?c < 0)" using p mn by (auto split: if_splits)
    hence "f32_mul x y = word_of_int (f_round binary32 (?c < 0) \<bar>?c\<bar> (- int (i + j)))"
      using False by (simp add: f32_mul_def x(1) y(1))
    thus ?thesis using f32_is_round[OF refl assms(3) ab] by (simp only:)
  qed
qed

lemma f32_is_lt:
  assumes "f32_is x a" "f32_is y b"
  shows "f32_lt x y \<longleftrightarrow> a < b"
proof -
  obtain s m i where x: "f32_val x = FFin s m (- int i)" "(if s then - m else m) = a * 2 ^ i"
    using assms(1) unfolding f32_is_def by blast
  obtain t n j where y: "f32_val y = FFin t n (- int j)" "(if t then - n else n) = b * 2 ^ j"
    using assms(2) unfolding f32_is_def by blast
  have "f32_lt x y \<longleftrightarrow> a * 2 ^ max i j < b * 2 ^ max i j"
    unfolding f32_lt_def x(1) y(1) f_lt_val.simps Let_def min_neg x(2) y(2) rescale[OF refl]
    using rescale[OF refl, of b j i] by (simp only: max.commute)
  thus ?thesis by simp
qed

lemma nat_neg_int: "0 \<le> - int j \<longleftrightarrow> j = 0" "nat (- (- int j)) = j" by simp_all

lemma f32_is_floor_val: "f32_is x a \<Longrightarrow> floor_val (f32_val x) = Some a"
  unfolding f32_is_def by (auto simp: Let_def nat_neg_int)

lemma f32_is_mag:
  assumes "f32_is x a"
  obtains s k j where "f32_val x = FFin s (k * 2 ^ j) (- int j)" "a = (if s then - k else k)"
proof -
  obtain s m j where x: "f32_val x = FFin s m (- int j)" "(if s then - m else m) = a * 2 ^ j"
    using assms unfolding f32_is_def by blast
  hence "m = (if s then - a else a) * 2 ^ j" by (auto split: if_splits)
  thus thesis using that[of s "if s then - a else a" j] x(1) by auto
qed

lemma f32_is_trunc: "f32_is x a \<Longrightarrow> f32_trunc x = Some a"
  by (erule f32_is_mag) (simp add: f32_trunc_def Let_def nat_neg_int)

lemma round_shift_exact: "round_shift (n * 2 ^ j) j = n"
  by (simp add: round_shift_def Let_def)

lemma f32_is_roundeven_val: "f32_is x a \<Longrightarrow> roundeven_val (f32_val x) = Some a"
  by (erule f32_is_mag) (simp add: Let_def nat_neg_int round_shift_exact)

lemma f32_is_sign: "f32_is (x AND 0x80000000) 0"
proof -
  have "x AND 0x80000000 = x AND push_bit 31 1" by simp
  also have "\<dots> = word_of_int (f_sign_bit binary32 (bit x 31))"
    unfolding and_single_bit by (simp add: f_sign_bit_def)
  finally show ?thesis using f32_is_zero by simp
qed

lemma f32_is_floor: "f32_is x a \<Longrightarrow> \<bar>a\<bar> < 2 ^ 24 \<Longrightarrow> f32_is (f32_floor x) a"
  unfolding f32_floor_def
  by (cases "a = 0") (simp_all add: f32_is_floor_val f32_is_of_int f32_is_sign)

lemma f32_is_roundeven: "f32_is x a \<Longrightarrow> \<bar>a\<bar> < 2 ^ 24 \<Longrightarrow> f32_is (f32_roundeven x) a"
  unfolding f32_roundeven_def
  by (cases "a = 0") (simp_all add: f32_is_roundeven_val f32_is_of_int f32_is_sign)

end
