(* ===== verification/GxSampler.thy ===== *)
theory GxSampler
  imports TextureObject BitFields Ieee32
begin

text \<open>
  ps5/gpu/gx_sampler.cpp: the hardware sampler descriptor of a texture object.
\<close>

definition address_mode :: "gx_render_enums \<Rightarrow> u32 \<Rightarrow> string + u32" where
  "address_mode x m =
     (if m = GX_CLAMP x then Inr 2 else if m = GX_REPEAT x then Inr 0 else if m = GX_MIRROR x then Inr 1
      else Inl ''Invalid GX sampler wrap mode'')"

text \<open>The switch on the minification filter: linear bit and mip mode.\<close>
definition filter_mode :: "gx_render_enums \<Rightarrow> u32 \<Rightarrow> string + u32 \<times> u32" where
  "filter_mode x f =
     (if f = GX_NEAR x then Inr (0, 0) else if f = GX_LINEAR x then Inr (1, 0)
      else if f = GX_NEAR_MIP_NEAR x then Inr (0, 1) else if f = GX_LIN_MIP_NEAR x then Inr (1, 1)
      else if f = GX_NEAR_MIP_LIN x then Inr (0, 2) else if f = GX_LIN_MIP_LIN x then Inr (1, 2)
      else Inl ''Invalid GX sampler filter'')"

definition aniso_mode :: "gx_render_enums \<Rightarrow> u32 \<Rightarrow> nat \<Rightarrow> string + nat" where
  "aniso_mode x a configured =
     (if a = GX_ANISO_1 x \<or> a = GX_MAX_ANISOTROPY x then Inr 1
      else if a = GX_ANISO_2 x then Inr (max (configured div 2) 1)
      else if a = GX_ANISO_4 x then Inr configured
      else Inl ''Invalid GX anisotropy'')"

text \<open>The 4.4 LOD values convert exactly, so the conversion to \<open>unsigned\<close> is defined (\<open>lod_code_exact\<close>).\<close>
definition lod_code :: "f32 \<Rightarrow> u32" where
  "lod_code lod = (case f32_trunc (f32_mul lod (f32_of_int 256)) of Some i \<Rightarrow> word_of_int i | None \<Rightarrow> 0)"

definition sampler_mip :: "bool \<Rightarrow> u32 \<Rightarrow> u32" where
  "sampler_mip arbitraryMips mip = (if arbitraryMips \<and> mip \<noteq> 0 then 2 else mip)"

definition sampler_lod :: "u32 \<Rightarrow> f32 \<Rightarrow> f32" where
  "sampler_lod mip lod = (if mip \<noteq> 0 then lod else 0)"

text \<open>The loop that counts the halvings of the anisotropy is the one of \<open>max_texture_mip_count\<close>.\<close>
definition sampler_ratio :: "u32 \<Rightarrow> u32 \<Rightarrow> u32 \<Rightarrow> nat \<Rightarrow> u32" where
  "sampler_ratio mag mn mip aniso =
     of_nat (mip_count_loop (if \<not> (mag \<noteq> 0 \<and> mn \<noteq> 0 \<and> mip = 2) then 1 else aniso) 0)"

definition sampler_filter :: "u32 \<Rightarrow> u32 \<Rightarrow> u32" where
  "sampler_filter ratio f = (if ratio \<noteq> 0 then 3 else f)"

definition sampler_words :: "u32 \<Rightarrow> u32 \<Rightarrow> u32 \<Rightarrow> f32 \<Rightarrow> f32 \<Rightarrow> u32 \<Rightarrow> u32 \<Rightarrow> u32 \<Rightarrow> u32 list" where
  "sampler_words ws wt ratio lo hi mag mn mip =
     [ws OR push_bit 3 wt OR push_bit 9 ratio, lod_code lo OR push_bit 12 (lod_code hi),
      push_bit 20 mag OR push_bit 22 mn OR push_bit 24 1 OR push_bit 26 mip, 0]"

definition sampler_mag :: "gx_render_enums \<Rightarrow> GXTexObj \<Rightarrow> u32" where
  "sampler_mag x t = (if mag_filter x t = GX_LINEAR x then 1 else 0)"

definition gx_sampler :: "gx_render_enums \<Rightarrow> GXTexObj \<Rightarrow> bool \<Rightarrow> u16 \<Rightarrow> string + u32 list" where
  "gx_sampler x t arbitraryMips configured =
     (if configured = 0 \<or> configured > 16 \<or> configured AND (configured - 1) \<noteq> 0 then
        Inl ''AGC anisotropy must be 1, 2, 4, 8 or 16''
      else case filter_mode x (min_filter x t) of Inl e \<Rightarrow> Inl e
        | Inr (mn, mip0) \<Rightarrow>
          (let mag = sampler_mag x t;
               mip = sampler_mip arbitraryMips mip0;
               lo = sampler_lod mip (min_lod t);
               hi = sampler_lod mip (max_lod t)
           in if f32_lt hi lo then Inl ''Inverted GX sampler LOD range''
              else case aniso_mode x (max_aniso t) (unat configured) of Inl e \<Rightarrow> Inl e
                | Inr aniso \<Rightarrow>
                  (let ratio = sampler_ratio mag mn mip aniso
                   in case address_mode x (wrap_s t) of Inl e \<Rightarrow> Inl e
                      | Inr ws \<Rightarrow> (case address_mode x (wrap_t t) of Inl e \<Rightarrow> Inl e
                        | Inr wt \<Rightarrow> Inr (sampler_words ws wt ratio lo hi
                            (sampler_filter ratio mag) (sampler_filter ratio mn) mip)))))"

section \<open>Facts\<close>

lemma f32_const_16: "f32_val f32_16 = FFin False (2 ^ 23) (- 19)"
  by code_simp

lemma f32_const_256: "f32_val (f32_of_int 256) = FFin False (2 ^ 23) (- 15)"
  by code_simp

lemma int_bits_2_23: "int_bits (2 ^ 23) = 24"
  by code_simp

text \<open>Division of a small natural number by 16 is exact.\<close>
lemma div16_val:
  assumes "0 < n" "n < 2 ^ 24"
  obtains i where "f32_val (f32_div (f32_of_int n) f32_16) = FFin False (n * 2 ^ i) (- 4 - int i)"
proof -
  obtain s k j where x: "f32_val (f32_of_int n) = FFin s (k * 2 ^ j) (- int j)" "n = (if s then - k else k)"
    using f32_is_mag[OF f32_is_of_int[of n]] assms by (metis abs_of_pos)
  have k0: "0 \<le> k * 2 ^ j" using x(1) by (auto simp: f32_val_def f_decode_def Let_def split: if_splits)
  hence "0 \<le> k" by (simp add: zero_le_mult_iff)
  hence s: "\<not> s" "k = n" using x(2) assms(1) by (auto split: if_splits)
  have q: "n * 2 ^ j * 2 ^ (24 + 2 + 24) div 2 ^ 23 = n * 2 ^ j * 2 ^ 27" "n * 2 ^ j * 2 ^ (24 + 2 + 24) mod 2 ^ 23 = 0"
    by simp_all
  have e: "2 * (n * 2 ^ j * 2 ^ 27) + 0 = n * 2 ^ (j + 28)" "- int j - - 19 - int (24 + 2 + 24) - 1 = - 4 - int (j + 28)"
    by (simp_all add: power_add)
  have nz: "(2 :: int) ^ 23 \<noteq> 0" "n * 2 ^ j \<noteq> 0" using assms(1) by simp_all
  have d: "f32_div (f32_of_int n) f32_16 = word_of_int (f_round binary32 False (n * 2 ^ (j + 28)) (- 4 - int (j + 28)))"
    unfolding f32_div_def x(1) s(2) f32_const_16 f_div_val.simps Let_def fmt32(1) int_bits_2_23 q if_not_P[OF nz(1)]
      if_not_P[OF nz(2)] if_P[OF refl] e using s(1) by simp
  obtain i where "f32_val (word_of_int (f_round binary32 False n (- 4))) = FFin False (n * 2 ^ i) (- 4 - int i)"
    by (rule f_round32_exact[OF assms, of "- 4" False]) simp_all
  thus thesis using that d f_round_scale[OF assms(1)] by metis
qed

lemma lod_code_exact: "lod_code (f32_div (f32_of_u32 (bp_get w 8 sh)) f32_16) = 16 * bp_get w 8 sh"
proof (cases "bp_get w 8 sh = 0")
  case True
  have "lod_code (f32_div (f32_of_int 0) f32_16) = 0" by code_simp
  thus ?thesis using True by (simp add: f32_of_u32_def)
next
  case False
  define n where "n = uint (bp_get w 8 sh)"
  define k where "k = unat (bp_get w 8 sh)"
  have "k < 2 ^ 8" unfolding k_def by (rule fits_unat_less[OF bp_get_fits])
  moreover have "n = int k" by (simp add: n_def k_def)
  ultimately have n8: "n < 256" by simp
  have "0 < n" using False unfolding n_def by (simp add: order_less_le uint_0_iff)
  with n8 have n: "0 < n" "n < 2 ^ 24" "\<bar>16 * n\<bar> < 2 ^ 24" by simp_all
  obtain i where v: "f32_val (f32_div (f32_of_int n) f32_16) = FFin False (n * 2 ^ i) (- 4 - int i)"
    by (rule div16_val[OF n(1,2)])
  have e: "n * 2 ^ i * 2 ^ 23 = 16 * n * 2 ^ (i + 19)" "- 4 - int i + - 15 = 0 - int (i + 19)"
    by (simp_all add: power_add)
  have nz: "\<not> (n * 2 ^ i = 0 \<or> (2 :: int) ^ 23 = 0)" using n by simp
  have "f32_mul (f32_div (f32_of_int n) f32_16) (f32_of_int 256) =
      word_of_int (f_round binary32 False (16 * n * 2 ^ (i + 19)) (0 - int (i + 19)))"
    unfolding f32_mul_def v f32_const_256 f_mul_val.simps if_not_P[OF nz] e by simp
  also have "\<dots> = f32_of_int (16 * n)"
    using f_round_scale[of "16 * n" binary32 False "i + 19" 0] n by (simp add: f32_of_int_def)
  finally have m: "f32_mul (f32_div (f32_of_int n) f32_16) (f32_of_int 256) = f32_of_int (16 * n)" .
  from f32_is_trunc[OF f32_is_of_int[OF n(3)]] show ?thesis
    unfolding lod_code_def f32_of_u32_def n_def[symmetric] m
    by (simp add: n_def)
qed

lemma lod_code_zero: "lod_code 0 = 0"
  by code_simp

lemma lod_rv:
  assumes "0 \<le> n" "n < 2 ^ 24"
  shows "\<exists>m e. f32_val (f32_div (f32_of_int n) f32_16) = FFin False m e \<and> rv (FFin False m e) = real_of_int n / 16"
proof (cases "n = 0")
  case True
  have "f32_val (f32_div (f32_of_int 0) f32_16) = FFin False 0 (- 149)" by code_simp
  thus ?thesis using True by simp
next
  case False
  hence "0 < n" using assms(1) by simp
  then obtain i where v: "f32_val (f32_div (f32_of_int n) f32_16) = FFin False (n * 2 ^ i) (- 4 - int i)"
    using div16_val assms(2) by metis
  have "real_of_int (n * 2 ^ i) * 2 powi (- 4 - int i) = real_of_int n * (2 ^ i * 2 powi (- 4 - int i))" by simp
  also have "(2 :: real) ^ i * 2 powi (- 4 - int i) = 2 powi (int i + (- 4 - int i))"
    by (subst power_int_add) simp_all
  also have "\<dots> = 1 / 16" by (simp add: power_int_def power_one_over)
  finally show ?thesis using v by auto
qed

lemma lod_order:
  "f32_lt (f32_div (f32_of_u32 (bp_get a 8 i)) f32_16) (f32_div (f32_of_u32 (bp_get b 8 j)) f32_16) \<longleftrightarrow>
   bp_get a 8 i < bp_get b 8 j"
proof -
  have r: "0 \<le> uint (bp_get c 8 k) \<and> uint (bp_get c 8 k) < 2 ^ 24" for c k
  proof -
    define m where "m = unat (bp_get c 8 k)"
    have "m < 2 ^ 8" unfolding m_def by (rule fits_unat_less[OF bp_get_fits])
    moreover have "uint (bp_get c 8 k) = int m" by (simp add: m_def)
    ultimately show ?thesis by simp
  qed
  obtain m e where a: "f32_val (f32_div (f32_of_u32 (bp_get a 8 i)) f32_16) = FFin False m e"
    "rv (FFin False m e) = real_of_int (uint (bp_get a 8 i)) / 16"
    using lod_rv r unfolding f32_of_u32_def by blast
  obtain n d where b: "f32_val (f32_div (f32_of_u32 (bp_get b 8 j)) f32_16) = FFin False n d"
    "rv (FFin False n d) = real_of_int (uint (bp_get b 8 j)) / 16"
    using lod_rv r unfolding f32_of_u32_def by blast
  have "real_of_int p / 16 < real_of_int q / 16 \<longleftrightarrow> p < q" for p q by simp
  thus ?thesis unfolding f32_lt_def a(1) b(1) f_lt_rv a(2) b(2) word_less_alt by (simp only:)
qed

lemma lod_fields:
  assumes "fits 8 a" "fits 8 b"
  shows "bp_get (16 * a OR push_bit 12 (16 * b)) 12 0 = 16 * a" "bp_get (16 * a OR push_bit 12 (16 * b)) 12 12 = 16 * b"
proof -
  have f: "fits 12 (16 * c)" if "fits 8 c" for c :: u32
  proof -
    have "16 * c = push_bit 4 c" by (simp add: push_bit_eq_mult)
    moreover have "fits 12 (push_bit 4 c)"
      unfolding fits_def by (rule bit_word_eqI) (use fits_bit[OF that] in \<open>fastforce simp: bit_simps\<close>)
    ultimately show ?thesis by simp
  qed
  show "bp_get (16 * a OR push_bit 12 (16 * b)) 12 0 = 16 * a" "bp_get (16 * a OR push_bit 12 (16 * b)) 12 12 = 16 * b"
    using f[OF assms(1)] f[OF assms(2)]
    by (simp_all add: bp_get_here0 bp_get_here bp_get_above bp_get_below0[OF f[OF assms(1)]])
qed

lemma address_fits: "address_mode x m = Inr v \<Longrightarrow> fits 3 v"
  unfolding address_mode_def by (auto split: if_splits simp: fits_def)

lemma filter_fits: "filter_mode x f = Inr (mn, mip) \<Longrightarrow> mn \<le> 1 \<and> mip \<le> 2"
  unfolding filter_mode_def by (auto split: if_splits)

text \<open>The fields of the descriptor.\<close>
lemma sampler_fields:
  assumes "gx_sampler x t arb conf = Inr ws"
  obtains mip where "length ws = 4" "mip \<le> 2" "bp_get (ws ! 2) 2 26 = mip"
    "bp_get (ws ! 1) 12 0 = (if mip \<noteq> 0 then 16 * bp_get (to_mode1 t) 8 0 else 0)"
    "bp_get (ws ! 1) 12 12 = (if mip \<noteq> 0 then 16 * bp_get (to_mode1 t) 8 8 else 0)"
    "address_mode x (wrap_s t) = Inr (bp_get (ws ! 0) 3 0)"
    "address_mode x (wrap_t t) = Inr (bp_get (ws ! 0) 3 3)"
    "mip \<noteq> 0 \<Longrightarrow> bp_get (to_mode1 t) 8 0 \<le> bp_get (to_mode1 t) 8 8"
proof -
  from assms obtain mn mip0 aniso aw bw where fm: "filter_mode x (min_filter x t) = Inr (mn, mip0)"
    and nlt: "\<not> f32_lt (sampler_lod (sampler_mip arb mip0) (max_lod t)) (sampler_lod (sampler_mip arb mip0) (min_lod t))"
    and ad: "address_mode x (wrap_s t) = Inr aw" "address_mode x (wrap_t t) = Inr bw"
    and w: "ws = (let mip = sampler_mip arb mip0; ratio = sampler_ratio (sampler_mag x t) mn mip aniso
       in sampler_words aw bw ratio (sampler_lod mip (min_lod t)) (sampler_lod mip (max_lod t))
         (sampler_filter ratio (sampler_mag x t)) (sampler_filter ratio mn) mip)"
    unfolding gx_sampler_def Let_def by (auto split: if_splits sum.splits)
  define mip where "mip = sampler_mip arb mip0"
  obtain ratio where r: "ratio = sampler_ratio (sampler_mag x t) mn mip aniso" by blast
  define mag' where "mag' = sampler_filter ratio (sampler_mag x t)"
  define mn' where "mn' = sampler_filter ratio mn"
  have ws: "ws = sampler_words aw bw ratio (sampler_lod mip (min_lod t)) (sampler_lod mip (max_lod t)) mag' mn' mip"
    unfolding w Let_def mip_def[symmetric] r[symmetric] mag'_def mn'_def ..
  have f: "fits 3 aw" "fits 3 bw" using ad address_fits by blast+
  have m: "mip \<le> 2" "fits 2 mip"
  proof -
    show "mip \<le> 2" using filter_fits[OF fm] by (auto simp: mip_def sampler_mip_def)
    thus "fits 2 mip" by (simp add: fits_iff_unat word_le_nat_alt)
  qed
  have g: "fits 2 mag'" "fits 2 mn'" "fits 1 (1 :: u32)"
    using filter_fits[OF fm] by (auto simp: mag'_def mn'_def sampler_filter_def sampler_mag_def fits_iff_unat word_le_nat_alt)
  have lods: "lod_code (min_lod t) = 16 * bp_get (to_mode1 t) 8 0" "lod_code (max_lod t) = 16 * bp_get (to_mode1 t) 8 8"
    unfolding min_lod_def max_lod_def by (rule lod_code_exact)+
  show thesis
  proof (rule that[of mip])
    show "length ws = 4" by (simp add: ws sampler_words_def)
    have "bp_get 16777216 2 26 = 0" by (simp add: bp_get_def)
    thus "bp_get (ws ! 2) 2 26 = mip"
      by (simp add: ws sampler_words_def bp_get_here[OF m(2)] bp_get_below[OF g(1)] bp_get_below[OF g(2)] bp_get_below[OF g(3)])
    show "bp_get (ws ! 1) 12 0 = (if mip \<noteq> 0 then 16 * bp_get (to_mode1 t) 8 0 else 0)"
      "bp_get (ws ! 1) 12 12 = (if mip \<noteq> 0 then 16 * bp_get (to_mode1 t) 8 8 else 0)"
      using lod_fields[OF bp_get_fits bp_get_fits] by (simp_all add: ws sampler_words_def sampler_lod_def lods lod_code_zero) (simp_all add: bp_get_def)
    show "address_mode x (wrap_s t) = Inr (bp_get (ws ! 0) 3 0)" "address_mode x (wrap_t t) = Inr (bp_get (ws ! 0) 3 3)"
      using ad by (simp_all add: ws sampler_words_def bp_get_here0[OF f(1)] bp_get_here[OF f(2)] bp_get_above bp_get_below0[OF f(1)])
    show "bp_get (to_mode1 t) 8 0 \<le> bp_get (to_mode1 t) 8 8" if "mip \<noteq> 0"
      using nlt that unfolding mip_def[symmetric] min_lod_def max_lod_def by (simp add: sampler_lod_def lod_order not_less)
  qed (rule m(1))
qed

end
