(* ===== verification/TextureProps.thy ===== *)
theory TextureProps
  imports GxTextureCacheLemmas GxSampler
begin

text \<open>
  The properties of the texture path: the tiled layout, the texture cache, the texture object
  accessors and the sampler descriptor.  The witnesses run a cache over a small environment.
\<close>

section \<open>Instances for the witnesses\<close>

text \<open>A polynomial digest, no write tracking, and a converter that repeats the first byte.\<close>
definition demo_digest :: "u8 list \<Rightarrow> u64" where
  "demo_digest bs = fold (\<lambda>b h. h * 257 + ucast b + 1) bs 0"

definition demo_env :: texture_env where
  "demo_env = \<lparr>xxh3_hash_s = demo_digest, kGuestWriteUntracked = 0, generation_hook = None,
     tex_buffer_size = (\<lambda>w h f m l. unat w * unat h * 4),
     convert_texture = (\<lambda>f w h l bs. Inl ''not converted''),
     convert_texture_palette = (\<lambda>f w h l bs tf n ps. Inl ''not converted''),
     gpu_upload_fails = (\<lambda>lay bs. None)\<rparr>"

definition demo_texture :: GXTexObj where
  "demo_texture = (GXTexObj_init sdk_enums)\<lparr>to_mWidth := 1, to_mHeight := 1, to_mFormat := 0x61, to_data := 64\<rparr>"

abbreviation (input) demo_source :: source where "demo_source \<equiv> (64, [1, 2, 3, 4])"

definition demo_resolve :: "GxTextureCache \<Rightarrow> ((string + GxTexture) \<times> GxTextureCache) option" where
  "demo_resolve = resolve demo_env sdk_enums sdk_texture demo_texture demo_source None (0, [])"

definition demo_layout :: TextureLayout where
  "demo_layout = \<lparr>tx_width = 1, tx_height = 1, tx_count = 1, tx_bytes = 65536, tx_linearBytes = 4,
     tx_mips = [\<lparr>mp_width = 1, mp_height = 1, mp_paddedWidth = 128, mp_tailX = 0, mp_tailY = 0, mp_offset = 0\<rparr>]\<rparr>"

definition demo_uploaded :: GxTexture where
  "demo_uploaded = \<lparr>gt_layout = demo_layout, gt_rgba = [1, 2, 3, 4], gt_arbitrary = False\<rparr>"

definition demo_mem :: "u64 \<Rightarrow> nat \<Rightarrow> u8 list" where
  "demo_mem a n = (if a = 64 then take n [1, 2, 3, 4] else [])"

lemma demo_fields:
  "to_width demo_texture = 1" "to_height demo_texture = 1" "to_format demo_texture = 0x61" "mip_count demo_texture = 1"
  "to_data demo_texture = 64" "to_flags demo_texture = 0" "\<not> indexed sdk_texture 0x61"
  by (simp_all add: demo_texture_def GXTexObj_init_def to_width_def to_height_def to_format_def mip_count_def
      has_mips_def InvalidTextureFormat_def indexed_def sdk_texture_def)

lemma loop_one: "mip_count_loop (Suc 0) n = n"
  by (simp add: mip_count_loop.simps)

lemma demo_new: "TextureLayout_new 1 1 1 = Inr demo_layout"
  by (simp add: TextureLayout_new_def loop_one layout_level_def starts_tail_def ceil_mip_def aligned_def
      linear_bytes_def upd_at_def demo_layout_def)

lemma demo_pixel: "pixel_offset demo_layout 0 0 0 = Inr 0"
  by (simp add: demo_layout_def pixel_offset_def tx_mip_def mip_texel_offset_def swizzle_def)

lemma demo_texture_layout: "texture_layout demo_texture = Inr demo_layout"
  using demo_new by (simp add: texture_layout_def demo_fields)

lemma demo_sources:
  "resolve_sources demo_env sdk_enums sdk_texture demo_texture [1, 2, 3, 4] None [] = Inr ([1, 2, 3, 4], [])"
  by (simp add: resolve_sources_def source_byte_size_def demo_texture_layout demo_fields demo_layout_def)
     (simp add: validate_format_def sdk_texture_def demo_env_def)

lemma demo_upload: "upload_texture demo_env sdk_texture demo_texture [1, 2, 3, 4] None [] = Inr demo_uploaded"
  by (simp add: upload_texture_def demo_texture_layout decode_texture_def demo_fields demo_uploaded_def)
     (simp add: sdk_texture_def demo_env_def demo_layout_def)

lemma demo_cacheable: "cacheable sdk_texture demo_texture None"
  by (simp add: cacheable_def demo_fields no_cache_def)

lemma new_cache_ok: "cache_ok (GxTextureCache_new n)" "memo_valid e mem (GxTextureCache_new n)"
    "entries_from e x B (GxTextureCache_new n)"
  by (simp_all add: cache_ok_def GxTextureCache_new_def total_bytes_def memo_valid_def entries_from_def)

lemma demo_holds: "holds_at demo_mem 64 [1, 2, 3, 4]" "holds_at demo_mem 0 []"
  by (simp_all add: holds_at_def demo_mem_def)

lemma demo_digest_inj: "inj_on (xxh3_hash_s demo_env) {[], [1], [1, 2], [1, 2, 3], [1, 2, 3, 4]}"
  by (simp add: inj_on_def demo_env_def demo_digest_def)

lemma sixteen_mono: "a \<le> b \<Longrightarrow> fits 8 b \<Longrightarrow> 16 * a \<le> 16 * (b :: u32)"
proof -
  assume ab: "a \<le> b" and "fits 8 b"
  hence b: "unat b < 256" using fits_unat_less[of 8 b] by simp
  have "unat (16 * v) = 16 * unat v" if "unat v < 256" for v :: u32
    using that by (simp add: unat_word_ariths)
  moreover have "unat a \<le> unat b" using ab by (simp add: word_le_nat_alt)
  ultimately show ?thesis using b by (simp add: word_le_nat_alt)
qed

lemma demo_takes: "take n [1, 2, 3, 4 :: u8] \<in> {[], [1], [1, 2], [1, 2, 3], [1, 2, 3, 4]}" "take n [] \<in> {[], [1 :: u8], [1, 2], [1, 2, 3], [1, 2, 3, 4]}"
  by (auto simp: take_Cons split: nat.splits)

section \<open>The tiled layout\<close>

text \<open>C33. Two different texels of a texture, on the same or on different mip levels and also inside the
  mip tail, occupy disjoint groups of four bytes, and both lie inside the allocation.\<close>
theorem texels_disjoint_in_bounds:
  assumes "TextureLayout_new w h n = Inr lay" "pixel_offset lay x y l = Inr a" "pixel_offset lay x' y' l' = Inr b"
    "(l, x, y) \<noteq> (l', x', y')"
  shows "(a + 4 \<le> b \<or> b + 4 \<le> a) \<and> a + 4 \<le> tx_bytes lay \<and> b + 4 \<le> tx_bytes lay"
  using texels_apart[OF assms] texel_place(4)[OF assms(1,2) refl] texel_place(4)[OF assms(1,3) refl] by blast

lemma wide_new: "\<exists>lay. TextureLayout_new 2 1 1 = Inr lay \<and> pixel_offset lay 0 0 0 = Inr 0 \<and>
    pixel_offset lay 1 0 0 = Inr 4 \<and> tx_bytes lay = 65536"
proof -
  have "mip_count_loop (Suc (Suc 0)) (Suc 0) = 2" by (simp add: mip_count_loop.simps)
  thus ?thesis
    by (simp add: TextureLayout_new_def layout_level_def starts_tail_def ceil_mip_def aligned_def
        linear_bytes_def upd_at_def pixel_offset_def tx_mip_def mip_texel_offset_def swizzle_def)
qed

theorem texels_disjoint_in_bounds_witness:
  "\<exists>lay a b. TextureLayout_new 2 1 1 = Inr lay \<and> pixel_offset lay 0 0 0 = Inr a \<and> pixel_offset lay 1 0 0 = Inr b \<and>
    (a + 4 \<le> b \<or> b + 4 \<le> a) \<and> a + 4 \<le> tx_bytes lay \<and> b + 4 \<le> tx_bytes lay"
proof -
  obtain lay where l: "TextureLayout_new 2 1 1 = Inr lay" "pixel_offset lay 0 0 0 = Inr 0" "pixel_offset lay 1 0 0 = Inr 4"
    using wide_new by blast
  with texels_disjoint_in_bounds[OF l] show ?thesis by auto
qed

text \<open>C34. Tiling copies every texel of the linear image to the place \<open>pixel_offset\<close> names and leaves the
  storage beyond the texture unchanged: nothing is lost and nothing is written twice.\<close>
theorem tile_places_every_texel:
  assumes "TextureLayout_new w h n = Inr lay" "tx_bytes lay \<le> length storage" "length pixels = tx_linearBytes lay"
    "\<not> buffers_overlap lay dst src"
  shows "\<exists>st'. tile lay dst storage src pixels = Some (Inr st') \<and> length st' = length storage \<and>
    drop (tx_bytes lay) st' = drop (tx_bytes lay) storage \<and>
    (\<forall>i<length (layout_texels lay). \<forall>k<4.
       st' ! (texel_at lay (layout_texels lay ! i) + k) = pixels ! (4 * i + k))"
  by (rule tile_copies) (use assms in auto)

theorem tile_places_every_texel_witness:
  "\<exists>st'. tile demo_layout 0 (replicate 65537 7) 100000 [1, 2, 3, 4] = Some (Inr st') \<and> length st' = 65537 \<and>
    drop 65536 st' = [7] \<and> st' ! 0 = 1 \<and> st' ! 3 = 4"
proof -
  have d: "tx_bytes demo_layout = 65536" "length [1, 2, 3, 4 :: u8] = tx_linearBytes demo_layout"
    "\<not> buffers_overlap demo_layout 0 100000" "layout_texels demo_layout = [(0, 0, 0)]" "texel_at demo_layout (0, 0, 0) = 0"
    by (simp_all add: demo_layout_def buffers_overlap_def layout_texels_def mip_texels_def texel_at_def
        mip_texel_offset_def swizzle_def)
  from tile_places_every_texel[OF demo_new _ d(2,3), of "replicate 65537 7"]
  obtain st' where s: "tile demo_layout 0 (replicate 65537 7) 100000 [1, 2, 3, 4] = Some (Inr st')" "length st' = 65537"
    "drop 65536 st' = [7]" and v: "\<And>k. k < 4 \<Longrightarrow> st' ! k = [1, 2, 3, 4] ! k"
    by (auto simp: d)
  show ?thesis using s v[of 0] v[of 3] by auto
qed

section \<open>The texture cache\<close>

text \<open>C31. A request to the texture cache always returns (a texture or an exception): the eviction loop
  never runs out of entries, and afterwards the cache is inside its budget, counts its bytes exactly,
  holds each key once and no entry is younger than the clock.\<close>
theorem texture_cache_keeps_budget:
  assumes "cache_ok c"
  shows "\<exists>r c'. resolve e g x t src pal psrc c = Some (r, c') \<and> cache_ok c'"
  by (rule resolve_ok[OF assms])

theorem texture_cache_keeps_budget_witness:
  "\<exists>r c'. demo_resolve (GxTextureCache_new 100000) = Some (r, c') \<and> cache_ok c'"
  unfolding demo_resolve_def by (rule texture_cache_keeps_budget[OF new_cache_ok(1)])

text \<open>C30. The cache is transparent: as long as the digests of the byte strings in play differ and the
  remembered digests are those of the current bytes, a request answers what a fresh conversion and
  upload of the current bytes would, errors included, and the two facts hold again afterwards.\<close>
theorem texture_cache_is_transparent:
  assumes "inj_on (xxh3_hash_s e) B" "cache_ok c" "memo_valid e mem c" "entries_from e x B c"
    "holds_at mem (fst src) (snd src)" "holds_at mem (fst psrc) (snd psrc)"
    "\<And>n. take n (snd src) \<in> B" "\<And>n. take n (snd psrc) \<in> B"
    "resolve e g x t src pal psrc c = Some (r, c')"
  shows "r = (case resolve_sources e g x t (snd src) pal (snd psrc) of Inl err \<Rightarrow> Inl err
      | Inr (bytes, pbytes) \<Rightarrow> upload_texture e x t bytes pal pbytes) \<and>
    memo_valid e mem c' \<and> entries_from e x B c'"
  using resolve_transparent[OF assms] by blast

theorem texture_cache_is_transparent_witness:
  "\<exists>c'. demo_resolve (GxTextureCache_new 100000) = Some (Inr demo_uploaded, c')"
proof -
  obtain r c' where r: "demo_resolve (GxTextureCache_new 100000) = Some (r, c')"
    using resolve_ok[OF new_cache_ok(1), of demo_env sdk_enums sdk_texture demo_texture demo_source None "(0, [])" 100000]
    by (auto simp: demo_resolve_def)
  have "r = Inr demo_uploaded"
    using texture_cache_is_transparent[OF demo_digest_inj new_cache_ok _ _ _ _ r[unfolded demo_resolve_def], of demo_mem]
      demo_holds demo_takes by (simp add: demo_sources demo_upload)
  thus ?thesis using r by blast
qed

lemma demo_resolved: "\<exists>c'. demo_resolve (GxTextureCache_new 100000) = Some (Inr demo_uploaded, c')"
proof -
  obtain r c' where r: "demo_resolve (GxTextureCache_new 100000) = Some (r, c')"
    using resolve_ok[OF new_cache_ok(1), of demo_env sdk_enums sdk_texture demo_texture demo_source None "(0, [])" 100000]
    by (auto simp: demo_resolve_def)
  have "r = Inr demo_uploaded"
    using resolve_transparent(1)[OF demo_digest_inj new_cache_ok _ _ _ _ r[unfolded demo_resolve_def], of demo_mem]
      demo_holds demo_takes by (simp add: demo_sources demo_upload)
  thus ?thesis using r by blast
qed

text \<open>C32. A texture that was delivered, fits the budget and is not marked no-cache (nor, where it has one, its
  palette) is still cached when it is asked for again with unchanged bytes: the request is a hit with the
  same pixels and uploads nothing.\<close>
theorem texture_request_hits_again:
  assumes "cache_ok c" "memo_valid e mem c" "holds_at mem (fst src) (snd src)" "holds_at mem (fst psrc) (snd psrc)"
    "cacheable x t pal" "resolve e g x t src pal psrc c = Some (Inr tex, c')" "tx_bytes (gt_layout tex) \<le> tc_budget c"
  shows "\<exists>c''. resolve e g x t src pal psrc c' = Some (Inr tex, c'') \<and>
    tc_uploads c'' = tc_uploads c' \<and> tc_hits c'' = tc_hits c' + 1"
  by (rule resolve_again[OF assms])

theorem texture_request_hits_again_witness:
  "\<exists>c' c''. demo_resolve (GxTextureCache_new 100000) = Some (Inr demo_uploaded, c') \<and>
    demo_resolve c' = Some (Inr demo_uploaded, c'') \<and> tc_uploads c'' = tc_uploads c' \<and> tc_hits c'' = tc_hits c' + 1"
proof -
  obtain c' where c: "demo_resolve (GxTextureCache_new 100000) = Some (Inr demo_uploaded, c')"
    using demo_resolved by blast
  have "tx_bytes (gt_layout demo_uploaded) \<le> tc_budget (GxTextureCache_new 100000)"
    by (simp add: demo_uploaded_def demo_layout_def GxTextureCache_new_def)
  from texture_request_hits_again[OF new_cache_ok(1,2) _ _ demo_cacheable c[unfolded demo_resolve_def] this, of demo_mem]
  show ?thesis using c demo_holds by (auto simp: demo_resolve_def)
qed

section \<open>Texture objects and samplers\<close>

text \<open>C40. A texture whose size comes from the image register (as after a BP write, which clears the
  object's own size) and is 1024 texels wide reads back as width 0, and the cache refuses it.\<close>
theorem bp_texture_1024_wide_refused:
  assumes "to_mWidth t = 0" "bp_get (to_image0 t) 10 0 = 1023"
  shows "to_width t = 0 \<and> (\<exists>err. resolve e g x t src pal psrc c = Some (Inl err, c))"
proof -
  have w: "to_width t = 0" using assms by (simp add: to_width_def)
  hence "texture_layout t = Inl ''Invalid AGC texture dimensions/mips''"
    by (simp add: texture_layout_def TextureLayout_new_def)
  thus ?thesis using w by (auto simp: resolve_def resolve_sources_def source_byte_size_def split: sum.splits)
qed

theorem bp_texture_1024_wide_refused_witness:
  "\<exists>err. resolve demo_env sdk_enums sdk_texture (demo_texture\<lparr>to_mWidth := 0, to_image0 := 0x000FFFFF\<rparr>) demo_source None (0, [])
     (GxTextureCache_new 100000) = Some (Inl err, GxTextureCache_new 100000)"
  using bp_texture_1024_wide_refused[of "demo_texture\<lparr>to_mWidth := 0, to_image0 := 0x000FFFFF\<rparr>" demo_env sdk_enums
      sdk_texture demo_source None "(0, [])" "GxTextureCache_new 100000"]
  by (simp add: bp_get_def)

text \<open>The number of mip levels of a texture object is at least one and never more than its
  dimensions allow, so the layout constructor never refuses it for its level count.\<close>
theorem mip_count_within_dimensions:
  "1 \<le> mip_count t \<and> mip_count t \<le> max_texture_mip_count (to_width t) (to_height t) \<and>
   TextureLayout_new (unat (to_width t)) (unat (to_height t)) (mip_count t) \<noteq> Inl ''Too many AGC texture mips''"
  using mip_count_bounds[of t]
  by (simp add: TextureLayout_new_def max_texture_mip_count_def Let_def split_beta)

text \<open>C38. The sampler descriptor holds the level range of the texture object exactly (4.4 fixed point as
  4.8), ordered whenever mip levels are used, and the wrap modes the object names.\<close>
theorem sampler_holds_lod_range:
  assumes "gx_sampler x t arb conf = Inr ws"
  shows "\<exists>mip. bp_get (ws ! 2) 2 26 = mip \<and> mip \<le> 2 \<and>
    bp_get (ws ! 1) 12 0 = (if mip \<noteq> 0 then 16 * bp_get (to_mode1 t) 8 0 else 0) \<and>
    bp_get (ws ! 1) 12 12 = (if mip \<noteq> 0 then 16 * bp_get (to_mode1 t) 8 8 else 0) \<and>
    bp_get (ws ! 1) 12 0 \<le> bp_get (ws ! 1) 12 12 \<and>
    address_mode x (wrap_s t) = Inr (bp_get (ws ! 0) 3 0) \<and> address_mode x (wrap_t t) = Inr (bp_get (ws ! 0) 3 3)"
proof -
  obtain mip where m: "mip \<le> 2" "bp_get (ws ! 2) 2 26 = mip"
    "bp_get (ws ! 1) 12 0 = (if mip \<noteq> 0 then 16 * bp_get (to_mode1 t) 8 0 else 0)"
    "bp_get (ws ! 1) 12 12 = (if mip \<noteq> 0 then 16 * bp_get (to_mode1 t) 8 8 else 0)"
    "address_mode x (wrap_s t) = Inr (bp_get (ws ! 0) 3 0)" "address_mode x (wrap_t t) = Inr (bp_get (ws ! 0) 3 3)"
    "mip \<noteq> 0 \<Longrightarrow> bp_get (to_mode1 t) 8 0 \<le> bp_get (to_mode1 t) 8 8"
    by (rule sampler_fields[OF assms]) metis
  have "mip \<noteq> 0 \<Longrightarrow> 16 * bp_get (to_mode1 t) 8 0 \<le> 16 * bp_get (to_mode1 t) 8 8"
    by (rule sixteen_mono[OF m(7) bp_get_fits])
  thus ?thesis using m by auto
qed

definition mipped_texture :: GXTexObj where
  "mipped_texture = demo_texture\<lparr>to_mode0 := 192, to_mode1 := 0x4010\<rparr>"

theorem sampler_holds_lod_range_witness:
  "gx_sampler sdk_render mipped_texture False 16 = Inr [18, 4194560, 155189248, 0] \<and>
   bp_get (4194560 :: u32) 12 0 \<le> bp_get 4194560 12 12"
proof -
  have g: "gx_sampler sdk_render mipped_texture False 16 = Inr [18, 4194560, 155189248, 0]" by code_simp
  from sampler_holds_lod_range[OF g] show ?thesis using g by auto
qed

end
