(* ===== verification/GxShaderConfig.thy ===== *)
theory GxShaderConfig
  imports GxInit GxSdkTexture Ieee
begin

text \<open>
  The second half of gx/register_state.hpp: the format predicates, the conversions of an indirect
  matrix, and the analysis of a shader configuration that decides which texture coordinates and
  maps a TEV stage needs.  A C++ \<open>int\<close> result is an \<open>int\<close> here (all are small).
\<close>

section \<open>Formats\<close>

definition render_target_has_alpha :: "GXPixelFmt \<Rightarrow> bool" where
  "render_target_has_alpha f \<longleftrightarrow> f = PF_RGBA6_Z24"

text \<open>\<open>exp2f\<close> of an integral argument is exact.\<close>
definition indirect_matrix_scale_multiplier :: "u8 \<Rightarrow> f32" where
  "indirect_matrix_scale_multiplier scaleExp = f32_ldexp (f32_of_int 1) (sint scaleExp)"

text \<open>\<open>lround\<close>: to the nearest integer, halves away from zero.\<close>
fun lround_val :: "fval \<Rightarrow> int option" where
  "lround_val (FFin s m e) =
     (let v = (if e \<ge> 0 then m * 2 ^ nat e else (m + 2 ^ nat (- e - 1)) div 2 ^ nat (- e))
      in Some (if s then - v else v))"
| "lround_val _ = None"

definition indirect_matrix_mantissa :: "f32 \<Rightarrow> s32 option" where
  "indirect_matrix_mantissa v =
     map_option word_of_int (lround_val (f32_val (f32_mul v (f32_of_int 1024))))"

definition indirect_matrix_shift :: "u8 \<Rightarrow> s32" where
  "indirect_matrix_shift scaleExp = word_of_int (- sint scaleExp)"

definition is_palette_format :: "gx_texture_enums \<Rightarrow> u32 \<Rightarrow> bool" where
  "is_palette_format t fmt \<longleftrightarrow> fmt = GX_TF_C4 t \<or> fmt = GX_TF_C8 t \<or> fmt = GX_TF_C14X2 t"

definition is_depth_format :: "gx_texture_enums \<Rightarrow> u32 \<Rightarrow> bool" where
  "is_depth_format t fmt \<longleftrightarrow> fmt = GX_TF_Z8 t \<or> fmt = GX_TF_Z16 t \<or> fmt = GX_TF_Z24X8 t \<or>
     fmt = GX_CTF_Z4 t \<or> fmt = GX_CTF_Z8M t \<or> fmt = GX_CTF_Z8L t \<or> fmt = GX_CTF_Z16L t"

definition copy_texture_format_compatible :: "gx_texture_enums \<Rightarrow> u32 \<Rightarrow> u32 \<Rightarrow> bool" where
  "copy_texture_format_compatible t copyFmt sampleFmt =
     (if copyFmt = sampleFmt then True
      else if copyFmt = GX_CTF_R4 t then sampleFmt = GX_TF_I4 t
      else if copyFmt = GX_CTF_R8 t \<or> copyFmt = GX_CTF_G8 t \<or> copyFmt = GX_CTF_B8 t \<or> copyFmt = GX_CTF_A8 t
        then sampleFmt = GX_TF_I8 t \<or> sampleFmt = GX_TF_A8 t
      else if copyFmt = GX_CTF_RA4 t then sampleFmt = GX_TF_IA4 t
      else if copyFmt = GX_CTF_RA8 t \<or> copyFmt = GX_CTF_RG8 t \<or> copyFmt = GX_CTF_GB8 t \<or> copyFmt = GX_TF_Z16 t
        then sampleFmt = GX_TF_IA8 t
      else if copyFmt = GX_CTF_YUVA8 t then sampleFmt = GX_TF_RGBA8 t
      else if copyFmt = GX_TF_Z24X8 t then sampleFmt = GX_TF_RGBA8 t
      else False)"

section \<open>Shader configuration\<close>

record AttrConfig =
  at_attrType :: u8
  at_cnt :: u8
  at_compType :: u8
  at_offset :: u8
  at_stride :: u8
  at_frac :: u8
  at_le :: bool
  at_nrmIndexCount :: u8

record ShaderConfig =
  sc_fogType :: u8
  sc_vtxStride :: u8
  sc_lineMode :: u8
  sc_dualTexEnabled :: bool
  sc_fogRangeAdjust :: bool
  sc_numTexGens :: u8
  sc_zTexture :: u32
  sc_attrs :: "AttrConfig list"
  sc_tevSwapTable :: "TevSwap list"
  sc_tevStages :: "TevStage list"
  sc_tevStageCount :: u32
  sc_colorChannels :: "ColorChannelConfig list"
  sc_tcgs :: "TcgConfig list"
  sc_alphaCompare :: AlphaCompare
  sc_indStages :: "IndStage list"
  sc_numIndStages :: u32

definition shader_vertex_color_attr :: "gx_enums \<Rightarrow> ShaderConfig \<Rightarrow> u32 \<Rightarrow> int" where
  "shader_vertex_color_attr g c channel =
     (let hasColor0 = ucast (at_attrType (sc_attrs c ! GX_VA_CLR0)) \<noteq> GX_NONE g;
          hasColor1 = ucast (at_attrType (sc_attrs c ! GX_VA_CLR1)) \<noteq> GX_NONE g
      in if channel = 0 \<and> hasColor0 then int GX_VA_CLR0
         else if channel = 0 \<and> hasColor1 then int GX_VA_CLR1
         else if channel = 1 \<and> hasColor0 \<and> hasColor1 then int GX_VA_CLR1
         else -1)"

definition tev_stage_needs_fixed_texcoord_state :: "gx_enums \<Rightarrow> ShaderConfig \<Rightarrow> u32 \<Rightarrow> bool" where
  "tev_stage_needs_fixed_texcoord_state g c stageIdx =
     (if stageIdx \<ge> sc_tevStageCount c then False
      else
        (let stage = sc_tevStages c ! unat stageIdx;
             hasCoordOperation = (indTexMtxId stage \<noteq> GX_ITM_OFF g \<or> indTexWrapS stage \<noteq> GX_ITW_OFF g \<or>
               indTexWrapT stage \<noteq> GX_ITW_OFF g \<or> indTexAddPrev stage);
             feedsNextAddPrev = (stageIdx + 1 < sc_tevStageCount c \<and>
               indTexAddPrev (sc_tevStages c ! unat (stageIdx + 1)))
         in hasCoordOperation \<or> feedsNextAddPrev))"

definition tev_stage_has_texture_map :: "gx_enums \<Rightarrow> TevStage \<Rightarrow> bool" where
  "tev_stage_has_texture_map g stage \<longleftrightarrow>
     texMapId stage \<noteq> GX_TEXMAP_NULL g \<and> unat (texMapId stage) < MaxTextures"

definition tev_indirect_wrap_mask :: "gx_enums \<Rightarrow> u32 \<Rightarrow> int" where
  "tev_indirect_wrap_mask g w =
     (if w = GX_ITW_OFF g then -1
      else if w = GX_ITW_256 g then 256 * 128 - 1
      else if w = GX_ITW_128 g then 128 * 128 - 1
      else if w = GX_ITW_64 g then 64 * 128 - 1
      else if w = GX_ITW_32 g then 32 * 128 - 1
      else if w = GX_ITW_16 g then 16 * 128 - 1
      else if w = GX_ITW_0 g then 0
      else if w \<ge> GX_ITW_0 g then 0 else -2)"

definition tev_s24_wrap :: "s32 \<Rightarrow> s32" where
  "tev_s24_wrap v =
     (let wrapped = v AND 0x00ffffff
      in if wrapped AND 0x00800000 \<noteq> 0 then wrapped - 0x01000000 else wrapped)"

definition tev_effective_texcoord :: "ShaderConfig \<Rightarrow> u32 \<Rightarrow> int" where
  "tev_effective_texcoord c coord =
     (if sc_numTexGens c = 0 then -1
      else if coord < ucast (sc_numTexGens c) \<and> unat coord < MaxTexCoord then uint coord else 0)"

definition tev_stage_combiner_uses_texture :: "gx_render_enums \<Rightarrow> TevStage \<Rightarrow> bool" where
  "tev_stage_combiner_uses_texture x stage =
     (let c = colorPass stage; a = alphaPass stage in
      pass_a c = GX_CC_TEXC x \<or> pass_a c = GX_CC_TEXA x \<or> pass_b c = GX_CC_TEXC x \<or>
      pass_b c = GX_CC_TEXA x \<or> pass_c c = GX_CC_TEXC x \<or> pass_c c = GX_CC_TEXA x \<or>
      pass_d c = GX_CC_TEXC x \<or> pass_d c = GX_CC_TEXA x \<or> pass_a a = GX_CA_TEXA x \<or>
      pass_b a = GX_CA_TEXA x \<or> pass_c a = GX_CA_TEXA x \<or> pass_d a = GX_CA_TEXA x)"

record TevStageTextureDependency =
  dep_texCoordId :: int
  dep_texMapId :: int
  dep_needsFixedTexcoordState :: bool
  dep_combinerUsesTexture :: bool
  dep_canSampleTexture :: bool

definition TevStageTextureDependency_init :: TevStageTextureDependency where
  "TevStageTextureDependency_init = \<lparr>dep_texCoordId = -1, dep_texMapId = -1,
     dep_needsFixedTexcoordState = False, dep_combinerUsesTexture = False, dep_canSampleTexture = False\<rparr>"

definition tev_texture_sample_enabled :: "TevStageTextureDependency \<Rightarrow> bool \<Rightarrow> bool" where
  "tev_texture_sample_enabled d sampleRequested \<longleftrightarrow> sampleRequested \<and> dep_canSampleTexture d"

definition tev_stage_texture_dependency ::
  "gx_enums \<Rightarrow> gx_render_enums \<Rightarrow> ShaderConfig \<Rightarrow> u32 \<Rightarrow> TevStageTextureDependency" where
  "tev_stage_texture_dependency g x c stageIdx =
     (if stageIdx \<ge> sc_tevStageCount c then TevStageTextureDependency_init
      else
        (let stage = sc_tevStages c ! unat stageIdx;
             coord = tev_effective_texcoord c (texCoordId stage);
             tmap = (if tev_stage_has_texture_map g stage then uint (texMapId stage) else -1)
         in \<lparr>dep_texCoordId = coord, dep_texMapId = tmap,
             dep_needsFixedTexcoordState = tev_stage_needs_fixed_texcoord_state g c stageIdx,
             dep_combinerUsesTexture = tev_stage_combiner_uses_texture x stage,
             dep_canSampleTexture = (coord \<ge> 0 \<and> tmap \<ge> 0)\<rparr>))"

definition shader_uses_fixed_texcoord_state :: "gx_enums \<Rightarrow> gx_render_enums \<Rightarrow> ShaderConfig \<Rightarrow> bool" where
  "shader_uses_fixed_texcoord_state g x c =
     list_ex (\<lambda>i. dep_needsFixedTexcoordState (tev_stage_texture_dependency g x c (of_nat i)))
       [0..<unat (sc_tevStageCount c)]"

definition tev_z_texture_enabled :: "gx_enums \<Rightarrow> ShaderConfig \<Rightarrow> bool" where
  "tev_z_texture_enabled g c \<longleftrightarrow> drop_bit 26 (sc_zTexture c) AND 3 \<noteq> GX_ZT_DISABLE g"

text \<open>The loop runs from the last stage down.\<close>
fun last_sampling_stage :: "gx_enums \<Rightarrow> gx_render_enums \<Rightarrow> ShaderConfig \<Rightarrow> nat \<Rightarrow> int" where
  "last_sampling_stage g x c 0 = -1"
| "last_sampling_stage g x c (Suc i) =
     (if dep_canSampleTexture (tev_stage_texture_dependency g x c (of_nat i)) then int i
      else last_sampling_stage g x c i)"

definition tev_z_texture_stage :: "gx_enums \<Rightarrow> gx_render_enums \<Rightarrow> ShaderConfig \<Rightarrow> int" where
  "tev_z_texture_stage g x c =
     (if \<not> tev_z_texture_enabled g c then -1
      else last_sampling_stage g x c (unat (sc_tevStageCount c)))"

section \<open>Facts\<close>

lemma last_sampling_stage_cases:
  obtains "last_sampling_stage g x c n = -1"
      "\<And>i. i < n \<Longrightarrow> \<not> dep_canSampleTexture (tev_stage_texture_dependency g x c (of_nat i))"
  | k where "last_sampling_stage g x c n = int k" "k < n"
      "dep_canSampleTexture (tev_stage_texture_dependency g x c (of_nat k))"
      "\<And>i. k < i \<Longrightarrow> i < n \<Longrightarrow> \<not> dep_canSampleTexture (tev_stage_texture_dependency g x c (of_nat i))"
proof (induction n arbitrary: thesis)
  case 0
  thus ?case by simp
next
  case (Suc n)
  show ?case
  proof (cases "dep_canSampleTexture (tev_stage_texture_dependency g x c (of_nat n))")
    case True
    show ?thesis by (rule Suc.prems(2)[of n]) (use True in auto)
  next
    case False
    show ?thesis
    proof (rule Suc.IH)
      assume "last_sampling_stage g x c n = -1"
        "\<And>i. i < n \<Longrightarrow> \<not> dep_canSampleTexture (tev_stage_texture_dependency g x c (of_nat i))"
      with False show ?thesis by (intro Suc.prems(1)) (auto simp: less_Suc_eq)
    next
      fix k assume "last_sampling_stage g x c n = int k" "k < n"
        "dep_canSampleTexture (tev_stage_texture_dependency g x c (of_nat k))"
        "\<And>i. k < i \<Longrightarrow> i < n \<Longrightarrow> \<not> dep_canSampleTexture (tev_stage_texture_dependency g x c (of_nat i))"
      with False show ?thesis by (intro Suc.prems(2)[of k]) (auto simp: less_Suc_eq)
    qed
  qed
qed

text \<open>A dependency names a coordinate below the texgen count and a map below the texture count.\<close>
lemma tev_effective_texcoord_range:
  "tev_effective_texcoord c k < 8"
  "sc_numTexGens c \<noteq> 0 \<Longrightarrow> 0 \<le> tev_effective_texcoord c k \<and> tev_effective_texcoord c k < uint (sc_numTexGens c)"
proof -
  have "uint k = int (unat k)" by simp
  hence "uint k < 8" if "unat k < 8" using that by linarith
  thus "tev_effective_texcoord c k < 8" by (simp add: tev_effective_texcoord_def)
next
  assume nz: "sc_numTexGens c \<noteq> 0"
  have "uint (sc_numTexGens c) < 2 ^ 8" by (rule less_le_trans[OF unsigned_less]) simp
  hence n: "uint (ucast (sc_numTexGens c) :: u32) = uint (sc_numTexGens c)"
    by (simp add: unsigned_ucast_eq take_bit_int_eq_self)
  have "0 < uint (sc_numTexGens c)" using nz by (simp add: order_less_le uint_0_iff)
  moreover have "k < ucast (sc_numTexGens c) \<Longrightarrow> uint k < uint (sc_numTexGens c)"
    using n by (simp only: word_less_def)
  ultimately show "0 \<le> tev_effective_texcoord c k \<and> tev_effective_texcoord c k < uint (sc_numTexGens c)"
    using nz unsigned_greater_eq[of k] unfolding tev_effective_texcoord_def by auto
qed

lemma tev_s24_wrap_spec: "tev_s24_wrap v = signed_take_bit 23 v"
proof -
  obtain K M :: u32 where K: "K = push_bit 23 1" "K = 0x00800000" and M: "M = mask 24" "M = 0x00ffffff"
    by (simp add: mask_eq_exp_minus_1)
  have "(v AND M) AND K = (if bit (v AND M) 23 then K else 0)"
    unfolding K(1) by (rule and_single_bit)
  moreover have "bit (v AND M) 23 \<longleftrightarrow> bit v 23" unfolding M(1) by (simp add: bit_simps)
  moreover have "K \<noteq> 0" using K(2) by simp
  ultimately have "(v AND 0x00ffffff) AND 0x00800000 \<noteq> 0 \<longleftrightarrow> bit v 23" using K(2) M(2) by simp
  moreover have "v AND 0x00ffffff = take_bit 24 v" using M by (simp add: take_bit_eq_mask)
  ultimately show ?thesis
    by (simp add: tev_s24_wrap_def signed_take_bit_eq_take_bit_minus)
qed

end
