(* ===== verification/TevInteger.thy ===== *)
theory TevInteger
  imports Prelude
begin

text \<open>
  ps5/gpu/tev_integer.h: one component of the texture environment combiner in 32-bit integers.
  The C code's signed arithmetic is the word arithmetic here; \<open>regular_exact\<close> shows that in the
  documented input domain nothing wraps, so the result is the formula on the integers.
\<close>

definition mkw_tev_regular :: "s32 \<Rightarrow> s32 \<Rightarrow> s32 \<Rightarrow> s32 \<Rightarrow> u32 \<Rightarrow> s32 \<Rightarrow> u32 \<Rightarrow> s32" where
  "mkw_tev_regular a b c d op bias scale =
     (let factor = (if scale = 1 then 2 else if scale = 2 then 4 else 1);
          interpolation = (a * 256 + (b - a) * (c + signed_drop_bit 7 c)) * factor;
          rounded = (if scale \<noteq> 3 then interpolation + (if op = 1 then 127 else 128) else interpolation);
          lerp = signed_drop_bit 8 rounded;
          result = (d + bias) * factor + (if op = 1 then - lerp else lerp)
      in if scale = 3 then signed_drop_bit 1 result else result)"

definition tev_clamp :: "u32 \<Rightarrow> s32 \<Rightarrow> s32" where
  "tev_clamp cl result =
     (let lo = (if cl \<noteq> 0 then 0 else -1024); hi = (if cl \<noteq> 0 then 255 else 1023)
      in if sint result < sint lo then lo else if sint result > sint hi then hi else result)"

definition mkw_tev_component ::
  "s32 \<Rightarrow> s32 \<Rightarrow> s32 \<Rightarrow> s32 \<Rightarrow> u32 \<Rightarrow> u32 \<Rightarrow> u32 \<Rightarrow> s32 \<Rightarrow> u32 \<Rightarrow> u32 \<Rightarrow> s32" where
  "mkw_tev_component a0 b0 c0 d color_a color_b op bias scale cl =
     (let a = a0 AND 255; b = b0 AND 255; c = c0 AND 255;
          result =
            (if op < 2 then mkw_tev_regular a b c d op bias scale
             else
               (let m = (if op < 10 then 255 else if op < 12 then 65535 else 16777215);
                    lhs = (if op < 14 then color_a AND m else a);
                    rhs = (if op < 14 then color_b AND m else b);
                    pass = (if op AND 1 \<noteq> 0 then lhs = rhs else lhs > rhs)
                in d + (if pass then c else 0)))
      in tev_clamp cl result)"

section \<open>The formula on the integers\<close>

definition tev_factor :: "u32 \<Rightarrow> int" where
  "tev_factor scale = (if scale = 1 then 2 else if scale = 2 then 4 else 1)"

definition tev_lerp :: "int \<Rightarrow> int \<Rightarrow> int \<Rightarrow> u32 \<Rightarrow> u32 \<Rightarrow> int" where
  "tev_lerp a b c op scale =
     ((a * 256 + (b - a) * (c + c div 128)) * tev_factor scale +
      (if scale = 3 then 0 else if op = 1 then 127 else 128)) div 256"

definition tev_formula :: "int \<Rightarrow> int \<Rightarrow> int \<Rightarrow> int \<Rightarrow> u32 \<Rightarrow> int \<Rightarrow> u32 \<Rightarrow> int" where
  "tev_formula a b c d op bias scale =
     (let result = (d + bias) * tev_factor scale +
            (if op = 1 then - tev_lerp a b c op scale else tev_lerp a b c op scale)
      in if scale = 3 then result div 2 else result)"

lemma sint_of_int: "- (2 ^ 31) \<le> i \<Longrightarrow> i < 2 ^ 31 \<Longrightarrow> sint (word_of_int i :: s32) = i"
  unfolding sint_sbintrunc' by (rule signed_take_bit_int_eq_self) simp_all

lemma drop_of_int:
  assumes "- (2 ^ 31) \<le> i" "i < 2 ^ 31"
  shows "signed_drop_bit n (word_of_int i :: s32) = word_of_int (i div 2 ^ n)"
proof -
  have "signed_drop_bit n (word_of_int i :: s32) = word_of_int (sint (signed_drop_bit n (word_of_int i :: s32)))"
    by simp
  also have "sint (signed_drop_bit n (word_of_int i :: s32)) = i div 2 ^ n"
    by (simp only: sint_signed_drop_bit_eq sint_of_int[OF assms] drop_bit_eq_div)
  finally show ?thesis .
qed

text \<open>An interpolation between two values stays between them.\<close>
lemma mix_bounds:
  assumes "0 \<le> a" "a \<le> n" "0 \<le> b" "b \<le> n" "0 \<le> k" "k \<le> 256"
  shows "0 \<le> a * 256 + (b - a) * k" "a * 256 + (b - a) * k \<le> n * (256 :: int)"
proof -
  have e: "a * 256 + (b - a) * k = a * (256 - k) + b * k" by (simp add: algebra_simps)
  have "0 \<le> a * (256 - k)" "0 \<le> b * k" using assms by simp_all
  thus "0 \<le> a * 256 + (b - a) * k" unfolding e by (rule add_nonneg_nonneg)
  have "a * (256 - k) + b * k \<le> n * (256 - k) + n * k"
    using assms by (intro add_mono mult_right_mono) auto
  also have "n * (256 - k) + n * k = n * 256" by (simp add: algebra_simps)
  finally show "a * 256 + (b - a) * k \<le> n * 256" unfolding e .
qed

lemma weight_bounds: "0 \<le> c \<Longrightarrow> c \<le> 255 \<Longrightarrow> 0 \<le> c + c div 128 \<and> c + c div 128 \<le> (256 :: int)"
  using zdiv_mono1[of c 255 128] pos_imp_zdiv_nonneg_iff[of 128 c] by simp

lemma tev_lerp_bounds:
  assumes "0 \<le> a" "a \<le> 255" "0 \<le> b" "b \<le> 255" "0 \<le> c" "c \<le> 255"
  shows "0 \<le> tev_lerp a b c op scale" "tev_lerp a b c op scale \<le> 1020"
proof -
  note w = weight_bounds[OF assms(5,6)]
  let ?x = "a * 256 + (b - a) * (c + c div 128)"
  have x: "0 \<le> ?x" "?x \<le> 255 * 256" using mix_bounds[OF assms(1-4)] w by blast+
  have f: "0 \<le> ?x * tev_factor scale" "?x * tev_factor scale \<le> 255 * 256 * 4"
    using x unfolding tev_factor_def by auto
  define y where "y = ?x * tev_factor scale + (if scale = 3 then 0 else if op = 1 then 127 else 128)"
  have y: "0 \<le> y" "y \<le> 255 * 256 * 4 + 128" using f unfolding y_def by auto
  have "tev_lerp a b c op scale = y div 256" unfolding tev_lerp_def y_def ..
  thus "0 \<le> tev_lerp a b c op scale" "tev_lerp a b c op scale \<le> 1020" using y by auto
qed

text \<open>In the documented domain the 32-bit computation is the formula.\<close>
lemma regular_exact:
  assumes "0 \<le> a" "a \<le> 255" "0 \<le> b" "b \<le> 255" "0 \<le> c" "c \<le> 255" "- 1024 \<le> d" "d \<le> 1023"
    "- 128 \<le> bias" "bias \<le> 128"
  shows "mkw_tev_regular (word_of_int a) (word_of_int b) (word_of_int c) (word_of_int d) op (word_of_int bias) scale =
      word_of_int (tev_formula a b c d op bias scale)"
    "\<bar>tev_formula a b c d op bias scale\<bar> \<le> 8000"
proof -
  note w = weight_bounds[OF assms(5,6)]
  let ?x = "a * 256 + (b - a) * (c + c div 128)"
  have x: "0 \<le> ?x" "?x \<le> 255 * 256" using mix_bounds[OF assms(1-4)] w by blast+
  let ?f = "tev_factor scale"
  have fw: "(if scale = 1 then 2 else if scale = 2 then 4 else (1 :: s32)) = word_of_int ?f"
    by (simp add: tev_factor_def)
  have f: "0 \<le> ?x * ?f" "?x * ?f \<le> 255 * 256 * 4" using x unfolding tev_factor_def by auto
  have c7: "signed_drop_bit 7 (word_of_int c :: s32) = word_of_int (c div 128)"
    using drop_of_int[of c 7] assms(5,6) by simp
  let ?r = "if scale = 3 then 0 else if op = 1 then 127 else (128 :: int)"
  define y where "y = ?x * ?f + ?r"
  have y: "0 \<le> y" "y \<le> 255 * 256 * 4 + 128" using f unfolding y_def by auto
  let ?X = "(word_of_int a * 256 + (word_of_int b - word_of_int a) * (word_of_int c + word_of_int (c div 128))) * word_of_int ?f :: s32"
  have yw: "(if scale \<noteq> 3 then ?X + (if op = 1 then 127 else 128) else ?X) = word_of_int y"
    unfolding y_def by simp
  have l: "signed_drop_bit 8 (word_of_int y :: s32) = word_of_int (tev_lerp a b c op scale)"
    using drop_of_int[of y 8] y unfolding tev_lerp_def y_def[symmetric] by simp
  let ?l = "tev_lerp a b c op scale"
  define z where "z = (d + bias) * ?f + (if op = 1 then - ?l else ?l)"
  have lb: "0 \<le> ?l" "?l \<le> 1020" by (rule tev_lerp_bounds[OF assms(1-6)])+
  have "\<bar>(d + bias) * ?f\<bar> \<le> 1152 * 4" using assms(7-10) unfolding tev_factor_def by auto
  hence z: "\<bar>z\<bar> \<le> 8000" using lb unfolding z_def by auto
  have zw: "(word_of_int d + word_of_int bias) * word_of_int ?f + (if op = 1 then - word_of_int ?l else word_of_int ?l) =
      (word_of_int z :: s32)" unfolding z_def by simp
  have t: "tev_formula a b c d op bias scale = (if scale = 3 then z div 2 else z)"
    unfolding tev_formula_def Let_def z_def ..
  have h: "signed_drop_bit 1 (word_of_int z :: s32) = word_of_int (z div 2)"
    using drop_of_int[of z 1] z by simp
  show "mkw_tev_regular (word_of_int a) (word_of_int b) (word_of_int c) (word_of_int d) op (word_of_int bias) scale =
      word_of_int (tev_formula a b c d op bias scale)"
    unfolding mkw_tev_regular_def fw c7 t Let_def yw l zw h by (cases "scale = 3") (simp_all only: if_True if_False refl)
  show "\<bar>tev_formula a b c d op bias scale\<bar> \<le> 8000" unfolding t using z by auto
qed

lemma tev_clamp_bounds:
  "sint (tev_clamp cl r) \<ge> (if cl \<noteq> 0 then 0 else - 1024)" "sint (tev_clamp cl r) \<le> (if cl \<noteq> 0 then 255 else 1023)"
  unfolding tev_clamp_def Let_def by (auto split: if_splits)

text \<open>The two ends of the interpolation are exact: weight 0 gives A, weight 255 gives B.\<close>
lemma tev_lerp_ends:
  "scale = 0 \<Longrightarrow> tev_lerp a b 0 op scale = a" "scale = 0 \<Longrightarrow> tev_lerp a b 255 op scale = b"
  unfolding tev_lerp_def tev_factor_def by (auto simp: algebra_simps)

end
