(* ===== verification/TevStageEval.thy ===== *)
theory TevStageEval
  imports TevInteger Ieee32 GxState
begin

text \<open>
  ps5/gpu/tev_stage.h: input selection, the arithmetic of one texture environment stage on
  \<open>float\<close> values, the register writes and the alpha test.  A \<open>MkwTevValue\<close> is the four-component
  vector of the register file (red, green, blue, alpha).  A conversion of a float to an integer
  outside the type's range is undefined in C; it is \<open>None\<close> here, so a stage returns an option.
\<close>

type_synonym MkwTevValue = vec4

record MkwTevRegisters =
  tv_prev :: MkwTevValue
  tv_reg0 :: MkwTevValue
  tv_reg1 :: MkwTevValue
  tv_reg2 :: MkwTevValue

record MkwTevStage =
  ts_color_args :: u32
  ts_alpha_args :: u32
  ts_color_op :: u32
  ts_alpha_op :: u32
  ts_texture_swap :: u32
  ts_raster_swap :: u32
  ts_tex_map :: u32
  ts_tex_coord :: u32
  ts_channel :: u32
  ts_sample_enabled :: u32
  ts_indirect_stage :: u32
  ts_indirect_format :: u32
  ts_indirect_alpha :: u32
  ts_indirect_matrix :: u32
  ts_indirect_wrap :: u32
  ts_indirect_flags :: u32
  ts_konst :: MkwTevValue

record MkwTevProgram =
  tp_stage_count :: u32
  tp_alpha_flags :: u32
  tp_disabled_texture_value :: u32
  tp_num_texgens :: u32
  tp_initial :: MkwTevRegisters
  tp_stages :: "MkwTevStage list"

abbreviation (input) f32_m1024 :: f32 where "f32_m1024 \<equiv> f32_of_int (- 1024)"
abbreviation (input) f32_255 :: f32 where "f32_255 \<equiv> f32_of_int 255"

section \<open>Input selection\<close>

definition mkw_tev_splat :: "f32 \<Rightarrow> MkwTevValue" where
  "mkw_tev_splat f = \<lparr>v0 = f, v1 = f, v2 = f, v3 = f\<rparr>"

definition mkw_tev_lane :: "MkwTevValue \<Rightarrow> u32 \<Rightarrow> f32" where
  "mkw_tev_lane v lane = (if lane = 0 then v0 v else if lane = 1 then v1 v else if lane = 2 then v2 v else v3 v)"

definition mkw_tev_swizzle :: "MkwTevValue \<Rightarrow> u32 \<Rightarrow> MkwTevValue" where
  "mkw_tev_swizzle v sw =
     \<lparr>v0 = mkw_tev_lane v (sw AND 3), v1 = mkw_tev_lane v (drop_bit 2 sw AND 3),
      v2 = mkw_tev_lane v (drop_bit 4 sw AND 3), v3 = mkw_tev_lane v (drop_bit 6 sw AND 3)\<rparr>"

text \<open>The conversion of a non-negative float to \<open>unsigned\<close>, and of a float to \<open>int\<close>.\<close>
definition f32_to_u32 :: "f32 \<Rightarrow> u32 option" where
  "f32_to_u32 x = (case f32_trunc x of None \<Rightarrow> None
     | Some i \<Rightarrow> if 0 \<le> i \<and> i < 2 ^ 32 then Some (word_of_int i) else None)"

definition f32_to_s32 :: "f32 \<Rightarrow> s32 option" where
  "f32_to_s32 x = (case f32_trunc x of None \<Rightarrow> None
     | Some i \<Rightarrow> if - (2 ^ 31) \<le> i \<and> i < 2 ^ 31 then Some (word_of_int i) else None)"

definition mkw_tev_raster ::
  "MkwTevStage \<Rightarrow> MkwTevValue \<Rightarrow> MkwTevValue \<Rightarrow> MkwTevValue \<Rightarrow> MkwTevValue option" where
  "mkw_tev_raster s raster0 raster1 indirect =
     (if ts_channel s < 6 then Some (if ts_channel s AND 1 \<noteq> 0 then raster1 else raster0)
      else if (ts_channel s = 7 \<or> ts_channel s = 8) \<and> ts_indirect_stage s < 4 \<and> ts_indirect_alpha s \<noteq> 0 then
        (case f32_to_u32 (mkw_tev_lane indirect (ts_indirect_alpha s - 1)) of None \<Rightarrow> None
         | Some sample \<Rightarrow>
             let m = (if ts_indirect_format s = 1 then 0xe0 else if ts_indirect_format s = 2 then 0xf0 else 0xf8);
                 v = f32_of_u32 (sample AND m)
             in Some (mkw_tev_splat
                  (if ts_channel s = 8 then f32_mul v (f32_div f32_255 (f32_of_int 248)) else v)))
      else Some (mkw_tev_splat 0))"

definition mkw_tev_register :: "MkwTevRegisters \<Rightarrow> u32 \<Rightarrow> MkwTevValue" where
  "mkw_tev_register v reg =
     (if reg = 0 then tv_prev v else if reg = 1 then tv_reg0 v else if reg = 2 then tv_reg1 v else tv_reg2 v)"

text \<open>127.5 is the bit pattern 0x42FF0000.\<close>
definition mkw_tev_color_arg ::
  "MkwTevRegisters \<Rightarrow> u32 \<Rightarrow> MkwTevValue \<Rightarrow> MkwTevValue \<Rightarrow> MkwTevValue \<Rightarrow> MkwTevValue" where
  "mkw_tev_color_arg regs arg tex ras konst =
     (if arg < 8 then
        (let v = mkw_tev_register regs (drop_bit 1 arg)
         in if arg AND 1 \<noteq> 0 then mkw_tev_splat (v3 v) else v)
      else if arg = 8 then tex
      else if arg = 9 then mkw_tev_splat (v3 tex)
      else if arg = 10 then ras
      else if arg = 11 then mkw_tev_splat (v3 ras)
      else if arg = 12 then mkw_tev_splat f32_255
      else if arg = 13 then mkw_tev_splat 0x42FF0000
      else if arg = 14 then konst
      else mkw_tev_splat 0)"

definition mkw_tev_alpha_arg ::
  "MkwTevRegisters \<Rightarrow> u32 \<Rightarrow> MkwTevValue \<Rightarrow> MkwTevValue \<Rightarrow> MkwTevValue \<Rightarrow> f32" where
  "mkw_tev_alpha_arg regs arg tex ras konst =
     (if arg < 4 then v3 (mkw_tev_register regs arg)
      else if arg = 4 then v3 tex else if arg = 5 then v3 ras else if arg = 6 then v3 konst else 0)"

section \<open>Arithmetic\<close>

text \<open>\<open>1/256\<close> is the bit pattern 0x3B800000.\<close>
definition mkw_tev_wrap :: "f32 \<Rightarrow> f32" where
  "mkw_tev_wrap v = f32_sub v (f32_mul (f32_floor (f32_mul v 0x3B800000)) (f32_of_int 256))"

definition mkw_tev_wrap4 :: "MkwTevValue \<Rightarrow> MkwTevValue" where
  "mkw_tev_wrap4 v = \<lparr>v0 = mkw_tev_wrap (v0 v), v1 = mkw_tev_wrap (v1 v), v2 = mkw_tev_wrap (v2 v),
     v3 = mkw_tev_wrap (v3 v)\<rparr>"

definition mkw_tev_round :: "f32 \<Rightarrow> s32 option" where
  "mkw_tev_round v = f32_to_s32 (f32_roundeven v)"

definition tev_pass :: "u32 \<Rightarrow> s32 option \<Rightarrow> s32 option \<Rightarrow> bool option" where
  "tev_pass op x y =
     (case x of None \<Rightarrow> None
      | Some a \<Rightarrow> (case y of None \<Rightarrow> None
          | Some b \<Rightarrow> Some (if op AND 1 \<noteq> 0 then a = b else sint a > sint b)))"

definition tev_pack :: "MkwTevValue \<Rightarrow> u32 \<Rightarrow> f32" where
  "tev_pack a op =
     (let x = v0 a;
          x = (if op \<ge> 10 then f32_add x (f32_mul (v1 a) (f32_of_int 256)) else x)
      in if op \<ge> 12 then f32_add x (f32_mul (v2 a) (f32_of_int 65536)) else x)"

definition mkw_tev_compare :: "MkwTevValue \<Rightarrow> MkwTevValue \<Rightarrow> u32 \<Rightarrow> bool option" where
  "mkw_tev_compare a b op =
     tev_pass op (mkw_tev_round (tev_pack a op)) (mkw_tev_round (tev_pack b op))"

definition tev_clamp_f32 :: "u32 \<Rightarrow> f32 \<Rightarrow> f32" where
  "tev_clamp_f32 flags result =
     (let lo = (if flags AND 64 \<noteq> 0 then f32_of_int 0 else f32_m1024);
          hi = (if flags AND 64 \<noteq> 0 then f32_255 else f32_of_int 1023)
      in if f32_lt result lo then lo else if f32_lt hi result then hi else result)"

definition mkw_tev_eval :: "f32 \<Rightarrow> f32 \<Rightarrow> f32 \<Rightarrow> f32 \<Rightarrow> u32 \<Rightarrow> bool \<Rightarrow> f32 option" where
  "mkw_tev_eval a b c d flags packed_compare =
     (let op = flags AND 15
      in if op < 2 then
           (let bias = (drop_bit 8 flags AND 3) * 128 - 128
            in case (mkw_tev_round a, mkw_tev_round b, mkw_tev_round c, mkw_tev_round d) of
                 (Some a', Some b', Some c', Some d') \<Rightarrow>
                   Some (tev_clamp_f32 flags
                     (f32_of_s32 (mkw_tev_regular a' b' c' d' op bias (drop_bit 4 flags AND 3))))
               | _ \<Rightarrow> None)
         else
           (case (if op \<ge> 14 then tev_pass op (mkw_tev_round a) (mkw_tev_round b) else Some packed_compare) of
              None \<Rightarrow> None
            | Some pass \<Rightarrow> Some (tev_clamp_f32 flags (f32_add d (if pass then c else 0)))))"

section \<open>A stage\<close>

definition mkw_tev_merge :: "MkwTevValue \<Rightarrow> MkwTevValue \<Rightarrow> bool \<Rightarrow> bool \<Rightarrow> MkwTevValue" where
  "mkw_tev_merge old value rgb alpha =
     \<lparr>v0 = (if rgb then v0 value else v0 old), v1 = (if rgb then v1 value else v1 old),
      v2 = (if rgb then v2 value else v2 old), v3 = (if alpha then v3 value else v3 old)\<rparr>"

definition mkw_tev_write :: "MkwTevRegisters \<Rightarrow> u32 \<Rightarrow> u32 \<Rightarrow> MkwTevValue \<Rightarrow> MkwTevRegisters" where
  "mkw_tev_write regs rgb_dst alpha_dst value =
     \<lparr>tv_prev = mkw_tev_merge (tv_prev regs) value (rgb_dst = 0) (alpha_dst = 0),
      tv_reg0 = mkw_tev_merge (tv_reg0 regs) value (rgb_dst = 1) (alpha_dst = 1),
      tv_reg1 = mkw_tev_merge (tv_reg1 regs) value (rgb_dst = 2) (alpha_dst = 2),
      tv_reg2 = mkw_tev_merge (tv_reg2 regs) value (rgb_dst = 3) (alpha_dst = 3)\<rparr>"

text \<open>The operands of a stage: the selected colours and alphas, A, B and C wrapped to a byte.\<close>
definition stage_color :: "MkwTevRegisters \<Rightarrow> MkwTevStage \<Rightarrow> MkwTevValue \<Rightarrow> MkwTevValue \<Rightarrow> nat \<Rightarrow> MkwTevValue" where
  "stage_color regs s tex ras n =
     mkw_tev_color_arg regs (drop_bit (4 * n) (ts_color_args s) AND 15) tex ras (ts_konst s)"

definition stage_alpha :: "MkwTevRegisters \<Rightarrow> MkwTevStage \<Rightarrow> MkwTevValue \<Rightarrow> MkwTevValue \<Rightarrow> nat \<Rightarrow> f32" where
  "stage_alpha regs s tex ras n =
     mkw_tev_alpha_arg regs (drop_bit (3 * n) (ts_alpha_args s) AND 7) tex ras (ts_konst s)"

definition mkw_tev_stage :: "MkwTevRegisters \<Rightarrow> MkwTevStage \<Rightarrow> MkwTevValue \<Rightarrow> MkwTevValue \<Rightarrow>
    (MkwTevRegisters \<times> MkwTevValue) option" where
  "mkw_tev_stage regs s texture0 raster0 =
     (let texture = mkw_tev_swizzle texture0 (ts_texture_swap s);
          raster = mkw_tev_swizzle raster0 (ts_raster_swap s);
          ca = mkw_tev_wrap4 (stage_color regs s texture raster 0);
          cb = mkw_tev_wrap4 (stage_color regs s texture raster 1);
          cc = mkw_tev_wrap4 (stage_color regs s texture raster 2);
          cd = stage_color regs s texture raster 3;
          aa = mkw_tev_wrap (stage_alpha regs s texture raster 0);
          ab = mkw_tev_wrap (stage_alpha regs s texture raster 1);
          ac = mkw_tev_wrap (stage_alpha regs s texture raster 2);
          ad = stage_alpha regs s texture raster 3
      in case (mkw_tev_compare ca cb (ts_color_op s AND 15), mkw_tev_compare ca cb (ts_alpha_op s AND 15)) of
           (Some color_compare, Some alpha_compare) \<Rightarrow>
             (case (mkw_tev_eval (v0 ca) (v0 cb) (v0 cc) (v0 cd) (ts_color_op s) color_compare,
                    mkw_tev_eval (v1 ca) (v1 cb) (v1 cc) (v1 cd) (ts_color_op s) color_compare,
                    mkw_tev_eval (v2 ca) (v2 cb) (v2 cc) (v2 cd) (ts_color_op s) color_compare,
                    mkw_tev_eval aa ab ac ad (ts_alpha_op s) alpha_compare) of
                (Some r, Some g, Some b, Some a) \<Rightarrow>
                  (let result = \<lparr>v0 = r, v1 = g, v2 = b, v3 = a\<rparr>
                   in Some (mkw_tev_write regs (drop_bit 10 (ts_color_op s) AND 3)
                        (drop_bit 10 (ts_alpha_op s) AND 3) result, result))
              | _ \<Rightarrow> None)
         | _ \<Rightarrow> None)"

section \<open>The alpha test\<close>

definition mkw_tev_alpha_compare :: "u32 \<Rightarrow> u32 \<Rightarrow> u32 \<Rightarrow> bool" where
  "mkw_tev_alpha_compare v ref op =
     (if op = 0 then False else if op = 1 then v < ref else if op = 2 then v = ref
      else if op = 3 then v \<le> ref else if op = 4 then v > ref else if op = 5 then v \<noteq> ref
      else if op = 6 then v \<ge> ref else True)"

definition mkw_tev_alpha_test :: "f32 \<Rightarrow> u32 \<Rightarrow> bool option" where
  "mkw_tev_alpha_test alpha flags =
     (let wrapped = mkw_tev_wrap alpha
      in case mkw_tev_round (if f32_lt f32_255 wrapped then f32_255 else wrapped) of None \<Rightarrow> None
         | Some a \<Rightarrow>
             let first = mkw_tev_alpha_compare a (drop_bit 8 flags AND 255) (flags AND 7);
                 second = mkw_tev_alpha_compare a (drop_bit 16 flags AND 255) (drop_bit 3 flags AND 7);
                 op = drop_bit 6 flags AND 3
             in Some (if op = 0 then first \<and> second else if op = 1 then first \<or> second
                      else if op = 2 then first \<noteq> second else first = second))"

end
