(* ===== verification/ErrorLists.thy ===== *)
theory ErrorLists
  imports Prelude
begin

text \<open>Loops that build an array and leave with the first exception.\<close>

fun map_err :: "('a \<Rightarrow> 'e + 'b) \<Rightarrow> 'a list \<Rightarrow> 'e + 'b list" where
  "map_err f [] = Inr []"
| "map_err f (x # xs) =
     (case f x of Inl e \<Rightarrow> Inl e
      | Inr y \<Rightarrow> (case map_err f xs of Inl e \<Rightarrow> Inl e | Inr ys \<Rightarrow> Inr (y # ys)))"

lemma map_err_Inr:
  assumes "map_err f xs = Inr ys"
  shows "length ys = length xs \<and> (\<forall>i<length xs. f (xs ! i) = Inr (ys ! i))"
  using assms
proof (induction xs arbitrary: ys)
  case (Cons x xs)
  then obtain y ys' where y: "f x = Inr y" "map_err f xs = Inr ys'" "ys = y # ys'"
    by (auto split: sum.splits)
  thus ?case using Cons.IH[OF y(2)] by (auto simp: nth_Cons split: nat.splits)
qed simp

lemma map_err_upt:
  assumes "map_err f [0..<n] = Inr ys"
  shows "length ys = n" "i < n \<Longrightarrow> f i = Inr (ys ! i)"
  using map_err_Inr[OF assms] by auto

lemma map_err_total: "(\<And>x. x \<in> set xs \<Longrightarrow> \<exists>y. f x = Inr y) \<Longrightarrow> \<exists>ys. map_err f xs = Inr ys"
proof (induction xs)
  case (Cons x xs)
  obtain y where "f x = Inr y" using Cons.prems[of x] by auto
  moreover obtain ys where "map_err f xs = Inr ys" using Cons by auto
  ultimately show ?case by auto
qed simp

lemma map_err_Inl: "map_err f xs = Inl e \<Longrightarrow> \<exists>x\<in>set xs. f x = Inl e"
  by (induction xs) (auto split: sum.splits)

end
