(* ===== verification/GxTevProgram.thy ===== *)
theory GxTevProgram
  imports GxShaderConfig TevStageEval ErrorLists BitFields GxInit
begin

text \<open>
  ps5/gpu/gx_tev_program.cpp: the register file's texture environment, checked and packed into the
  program that tev_stage.h interprets, and the set of texture coordinates the program reads.
\<close>

definition tev_error :: string where "tev_error = ''Invalid GX TEV state''"

definition require :: "bool \<Rightarrow> string + 'a \<Rightarrow> string + 'a" where
  "require v k = (if v then k else Inl tev_error)"

lemma require_Inr [simp]: "require v k = Inr y \<longleftrightarrow> v \<and> k = Inr y"
  by (simp add: require_def)

definition u32_of_bool :: "bool \<Rightarrow> u32" where "u32_of_bool b = (if b then 1 else 0)"

text \<open>Compare operations ignore the bias encoding.\<close>
definition operation :: "gx_render_enums \<Rightarrow> TevOp \<Rightarrow> string + u32" where
  "operation x v =
     (let opn = op_op v; bias = (if opn \<ge> 8 then 0 else op_bias v)
      in require ((opn \<le> 1 \<or> (opn \<ge> 8 \<and> opn \<le> 15)) \<and> op_scale v \<le> GX_CS_DIVIDE_2 x \<and> op_outReg v \<le> 3)
           (require (bias \<le> GX_TB_SUBHALF x)
             (let shifted = (if bias = GX_TB_ADDHALF x then 2 else if bias = GX_TB_SUBHALF x then 0 else 1)
              in Inr (opn OR push_bit 4 (op_scale v) OR push_bit 6 (u32_of_bool (op_clamp v)) OR
                   push_bit 8 shifted OR push_bit 10 (op_outReg v)))))"

definition swap_bits :: "TevSwap \<Rightarrow> string + u32" where
  "swap_bits s =
     require (sw_red s \<le> 3 \<and> sw_green s \<le> 3 \<and> sw_blue s \<le> 3 \<and> sw_alpha s \<le> 3)
       (Inr (sw_red s OR push_bit 2 (sw_green s) OR push_bit 4 (sw_blue s) OR push_bit 6 (sw_alpha s)))"

text \<open>0.001f is the bit pattern 0x3A83126F.\<close>
definition byte_lane :: "int \<Rightarrow> int \<Rightarrow> f32 \<Rightarrow> string + f32" where
  "byte_lane lo hi c =
     (let v = f32_mul c f32_255
      in require (f32_isfinite v \<and> f32_le (f32_sub (f32_of_int lo) 0x3A83126F) v \<and>
                  f32_le v (f32_add (f32_of_int hi) 0x3A83126F))
           (Inr (f32_roundeven v)))"

definition byte_color :: "int \<Rightarrow> int \<Rightarrow> vec4 \<Rightarrow> string + MkwTevValue" where
  "byte_color lo hi v =
     (case map_err (byte_lane lo hi) [v0 v, v1 v, v2 v, v3 v] of Inl e \<Rightarrow> Inl e
      | Inr ds \<Rightarrow> Inr \<lparr>v0 = ds ! 0, v1 = ds ! 1, v2 = ds ! 2, v3 = ds ! 3\<rparr>)"

definition konst_color :: "u32 \<Rightarrow> MkwTevValue list \<Rightarrow> bool \<Rightarrow> string + MkwTevValue" where
  "konst_color sel colors alpha =
     (if sel < 8 then Inr (mkw_tev_splat (f32_mul (f32_of_u32 (8 - sel)) (f32_div f32_255 (f32_of_int 8))))
      else require (sel \<ge> 12 \<and> sel \<le> 31 \<and> (\<not> alpha \<or> sel \<ge> 16))
        (Inr (if sel < 16 then colors ! unat (sel - 12)
              else mkw_tev_splat (mkw_tev_lane (colors ! unat ((sel - 16) AND 3)) (drop_bit 2 (sel - 16))))))"

text \<open>The default member initialisers of \<open>ShaderConfig\<close>.\<close>
definition ShaderConfig_init :: "gx_enums \<Rightarrow> ShaderConfig" where
  "ShaderConfig_init g = \<lparr>sc_fogType = 0, sc_vtxStride = 0, sc_lineMode = 0, sc_dualTexEnabled = False,
     sc_fogRangeAdjust = False, sc_numTexGens = 0, sc_zTexture = 0,
     sc_attrs = replicate (GX_VA_MAX_ATTR g) \<lparr>at_attrType = ucast (GX_NONE g), at_cnt = 0xFF, at_compType = 0xFF,
       at_offset = 0, at_stride = 0, at_frac = 0, at_le = True, at_nrmIndexCount = 0\<rparr>,
     sc_tevSwapTable = replicate MaxTevSwap TevSwap_init,
     sc_tevStages = replicate MaxTevStages (TevStage_init g), sc_tevStageCount = 0,
     sc_colorChannels = replicate MaxColorChannels
       \<lparr>cc_matSrc = GX_SRC_REG, cc_ambSrc = GX_SRC_REG, cc_diffFn = GX_DF_NONE,
        cc_attnFn = GX_AF_NONE, cc_lightingEnabled = False\<rparr>,
     sc_tcgs = replicate MaxTexCoord (TcgConfig_init g), sc_alphaCompare = AlphaCompare_init,
     sc_indStages = replicate MaxIndStages
       \<lparr>is_texCoordId = 0, is_texMapId = 0, is_scaleS = 0, is_scaleT = 0\<rparr>,
     sc_numIndStages = 0\<rparr>"

definition tev_config :: "gx_enums \<Rightarrow> 'a GXRegisterState_scheme \<Rightarrow> ShaderConfig" where
  "tev_config g s = (ShaderConfig_init g)\<lparr>sc_numTexGens := numTexGens s,
     sc_tevStageCount := ucast (numTevStages s), sc_tevStages := tevStages s,
     sc_numIndStages := ucast (numIndStages s)\<rparr>"

definition pass_list :: "TevPass \<Rightarrow> u32 list" where
  "pass_list p = [pass_a p, pass_b p, pass_c p, pass_d p]"

definition pack_args :: "nat \<Rightarrow> u32 list \<Rightarrow> u32" where
  "pack_args w as = as ! 0 OR push_bit w (as ! 1) OR push_bit (2 * w) (as ! 2) OR push_bit (3 * w) (as ! 3)"

definition stage_indirect_flags :: "'a GXRegisterState_scheme \<Rightarrow> nat \<Rightarrow> u32" where
  "stage_indirect_flags s i =
     (let t = tevStages s ! i
      in indTexBiasSel t OR push_bit 8 (u32_of_bool (indTexUseOrigLOD t)) OR
         push_bit 9 (u32_of_bool (indTexAddPrev t)) OR
         (if i + 1 < unat (numTevStages s) \<and> indTexAddPrev (tevStages s ! (i + 1)) then 1024 else 0))"

definition stage_konst :: "gx_render_enums \<Rightarrow> MkwTevValue list \<Rightarrow> TevStage \<Rightarrow> string + MkwTevValue" where
  "stage_konst x konst t =
     (case (if list_ex (\<lambda>a. a = GX_CC_KONST x) (pass_list (colorPass t)) then konst_color (kcSel t) konst False
            else Inr vec4_zero) of Inl e \<Rightarrow> Inl e
      | Inr k \<Rightarrow>
          (if list_ex (\<lambda>a. a = GX_CA_KONST x) (pass_list (alphaPass t)) then
             (case konst_color (kaSel t) konst True of Inl e \<Rightarrow> Inl e | Inr a \<Rightarrow> Inr (k\<lparr>v3 := v3 a\<rparr>))
           else Inr k))"

text \<open>One round of the loop over the stages.\<close>
definition build_stage :: "gx_enums \<Rightarrow> gx_render_enums \<Rightarrow> 'a GXRegisterState_scheme \<Rightarrow> MkwTevValue list \<Rightarrow> nat \<Rightarrow>
    string + MkwTevStage" where
  "build_stage g x s konst i =
     (let t = tevStages s ! i;
          dep = tev_stage_texture_dependency g x (tev_config g s) (of_nat i)
      in require (list_all (\<lambda>a. a \<le> 15) (pass_list (colorPass t)) \<and> list_all (\<lambda>a. a \<le> 7) (pass_list (alphaPass t)))
         (case operation x (colorOp t) of Inl e \<Rightarrow> Inl e | Inr cop \<Rightarrow>
          case operation x (alphaOp t) of Inl e \<Rightarrow> Inl e | Inr aop \<Rightarrow>
          require (tevSwapTex t < 4 \<and> tevSwapRas t < 4)
          (case swap_bits (tevSwapTable s ! unat (tevSwapTex t)) of Inl e \<Rightarrow> Inl e | Inr tsw \<Rightarrow>
           case swap_bits (tevSwapTable s ! unat (tevSwapRas t)) of Inl e \<Rightarrow> Inl e | Inr rsw \<Rightarrow>
           require (channelId t \<le> 8 \<or> channelId t = GX_COLOR_NULL g)
           (require (indTexFormat t \<le> 3 \<and> indTexAlphaSel t \<le> 3)
            (case stage_konst x konst t of Inl e \<Rightarrow> Inl e | Inr k \<Rightarrow>
             Inr \<lparr>ts_color_args = pack_args 4 (pass_list (colorPass t)),
                 ts_alpha_args = pack_args 3 (pass_list (alphaPass t)),
                 ts_color_op = cop, ts_alpha_op = aop, ts_texture_swap = tsw, ts_raster_swap = rsw,
                 ts_tex_map = word_of_int (dep_texMapId dep), ts_tex_coord = word_of_int (dep_texCoordId dep),
                 ts_channel = channelId t,
                 ts_sample_enabled = u32_of_bool (dep_canSampleTexture dep \<and> dep_combinerUsesTexture dep),
                 ts_indirect_stage = (if indTexStage t < ucast (numIndStages s) then indTexStage t else -1),
                 ts_indirect_format = indTexFormat t, ts_indirect_alpha = indTexAlphaSel t,
                 ts_indirect_matrix = indTexMtxId t,
                 ts_indirect_wrap = indTexWrapS t OR push_bit 8 (indTexWrapT t),
                 ts_indirect_flags = stage_indirect_flags s i, ts_konst = k\<rparr>)))))"

definition stage_idle :: MkwTevStage where
  "stage_idle = \<lparr>ts_color_args = 0, ts_alpha_args = 0, ts_color_op = 0, ts_alpha_op = 0, ts_texture_swap = 0,
     ts_raster_swap = 0, ts_tex_map = 0, ts_tex_coord = 0, ts_channel = 0, ts_sample_enabled = 0,
     ts_indirect_stage = 0, ts_indirect_format = 0, ts_indirect_alpha = 0, ts_indirect_matrix = 0,
     ts_indirect_wrap = 0, ts_indirect_flags = 0, ts_konst = vec4_zero\<rparr>"

definition alpha_flags :: "AlphaCompare \<Rightarrow> u32" where
  "alpha_flags ac = ac_comp0 ac OR push_bit 3 (ac_comp1 ac) OR push_bit 6 (ac_op ac) OR
     push_bit 8 (ac_ref0 ac) OR push_bit 16 (ac_ref1 ac)"

definition build_tev_program ::
  "gx_enums \<Rightarrow> gx_render_enums \<Rightarrow> 'a GXRegisterState_scheme \<Rightarrow> string + MkwTevProgram" where
  "build_tev_program g x s =
     (let n = unat (numTevStages s); ac = alphaCompare s
      in require (n \<ge> 1 \<and> n \<le> 16 \<and> numTexGens s \<le> 8 \<and> numIndStages s \<le> 4)
         (require (ac_comp0 ac \<le> 7 \<and> ac_comp1 ac \<le> 7 \<and> ac_op ac \<le> 3 \<and> ac_ref0 ac \<le> 255 \<and> ac_ref1 ac \<le> 255)
          (case map_err (\<lambda>i. byte_color (- 1024) 1023 (colorRegs s ! i)) [0..<4] of Inl e \<Rightarrow> Inl e | Inr cs \<Rightarrow>
           case map_err (\<lambda>i. byte_color 0 255 (kcolors s ! i)) [0..<4] of Inl e \<Rightarrow> Inl e | Inr konst \<Rightarrow>
           case map_err (build_stage g x s konst) [0..<n] of Inl e \<Rightarrow> Inl e | Inr stages \<Rightarrow>
           Inr \<lparr>tp_stage_count = of_nat n, tp_alpha_flags = alpha_flags ac,
               tp_disabled_texture_value = (if numTexGens s \<noteq> 0 then 255 else 0),
               tp_num_texgens = ucast (numTexGens s),
               tp_initial = \<lparr>tv_prev = cs ! 0, tv_reg0 = cs ! 1, tv_reg1 = cs ! 2, tv_reg2 = cs ! 3\<rparr>,
               tp_stages = stages @ replicate (16 - n) stage_idle\<rparr>)))"

section \<open>Texture coordinates the program reads\<close>

definition coord_bit :: "int \<Rightarrow> u32" where
  "coord_bit c = push_bit (nat c) 1"

definition stage_coords :: "gx_enums \<Rightarrow> gx_render_enums \<Rightarrow> 'a GXRegisterState_scheme \<Rightarrow> nat \<Rightarrow> u32 \<Rightarrow> u32" where
  "stage_coords g x s i used =
     (let config = tev_config g s;
          dep = tev_stage_texture_dependency g x config (of_nat i);
          used1 = (if dep_texCoordId dep \<ge> 0 \<and> (dep_needsFixedTexcoordState dep \<or>
                       (dep_canSampleTexture dep \<and> dep_combinerUsesTexture dep))
                   then used OR coord_bit (dep_texCoordId dep) else used);
          stage = tevStages s ! i
      in if indTexStage stage < ucast (numIndStages s) then
           (let coord = tev_effective_texcoord config (is_texCoordId (indStages s ! unat (indTexStage stage)))
            in if coord \<ge> 0 then used1 OR coord_bit coord else used1)
         else used1)"

definition tev_program_used_texcoords ::
  "gx_enums \<Rightarrow> gx_render_enums \<Rightarrow> 'a GXRegisterState_scheme \<Rightarrow> string + u32" where
  "tev_program_used_texcoords g x s =
     require (unat (numTevStages s) \<le> 16 \<and> numTexGens s \<le> 8 \<and> numIndStages s \<le> 4)
       (Inr (fold (stage_coords g x s) [0..<unat (numTevStages s)] 0))"

end
