(* ===== verification/GxTexgen.thy ===== *)
theory GxTexgen
  imports GxState GxSdkRender ErrorLists
begin

text \<open>
  ps5/gpu/gx_texgen_state.cpp: the texture coordinate generators of a draw, checked and reduced to
  indices into the shared matrix banks.
\<close>

record MkwTexgen =
  tg_type :: u32
  tg_source :: u32
  tg_matrix :: u32
  tg_post_matrix :: u32
  tg_flags :: u32

record MkwTexgenState =
  tgs_count :: u32
  tgs_used_mask :: u32
  tgs_generators :: "MkwTexgen list"

definition texgen_idle :: MkwTexgen where
  "texgen_idle = \<lparr>tg_type = 0, tg_source = 0, tg_matrix = -1, tg_post_matrix = -1, tg_flags = 0\<rparr>"

text \<open>The matrix index: identity, an indexed matrix (chosen by the vertex), or a row of the bank.\<close>
definition texgen_matrix :: "gx_enums \<Rightarrow> 'a GXRegisterState_scheme \<Rightarrow> nat \<Rightarrow> string + u32" where
  "texgen_matrix g s i =
     (let c = tcgs s ! i
      in if tcg_type c \<noteq> GX_TG_SRTG \<and> tcg_mtx c \<noteq> GX_IDENTITY g \<and>
            vtxDesc s ! (GX_VA_TEX0MTXIDX + i) = GX_NONE g then
           if tcg_mtx c \<ge> 60 then Inl ''GX texture matrix outside shared bank'' else Inr (tcg_mtx c div 3)
         else Inr (-1))"

definition texgen_post_matrix :: "gx_enums \<Rightarrow> 'a GXRegisterState_scheme \<Rightarrow> nat \<Rightarrow> string + u32" where
  "texgen_post_matrix g s i =
     (let c = tcgs s ! i
      in if dualTex s AND 1 \<noteq> 0 \<and> tcg_postMtx c \<noteq> GX_PTIDENTITY g then
           if tcg_postMtx c < 64 \<or> tcg_postMtx c \<ge> 124 then Inl ''GX post texture matrix outside bank''
           else Inr ((tcg_postMtx c - 64) div 3)
         else Inr (-1))"

definition texgen_source :: "gx_render_enums \<Rightarrow> TcgConfig \<Rightarrow> nat \<Rightarrow> string + u32" where
  "texgen_source x c i =
     (if tcg_src c > GX_MAX_TEXGENSRC \<or> (tcg_src c \<ge> GX_TG_TEXCOORD0 x \<and> tcg_src c \<le> GX_TG_TEXCOORD6 x) then
        Inl ''GX recursive texgen source requires an additional shader path''
      else Inr (if tcg_src c = GX_MAX_TEXGENSRC then GX_TG_TEX0 + of_nat i else tcg_src c))"

definition texgen_flags :: "'a GXRegisterState_scheme \<Rightarrow> nat \<Rightarrow> u32" where
  "texgen_flags s i =
     (let c = tcgs s ! i
      in (if tcg_inputFormAB11 c then 1 else 0) OR
         (if dualTex s AND 1 \<noteq> 0 then push_bit 1 (if tcg_normalize c then 1 else 0) else 0))"

text \<open>One round of the loop.\<close>
definition texgen_one ::
  "gx_enums \<Rightarrow> gx_render_enums \<Rightarrow> 'a GXRegisterState_scheme \<Rightarrow> u32 \<Rightarrow> nat \<Rightarrow> string + MkwTexgen" where
  "texgen_one g x s used i =
     (if used AND push_bit i 1 = 0 then Inr texgen_idle
      else
        (let c = tcgs s ! i
         in if tcg_type c \<noteq> GX_TG_MTX3x4 \<and> tcg_type c \<noteq> GX_TG_MTX2x4 \<and> tcg_type c \<noteq> GX_TG_SRTG then
              Inl ''GX emboss texgen requires an additional shader path''
            else case texgen_source x c i of Inl e \<Rightarrow> Inl e
              | Inr src \<Rightarrow> (case texgen_matrix g s i of Inl e \<Rightarrow> Inl e
                 | Inr m \<Rightarrow> (case texgen_post_matrix g s i of Inl e \<Rightarrow> Inl e
                    | Inr pm \<Rightarrow> Inr \<lparr>tg_type = tcg_type c, tg_source = src, tg_matrix = m,
                        tg_post_matrix = pm, tg_flags = texgen_flags s i\<rparr>))))"

definition snapshot_gx_texgen ::
  "gx_enums \<Rightarrow> gx_render_enums \<Rightarrow> 'a GXRegisterState_scheme \<Rightarrow> u32 \<Rightarrow> string + MkwTexgenState" where
  "snapshot_gx_texgen g x s used =
     (if numTexGens s > 8 \<or> used > 255 \<or> drop_bit (unat (numTexGens s)) used \<noteq> 0 then
        Inl ''GX texgen use outside active coordinate count''
      else case map_err (texgen_one g x s used) [0..<8] of Inl e \<Rightarrow> Inl e
        | Inr ds \<Rightarrow> Inr \<lparr>tgs_count = ucast (numTexGens s), tgs_used_mask = used, tgs_generators = ds\<rparr>)"

section \<open>Facts\<close>

lemma texgen_matrix_range: "texgen_matrix g s i = Inr m \<Longrightarrow> m = -1 \<or> m < 20"
  unfolding texgen_matrix_def Let_def
  by (auto split: if_splits simp: word_less_nat_alt word_le_nat_alt unat_div)

lemma texgen_post_matrix_range: "texgen_post_matrix g s i = Inr m \<Longrightarrow> m = -1 \<or> m < 20"
  unfolding texgen_post_matrix_def Let_def
  by (auto split: if_splits simp: word_less_nat_alt word_le_nat_alt unat_div unat_sub)

lemma texgen_source_range:
  assumes "texgen_source x c i = Inr v" "i < 8" "GX_TG_TEXCOORD0 x = 12" "GX_TG_TEXCOORD6 x = 18"
  shows "v \<le> 20 \<and> \<not> (12 \<le> v \<and> v \<le> 18)"
proof (cases "tcg_src c = GX_MAX_TEXGENSRC")
  case True
  hence v: "v = 4 + of_nat i" using assms(1,3,4) by (auto simp: texgen_source_def split: if_splits)
  have "unat (of_nat i :: u32) = i" using assms(2) by (simp add: unat_of_nat)
  hence "unat v = 4 + i" unfolding v using assms(2) by (subst unat_word_ariths) simp
  thus ?thesis using assms(2) by (simp add: word_le_nat_alt)
next
  case False
  hence "tcg_src c < 21" "v = tcg_src c" "\<not> (12 \<le> v \<and> v \<le> 18)"
    using assms(1,3,4) by (auto simp: texgen_source_def split: if_splits)
  thus ?thesis by (auto simp: word_less_nat_alt word_le_nat_alt)
qed

lemma texgen_snapshot_nth:
  assumes "snapshot_gx_texgen g x s used = Inr out" "i < 8"
  shows "texgen_one g x s used i = Inr (tgs_generators out ! i)" "length (tgs_generators out) = 8"
    "tgs_used_mask out = used" "tgs_count out = ucast (numTexGens s)"
proof -
  obtain ds where d: "map_err (texgen_one g x s used) [0..<8] = Inr ds"
    "out = \<lparr>tgs_count = ucast (numTexGens s), tgs_used_mask = used, tgs_generators = ds\<rparr>"
    using assms(1) by (auto simp: snapshot_gx_texgen_def split: if_splits sum.splits)
  show "texgen_one g x s used i = Inr (tgs_generators out ! i)" "length (tgs_generators out) = 8"
    "tgs_used_mask out = used" "tgs_count out = ucast (numTexGens s)"
    using map_err_upt[OF d(1)] assms(2) d(2) by simp_all
qed

lemma texgen_one_cases:
  assumes "texgen_one g x s used i = Inr d" "bit used i"
  obtains "tg_type d \<in> {GX_TG_MTX3x4, GX_TG_MTX2x4, GX_TG_SRTG}"
    "texgen_source x (tcgs s ! i) i = Inr (tg_source d)" "texgen_matrix g s i = Inr (tg_matrix d)"
    "texgen_post_matrix g s i = Inr (tg_post_matrix d)"
proof -
  have "used AND push_bit i 1 \<noteq> 0"
    using assms(2) unfolding and_single_bit by (auto simp: bit_imp_le_length dest: bit_imp_le_length)
  thus thesis using that assms(1) unfolding texgen_one_def Let_def
    by (auto split: if_splits sum.splits)
qed

end
