(* ===== verification/TevEquivalence.thy ===== *)
theory TevEquivalence
  imports TevStageEval
begin

text \<open>
  On integer inputs the floating-point stage arithmetic of tev_stage.h is the integer combiner of
  tev_integer.h.
\<close>

section \<open>Wrapping to a byte\<close>

lemma f32_inv256: "f32_val 0x3B800000 = FFin False (2 ^ 23) (- 31)"
  by (simp add: f32_val_def f_decode_def Let_def)

lemma f32_is_div256:
  assumes "f32_is x n" "\<bar>n\<bar> < 2 ^ 24"
  shows "floor_val (f32_val (f32_mul x 0x3B800000)) = Some (n div 256)"
proof -
  obtain s k j where x: "f32_val x = FFin s (k * 2 ^ j) (- int j)" "n = (if s then - k else k)"
    using f32_is_mag[OF assms(1)] by metis
  show ?thesis
  proof (cases "k = 0")
    case True
    hence "f32_mul x 0x3B800000 = word_of_int (f_sign_bit binary32 s)"
      by (simp add: f32_mul_def x(1) f32_inv256)
    thus ?thesis using True x(2) by (simp only: f32_zero) simp
  next
    case False
    have k0: "0 < k"
    proof -
      have "0 \<le> k * 2 ^ j" using assms(1) x(1) unfolding f32_is_def by auto
      hence "0 \<le> k" by (simp add: zero_le_mult_iff)
      thus ?thesis using False by simp
    qed
    have k: "k < 2 ^ 24" using assms(2) x(2) by (auto split: if_splits)
    have "k * 2 ^ j * 2 ^ 23 = k * 2 ^ (j + 23)" "- int j + - 31 = - 8 - int (j + 23)" by (simp_all add: power_add)
    moreover have "k * 2 ^ j \<noteq> 0" "(2 :: int) ^ 23 \<noteq> 0" "(s \<noteq> False) = s" using False by simp_all
    ultimately have "f32_mul x 0x3B800000 = word_of_int (f_round binary32 s (k * 2 ^ (j + 23)) (- 8 - int (j + 23)))"
      unfolding f32_mul_def x(1) f32_inv256 f_mul_val.simps by (simp only: if_False simp_thms)
    hence m: "f32_mul x 0x3B800000 = word_of_int (f_round binary32 s k (- 8))"
      by (simp only: f_round_scale[OF k0])
    obtain i where v: "f32_val (word_of_int (f_round binary32 s k (- 8))) = FFin s (k * 2 ^ i) (- 8 - int i)"
      by (rule f_round32_exact[OF k0 k, of "- 8" s]) simp_all
    have "nat (- (- 8 - int i)) = i + 8" by simp
    hence "floor_val (FFin s (k * 2 ^ i) (- 8 - int i)) = Some ((n * 2 ^ i) div 2 ^ (i + 8))"
      using x(2) by (simp add: Let_def)
    also have "(n * 2 ^ i) div 2 ^ (i + 8) = n div 256" by (simp add: power_add)
    finally show ?thesis unfolding m v .
  qed
qed

lemma f32_is_floor_div:
  assumes "f32_is x n" "\<bar>n\<bar> < 2 ^ 23"
  shows "f32_is (f32_floor (f32_mul x 0x3B800000)) (n div 256)"
proof -
  have b: "\<bar>n div 256\<bar> < 2 ^ 24" using assms(2) by (simp add: abs_if split: if_splits) linarith+
  have "floor_val (f32_val (f32_mul x 0x3B800000)) = Some (n div 256)"
    by (rule f32_is_div256[OF assms(1)]) (use assms(2) in simp)
  thus ?thesis
    using f32_is_of_int[OF b] f32_is_sign by (simp add: f32_floor_def)
qed

lemma f32_is_wrap:
  assumes "f32_is x n" "\<bar>n\<bar> < 2 ^ 23"
  shows "f32_is (mkw_tev_wrap x) (n mod 256)"
proof -
  have "f32_is (f32_of_int 256) 256" by (rule f32_is_of_int) simp
  moreover have "\<bar>n div 256 * 256\<bar> < 2 ^ 24" using assms(2) by (simp add: abs_if split: if_splits) linarith+
  ultimately have "f32_is (f32_mul (f32_floor (f32_mul x 0x3B800000)) (f32_of_int 256)) (n div 256 * 256)"
    using f32_is_mul[OF f32_is_floor_div[OF assms]] by blast
  moreover have e: "n - n div 256 * 256 = n mod 256" by (simp add: minus_div_mult_eq_mod)
  moreover have "\<bar>n mod 256\<bar> < 2 ^ 24" by (simp add: order_less_trans[OF pos_mod_bound])
  ultimately show ?thesis
    unfolding mkw_tev_wrap_def using f32_is_sub[OF assms(1), of _ "n div 256 * 256"] by (simp add: e)
qed

section \<open>Rounding and clamping\<close>

lemma f32_is_round_s32: "f32_is x n \<Longrightarrow> \<bar>n\<bar> < 2 ^ 24 \<Longrightarrow> mkw_tev_round x = Some (word_of_int n)"
  unfolding mkw_tev_round_def f32_to_s32_def
  by (simp add: f32_is_trunc[OF f32_is_roundeven] abs_less_iff)

lemma clamp_exact:
  assumes "f32_is x t" "\<bar>t\<bar> < 2 ^ 24"
  shows "f32_is (tev_clamp_f32 flags x) (sint (tev_clamp (flags AND 64) (word_of_int t)))"
proof -
  have c: "f32_is (f32_of_int 0) 0" "f32_is (f32_of_int (- 1024)) (- 1024)" "f32_is (f32_of_int 255) 255"
    "f32_is (f32_of_int 1023) 1023" by (rule f32_is_of_int; simp)+
  have s: "sint (word_of_int t :: s32) = t" using assms(2) by (intro sint_of_int) auto
  show ?thesis
    unfolding tev_clamp_f32_def tev_clamp_def Let_def s
    using c assms(1) s by (auto simp: f32_is_lt)
qed

section \<open>The comparison of packed colours\<close>

definition pack_int :: "int \<Rightarrow> int \<Rightarrow> int \<Rightarrow> u32 \<Rightarrow> int" where
  "pack_int r g b op = r + (if op \<ge> 10 then g * 256 else 0) + (if op \<ge> 12 then b * 65536 else 0)"

definition byte_int :: "int \<Rightarrow> bool" where "byte_int n \<longleftrightarrow> 0 \<le> n \<and> n \<le> 255"

definition vec_is :: "MkwTevValue \<Rightarrow> int \<Rightarrow> int \<Rightarrow> int \<Rightarrow> bool" where
  "vec_is v r g b \<longleftrightarrow> f32_is (v0 v) r \<and> f32_is (v1 v) g \<and> f32_is (v2 v) b \<and> byte_int r \<and> byte_int g \<and> byte_int b"

lemma pack_int_bound: "byte_int r \<Longrightarrow> byte_int g \<Longrightarrow> byte_int b \<Longrightarrow> 0 \<le> pack_int r g b op \<and> pack_int r g b op < 2 ^ 24"
  unfolding byte_int_def pack_int_def by auto

lemma tev_pack_is:
  assumes "vec_is v r g b"
  shows "f32_is (tev_pack v op) (pack_int r g b op)"
proof -
  have p: "f32_is (v0 v) r" "f32_is (v1 v) g" "f32_is (v2 v) b" "0 \<le> r" "r \<le> 255" "0 \<le> g" "g \<le> 255" "0 \<le> b" "b \<le> 255"
    using assms by (simp_all add: vec_is_def byte_int_def)
  have k: "f32_is (f32_of_int 256) 256" "f32_is (f32_of_int 65536) 65536" by (rule f32_is_of_int; simp)+
  have g: "f32_is (f32_mul (v1 v) (f32_of_int 256)) (g * 256)"
    by (rule f32_is_mul[OF p(2) k(1)]) (use p in auto)
  have b: "f32_is (f32_mul (v2 v) (f32_of_int 65536)) (b * 65536)"
    by (rule f32_is_mul[OF p(3) k(2)]) (use p in auto)
  have rg: "f32_is (f32_add (v0 v) (f32_mul (v1 v) (f32_of_int 256))) (r + g * 256)"
    by (rule f32_is_add[OF p(1) g]) (use p in auto)
  have rgb: "f32_is (f32_add (f32_add (v0 v) (f32_mul (v1 v) (f32_of_int 256))) (f32_mul (v2 v) (f32_of_int 65536)))
      (r + g * 256 + b * 65536)"
    by (rule f32_is_add[OF rg b]) (use p in auto)
  have "op \<ge> 10" if "op \<ge> 12" using that by (simp add: word_le_nat_alt)
  thus ?thesis using p(1) rg rgb unfolding tev_pack_def pack_int_def Let_def by auto
qed

definition pack_word :: "int \<Rightarrow> int \<Rightarrow> int \<Rightarrow> u32" where
  "pack_word r g b = word_of_int (r + g * 256 + b * 65536)"

definition pack_mask :: "u32 \<Rightarrow> u32" where
  "pack_mask op = (if op < 10 then 255 else if op < 12 then 65535 else 16777215)"

lemma and_mask_int: "uint ((word_of_int n :: u32) AND mask k) = n mod 2 ^ 32 mod 2 ^ k"
  by (simp only: take_bit_eq_mask[symmetric] unsigned_take_bit_eq)
     (simp add: take_bit_eq_mod uint_word_of_int)

lemma pack_word_mask:
  assumes "byte_int r" "byte_int g" "byte_int b"
  shows "uint (pack_word r g b AND pack_mask op) = pack_int r g b op"
proof -
  let ?n = "r + g * 256 + b * 65536"
  have n: "0 \<le> ?n" "?n < 2 ^ 24" using assms by (auto simp: byte_int_def)
  have m32: "?n mod 2 ^ 32 = ?n" using n by simp
  have m: "?n mod 2 ^ 24 = ?n" "?n mod 2 ^ 16 = r + g * 256" "?n mod 2 ^ 8 = r"
  proof -
    show "?n mod 2 ^ 24 = ?n" using n by simp
    have "?n mod 2 ^ 16 = (r + g * 256) mod 2 ^ 16" using mod_mult_self1[of "r + g * 256" b "2 ^ 16"] by simp
    thus "?n mod 2 ^ 16 = r + g * 256" using assms by (simp add: byte_int_def)
    have "?n = r + (g + b * 256) * 2 ^ 8" by simp
    hence "?n mod 2 ^ 8 = r mod 2 ^ 8" by (simp only: mod_mult_self1)
    thus "?n mod 2 ^ 8 = r" using assms by (simp add: byte_int_def)
  qed
  have k: "255 = (mask 8 :: u32)" "65535 = (mask 16 :: u32)" "16777215 = (mask 24 :: u32)" by (simp_all add: mask_numeral)
  have o: "op < 10 \<longleftrightarrow> \<not> 10 \<le> op" "op < 12 \<longleftrightarrow> \<not> 12 \<le> op" by auto
  have i: "12 \<le> op \<Longrightarrow> 10 \<le> op" by (simp add: word_le_nat_alt)
  show ?thesis
    unfolding pack_word_def pack_mask_def pack_int_def k o
    using i and_mask_int[of ?n] m m32 by auto
qed

definition packed_pass :: "u32 \<Rightarrow> u32 \<Rightarrow> u32 \<Rightarrow> bool" where
  "packed_pass op x y = (if op AND 1 \<noteq> 0 then x = y else x > y)"

lemma packed_pass_int: "packed_pass op x y \<longleftrightarrow> (if op AND 1 \<noteq> 0 then uint x = uint y else uint x > uint y)"
  by (simp add: packed_pass_def word_less_def word_uint_eq_iff)

lemma tev_pass_int:
  assumes "\<bar>m\<bar> < 2 ^ 24" "\<bar>n\<bar> < 2 ^ 24"
  shows "tev_pass op (Some (word_of_int m)) (Some (word_of_int n)) = Some (if op AND 1 \<noteq> 0 then m = n else m > n)"
proof -
  have s: "sint (word_of_int m :: s32) = m" "sint (word_of_int n :: s32) = n"
    using assms by (auto intro!: sint_of_int)
  hence "(word_of_int m :: s32) = word_of_int n \<longleftrightarrow> m = n" by metis
  thus ?thesis using s by (simp add: tev_pass_def)
qed

lemma compare_exact:
  assumes "vec_is va ra ga ba" "vec_is vb rb gb bb"
  shows "mkw_tev_compare va vb op =
    Some (packed_pass op (pack_word ra ga ba AND pack_mask op) (pack_word rb gb bb AND pack_mask op))"
proof -
  have p: "byte_int ra" "byte_int ga" "byte_int ba" "byte_int rb" "byte_int gb" "byte_int bb"
    using assms by (simp_all add: vec_is_def)
  have b: "\<bar>pack_int ra ga ba op\<bar> < 2 ^ 24" "\<bar>pack_int rb gb bb op\<bar> < 2 ^ 24"
    using pack_int_bound[OF p(1-3), of op] pack_int_bound[OF p(4-6), of op] by simp_all
  show ?thesis
    unfolding mkw_tev_compare_def f32_is_round_s32[OF tev_pack_is[OF assms(1)] b(1)]
      f32_is_round_s32[OF tev_pack_is[OF assms(2)] b(2)] tev_pass_int[OF b] packed_pass_int
      pack_word_mask[OF p(1-3)] pack_word_mask[OF p(4-6)] ..
qed

section \<open>A component\<close>

lemma byte_and: "byte_int a \<Longrightarrow> (word_of_int a :: s32) AND 255 = word_of_int a"
proof -
  assume a: "byte_int a"
  have "(255 :: s32) = mask 8" by (simp add: mask_numeral)
  hence "uint ((word_of_int a :: s32) AND 255) = a mod 2 ^ 32 mod 2 ^ 8" by (simp only: and_mask_int)
  also have "\<dots> = uint (word_of_int a :: s32)" using a by (simp add: byte_int_def uint_word_of_int)
  finally show ?thesis by (simp only: word_uint_eq_iff)
qed

lemma bias_word:
  assumes "drop_bit 8 flags AND 3 \<noteq> (3 :: u32)"
  obtains b where "(drop_bit 8 flags AND 3) * 128 - 128 = (word_of_int b :: u32)" "- 128 \<le> b" "b \<le> 128"
proof -
  let ?k = "drop_bit 8 flags AND 3 :: u32"
  have "(3 :: u32) = mask 2" by (simp add: mask_numeral)
  hence "uint ?k = uint (drop_bit 8 flags) mod 4"
    by (simp only: take_bit_eq_mask[symmetric] unsigned_take_bit_eq) (simp add: take_bit_eq_mod)
  hence k: "0 \<le> uint ?k" "uint ?k < 4" by simp_all
  have "uint ?k \<noteq> 3"
  proof
    assume "uint ?k = 3"
    hence "uint ?k = uint (3 :: u32)" by simp
    thus False using assms by (simp only: word_uint_eq_iff)
  qed
  hence le: "uint ?k \<le> 2" using k by simp
  have "?k * 128 - 128 = word_of_int (uint ?k * 128 - 128)" by simp
  thus thesis using that[of "uint ?k * 128 - 128"] k le by simp
qed

text \<open>What the float path receives and the integer path computes for one channel.\<close>
lemma eval_regular_exact:
  assumes "f32_is a i" "f32_is b j" "f32_is c k" "f32_is d l" "byte_int i" "byte_int j" "byte_int k"
    "- 1024 \<le> l" "l \<le> 1023" "flags AND 15 < 2" "drop_bit 8 flags AND 3 \<noteq> 3"
  shows "\<exists>r. mkw_tev_eval a b c d flags pass = Some r \<and>
    f32_is r (sint (mkw_tev_component (word_of_int i) (word_of_int j) (word_of_int k) (word_of_int l) x y
      (flags AND 15) ((drop_bit 8 flags AND 3) * 128 - 128) (drop_bit 4 flags AND 3) (flags AND 64)))"
proof -
  obtain z where z: "(drop_bit 8 flags AND 3) * 128 - 128 = (word_of_int z :: u32)" "- 128 \<le> z" "z \<le> 128"
    using bias_word[OF assms(11)] .
  have B: "\<bar>i\<bar> < 2 ^ 24" "\<bar>j\<bar> < 2 ^ 24" "\<bar>k\<bar> < 2 ^ 24" "\<bar>l\<bar> < 2 ^ 24" using assms(5-9) by (auto simp: byte_int_def)
  note r = regular_exact[of i j k l z "flags AND 15" "drop_bit 4 flags AND 3"]
  let ?t = "tev_formula i j k l (flags AND 15) z (drop_bit 4 flags AND 3)"
  have rw: "mkw_tev_regular (word_of_int i) (word_of_int j) (word_of_int k) (word_of_int l) (flags AND 15)
      (word_of_int z) (drop_bit 4 flags AND 3) = word_of_int ?t" and t: "\<bar>?t\<bar> \<le> 8000"
    using r assms(5-9) z(2,3) by (auto simp: byte_int_def)
  have "sint (word_of_int ?t :: s32) = ?t" using t by (intro sint_of_int) auto
  hence f: "f32_is (f32_of_s32 (word_of_int ?t)) ?t"
    unfolding f32_of_s32_def using t by (auto intro: f32_is_of_int)
  have "mkw_tev_eval a b c d flags pass = Some (tev_clamp_f32 flags (f32_of_s32 (word_of_int ?t)))"
    unfolding mkw_tev_eval_def Let_def if_P[OF assms(10)] z(1)
      f32_is_round_s32[OF assms(1) B(1)] f32_is_round_s32[OF assms(2) B(2)] f32_is_round_s32[OF assms(3) B(3)]
      f32_is_round_s32[OF assms(4) B(4)] prod.case option.case rw ..
  moreover have "mkw_tev_component (word_of_int i) (word_of_int j) (word_of_int k) (word_of_int l) x y
      (flags AND 15) ((drop_bit 8 flags AND 3) * 128 - 128) (drop_bit 4 flags AND 3) (flags AND 64) =
      tev_clamp (flags AND 64) (word_of_int ?t)"
    unfolding mkw_tev_component_def Let_def if_P[OF assms(10)] z(1) byte_and[OF assms(5)] byte_and[OF assms(6)]
      byte_and[OF assms(7)] rw ..
  ultimately show ?thesis using clamp_exact[OF f] t by auto
qed

lemma eval_compare_exact:
  assumes "f32_is a i" "f32_is b j" "f32_is c k" "f32_is d l" "byte_int i" "byte_int j" "byte_int k"
    "- 1024 \<le> l" "l \<le> 1023" "2 \<le> flags AND 15"
    "pass = packed_pass (flags AND 15) (x AND pack_mask (flags AND 15)) (y AND pack_mask (flags AND 15))"
  shows "\<exists>r. mkw_tev_eval a b c d flags pass = Some r \<and>
    f32_is r (sint (mkw_tev_component (word_of_int i) (word_of_int j) (word_of_int k) (word_of_int l) x y
      (flags AND 15) bias scale (flags AND 64)))"
proof -
  let ?op = "flags AND 15"
  have B: "\<bar>i\<bar> < 2 ^ 24" "\<bar>j\<bar> < 2 ^ 24" using assms(5,6) by (auto simp: byte_int_def)
  have n: "\<not> ?op < 2" using assms(10) by simp
  have ub: "uint (word_of_int i :: u32) = i" "uint (word_of_int j :: u32) = j"
    using assms(5,6) by (simp_all add: byte_int_def uint_word_of_int)
  define p where "p = packed_pass ?op (if ?op < 14 then x AND pack_mask ?op else word_of_int i)
      (if ?op < 14 then y AND pack_mask ?op else word_of_int j)"
  have "tev_pass ?op (mkw_tev_round a) (mkw_tev_round b) = Some (packed_pass ?op (word_of_int i) (word_of_int j))"
    unfolding f32_is_round_s32[OF assms(1) B(1)] f32_is_round_s32[OF assms(2) B(2)] tev_pass_int[OF B]
      packed_pass_int ub ..
  hence sel: "(if ?op \<ge> 14 then tev_pass ?op (mkw_tev_round a) (mkw_tev_round b) else Some pass) = Some p"
    unfolding p_def assms(11) by (auto simp: not_le)
  have f: "f32_is (f32_add d (if p then c else 0)) (l + (if p then k else 0))"
  proof (rule f32_is_add[OF assms(4)])
    show "f32_is (if p then c else 0) (if p then k else 0)" using assms(3) f32_is_zero[of False] by (simp add: f_sign_bit_def)
    show "\<bar>l + (if p then k else 0)\<bar> < 2 ^ 24" using assms(7-9) by (auto simp: byte_int_def)
  qed
  have "mkw_tev_eval a b c d flags pass = Some (tev_clamp_f32 flags (f32_add d (if p then c else 0)))"
    unfolding mkw_tev_eval_def Let_def if_not_P[OF n] sel option.case ..
  moreover have "mkw_tev_component (word_of_int i) (word_of_int j) (word_of_int k) (word_of_int l) x y
      ?op bias scale (flags AND 64) = tev_clamp (flags AND 64) (word_of_int (l + (if p then k else 0)))"
    unfolding mkw_tev_component_def Let_def if_not_P[OF n] byte_and[OF assms(5)] byte_and[OF assms(6)]
      byte_and[OF assms(7)] p_def packed_pass_def pack_mask_def by auto
  moreover have "\<bar>l + (if p then k else 0)\<bar> < 2 ^ 24" using assms(7-9) by (auto simp: byte_int_def)
  ultimately show ?thesis using clamp_exact[OF f] by auto
qed

lemma stage_channel_exact:
  assumes "f32_is a i" "f32_is b j" "f32_is c k" "f32_is d l" "byte_int i" "byte_int j" "byte_int k"
    "- 1024 \<le> l" "l \<le> 1023" "flags AND 15 < 2 \<longrightarrow> drop_bit 8 flags AND 3 \<noteq> 3"
    "vec_is va ra ga ba" "vec_is vb rb gb bb"
  shows "\<exists>p r. mkw_tev_compare va vb (flags AND 15) = Some p \<and> mkw_tev_eval a b c d flags p = Some r \<and>
    f32_is r (sint (mkw_tev_component (word_of_int i) (word_of_int j) (word_of_int k) (word_of_int l)
      (pack_word ra ga ba) (pack_word rb gb bb)
      (flags AND 15) ((drop_bit 8 flags AND 3) * 128 - 128) (drop_bit 4 flags AND 3) (flags AND 64)))"
proof (cases "flags AND 15 < 2")
  case True
  thus ?thesis using compare_exact[OF assms(11,12)] eval_regular_exact[OF assms(1-9) True] assms(10) by blast
next
  case False
  hence "2 \<le> flags AND 15" by simp
  thus ?thesis using compare_exact[OF assms(11,12)] eval_compare_exact[OF assms(1-9) _ refl] by blast
qed

end
