(* ===== verification/GxTevProgramLemmas.thy ===== *)
theory GxTevProgramLemmas
  imports GxTevProgram GxTexgen TevEquivalence
begin

text \<open>
  The packed program carries the decoded state to the interpreter of tev_stage.h, and the
  coordinates it reports are ones the texgen encoder accepts.
\<close>

section \<open>Reading an operation word\<close>

lemma u32_of_bool_fits: "fits 1 (u32_of_bool b)"
  by (simp add: u32_of_bool_def fits_def)

lemma le_fits: "w \<le> 3 \<Longrightarrow> fits 2 w" "w \<le> 7 \<Longrightarrow> fits 3 w" "w \<le> 15 \<Longrightarrow> fits 4 w" "w \<le> 255 \<Longrightarrow> fits 8 w"
  for w :: u32
  by (simp_all add: fits_iff_unat word_le_nat_alt)

definition shifted_bias :: "gx_render_enums \<Rightarrow> TevOp \<Rightarrow> u32" where
  "shifted_bias x v = (let bias = (if op_op v \<ge> 8 then 0 else op_bias v)
     in if bias = GX_TB_ADDHALF x then 2 else if bias = GX_TB_SUBHALF x then 0 else 1)"

lemma op_word_fields:
  assumes "fits 4 a" "fits 2 b" "fits 1 c" "fits 2 d" "fits 2 e"
  defines "w \<equiv> a OR push_bit 4 b OR push_bit 6 c OR push_bit 8 d OR push_bit 10 (e :: u32)"
  shows "bp_get w 4 0 = a" "bp_get w 2 4 = b" "bp_get w 1 6 = c" "bp_get w 2 8 = d" "bp_get w 2 10 = e"
  unfolding w_def using assms(1-5)
  by (simp_all add: bp_get_here bp_get_here0 bp_get_above
      bp_get_below0[OF assms(1)] bp_get_below[OF assms(2)] bp_get_below[OF assms(3)] bp_get_below[OF assms(4)])

lemma bit6_flag: "w AND 64 \<noteq> 0 \<longleftrightarrow> drop_bit 6 w AND 1 \<noteq> (0 :: u32)"
proof -
  have "(64 :: u32) = push_bit 6 1" by simp
  hence "w AND 64 = (if bit w 6 then push_bit 6 1 else 0)" by (simp only: and_single_bit)
  moreover have "drop_bit 6 w AND push_bit 0 1 = (if bit (drop_bit 6 w) 0 then push_bit 0 1 else 0)"
    by (rule and_single_bit)
  ultimately show ?thesis by (simp add: bit_drop_bit_eq)
qed

lemma operation_fields:
  assumes "operation x v = Inr w" "GX_CS_DIVIDE_2 x = 3"
  shows "w AND 15 = op_op v" "drop_bit 4 w AND 3 = op_scale v" "(w AND 64 \<noteq> 0) = op_clamp v"
    "drop_bit 8 w AND 3 = shifted_bias x v" "drop_bit 10 w AND 3 = op_outReg v"
    "op_op v < 2 \<or> 8 \<le> op_op v"
proof -
  have c: "op_op v \<le> 15" "op_scale v \<le> 3" "op_outReg v \<le> 3" "op_op v \<le> 1 \<or> 8 \<le> op_op v"
    and w: "w = op_op v OR push_bit 4 (op_scale v) OR push_bit 6 (u32_of_bool (op_clamp v)) OR
      push_bit 8 (shifted_bias x v) OR push_bit 10 (op_outReg v)"
    using assms unfolding operation_def Let_def require_Inr shifted_bias_def by (auto simp: word_le_nat_alt)
  have sb: "fits 2 (shifted_bias x v)" by (simp add: shifted_bias_def Let_def fits_def)
  note f = op_word_fields[OF le_fits(3)[OF c(1)] le_fits(1)[OF c(2)] u32_of_bool_fits[of "op_clamp v"] sb le_fits(1)[OF c(3)],
    folded w]
  show "w AND 15 = op_op v" "drop_bit 4 w AND 3 = op_scale v" "drop_bit 8 w AND 3 = shifted_bias x v"
    "drop_bit 10 w AND 3 = op_outReg v" using f by (simp_all add: bp_get_def)
  have "drop_bit 6 w AND 1 = u32_of_bool (op_clamp v)" using f(3) by (simp add: bp_get_def)
  thus "(w AND 64 \<noteq> 0) = op_clamp v" unfolding bit6_flag by (simp add: u32_of_bool_def)
  show "op_op v < 2 \<or> 8 \<le> op_op v" using c(4) by (auto simp: word_le_nat_alt word_less_nat_alt)
qed

lemma shifted_bias_value:
  assumes "GX_TB_ZERO g = 0" "GX_TB_ADDHALF x = 1" "GX_TB_SUBHALF x = 2"
  shows "shifted_bias x v \<noteq> 3"
    "op_op v < 8 \<Longrightarrow> op_bias v \<le> 2 \<Longrightarrow> shifted_bias x v * 128 - 128 =
       (if op_bias v = GX_TB_ADDHALF x then 128 else if op_bias v = GX_TB_SUBHALF x then -128 else 0)"
  using assms by (auto simp: shifted_bias_def Let_def not_le[symmetric])

section \<open>Reading the operands\<close>

lemma pack_fields:
  assumes "fits k a" "fits k b" "fits k c" "fits k d" "4 * k \<le> 32"
  shows "bp_get (pack_args k [a, b, c, d]) k 0 = a" "bp_get (pack_args k [a, b, c, d]) k k = b"
    "bp_get (pack_args k [a, b, c, d]) k (2 * k) = c" "bp_get (pack_args k [a, b, c, d]) k (3 * k) = d"
  using assms
  by (simp_all add: pack_args_def bp_get_here bp_get_here0 bp_get_above bp_get_below0[OF assms(1)]
      bp_get_below[OF assms(2)] bp_get_below[OF assms(3)])

lemma pack4_fields:
  assumes "list_all (\<lambda>a. a \<le> 15) [a, b, c, (d :: u32)]"
  shows "pack_args 4 [a, b, c, d] AND 15 = a" "drop_bit 4 (pack_args 4 [a, b, c, d]) AND 15 = b"
    "drop_bit 8 (pack_args 4 [a, b, c, d]) AND 15 = c" "drop_bit 12 (pack_args 4 [a, b, c, d]) AND 15 = d"
  using pack_fields[of 4 a b c d] assms by (simp_all add: le_fits bp_get_def)

lemma pack3_fields:
  assumes "list_all (\<lambda>a. a \<le> 7) [a, b, c, (d :: u32)]"
  shows "pack_args 3 [a, b, c, d] AND 7 = a" "drop_bit 3 (pack_args 3 [a, b, c, d]) AND 7 = b"
    "drop_bit 6 (pack_args 3 [a, b, c, d]) AND 7 = c" "drop_bit 9 (pack_args 3 [a, b, c, d]) AND 7 = d"
  using pack_fields[of 3 a b c d] assms by (simp_all add: le_fits bp_get_def)

section \<open>The stages of a program\<close>

lemma program_stage:
  assumes "build_tev_program g x s = Inr p" "i < unat (numTevStages s)"
  obtains konst where "build_stage g x s konst i = Inr (tp_stages p ! i)" "length (tp_stages p) = 16"
proof -
  obtain konst stages where e: "map_err (build_stage g x s konst) [0..<unat (numTevStages s)] = Inr stages"
    "tp_stages p = stages @ replicate (16 - unat (numTevStages s)) stage_idle" "unat (numTevStages s) \<le> 16"
    using assms(1) unfolding build_tev_program_def Let_def by (auto split: sum.splits)
  show thesis
    by (rule that[of konst]) (use map_err_upt[OF e(1)] e(2,3) assms(2) in \<open>auto simp: nth_append\<close>)
qed

lemma stage_fields:
  assumes "build_stage g x s konst i = Inr d"
  shows "operation x (colorOp (tevStages s ! i)) = Inr (ts_color_op d)"
    "operation x (alphaOp (tevStages s ! i)) = Inr (ts_alpha_op d)"
    "ts_color_args d = pack_args 4 (pass_list (colorPass (tevStages s ! i)))"
    "ts_alpha_args d = pack_args 3 (pass_list (alphaPass (tevStages s ! i)))"
    "list_all (\<lambda>a. a \<le> 15) (pass_list (colorPass (tevStages s ! i)))"
    "list_all (\<lambda>a. a \<le> 7) (pass_list (alphaPass (tevStages s ! i)))"
  using assms unfolding build_stage_def Let_def by (auto split: sum.splits)

section \<open>The coordinates of a program\<close>

definition coords_below :: "nat \<Rightarrow> u32 \<Rightarrow> bool" where
  "coords_below n w \<longleftrightarrow> (\<forall>k. bit w k \<longrightarrow> k < n)"

lemma coords_below_or: "coords_below n a \<Longrightarrow> coords_below n b \<Longrightarrow> coords_below n (a OR b)"
  by (auto simp: coords_below_def bit_simps)

lemma coords_below_bit: "0 \<le> c \<Longrightarrow> c < int n \<Longrightarrow> coords_below n (coord_bit c)"
  by (auto simp: coords_below_def coord_bit_def bit_simps)

lemma config_texgens: "sc_numTexGens (tev_config g s) = numTexGens s"
  by (simp add: tev_config_def)

lemma effective_below:
  "0 \<le> tev_effective_texcoord (tev_config g s) k \<Longrightarrow> tev_effective_texcoord (tev_config g s) k < int (unat (numTexGens s))"
  using tev_effective_texcoord_range(2)[of "tev_config g s" k]
  by (cases "numTexGens s = 0") (auto simp: config_texgens tev_effective_texcoord_def)

lemma dependency_below:
  "0 \<le> dep_texCoordId (tev_stage_texture_dependency g x (tev_config g s) i) \<Longrightarrow>
   dep_texCoordId (tev_stage_texture_dependency g x (tev_config g s) i) < int (unat (numTexGens s))"
  using effective_below
  by (auto simp: tev_stage_texture_dependency_def Let_def TevStageTextureDependency_init_def split: if_splits)

lemma stage_coords_below:
  "coords_below (unat (numTexGens s)) used \<Longrightarrow> coords_below (unat (numTexGens s)) (stage_coords g x s i used)"
  unfolding stage_coords_def Let_def
  by (auto intro!: coords_below_or coords_below_bit effective_below dependency_below)

lemma used_texcoords_below:
  assumes "tev_program_used_texcoords g x s = Inr used"
  shows "coords_below (unat (numTexGens s)) used" "numTexGens s \<le> 8"
proof -
  have u: "used = fold (stage_coords g x s) [0..<unat (numTevStages s)] 0" "numTexGens s \<le> 8"
    using assms by (simp_all add: tev_program_used_texcoords_def)
  have "coords_below (unat (numTexGens s)) (fold (stage_coords g x s) is w)"
    if "coords_below (unat (numTexGens s)) w" for "is" w
    using that by (induction "is" arbitrary: w) (simp_all add: stage_coords_below)
  moreover have "coords_below (unat (numTexGens s)) 0" by (simp add: coords_below_def)
  ultimately show "coords_below (unat (numTexGens s)) used" unfolding u(1) .
  show "numTexGens s \<le> 8" by (rule u(2))
qed

lemma used_texcoords_accepted:
  assumes "tev_program_used_texcoords g x s = Inr used"
  shows "used \<le> 255" "drop_bit (unat (numTexGens s)) used = 0"
proof -
  note b = used_texcoords_below[OF assms]
  have "unat (numTexGens s) \<le> 8" using b(2) by (simp add: word_le_nat_alt)
  hence k: "k < 8" if "bit used k" for k using b(1) that unfolding coords_below_def by (meson less_le_trans)
  have "take_bit 8 used = used"
    by (rule bit_word_eqI) (use k in \<open>auto simp: bit_simps\<close>)
  hence "fits 8 used" by (simp add: fits_def)
  from fits_unat_less[OF this] show "used \<le> 255" by (simp add: word_le_nat_alt)
  show "drop_bit (unat (numTexGens s)) used = 0"
    by (rule bit_word_eqI) (use b(1) in \<open>auto simp: bit_simps coords_below_def\<close>)
qed

end
