(* ===== verification/TevRefinement.thy ===== *)
theory TevRefinement
  imports GxTevProgramLemmas
begin

text \<open>
  The whole path of a texture environment stage: the register file is packed by build_tev_program,
  tev_stage.h interprets the packed words on floats, and the result is the integer combiner of
  tev_integer.h applied to the fields of the register file.  The operands are taken as integers
  (register, texture and raster values; the 127.5 constant and fractional konst colours excepted).
\<close>

section \<open>The reference\<close>

record ivec =
  i0 :: int
  i1 :: int
  i2 :: int
  i3 :: int

definition ivec_is :: "MkwTevValue \<Rightarrow> ivec \<Rightarrow> bool" where
  "ivec_is v w \<longleftrightarrow> f32_is (v0 v) (i0 w) \<and> f32_is (v1 v) (i1 w) \<and> f32_is (v2 v) (i2 w) \<and> f32_is (v3 v) (i3 w)"

definition tev_range :: "int \<Rightarrow> bool" where "tev_range n \<longleftrightarrow> - 1024 \<le> n \<and> n \<le> 1023"

definition ivec_range :: "ivec \<Rightarrow> bool" where
  "ivec_range w \<longleftrightarrow> tev_range (i0 w) \<and> tev_range (i1 w) \<and> tev_range (i2 w) \<and> tev_range (i3 w)"

definition tev_bias :: "gx_render_enums \<Rightarrow> TevOp \<Rightarrow> s32" where
  "tev_bias x v = (if op_bias v = GX_TB_ADDHALF x then 128 else if op_bias v = GX_TB_SUBHALF x then -128 else 0)"

text \<open>A, B and C keep their low byte; the packed colours are those of A and B.\<close>
definition channel_value :: "gx_render_enums \<Rightarrow> TevOp \<Rightarrow> ivec \<Rightarrow> ivec \<Rightarrow> int \<Rightarrow> int \<Rightarrow> int \<Rightarrow> int \<Rightarrow> int" where
  "channel_value x v A B a b c d =
     sint (mkw_tev_component (word_of_int (a mod 256)) (word_of_int (b mod 256)) (word_of_int (c mod 256)) (word_of_int d)
       (pack_word (i0 A mod 256) (i1 A mod 256) (i2 A mod 256)) (pack_word (i0 B mod 256) (i1 B mod 256) (i2 B mod 256))
       (op_op v) (tev_bias x v) (op_scale v) (u32_of_bool (op_clamp v)))"

text \<open>The result of a stage from its four colour and four alpha operands.\<close>
definition stage_value :: "gx_render_enums \<Rightarrow> TevStage \<Rightarrow> (nat \<Rightarrow> ivec) \<Rightarrow> (nat \<Rightarrow> int) \<Rightarrow> ivec" where
  "stage_value x t C a =
     \<lparr>i0 = channel_value x (colorOp t) (C 0) (C 1) (i0 (C 0)) (i0 (C 1)) (i0 (C 2)) (i0 (C 3)),
      i1 = channel_value x (colorOp t) (C 0) (C 1) (i1 (C 0)) (i1 (C 1)) (i1 (C 2)) (i1 (C 3)),
      i2 = channel_value x (colorOp t) (C 0) (C 1) (i2 (C 0)) (i2 (C 1)) (i2 (C 2)) (i2 (C 3)),
      i3 = channel_value x (alphaOp t) (C 0) (C 1) (a 0) (a 1) (a 2) (a 3)\<rparr>"

section \<open>One channel\<close>

lemma component_clamp_flag:
  "(cl \<noteq> 0) = (cl' \<noteq> 0) \<Longrightarrow> mkw_tev_component a b c d p q opn bias sc cl = mkw_tev_component a b c d p q opn bias sc cl'"
  by (simp add: mkw_tev_component_def tev_clamp_def)

lemma component_compare_bias:
  "2 \<le> opn \<Longrightarrow> mkw_tev_component a b c d p q opn bias sc cl = mkw_tev_component a b c d p q opn bias' sc cl"
  unfolding mkw_tev_component_def Let_def by (simp only: not_less[symmetric] if_False)

lemma byte_mod: "byte_int (n mod 256)"
  using pos_mod_bound[of 256 n] by (simp add: byte_int_def)

lemma operation_bias:
  assumes "operation x v = Inr w" "GX_CS_DIVIDE_2 x = 3" "GX_TB_ADDHALF x = 1" "GX_TB_SUBHALF x = 2"
  shows "op_op v < 2 \<Longrightarrow> (drop_bit 8 w AND 3) * 128 - 128 = tev_bias x v" "drop_bit 8 w AND 3 \<noteq> 3"
proof -
  have f: "drop_bit 8 w AND 3 = shifted_bias x v" by (rule operation_fields(4)[OF assms(1,2)])
  show "drop_bit 8 w AND 3 \<noteq> 3" unfolding f by (simp add: shifted_bias_def Let_def)
  assume "op_op v < 2"
  hence "\<not> 8 \<le> op_op v" by (simp add: word_less_nat_alt word_le_nat_alt)
  thus "(drop_bit 8 w AND 3) * 128 - 128 = tev_bias x v"
    unfolding f using assms(3,4) by (simp add: shifted_bias_def Let_def tev_bias_def)
qed

lemma channel_matches:
  assumes op: "operation x v = Inr w" "GX_CS_DIVIDE_2 x = 3" "GX_TB_ADDHALF x = 1" "GX_TB_SUBHALF x = 2"
    and f: "f32_is fa (a mod 256)" "f32_is fb (b mod 256)" "f32_is fc (c mod 256)" "f32_is fd d" "tev_range d"
    and vec: "vec_is va (i0 A mod 256) (i1 A mod 256) (i2 A mod 256)" "vec_is vb (i0 B mod 256) (i1 B mod 256) (i2 B mod 256)"
  shows "\<exists>p r. mkw_tev_compare va vb (w AND 15) = Some p \<and> mkw_tev_eval fa fb fc fd w p = Some r \<and>
    f32_is r (channel_value x v A B a b c d)"
proof -
  note o = operation_fields[OF op(1,2)] and bias = operation_bias[OF op]
  have d: "- 1024 \<le> d" "d \<le> 1023" using f(5) by (simp_all add: tev_range_def)
  have cl: "(w AND 64 \<noteq> 0) = (u32_of_bool (op_clamp v) \<noteq> 0)" by (simp add: o(3) u32_of_bool_def)
  have "mkw_tev_component (word_of_int (a mod 256)) (word_of_int (b mod 256)) (word_of_int (c mod 256)) (word_of_int d) P Q
      (w AND 15) ((drop_bit 8 w AND 3) * 128 - 128) (drop_bit 4 w AND 3) (w AND 64) =
    mkw_tev_component (word_of_int (a mod 256)) (word_of_int (b mod 256)) (word_of_int (c mod 256)) (word_of_int d) P Q
      (op_op v) (tev_bias x v) (op_scale v) (u32_of_bool (op_clamp v))" for P Q
  proof (cases "op_op v < 2")
    case True
    show ?thesis unfolding o(1,2) bias(1)[OF True] by (rule component_clamp_flag[OF cl])
  next
    case False
    hence "2 \<le> op_op v" by simp
    from component_compare_bias[OF this] component_clamp_flag[OF cl] show ?thesis unfolding o(1,2) by metis
  qed
  thus ?thesis
    using stage_channel_exact[OF f(1-4) byte_mod byte_mod byte_mod d _ vec, of w] bias(2)
    unfolding channel_value_def by auto
qed

section \<open>A stage\<close>

lemma range_wrap: "f32_is y n \<Longrightarrow> tev_range n \<Longrightarrow> f32_is (mkw_tev_wrap y) (n mod 256)"
  by (rule f32_is_wrap) (auto simp: tev_range_def)

lemma ivec_wrap:
  assumes "ivec_is v w" "ivec_range w"
  shows "f32_is (v0 (mkw_tev_wrap4 v)) (i0 w mod 256)" "f32_is (v1 (mkw_tev_wrap4 v)) (i1 w mod 256)"
    "f32_is (v2 (mkw_tev_wrap4 v)) (i2 w mod 256)"
    "vec_is (mkw_tev_wrap4 v) (i0 w mod 256) (i1 w mod 256) (i2 w mod 256)"
  using assms range_wrap byte_mod
  by (simp_all add: ivec_is_def ivec_range_def mkw_tev_wrap4_def vec_is_def)

lemma channel_range: "tev_range (channel_value x v A B a b c d)"
  unfolding channel_value_def mkw_tev_component_def tev_range_def Let_def
  using tev_clamp_bounds[of "u32_of_bool (op_clamp v)"]
  by (smt (verit, best))

lemma stage_matches:
  assumes ops: "operation x (colorOp t) = Inr (ts_color_op st)" "operation x (alphaOp t) = Inr (ts_alpha_op st)"
    and g: "GX_CS_DIVIDE_2 x = 3" "GX_TB_ADDHALF x = 1" "GX_TB_SUBHALF x = 2"
    and C: "\<And>n. n < 4 \<Longrightarrow> ivec_is (stage_color regs st (mkw_tev_swizzle tex (ts_texture_swap st)) (mkw_tev_swizzle ras (ts_raster_swap st)) n) (C n)"
      "\<And>n. n < 4 \<Longrightarrow> ivec_range (C n)"
    and a: "\<And>n. n < 4 \<Longrightarrow> f32_is (stage_alpha regs st (mkw_tev_swizzle tex (ts_texture_swap st)) (mkw_tev_swizzle ras (ts_raster_swap st)) n) (a n)"
      "\<And>n. n < 4 \<Longrightarrow> tev_range (a n)"
  shows "\<exists>res. mkw_tev_stage regs st tex ras = Some (mkw_tev_write regs (op_outReg (colorOp t)) (op_outReg (alphaOp t)) res, res) \<and>
    ivec_is res (stage_value x t C a)"
proof -
  let ?t = "mkw_tev_swizzle tex (ts_texture_swap st)" and ?r = "mkw_tev_swizzle ras (ts_raster_swap st)"
  note W = ivec_wrap[OF C(1) C(2)]
  have Aw: "f32_is (mkw_tev_wrap (stage_alpha regs st ?t ?r n)) (a n mod 256)" if "n < 4" for n
    by (rule range_wrap[OF a(1)[OF that] a(2)[OF that]])
  have D: "f32_is (v0 (stage_color regs st ?t ?r 3)) (i0 (C 3))" "f32_is (v1 (stage_color regs st ?t ?r 3)) (i1 (C 3))"
    "f32_is (v2 (stage_color regs st ?t ?r 3)) (i2 (C 3))" using C(1)[of 3] by (simp_all add: ivec_is_def)
  have R: "tev_range (i0 (C 3))" "tev_range (i1 (C 3))" "tev_range (i2 (C 3))" using C(2)[of 3] by (simp_all add: ivec_range_def)
  note ch = channel_matches[OF ops(1) g _ _ _ _ _ W(4)[of 0] W(4)[of 1]]
  obtain p r0 where r0: "mkw_tev_compare (mkw_tev_wrap4 (stage_color regs st ?t ?r 0)) (mkw_tev_wrap4 (stage_color regs st ?t ?r 1)) (ts_color_op st AND 15) = Some p"
    "mkw_tev_eval (v0 (mkw_tev_wrap4 (stage_color regs st ?t ?r 0))) (v0 (mkw_tev_wrap4 (stage_color regs st ?t ?r 1)))
      (v0 (mkw_tev_wrap4 (stage_color regs st ?t ?r 2))) (v0 (stage_color regs st ?t ?r 3)) (ts_color_op st) p = Some r0"
    "f32_is r0 (i0 (stage_value x t C a))"
    using ch[OF W(1)[of 0] W(1)[of 1] W(1)[of 2] D(1) R(1)] by (auto simp: stage_value_def)
  obtain r1 where r1: "mkw_tev_eval (v1 (mkw_tev_wrap4 (stage_color regs st ?t ?r 0))) (v1 (mkw_tev_wrap4 (stage_color regs st ?t ?r 1)))
      (v1 (mkw_tev_wrap4 (stage_color regs st ?t ?r 2))) (v1 (stage_color regs st ?t ?r 3)) (ts_color_op st) p = Some r1"
    "f32_is r1 (i1 (stage_value x t C a))"
    using ch[OF W(2)[of 0] W(2)[of 1] W(2)[of 2] D(2) R(2)] r0(1) by (auto simp: stage_value_def)
  obtain r2 where r2: "mkw_tev_eval (v2 (mkw_tev_wrap4 (stage_color regs st ?t ?r 0))) (v2 (mkw_tev_wrap4 (stage_color regs st ?t ?r 1)))
      (v2 (mkw_tev_wrap4 (stage_color regs st ?t ?r 2))) (v2 (stage_color regs st ?t ?r 3)) (ts_color_op st) p = Some r2"
    "f32_is r2 (i2 (stage_value x t C a))"
    using ch[OF W(3)[of 0] W(3)[of 1] W(3)[of 2] D(3) R(3)] r0(1) by (auto simp: stage_value_def)
  obtain q r3 where r3: "mkw_tev_compare (mkw_tev_wrap4 (stage_color regs st ?t ?r 0)) (mkw_tev_wrap4 (stage_color regs st ?t ?r 1)) (ts_alpha_op st AND 15) = Some q"
    "mkw_tev_eval (mkw_tev_wrap (stage_alpha regs st ?t ?r 0)) (mkw_tev_wrap (stage_alpha regs st ?t ?r 1))
      (mkw_tev_wrap (stage_alpha regs st ?t ?r 2)) (stage_alpha regs st ?t ?r 3) (ts_alpha_op st) q = Some r3"
    "f32_is r3 (i3 (stage_value x t C a))"
    using channel_matches[OF ops(2) g Aw[of 0] Aw[of 1] Aw[of 2] a(1)[of 3] a(2)[of 3] W(4)[of 0] W(4)[of 1]]
    by (auto simp: stage_value_def)
  have out: "drop_bit 10 (ts_color_op st) AND 3 = op_outReg (colorOp t)" "drop_bit 10 (ts_alpha_op st) AND 3 = op_outReg (alphaOp t)"
    by (rule operation_fields(5)[OF ops(1) g(1)], rule operation_fields(5)[OF ops(2) g(1)])
  have "mkw_tev_stage regs st tex ras =
      (let res = \<lparr>v0 = r0, v1 = r1, v2 = r2, v3 = r3\<rparr>
       in Some (mkw_tev_write regs (op_outReg (colorOp t)) (op_outReg (alphaOp t)) res, res))"
    unfolding mkw_tev_stage_def Let_def r0(1) r3(1) out by (simp add: r0(2) r1(1) r2(1) r3(2) del: One_nat_def)
  thus ?thesis using r0(3) r1(2) r2(2) r3(3) by (simp add: Let_def ivec_is_def)
qed

section \<open>Integer registers\<close>

text \<open>A value whose four components are integers of the register range.\<close>
definition value_int :: "MkwTevValue \<Rightarrow> bool" where
  "value_int v \<longleftrightarrow> (\<exists>w. ivec_is v w \<and> ivec_range w)"

definition regs_int :: "MkwTevRegisters \<Rightarrow> bool" where
  "regs_int r \<longleftrightarrow> value_int (tv_prev r) \<and> value_int (tv_reg0 r) \<and> value_int (tv_reg1 r) \<and> value_int (tv_reg2 r)"

definition lane_int :: "f32 \<Rightarrow> bool" where "lane_int f \<longleftrightarrow> (\<exists>n. f32_is f n \<and> tev_range n)"

lemma value_int_lanes: "value_int v \<longleftrightarrow> lane_int (v0 v) \<and> lane_int (v1 v) \<and> lane_int (v2 v) \<and> lane_int (v3 v)"
proof
  assume "lane_int (v0 v) \<and> lane_int (v1 v) \<and> lane_int (v2 v) \<and> lane_int (v3 v)"
  then obtain a b c d where "f32_is (v0 v) a" "f32_is (v1 v) b" "f32_is (v2 v) c" "f32_is (v3 v) d"
    "tev_range a" "tev_range b" "tev_range c" "tev_range d" unfolding lane_int_def by blast
  hence "ivec_is v \<lparr>i0 = a, i1 = b, i2 = c, i3 = d\<rparr> \<and> ivec_range \<lparr>i0 = a, i1 = b, i2 = c, i3 = d\<rparr>"
    by (simp add: ivec_is_def ivec_range_def)
  thus "value_int v" unfolding value_int_def by blast
qed (auto simp: value_int_def lane_int_def ivec_is_def ivec_range_def)

lemma lane_int_of_int: "tev_range n \<Longrightarrow> lane_int (f32_of_int n)"
  unfolding lane_int_def by (rule exI[of _ n]) (auto simp: tev_range_def intro: f32_is_of_int)

lemma lane_int_zero: "lane_int 0"
  using f32_is_zero[of False] unfolding lane_int_def f_sign_bit_def
  by (intro exI[of _ 0]) (simp add: tev_range_def)

lemma splat_int: "lane_int f \<Longrightarrow> value_int (mkw_tev_splat f)"
  by (simp add: value_int_lanes mkw_tev_splat_def)

lemma swizzle_int: "value_int v \<Longrightarrow> value_int (mkw_tev_swizzle v sw)"
  by (simp add: value_int_lanes mkw_tev_swizzle_def mkw_tev_lane_def)

lemma register_int: "regs_int r \<Longrightarrow> value_int (mkw_tev_register r k)"
  by (simp add: regs_int_def mkw_tev_register_def)

lemma color_arg_int:
  assumes "regs_int r" "value_int tex" "value_int ras" "value_int konst" "arg \<noteq> 13"
  shows "value_int (mkw_tev_color_arg r arg tex ras konst)"
proof -
  have "lane_int (v3 v)" if "value_int v" for v using that by (simp add: value_int_lanes)
  moreover have "lane_int (f32_of_int 255)" by (rule lane_int_of_int) (simp add: tev_range_def)
  ultimately show ?thesis
    using assms register_int[OF assms(1), of "drop_bit 1 arg"] lane_int_zero
    by (simp add: mkw_tev_color_arg_def Let_def splat_int)
qed

lemma alpha_arg_int:
  assumes "regs_int r" "value_int tex" "value_int ras" "value_int konst"
  shows "lane_int (mkw_tev_alpha_arg r arg tex ras konst)"
  using assms register_int[OF assms(1), of arg] lane_int_zero
  by (simp add: mkw_tev_alpha_arg_def value_int_lanes)

lemma write_int: "regs_int r \<Longrightarrow> value_int v \<Longrightarrow> regs_int (mkw_tev_write r a b v)"
  by (simp add: regs_int_def mkw_tev_write_def mkw_tev_merge_def value_int_lanes)

lemma stage_value_range: "ivec_range (stage_value x t C a)"
  by (simp add: ivec_range_def stage_value_def channel_range)

lemma choose_ivec:
  assumes "\<And>n. n < 4 \<Longrightarrow> value_int (f n)"
  obtains C where "\<And>n. n < 4 \<Longrightarrow> ivec_is (f n) (C n)" "\<And>n. n < 4 \<Longrightarrow> ivec_range (C n)"
  using assms unfolding value_int_def by metis

lemma choose_lane:
  assumes "\<And>n. n < 4 \<Longrightarrow> lane_int (f n)"
  obtains a where "\<And>n. n < 4 \<Longrightarrow> f32_is (f n) (a n)" "\<And>n. n < (4 :: nat) \<Longrightarrow> tev_range (a n)"
  using assms unfolding lane_int_def by metis

lemma stage_keeps_integers:
  fixes t :: TevStage
  assumes ops: "operation x (colorOp t) = Inr (ts_color_op st)" "operation x (alphaOp t) = Inr (ts_alpha_op st)"
    and g: "GX_CS_DIVIDE_2 x = 3" "GX_TB_ADDHALF x = 1" "GX_TB_SUBHALF x = 2"
    and args: "\<And>n. n < 4 \<Longrightarrow> drop_bit (4 * n) (ts_color_args st) AND 15 \<noteq> 13"
    and ints: "regs_int regs" "value_int tex" "value_int ras" "value_int (ts_konst st)"
  shows "\<exists>regs' res. mkw_tev_stage regs st tex ras = Some (regs', res) \<and> regs_int regs' \<and> value_int res"
proof -
  let ?t = "mkw_tev_swizzle tex (ts_texture_swap st)" and ?r = "mkw_tev_swizzle ras (ts_raster_swap st)"
  obtain C where C: "\<And>n. n < 4 \<Longrightarrow> ivec_is (stage_color regs st ?t ?r n) (C n)" "\<And>n. n < 4 \<Longrightarrow> ivec_range (C n)"
    by (rule choose_ivec[of "stage_color regs st ?t ?r"])
       (auto simp: stage_color_def intro!: color_arg_int ints swizzle_int args)
  obtain a where a: "\<And>n. n < 4 \<Longrightarrow> f32_is (stage_alpha regs st ?t ?r n) (a n)" "\<And>n. n < 4 \<Longrightarrow> tev_range (a n)"
    by (rule choose_lane[of "stage_alpha regs st ?t ?r"])
       (auto simp: stage_alpha_def intro!: alpha_arg_int ints swizzle_int)
  from stage_matches[OF ops g C a] obtain res where r: "ivec_is res (stage_value x t C a)"
    "mkw_tev_stage regs st tex ras = Some (mkw_tev_write regs (op_outReg (colorOp t)) (op_outReg (alphaOp t)) res, res)"
    by blast
  have "value_int res" using r(1) stage_value_range unfolding value_int_def by blast
  thus ?thesis using r(2) write_int[OF ints(1)] by blast
qed

end
