(* ===== verification/Ieee32Round.thy ===== *)
theory Ieee32Round
  imports Ieee32
begin

text \<open>
  Rounding of a binary32 value to an integer, compared with the real value: the result is at most
  one half away, so a value inside real bounds rounds to an integer inside the bounds.
\<close>

lemma round_shift_near: "2 * \<bar>2 ^ k * round_shift m k - m\<bar> \<le> 2 ^ k"
proof (cases k)
  case (Suc j)
  define q r where "q = m div 2 ^ k" and "r = m mod 2 ^ k"
  have m: "m = 2 ^ k * q + r" "0 \<le> r" "r < 2 ^ k" by (simp_all add: q_def r_def)
  have h: "(2 :: int) ^ k = 2 * 2 ^ (k - 1)" using Suc by simp
  have "round_shift m k = (if r > 2 ^ (k - 1) \<or> (r = 2 ^ (k - 1) \<and> q mod 2 = 1) then q + 1 else q)"
    using Suc by (simp add: round_shift_def Let_def q_def r_def)
  thus ?thesis using m h by (auto simp: algebra_simps abs_if)
qed (simp add: round_shift_def)

lemma f32_val_nonneg: "f32_val x = FFin s m e \<Longrightarrow> 0 \<le> m"
  by (auto simp: f32_val_def f_decode_def Let_def split: if_splits)

lemma roundeven_near:
  assumes "v = FFin s m e" "roundeven_val v = Some i"
  shows "\<bar>real_of_int i - rv v\<bar> \<le> 1 / 2"
proof (cases "0 \<le> e")
  case True
  hence "real_of_int (m * 2 ^ nat e) = real_of_int m * 2 powi e"
    by (simp add: power_int_def)
  thus ?thesis using assms True by (auto simp: Let_def)
next
  case False
  define k where "k = nat (- e)"
  have e: "e = - int k" "k \<noteq> 0" using False by (simp_all add: k_def)
  define n where "n = round_shift m k"
  have "real_of_int (2 * \<bar>2 ^ k * n - m\<bar>) \<le> real_of_int (2 ^ k)"
    unfolding n_def by (subst of_int_le_iff) (rule round_shift_near)
  hence "2 * \<bar>2 ^ k * real_of_int n - real_of_int m\<bar> \<le> 2 ^ k" by simp
  hence near: "\<bar>real_of_int n - real_of_int m / 2 ^ k\<bar> \<le> 1 / 2"
    by (simp add: field_simps abs_if split: if_splits)
  have r: "rv v = (if s then - real_of_int m else real_of_int m) / 2 ^ k"
    unfolding assms(1) e(1) by (simp add: power_int_minus divide_inverse)
  have "i = (if s then - n else n)" using assms False by (auto simp: Let_def n_def k_def)
  hence "\<bar>real_of_int i - rv v\<bar> = \<bar>real_of_int n - real_of_int m / 2 ^ k\<bar>" unfolding r by auto
  thus ?thesis using near by simp
qed

lemma f_le_rv:
  assumes "f_lt_val (FFin s m e) (FFin t n d) \<or> f_eq_val (FFin s m e) (FFin t n d)"
  shows "rv (FFin s m e) \<le> rv (FFin t n d)"
proof -
  have "\<not> f_lt_val (FFin t n d) (FFin s m e)" using assms by (auto simp: Let_def min.commute[of d])
  thus ?thesis unfolding f_lt_rv not_less .
qed

text \<open>A finite value between two values rounds to an integer between the rounded bounds.\<close>
lemma roundeven_between:
  assumes "f32_isfinite x" "f32_le lo x" "f32_le x hi"
    "f32_val lo = FFin s m e" "f32_val hi = FFin t n d"
    "real_of_int a - 1 / 2 < rv (FFin s m e)" "rv (FFin t n d) < real_of_int b + 1 / 2"
    "\<bar>a\<bar> < 2 ^ 24" "\<bar>b\<bar> < 2 ^ 24"
  shows "\<exists>i. f32_is (f32_roundeven x) i \<and> a \<le> i \<and> i \<le> b"
proof -
  obtain u k j where x: "f32_val x = FFin u k j" using assms(1) by (auto simp: f32_isfinite_def split: fval.splits)
  have b: "rv (FFin s m e) \<le> rv (FFin u k j)" "rv (FFin u k j) \<le> rv (FFin t n d)"
    using assms(2,3) unfolding f32_le_def f32_lt_def f32_eq_def x assms(4,5)
    by (blast intro: f_le_rv)+
  obtain i where i: "roundeven_val (FFin u k j) = Some i" by (simp add: Let_def)
  have "\<bar>real_of_int i - rv (FFin u k j)\<bar> \<le> 1 / 2" by (rule roundeven_near[OF refl i])
  hence "real_of_int a - 1 < real_of_int i" "real_of_int i < real_of_int b + 1"
    using b assms(6,7) unfolding abs_if by (auto split: if_splits simp del: rv.simps)
  hence ab: "a \<le> i" "i \<le> b" by linarith+
  have "\<bar>i\<bar> < 2 ^ 24" using ab assms(8,9) by linarith
  hence "f32_is (f32_roundeven x) i"
    using i f32_is_sign by (auto simp: f32_roundeven_def x f32_is_of_int simp del: roundeven_val.simps)
  thus ?thesis using ab by blast
qed

end
