(* ===== verification/TevRun.thy ===== *)
theory TevRun
  imports TevRefinement Ieee32Round
begin

text \<open>
  The loop of the pixel program over its stages (gpu/shaders/tev_program_probe.c): texture and raster
  inputs of each stage, the interpreter of tev_stage.h, the alpha test.  The textures are the
  samples the loop loads; the packing into half precision at the export is not modelled.
\<close>

definition stage_texture :: "MkwTevProgram \<Rightarrow> MkwTevStage \<Rightarrow> MkwTevValue \<Rightarrow> MkwTevValue" where
  "stage_texture p s sample =
     (if ts_sample_enabled s \<noteq> 0 then sample else mkw_tev_splat (f32_of_u32 (tp_disabled_texture_value p)))"

text \<open>The loop over the stages, with the result of the last one.\<close>
fun tev_loop :: "MkwTevProgram \<Rightarrow> (nat \<Rightarrow> MkwTevValue) \<Rightarrow> MkwTevValue \<Rightarrow> MkwTevValue \<Rightarrow> MkwTevValue \<Rightarrow> nat list \<Rightarrow>
    MkwTevRegisters \<times> MkwTevValue \<Rightarrow> (MkwTevRegisters \<times> MkwTevValue) option" where
  "tev_loop p samples raster0 raster1 indirect [] r = Some r"
| "tev_loop p samples raster0 raster1 indirect (n # ns) r =
     (let s = tp_stages p ! n
      in case mkw_tev_raster s raster0 raster1 indirect of None \<Rightarrow> None
         | Some ras \<Rightarrow> (case mkw_tev_stage (fst r) s (stage_texture p s (samples n)) ras of None \<Rightarrow> None
             | Some r' \<Rightarrow> tev_loop p samples raster0 raster1 indirect ns r'))"

definition tev_run :: "MkwTevProgram \<Rightarrow> (nat \<Rightarrow> MkwTevValue) \<Rightarrow> MkwTevValue \<Rightarrow> MkwTevValue \<Rightarrow> MkwTevValue \<Rightarrow>
    (MkwTevRegisters \<times> MkwTevValue) option" where
  "tev_run p samples raster0 raster1 indirect =
     (let count = (if tp_stage_count p < 16 then tp_stage_count p else 16)
      in tev_loop p samples raster0 raster1 indirect [0..<unat count] (tp_initial p, tv_prev (tp_initial p)))"

text \<open>1/255 is the bit pattern 0x3B808081.\<close>
definition tev_pixel :: "MkwTevProgram \<Rightarrow> (nat \<Rightarrow> MkwTevValue) \<Rightarrow> MkwTevValue \<Rightarrow> MkwTevValue \<Rightarrow> MkwTevValue \<Rightarrow>
    f32 list option" where
  "tev_pixel p samples raster0 raster1 indirect =
     (case tev_run p samples raster0 raster1 indirect of None \<Rightarrow> None
      | Some (regs, result) \<Rightarrow>
          (case mkw_tev_alpha_test (v3 result) (tp_alpha_flags p) of None \<Rightarrow> None
           | Some pass \<Rightarrow>
               (let w = mkw_tev_wrap4 result; lane = (\<lambda>c. if pass then f32_mul c 0x3B808081 else 0)
                in Some [lane (v0 w), lane (v1 w), lane (v2 w), if pass then f32_of_int 1 else 0])))"

section \<open>Constants and initial registers are integers\<close>

lemma byte_lane_int:
  assumes "byte_lane lo hi c = Inr r" "lo = 0 \<and> hi = 255 \<or> lo = - 1024 \<and> hi = 1023"
  shows "lane_int r"
proof -
  define v where "v = f32_mul c f32_255"
  define L H where "L = f32_sub (f32_of_int lo) 0x3A83126F" and "H = f32_add (f32_of_int hi) 0x3A83126F"
  have b: "f32_isfinite v" "f32_le L v" "f32_le v H" "r = f32_roundeven v"
    using assms(1) unfolding byte_lane_def Let_def require_Inr v_def L_def H_def by auto
  have c: "f32_val (f32_sub (f32_of_int 0) 0x3A83126F) = FFin True 8589935 (- 33)"
    "f32_val (f32_add (f32_of_int 255) 0x3A83126F) = FFin False 16711746 (- 16)"
    "f32_val (f32_sub (f32_of_int (- 1024)) 0x3A83126F) = FFin True 8388616 (- 13)"
    "f32_val (f32_add (f32_of_int 1023) 0x3A83126F) = FFin False 16760848 (- 14)"
    by code_simp+
  have "\<exists>i. f32_is (f32_roundeven v) i \<and> lo \<le> i \<and> i \<le> hi"
    using assms(2)
  proof (elim disjE conjE)
    assume e: "lo = 0" "hi = 255"
    have v: "f32_val L = FFin True 8589935 (- 33)" "f32_val H = FFin False 16711746 (- 16)" unfolding L_def H_def e by (rule c)+
    show ?thesis
      by (rule roundeven_between[OF b(1-3) v]) (simp_all add: e power_int_minus)
  next
    assume e: "lo = - 1024" "hi = 1023"
    have v: "f32_val L = FFin True 8388616 (- 13)" "f32_val H = FFin False 16760848 (- 14)" unfolding L_def H_def e by (rule c)+
    show ?thesis
      by (rule roundeven_between[OF b(1-3) v]) (simp_all add: e power_int_minus)
  qed
  thus ?thesis using assms(2) b(4) unfolding lane_int_def tev_range_def by fastforce
qed

lemma byte_color_int:
  assumes "byte_color lo hi v = Inr w" "lo = 0 \<and> hi = 255 \<or> lo = - 1024 \<and> hi = 1023"
  shows "value_int w"
proof -
  let ?fs = "[v0 v, v1 v, v2 v, v3 v]"
  obtain ds where d: "map_err (byte_lane lo hi) ?fs = Inr ds" "w = \<lparr>v0 = ds ! 0, v1 = ds ! 1, v2 = ds ! 2, v3 = ds ! 3\<rparr>"
    using assms(1) by (auto simp: byte_color_def split: sum.splits)
  have l: "lane_int (ds ! i)" if "i < 4" for i
  proof (rule byte_lane_int[OF _ assms(2)])
    show "byte_lane lo hi (?fs ! i) = Inr (ds ! i)" using map_err_Inr[OF d(1)] that by simp
  qed
  show ?thesis unfolding d(2) value_int_lanes using l[of 0] l[of 1] l[of 2] l[of 3] by simp
qed

text \<open>Selectors whose constant is an integer: 1 (code 0), the colours and their lanes.\<close>
definition konst_integral :: "u32 \<Rightarrow> bool" where "konst_integral sel \<longleftrightarrow> sel = 0 \<or> 12 \<le> sel"

lemma konst_color_int:
  assumes "konst_color sel colors alpha = Inr w" "konst_integral sel" "length colors = 4" "list_all value_int colors"
  shows "value_int w"
proof (cases "sel < 8")
  case True
  hence "\<not> 12 \<le> sel" by (simp add: word_less_nat_alt word_le_nat_alt)
  hence s: "sel = 0" using assms(2) by (simp add: konst_integral_def)
  have "f32_mul (f32_of_u32 8) (f32_div f32_255 (f32_of_int 8)) = f32_of_int 255" by code_simp
  moreover have "lane_int (f32_of_int 255)" by (rule lane_int_of_int) (simp add: tev_range_def)
  ultimately show ?thesis using assms(1) s by (auto simp: konst_color_def intro: splat_int)
next
  case False
  have c: "value_int (colors ! i)" if "i < 4" for i using assms(3,4) that by (simp add: list_all_length)
  have l: "lane_int (mkw_tev_lane (colors ! i) k)" if "i < 4" for i k
    using c[OF that] by (simp add: value_int_lanes mkw_tev_lane_def)
  have "12 \<le> sel" "w = (if sel < 16 then colors ! unat (sel - 12)
      else mkw_tev_splat (mkw_tev_lane (colors ! unat ((sel - 16) AND 3)) (drop_bit 2 (sel - 16))))"
    using assms(1) False by (auto simp: konst_color_def)
  moreover have "unat (sel - 12) < 4" if "12 \<le> sel" "sel < 16"
    using that by (simp add: unat_sub word_less_nat_alt word_le_nat_alt)
  moreover have "unat (a AND 3) < 4" for a :: u32
  proof -
    have "a AND 3 = take_bit 2 a" by (simp add: take_bit_eq_mask mask_eq_exp_minus_1)
    moreover have "unat (take_bit 2 a) < 2 ^ 2" by (simp only: unsigned_take_bit_eq take_bit_nat_less_exp)
    ultimately show ?thesis by simp
  qed
  ultimately show ?thesis by (auto intro: c splat_int l)
qed

lemma stage_konst_int:
  assumes "stage_konst x konst t = Inr k" "konst_integral (kcSel t)" "konst_integral (kaSel t)"
    "length konst = 4" "list_all value_int konst"
  shows "value_int k"
proof -
  have z: "value_int vec4_zero" using lane_int_zero by (simp add: value_int_lanes vec4_zero_def)
  obtain c where c: "(if list_ex (\<lambda>a. a = GX_CC_KONST x) (pass_list (colorPass t))
      then konst_color (kcSel t) konst False else Inr vec4_zero) = Inr c"
    "k = c \<or> (\<exists>a. konst_color (kaSel t) konst True = Inr a \<and> k = c\<lparr>v3 := v3 a\<rparr>)"
    using assms(1) unfolding stage_konst_def by (auto split: sum.splits if_splits)
  have "value_int c" using c(1) z konst_color_int[OF _ assms(2,4,5)] by (auto split: if_splits)
  thus ?thesis using c(2) konst_color_int[OF _ assms(3,4,5)] by (auto simp: value_int_lanes)
qed

lemma small_count: "n \<le> 16 \<Longrightarrow> unat (of_nat n :: u32) = n"
  by (simp add: unat_of_nat)

lemma program_parts:
  assumes "build_tev_program g x s = Inr p"
  obtains konst where "regs_int (tp_initial p)" "list_all value_int konst" "length konst = 4"
    "unat (tp_stage_count p) = unat (numTevStages s)" "1 \<le> unat (numTevStages s)" "unat (numTevStages s) \<le> 16"
    "\<And>i. i < unat (numTevStages s) \<Longrightarrow> build_stage g x s konst i = Inr (tp_stages p ! i)"
    "tp_disabled_texture_value p \<in> {0, 255}"
proof -
  obtain cs konst stages where e: "map_err (\<lambda>i. byte_color (- 1024) 1023 (colorRegs s ! i)) [0..<4] = Inr cs"
    "map_err (\<lambda>i. byte_color 0 255 (kcolors s ! i)) [0..<4] = Inr konst"
    "map_err (build_stage g x s konst) [0..<unat (numTevStages s)] = Inr stages"
    "tp_initial p = \<lparr>tv_prev = cs ! 0, tv_reg0 = cs ! 1, tv_reg1 = cs ! 2, tv_reg2 = cs ! 3\<rparr>"
    "tp_stages p = stages @ replicate (16 - unat (numTevStages s)) stage_idle"
    "tp_stage_count p = of_nat (unat (numTevStages s))" "1 \<le> unat (numTevStages s)" "unat (numTevStages s) \<le> 16"
    "tp_disabled_texture_value p \<in> {0, 255}"
    using assms unfolding build_tev_program_def Let_def by (auto split: sum.splits)
  note c = map_err_upt[OF e(1)] and k = map_err_upt[OF e(2)] and st = map_err_upt[OF e(3)]
  have ci: "value_int (cs ! i)" if "i < 4" for i by (rule byte_color_int[OF c(2)[OF that]]) simp
  have ki: "value_int (konst ! i)" if "i < 4" for i by (rule byte_color_int[OF k(2)[OF that]]) simp
  show thesis
  proof (rule that[of konst])
    show "regs_int (tp_initial p)" using ci[of 0] ci[of 1] ci[of 2] ci[of 3] by (simp add: e(4) regs_int_def)
    show "list_all value_int konst" using ki k(1) by (simp add: list_all_length)
    show "unat (tp_stage_count p) = unat (numTevStages s)" unfolding e(6) by (rule small_count[OF e(8)])
    show "build_stage g x s konst i = Inr (tp_stages p ! i)" if "i < unat (numTevStages s)" for i
      using st that by (simp add: e(5) nth_append)
  qed (use k(1) e in auto)
qed

section \<open>The loop\<close>

lemma loop_keeps_integers:
  assumes step: "\<And>n r. n \<in> set ns \<Longrightarrow> regs_int r \<Longrightarrow> \<exists>ras r' res. mkw_tev_raster (tp_stages p ! n) raster0 raster1 indirect = Some ras \<and>
      mkw_tev_stage r (tp_stages p ! n) (stage_texture p (tp_stages p ! n) (samples n)) ras = Some (r', res) \<and>
      regs_int r' \<and> value_int res"
    and "regs_int (fst r)" "value_int (snd r)"
  shows "\<exists>r' res. tev_loop p samples raster0 raster1 indirect ns r = Some (r', res) \<and> regs_int r' \<and> value_int res"
  using assms
proof (induction ns arbitrary: r)
  case Nil
  thus ?case by (cases r) auto
next
  case (Cons n ns)
  obtain ras r' res where s: "mkw_tev_raster (tp_stages p ! n) raster0 raster1 indirect = Some ras"
    "mkw_tev_stage (fst r) (tp_stages p ! n) (stage_texture p (tp_stages p ! n) (samples n)) ras = Some (r', res)"
    "regs_int r'" "value_int res" using Cons.prems(1)[of n "fst r"] Cons.prems(2) by auto
  have "\<exists>q v. tev_loop p samples raster0 raster1 indirect ns (r', res) = Some (q, v) \<and> regs_int q \<and> value_int v"
    by (rule Cons.IH) (use Cons.prems(1) s(3,4) in auto)
  thus ?case by (simp add: Let_def s(1,2))
qed

lemma alpha_test_defined:
  assumes "value_int v"
  shows "\<exists>b. mkw_tev_alpha_test (v3 v) flags = Some b"
proof -
  obtain n where n: "f32_is (v3 v) n" "tev_range n" using assms by (auto simp: value_int_lanes lane_int_def)
  have w: "f32_is (mkw_tev_wrap (v3 v)) (n mod 256)" by (rule range_wrap[OF n])
  have "f32_is (f32_of_int 255) 255" by (rule f32_is_of_int) simp
  moreover have "\<bar>n mod 256\<bar> < 2 ^ 24" using pos_mod_bound[of 256 n] by (simp add: abs_less_iff)
  ultimately have "\<exists>a. mkw_tev_round (if f32_lt (f32_of_int 255) (mkw_tev_wrap (v3 v)) then f32_of_int 255 else mkw_tev_wrap (v3 v)) = Some a"
    using f32_is_round_s32 w by auto
  thus ?thesis unfolding mkw_tev_alpha_test_def Let_def by auto
qed

text \<open>What a state asks of its stages so that every operand is an integer.\<close>
definition tev_integral :: "'a GXRegisterState_scheme \<Rightarrow> bool" where
  "tev_integral s \<longleftrightarrow> (\<forall>i<unat (numTevStages s).
     list_all (\<lambda>a. a \<noteq> 13) (pass_list (colorPass (tevStages s ! i))) \<and>
     konst_integral (kcSel (tevStages s ! i)) \<and> konst_integral (kaSel (tevStages s ! i)) \<and>
     channelId (tevStages s ! i) \<noteq> 7 \<and> channelId (tevStages s ! i) \<noteq> 8)"

lemma stage_inputs:
  assumes "build_stage g x s konst i = Inr d"
  shows "stage_konst x konst (tevStages s ! i) = Inr (ts_konst d)" "ts_channel d = channelId (tevStages s ! i)"
  using assms unfolding build_stage_def Let_def by (auto split: sum.splits)

lemma color_args_field:
  assumes "list_all (\<lambda>a. a \<le> 15) (pass_list q)" "list_all (\<lambda>a. a \<noteq> 13) (pass_list q)" "n < 4"
  shows "drop_bit (4 * n) (pack_args 4 (pass_list q)) AND 15 \<noteq> 13"
proof -
  obtain a b c d where q: "pass_list q = [a, b, c, d]" by (simp add: pass_list_def)
  have n: "n = 0 \<or> n = 1 \<or> n = 2 \<or> n = 3" using assms(3) by auto
  show ?thesis using assms(1,2) pack4_fields[of a b c d] n unfolding q by auto
qed

lemma raster_plain:
  "ts_channel s \<noteq> 7 \<Longrightarrow> ts_channel s \<noteq> 8 \<Longrightarrow> value_int r0 \<Longrightarrow> value_int r1 \<Longrightarrow>
   \<exists>ras. mkw_tev_raster s r0 r1 ind = Some ras \<and> value_int ras"
  using splat_int[OF lane_int_zero] by (auto simp: mkw_tev_raster_def)

lemma run_keeps_integers:
  assumes p: "build_tev_program g x s = Inr p" and i: "tev_integral s"
    and g: "GX_CS_DIVIDE_2 x = 3" "GX_TB_ADDHALF x = 1" "GX_TB_SUBHALF x = 2"
    and v: "\<And>n. value_int (samples n)" "value_int raster0" "value_int raster1"
  shows "\<exists>r res. tev_run p samples raster0 raster1 indirect = Some (r, res) \<and> regs_int r \<and> value_int res"
proof -
  obtain konst where k: "regs_int (tp_initial p)" "list_all value_int konst" "length konst = 4"
    "unat (tp_stage_count p) = unat (numTevStages s)" "1 \<le> unat (numTevStages s)" "unat (numTevStages s) \<le> 16"
    "\<And>i. i < unat (numTevStages s) \<Longrightarrow> build_stage g x s konst i = Inr (tp_stages p ! i)"
    "tp_disabled_texture_value p \<in> {0, 255}" by (rule program_parts[OF p]; rule that; assumption)
  have count: "unat (if tp_stage_count p < 16 then tp_stage_count p else 16) = unat (numTevStages s)"
    using k(4,6) by (simp add: word_less_nat_alt)
  have tex: "value_int (stage_texture p t sm)" if "value_int sm" for t sm
  proof -
    have "lane_int (f32_of_u32 (tp_disabled_texture_value p))"
      using k(8) by (auto simp: f32_of_u32_def tev_range_def intro!: lane_int_of_int)
    thus ?thesis using that splat_int by (simp add: stage_texture_def)
  qed
  have "\<exists>ras r' res. mkw_tev_raster (tp_stages p ! n) raster0 raster1 indirect = Some ras \<and>
      mkw_tev_stage r (tp_stages p ! n) (stage_texture p (tp_stages p ! n) (samples n)) ras = Some (r', res) \<and>
      regs_int r' \<and> value_int res" if "n \<in> set [0..<unat (numTevStages s)]" "regs_int r" for n r
  proof -
    let ?t = "tevStages s ! n" and ?st = "tp_stages p ! n"
    have n: "n < unat (numTevStages s)" using that(1) by simp
    note f = stage_fields[OF k(7)[OF n]]
    have b: "stage_konst x konst ?t = Inr (ts_konst ?st)" "ts_channel ?st = channelId ?t"
      by (rule stage_inputs[OF k(7)[OF n]])+
    have h: "list_all (\<lambda>a. a \<noteq> 13) (pass_list (colorPass ?t))" "konst_integral (kcSel ?t)" "konst_integral (kaSel ?t)"
      "channelId ?t \<noteq> 7" "channelId ?t \<noteq> 8" using i n by (simp_all add: tev_integral_def)
    obtain ras where ras: "mkw_tev_raster ?st raster0 raster1 indirect = Some ras" "value_int ras"
      using raster_plain[of ?st, OF _ _ v(2,3)] h(4,5) b(2) by auto
    have a: "drop_bit (4 * j) (ts_color_args ?st) AND 15 \<noteq> 13" if "j < 4" for j
      unfolding f(3) by (rule color_args_field[OF f(5) h(1) that])
    from stage_keeps_integers[OF f(1,2) g a that(2) tex[OF v(1)] ras(2) stage_konst_int[OF b(1) h(2,3) k(3,2)]] ras(1)
    show ?thesis by blast
  qed
  from loop_keeps_integers[where ns = "[0..<unat (numTevStages s)]" and r = "(tp_initial p, tv_prev (tp_initial p))", OF this] k(1)
  show ?thesis by (simp add: tev_run_def Let_def count regs_int_def)
qed

end
