(* ===== verification/GxBlend.thy ===== *)
theory GxBlend
  imports GxShaderConfig BitFields
begin

text \<open>
  ps5/gpu/gx_blend_state.cpp: the hardware blend control, target mask and constant of a draw from
  the register file.  The enumerations \<open>blendMode\<close> and \<open>pixelFmt\<close> are datatypes here, so the code's
  range checks on them cannot fail.
\<close>

record GxBlendState =
  gb_control :: u32
  gb_targetMask :: u32
  gb_constant :: "f32 list"

definition factor :: "u32 \<Rightarrow> bool \<Rightarrow> bool \<Rightarrow> string + u32" where
  "factor gx destination alpha =
     (if gx > 7 then Inl ''Invalid GX blend factor''
      else if gx = 2 then Inr (if alpha then (if destination then 4 else 6) else (if destination then 2 else 8))
      else if gx = 3 then Inr (if alpha then (if destination then 5 else 7) else (if destination then 3 else 9))
      else Inr gx)"

text \<open>A target without alpha reads as opaque.\<close>
definition opaque_factor :: "bool \<Rightarrow> u32 \<Rightarrow> u32" where
  "opaque_factor hasAlpha f = (if hasAlpha then f else if f = 6 then 1 else if f = 7 then 0 else f)"

text \<open>The switch on the blend mode: the two colour factors and the operation.\<close>
definition blend_color :: "gx_enums \<Rightarrow> gx_render_enums \<Rightarrow> 'a GXRegisterState_scheme \<Rightarrow> u32 \<Rightarrow> u32 \<Rightarrow>
    string + u32 \<times> u32 \<times> u32" where
  "blend_color g x s src dst =
     (case blendMode s of
        BM_NONE \<Rightarrow> Inr (1, 0, 0)
      | BM_BLEND \<Rightarrow>
          (case factor src False False of Inl e \<Rightarrow> Inl e
           | Inr cs \<Rightarrow> (case factor dst True False of Inl e \<Rightarrow> Inl e | Inr cd \<Rightarrow> Inr (cs, cd, 0)))
      | BM_SUBTRACT \<Rightarrow> Inr (1, 1, 4)
      | BM_LOGIC \<Rightarrow>
          if blendOp s = GX_LO_CLEAR g then Inr (0, 0, 0)
          else if blendOp s = GX_LO_COPY x then Inr (1, 0, 0)
          else if blendOp s = GX_LO_NOOP x then Inr (0, 1, 0)
          else if blendOp s = GX_LO_INVAND x then Inr (0, 3, 0)
          else if blendOp s = GX_LO_OR x then Inr (1, 1, 3)
          else Inl ''GX integer logic operation is not implemented'')"

definition blend_alpha :: "'a GXRegisterState_scheme \<Rightarrow> u32 \<Rightarrow> u32 \<Rightarrow> u32 \<times> u32 \<times> u32 \<Rightarrow>
    string + u32 \<times> u32 \<times> u32" where
  "blend_alpha s src dst c =
     (case c of (cs, cd, operation) \<Rightarrow>
        if render_target_has_alpha (pixelFmt s) \<and> alphaUpdate s \<and> dstAlpha s \<noteq> -1 then Inr (19, 0, 0)
        else if blendMode s = BM_BLEND then
          (case factor src False True of Inl e \<Rightarrow> Inl e
           | Inr as \<Rightarrow> (case factor dst True True of Inl e \<Rightarrow> Inl e | Inr ad \<Rightarrow> Inr (as, ad, operation)))
        else Inr (cs, cd, operation))"

definition blend_bits :: "u32 \<times> u32 \<times> u32 \<Rightarrow> u32 \<times> u32 \<times> u32 \<Rightarrow> u32" where
  "blend_bits c a =
     (case c of (cs, cd, operation) \<Rightarrow> case a of (as, ad, alphaOperation) \<Rightarrow>
        0x60000000 OR cs OR push_bit 5 operation OR push_bit 8 cd OR push_bit 16 as OR
        push_bit 21 alphaOperation OR push_bit 24 ad)"

definition snapshot_gx_blend :: "gx_enums \<Rightarrow> gx_render_enums \<Rightarrow> 'a GXRegisterState_scheme \<Rightarrow> u32 \<Rightarrow>
    string + GxBlendState" where
  "snapshot_gx_blend g x s defaults =
     (if dstAlpha s \<noteq> -1 \<and> dstAlpha s > 255 then Inl ''Invalid GX blend state''
      else
        (let hasAlpha = render_target_has_alpha (pixelFmt s);
             opaque = (\<lambda>f. if blendMode s = BM_BLEND then opaque_factor hasAlpha f else f);
             src = opaque (blendFacSrc s);
             dst = opaque (blendFacDst s);
             alphaWrite = (hasAlpha \<and> alphaUpdate s);
             constant = (alphaWrite \<and> dstAlpha s \<noteq> -1)
         in case blend_color g x s src dst of Inl e \<Rightarrow> Inl e
            | Inr c \<Rightarrow> (case blend_alpha s src dst c of Inl e \<Rightarrow> Inl e
               | Inr a \<Rightarrow> Inr \<lparr>gb_control = (defaults AND NOT 0x7fff1fff) OR blend_bits c a,
                   gb_targetMask = (if colorUpdate s then 7 else 0) OR (if alphaWrite then 8 else 0),
                   gb_constant = [0, 0, 0,
                     if constant then f32_div (f32_of_u32 (dstAlpha s)) (f32_of_int 255) else 0]\<rparr>)))"

section \<open>Facts\<close>

definition blend_part_ok :: "u32 \<times> u32 \<times> u32 \<Rightarrow> bool" where
  "blend_part_ok p \<longleftrightarrow> (case p of (f, d, opn) \<Rightarrow> fits 5 f \<and> fits 5 d \<and> fits 3 opn)"

lemma factor_fits: "factor f d a = Inr v \<Longrightarrow> fits 5 v"
  unfolding factor_def by (auto split: if_splits simp: fits_iff_unat word_less_nat_alt)

lemma fits_codes: "fits 5 (0 :: u32)" "fits 5 (1 :: u32)" "fits 5 (3 :: u32)" "fits 5 (19 :: u32)"
  "fits 3 (0 :: u32)" "fits 3 (3 :: u32)" "fits 3 (4 :: u32)"
  by (simp_all add: fits_def)

lemma factor_range: "f \<le> 7 \<Longrightarrow> \<exists>v. factor f d a = Inr v"
  unfolding factor_def by (auto simp: not_less)

lemma blend_color_ok: "blend_color g x s src dst = Inr c \<Longrightarrow> blend_part_ok c"
  unfolding blend_color_def blend_part_ok_def
  by (auto split: GXBlendMode.splits sum.splits if_splits dest: factor_fits simp: fits_codes)

lemma blend_alpha_ok: "blend_part_ok c \<Longrightarrow> blend_alpha s src dst c = Inr a \<Longrightarrow> blend_part_ok a"
  unfolding blend_alpha_def blend_part_ok_def
  by (auto split: sum.splits if_splits dest: factor_fits simp: fits_codes)

lemma blend_fields:
  fixes d :: u32
  assumes "blend_part_ok (cs, cd, opn)" "blend_part_ok (as, ad, aop)"
  defines "w \<equiv> (d AND NOT 0x7fff1fff) OR blend_bits (cs, cd, opn) (as, ad, aop)"
  shows "bp_get w 5 0 = cs" "bp_get w 3 5 = opn" "bp_get w 5 8 = cd"
    "bp_get w 5 16 = as" "bp_get w 3 21 = aop" "bp_get w 5 24 = ad" "bp_get w 2 29 = 3"
    "w AND NOT 0x7fff1fff = d AND NOT 0x7fff1fff"
proof -
  have f: "fits 5 cs" "fits 5 cd" "fits 3 opn" "fits 5 as" "fits 5 ad" "fits 3 aop"
    using assms(1,2) by (simp_all add: blend_part_ok_def)
  have c: "(0x60000000 :: u32) = push_bit 29 3" by simp
  have low: "bp_get (0x60000000 :: u32) k sh = 0" if "sh + k \<le> 29" for k sh
    unfolding c by (rule bp_get_above[OF that])
  define k where "k = d AND NOT 0x7fff1fff"
  have w: "w = k OR blend_bits (cs, cd, opn) (as, ad, aop)" by (simp only: w_def k_def)
  have keep: "bp_get k j sh = 0" if "bp_get 0x7fff1fff j sh = mask j" for j sh
    unfolding k_def by (rule bp_get_masked) (simp add: that take_bit_minus_one_eq_mask)
  have m: "bp_get k 5 0 = 0" "bp_get k 3 5 = 0" "bp_get k 5 8 = 0" "bp_get k 5 16 = 0"
    "bp_get k 3 21 = 0" "bp_get k 5 24 = 0" "bp_get k 2 29 = 0"
    by (rule keep; simp add: bp_get_def mask_numeral)+
  note r = blend_bits_def m low bp_get_here[OF f(2)] bp_get_here[OF f(3)] bp_get_here[OF f(4)]
    bp_get_here[OF f(5)] bp_get_here[OF f(6)] bp_get_here0[OF f(1)] bp_get_below0[OF f(1)]
    bp_get_below[OF f(2)] bp_get_below[OF f(3)] bp_get_below[OF f(4)] bp_get_below[OF f(5)]
    bp_get_below[OF f(6)] bp_get_above
  show "bp_get w 5 0 = cs" "bp_get w 3 5 = opn" "bp_get w 5 8 = cd" "bp_get w 5 16 = as"
    "bp_get w 3 21 = aop" "bp_get w 5 24 = ad"
    unfolding w by (simp_all add: r)
  show "bp_get w 2 29 = 3" unfolding w by (simp add: r) (simp add: bp_get_def)
  have "blend_bits (cs, cd, opn) (as, ad, aop) AND NOT 0x7fff1fff = 0"
  proof -
    have "push_bit sh a AND NOT 0x7fff1fff = 0"
      if "fits n a" "push_bit sh (mask n) AND NOT 0x7fff1fff = (0 :: u32)" for sh n and a :: u32
      using that by (rule push_in_mask)
    from this[OF f(1), of 0] this[OF f(3), of 5] this[OF f(2), of 8] this[OF f(4), of 16]
      this[OF f(6), of 21] this[OF f(5), of 24]
    show ?thesis by (simp add: blend_bits_def bit.conj_disj_distrib2 mask_numeral)
  qed
  thus "w AND NOT 0x7fff1fff = d AND NOT 0x7fff1fff"
    unfolding w_def by (simp add: bit.conj_disj_distrib2)
qed

lemma opaque_le: "f \<le> 7 \<Longrightarrow> opaque_factor h f \<le> 7"
  by (simp add: opaque_factor_def)

lemma blend_succeeds:
  assumes "blendFacSrc s \<le> 7" "blendFacDst s \<le> 7" "dstAlpha s = -1 \<or> dstAlpha s \<le> 255"
    "blendMode s \<noteq> BM_LOGIC \<or> blendOp s \<in> {GX_LO_CLEAR g, GX_LO_COPY x, GX_LO_NOOP x, GX_LO_INVAND x, GX_LO_OR x}"
  shows "\<exists>b. snapshot_gx_blend g x s d = Inr b"
proof -
  let ?o = "\<lambda>f. if blendMode s = BM_BLEND then opaque_factor (render_target_has_alpha (pixelFmt s)) f else f"
  have le: "?o (blendFacSrc s) \<le> 7" "?o (blendFacDst s) \<le> 7" using assms(1,2) by (simp_all add: opaque_le)
  have c: "\<exists>c. blend_color g x s (?o (blendFacSrc s)) (?o (blendFacDst s)) = Inr c"
    using assms(4) factor_range[OF le(1), of False False] factor_range[OF le(2), of True False]
    by (cases "blendMode s") (auto simp: blend_color_def)
  have a: "\<exists>a. blend_alpha s (?o (blendFacSrc s)) (?o (blendFacDst s)) c = Inr a" for c
    using factor_range[OF le(1), of False True] factor_range[OF le(2), of True True]
    by (cases c) (auto simp: blend_alpha_def)
  obtain c where "blend_color g x s (?o (blendFacSrc s)) (?o (blendFacDst s)) = Inr c" using c by blast
  moreover obtain a where "blend_alpha s (?o (blendFacSrc s)) (?o (blendFacDst s)) c = Inr a" using a by blast
  ultimately show ?thesis using assms(3) unfolding snapshot_gx_blend_def Let_def by (simp add: not_le[symmetric])
qed

text \<open>A colour factor that reads the destination's alpha needs a target that has one.\<close>
lemma opaque_no_dst_alpha:
  "factor (opaque_factor False f) d False = Inr v \<Longrightarrow> v \<noteq> 6 \<and> v \<noteq> 7"
  by (auto simp: opaque_factor_def factor_def split: if_splits)

lemma blend_opaque_target:
  assumes "\<not> render_target_has_alpha (pixelFmt s)" "snapshot_gx_blend g x s d = Inr b"
  shows "bp_get (gb_control b) 5 0 \<notin> {6, 7} \<and> bp_get (gb_control b) 5 8 \<notin> {6, 7} \<and> gb_targetMask b AND 8 = 0"
proof -
  let ?o = "\<lambda>f. if blendMode s = BM_BLEND then opaque_factor False f else f"
  from assms obtain c a where e: "blend_color g x s (?o (blendFacSrc s)) (?o (blendFacDst s)) = Inr c"
    "blend_alpha s (?o (blendFacSrc s)) (?o (blendFacDst s)) c = Inr a"
    "gb_control b = (d AND NOT 0x7fff1fff) OR blend_bits c a" "gb_targetMask b = (if colorUpdate s then 7 else 0)"
    unfolding snapshot_gx_blend_def by (auto simp: Let_def split: if_splits sum.splits)
  obtain cs cd opn where c: "c = (cs, cd, opn)" by (cases c)
  obtain as ad aop where a: "a = (as, ad, aop)" by (cases a)
  have ok: "blend_part_ok (cs, cd, opn)" "blend_part_ok (as, ad, aop)"
    using blend_color_ok[OF e(1)] blend_alpha_ok[OF _ e(2)] c a by blast+
  have "cs \<notin> {6, 7} \<and> cd \<notin> {6, 7}"
    using e(1) c unfolding blend_color_def
    by (auto split: GXBlendMode.splits sum.splits if_splits dest: opaque_no_dst_alpha)
  thus ?thesis using e(3,4) c a blend_fields(1,3)[OF ok] by auto
qed

end
