(* ===== verification/TevProps.thy ===== *)
theory TevProps
  imports TevRun GxBlend NativeLemmas
begin

text \<open>
  The properties of the texture environment, the coordinate generators and the blend state of a
  draw.  The witnesses use the register file after reset with one stage enabled.
\<close>

section \<open>Instances for the witnesses\<close>

definition one_stage :: native_ctx where
  "one_stage = (GXRegisterState_init sdk_enums native_init)\<lparr>numTevStages := 1\<rparr>"

definition demo_program :: MkwTevProgram where
  "demo_program = (case build_tev_program sdk_enums sdk_render one_stage of Inr p \<Rightarrow> p | Inl e \<Rightarrow> undefined)"

definition succeeds :: "'a + 'b \<Rightarrow> bool" where
  "succeeds r = (case r of Inl _ \<Rightarrow> False | Inr _ \<Rightarrow> True)"

lemma one_stage_builds: "build_tev_program sdk_enums sdk_render one_stage = Inr demo_program"
proof -
  have "succeeds (build_tev_program sdk_enums sdk_render one_stage)" by code_simp
  thus ?thesis by (auto simp: succeeds_def demo_program_def split: sum.splits)
qed

lemma one_stage_count: "unat (numTevStages one_stage) = 1"
  by (simp add: one_stage_def)

lemma one_stage_integral: "tev_integral one_stage"
  unfolding tev_integral_def one_stage_count by code_simp

lemma sdk_tev: "GX_CS_DIVIDE_2 sdk_render = 3" "GX_TB_ADDHALF sdk_render = 1" "GX_TB_SUBHALF sdk_render = 2"
  by (simp_all add: sdk_render_def)

lemma zero_int: "value_int (mkw_tev_splat 0)" "ivec_is (mkw_tev_splat 0) \<lparr>i0 = 0, i1 = 0, i2 = 0, i3 = 0\<rparr>" "f32_is 0 0"
proof -
  show z: "f32_is 0 0" using f32_is_zero[of False] by (simp add: f_sign_bit_def)
  show "value_int (mkw_tev_splat 0)" by (rule splat_int[OF lane_int_zero])
  show "ivec_is (mkw_tev_splat 0) \<lparr>i0 = 0, i1 = 0, i2 = 0, i3 = 0\<rparr>" using z by (simp add: ivec_is_def mkw_tev_splat_def)
qed

lemma demo_args: "ts_color_args (tp_stages demo_program ! 0) = 0xFFFF" "ts_alpha_args (tp_stages demo_program ! 0) = 0xFFF"
  by code_simp+

lemma four_fields: "n < 4 \<Longrightarrow> drop_bit (4 * n) (0xFFFF :: u32) AND 15 = 15" "n < 4 \<Longrightarrow> drop_bit (3 * n) (0xFFF :: u32) AND 7 = 7"
proof -
  have "n = 0 \<or> n = 1 \<or> n = 2 \<or> n = 3" if "n < 4" using that by auto
  thus "n < 4 \<Longrightarrow> drop_bit (4 * n) (0xFFFF :: u32) AND 15 = 15" "n < 4 \<Longrightarrow> drop_bit (3 * n) (0xFFF :: u32) AND 7 = 7"
    by auto
qed

section \<open>What the decoder's ranges give the packer\<close>

text \<open>What the packer cannot take from a register file whose fields have their widths: an operation that is
  neither plain with an existing bias nor a comparison, a missing channel, and constant selectors that
  name no constant, where the stage reads the constant.\<close>
definition op_supported :: "TevOp \<Rightarrow> bool" where
  "op_supported v \<longleftrightarrow> op_op v \<le> 1 \<and> op_bias v \<le> 2 \<or> 8 \<le> op_op v"

definition stage_supported :: "gx_enums \<Rightarrow> gx_render_enums \<Rightarrow> TevStage \<Rightarrow> bool" where
  "stage_supported g x t \<longleftrightarrow> op_supported (colorOp t) \<and> op_supported (alphaOp t) \<and>
     (channelId t \<le> 8 \<or> channelId t = GX_COLOR_NULL g) \<and>
     (GX_CC_KONST x \<in> set (pass_list (colorPass t)) \<longrightarrow> kcSel t < 8 \<or> 12 \<le> kcSel t) \<and>
     (GX_CA_KONST x \<in> set (pass_list (alphaPass t)) \<longrightarrow> kaSel t < 8 \<or> 16 \<le> kaSel t)"

text \<open>Every component times 255 is finite and, up to 0.001, between the bounds.\<close>
definition colour_in_range :: "int \<Rightarrow> int \<Rightarrow> vec4 \<Rightarrow> bool" where
  "colour_in_range lo hi v \<longleftrightarrow> (\<forall>c \<in> {v0 v, v1 v, v2 v, v3 v}. f32_isfinite (f32_mul c f32_255) \<and>
     f32_le (f32_sub (f32_of_int lo) 0x3A83126F) (f32_mul c f32_255) \<and>
     f32_le (f32_mul c f32_255) (f32_add (f32_of_int hi) 0x3A83126F))"

lemma fits_le: "fits 2 w \<Longrightarrow> w \<le> 3" "fits 3 w \<Longrightarrow> w \<le> 7" "fits 4 w \<Longrightarrow> w \<le> 15" "fits 5 w \<Longrightarrow> w \<le> 31" "fits 8 w \<Longrightarrow> w \<le> 255"
  for w :: u32
  by (simp_all add: fits_iff_unat word_le_nat_alt)

lemma operation_builds:
  assumes "wf_op v" "GX_CS_DIVIDE_2 x = 3" "GX_TB_SUBHALF x = 2"
  shows "(\<exists>w. operation x v = Inr w) \<longleftrightarrow> op_supported v"
proof -
  have r: "op_op v \<le> 15" "op_scale v \<le> 3" "op_outReg v \<le> 3" using assms(1) fits_le(1,3) by (simp_all add: wf_op_def)
  have n: "op_op v \<le> 1 \<Longrightarrow> \<not> 8 \<le> op_op v" by (simp add: word_le_nat_alt)
  show ?thesis
    using r n by (auto simp: operation_def require_def Let_def assms(2,3) op_supported_def)
qed

lemma konst_color_builds:
  assumes "fits 5 sel"
  shows "(\<exists>k. konst_color sel colors alpha = Inr k) \<longleftrightarrow> sel < 8 \<or> 12 \<le> sel \<and> (\<not> alpha \<or> 16 \<le> sel)"
proof -
  have "sel \<le> 31" by (rule fits_le(4)[OF assms])
  thus ?thesis unfolding konst_color_def require_def by (cases "sel < 8") auto
qed

lemma swap_total: "wf_swap w \<Longrightarrow> \<exists>v. swap_bits w = Inr v"
  using fits_le(1) by (auto simp: wf_swap_def swap_bits_def require_def)

lemma stage_konst_builds:
  assumes "wf_stage g t"
  shows "(\<exists>k. stage_konst x konst t = Inr k) \<longleftrightarrow>
    (GX_CC_KONST x \<in> set (pass_list (colorPass t)) \<longrightarrow> kcSel t < 8 \<or> 12 \<le> kcSel t) \<and>
    (GX_CA_KONST x \<in> set (pass_list (alphaPass t)) \<longrightarrow> kaSel t < 8 \<or> 16 \<le> kaSel t)"
proof -
  have f: "fits 5 (kcSel t)" "fits 5 (kaSel t)" using assms by (simp_all add: wf_stage_def)
  have le: "16 \<le> kaSel t \<Longrightarrow> 12 \<le> kaSel t" by (simp add: word_le_nat_alt)
  have u: "list_ex (\<lambda>a. a = c) l \<longleftrightarrow> c \<in> set l" for c :: u32 and l by (auto simp: list_ex_iff)
  show ?thesis
    unfolding stage_konst_def u
    using konst_color_builds[OF f(1), of konst False] konst_color_builds[OF f(2), of konst True] le
    by (auto split: sum.splits)
qed

lemma stage_builds:
  assumes "wf_tev g s" "wf_ctx g s" "i < 16" "GX_CS_DIVIDE_2 x = 3" "GX_TB_SUBHALF x = 2"
  shows "(\<exists>d. build_stage g x s konst i = Inr d) \<longleftrightarrow> stage_supported g x (tevStages s ! i)"
proof -
  let ?t = "tevStages s ! i"
  have len: "length (tevStages s) = 16" "length (tevSwapTable s) = 4" using assms(2) by (simp_all add: wf_ctx_def wf_shape_def)
  have w: "wf_stage g ?t" using assms(1,3) len(1) by (simp add: wf_tev_def list_all_length)
  hence r: "fits 2 (tevSwapTex ?t)" "fits 2 (tevSwapRas ?t)" "fits 2 (indTexFormat ?t)" "fits 2 (indTexAlphaSel ?t)"
    "wf_op (colorOp ?t)" "wf_op (alphaOp ?t)"
    "list_all (\<lambda>a. a \<le> 15) (pass_list (colorPass ?t))" "list_all (\<lambda>a. a \<le> 7) (pass_list (alphaPass ?t))"
    using fits_le(2,3) by (simp_all add: wf_stage_def pass_list_def)
  have lt: "a < 4" "unat a < 4" if "fits 2 a" for a :: u32
    using that by (simp_all add: fits_iff_unat word_less_nat_alt)
  obtain t q where sw: "swap_bits (tevSwapTable s ! unat (tevSwapTex ?t)) = Inr t" "swap_bits (tevSwapTable s ! unat (tevSwapRas ?t)) = Inr q"
    using swap_total assms(1) lt(2)[OF r(1)] lt(2)[OF r(2)] len(2) by (metis wf_tev_def list_all_length)
  note b = operation_builds[OF r(5) assms(4,5)] operation_builds[OF r(6) assms(4,5)] stage_konst_builds[OF w, of x konst]
  show ?thesis
    unfolding stage_supported_def b[symmetric]
    using r(7,8) lt(1)[OF r(1)] lt(1)[OF r(2)] fits_le(1)[OF r(3)] fits_le(1)[OF r(4)]
    by (auto simp: build_stage_def require_def Let_def sw split: sum.splits)
qed

lemma colour_builds: "(\<exists>c. byte_color lo hi v = Inr c) \<longleftrightarrow> colour_in_range lo hi v"
  by (auto simp: byte_color_def byte_lane_def require_def colour_in_range_def Let_def)

lemma map_err_builds: "(\<exists>ys. map_err f xs = Inr ys) \<longleftrightarrow> (\<forall>x \<in> set xs. \<exists>y. f x = Inr y)"
proof
  assume "\<exists>ys. map_err f xs = Inr ys"
  thus "\<forall>x \<in> set xs. \<exists>y. f x = Inr y" using map_err_Inr by (metis in_set_conv_nth)
qed (rule map_err_total, blast)

lemma decoded_alpha_ranges:
  assumes "wf_tev g s"
  shows "ac_comp0 (alphaCompare s) \<le> 7 \<and> ac_comp1 (alphaCompare s) \<le> 7 \<and> ac_op (alphaCompare s) \<le> 3 \<and>
    ac_ref0 (alphaCompare s) \<le> 255 \<and> ac_ref1 (alphaCompare s) \<le> 255"
  using assms fits_le by (simp add: wf_tev_def)

lemma one_stage_inv: "fifo_inv sdk_enums one_stage"
proof -
  have b: "fifo_inv sdk_enums (GXRegisterState_init sdk_enums native_init)" by (rule fifo_inv_init[OF sdk_ranges_ok_sdk])
  have "same_xf (GXRegisterState_init sdk_enums native_init) one_stage" by (simp add: one_stage_def same_xf_def)
  hence "xf_coherent one_stage" using b by (simp add: same_xf_coherent fifo_inv_def)
  moreover have "wf_ctx sdk_enums one_stage" "wf_tev sdk_enums one_stage"
    using b by (simp_all add: one_stage_def fifo_inv_def wf_ctx_def wf_shape_def wf_tev_def)
  ultimately show ?thesis by (simp add: fifo_inv_def)
qed

section \<open>The texture environment\<close>

text \<open>C37. The integer combiner core computes its formula exactly: for byte operands A, B, C, a register
  value D and any bias the program can select, no 32-bit intermediate overflows.\<close>
theorem tev_regular_no_overflow:
  assumes "0 \<le> a" "a \<le> 255" "0 \<le> b" "b \<le> 255" "0 \<le> c" "c \<le> 255" "- 1024 \<le> d" "d \<le> 1023"
    "- 128 \<le> bias" "bias \<le> 128"
  shows "sint (mkw_tev_regular (word_of_int a) (word_of_int b) (word_of_int c) (word_of_int d) op (word_of_int bias) scale) =
      tev_formula a b c d op bias scale \<and> \<bar>tev_formula a b c d op bias scale\<bar> \<le> 8000"
proof -
  note r = regular_exact[OF assms, of op scale]
  have "sint (word_of_int (tev_formula a b c d op bias scale) :: s32) = tev_formula a b c d op bias scale"
    by (rule sint_of_int) (use r(2) in \<open>auto simp: abs_le_iff\<close>)
  thus ?thesis using r by simp
qed

theorem tev_regular_no_overflow_witness:
  "sint (mkw_tev_regular (word_of_int 255) (word_of_int 0) (word_of_int 128) (word_of_int (- 1024)) 1 (word_of_int (- 128)) 2) =
      tev_formula 255 0 128 (- 1024) 1 (- 128) 2 \<and> \<bar>tev_formula 255 0 128 (- 1024) 1 (- 128) 2\<bar> \<le> 8000"
  by (rule tev_regular_no_overflow) simp_all

text \<open>C29. The float interpreter of a combiner channel agrees with the integer reference: on operands that
  are integers (A, B, C bytes, D in register range) comparison and evaluation return, without an
  undefined conversion, exactly the value of the integer component.\<close>
theorem tev_float_matches_integer:
  assumes "f32_is a i" "f32_is b j" "f32_is c k" "f32_is d l" "byte_int i" "byte_int j" "byte_int k"
    "- 1024 \<le> l" "l \<le> 1023" "flags AND 15 < 2 \<longrightarrow> drop_bit 8 flags AND 3 \<noteq> 3"
    "vec_is va ra ga ba" "vec_is vb rb gb bb"
  shows "\<exists>p r. mkw_tev_compare va vb (flags AND 15) = Some p \<and> mkw_tev_eval a b c d flags p = Some r \<and>
    f32_is r (sint (mkw_tev_component (word_of_int i) (word_of_int j) (word_of_int k) (word_of_int l)
      (pack_word ra ga ba) (pack_word rb gb bb)
      (flags AND 15) ((drop_bit 8 flags AND 3) * 128 - 128) (drop_bit 4 flags AND 3) (flags AND 64)))"
  by (rule stage_channel_exact[OF assms])

theorem tev_float_matches_integer_witness:
  "\<exists>p r. mkw_tev_compare (mkw_tev_splat (f32_of_int 9)) (mkw_tev_splat (f32_of_int 7)) (0x4C AND 15) = Some p \<and>
    mkw_tev_eval (f32_of_int 9) (f32_of_int 7) (f32_of_int 5) (f32_of_int (- 3)) 0x4C p = Some r \<and>
    f32_is r (sint (mkw_tev_component (word_of_int 9) (word_of_int 7) (word_of_int 5) (word_of_int (- 3))
      (pack_word 9 9 9) (pack_word 7 7 7)
      (0x4C AND 15) ((drop_bit 8 0x4C AND 3) * 128 - 128) (drop_bit 4 0x4C AND 3) (0x4C AND 64)))"
  by (rule tev_float_matches_integer)
     (simp_all add: f32_is_of_int byte_int_def vec_is_def mkw_tev_splat_def)

text \<open>C26. From register file to pixel: the stage that build_tev_program packs, run by the interpreter,
  writes the destination registers the register file names, with the value of the integer combiner
  under the register file's operation, bias, scale and clamp.\<close>
theorem packed_stage_computes_combiner:
  assumes "build_tev_program g x s = Inr p" "i < unat (numTevStages s)"
    "GX_CS_DIVIDE_2 x = 3" "GX_TB_ADDHALF x = 1" "GX_TB_SUBHALF x = 2"
    "\<And>n. n < 4 \<Longrightarrow> ivec_is (stage_color regs (tp_stages p ! i) (mkw_tev_swizzle tex (ts_texture_swap (tp_stages p ! i)))
       (mkw_tev_swizzle ras (ts_raster_swap (tp_stages p ! i))) n) (C n)"
    "\<And>n. n < 4 \<Longrightarrow> ivec_range (C n)"
    "\<And>n. n < 4 \<Longrightarrow> f32_is (stage_alpha regs (tp_stages p ! i) (mkw_tev_swizzle tex (ts_texture_swap (tp_stages p ! i)))
       (mkw_tev_swizzle ras (ts_raster_swap (tp_stages p ! i))) n) (a n)"
    "\<And>n. n < 4 \<Longrightarrow> tev_range (a n)"
  shows "\<exists>res. mkw_tev_stage regs (tp_stages p ! i) tex ras =
      Some (mkw_tev_write regs (op_outReg (colorOp (tevStages s ! i))) (op_outReg (alphaOp (tevStages s ! i))) res, res) \<and>
    ivec_is res (stage_value x (tevStages s ! i) C a)"
proof -
  obtain konst where "build_stage g x s konst i = Inr (tp_stages p ! i)" by (rule program_stage[OF assms(1,2)])
  note f = stage_fields[OF this]
  show ?thesis by (rule stage_matches[OF f(1,2) assms(3-9)])
qed

theorem packed_stage_computes_combiner_witness:
  "\<exists>res. mkw_tev_stage (tp_initial demo_program) (tp_stages demo_program ! 0) (mkw_tev_splat 0) (mkw_tev_splat 0) =
      Some (mkw_tev_write (tp_initial demo_program) 0 0 res, res) \<and>
    ivec_is res (stage_value sdk_render (tevStages one_stage ! 0) (\<lambda>_. \<lparr>i0 = 0, i1 = 0, i2 = 0, i3 = 0\<rparr>) (\<lambda>_. 0))"
proof -
  have out: "op_outReg (colorOp (tevStages one_stage ! 0)) = 0" "op_outReg (alphaOp (tevStages one_stage ! 0)) = 0"
    by code_simp+
  have "mkw_tev_color_arg regs 15 tx rs k = mkw_tev_splat 0" "mkw_tev_alpha_arg regs 7 tx rs k = 0" for regs tx rs k
    by (simp_all add: mkw_tev_color_arg_def mkw_tev_alpha_arg_def)
  thus ?thesis
    using packed_stage_computes_combiner[OF one_stage_builds, of 0 "tp_initial demo_program" "mkw_tev_splat 0" "mkw_tev_splat 0"
        "\<lambda>_. \<lparr>i0 = 0, i1 = 0, i2 = 0, i3 = 0\<rparr>" "\<lambda>_. 0"] zero_int
    by (simp add: one_stage_count sdk_tev out stage_color_def stage_alpha_def demo_args four_fields ivec_range_def tev_range_def)
qed

text \<open>C28. What can go wrong when a decoded state is packed, exactly: on any state that satisfies the decoder's
  invariant the packer succeeds if and only if there is a stage, at most eight coordinate generators and
  four indirect stages are active, the colours are in range, and every active stage uses existing
  operations, an existing channel and, where it reads a constant, an existing constant.  The other
  checks of the packer (stage count, operand selectors, scale, output register, swap selectors and
  tables, indirect format, alpha compare) never fail on such a state.\<close>
theorem decoded_state_builds_program:
  assumes "fifo_inv g s" "GX_CS_DIVIDE_2 x = 3" "GX_TB_SUBHALF x = 2"
  shows "(\<exists>p. build_tev_program g x s = Inr p) \<longleftrightarrow>
    1 \<le> unat (numTevStages s) \<and> numTexGens s \<le> 8 \<and> numIndStages s \<le> 4 \<and>
    (\<forall>i<4. colour_in_range (- 1024) 1023 (colorRegs s ! i) \<and> colour_in_range 0 255 (kcolors s ! i)) \<and>
    (\<forall>i<unat (numTevStages s). stage_supported g x (tevStages s ! i))"
proof -
  have w: "wf_tev g s" "wf_ctx g s" using assms(1) by (simp_all add: fifo_inv_def)
  hence n: "unat (numTevStages s) \<le> 16" by (simp add: wf_tev_def)
  have cs: "(\<exists>cs. map_err (\<lambda>i. byte_color lo hi (f s ! i)) [0..<4] = Inr cs) \<longleftrightarrow> (\<forall>i<4. colour_in_range lo hi (f s ! i))"
    for lo hi and f :: "_ \<Rightarrow> vec4 list"
    unfolding map_err_builds by (auto simp: colour_builds)
  have st: "(\<exists>d. map_err (build_stage g x s ks) [0..<unat (numTevStages s)] = Inr d) \<longleftrightarrow>
      (\<forall>i<unat (numTevStages s). stage_supported g x (tevStages s ! i))" for ks
    unfolding map_err_builds using stage_builds[OF w _ assms(2,3)] n by auto
  have "(\<exists>p. build_tev_program g x s = Inr p) \<longleftrightarrow> (1 \<le> unat (numTevStages s) \<and> numTexGens s \<le> 8 \<and> numIndStages s \<le> 4) \<and>
      (\<exists>cs. map_err (\<lambda>i. byte_color (- 1024) 1023 (colorRegs s ! i)) [0..<4] = Inr cs) \<and>
      (\<exists>ks. map_err (\<lambda>i. byte_color 0 255 (kcolors s ! i)) [0..<4] = Inr ks \<and>
        (\<exists>d. map_err (build_stage g x s ks) [0..<unat (numTevStages s)] = Inr d))"
    using n decoded_alpha_ranges[OF w(1)] by (auto simp: build_tev_program_def Let_def split: sum.splits)
  thus ?thesis unfolding st cs[of _ _ colorRegs] using cs[of 0 255 kcolors] by blast
qed

theorem decoded_state_builds_program_witness:
  "\<exists>p. build_tev_program sdk_enums sdk_render one_stage = Inr p"
proof -
  have "numTexGens one_stage \<le> 8" "numIndStages one_stage \<le> 4" by code_simp+
  moreover have "colour_in_range (- 1024) 1023 (colorRegs one_stage ! i) \<and> colour_in_range 0 255 (kcolors one_stage ! i)"
    if "i < 4" for i
  proof -
    have "list_all (\<lambda>i. succeeds (byte_color (- 1024) 1023 (colorRegs one_stage ! i)) \<and>
        succeeds (byte_color 0 255 (kcolors one_stage ! i))) [0..<4]" by code_simp
    hence "succeeds (byte_color (- 1024) 1023 (colorRegs one_stage ! i))" "succeeds (byte_color 0 255 (kcolors one_stage ! i))"
      using that by (simp_all add: list_all_iff)
    thus ?thesis unfolding colour_builds[symmetric] by (simp add: succeeds_def split: sum.splits)
  qed
  moreover have "stage_supported sdk_enums sdk_render (tevStages one_stage ! 0)" by code_simp
  ultimately show ?thesis using decoded_state_builds_program[OF one_stage_inv sdk_tev(1,3)] by (simp add: one_stage_count)
qed

text \<open>C27. A program keeps its registers integral and in range, provided it is packed from a state none of
  whose stages reads the half constant (127.5), selects a fractional constant or a bump-alpha channel:
  started from the packed initial registers it runs through all its stages and the alpha test without an
  undefined conversion of a float to an integer, for every integer texture sample and raster colour.\<close>
theorem tev_program_runs_defined:
  assumes "build_tev_program g x s = Inr p" "tev_integral s"
    "GX_CS_DIVIDE_2 x = 3" "GX_TB_ADDHALF x = 1" "GX_TB_SUBHALF x = 2"
    "\<And>n. value_int (samples n)" "value_int raster0" "value_int raster1"
  shows "\<exists>r res px. tev_run p samples raster0 raster1 indirect = Some (r, res) \<and> regs_int r \<and> value_int res \<and>
    tev_pixel p samples raster0 raster1 indirect = Some px"
proof -
  obtain r res where r: "tev_run p samples raster0 raster1 indirect = Some (r, res)" "regs_int r" "value_int res"
    using run_keeps_integers[OF assms(1-5), of samples raster0 raster1 indirect] assms(6-8) by blast
  obtain b where "mkw_tev_alpha_test (v3 res) (tp_alpha_flags p) = Some b" using alpha_test_defined[OF r(3)] by blast
  thus ?thesis using r by (simp add: tev_pixel_def Let_def)
qed

theorem tev_program_runs_defined_witness:
  "\<exists>r res px. tev_run demo_program (\<lambda>_. mkw_tev_splat 0) (mkw_tev_splat 0) (mkw_tev_splat 0) vec4_zero = Some (r, res) \<and>
    regs_int r \<and> value_int res \<and>
    tev_pixel demo_program (\<lambda>_. mkw_tev_splat 0) (mkw_tev_splat 0) (mkw_tev_splat 0) vec4_zero = Some px"
  by (rule tev_program_runs_defined[OF one_stage_builds one_stage_integral sdk_tev zero_int(1) zero_int(1) zero_int(1)])

text \<open>The 24-bit wrap of indirect coordinates is sign extension of the low 24 bits.\<close>
theorem tev_s24_wrap_sign_extends:
  "tev_s24_wrap v = signed_take_bit 23 v \<and> tev_s24_wrap (tev_s24_wrap v) = tev_s24_wrap v"
  by (simp add: tev_s24_wrap_spec)

text \<open>The stage that feeds the depth texture is the last stage that can sample a texture, and there
  is one unless the depth texture is off or no stage samples.\<close>
theorem z_texture_stage_is_last_sampler:
  assumes "tev_z_texture_stage g x c = k" "0 \<le> k"
  shows "tev_z_texture_enabled g c \<and> nat k < unat (sc_tevStageCount c) \<and>
    dep_canSampleTexture (tev_stage_texture_dependency g x c (of_nat (nat k))) \<and>
    (\<forall>i. nat k < i \<longrightarrow> i < unat (sc_tevStageCount c) \<longrightarrow> \<not> dep_canSampleTexture (tev_stage_texture_dependency g x c (of_nat i)))"
proof -
  have e: "tev_z_texture_enabled g c" "last_sampling_stage g x c (unat (sc_tevStageCount c)) = k"
    using assms by (auto simp: tev_z_texture_stage_def split: if_splits)
  show ?thesis
    by (rule last_sampling_stage_cases[of g x c "unat (sc_tevStageCount c)"]) (use e assms(2) in auto)
qed

definition z_config :: ShaderConfig where
  "z_config = (tev_config sdk_enums one_stage)\<lparr>sc_numTexGens := 1, sc_zTexture := 0x04000000,
     sc_tevStages := [(tevStages one_stage ! 0)\<lparr>texMapId := 2, texCoordId := 0\<rparr>]\<rparr>"

theorem z_texture_stage_is_last_sampler_witness:
  "tev_z_texture_enabled sdk_enums z_config \<and>
   dep_canSampleTexture (tev_stage_texture_dependency sdk_enums sdk_render z_config 0)"
proof -
  have "tev_z_texture_stage sdk_enums sdk_render z_config = 0" by code_simp
  from z_texture_stage_is_last_sampler[OF this] show ?thesis by simp
qed

section \<open>Coordinate generators\<close>

text \<open>C35. The coordinates that a program reports as used are among the active ones: passed to the texgen
  encoder on the same state, they never trigger its range error.\<close>
theorem used_texcoords_fit_texgen:
  assumes "tev_program_used_texcoords g x s = Inr used"
  shows "snapshot_gx_texgen g x s used =
    (case map_err (texgen_one g x s used) [0..<8] of Inl e \<Rightarrow> Inl e
      | Inr ds \<Rightarrow> Inr \<lparr>tgs_count = ucast (numTexGens s), tgs_used_mask = used, tgs_generators = ds\<rparr>)"
  using used_texcoords_accepted[OF assms] used_texcoords_below(2)[OF assms]
  by (simp add: snapshot_gx_texgen_def not_less[symmetric])

theorem used_texcoords_fit_texgen_witness:
  "snapshot_gx_texgen sdk_enums sdk_render one_stage 0 =
    (case map_err (texgen_one sdk_enums sdk_render one_stage 0) [0..<8] of Inl e \<Rightarrow> Inl e
      | Inr ds \<Rightarrow> Inr \<lparr>tgs_count = ucast (numTexGens one_stage), tgs_used_mask = 0, tgs_generators = ds\<rparr>)"
proof (rule used_texcoords_fit_texgen)
  show "tev_program_used_texcoords sdk_enums sdk_render one_stage = Inr 0" by code_simp
qed

text \<open>C36. Every used coordinate generator of a snapshot has the type of the register file, which is a known
  one, the source row that the register file names (its own texture coordinate for the code that means
  so), which is an existing row and not a recursive one, and matrix rows inside the shared banks of
  twenty (or the identity).\<close>
theorem texgen_rows_inside_banks:
  assumes "snapshot_gx_texgen g x s used = Inr out" "i < 8" "bit used i"
    "GX_TG_TEXCOORD0 x = 12" "GX_TG_TEXCOORD6 x = 18"
  shows "tg_type (tgs_generators out ! i) = tcg_type (tcgs s ! i) \<and>
    tg_type (tgs_generators out ! i) \<in> {GX_TG_MTX3x4, GX_TG_MTX2x4, GX_TG_SRTG} \<and>
    tg_source (tgs_generators out ! i) = (if tcg_src (tcgs s ! i) = 21 then 4 + of_nat i else tcg_src (tcgs s ! i)) \<and>
    tg_source (tgs_generators out ! i) \<le> 20 \<and> tg_source (tgs_generators out ! i) \<notin> {12, 13, 14, 15, 16, 17, 18} \<and>
    (tg_matrix (tgs_generators out ! i) = -1 \<or> tg_matrix (tgs_generators out ! i) < 20) \<and>
    (tg_post_matrix (tgs_generators out ! i) = -1 \<or> tg_post_matrix (tgs_generators out ! i) < 20)"
proof -
  have o: "texgen_one g x s used i = Inr (tgs_generators out ! i)" by (rule texgen_snapshot_nth(1)[OF assms(1,2)])
  have b: "used AND push_bit i 1 \<noteq> 0" using assms(3) unfolding and_single_bit by (auto dest: bit_imp_le_length)
  have t: "tg_type (tgs_generators out ! i) = tcg_type (tcgs s ! i)"
  proof -
    obtain r where r: "tgs_generators out ! i = r" by blast
    show ?thesis using o[unfolded r] b unfolding r by (auto simp: texgen_one_def Let_def split: if_splits sum.splits)
  qed
  show ?thesis
  proof (rule texgen_one_cases[OF o assms(3)])
    assume k: "tg_type (tgs_generators out ! i) \<in> {GX_TG_MTX3x4, GX_TG_MTX2x4, GX_TG_SRTG}"
      and s: "texgen_source x (tcgs s ! i) i = Inr (tg_source (tgs_generators out ! i))"
      and m: "texgen_matrix g s i = Inr (tg_matrix (tgs_generators out ! i))"
      and pm: "texgen_post_matrix g s i = Inr (tg_post_matrix (tgs_generators out ! i))"
    note r = texgen_source_range[OF s assms(2,4,5)]
    have "tg_source (tgs_generators out ! i) = (if tcg_src (tcgs s ! i) = 21 then 4 + of_nat i else tcg_src (tcgs s ! i))"
      using s by (auto simp: texgen_source_def split: if_splits)
    moreover have "tg_source (tgs_generators out ! i) \<notin> {12, 13, 14, 15, 16, 17, 18}" using r by auto
    ultimately show ?thesis using t k r texgen_matrix_range[OF m] texgen_post_matrix_range[OF pm] by blast
  qed
qed

definition one_texgen :: native_ctx where
  "one_texgen = one_stage\<lparr>numTexGens := 1\<rparr>"

theorem texgen_rows_inside_banks_witness:
  "\<exists>out. snapshot_gx_texgen sdk_enums sdk_render one_texgen 1 = Inr out \<and> tg_source (tgs_generators out ! 0) \<le> 20"
proof -
  have "succeeds (snapshot_gx_texgen sdk_enums sdk_render one_texgen 1)" by code_simp
  then obtain out where o: "snapshot_gx_texgen sdk_enums sdk_render one_texgen 1 = Inr out"
    by (auto simp: succeeds_def split: sum.splits)
  have "GX_TG_TEXCOORD0 sdk_render = 12" "GX_TG_TEXCOORD6 sdk_render = 18" by (simp_all add: sdk_render_def)
  moreover have "(0 :: nat) < 8" "bit (1 :: u32) 0" by simp_all
  ultimately show ?thesis using texgen_rows_inside_banks[OF o] o by blast
qed

section \<open>Blending\<close>

text \<open>The hardware's factor codes by GX factor (0 to 7) and role, with the destination's alpha and without
  it, where it reads as one: zero and one, the other operand's colour and its complement, the source's
  alpha and its complement, the destination's alpha and its complement.\<close>
definition hw_factors :: "bool \<Rightarrow> bool \<Rightarrow> bool \<Rightarrow> u32 list" where
  "hw_factors hasAlpha destination alpha =
     [0, 1, (if alpha then if destination then 4 else 6 else if destination then 2 else 8),
      (if alpha then if destination then 5 else 7 else if destination then 3 else 9), 4, 5,
      (if \<not> hasAlpha then 1 else 6), (if \<not> hasAlpha then 0 else 7)]"

text \<open>Source factor, destination factor and operation (0 adds, 3 takes the maximum, 4 subtracts in reverse)
  that a blend mode asks for.\<close>
definition hw_blend :: "gx_enums \<Rightarrow> gx_render_enums \<Rightarrow> 'a GXRegisterState_scheme \<Rightarrow> bool \<Rightarrow> u32 \<times> u32 \<times> u32" where
  "hw_blend g x s alpha =
     (case blendMode s of BM_NONE \<Rightarrow> (1, 0, 0) | BM_SUBTRACT \<Rightarrow> (1, 1, 4)
      | BM_BLEND \<Rightarrow> (hw_factors (render_target_has_alpha (pixelFmt s)) False alpha ! unat (blendFacSrc s),
          hw_factors (render_target_has_alpha (pixelFmt s)) True alpha ! unat (blendFacDst s), 0)
      | BM_LOGIC \<Rightarrow> (if blendOp s = GX_LO_CLEAR g then (0, 0, 0) else if blendOp s = GX_LO_COPY x then (1, 0, 0)
          else if blendOp s = GX_LO_NOOP x then (0, 1, 0) else if blendOp s = GX_LO_INVAND x then (0, 3, 0) else (1, 1, 3)))"

lemma u32_lt_8: "w \<le> 7 \<Longrightarrow> w = 0 \<or> w = 1 \<or> w = 2 \<or> w = 3 \<or> w = 4 \<or> w = 5 \<or> w = 6 \<or> w = (7 :: u32)"
proof -
  assume "w \<le> 7"
  hence "unat w < 8" by (simp add: word_le_nat_alt)
  hence "unat w = 0 \<or> unat w = 1 \<or> unat w = 2 \<or> unat w = 3 \<or> unat w = 4 \<or> unat w = 5 \<or> unat w = 6 \<or> unat w = 7" by auto
  thus ?thesis by (simp add: word_unat_eq_iff)
qed

lemma factor_table:
  assumes "factor (opaque_factor h f) d a = Inr v"
  shows "v = hw_factors h d a ! unat f"
proof -
  have "f \<le> 7" using assms by (auto simp: factor_def opaque_factor_def not_less split: if_splits)
  from u32_lt_8[OF this] show ?thesis
    using assms by (elim disjE) (auto simp: factor_def opaque_factor_def hw_factors_def split: if_splits)
qed

text \<open>C39. The blend control word holds, field by field, the colour and the alpha factors and operations that
  the register file's blend mode, factors and logic operation ask for (the constant alpha, code 19, when
  a destination alpha is written), has separate alpha and blending enabled, and keeps the reserved bits
  of the default word.\<close>
theorem blend_control_decodes:
  assumes "snapshot_gx_blend g x s d = Inr b"
  shows "(bp_get (gb_control b) 5 0, bp_get (gb_control b) 5 8, bp_get (gb_control b) 3 5) = hw_blend g x s False \<and>
    (bp_get (gb_control b) 5 16, bp_get (gb_control b) 5 24, bp_get (gb_control b) 3 21) =
      (if render_target_has_alpha (pixelFmt s) \<and> alphaUpdate s \<and> dstAlpha s \<noteq> - 1 then (19, 0, 0) else hw_blend g x s True) \<and>
    bp_get (gb_control b) 2 29 = 3 \<and> gb_control b AND NOT 0x7fff1fff = d AND NOT 0x7fff1fff"
proof -
  let ?h = "render_target_has_alpha (pixelFmt s)"
  let ?o = "\<lambda>f. if blendMode s = BM_BLEND then opaque_factor ?h f else f"
  from assms obtain c a where e: "blend_color g x s (?o (blendFacSrc s)) (?o (blendFacDst s)) = Inr c"
    "blend_alpha s (?o (blendFacSrc s)) (?o (blendFacDst s)) c = Inr a"
    "gb_control b = (d AND NOT 0x7fff1fff) OR blend_bits c a"
    unfolding snapshot_gx_blend_def by (auto simp: Let_def split: if_splits sum.splits)
  have c: "c = hw_blend g x s False"
    using e(1) unfolding blend_color_def hw_blend_def
    by (auto split: GXBlendMode.splits sum.splits if_splits dest: factor_table)
  have same: "hw_blend g x s True = hw_blend g x s False" if "blendMode s \<noteq> BM_BLEND"
    using that by (auto simp: hw_blend_def split: GXBlendMode.splits)
  have op: "snd (snd (hw_blend g x s False)) = 0" if "blendMode s = BM_BLEND" using that by (simp add: hw_blend_def)
  have a: "a = (if ?h \<and> alphaUpdate s \<and> dstAlpha s \<noteq> - 1 then (19, 0, 0) else hw_blend g x s True)"
    using e(2) same op unfolding blend_alpha_def c
    by (cases "hw_blend g x s False")
       (auto split: sum.splits if_splits dest!: factor_table simp: hw_blend_def)
  obtain cs cd opn where c': "c = (cs, cd, opn)" by (cases c)
  obtain as ad aop where a': "a = (as, ad, aop)" by (cases a)
  have ok: "blend_part_ok (cs, cd, opn)" "blend_part_ok (as, ad, aop)"
    using blend_color_ok[OF e(1)] blend_alpha_ok[OF _ e(2)] c' a' by blast+
  show ?thesis unfolding e(3) c[symmetric] a[symmetric] c' a' using blend_fields[OF ok, of d] by simp
qed

lemma blend_snapshot_demo: "\<exists>b. snapshot_gx_blend sdk_enums sdk_render one_stage 0x80000000 = Inr b"
proof -
  have "succeeds (snapshot_gx_blend sdk_enums sdk_render one_stage 0x80000000)" by code_simp
  thus ?thesis by (auto simp: succeeds_def split: sum.splits)
qed

theorem blend_control_decodes_witness:
  "\<exists>b. snapshot_gx_blend sdk_enums sdk_render one_stage 0x80000000 = Inr b \<and> bp_get (gb_control b) 5 0 = 1 \<and>
    bp_get (gb_control b) 5 8 = 0 \<and> gb_control b AND NOT 0x7fff1fff = 0x80000000 AND NOT 0x7fff1fff"
proof -
  obtain b where b: "snapshot_gx_blend sdk_enums sdk_render one_stage 0x80000000 = Inr b" using blend_snapshot_demo by blast
  have "blendMode one_stage = BM_NONE" by code_simp
  thus ?thesis using b blend_control_decodes[OF b] by (intro exI[of _ b]) (simp add: hw_blend_def)
qed

text \<open>On a render target without alpha the factors never read the destination alpha and the alpha
  channel is never written.\<close>
theorem opaque_target_ignores_alpha:
  assumes "\<not> render_target_has_alpha (pixelFmt s)" "snapshot_gx_blend g x s d = Inr b"
  shows "bp_get (gb_control b) 5 0 \<notin> {6, 7} \<and> bp_get (gb_control b) 5 8 \<notin> {6, 7} \<and> gb_targetMask b AND 8 = 0"
  by (rule blend_opaque_target[OF assms])

theorem opaque_target_ignores_alpha_witness:
  "\<exists>b. snapshot_gx_blend sdk_enums sdk_render one_stage 0x80000000 = Inr b \<and> gb_targetMask b AND 8 = 0"
proof -
  have "\<not> render_target_has_alpha (pixelFmt one_stage)" by code_simp
  thus ?thesis using blend_snapshot_demo opaque_target_ignores_alpha[of one_stage sdk_enums sdk_render "0x80000000"] by blast
qed

text \<open>Three-bit factors, an eight-bit (or absent) destination alpha and a supported logic operation
  are all the snapshot needs: then it never fails.\<close>
theorem blend_total_on_register_ranges:
  assumes "blendFacSrc s \<le> 7" "blendFacDst s \<le> 7" "dstAlpha s = -1 \<or> dstAlpha s \<le> 255"
    "blendMode s \<noteq> BM_LOGIC \<or> blendOp s \<in> {GX_LO_CLEAR g, GX_LO_COPY x, GX_LO_NOOP x, GX_LO_INVAND x, GX_LO_OR x}"
  shows "\<exists>b. snapshot_gx_blend g x s d = Inr b"
  by (rule blend_succeeds[OF assms])

theorem blend_total_on_register_ranges_witness:
  "\<exists>b. snapshot_gx_blend sdk_enums sdk_render (one_stage\<lparr>blendFacSrc := 6, blendFacDst := 7, blendMode := BM_BLEND\<rparr>) 0 = Inr b"
proof (rule blend_total_on_register_ranges)
  show "dstAlpha (one_stage\<lparr>blendFacSrc := 6, blendFacDst := 7, blendMode := BM_BLEND\<rparr>) = -1 \<or>
      dstAlpha (one_stage\<lparr>blendFacSrc := 6, blendFacDst := 7, blendMode := BM_BLEND\<rparr>) \<le> 255" by code_simp
qed simp_all

end
