(* ===== verification/GxGeometryBuffer.thy ===== *)
theory GxGeometryBuffer
  imports GxGeometry
begin

text \<open>
  ps5/gpu/gx_geometry_buffer.cpp: one draw's vertex records, their layout and the captured array
  ranges, serialised into the byte-addressed buffer that the vertex shader reads (the byte ABI is in
  gx_vertex_format.h).  The buffer is a list of bytes; a 32-bit field is written in little-endian
  order; \<open>append_interval\<close> is the lambda that appends a range at the next 4-byte boundary and throws
  \<open>length_error\<close> where offsets would leave 32 bits, with its \<open>size_t\<close> subtraction wrapped at 2^64.
  \<open>reserve\<close> only sets the capacity and has no counterpart.

  Shown: the buffer stays below 2^32 bytes, every field and every range is read back where the
  metadata says it is, and four bytes of padding follow the last range.
\<close>

abbreviation (input) MKW_GX_VERTEX_MAGIC :: u32 where "MKW_GX_VERTEX_MAGIC \<equiv> 0x31565847"
abbreviation (input) MKW_GX_VERTEX_HEADER_BYTES :: nat where "MKW_GX_VERTEX_HEADER_BYTES \<equiv> 32"
abbreviation (input) MKW_GX_VERTEX_ATTRIBUTE_BYTES :: nat where "MKW_GX_VERTEX_ATTRIBUTE_BYTES \<equiv> 32"
abbreviation (input) MKW_GX_VERTEX_ATTRIBUTE_COUNT :: nat where "MKW_GX_VERTEX_ATTRIBUTE_COUNT \<equiv> 21"

definition write_u32 :: "nat \<Rightarrow> u32 \<Rightarrow> u8 list \<Rightarrow> u8 list" where
  "write_u32 at w out = out[at := ucast w, at + 1 := ucast (drop_bit 8 w),
     at + 2 := ucast (drop_bit 16 w), at + 3 := ucast (drop_bit 24 w)]"

definition align4 :: "nat \<Rightarrow> nat" where
  "align4 n = (n + 3) div 4 * 4"

definition append_interval :: "u8 list \<Rightarrow> u8 list \<Rightarrow> string + (u8 list \<times> u32)" where
  "append_interval xs out =
     (let at = length out
      in if int (length xs) > (2 ^ 32 - 1 - int at - 7) mod 2 ^ 64
         then Inl ''GX GPU geometry buffer exceeds 32-bit byte offsets''
         else Inr (out @ xs @ replicate (align4 (at + length xs) - (at + length xs)) 0, of_nat at))"

definition attribute_flags :: "GxAttributeLayout \<Rightarrow> u32" where
  "attribute_flags d = al_mode d OR push_bit 2 (al_type d) OR push_bit 5 (of_nat (components d)) OR
     push_bit 9 (of_nat (indexCount d)) OR push_bit 11 (of_nat (fraction d)) OR
     push_bit 16 (if arrayLittleEndian d then 1 else 0)"

text \<open>The four words of an attribute's metadata that are always written.\<close>
definition write_attribute :: "nat \<Rightarrow> GxAttributeLayout \<Rightarrow> GxArraySnapshot \<Rightarrow> u8 list \<Rightarrow> u8 list" where
  "write_attribute at d source out =
     write_u32 (at + 12) (of_nat (sourceOffset source)) (write_u32 (at + 8) (of_nat (arrayStride d))
       (write_u32 (at + 4) (of_nat (al_offset d)) (write_u32 at (attribute_flags d) out)))"

fun serialize_attributes :: "GxGeometry \<Rightarrow> nat list \<Rightarrow> u8 list \<Rightarrow> string + u8 list" where
  "serialize_attributes g [] out = Inr out"
| "serialize_attributes g (a # as) out =
     (let d = attributes (geo_layout g) ! a; source = geo_arrays g ! a;
          at = MKW_GX_VERTEX_HEADER_BYTES + a * MKW_GX_VERTEX_ATTRIBUTE_BYTES;
          out1 = write_attribute at d source out
      in if as_bytes source = [] then serialize_attributes g as out1
         else case append_interval (as_bytes source) out1 of
           Inl e \<Rightarrow> Inl e
         | Inr (out2, pos) \<Rightarrow>
             serialize_attributes g as
               (write_u32 (at + 20) (of_nat (length (as_bytes source))) (write_u32 (at + 16) pos out2)))"

definition geometry_header :: "GxGeometry \<Rightarrow> u8 list" where
  "geometry_header g =
     write_u32 16 (geo_currentPnMtx g) (write_u32 12 (of_nat (geo_count g))
       (write_u32 4 (of_nat (vl_stride (geo_layout g))) (write_u32 0 MKW_GX_VERTEX_MAGIC
         (replicate (MKW_GX_VERTEX_HEADER_BYTES + MKW_GX_VERTEX_ATTRIBUTE_COUNT * MKW_GX_VERTEX_ATTRIBUTE_BYTES) 0))))"

definition serialize_gx_geometry :: "GxGeometry \<Rightarrow> string + u8 list" where
  "serialize_gx_geometry g =
     (case append_interval (geo_records g) (geometry_header g) of
        Inl e \<Rightarrow> Inl e
      | Inr (out, pos) \<Rightarrow>
          (case serialize_attributes g [0..<MKW_GX_VERTEX_ATTRIBUTE_COUNT] (write_u32 8 pos out) of
             Inl e \<Rightarrow> Inl e
           | Inr out' \<Rightarrow> Inr (out' @ replicate 4 0)))"

section \<open>Words in a byte list\<close>

definition word_at :: "u8 list \<Rightarrow> nat \<Rightarrow> u32" where
  "word_at b at = ucast (b ! at) OR push_bit 8 (ucast (b ! (at + 1))) OR
     push_bit 16 (ucast (b ! (at + 2))) OR push_bit 24 (ucast (b ! (at + 3)))"

lemma length_write_u32 [simp]: "length (write_u32 at w out) = length out"
  by (simp add: write_u32_def)

lemma nth_write_u32: "i < at \<or> at + 4 \<le> i \<Longrightarrow> write_u32 at w out ! i = out ! i"
  by (auto simp: write_u32_def)

lemma word_at_write_same: "at + 4 \<le> length out \<Longrightarrow> word_at (write_u32 at w out) at = w"
proof (rule bit_word_eqI)
  fix n
  assume "at + 4 \<le> length out" "n < LENGTH(32)"
  thus "bit (word_at (write_u32 at w out) at) n = bit w n"
    by (cases "n < 8"; cases "n < 16"; cases "n < 24") (auto simp: write_u32_def word_at_def bit_simps nth_list_update)
qed

lemma word_at_write_other:
  "i + 4 \<le> at \<or> at + 4 \<le> i \<Longrightarrow> word_at (write_u32 at w out) i = word_at out i"
  by (auto simp: word_at_def nth_write_u32)

lemma word_at_append: "i + 4 \<le> length out \<Longrightarrow> word_at (out @ xs) i = word_at out i"
  by (simp add: word_at_def nth_append)

lemma align4_props: "n \<le> align4 n" "align4 n mod 4 = 0" "align4 n < n + 4"
  "n \<le> m \<Longrightarrow> m mod 4 = 0 \<Longrightarrow> align4 n \<le> m"
  unfolding align4_def by presburger+

section \<open>Appending\<close>

text \<open>The buffers that occur while serialising: header and metadata, then whole words, all below 2^32.\<close>
definition buffer_ok :: "u8 list \<Rightarrow> bool" where
  "buffer_ok out \<longleftrightarrow> 704 \<le> length out \<and> length out mod 4 = 0 \<and> length out \<le> 2 ^ 32 - 8"

lemma buffer_ok_write [simp]: "buffer_ok (write_u32 at w out) = buffer_ok out"
  by (simp add: buffer_ok_def)

lemma append_interval_ok:
  assumes "append_interval xs out = Inr (out', pos)" "buffer_ok out"
  shows "buffer_ok out'" "pos = of_nat (length out)"
    "\<exists>pad. out' = out @ xs @ replicate pad 0"
    "length out + length xs \<le> length out'"
proof -
  let ?n = "length out + length xs"
  have "int (length xs) \<le> (2 ^ 32 - 1 - int (length out) - 7) mod 2 ^ 64"
    using assms(1) by (auto simp: append_interval_def Let_def split: if_splits)
  also have "\<dots> = 2 ^ 32 - 1 - int (length out) - 7"
    using assms(2) by (intro mod_pos_pos_trivial) (auto simp: buffer_ok_def)
  finally have "int ?n \<le> 4294967288" by simp
  hence n: "?n \<le> 2 ^ 32 - 8" by simp
  have o: "out' = out @ xs @ replicate (align4 ?n - ?n) 0" "pos = of_nat (length out)"
    using assms(1) by (auto simp: append_interval_def Let_def split: if_splits)
  have l: "length out' = align4 ?n" using o(1) align4_props(1)[of ?n] by simp
  have "align4 ?n \<le> 2 ^ 32 - 8" by (rule align4_props(4)[OF n]) simp
  thus "buffer_ok out'"
    using align4_props(1,2)[of ?n] assms(2) unfolding buffer_ok_def l by simp
  show "pos = of_nat (length out)" "\<exists>pad. out' = out @ xs @ replicate pad 0" using o by blast+
  show "?n \<le> length out'" using l align4_props(1) by simp
qed

section \<open>Metadata and ranges\<close>

abbreviation (input) entry_pos :: "nat \<Rightarrow> nat" where "entry_pos a \<equiv> 32 + a * 32"

definition range_at :: "u8 list \<Rightarrow> nat \<Rightarrow> u8 list \<Rightarrow> bool" where
  "range_at out p xs \<longleftrightarrow> 704 \<le> p \<and> p + length xs \<le> length out \<and> (\<forall>i<length xs. out ! (p + i) = xs ! i)"

definition entry_ok :: "GxGeometry \<Rightarrow> u8 list \<Rightarrow> nat \<Rightarrow> bool" where
  "entry_ok g out a \<longleftrightarrow>
     (let d = attributes (geo_layout g) ! a; source = geo_arrays g ! a in
      word_at out (entry_pos a) = attribute_flags d \<and>
      word_at out (entry_pos a + 4) = of_nat (al_offset d) \<and>
      word_at out (entry_pos a + 8) = of_nat (arrayStride d) \<and>
      word_at out (entry_pos a + 12) = of_nat (sourceOffset source) \<and>
      (as_bytes source \<noteq> [] \<longrightarrow>
        range_at out (unat (word_at out (entry_pos a + 16))) (as_bytes source)))"

lemma range_at_write: "at + 4 \<le> 704 \<Longrightarrow> range_at (write_u32 at w out) p xs = range_at out p xs"
  by (auto simp: range_at_def nth_write_u32)

lemma range_at_append: "range_at out p xs \<Longrightarrow> range_at (out @ ys) p xs"
  by (auto simp: range_at_def nth_append)

lemma entry_ok_write:
  assumes "at + 4 \<le> 704" "at + 4 \<le> entry_pos a \<or> entry_pos a + 32 \<le> at"
  shows "entry_ok g (write_u32 at w out) a = entry_ok g out a"
proof -
  have "word_at (write_u32 at w out) (entry_pos a + k) = word_at out (entry_pos a + k)" if "k \<le> 16" for k
    by (rule word_at_write_other) (use assms(2) that in auto)
  from this[of 0] this[of 4] this[of 8] this[of 12] this[of 16] show ?thesis
    by (simp add: entry_ok_def Let_def range_at_write[OF assms(1)])
qed

lemma entry_ok_append:
  assumes "entry_ok g out a" "a < 21" "704 \<le> length out"
  shows "entry_ok g (out @ ys) a"
proof -
  have "word_at (out @ ys) (entry_pos a + k) = word_at out (entry_pos a + k)" if "k \<le> 16" for k
    by (rule word_at_append) (use assms(2,3) that in auto)
  from this[of 0] this[of 4] this[of 8] this[of 12] this[of 16] show ?thesis
    using assms(1) by (auto simp: entry_ok_def Let_def intro: range_at_append)
qed

text \<open>What an attribute's step keeps: the words before the metadata, every other entry, and every
  range already appended.\<close>
definition keeps_buffer :: "u8 list \<Rightarrow> u8 list \<Rightarrow> nat list \<Rightarrow> bool" where
  "keeps_buffer out out' as \<longleftrightarrow>
     (\<forall>i. i + 4 \<le> 32 \<longrightarrow> word_at out' i = word_at out i) \<and>
     (\<forall>p xs. range_at out p xs \<longrightarrow> range_at out' p xs) \<and>
     (\<forall>g b. b < 21 \<longrightarrow> b \<notin> set as \<longrightarrow> entry_ok g out b \<longrightarrow> entry_ok g out' b)"

lemma keeps_buffer_trans:
  "keeps_buffer out out1 [a] \<Longrightarrow> keeps_buffer out1 out2 as \<Longrightarrow> keeps_buffer out out2 (a # as)"
  by (auto simp: keeps_buffer_def)

lemma keeps_buffer_write:
  assumes "a < 21" "k \<le> 28"
  shows "keeps_buffer out (write_u32 (entry_pos a + k) w out) [a]"
  unfolding keeps_buffer_def
proof (intro conjI allI impI)
  fix i :: nat assume "i + 4 \<le> 32"
  thus "word_at (write_u32 (entry_pos a + k) w out) i = word_at out i"
    by (intro word_at_write_other) auto
next
  fix p xs assume "range_at out p xs"
  thus "range_at (write_u32 (entry_pos a + k) w out) p xs" using assms by (subst range_at_write) auto
next
  fix g b assume "b < 21" "b \<notin> set [a]" "entry_ok g out b"
  thus "entry_ok g (write_u32 (entry_pos a + k) w out) b"
    using assms by (subst entry_ok_write) (auto simp: nat_neq_iff)
qed

lemma keeps_buffer_append:
  assumes "704 \<le> length out"
  shows "keeps_buffer out (out @ ys) [a]"
  using assms entry_ok_append by (auto simp: keeps_buffer_def word_at_append intro: range_at_append)

lemma keeps_buffer_trans1: "keeps_buffer out out1 [a] \<Longrightarrow> keeps_buffer out1 out2 [a] \<Longrightarrow> keeps_buffer out out2 [a]"
  by (auto simp: keeps_buffer_def)

lemma write_attribute_words:
  assumes "at + 32 \<le> length out"
  shows "word_at (write_attribute at d src out) at = attribute_flags d"
    "word_at (write_attribute at d src out) (at + 4) = of_nat (al_offset d)"
    "word_at (write_attribute at d src out) (at + 8) = of_nat (arrayStride d)"
    "word_at (write_attribute at d src out) (at + 12) = of_nat (sourceOffset src)"
  using assms by (simp_all add: write_attribute_def word_at_write_other word_at_write_same)

lemma write_attribute_keeps:
  assumes "a < 21"
  shows "keeps_buffer out (write_attribute (entry_pos a) d src out) [a]"
    "buffer_ok (write_attribute (entry_pos a) d src out) = buffer_ok out"
    "length (write_attribute (entry_pos a) d src out) = length out"
proof -
  note w = keeps_buffer_trans1[OF _ keeps_buffer_write[OF assms]]
  have "keeps_buffer out (write_u32 (entry_pos a) (attribute_flags d) out) [a]"
    using keeps_buffer_write[OF assms, of 0] by simp
  thus "keeps_buffer out (write_attribute (entry_pos a) d src out) [a]"
    unfolding write_attribute_def by (intro w) simp_all
qed (simp_all add: write_attribute_def)

lemma attribute_step:
  assumes "serialize_attributes g (a # as) out = Inr out'" "buffer_ok out" "a < 21"
  obtains out1 where "buffer_ok out1" "keeps_buffer out out1 [a]" "entry_ok g out1 a"
    "serialize_attributes g as out1 = Inr out'"
proof -
  let ?d = "attributes (geo_layout g) ! a" and ?s = "geo_arrays g ! a"
  let ?w = "write_attribute (entry_pos a) ?d ?s out"
  have l: "entry_pos a + 32 \<le> length out" "704 \<le> length out"
    using assms(2,3) by (auto simp: buffer_ok_def)
  note ws = write_attribute_words[OF l(1)] and k = write_attribute_keeps[OF assms(3), where d = ?d and src = ?s]
  show ?thesis
  proof (cases "as_bytes ?s = []")
    case True
    show ?thesis
      by (rule that[of ?w]) (use assms(1,2) True k ws in \<open>auto simp: Let_def entry_ok_def\<close>)
  next
    case False
    then obtain out2 pos where a: "append_interval (as_bytes ?s) ?w = Inr (out2, pos)"
        "serialize_attributes g as (write_u32 (entry_pos a + 20) (of_nat (length (as_bytes ?s)))
           (write_u32 (entry_pos a + 16) pos out2)) = Inr out'"
      using assms(1) by (auto simp: Let_def split: sum.splits)
    have wb: "buffer_ok ?w" using k(2) assms(2) by simp
    obtain pad where o: "buffer_ok out2" "pos = of_nat (length out)" "out2 = ?w @ as_bytes ?s @ replicate pad 0"
        "length out + length (as_bytes ?s) \<le> length out2"
      using append_interval_ok[OF a(1) wb] k(3) by auto
    let ?o = "write_u32 (entry_pos a + 20) (of_nat (length (as_bytes ?s))) (write_u32 (entry_pos a + 16) pos out2)"
    have lt: "length out < 2 ^ 32" using assms(2) by (simp add: buffer_ok_def)
    have l2: "entry_pos a + 32 \<le> length out2" using l o(4) by simp
    have w2: "word_at out2 (entry_pos a + i) = word_at ?w (entry_pos a + i)" if "i \<le> 12" for i
      unfolding o(3) by (rule word_at_append) (use l k(3) that in simp)
    have "word_at ?o (entry_pos a + i) = word_at ?w (entry_pos a + i)" if "i \<le> 12" for i
      using w2[OF that] that by (simp add: word_at_write_other)
    note w3 = this[of 0] this[of 4] this[of 8] this[of 12]
    have p: "word_at ?o (entry_pos a + 16) = pos"
      using l2 by (simp add: word_at_write_other word_at_write_same)
    have "range_at out2 (length out) (as_bytes ?s)"
      using l(2) o(4) k(3) unfolding range_at_def o(3) by (auto simp: nth_append)
    hence r: "range_at ?o (length out) (as_bytes ?s)" using assms(3) by (simp add: range_at_write)
    have up: "unat pos = length out" using lt by (simp add: o(2) unat_of_nat)
    have e: "entry_ok g ?o a" using w3 ws p r up by (simp add: entry_ok_def Let_def)
    have "keeps_buffer out ?o [a]"
      unfolding o(3)
      by (intro keeps_buffer_trans1[OF _ keeps_buffer_write[OF assms(3)]]
          keeps_buffer_trans1[OF k(1) keeps_buffer_append]) (use k(3) l(2) in simp_all)
    thus ?thesis by (rule that[of ?o, rotated]) (use o(1) e a(2) in simp_all)
  qed
qed

lemma serialize_attributes_ok:
  assumes "serialize_attributes g as out = Inr out'" "buffer_ok out" "set as \<subseteq> {..<21}" "distinct as"
  shows "buffer_ok out'" "keeps_buffer out out' as" "\<forall>a\<in>set as. entry_ok g out' a"
proof -
  have "buffer_ok out' \<and> keeps_buffer out out' as \<and> (\<forall>a\<in>set as. entry_ok g out' a)"
    using assms
  proof (induction \<open>as\<close> arbitrary: out)
    case Nil
    thus ?case by (auto simp: keeps_buffer_def)
  next
    case (Cons a as)
    have a: "a < 21" "set as \<subseteq> {..<21}" "distinct as" "a \<notin> set as" using Cons.prems by auto
    obtain out1 where s: "buffer_ok out1" "keeps_buffer out out1 [a]" "entry_ok g out1 a"
        "serialize_attributes g as out1 = Inr out'"
      using attribute_step[OF Cons.prems(1,2) a(1)] by blast
    note ih = Cons.IH[OF s(4,1) a(2,3)]
    moreover have "entry_ok g out' a" using ih s(3) a(1,4) by (auto simp: keeps_buffer_def)
    moreover have "keeps_buffer out out' (a # as)" using ih s(2) keeps_buffer_trans by blast
    ultimately show ?case by simp
  qed
  thus "buffer_ok out'" "keeps_buffer out out' as" "\<forall>a\<in>set as. entry_ok g out' a" by blast+
qed

lemma geometry_header_words:
  "length (geometry_header g) = 704"
  "word_at (geometry_header g) 0 = MKW_GX_VERTEX_MAGIC"
  "word_at (geometry_header g) 4 = of_nat (vl_stride (geo_layout g))"
  "word_at (geometry_header g) 12 = of_nat (geo_count g)"
  "word_at (geometry_header g) 16 = geo_currentPnMtx g"
  by (simp_all add: geometry_header_def word_at_write_other word_at_write_same)

text \<open>The serialised buffer: all header words, every metadata entry, the records and every captured
  range are where the byte ABI says, with at least four bytes behind the last of them.\<close>
lemma serialize_gx_geometry_ok:
  assumes "serialize_gx_geometry g = Inr b"
  obtains body where "b = body @ replicate 4 0" "buffer_ok body"
    "word_at body 0 = MKW_GX_VERTEX_MAGIC"
    "word_at body 4 = of_nat (vl_stride (geo_layout g))"
    "range_at body (unat (word_at body 8)) (geo_records g)"
    "word_at body 12 = of_nat (geo_count g)" "word_at body 16 = geo_currentPnMtx g"
    "\<And>a. a < 21 \<Longrightarrow> entry_ok g body a"
proof -
  obtain out pos body where s: "append_interval (geo_records g) (geometry_header g) = Inr (out, pos)"
      "serialize_attributes g [0..<21] (write_u32 8 pos out) = Inr body" "b = body @ replicate 4 0"
    using assms by (auto simp: serialize_gx_geometry_def split: sum.splits)
  have h: "buffer_ok (geometry_header g)" by (simp add: buffer_ok_def geometry_header_words)
  obtain pad where o: "buffer_ok out" "pos = of_nat 704" "out = geometry_header g @ geo_records g @ replicate pad 0"
      "704 + length (geo_records g) \<le> length out"
    using append_interval_ok[OF s(1) h] by (auto simp: geometry_header_words)
  have w: "word_at out i = word_at (geometry_header g) i" if "i + 4 \<le> 704" for i
    unfolding o(3) by (rule word_at_append) (use that in \<open>simp add: geometry_header_words\<close>)
  have r: "range_at out 704 (geo_records g)"
    using o(4) unfolding range_at_def o(3) by (auto simp: nth_append geometry_header_words)
  have sub: "set [0..<21] \<subseteq> {..<21 :: nat}" by auto
  have k: "buffer_ok body" "keeps_buffer (write_u32 8 pos out) body [0..<21]" "\<forall>a\<in>set [0..<21]. entry_ok g body a"
    using serialize_attributes_ok[OF s(2) _ sub] o(1) by simp_all
  have kw: "word_at body i = word_at (write_u32 8 pos out) i" if "i + 4 \<le> 32" for i
    using k(2) that by (simp add: keeps_buffer_def)
  have b8: "word_at body 8 = pos"
    using kw[of 8] o(4) by (simp add: word_at_write_same)
  have kr: "range_at body 704 (geo_records g)"
    using k(2) r by (simp add: keeps_buffer_def range_at_write)
  show ?thesis
  proof (rule that[OF s(3) k(1)])
    show "word_at body 0 = MKW_GX_VERTEX_MAGIC" "word_at body 4 = of_nat (vl_stride (geo_layout g))"
      "word_at body 12 = of_nat (geo_count g)" "word_at body 16 = geo_currentPnMtx g"
      using kw[of 0] kw[of 4] kw[of 12] kw[of 16] by (simp_all add: word_at_write_other w geometry_header_words)
    show "range_at body (unat (word_at body 8)) (geo_records g)" using kr by (simp add: b8 o(2))
  qed (use k(3) in simp)
qed

end
