(* ===== verification/GxVertexFetch.thy ===== *)
theory GxVertexFetch
  imports GxGeometryBuffer Ieee
begin

text \<open>
  ps5/gpu/shaders/gx_vertex_raw.c: the vertex shader's attribute fetch out of the serialised geometry
  buffer.  Addresses are 32-bit and wrap.  The two buffer-load intrinsics are the hardware's: a load
  that lies inside the buffer gives its words, and one that does not is \<^const>\<open>None\<close> here (the hardware
  returns zero), so that a fetch that returns a value has made no load outside the buffer.  A
  vector of four floats is a list of four values.
\<close>

type_synonym u4 = "u32 \<times> u32 \<times> u32 \<times> u32"

definition load_word :: "u8 list \<Rightarrow> u32 \<Rightarrow> u32 option" where
  "load_word b at = (if unat at + 4 \<le> length b then Some (word_at b (unat at)) else None)"

definition load_meta :: "u8 list \<Rightarrow> nat \<Rightarrow> u4 option" where
  "load_meta b at = (if at + 16 \<le> length b
     then Some (word_at b at, word_at b (at + 4), word_at b (at + 8), word_at b (at + 12)) else None)"

definition shader_bswap32 :: "u32 \<Rightarrow> u32" where
  "shader_bswap32 v = push_bit 24 (v AND 255) OR push_bit 8 (v AND 0xff00) OR
     (drop_bit 8 v AND 0xff00) OR drop_bit 24 v"

text \<open>The value's bytes from the loaded words, brought into the order of the platform.\<close>
definition order_bytes :: "nat \<Rightarrow> bool \<Rightarrow> u32 \<Rightarrow> u32" where
  "order_bytes width little value =
     (if width = 1 then value AND 255
      else if width = 2 then
        (let v = value AND 65535 in if little then v else push_bit 8 (v AND 255) OR drop_bit 8 v)
      else if width = 3 then
        (let v = value AND 0xffffff
         in if little then v else push_bit 16 (v AND 255) OR (v AND 0xff00) OR drop_bit 16 v)
      else if little then value else shader_bswap32 value)"

definition read_uint :: "u8 list \<Rightarrow> u32 \<Rightarrow> nat \<Rightarrow> bool \<Rightarrow> u32 option" where
  "read_uint b at width little =
     (let base = at AND NOT 3; shift = unat (at AND 3) * 8
      in Option.bind (load_word b base) (\<lambda>word.
         map_option (order_bytes width little)
           (if shift + width * 8 > 32
            then map_option (\<lambda>next. drop_bit shift word OR push_bit (32 - shift) next) (load_word b (base + 4))
            else Some (drop_bit shift word))))"

definition type_width :: "u32 \<Rightarrow> nat" where
  "type_width t = (if t < 2 then 1 else if t < 4 then 2 else 4)"

definition fetch_number :: "u8 list \<Rightarrow> u32 \<Rightarrow> u32 \<Rightarrow> u32 \<Rightarrow> bool \<Rightarrow> f32 option" where
  "fetch_number b at type frac little =
     map_option (\<lambda>value.
       if type = 4 then value
       else (let n = (if type = 1 then (value XOR 128) - 128
               else if type = 3 then (value XOR 32768) - 32768 else value);
                 scale = push_bit 23 (127 - frac)
             in f32_mul (f32_of_s32 n) scale)) (read_uint b at (type_width type) little)"

abbreviation (input) byte_scale :: f32 where "byte_scale \<equiv> 0x3B808081"

definition fetch_unorm :: "u32 \<Rightarrow> nat \<Rightarrow> u32 \<Rightarrow> int \<Rightarrow> f32" where
  "fetch_unorm v shift m scale =
     f32_mul (f32_of_u32 (drop_bit shift v AND m)) (f32_div (f32_of_int 1) (f32_of_int scale))"

definition fetch_color :: "u8 list \<Rightarrow> u32 \<Rightarrow> u32 \<Rightarrow> bool \<Rightarrow> f32 list option" where
  "fetch_color b at type little =
     (if type = 1 \<or> type = 2 \<or> type = 5 then
        (let ch = (\<lambda>i. map_option (\<lambda>v. f32_mul (f32_of_u32 v) byte_scale) (read_uint b (at + i) 1 True))
         in Option.bind (ch 0) (\<lambda>c0. Option.bind (ch 1) (\<lambda>c1. Option.bind (ch 2) (\<lambda>c2.
            map_option (\<lambda>c3. [c0, c1, c2, c3]) (if type = 5 then ch 3 else Some (f32_of_int 1))))))
      else map_option (\<lambda>v.
        if type = 0 then [fetch_unorm v 11 31 31, fetch_unorm v 5 63 63, fetch_unorm v 0 31 31, f32_of_int 1]
        else if type = 3 then [fetch_unorm v 12 15 15, fetch_unorm v 8 15 15, fetch_unorm v 4 15 15, fetch_unorm v 0 15 15]
        else [fetch_unorm v 18 63 63, fetch_unorm v 12 63 63, fetch_unorm v 6 63 63, fetch_unorm v 0 63 63])
        (read_uint b at (if type = 4 then 3 else 2) little))"

text \<open>The address of an attribute's element and its byte order, direct or through the vertex's index.\<close>
definition fetch_address ::
  "u8 list \<Rightarrow> u4 \<Rightarrow> u32 \<Rightarrow> nat \<Rightarrow> u32 \<Rightarrow> u4 \<Rightarrow> (u32 \<times> bool) option" where
  "fetch_address b header vertex attr grp a =
     (case (header, a) of ((_, hy, hz, _), (ax, ay, az, aw)) \<Rightarrow>
        (let mode = ax AND 3; index_count = drop_bit 9 ax AND 3;
             group_offset = grp * 3 * of_nat (type_width (drop_bit 2 ax AND 7));
             at = hz + vertex * hy + ay
         in if mode = 1 then Some (at + group_offset, False)
            else (let index_width = (if mode = 3 then 2 else 1);
                      at' = (if attr = 10 \<and> index_count = 3 then at + grp * of_nat index_width else at);
                      offset = (if attr = 10 \<and> index_count = 3 then 0 else group_offset)
                  in Option.bind (read_uint b at' index_width False) (\<lambda>index.
                     map_option (\<lambda>(bx, _, _, _). (bx + index * az - aw + offset, drop_bit 16 ax AND 1 \<noteq> 0))
                       (load_meta b (32 + attr * 32 + 16))))))"

definition attribute_group :: "u8 list \<Rightarrow> u4 \<Rightarrow> u32 \<Rightarrow> nat \<Rightarrow> u32 \<Rightarrow> f32 list option" where
  "attribute_group b header vertex attr grp =
     Option.bind (load_meta b (32 + attr * 32)) (\<lambda>a.
       (let ax = fst a; type = drop_bit 2 ax AND 7; count = drop_bit 5 ax AND 15;
            frac = drop_bit 11 ax AND 31; color = attr = 11 \<or> attr = 12
        in if ax AND 3 = 0 then
             Some (if color then replicate 4 (f32_of_int 1)
                   else if attr = 10 then [f32_of_int 1, 0, 0, 0] else replicate 4 0)
           else Option.bind (fetch_address b header vertex attr (if attr \<noteq> 10 \<or> count \<noteq> 9 then 0 else grp) a)
             (\<lambda>(at, little).
               if color then fetch_color b at type little
               else (let w = of_nat (type_width type); num = (\<lambda>i. fetch_number b (at + i * w) type frac little)
                     in Option.bind (num 0) (\<lambda>c0.
                        Option.bind (if count > 1 then num 1 else Some 0) (\<lambda>c1.
                        Option.bind (if count > 2 then num 2 else Some 0) (\<lambda>c2.
                        Some [c0, c1, c2, 0])))))))"

definition vertex_attribute :: "u8 list \<Rightarrow> u32 \<Rightarrow> nat \<Rightarrow> u32 \<Rightarrow> f32 list option" where
  "vertex_attribute b vertex attr grp =
     Option.bind (load_meta b 0) (\<lambda>header. attribute_group b header vertex attr grp)"

text \<open>The position matrix of a vertex, as \<open>gx_vertex\<close> selects it.\<close>
definition vertex_matrix :: "u8 list \<Rightarrow> u32 \<Rightarrow> u32 option" where
  "vertex_matrix b vertex =
     Option.bind (load_meta b 0) (\<lambda>(_, hy, hz, _). Option.bind (load_meta b 32) (\<lambda>(mx, my, _, _).
       Option.bind (load_meta b 16) (\<lambda>(current, _, _, _).
       map_option (\<lambda>m. if m < 20 then m else 19)
         (if mx AND 3 \<noteq> 0 then map_option (\<lambda>v. v div 3) (read_uint b (hz + vertex * hy + my) 1 False)
          else Some current))))"

end
