(* ===== verification/GxVertexDecode.thy ===== *)
theory GxVertexDecode
  imports GxGeometry Ieee ErrorLists
begin

text \<open>
  ps5/gpu/gx_geometry.cpp, the diagnostic reader: \<open>decode_gx_vertex\<close> decodes one vertex of a snapshot
  on the CPU.  Its doc comment calls it the reference for the vertex shader's attribute fetch.
  Addresses are \<open>size_t\<close> values, so 64-bit words; a read outside its range throws.
\<close>

record GxDecodedVertex =
  dv_position :: "f32 list"
  dv_normal :: "f32 list"
  dv_binormal :: "f32 list"
  dv_tangent :: "f32 list"
  dv_colors :: "f32 list list"
  dv_uv :: "f32 list list"
  dv_positionMatrix :: u32
  dv_textureMatrices :: "u32 list"

abbreviation (input) zero_f32 :: f32 where "zero_f32 \<equiv> 0"
abbreviation (input) one_f32 :: f32 where "one_f32 \<equiv> 0x3F800000"

definition GxDecodedVertex_init :: GxDecodedVertex where
  "GxDecodedVertex_init = \<lparr>dv_position = [zero_f32, zero_f32, zero_f32], dv_normal = [one_f32, zero_f32, zero_f32],
     dv_binormal = [one_f32, zero_f32, zero_f32], dv_tangent = [one_f32, zero_f32, zero_f32],
     dv_colors = replicate 2 (replicate 4 one_f32), dv_uv = replicate 8 (replicate 2 zero_f32),
     dv_positionMatrix = 0, dv_textureMatrices = replicate 8 (- 1)\<rparr>"

definition load_attr :: "u8 list \<Rightarrow> u64 \<Rightarrow> nat \<Rightarrow> bool \<Rightarrow> string + u32" where
  "load_attr bs at width little =
     (if unat at \<le> length bs \<and> width \<le> length bs - unat at
      then Inr (fold (\<lambda>i v. v OR push_bit (8 * (if little then i else width - i - 1))
        (ucast (bs ! (unat at + i)))) [0..<width] 0)
      else Inl ''GX attribute read outside snapshot'')"

definition component :: "gx_enums \<Rightarrow> gx_render_enums \<Rightarrow> u8 list \<Rightarrow> u64 \<Rightarrow> GxAttributeLayout \<Rightarrow> bool \<Rightarrow> string + f32" where
  "component g x bs at d little =
     (case load_attr bs at (componentBytes d) little of Inl e \<Rightarrow> Inl e
      | Inr v \<Rightarrow>
          if al_type d = GX_F32 x then Inr v
          else (let number = (if al_type d = GX_S8 g then (v XOR 128) - 128
                     else if al_type d = GX_S16 g then (v XOR 32768) - 32768 else v)
                in Inr (f32_div (f32_of_s32 number) (f32_of_u32 (push_bit (fraction d) 1)))))"

definition unorm :: "u32 \<Rightarrow> nat \<Rightarrow> u32 \<Rightarrow> int \<Rightarrow> f32" where
  "unorm v shift m scale = f32_div (f32_of_u32 (drop_bit shift v AND m)) (f32_of_int scale)"

definition color_value :: "gx_render_enums \<Rightarrow> u8 list \<Rightarrow> u64 \<Rightarrow> GxAttributeLayout \<Rightarrow> bool \<Rightarrow> string + f32 list" where
  "color_value x bs at d little =
     (if al_type d = GX_RGB8 x \<or> al_type d = GX_RGBX8 x \<or> al_type d = GX_RGBA8 x then
        (case map_err (\<lambda>i. load_attr bs (at + of_nat i) 1 True)
            [0..<(if al_type d = GX_RGBA8 x then 4 else 3)] of Inl e \<Rightarrow> Inl e
         | Inr vs \<Rightarrow> Inr (map (\<lambda>v. f32_div (f32_of_u32 v) (f32_of_int 255)) vs @
             (if al_type d = GX_RGBA8 x then [] else [one_f32])))
      else case load_attr bs at (componentBytes d) little of Inl e \<Rightarrow> Inl e
        | Inr v \<Rightarrow>
            if al_type d = GX_RGB565 x then Inr [unorm v 11 31 31, unorm v 5 63 63, unorm v 0 31 31, one_f32]
            else if al_type d = GX_RGBA4 x then Inr [unorm v 12 15 15, unorm v 8 15 15, unorm v 4 15 15, unorm v 0 15 15]
            else Inr [unorm v 18 63 63, unorm v 12 63 63, unorm v 6 63 63, unorm v 0 63 63])"

text \<open>Where the element of a group lies: the bytes, the address in them and their byte order.\<close>
definition group_source ::
  "GxGeometry \<Rightarrow> nat \<Rightarrow> GxAttributeLayout \<Rightarrow> u64 \<Rightarrow> nat \<Rightarrow> string + (u8 list \<times> u64 \<times> bool)" where
  "group_source geo attr d at grp =
     (if is_indexed d then
        (case load_attr (geo_records geo) (at + of_nat (if indexCount d = 3 then grp * index_width d else 0))
            (index_width d) False of Inl e \<Rightarrow> Inl e
         | Inr index \<Rightarrow>
             (let arr = geo_arrays geo ! attr
              in Inr (as_bytes arr,
                   ucast index * of_nat (arrayStride d) - of_nat (sourceOffset arr) +
                     of_nat (if indexCount d = 3 then 0 else grp * 3 * componentBytes d),
                   arrayLittleEndian d)))
      else Inr (geo_records geo, at + of_nat (grp * 3 * componentBytes d), False))"

definition overwrite :: "'a list \<Rightarrow> 'a list \<Rightarrow> 'a list" where
  "overwrite old vals = vals @ drop (length vals) old"

definition store_group :: "nat \<Rightarrow> nat \<Rightarrow> f32 list \<Rightarrow> GxDecodedVertex \<Rightarrow> GxDecodedVertex" where
  "store_group attr grp vals out =
     (if attr = GX_VA_POS then out\<lparr>dv_position := overwrite (dv_position out) vals\<rparr>
      else if attr = GX_VA_NRM then
        (if grp = 0 then out\<lparr>dv_normal := overwrite (dv_normal out) vals\<rparr>
         else if grp = 1 then out\<lparr>dv_binormal := overwrite (dv_binormal out) vals\<rparr>
         else out\<lparr>dv_tangent := overwrite (dv_tangent out) vals\<rparr>)
      else out\<lparr>dv_uv := upd_at (\<lambda>u. overwrite u vals) (attr - GX_VA_TEX0) (dv_uv out)\<rparr>)"

definition decode_group ::
  "gx_enums \<Rightarrow> gx_render_enums \<Rightarrow> GxGeometry \<Rightarrow> nat \<Rightarrow> GxAttributeLayout \<Rightarrow> u64 \<Rightarrow> nat \<Rightarrow> GxDecodedVertex \<Rightarrow>
   string + GxDecodedVertex" where
  "decode_group g x geo attr d at grp out =
     (case group_source geo attr d at grp of Inl e \<Rightarrow> Inl e
      | Inr (bs, address, little) \<Rightarrow>
          if is_color attr then
            (case color_value x bs address d little of Inl e \<Rightarrow> Inl e
             | Inr c \<Rightarrow> Inr (out\<lparr>dv_colors := (dv_colors out)[attr - GX_VA_CLR0 := c]\<rparr>))
          else
            (case map_err (\<lambda>c. component g x bs (address + of_nat (c * componentBytes d)) d little)
                [0..<(if attr = GX_VA_NRM then 3 else components d)] of Inl e \<Rightarrow> Inl e
             | Inr vals \<Rightarrow> Inr (store_group attr grp vals out)))"

fun decode_groups ::
  "gx_enums \<Rightarrow> gx_render_enums \<Rightarrow> GxGeometry \<Rightarrow> nat \<Rightarrow> GxAttributeLayout \<Rightarrow> u64 \<Rightarrow> nat list \<Rightarrow> GxDecodedVertex \<Rightarrow>
   string + GxDecodedVertex" where
  "decode_groups g x geo attr d at [] out = Inr out"
| "decode_groups g x geo attr d at (grp # grps) out =
     (case decode_group g x geo attr d at grp out of Inl e \<Rightarrow> Inl e
      | Inr out' \<Rightarrow> decode_groups g x geo attr d at grps out')"

definition decode_attr ::
  "gx_enums \<Rightarrow> gx_render_enums \<Rightarrow> GxGeometry \<Rightarrow> nat \<Rightarrow> nat \<Rightarrow> GxDecodedVertex \<Rightarrow> string + GxDecodedVertex" where
  "decode_attr g x geo v attr out =
     (let d = attributes (geo_layout geo) ! attr;
          at = of_nat v * of_nat (vl_stride (geo_layout geo)) + of_nat (al_offset d)
      in if al_mode d = GX_NONE g then Inr out
         else if attr < GX_VA_POS then
           (case load_attr (geo_records geo) at 1 False of Inl e \<Rightarrow> Inl e
            | Inr val \<Rightarrow>
                if attr = GX_VA_PNMTXIDX then Inr (out\<lparr>dv_positionMatrix := val div 3\<rparr>)
                else Inr (out\<lparr>dv_textureMatrices := (dv_textureMatrices out)[attr - GX_VA_TEX0MTXIDX := val]\<rparr>))
         else
           (let groups = (if attr = GX_VA_NRM \<and> components d = 9 then 3 else 1)
            in case decode_groups g x geo attr d at [0..<groups] out of Inl e \<Rightarrow> Inl e
              | Inr out' \<Rightarrow>
                  if attr = GX_VA_NRM \<and> groups = (1 :: nat)
                  then Inr (out'\<lparr>dv_binormal := dv_normal out', dv_tangent := dv_normal out'\<rparr>)
                  else Inr out'))"

fun decode_attrs ::
  "gx_enums \<Rightarrow> gx_render_enums \<Rightarrow> GxGeometry \<Rightarrow> nat \<Rightarrow> nat list \<Rightarrow> GxDecodedVertex \<Rightarrow> string + GxDecodedVertex" where
  "decode_attrs g x geo v [] out = Inr out"
| "decode_attrs g x geo v (a # as) out =
     (case decode_attr g x geo v a out of Inl e \<Rightarrow> Inl e
      | Inr out' \<Rightarrow> decode_attrs g x geo v as out')"

definition decode_gx_vertex ::
  "gx_enums \<Rightarrow> gx_render_enums \<Rightarrow> GxGeometry \<Rightarrow> nat \<Rightarrow> string + GxDecodedVertex" where
  "decode_gx_vertex g x geo v =
     (if v < geo_count geo then
        decode_attrs g x geo v [0..<GxGeometryAttributeCount]
          (GxDecodedVertex_init\<lparr>dv_positionMatrix := geo_currentPnMtx geo\<rparr>)
      else Inl ''GX vertex index outside packet'')"

end
