(* ===== verification/VertexReads.thy ===== *)
theory VertexReads
  imports GxVertexFetch GxVertexDecode
begin

text \<open>
  The byte reads of the shader and of the CPU reader agree: an aligned load or two, shifted and
  swapped, give the value of the addressed bytes in either byte order, and stay inside a buffer
  whose length is a multiple of four.
\<close>

definition bytes_value :: "(nat \<Rightarrow> u8) \<Rightarrow> nat \<Rightarrow> bool \<Rightarrow> u32" where
  "bytes_value f width little =
     fold (\<lambda>i v. v OR push_bit (8 * (if little then i else width - i - 1)) (ucast (f i))) [0..<width] 0"

lemma bytes_value_cong: "(\<And>i. i < width \<Longrightarrow> f i = h i) \<Longrightarrow> bytes_value f width little = bytes_value h width little"
  unfolding bytes_value_def by (rule fold_cong) auto

lemma upt_small: "[0..<Suc 0] = [0]" "[0..<2] = [0, 1 :: nat]" "[0..<3] = [0, 1, 2 :: nat]" "[0..<4] = [0, 1, 2, 3 :: nat]"
  by (simp_all add: upt_rec)

lemma bit_word_at: "bit (word_at b q) n \<longleftrightarrow> n < 32 \<and> bit (b ! (q + n div 8)) (n mod 8)"
proof -
  have byte: "bit (word_at b q) (8 * k + m) = bit (b ! (q + k)) m" if "k < 4" "m < 8" for k m
  proof -
    have "k = 0 \<or> k = 1 \<or> k = 2 \<or> k = 3" using that(1) by linarith
    thus ?thesis
      using that(2) by (elim disjE) (auto simp: word_at_def bit_simps dest: bit_imp_le_length)
  qed
  have "n < 32 \<Longrightarrow> bit (word_at b q) n = bit (b ! (q + n div 8)) (n mod 8)"
    using byte[of "n div 8" "n mod 8"] by simp
  moreover have "bit (word_at b q) n \<Longrightarrow> n < 32" using bit_imp_le_length[of "word_at b q" n] by simp
  ultimately show ?thesis by blast
qed

text \<open>The raw value before ordering: its low bytes are the addressed ones.\<close>
definition low_bytes :: "(nat \<Rightarrow> u8) \<Rightarrow> nat \<Rightarrow> u32 \<Rightarrow> bool" where
  "low_bytes f width v \<longleftrightarrow> (\<forall>n < 8 * width. bit v n = bit (f (n div 8)) (n mod 8))"

lemma low_bytes_bit:
  assumes "low_bytes f width v" "k < width" "n < 8"
  shows "bit v (8 * k + n) = bit (f k) n"
  using assms unfolding low_bytes_def by (auto dest!: spec[of _ "8 * k + n"])

lemma byte_masks:
  "(255 :: u32) = mask 8" "(65535 :: u32) = mask 16" "(0xffffff :: u32) = mask 24"
  "(0xff00 :: u32) = push_bit 8 (mask 8)"
  by (simp_all add: mask_eq_exp_minus_1 push_bit_eq_mult)

lemma bit_order_bytes:
  "bit (order_bytes 1 little v) n \<longleftrightarrow> n < 8 \<and> bit v n"
  "bit (order_bytes 2 True v) n \<longleftrightarrow> n < 16 \<and> bit v n"
  "bit (order_bytes 3 True v) n \<longleftrightarrow> n < 24 \<and> bit v n"
  "bit (order_bytes 4 True v) n \<longleftrightarrow> bit v n"
  by (auto simp: order_bytes_def byte_masks bit_simps dest: bit_imp_le_length)

text \<open>Bit m of byte k.\<close>
lemma order_bytes_byte:
  assumes "width \<in> {1, 2, 3, 4}" "m < 8" "k < 4"
  shows "bit (order_bytes width little v) (8 * k + m) \<longleftrightarrow>
    k < width \<and> bit v (8 * (if little then k else width - k - 1) + m)"
proof (cases "little \<or> width = 1")
  case True
  have i: "8 * k + m < 8 \<longleftrightarrow> k < 1" "8 * k + m < 16 \<longleftrightarrow> k < 2" "8 * k + m < 24 \<longleftrightarrow> k < 3"
    using assms(2) by linarith+
  note b = bit_order_bytes[where v = v and n = "8 * k + m"]
  show ?thesis using True assms(1,3) by (elim insertE) (auto simp: b i simp del: One_nat_def)
next
  case False
  have w: "width = 2 \<or> width = 3 \<or> width = 4" and k: "k = 0 \<or> k = 1 \<or> k = 2 \<or> k = 3" and l: "\<not> little"
    using assms(1,3) False by auto
  show ?thesis
    using w k
    by (elim disjE) (use l assms(2) in \<open>auto simp: order_bytes_def byte_masks shader_bswap32_def bit_simps dest: bit_imp_le_length\<close>)
qed

lemma bytes_value_byte:
  assumes "width \<in> {1, 2, 3, 4}" "m < 8" "k < 4"
  shows "bit (bytes_value f width little) (8 * k + m) \<longleftrightarrow>
    k < width \<and> bit (f (if little then k else width - k - 1)) m"
proof -
  have w: "width = 1 \<or> width = 2 \<or> width = 3 \<or> width = 4" and k: "k = 0 \<or> k = 1 \<or> k = 2 \<or> k = 3"
    using assms(1,3) by auto
  show ?thesis
    using w k
    by (elim disjE) (use assms(2) in \<open>auto simp: bytes_value_def upt_small bit_simps dest: bit_imp_le_length\<close>)
qed

lemma order_bytes_value:
  assumes "low_bytes f width v" "width \<in> {1, 2, 3, 4}"
  shows "order_bytes width little v = bytes_value f width little"
proof (rule bit_word_eqI)
  fix n assume "n < LENGTH(32)"
  hence n: "n = 8 * (n div 8) + n mod 8" "n div 8 < 4" "n mod 8 < 8" by auto
  let ?j = "if little then n div 8 else width - n div 8 - 1"
  have "bit v (8 * ?j + n mod 8) = bit (f ?j) (n mod 8)" if "n div 8 < width"
    by (rule low_bytes_bit[OF assms(1)]) (use that n in auto)
  thus "bit (order_bytes width little v) n = bit (bytes_value f width little) n"
    using order_bytes_byte[OF assms(2) n(3,2), of little v] bytes_value_byte[OF assms(2) n(3,2), of f little]
      n(1) by metis
qed

section \<open>The two readers\<close>

lemma load_attr_value:
  assumes "unat at + width \<le> length bs"
  shows "load_attr bs at width little = Inr (bytes_value (\<lambda>i. bs ! (unat at + i)) width little)"
  using assms by (simp add: load_attr_def bytes_value_def)

lemma and_not_mask: "(w :: 'a::len word) AND NOT (mask n) = push_bit n (drop_bit n w)"
  by (rule bit_word_eqI) (auto simp: bit_simps)

lemma align_down:
  "unat (at AND - 4 :: u32) = unat at div 4 * 4" "unat (at AND 3 :: u32) = unat at mod 4"
proof -
  have "at AND 3 = take_bit 2 at" by (simp add: take_bit_eq_mask mask_eq_exp_minus_1)
  hence "unat (at AND 3) = take_bit 2 (unat at)" by (simp only: unsigned_take_bit_eq)
  thus m: "unat (at AND 3) = unat at mod 4" by (simp add: take_bit_eq_mod)
  have "at AND - 4 = push_bit 2 (drop_bit 2 at)"
    using and_not_mask[of at 2] by (simp add: mask_eq_exp_minus_1)
  moreover have "unat (drop_bit 2 at) = unat at div 4" by (simp add: drop_bit_eq_div unat_div)
  moreover have "unat at div 4 * 4 < 2 ^ LENGTH(32)"
    by (rule le_less_trans[OF div_times_less_eq_dividend unsigned_less])
  ultimately show "unat (at AND - 4) = unat at div 4 * 4"
    by (simp add: unsigned_push_bit_eq take_bit_eq_mod push_bit_eq_mult mult.commute unat_word_ariths)
qed

lemma read_uint_value:
  assumes "unat at + width \<le> length body" "length body mod 4 = 0" "length body < 2 ^ 32" "width \<in> {1, 2, 3, 4}"
  shows "read_uint (body @ pad) at width little = Some (bytes_value (\<lambda>i. body ! (unat at + i)) width little)"
proof -
  let ?p = "unat at" let ?q = "?p div 4 * 4" and ?r = "?p mod 4" and ?b = "body @ pad"
  have q: "?p = ?q + ?r" "?r < 4" by auto
  obtain m where m: "length body = m * 4" using assms(2) by (metis mod_0_imp_dvd dvd_div_mult_self)
  have "?p < m * 4" using assms(1,4) m by auto
  hence "?p div 4 < m" by (rule less_mult_imp_div_less)
  hence q4: "?q + 4 \<le> length body" using m by linarith
  have l1: "load_word ?b (at AND - 4) = Some (word_at body ?q)"
    using q4 by (simp add: load_word_def align_down word_at_append)
  have w1: "bit (drop_bit (?r * 8) (word_at body ?q)) n = bit (body ! (?p + n div 8)) (n mod 8)"
    if "n + ?r * 8 < 32" for n
  proof -
    have "(?r * 8 + n) div 8 = ?r + n div 8" "(?r * 8 + n) mod 8 = n mod 8" by simp_all
    thus ?thesis using that q(1) by (simp add: bit_drop_bit_eq bit_word_at add.assoc)
  qed
  show ?thesis
  proof (cases "?r * 8 + width * 8 > 32")
    case False
    have "low_bytes (\<lambda>i. body ! (?p + i)) width (drop_bit (?r * 8) (word_at body ?q))"
      unfolding low_bytes_def using w1 False by auto
    thus ?thesis
      using order_bytes_value[OF _ assms(4)] False
      by (simp add: read_uint_def Let_def align_down(2) l1)
  next
    case True
    have "?p div 4 + 1 < m" using assms(1) q(1) True m by linarith
    hence q8: "?q + 8 \<le> length body" using m by linarith
    have "unat ((at AND - 4) + 4) = ?q + 4"
      using q8 assms(3) by (simp add: unat_word_ariths align_down)
    hence l2: "load_word ?b ((at AND - 4) + 4) = Some (word_at body (?q + 4))"
      using q8 by (simp add: load_word_def word_at_append)
    have r: "0 < ?r" using True assms(4) by auto
    let ?v = "drop_bit (?r * 8) (word_at body ?q) OR push_bit (32 - ?r * 8) (word_at body (?q + 4))"
    have "bit ?v n = bit (body ! (?p + n div 8)) (n mod 8)" if n: "n < 8 * width" for n
    proof (cases "n + ?r * 8 < 32")
      case True
      thus ?thesis using w1[OF True] q(2) by (auto simp: bit_or_iff bit_push_bit_iff)
    next
      case F: False
      have "\<not> bit (drop_bit (?r * 8) (word_at body ?q)) n" using F by (auto simp: bit_drop_bit_eq bit_word_at)
      moreover have n32: "n < 32" using n assms(4) by auto
      moreover have less: "n - (32 - ?r * 8) < 32" using n32 by simp
      have le: "32 - ?r * 8 \<le> n" using F by linarith
      define j c where "j = n - (32 - ?r * 8)" and "c = 4 - ?r"
      have "n = j + c * 8" using F q(2) unfolding j_def c_def by linarith
      hence "n div 8 = j div 8 + c" "n mod 8 = j mod 8" by simp_all
      hence "?q + 4 + j div 8 = ?p + n div 8" "j mod 8 = n mod 8" using q unfolding c_def by linarith+
      hence *: "?q + 4 + (n - (32 - ?r * 8)) div 8 = ?p + n div 8" "(n - (32 - ?r * 8)) mod 8 = n mod 8"
        unfolding j_def .
      ultimately show ?thesis
        using le * less by (simp add: bit_or_iff bit_push_bit_iff bit_word_at)
    qed
    hence "low_bytes (\<lambda>i. body ! (?p + i)) width ?v" by (simp add: low_bytes_def)
    thus ?thesis
      using order_bytes_value[OF _ assms(4)] True
      by (simp add: read_uint_def Let_def align_down(2) l1 l2)
  qed
qed

text \<open>A part of the buffer that holds a part of a byte source.\<close>
definition same_bytes :: "u8 list \<Rightarrow> u32 \<Rightarrow> u8 list \<Rightarrow> u64 \<Rightarrow> nat \<Rightarrow> bool" where
  "same_bytes body ga bs ca n \<longleftrightarrow> unat ca + n \<le> length bs \<and> unat ga + n \<le> length body \<and>
     (\<forall>i<n. body ! (unat ga + i) = bs ! (unat ca + i))"

lemma unat_add_small:
  "unat (w :: 'a::len word) + k < 2 ^ LENGTH('a) \<Longrightarrow> unat (w + of_nat k) = unat w + k"
  by (simp add: unat_word_ariths unat_of_nat mod_add_right_eq)

lemma same_bytes_read:
  assumes "same_bytes body ga bs ca n" "k + width \<le> n" "width \<in> {1, 2, 3, 4}"
    "length body mod 4 = 0" "length body < 2 ^ 32" "length bs < 2 ^ 32"
  obtains val where "read_uint (body @ pad) (ga + of_nat k) width little = Some val"
    "load_attr bs (ca + of_nat k) width little = Inr val"
proof -
  have g: "unat (ga + of_nat k) = unat ga + k" and c: "unat (ca + of_nat k) = unat ca + k"
    using assms(1,2,5,6) by (auto intro!: unat_add_small simp: same_bytes_def)
  have "read_uint (body @ pad) (ga + of_nat k) width little =
      Some (bytes_value (\<lambda>i. body ! (unat (ga + of_nat k) + i)) width little)"
    by (rule read_uint_value) (use assms g in \<open>auto simp: same_bytes_def\<close>)
  moreover have "load_attr bs (ca + of_nat k) width little =
      Inr (bytes_value (\<lambda>i. bs ! (unat (ca + of_nat k) + i)) width little)"
    by (rule load_attr_value) (use assms(1,2) c in \<open>auto simp: same_bytes_def\<close>)
  moreover have "bytes_value (\<lambda>i. body ! (unat (ga + of_nat k) + i)) width little =
      bytes_value (\<lambda>i. bs ! (unat (ca + of_nat k) + i)) width little"
    by (rule bytes_value_cong) (use assms(1,2) g c in \<open>auto simp: same_bytes_def add.assoc\<close>)
  ultimately show ?thesis using that by simp
qed

end
