(* ===== verification/VertexNumbers.thy ===== *)
theory VertexNumbers
  imports VertexReads Ieee32Round
begin

text \<open>
  The arithmetic of the two readers: dividing by a power of two and multiplying by its inverse round
  to the same binary32 value, whatever the number; a normalised colour channel, which one divides and
  the other multiplies by a rounded reciprocal, differs by at most one unit in the last place.
\<close>

lemma int_bits_pow2: "int_bits (2 ^ a) = Suc a"
  by (induction a) (simp_all add: int_bits_double int_bits.simps)

lemma f_div_pow2:
  assumes "0 \<le> m" "int a + d + int b + h = 0"
  shows "f_div_val binary32 (FFin s m e) (FFin False (2 ^ a) d) =
    f_mul_val binary32 (FFin s m e) (FFin False (2 ^ b) h)"
proof (cases "m = 0")
  case False
  have "m * 2 ^ (27 + a) = (m * 2 ^ 27) * 2 ^ a" by (simp add: power_add)
  hence q: "m * 2 ^ (27 + a) div 2 ^ a = m * 2 ^ 27" "m * 2 ^ (27 + a) mod 2 ^ a = 0"
    by (simp_all only: nonzero_mult_div_cancel_right mod_mult_self2_is_0) simp
  have k: "prec binary32 + 2 + int_bits (2 ^ a) = 27 + a" by (simp add: int_bits_pow2)
  have r: "e - d - int (27 + a) - 1 = (e - d - int a) - int 28" "e + h = (e - d - int a) - int b"
      "2 * (m * 2 ^ 27) + 0 = m * 2 ^ 28"
    using assms(2) by simp_all
  have p: "0 < m" using False assms(1) by simp
  note A = f_round_scale[OF p, of binary32 s 28 "e - d - int a"] f_round_scale[OF p, of binary32 s b "e - d - int a"]
  show ?thesis
    using False A[simplified] unfolding f_div_val.simps f_mul_val.simps Let_def k q r by (simp add: mult.commute)
qed simp

lemma f32_of_pow2:
  assumes "k < 32"
  obtains a d where "f32_val (f32_of_u32 (push_bit k 1)) = FFin False (2 ^ a) d" "int a + d = int k"
proof -
  have "uint (push_bit k 1 :: u32) = 2 ^ k"
    using assms power_strict_increasing[OF assms, of "2 :: int"]
    by (simp only: unsigned_push_bit_eq) (simp add: push_bit_eq_mult take_bit_int_eq_self)
  hence v: "f32_of_u32 (push_bit k 1) = word_of_int (f_round binary32 False (2 ^ k) 0)"
    by (simp add: f32_of_u32_def f32_of_int_def)
  have r: "f_round binary32 False (2 ^ k) 0 = f_round binary32 False 1 (int k)"
    using f_round_scale[of 1 binary32 False k "int k"] by simp
  obtain j where "f32_val (f32_of_u32 (push_bit k 1)) = FFin False (1 * 2 ^ j) (int k - int j)"
    using f_round32_exact[of 1 "int k" False] assms unfolding v r by auto
  thus thesis by (intro that[of j "int k - int j"]) simp_all
qed

lemma f32_of_scale:
  assumes "k < 32"
  shows "f32_val (push_bit 23 (127 - of_nat k)) = FFin False (2 ^ 23) (- 23 - int k)"
proof -
  have "(push_bit 23 (127 - of_nat k) :: u32) = word_of_int ((127 - int k) * 2 ^ 23)"
    by (simp add: push_bit_eq_mult)
  hence "f32_val (push_bit 23 (127 - of_nat k)) =
      f32_val (word_of_int (f_sign_bit binary32 False + (127 - int k) * 2 ^ 23))"
    by (simp add: f_sign_bit_def)
  also have "\<dots> = FFin False (2 ^ 23) (127 - int k - 150)"
    using assms by (subst f32_decode_small) simp_all
  finally show ?thesis by simp
qed

lemma f32_div_pow2:
  assumes "k < 32"
  shows "f32_div x (f32_of_u32 (push_bit k 1)) = f32_mul x (push_bit 23 (127 - of_nat k))"
proof -
  obtain a d where v: "f32_val (f32_of_u32 (push_bit k 1)) = FFin False (2 ^ a) d" "int a + d = int k"
    by (rule f32_of_pow2[OF assms])
  have "f_div_val binary32 (f32_val x) (FFin False (2 ^ a) d) =
      f_mul_val binary32 (f32_val x) (FFin False (2 ^ 23) (- 23 - int k))"
  proof (cases "f32_val x")
    case (FFin s m e)
    show ?thesis unfolding FFin by (rule f_div_pow2) (use v(2) f32_val_nonneg[OF FFin] in simp_all)
  qed simp_all
  thus ?thesis by (simp only: f32_div_def f32_mul_def v(1) f32_of_scale[OF assms])
qed

section \<open>Colour channels\<close>

text \<open>The two conversions of a channel code c out of 0..m: the reader divides, the shader multiplies by the
  rounded reciprocal.  An absent alpha is one in both.\<close>
definition channel_pair :: "f32 \<Rightarrow> f32 \<Rightarrow> bool" where
  "channel_pair gpu cpu \<longleftrightarrow> gpu = f32_of_int 1 \<and> cpu = f32_of_int 1 \<or>
     (\<exists>c. c \<le> 255 \<and> gpu = f32_mul (f32_of_u32 c) byte_scale \<and> cpu = f32_div (f32_of_u32 c) (f32_of_int 255)) \<or>
     (\<exists>c m. 0 \<le> m \<and> m \<le> 63 \<and> uint c \<le> m \<and> cpu = f32_div (f32_of_u32 c) (f32_of_int m) \<and>
        gpu = f32_mul (f32_of_u32 c) (f32_div (f32_of_int 1) (f32_of_int m)))"

lemma one_bits: "f32_of_int 1 = 0x3F800000" by code_simp

end
