(* ===== verification/VertexGeometry.thy ===== *)
theory VertexGeometry
  imports GxVertexFetch GxGeometryLemmas
begin

text \<open>
  What a snapshot guarantees to a reader of its vertices: the shape of every attribute's layout, the
  place of every element in the records, and that the captured array ranges cover each index.
\<close>

text \<open>The values of the GX headers that the shader's literals stand for.\<close>
definition vertex_enums_ok :: "gx_enums \<Rightarrow> gx_render_enums \<Rightarrow> bool" where
  "vertex_enums_ok g x \<longleftrightarrow> GX_NONE g = 0 \<and> GX_U8 g = 0 \<and> GX_S8 g = 1 \<and> GX_U16 g = 2 \<and> GX_S16 g = 3 \<and>
     GX_F32 x = 4 \<and> GX_RGB565 x = 0 \<and> GX_RGB8 x = 1 \<and> GX_RGBX8 x = 2 \<and> GX_RGBA4 x = 3 \<and> GX_RGBA6 x = 4 \<and>
     GX_RGBA8 x = 5 \<and> GX_NRM_XYZ g \<noteq> GX_NRM_NBT3 g"

definition attr_shape :: "nat \<Rightarrow> GxAttributeLayout \<Rightarrow> bool" where
  "attr_shape a d \<longleftrightarrow> (al_mode d = 1 \<or> is_indexed d) \<and> al_type d \<le> 5 \<and> fraction d < 32 \<and> arrayStride d \<le> 255 \<and>
     (if a < 9 then al_mode d = 1 \<and> components d = 1 \<and> componentBytes d = 1 \<and> indexCount d = 1
      else if is_color a then components d = 1 \<and> componentBytes d = color_sizes ! unat (al_type d) \<and> indexCount d = 1
      else al_type d \<le> 4 \<and> componentBytes d = type_width (al_type d) \<and>
        (if a = 9 then components d \<in> {2, 3} \<and> indexCount d = 1
         else if a = 10 then components d = 3 \<and> indexCount d = 1 \<or> components d = 9 \<and> indexCount d \<in> {1, 3}
         else components d \<in> {1, 2} \<and> indexCount d = 1))"

lemma attr_format_shape:
  assumes "attr_format g x a m f dst = Inr d" "vertex_enums_ok g x"
    "al_mode dst = 1 \<or> is_indexed dst" "al_mode dst = m" "al_type dst = va_type f" "fraction dst = unat (va_frac f)"
    "indexCount dst = 1"
  shows "attr_shape a (d\<lparr>arrayStride := 0\<rparr>)" "al_mode d = m"
proof -
  have fr: "\<not> 31 < va_frac f \<Longrightarrow> unat (va_frac f) < 32" by (simp add: word_less_nat_alt)
  note e = assms(2)[unfolded vertex_enums_ok_def]
  show "al_mode d = m" using attr_format_keeps[OF assms(1)] assms(4) by simp
  have w: "type_width t = (if t \<le> 1 then 1 else if t \<le> 3 then 2 else 4)" for t
  proof -
    have "t < 2 \<longleftrightarrow> t \<le> 1" "t < 4 \<longleftrightarrow> t \<le> 3" by (auto simp: word_less_nat_alt word_le_nat_alt)
    thus ?thesis by (simp add: type_width_def)
  qed
  consider (matrix) "a < 9" | (colour) "\<not> a < 9" "is_color a" | (numeric) "\<not> a < 9" "\<not> is_color a" by blast
  thus "attr_shape a (d\<lparr>arrayStride := 0\<rparr>)"
  proof cases
    case a: matrix
    show ?thesis
      using assms(1,3-7) a e unfolding attr_format_def if_P[OF a]
      by (auto simp: attr_shape_def is_indexed_def split: if_splits)
  next
    case a: colour
    show ?thesis
      using assms(1,3-7) a e unfolding attr_format_def if_not_P[OF a(1)] if_P[OF a(2)]
      by (auto simp: attr_shape_def is_indexed_def split: if_splits)
  next
    case F: numeric
    let ?b = "if va_type f \<le> 1 then 1 else if va_type f \<le> 3 then 2 else 4 :: nat"
    have c: "\<not> va_type f > 4" "\<not> va_frac f > 31"
      using assms(1) F e by (auto simp: attr_format_def split: if_splits)
    have t: "va_type f \<le> 4" "va_type f \<le> 5" using c(1) by (auto simp: word_le_nat_alt word_less_nat_alt)
    have d: "attr_format g x a m f dst =
        (if a = GX_VA_POS then
           (if va_cnt f > GX_POS_XYZ x then Inl ''Invalid GX position count''
            else Inr (dst\<lparr>componentBytes := ?b, components := if va_cnt f = GX_POS_XY x then 2 else 3\<rparr>))
         else if a = GX_VA_NRM then
           (if va_cnt f > GX_NRM_NBT3 g then Inl ''Invalid GX normal count''
            else Inr (dst\<lparr>componentBytes := ?b, components := if va_cnt f = GX_NRM_XYZ g then 3 else 9,
                           indexCount := if va_cnt f = GX_NRM_NBT3 g then 3 else 1\<rparr>))
         else if va_cnt f > GX_TEX_ST x then Inl ''Invalid GX texture coordinate count''
         else Inr (dst\<lparr>componentBytes := ?b, components := if va_cnt f = GX_TEX_S x then 1 else 2\<rparr>))"
      using F c e unfolding attr_format_def Let_def by simp
    have "(al_mode d = 1 \<or> is_indexed d) \<and> al_type d = va_type f \<and> fraction d = unat (va_frac f) \<and> componentBytes d = ?b"
      using assms(1,3,5,6) unfolding d by (auto simp: is_indexed_def split: if_splits)
    moreover have "if a = 9 then components d \<in> {2, 3} \<and> indexCount d = 1
        else if a = 10 then components d = 3 \<and> indexCount d = 1 \<or> components d = 9 \<and> indexCount d \<in> {1, 3}
        else components d \<in> {1, 2} \<and> indexCount d = 1"
      using assms(1,7) e unfolding d by (auto split: if_splits)
    ultimately show ?thesis
      using F t fr c(2) unfolding attr_shape_def w is_indexed_def by (cases "a = 9"; cases "a = 10") simp_all
  qed
qed

lemma attr_layout_shape:
  assumes "attr_layout g x s format a stride = Inr (d, n)" "vertex_enums_ok g x" "al_mode d \<noteq> 0"
  shows "attr_shape a d"
proof -
  define mode where "mode = vtxDesc s ! a"
  define f where "f = (vtxFmts s ! format) ! a"
  define dst where "dst = (GxAttributeLayout_init g x)\<lparr>al_mode := mode, al_offset := stride, al_type := va_type f,
     fraction := unat (va_frac f)\<rparr>"
  note u = assms(1)[unfolded attr_layout_def Let_def, folded mode_def f_def]
  have m: "mode \<noteq> 0" using u assms(2,3) by (auto simp: vertex_enums_ok_def split: if_splits sum.splits)
  have g0: "GX_NONE g = 0" using assms(2) by (simp add: vertex_enums_ok_def)
  have md: "mode = 1 \<or> mode = 2 \<or> mode = 3" using u m g0 by (auto split: if_splits)
  obtain d0 where d0: "attr_format g x a mode f dst = Inr d0"
      "d = (if mode = 1 then d0 else d0\<lparr>arrayStride := unat (arr_stride (arrays s ! a)), arrayLittleEndian := arr_le (arrays s ! a)\<rparr>)"
    using u m md g0 by (auto simp: dst_def split: if_splits sum.splits)
  have s0: "attr_shape a (d0\<lparr>arrayStride := 0\<rparr>)"
    by (rule attr_format_shape(1)[OF d0(1) assms(2)])
       (use md in \<open>auto simp: dst_def GxAttributeLayout_init_def is_indexed_def\<close>)
  have "unat (arr_stride (arrays s ! a)) \<le> 255"
    using unsigned_less[of "arr_stride (arrays s ! a)", where 'a = nat] by simp
  moreover have "arrayStride d0 = 0"
  proof -
    have "arrayStride dst = 0" by (simp add: dst_def GxAttributeLayout_init_def)
    thus ?thesis using d0(1) by (auto simp: attr_format_def Let_def split: if_splits)
  qed
  ultimately show ?thesis
    using s0 unfolding d0(2) by (cases d0) (auto simp: attr_shape_def is_indexed_def)
qed

lemma attr_layouts_shape:
  assumes "attr_layouts g x s format as stride = Inr (ds, n)" "vertex_enums_ok g x" "i < length as" "al_mode (ds ! i) \<noteq> 0"
  shows "attr_shape (as ! i) (ds ! i)"
  using assms(1,3,4)
proof (induction "as" arbitrary: stride ds n i)
  case (Cons a as)
  obtain d m es where p: "attr_layout g x s format a stride = Inr (d, m)"
      "attr_layouts g x s format as m = Inr (es, n)" "ds = d # es"
    using Cons.prems by (auto split: sum.splits)
  show ?case
  proof (cases i)
    case 0
    thus ?thesis using attr_layout_shape[OF p(1) assms(2)] Cons.prems(3) p(3) by simp
  next
    case (Suc j)
    thus ?thesis using Cons.IH[OF p(2), of j] Cons.prems p(3) by simp
  qed
qed simp

lemma layout_build_shape:
  assumes "GxVertexLayout_build g x s format = Inr lay" "vertex_enums_ok g x" "a < 21"
    "al_mode (attributes lay ! a) \<noteq> 0"
  shows "attr_shape a (attributes lay ! a)"
proof -
  obtain ds n where p: "attr_layouts g x s format [0..<21] 0 = Inr (ds, n)" "attributes lay = ds"
    using assms(1) by (auto simp: GxVertexLayout_build_def split: if_splits sum.splits)
  show ?thesis
    using attr_layouts_shape[OF p(1) assms(2), of a] assms(3,4) p(2) by simp
qed

section \<open>Snapshots\<close>

text \<open>Every element an index of attribute a names lies inside the captured range.\<close>
definition covers :: "u8 list \<Rightarrow> nat \<Rightarrow> nat \<Rightarrow> GxAttributeLayout \<Rightarrow> GxArraySnapshot \<Rightarrow> bool" where
  "covers rs count stride d sn \<longleftrightarrow> (\<forall>v<count. \<forall>grp<indexCount d.
     let i = index_at rs (v * stride + al_offset d + grp * index_width d) (index_width d)
     in sourceOffset sn \<le> i * arrayStride d \<and>
        i * arrayStride d + element_bytes d \<le> sourceOffset sn + length (as_bytes sn))"

definition geometry_ok :: "GxGeometry \<Rightarrow> bool" where
  "geometry_ok geo \<longleftrightarrow>
     (let lay = geo_layout geo; stride = vl_stride lay in
      length (attributes lay) = 21 \<and> length (geo_records geo) = geo_count geo * stride \<and>
      (\<forall>a<21. let d = attributes lay ! a in al_mode d \<noteq> 0 \<longrightarrow>
         attr_shape a d \<and>
         (al_mode d = 1 \<longrightarrow> al_offset d + componentBytes d * components d \<le> stride) \<and>
         (is_indexed d \<longrightarrow> al_offset d + indexCount d * index_width d \<le> stride \<and>
            covers (geo_records geo) (geo_count geo) stride d (geo_arrays geo ! a))))"

lemma snapshot_array_coverage:
  assumes "snapshot_array rsv a arr d rs count stride = Inr sn"
  shows "covers rs count stride d sn"
  unfolding covers_def Let_def
proof (intro allI impI)
  fix v grp assume "v < count" "grp < indexCount d"
  hence "index_at rs (v * stride + al_offset d + grp * index_width d) (index_width d)
      \<in> set (scan_indices rs count stride (al_offset d) (index_width d) (indexCount d))"
    by (subst scan_indices_general) (auto simp: index_width_def intro!: bexI[of _ v] image_eqI[of _ _ grp])
  from snapshot_array_covers(1,2)[OF assms this]
  show "sourceOffset sn \<le> index_at rs (v * stride + al_offset d + grp * index_width d) (index_width d) * arrayStride d \<and>
      index_at rs (v * stride + al_offset d + grp * index_width d) (index_width d) * arrayStride d + element_bytes d
        \<le> sourceOffset sn + length (as_bytes sn)" by blast
qed

lemma snapshot_arrays_coverage:
  assumes "snapshot_arrays rsv s lay rs count as out = Inr arrs" "distinct as" "\<forall>a\<in>set as. a < length out"
  shows "(\<forall>a. a \<notin> set as \<longrightarrow> arrs ! a = out ! a) \<and>
    (\<forall>a\<in>set as. is_indexed (attributes lay ! a) \<longrightarrow>
       covers rs count (vl_stride lay) (attributes lay ! a) (arrs ! a))"
  using assms
proof (induction "as" arbitrary: out)
  case (Cons a as)
  let ?d = "attributes lay ! a"
  show ?case
  proof (cases "is_indexed ?d")
    case False
    thus ?thesis using Cons.IH[of out] Cons.prems by (auto simp: Let_def)
  next
    case True
    then obtain y where y: "snapshot_array rsv a (arrays s ! a) ?d rs count (vl_stride lay) = Inr y"
        "snapshot_arrays rsv s lay rs count as (out[a := y]) = Inr arrs"
      using Cons.prems(1) by (auto simp: Let_def split: sum.splits)
    have ih: "(\<forall>b. b \<notin> set as \<longrightarrow> arrs ! b = out[a := y] ! b) \<and>
        (\<forall>b\<in>set as. is_indexed (attributes lay ! b) \<longrightarrow>
          covers rs count (vl_stride lay) (attributes lay ! b) (arrs ! b))"
      using Cons.IH[OF y(2)] Cons.prems by simp
    have "arrs ! a = y" using ih Cons.prems by simp
    hence "covers rs count (vl_stride lay) ?d (arrs ! a)" using snapshot_array_coverage[OF y(1)] by simp
    thus ?thesis using ih by auto
  qed
qed simp

lemma snapshot_records_ok:
  assumes "GxVertexLayout_build g x s0 format = Inr lay" "vertex_enums_ok g x"
    "snapshot_records g rsv lay s count rs = Inr geo"
  shows "geometry_ok geo"
proof -
  have g0: "GX_NONE g = 0" using assms(2) by (simp add: vertex_enums_ok_def)
  note f = snapshot_records_fields[OF assms(3)]
  have l: "length (attributes lay) = 21" "list_all (layout_attr_ok g (vl_stride lay)) (attributes lay)"
    using layout_build_ok[OF assms(1) g0] by simp_all
  have c: "covers (geo_records geo) (geo_count geo) (vl_stride lay) d (geo_arrays geo ! a)"
    if a: "a < 21" "d = attributes lay ! a" "is_indexed d" for a d
  proof (cases "count = 0")
    case False
    have a9: "9 \<le> a"
    proof (rule ccontr)
      assume "\<not> 9 \<le> a"
      moreover have "attr_shape a (attributes lay ! a)"
        by (rule layout_build_shape[OF assms(1,2) a(1)]) (use a in \<open>auto simp: is_indexed_def\<close>)
      ultimately show False using a by (auto simp: attr_shape_def is_indexed_def)
    qed
    let ?e = "replicate 21 \<lparr>sourceOffset = 0, as_bytes = []\<rparr>"
    have "snapshot_arrays rsv s lay rs count [9..<21] ?e = Inr (geo_arrays geo)"
      using assms(3) False by (auto simp: snapshot_records_def Let_def simp del: snapshot_arrays.simps split: if_splits sum.splits)
    note cov = snapshot_arrays_coverage[OF this distinct_upt]
    have "\<forall>b\<in>set [9..<21]. b < length ?e" by (simp only: set_upt length_replicate) simp
    moreover have "a \<in> set [9..<21]" using a(1) a9 by (simp only: set_upt) simp
    ultimately show ?thesis using cov a(2,3) f(1,2) by blast
  qed (simp add: f covers_def)
  show ?thesis
    unfolding geometry_ok_def Let_def f(1-3)
  proof (intro conjI allI impI)
    show "length (attributes lay) = 21" by (rule l(1))
    show "length rs = count * vl_stride lay" by (rule f(4))
  next
    fix a assume a: "a < (21 :: nat)"
    have ok: "layout_attr_ok g (vl_stride lay) (attributes lay ! a)" using l a by (simp add: list_all_length)
    show "attr_shape a (attributes lay ! a)" if "al_mode (attributes lay ! a) \<noteq> 0"
      by (rule layout_build_shape[OF assms(1,2) a that])
    show "al_offset (attributes lay ! a) + componentBytes (attributes lay ! a) * components (attributes lay ! a) \<le> vl_stride lay"
      if "al_mode (attributes lay ! a) = 1" using ok that by (simp add: layout_attr_ok_def)
    show "al_offset (attributes lay ! a) + indexCount (attributes lay ! a) * index_width (attributes lay ! a) \<le> vl_stride lay"
      if "is_indexed (attributes lay ! a)" using ok that by (simp add: layout_attr_ok_def)
    show "covers rs count (vl_stride lay) (attributes lay ! a) (geo_arrays geo ! a)"
      if "is_indexed (attributes lay ! a)" using c[OF a refl that] by (simp add: f)
  qed
qed

lemma geometry_ok_update [simp]: "geometry_ok (geo\<lparr>geo_primitive := p\<rparr>) = geometry_ok geo"
  "geometry_ok (geo\<lparr>geo_indices := is\<rparr>) = geometry_ok geo"
  by (simp_all add: geometry_ok_def)

lemma snapshot_from_records:
  assumes "GxGeometry_snapshot g rsv lay s p count rs = Inr geo"
  obtains out "is" where "snapshot_records g rsv lay s (unat count) rs = Inr out" "geo = out\<lparr>geo_primitive := p, geo_indices := is\<rparr>"
  using assms by (cases p) (auto simp: GxGeometry_snapshot_def split: sum.splits)

lemma segments_from_records:
  assumes "GxGeometry_snapshot_segments g rsv lay s sgs rs = Some (Inr geo)"
  obtains n out "is" where "snapshot_records g rsv lay s n rs = Inr out" "geo = out\<lparr>geo_indices := is\<rparr>"
  using assms by (auto simp: GxGeometry_snapshot_segments_def split: sum.splits prod.splits if_splits option.splits)

text \<open>Both snapshots, of one draw and of merged draws.\<close>
lemma snapshot_geometry_ok:
  assumes "GxVertexLayout_build g x s0 format = Inr lay" "vertex_enums_ok g x"
  shows "GxGeometry_snapshot g rsv lay s p count rs = Inr geo \<Longrightarrow> geometry_ok geo"
    "GxGeometry_snapshot_segments g rsv lay s sgs rs = Some (Inr geo) \<Longrightarrow> geometry_ok geo"
proof -
  show "geometry_ok geo" if h: "GxGeometry_snapshot g rsv lay s p count rs = Inr geo"
    by (rule snapshot_from_records[OF h]) (use snapshot_records_ok[OF assms] in simp)
  show "geometry_ok geo" if h: "GxGeometry_snapshot_segments g rsv lay s sgs rs = Some (Inr geo)"
    by (rule segments_from_records[OF h]) (use snapshot_records_ok[OF assms] in simp)
qed

end
