(* ===== verification/VertexFetchLemmas.thy ===== *)
theory VertexFetchLemmas
  imports VertexNumbers VertexGeometry
begin

text \<open>
  The vertex shader's fetch against the CPU reader: on the serialised buffer of a snapshot both
  address the same bytes of every attribute of every vertex.
\<close>

section \<open>The flags word\<close>

lemma fits_bit_below: "fits n w \<Longrightarrow> bit (w :: u32) k \<Longrightarrow> k < n"
  by (metis bit_take_bit_iff fits_def)

lemma flag_masks: "(3 :: u32) = mask 2" "(7 :: u32) = mask 3" "(15 :: u32) = mask 4" "(31 :: u32) = mask 5" "(1 :: u32) = mask 1"
  by (simp_all add: mask_eq_exp_minus_1)

lemma flags_fields:
  fixes m t c i f l :: u32
  assumes "fits 2 m" "fits 3 t" "fits 4 c" "fits 2 i" "fits 5 f"
  defines "w \<equiv> m OR push_bit 2 t OR push_bit 5 c OR push_bit 9 i OR push_bit 11 f OR push_bit 16 l"
  shows "w AND 3 = m" "drop_bit 2 w AND 7 = t" "drop_bit 5 w AND 15 = c" "drop_bit 9 w AND 3 = i"
    "drop_bit 11 w AND 31 = f" "drop_bit 16 w AND 1 = l AND 1"
proof -
  note b = fits_bit_below[OF assms(1)] fits_bit_below[OF assms(2)] fits_bit_below[OF assms(3)] fits_bit_below[OF assms(4)] fits_bit_below[OF assms(5)]
  have bw: "bit w n \<longleftrightarrow> n < 32 \<and> (bit m n \<or> 2 \<le> n \<and> bit t (n - 2) \<or> 5 \<le> n \<and> bit c (n - 5) \<or>
      9 \<le> n \<and> bit i (n - 9) \<or> 11 \<le> n \<and> bit f (n - 11) \<or> 16 \<le> n \<and> bit l (n - 16))" for n
    by (auto simp: w_def bit_simps dest: bit_imp_le_length)
  show "w AND 3 = m"
    unfolding flag_masks by (rule bit_word_eqI) (auto simp: bit_and_iff bit_mask_iff bw dest: b)
  show "drop_bit 2 w AND 7 = t"
    unfolding flag_masks by (rule bit_word_eqI) (auto simp: bit_and_iff bit_mask_iff bit_drop_bit_eq bw dest: b)
  show "drop_bit 5 w AND 15 = c"
    unfolding flag_masks by (rule bit_word_eqI) (auto simp: bit_and_iff bit_mask_iff bit_drop_bit_eq bw dest: b)
  show "drop_bit 9 w AND 3 = i"
    unfolding flag_masks by (rule bit_word_eqI) (auto simp: bit_and_iff bit_mask_iff bit_drop_bit_eq bw dest: b)
  show "drop_bit 11 w AND 31 = f"
    unfolding flag_masks by (rule bit_word_eqI) (auto simp: bit_and_iff bit_mask_iff bit_drop_bit_eq bw dest: b)
  show "drop_bit 16 w AND 1 = l AND 1"
    unfolding flag_masks by (rule bit_word_eqI) (auto simp: bit_and_iff bit_1_iff bit_drop_bit_eq bw dest: b)
qed

lemma attribute_flags_fields:
  assumes "attr_shape a d"
  defines "w \<equiv> attribute_flags d"
  shows "w AND 3 = al_mode d" "drop_bit 2 w AND 7 = al_type d" "drop_bit 5 w AND 15 = of_nat (components d)"
    "drop_bit 9 w AND 3 = of_nat (indexCount d)" "drop_bit 11 w AND 31 = of_nat (fraction d)"
    "drop_bit 16 w AND 1 \<noteq> 0 \<longleftrightarrow> arrayLittleEndian d"
proof -
  have "components d \<le> 9" "indexCount d \<le> 3"
    using assms(1) by (auto simp: attr_shape_def split: if_splits)
  moreover have "al_mode d = 1 \<or> al_mode d = 2 \<or> al_mode d = 3" "unat (al_type d) \<le> 5" "fraction d < 32"
    using assms(1) by (auto simp: attr_shape_def is_indexed_def word_le_nat_alt)
  ultimately have "fits 2 (al_mode d)" "fits 3 (al_type d)" "fits 4 (of_nat (components d) :: u32)"
      "fits 2 (of_nat (indexCount d) :: u32)" "fits 5 (of_nat (fraction d) :: u32)"
    by (auto simp: fits_iff_unat unat_of_nat)
  note f = flags_fields[OF this, of "if arrayLittleEndian d then 1 else 0", folded attribute_flags_def w_def]
  show "w AND 3 = al_mode d" "drop_bit 2 w AND 7 = al_type d" "drop_bit 5 w AND 15 = of_nat (components d)"
    "drop_bit 9 w AND 3 = of_nat (indexCount d)" "drop_bit 11 w AND 31 = of_nat (fraction d)"
    by (rule f)+
  show "drop_bit 16 w AND 1 \<noteq> 0 \<longleftrightarrow> arrayLittleEndian d" using f(6) by simp
qed

lemma attribute_flags_none: "al_mode d = 0 \<Longrightarrow> attribute_flags d AND 3 = 0"
  unfolding flag_masks
  by (rule bit_word_eqI) (auto simp: attribute_flags_def bit_and_iff bit_mask_iff bit_or_iff bit_push_bit_iff)

section \<open>Elements\<close>

text \<open>Where the readers look: the serialised buffer, whose length is a multiple of four, and four more bytes.\<close>
definition serialised :: "GxGeometry \<Rightarrow> u8 list \<Rightarrow> bool" where
  "serialised geo body \<longleftrightarrow> buffer_ok body \<and> geometry_ok geo \<and>
     word_at body 4 = of_nat (vl_stride (geo_layout geo)) \<and>
     range_at body (unat (word_at body 8)) (geo_records geo) \<and> (\<forall>a<21. entry_ok geo body a)"

abbreviation (input) header_of :: "u8 list \<Rightarrow> u4" where
  "header_of b \<equiv> (word_at b 0, word_at b 4, word_at b 8, word_at b 12)"
abbreviation (input) meta_of :: "u8 list \<Rightarrow> nat \<Rightarrow> u4" where
  "meta_of b a \<equiv> (word_at b (entry_pos a), word_at b (entry_pos a + 4), word_at b (entry_pos a + 8), word_at b (entry_pos a + 12))"

lemma serialised_meta:
  assumes "serialised geo body" "a < 21"
  shows "load_meta (body @ pad) 0 = Some (header_of body)"
    "load_meta (body @ pad) (32 + a * 32) = Some (meta_of body a)"
    "load_meta (body @ pad) (32 + a * 32 + 16) = Some (word_at body (entry_pos a + 16), word_at body (entry_pos a + 20),
       word_at body (entry_pos a + 24), word_at body (entry_pos a + 28))"
proof -
  have "704 \<le> length body" using assms(1) by (simp add: serialised_def buffer_ok_def)
  thus "load_meta (body @ pad) 0 = Some (header_of body)"
    "load_meta (body @ pad) (32 + a * 32) = Some (meta_of body a)"
    "load_meta (body @ pad) (32 + a * 32 + 16) = Some (word_at body (entry_pos a + 16), word_at body (entry_pos a + 20),
       word_at body (entry_pos a + 24), word_at body (entry_pos a + 28))"
    using assms(2) by (simp_all add: load_meta_def word_at_append)
qed

text \<open>The bytes of one element of an attribute, all components that are read of a group.\<close>
definition group_bytes :: "nat \<Rightarrow> GxAttributeLayout \<Rightarrow> nat" where
  "group_bytes a d = componentBytes d * (if a = 10 then 3 else components d)"

text \<open>The number of groups of an attribute: a normal with tangents has three.\<close>
definition group_count :: "nat \<Rightarrow> GxAttributeLayout \<Rightarrow> nat" where
  "group_count a d = (if a = 10 \<and> components d = 9 then 3 else 1)"

lemma vertex_inside:
  assumes "length rs = count * stride" "v < count" "off + n \<le> stride"
  shows "v * stride + off + n \<le> length rs"
proof -
  have "v * stride + stride \<le> count * stride" using assms(2) by (metis Suc_leI mult_le_mono1 mult_Suc add.commute)
  thus ?thesis using assms(1,3) by linarith
qed

lemma range_same_bytes:
  assumes "range_at body (unat p) xs" "buffer_ok body" "unat ca = k" "k + n \<le> length xs"
  shows "same_bytes body (p + of_nat k) xs ca n"
proof -
  have l: "unat p + length xs \<le> length body" "length body < 2 ^ 32"
    using assms(1,2) by (auto simp: range_at_def buffer_ok_def)
  have "unat (p + of_nat k) = unat p + k" by (rule unat_add_small) (use l assms(4) in simp)
  thus ?thesis using assms l by (auto simp: same_bytes_def range_at_def add.assoc)
qed

lemma unat_ucast_u8: "unat (ucast (b :: u8) :: u32) = unat b"
  using unsigned_less[of b, where 'a = nat] by (simp add: unsigned_ucast_eq take_bit_nat_eq_self)

lemma index_value:
  assumes "w = 1 \<or> w = 2"
  shows "unat (bytes_value (\<lambda>i. rs ! (k + i)) w False) = index_at rs k w"
proof (cases "w = 1")
  case True
  thus ?thesis by (simp add: bytes_value_def index_at_def unat_ucast_u8)
next
  case False
  hence w: "w = 2" using assms by simp
  let ?a = "ucast (rs ! k) :: u32" and ?b = "ucast (rs ! (k + 1)) :: u32"
  have ab: "unat ?a < 256" "unat ?b < 256"
    using unsigned_less[of "rs ! k", where 'a = nat] unsigned_less[of "rs ! (k + 1)", where 'a = nat]
    by (simp_all add: unat_ucast_u8)
  have "bytes_value (\<lambda>i. rs ! (k + i)) 2 False = push_bit 8 ?a OR ?b"
    by (simp add: bytes_value_def upt_small)
  also have "\<dots> = push_bit 8 ?a + ?b"
    by (rule disjunctive_add[symmetric]) (auto simp: bit_simps dest: bit_imp_le_length)
  also have "unat \<dots> = unat ?a * 256 + unat ?b"
    using ab by (simp add: push_bit_eq_mult unat_word_ariths)
  finally show ?thesis by (simp add: w index_at_def unat_ucast_u8)
qed

text \<open>Both readers find the index of a vertex.\<close>
lemma index_read:
  assumes "serialised geo body" "k + w \<le> length (geo_records geo)" "w = 1 \<or> w = 2" "unat ca = k"
    "ga = word_at body 8 + of_nat k"
  obtains i where "read_uint (body @ pad) ga w False = Some i" "load_attr (geo_records geo) ca w False = Inr i"
    "unat i = index_at (geo_records geo) k w"
proof -
  have b: "range_at body (unat (word_at body 8)) (geo_records geo)" "buffer_ok body"
      "length body < 2 ^ 32" "length body mod 4 = 0" "length (geo_records geo) < 2 ^ 32"
    using assms(1) by (auto simp: serialised_def buffer_ok_def range_at_def)
  have s: "same_bytes body ga (geo_records geo) ca w"
    unfolding assms(5) by (rule range_same_bytes[OF b(1,2) assms(4,2)])
  have "0 + w \<le> w" "w \<in> {1, 2, 3, 4}" using assms(3) by auto
  then obtain i where i: "read_uint (body @ pad) (ga + of_nat 0) w False = Some i"
      "load_attr (geo_records geo) (ca + of_nat 0) w False = Inr i"
    by (rule same_bytes_read[OF s _ _ b(4,3,5)])
  moreover have "load_attr (geo_records geo) ca w False = Inr (bytes_value (\<lambda>i. geo_records geo ! (unat ca + i)) w False)"
    by (rule load_attr_value) (use assms(2,4) in simp)
  ultimately have "unat i = index_at (geo_records geo) k w" using index_value[OF assms(3), of "geo_records geo" k] assms(4) by simp
  thus ?thesis using i that by simp
qed

abbreviation (input) record_at :: "GxGeometry \<Rightarrow> GxAttributeLayout \<Rightarrow> nat \<Rightarrow> u64" where
  "record_at geo d v \<equiv> of_nat v * of_nat (vl_stride (geo_layout geo)) + of_nat (al_offset d)"

lemma unat_of_small: "n < 2 ^ LENGTH('a) \<Longrightarrow> unat (of_nat n :: 'a::len word) = n"
  by (simp add: unat_of_nat)

lemma serialised_facts:
  assumes "serialised geo body" "a < 21" "al_mode (attributes (geo_layout geo) ! a) \<noteq> 0"
  defines "d \<equiv> attributes (geo_layout geo) ! a"
  shows "attr_shape a d" "length (geo_records geo) < 2 ^ 32"
    "al_mode d = 1 \<Longrightarrow> al_offset d + componentBytes d * components d \<le> vl_stride (geo_layout geo)"
    "is_indexed d \<Longrightarrow> al_offset d + indexCount d * index_width d \<le> vl_stride (geo_layout geo)"
    "is_indexed d \<Longrightarrow> covers (geo_records geo) (geo_count geo) (vl_stride (geo_layout geo)) d (geo_arrays geo ! a)"
    "length (geo_records geo) = geo_count geo * vl_stride (geo_layout geo)"
    "meta_of body a = (attribute_flags d, of_nat (al_offset d), of_nat (arrayStride d), of_nat (sourceOffset (geo_arrays geo ! a)))"
    "as_bytes (geo_arrays geo ! a) \<noteq> [] \<Longrightarrow>
       range_at body (unat (word_at body (entry_pos a + 16))) (as_bytes (geo_arrays geo ! a))"
  using assms by (auto simp: serialised_def geometry_ok_def entry_ok_def buffer_ok_def range_at_def Let_def)

lemma direct_element:
  assumes "serialised geo body" "9 \<le> a" "a < 21" "v < geo_count geo"
  defines "d \<equiv> attributes (geo_layout geo) ! a"
  assumes "al_mode d = 1" "grp < group_count a d"
  obtains ca ga where
    "group_source geo a d (record_at geo d v) grp = Inr (geo_records geo, ca, False)"
    "fetch_address (body @ pad) (header_of body) (of_nat v) a (of_nat grp) (meta_of body a) = Some (ga, False)"
    "same_bytes body ga (geo_records geo) ca (group_bytes a d)"
proof -
  have m: "al_mode (attributes (geo_layout geo) ! a) \<noteq> 0" using assms(5,6) by simp
  note f = serialised_facts[OF assms(1,3) m, folded d_def]
  note fl = attribute_flags_fields[OF f(1)]
  let ?s = "vl_stride (geo_layout geo)"
  let ?k = "v * ?s + al_offset d + grp * 3 * componentBytes d"
  let ?ca = "record_at geo d v + of_nat (grp * 3 * componentBytes d) :: u64"
  have le: "al_offset d + (grp * 3 * componentBytes d + group_bytes a d) \<le> ?s"
  proof -
    have "grp * 3 * componentBytes d + group_bytes a d \<le> componentBytes d * components d"
      using assms(2,7) f(1) by (auto simp: group_bytes_def group_count_def attr_shape_def is_color_def split: if_splits)
    thus ?thesis using f(3)[OF assms(6)] by linarith
  qed
  have k: "?k + group_bytes a d \<le> length (geo_records geo)"
    using vertex_inside[OF f(6) assms(4) le] by simp
  have "?k < 2 ^ LENGTH(64)" using k f(2) by simp
  hence "unat (of_nat ?k :: u64) = ?k" by (rule unat_of_small)
  moreover have "?ca = of_nat ?k" by simp
  ultimately have ca: "unat ?ca = ?k" by (simp only:)
  have g3: "(of_nat grp :: u32) * 3 * of_nat (type_width (al_type d)) = of_nat (grp * 3 * componentBytes d)"
  proof (cases "grp = 0")
    case False
    hence "componentBytes d = type_width (al_type d)"
      using assms(2,7) f(1) by (auto simp: group_count_def attr_shape_def is_color_def split: if_splits)
    thus ?thesis by simp
  qed simp
  let ?ga = "word_at body 8 + of_nat ?k"
  have hs: "word_at body 4 = of_nat ?s" and rr: "range_at body (unat (word_at body 8)) (geo_records geo)" "buffer_ok body"
    using assms(1) by (simp_all add: serialised_def)
  have nix: "\<not> is_indexed d" using assms(6) by (simp add: is_indexed_def)
  show ?thesis
  proof (rule that)
    show "group_source geo a d (record_at geo d v) grp = Inr (geo_records geo, ?ca, False)"
      using nix by (simp add: group_source_def)
    show "fetch_address (body @ pad) (header_of body) (of_nat v) a (of_nat grp) (meta_of body a) = Some (?ga, False)"
      unfolding f(7) fetch_address_def prod.case Let_def fl(1,2) assms(6) hs g3 by (simp add: algebra_simps)
    show "same_bytes body ?ga (geo_records geo) ?ca (group_bytes a d)"
      by (rule range_same_bytes[OF rr ca k])
  qed
qed

lemma group_bytes_pos:
  assumes "attr_shape a d" "9 \<le> a"
  shows "0 < group_bytes a d"
proof -
  have "0 < componentBytes d"
  proof (cases "is_color a")
    case True
    hence t: "unat (al_type d) \<le> 5" "componentBytes d = color_sizes ! unat (al_type d)"
      using assms by (auto simp: attr_shape_def word_le_nat_alt)
    hence "unat (al_type d) \<in> {0, 1, 2, 3, 4, 5}" by auto
    thus ?thesis using t(2) by (auto simp: color_sizes_def)
  qed (use assms in \<open>auto simp: attr_shape_def type_width_def\<close>)
  moreover have "0 < components d" using assms by (auto simp: attr_shape_def split: if_splits)
  ultimately show ?thesis by (simp add: group_bytes_def)
qed

lemma indexed_element:
  assumes "serialised geo body" "9 \<le> a" "a < 21" "v < geo_count geo"
  defines "d \<equiv> attributes (geo_layout geo) ! a"
  assumes "is_indexed d" "grp < group_count a d"
  obtains ca ga where
    "group_source geo a d (record_at geo d v) grp = Inr (as_bytes (geo_arrays geo ! a), ca, arrayLittleEndian d)"
    "fetch_address (body @ pad) (header_of body) (of_nat v) a (of_nat grp) (meta_of body a) = Some (ga, arrayLittleEndian d)"
    "same_bytes body ga (as_bytes (geo_arrays geo ! a)) ca (group_bytes a d)"
    "length (as_bytes (geo_arrays geo ! a)) < 2 ^ 32"
proof -
  have m: "al_mode (attributes (geo_layout geo) ! a) \<noteq> 0" using assms(5,6) by (auto simp: is_indexed_def)
  note f = serialised_facts[OF assms(1,3) m, folded d_def]
  note fl = attribute_flags_fields[OF f(1)]
  let ?s = "vl_stride (geo_layout geo)" and ?iw = "index_width d" and ?arr = "geo_arrays geo ! a"
  define j where "j = (if indexCount d = 3 then grp else 0)"
  define go where "go = (if indexCount d = 3 then 0 else grp * 3 * componentBytes d)"
  have iw: "?iw = 1 \<or> ?iw = 2" by (simp add: index_width_def)
  have shape: "a \<noteq> 10 \<longrightarrow> indexCount d = 1" "indexCount d = 3 \<longrightarrow> a = 10" "indexCount d = 1 \<or> indexCount d = 3"
    using f(1) assms(2) by (auto simp: attr_shape_def split: if_splits)
  have j: "j < indexCount d"
    using shape assms(7) by (auto simp: j_def group_count_def split: if_splits)
  let ?k = "v * ?s + al_offset d + j * ?iw"
  have k: "?k + ?iw \<le> length (geo_records geo)"
    using index_read_inside[OF f(6) f(4)[OF assms(6)] assms(4) j] by simp
  have hs: "word_at body 4 = of_nat ?s" and bo: "buffer_ok body" using assms(1) by (simp_all add: serialised_def)
  let ?ia = "record_at geo d v + of_nat (if indexCount d = 3 then grp * ?iw else 0) :: u64"
  have ia: "unat ?ia = ?k"
  proof -
    have "?k < 2 ^ LENGTH(64)" using k f(2) iw by simp
    hence "unat (of_nat ?k :: u64) = ?k" by (rule unat_of_small)
    moreover have "?ia = of_nat ?k" by (simp add: j_def)
    ultimately show ?thesis by (simp only:)
  qed
  obtain i where i: "read_uint (body @ pad) (word_at body 8 + of_nat ?k) ?iw False = Some i"
      "load_attr (geo_records geo) ?ia ?iw False = Inr i" "unat i = index_at (geo_records geo) ?k ?iw"
    by (rule index_read[OF assms(1) k iw ia refl])
  define n where "n = unat i"
  have cov: "sourceOffset ?arr \<le> n * arrayStride d"
      "n * arrayStride d + element_bytes d \<le> sourceOffset ?arr + length (as_bytes ?arr)"
    using f(5)[OF assms(6)] assms(4) j i(3) by (auto simp: covers_def Let_def n_def)
  have el: "go + group_bytes a d \<le> element_bytes d"
    using f(1) assms(2,7)
    by (auto simp: go_def group_bytes_def element_bytes_def group_count_def attr_shape_def is_color_def split: if_splits)
  have pos: "0 < group_bytes a d" by (rule group_bytes_pos[OF f(1) assms(2)])
  let ?q = "n * arrayStride d - sourceOffset ?arr + go"
  have q: "?q + group_bytes a d \<le> length (as_bytes ?arr)" using cov el by linarith
  hence ne: "as_bytes ?arr \<noteq> []" using pos by auto
  note rr = f(8)[OF ne]
  have lb: "length (as_bytes ?arr) < 2 ^ 32" using rr bo by (auto simp: range_at_def buffer_ok_def)
  let ?ca = "ucast i * of_nat (arrayStride d) - of_nat (sourceOffset ?arr) + of_nat go :: u64"
  have ca: "unat ?ca = ?q"
  proof -
    have "?q < 2 ^ LENGTH(64)" using q lb by simp
    hence "unat (of_nat ?q :: u64) = ?q" by (rule unat_of_small)
    moreover have "(ucast i :: u64) = of_nat n" by (simp add: n_def)
    hence "?ca = of_nat ?q" using cov(1) by (simp add: of_nat_diff)
    ultimately show ?thesis by (simp only:)
  qed
  let ?ga = "word_at body (entry_pos a + 16) + of_nat ?q"
  show ?thesis
  proof (rule that[OF _ _ _ lb])
    show "group_source geo a d (record_at geo d v) grp = Inr (as_bytes ?arr, ?ca, arrayLittleEndian d)"
      unfolding group_source_def i(2) if_P[OF assms(6)] sum.case Let_def go_def by simp
    show "fetch_address (body @ pad) (header_of body) (of_nat v) a (of_nat grp) (meta_of body a) = Some (?ga, arrayLittleEndian d)"
    proof -
      have m23: "al_mode d = 2 \<or> al_mode d = 3" using assms(6) by (simp add: is_indexed_def)
      hence md: "al_mode d \<noteq> 1" "(if al_mode d = 3 then 2 else 1) = ?iw" by (auto simp: index_width_def)
      have ic: "a = 10 \<and> (of_nat (indexCount d) :: u32) = 3 \<longleftrightarrow> indexCount d = 3" using shape by auto
      have g: "(if indexCount d = 3 then 0 else of_nat grp * 3 * of_nat (type_width (al_type d))) = (of_nat go :: u32)"
      proof (cases "indexCount d = 3 \<or> grp = 0")
        case False
        hence "componentBytes d = type_width (al_type d)"
          using assms(2,7) f(1) by (auto simp: group_count_def attr_shape_def is_color_def split: if_splits)
        thus ?thesis using False by (simp add: go_def)
      qed (auto simp: go_def)
      have at: "(if indexCount d = 3 then word_at body 8 + of_nat v * of_nat ?s + of_nat (al_offset d) + of_nat grp * of_nat ?iw
          else word_at body 8 + of_nat v * of_nat ?s + of_nat (al_offset d)) = word_at body 8 + of_nat ?k"
        by (simp add: j_def algebra_simps)
      have ni: "i = of_nat n" by (simp add: n_def)
      have ga: "word_at body (entry_pos a + 16) + i * of_nat (arrayStride d) - of_nat (sourceOffset ?arr) + of_nat go = ?ga"
        using cov(1) by (simp add: ni of_nat_diff algebra_simps)
      show ?thesis
        unfolding f(7) fetch_address_def prod.case Let_def fl(1,2,4,6) hs if_not_P[OF md(1)] md(2) ic g at i(1)
          serialised_meta(3)[OF assms(1,3)] Option.bind.simps option.map prod.case ga ..
    qed
    show "same_bytes body ?ga (as_bytes ?arr) ?ca (group_bytes a d)"
      by (rule range_same_bytes[OF rr bo ca q])
  qed
qed

end
