(* ===== verification/VertexValues.thy ===== *)
theory VertexValues
  imports VertexFetchLemmas
begin

text \<open>
  The values of an attribute: on the same bytes the shader's conversions give what the CPU reader's
  give, and a vertex that lies in the snapshot is decoded without an error by both.
\<close>

section \<open>One element\<close>

definition buffers_ok :: "u8 list \<Rightarrow> u8 list \<Rightarrow> bool" where
  "buffers_ok body bs \<longleftrightarrow> length body mod 4 = 0 \<and> length body < 2 ^ 32 \<and> length bs < 2 ^ 32"

lemma element_read:
  assumes "same_bytes body ga bs ca n" "buffers_ok body bs" "k + width \<le> n" "width \<in> {1, 2, 3, 4}"
  obtains val where "read_uint (body @ pad) (ga + of_nat k) width little = Some val"
    "load_attr bs (ca + of_nat k) width little = Inr val"
proof -
  have "length body mod 4 = 0" "length body < 2 ^ 32" "length bs < 2 ^ 32"
    using assms(2) by (simp_all add: buffers_ok_def)
  from same_bytes_read[OF assms(1,3,4) this, of pad little] that show thesis by blast
qed

lemma type_width_cases: "type_width t \<in> {1, 2, 4}"
  by (simp add: type_width_def)

lemma number_same:
  assumes "same_bytes body ga bs ca n" "buffers_ok body bs" "vertex_enums_ok g x"
    "componentBytes d = type_width (al_type d)" "fraction d < 32" "i * componentBytes d + componentBytes d \<le> n"
  obtains y where "component g x bs (ca + of_nat (i * componentBytes d)) d little = Inr y"
    "fetch_number (body @ pad) (ga + of_nat i * of_nat (type_width (al_type d))) (al_type d) (of_nat (fraction d)) little = Some y"
proof -
  have "componentBytes d \<in> {1, 2, 3, 4}" using type_width_cases[of "al_type d"] assms(4) by auto
  from element_read[OF assms(1,2,6) this, of pad little]
  obtain v where v: "read_uint (body @ pad) (ga + of_nat (i * componentBytes d)) (componentBytes d) little = Some v"
      "load_attr bs (ca + of_nat (i * componentBytes d)) (componentBytes d) little = Inr v" by blast
  have a: "ga + of_nat i * of_nat (type_width (al_type d)) = ga + of_nat (i * componentBytes d)"
    by (simp add: assms(4))
  have e: "GX_F32 x = 4" "GX_S8 g = 1" "GX_S16 g = 3" using assms(3) by (simp_all add: vertex_enums_ok_def)
  let ?n = "if al_type d = 1 then (v XOR 128) - 128 else if al_type d = 3 then (v XOR 32768) - 32768 else v"
  have c: "component g x bs (ca + of_nat (i * componentBytes d)) d little =
      Inr (if al_type d = 4 then v else f32_div (f32_of_s32 ?n) (f32_of_u32 (push_bit (fraction d) 1)))"
    unfolding component_def v(2) sum.case e Let_def by simp
  have "fetch_number (body @ pad) (ga + of_nat i * of_nat (type_width (al_type d))) (al_type d) (of_nat (fraction d)) little =
      Some (if al_type d = 4 then v else f32_mul (f32_of_s32 ?n) (push_bit 23 (127 - of_nat (fraction d))))"
    unfolding fetch_number_def a assms(4)[symmetric] Let_def using v(1) by simp
  with c show ?thesis using that unfolding f32_div_pow2[OF assms(5)] by blast
qed

lemma channel_pair_unorm:
  assumes "uint m = scale" "scale \<le> 63"
  shows "channel_pair (fetch_unorm v s m scale) (unorm v s m scale)"
proof -
  have "drop_bit s v AND m \<le> m" by (rule word_and_le1)
  hence "uint (drop_bit s v AND m) \<le> scale" "0 \<le> scale" using assms(1) by (auto simp: word_le_def)
  thus ?thesis using assms(2) unfolding channel_pair_def fetch_unorm_def unorm_def by blast
qed

lemma channel_pair_one: "channel_pair (f32_of_int 1) 0x3F800000"
  by (simp add: channel_pair_def one_bits)

lemma byte_same:
  assumes "same_bytes body ga bs ca n" "buffers_ok body bs" "i < n"
  obtains c where "c \<le> 255" "read_uint (body @ pad) (ga + of_nat i) 1 True = Some c" "load_attr bs (ca + of_nat i) 1 True = Inr c"
proof -
  have "i + 1 \<le> n" using assms(3) by simp
  from element_read[OF assms(1,2) this, of pad True]
  obtain c where c: "read_uint (body @ pad) (ga + of_nat i) 1 True = Some c" "load_attr bs (ca + of_nat i) 1 True = Inr c"
    by auto
  have "unat (ca + of_nat i) + 1 \<le> length bs"
    using c(2) by (auto simp: load_attr_def split: if_splits)
  from load_attr_value[OF this] c(2) have "c = ucast (bs ! unat (ca + of_nat i))" by (simp add: bytes_value_def)
  moreover have "(ucast (b :: u8) :: u32) \<le> 255" for b
    using unsigned_less[of b, where 'a = nat] by (simp add: word_le_nat_alt unat_ucast_u8)
  ultimately have "c \<le> 255" by simp
  thus ?thesis using that c by blast
qed

lemma colour_same:
  assumes "same_bytes body ga bs ca (componentBytes d)" "buffers_ok body bs" "vertex_enums_ok g x"
    "al_type d \<le> 5" "componentBytes d = color_sizes ! unat (al_type d)"
  obtains gpu cpu where "fetch_color (body @ pad) ga (al_type d) little = Some gpu" "color_value x bs ca d little = Inr cpu"
    "list_all2 channel_pair gpu cpu"
proof -
  have e: "GX_RGB565 x = 0" "GX_RGB8 x = 1" "GX_RGBX8 x = 2" "GX_RGBA4 x = 3" "GX_RGBA8 x = 5"
    using assms(3) by (simp_all add: vertex_enums_ok_def)
  have u: "unat (al_type d) \<in> {0, 1, 2, 3, 4, 5}" using assms(4) by (auto simp: word_le_nat_alt)
  hence t: "al_type d \<in> {0, 1, 2, 3, 4, 5}"
    by (auto simp: word_unat_eq_iff)
  show ?thesis
  proof (cases "al_type d = 1 \<or> al_type d = 2 \<or> al_type d = 5")
    case True
    have "3 \<le> componentBytes d" "al_type d = 5 \<Longrightarrow> 4 \<le> componentBytes d"
      using True by (auto simp: assms(5) color_sizes_def)
    hence n: "0 < componentBytes d" "1 < componentBytes d" "2 < componentBytes d" "al_type d = 5 \<Longrightarrow> 3 < componentBytes d"
      by linarith+
    note b = byte_same[OF assms(1,2), of _ pad]
    obtain c0 c1 c2 where c: "c0 \<le> 255" "read_uint (body @ pad) (ga + of_nat 0) 1 True = Some c0" "load_attr bs (ca + of_nat 0) 1 True = Inr c0"
      "c1 \<le> 255" "read_uint (body @ pad) (ga + of_nat 1) 1 True = Some c1" "load_attr bs (ca + of_nat 1) 1 True = Inr c1"
      "c2 \<le> 255" "read_uint (body @ pad) (ga + of_nat 2) 1 True = Some c2" "load_attr bs (ca + of_nat 2) 1 True = Inr c2"
      using b[OF n(1)] b[OF n(2)] b[OF n(3)] by metis
    have p: "channel_pair (f32_mul (f32_of_u32 c) byte_scale) (f32_div (f32_of_u32 c) (f32_of_int 255))" if "c \<le> 255" for c
      using that unfolding channel_pair_def by blast
    show ?thesis
    proof (cases "al_type d = 5")
      case T5: True
      obtain c3 where c3: "c3 \<le> 255" "read_uint (body @ pad) (ga + of_nat 3) 1 True = Some c3" "load_attr bs (ca + of_nat 3) 1 True = Inr c3"
        using b[OF n(4)[OF T5]] by metis
      show ?thesis
        by (rule that[of "map (\<lambda>c. f32_mul (f32_of_u32 c) byte_scale) [c0, c1, c2, c3]"
              "map (\<lambda>c. f32_div (f32_of_u32 c) (f32_of_int 255)) [c0, c1, c2, c3]"])
           (use c c3 T5 e p in \<open>simp_all add: fetch_color_def color_value_def upt_small\<close>)
    next
      case False
      show ?thesis
        by (rule that[of "map (\<lambda>c. f32_mul (f32_of_u32 c) byte_scale) [c0, c1, c2] @ [f32_of_int 1]"
              "map (\<lambda>c. f32_div (f32_of_u32 c) (f32_of_int 255)) [c0, c1, c2] @ [0x3F800000]"])
           (use c True False e p channel_pair_one in \<open>simp_all add: fetch_color_def color_value_def upt_small\<close>)
    qed
  next
    case False
    hence t3: "al_type d = 0 \<or> al_type d = 3 \<or> al_type d = 4" using t by auto
    hence w: "componentBytes d = (if al_type d = 4 then 3 else 2)" by (auto simp: assms(5) color_sizes_def)
    have "componentBytes d \<in> {1, 2, 3, 4}" "0 + componentBytes d \<le> componentBytes d" by (simp_all add: w)
    from element_read[OF assms(1,2) this(2,1), of pad little]
    obtain v where v: "read_uint (body @ pad) ga (componentBytes d) little = Some v" "load_attr bs ca (componentBytes d) little = Inr v"
      by auto
    have g: "fetch_color (body @ pad) ga (al_type d) little = Some
        (if al_type d = 0 then [fetch_unorm v 11 31 31, fetch_unorm v 5 63 63, fetch_unorm v 0 31 31, f32_of_int 1]
         else if al_type d = 3 then [fetch_unorm v 12 15 15, fetch_unorm v 8 15 15, fetch_unorm v 4 15 15, fetch_unorm v 0 15 15]
         else [fetch_unorm v 18 63 63, fetch_unorm v 12 63 63, fetch_unorm v 6 63 63, fetch_unorm v 0 63 63])"
      using False v(1) by (simp add: fetch_color_def w)
    have c: "color_value x bs ca d little = Inr
        (if al_type d = 0 then [unorm v 11 31 31, unorm v 5 63 63, unorm v 0 31 31, 0x3F800000]
         else if al_type d = 3 then [unorm v 12 15 15, unorm v 8 15 15, unorm v 4 15 15, unorm v 0 15 15]
         else [unorm v 18 63 63, unorm v 12 63 63, unorm v 6 63 63, unorm v 0 63 63])"
      using False v(2) e by (simp add: color_value_def)
    show ?thesis
      by (rule that[OF g c]) (simp add: channel_pair_unorm channel_pair_one)
  qed
qed

section \<open>One group of an attribute\<close>

lemma element_same:
  assumes "serialised geo body" "9 \<le> a" "a < 21" "v < geo_count geo"
  defines "d \<equiv> attributes (geo_layout geo) ! a"
  assumes "al_mode d \<noteq> 0" "grp < group_count a d"
  obtains bs ca ga little where
    "group_source geo a d (record_at geo d v) grp = Inr (bs, ca, little)"
    "fetch_address (body @ pad) (header_of body) (of_nat v) a (of_nat grp) (meta_of body a) = Some (ga, little)"
    "same_bytes body ga bs ca (group_bytes a d)" "buffers_ok body bs"
proof -
  have m: "al_mode (attributes (geo_layout geo) ! a) \<noteq> 0" using assms(6) by (simp add: d_def)
  note f = serialised_facts[OF assms(1,3) m, folded d_def]
  have b: "length body mod 4 = 0" "length body < 2 ^ 32" using assms(1) by (auto simp: serialised_def buffer_ok_def)
  show ?thesis
  proof (cases "is_indexed d")
    case True
    show ?thesis
      by (rule indexed_element[OF assms(1-4), folded d_def, OF True assms(7)])
         (rule that, assumption+, use b in \<open>simp add: buffers_ok_def\<close>)
  next
    case False
    hence 1: "al_mode d = 1" using f(1) by (simp add: attr_shape_def)
    show ?thesis
      by (rule direct_element[OF assms(1-4), folded d_def, OF 1 assms(7)])
         (rule that, assumption+, use b f(2) in \<open>simp add: buffers_ok_def\<close>)
  qed
qed

text \<open>The group the shader takes of an attribute when it is asked for group k.\<close>
definition shader_group :: "nat \<Rightarrow> GxAttributeLayout \<Rightarrow> nat \<Rightarrow> nat" where
  "shader_group a d k = (if a = 10 \<and> components d = 9 then k else 0)"

lemma attribute_group_present:
  assumes "serialised geo body" "a < 21"
  defines "d \<equiv> attributes (geo_layout geo) ! a"
  assumes "al_mode d \<noteq> 0" "k < 3"
    "fetch_address (body @ pad) (header_of body) (of_nat v) a (of_nat (shader_group a d k)) (meta_of body a) = Some (ga, little)"
  shows "attribute_group (body @ pad) (header_of body) (of_nat v) a (of_nat k) =
    (if is_color a then fetch_color (body @ pad) ga (al_type d) little
     else (let num = (\<lambda>i. fetch_number (body @ pad) (ga + i * of_nat (type_width (al_type d))) (al_type d) (of_nat (fraction d)) little)
           in Option.bind (num 0) (\<lambda>c0.
              Option.bind (if components d > 1 then num 1 else Some 0) (\<lambda>c1.
              Option.bind (if components d > 2 then num 2 else Some 0) (\<lambda>c2.
              Some [c0, c1, c2, 0])))))"
proof -
  have m: "al_mode (attributes (geo_layout geo) ! a) \<noteq> 0" using assms(4) by (simp add: d_def)
  note f = serialised_facts[OF assms(1,2) m, folded d_def]
  note fl = attribute_flags_fields[OF f(1)]
  have c9: "components d \<le> 9" using f(1) by (auto simp: attr_shape_def split: if_splits)
  have cmp: "(of_nat (components d) :: u32) = 9 \<longleftrightarrow> components d = 9" "(of_nat (components d) :: u32) > 1 \<longleftrightarrow> components d > 1"
      "(of_nat (components d) :: u32) > 2 \<longleftrightarrow> components d > 2"
    using c9 by (auto simp: word_less_nat_alt word_unat_eq_iff unat_of_small)
  have grp: "(if a \<noteq> 10 \<or> (of_nat (components d) :: u32) \<noteq> 9 then 0 else of_nat k) = (of_nat (shader_group a d k) :: u32)"
    by (simp add: shader_group_def cmp)
  have col: "(a = 11 \<or> a = 12) = is_color a" by (simp add: is_color_def)
  have fa: "fetch_address (body @ pad) (header_of body) (of_nat v) a (of_nat (shader_group a d k))
      (attribute_flags d, of_nat (al_offset d), of_nat (arrayStride d), of_nat (sourceOffset (geo_arrays geo ! a))) = Some (ga, little)"
    using assms(6) unfolding f(7) .
  show ?thesis
    unfolding attribute_group_def serialised_meta(2)[OF assms(1,2)] f(7) Option.bind.simps Let_def fst_conv fl(1,2,3,5)
      grp fa if_not_P[OF assms(4)] cmp(2,3) col prod.case by (simp add: Let_def)
qed

definition value_count :: "nat \<Rightarrow> GxAttributeLayout \<Rightarrow> nat" where
  "value_count a d = (if a = 10 then 3 else components d)"

lemma map_err_all:
  "(\<And>i. i < n \<Longrightarrow> f i = Inr (h i)) \<Longrightarrow> map_err f [0..<n] = Inr (map h [0..<n])"
proof (induction n)
  case (Suc n)
  have "map_err f (xs @ ys) = (case map_err f xs of Inl e \<Rightarrow> Inl e | Inr us \<Rightarrow>
      (case map_err f ys of Inl e \<Rightarrow> Inl e | Inr vs \<Rightarrow> Inr (us @ vs)))" for xs ys
    by (induction xs) (auto split: sum.splits)
  thus ?case using Suc by simp
qed simp

lemma numeric_group:
  assumes "serialised geo body" "9 \<le> a" "a < 21" "v < geo_count geo" "vertex_enums_ok g x"
  defines "d \<equiv> attributes (geo_layout geo) ! a"
  assumes "al_mode d \<noteq> 0" "\<not> is_color a" "k < 3" "grp = shader_group a d k"
  obtains vals where "length vals = value_count a d"
    "\<And>out. decode_group g x geo a d (record_at geo d v) grp out = Inr (store_group a grp vals out)"
    "attribute_group (body @ pad) (header_of body) (of_nat v) a (of_nat k) = Some (vals @ replicate (4 - length vals) 0)"
proof -
  have m: "al_mode (attributes (geo_layout geo) ! a) \<noteq> 0" using assms(7) by (simp add: d_def)
  note f = serialised_facts[OF assms(1,3) m, folded d_def]
  have gc: "grp < group_count a d" using assms(9,10) by (auto simp: shader_group_def group_count_def)
  obtain bs ca ga little where e:
      "group_source geo a d (record_at geo d v) grp = Inr (bs, ca, little)"
      "fetch_address (body @ pad) (header_of body) (of_nat v) a (of_nat grp) (meta_of body a) = Some (ga, little)"
      "same_bytes body ga bs ca (group_bytes a d)" "buffers_ok body bs"
    by (rule element_same[OF assms(1-4), folded d_def, OF assms(7) gc])
  have w: "componentBytes d = type_width (al_type d)" "fraction d < 32"
    using f(1) assms(2,8) by (auto simp: attr_shape_def)
  have "\<exists>y. component g x bs (ca + of_nat (i * componentBytes d)) d little = Inr y \<and>
      fetch_number (body @ pad) (ga + of_nat i * of_nat (type_width (al_type d))) (al_type d) (of_nat (fraction d)) little = Some y"
    if "i < value_count a d" for i
  proof -
    have "(i + 1) * componentBytes d \<le> value_count a d * componentBytes d" using that by (intro mult_right_mono) auto
    hence "i * componentBytes d + componentBytes d \<le> group_bytes a d" by (simp add: group_bytes_def value_count_def mult.commute)
    thus ?thesis using number_same[OF e(3,4) assms(5) w] by metis
  qed
  then obtain y where y: "\<And>i. i < value_count a d \<Longrightarrow>
      component g x bs (ca + of_nat (i * componentBytes d)) d little = Inr (y i) \<and>
      fetch_number (body @ pad) (ga + of_nat i * of_nat (type_width (al_type d))) (al_type d) (of_nat (fraction d)) little = Some (y i)"
    by metis
  let ?vals = "map y [0..<value_count a d]"
  have comps: "components d \<in> {1, 2, 3, 9}" "components d = 9 \<Longrightarrow> a = 10" "a = 10 \<Longrightarrow> components d > 2"
    using f(1) assms(2,8) by (auto simp: attr_shape_def split: if_splits)
  show ?thesis
  proof (rule that)
    show "length ?vals = value_count a d" by simp
    show "decode_group g x geo a d (record_at geo d v) grp out = Inr (store_group a grp ?vals out)" for out
    proof -
      have "map_err (\<lambda>c. component g x bs (ca + of_nat (c * componentBytes d)) d little)
          [0..<(if a = GX_VA_NRM then 3 else components d)] = Inr ?vals"
        unfolding value_count_def[symmetric] by (rule map_err_all) (use y in blast)
      thus ?thesis unfolding decode_group_def e(1) sum.case prod.case if_not_P[OF assms(8)] by simp
    qed
    let ?num = "\<lambda>i. fetch_number (body @ pad) (ga + i * of_nat (type_width (al_type d))) (al_type d) (of_nat (fraction d)) little"
    have n: "?num 0 = Some (y 0)" if "0 < value_count a d" using y[of 0] that by simp
    have n1: "?num 1 = Some (y 1)" if "1 < value_count a d" using y[of 1] that by simp
    have n2: "?num 2 = Some (y 2)" if "2 < value_count a d" using y[of 2] that by simp
    have "Option.bind (?num 0) (\<lambda>c0. Option.bind (if components d > 1 then ?num 1 else Some 0) (\<lambda>c1.
        Option.bind (if components d > 2 then ?num 2 else Some 0) (\<lambda>c2. Some [c0, c1, c2, 0]))) =
        Some (?vals @ replicate (4 - length ?vals) 0)"
    proof (cases "a = 10")
      case True
      thus ?thesis using comps n n1 n2 by (simp add: value_count_def upt_small numeral_eq_Suc)
    next
      case False
      hence "components d = 1 \<or> components d = 2 \<or> components d = 3" using comps by auto
      thus ?thesis using False n n1 n2 by (elim disjE) (simp_all add: value_count_def upt_small numeral_eq_Suc)
    qed
    thus "attribute_group (body @ pad) (header_of body) (of_nat v) a (of_nat k) = Some (?vals @ replicate (4 - length ?vals) 0)"
      using attribute_group_present[OF assms(1,3), folded d_def, OF assms(7,9), of pad v ga little] e(2) assms(8,10)
      by (simp add: Let_def)
  qed
qed

lemma colour_group:
  assumes "serialised geo body" "a < 21" "v < geo_count geo" "vertex_enums_ok g x"
  defines "d \<equiv> attributes (geo_layout geo) ! a"
  assumes "al_mode d \<noteq> 0" "is_color a"
  obtains gpu cpu where "list_all2 channel_pair gpu cpu"
    "\<And>out. decode_group g x geo a d (record_at geo d v) 0 out = Inr (out\<lparr>dv_colors := (dv_colors out)[a - GX_VA_CLR0 := cpu]\<rparr>)"
    "attribute_group (body @ pad) (header_of body) (of_nat v) a 0 = Some gpu"
proof -
  have m: "al_mode (attributes (geo_layout geo) ! a) \<noteq> 0" using assms(6) by (simp add: d_def)
  note f = serialised_facts[OF assms(1,2) m, folded d_def]
  have a9: "9 \<le> a" and gc: "0 < group_count a d" and sg: "shader_group a d 0 = 0"
    using assms(7) by (auto simp: is_color_def group_count_def shader_group_def)
  obtain bs ca ga little where e:
      "group_source geo a d (record_at geo d v) 0 = Inr (bs, ca, little)"
      "fetch_address (body @ pad) (header_of body) (of_nat v) a (of_nat 0) (meta_of body a) = Some (ga, little)"
      "same_bytes body ga bs ca (group_bytes a d)" "buffers_ok body bs"
    by (rule element_same[OF assms(1) a9 assms(2,3), folded d_def, OF assms(6) gc])
  have c: "al_type d \<le> 5" "componentBytes d = color_sizes ! unat (al_type d)" "components d = 1"
    using f(1) a9 assms(7) by (auto simp: attr_shape_def)
  have gb: "group_bytes a d = componentBytes d" using c(3) assms(7) by (auto simp: group_bytes_def is_color_def)
  obtain gpu cpu where p: "fetch_color (body @ pad) ga (al_type d) little = Some gpu" "color_value x bs ca d little = Inr cpu"
      "list_all2 channel_pair gpu cpu"
    by (rule colour_same[OF e(3)[unfolded gb] e(4) assms(4) c(1,2)])
  show ?thesis
  proof (rule that[OF p(3)])
    show "decode_group g x geo a d (record_at geo d v) 0 out = Inr (out\<lparr>dv_colors := (dv_colors out)[a - GX_VA_CLR0 := cpu]\<rparr>)" for out
      unfolding decode_group_def e(1) sum.case prod.case if_P[OF assms(7)] p(2) ..
    show "attribute_group (body @ pad) (header_of body) (of_nat v) a 0 = Some gpu"
      using attribute_group_present[OF assms(1,2), folded d_def, OF assms(6), of 0 pad v ga little] e(2) assms(7) p(1) sg
      by simp
  qed
qed

end
