(* ===== verification/VertexAgreement.thy ===== *)
theory VertexAgreement
  imports VertexValues
begin

text \<open>
  A whole vertex: the shader's fetch of every attribute against the vertex that the CPU reader builds
  attribute by attribute.
\<close>

text \<open>The four values the shader computes for group k of attribute a, in the decoded vertex.\<close>
definition attribute_value :: "GxDecodedVertex \<Rightarrow> nat \<Rightarrow> nat \<Rightarrow> f32 list" where
  "attribute_value out a k =
     (if a = GX_VA_POS then dv_position out @ [0]
      else if a = GX_VA_NRM then
        (if k = 0 then dv_normal out else if k = 1 then dv_binormal out else dv_tangent out) @ [0]
      else if is_color a then dv_colors out ! (a - GX_VA_CLR0)
      else dv_uv out ! (a - GX_VA_TEX0) @ [0, 0])"

definition values_agree :: "nat \<Rightarrow> f32 list \<Rightarrow> f32 list \<Rightarrow> bool" where
  "values_agree a gpu cpu \<longleftrightarrow> (if is_color a then list_all2 channel_pair gpu cpu else gpu = cpu)"

definition group_agrees :: "u8 list \<Rightarrow> nat \<Rightarrow> GxDecodedVertex \<Rightarrow> nat \<Rightarrow> nat \<Rightarrow> bool" where
  "group_agrees b v out a k \<longleftrightarrow>
     (case vertex_attribute b (of_nat v) a (of_nat k) of None \<Rightarrow> False
      | Some gpu \<Rightarrow> values_agree a gpu (attribute_value out a k))"

definition attribute_agrees :: "u8 list \<Rightarrow> nat \<Rightarrow> GxDecodedVertex \<Rightarrow> nat \<Rightarrow> bool" where
  "attribute_agrees b v out a \<longleftrightarrow> (\<forall>k<3. group_agrees b v out a k)"

definition vertex_shape :: "GxDecodedVertex \<Rightarrow> bool" where
  "vertex_shape out \<longleftrightarrow> length (dv_colors out) = 2 \<and> length (dv_uv out) = 8"

definition fresh :: "GxDecodedVertex \<Rightarrow> nat \<Rightarrow> bool" where
  "fresh out a \<longleftrightarrow> (\<forall>k<3. attribute_value out a k = attribute_value GxDecodedVertex_init a k)"

definition same_elsewhere :: "GxDecodedVertex \<Rightarrow> GxDecodedVertex \<Rightarrow> nat \<Rightarrow> bool" where
  "same_elsewhere out out' a \<longleftrightarrow>
     (\<forall>b k. 9 \<le> b \<longrightarrow> b < 21 \<longrightarrow> b \<noteq> a \<longrightarrow> attribute_value out' b k = attribute_value out b k)"

lemma attr_numbers: "(9 :: nat) \<le> a \<Longrightarrow> a < 21 \<Longrightarrow> a = 9 \<or> a = 10 \<or> is_color a \<or> 13 \<le> a"
  by (auto simp: is_color_def)

lemma nth_uv_init: "j < 8 \<Longrightarrow> dv_uv GxDecodedVertex_init ! j = [0, 0]"
  by (simp add: GxDecodedVertex_init_def numeral_2_eq_2)

lemma nth_colors_init: "j < 2 \<Longrightarrow> dv_colors GxDecodedVertex_init ! j = replicate 4 0x3F800000"
  by (simp add: GxDecodedVertex_init_def)

lemma group_agreesI:
  assumes "serialised geo body" "a < 21"
    "attribute_group (body @ pad) (header_of body) (of_nat v) a (of_nat k) = Some gpu"
    "values_agree a gpu (attribute_value out a k)"
  shows "group_agrees (body @ pad) v out a k"
  using assms(3,4) by (simp add: group_agrees_def vertex_attribute_def serialised_meta(1)[OF assms(1,2)])

lemma absent_agrees:
  assumes "serialised geo body" "9 \<le> a" "a < 21" "al_mode (attributes (geo_layout geo) ! a) = 0" "fresh out a"
  shows "attribute_agrees (body @ pad) v out a"
  unfolding attribute_agrees_def
proof (intro allI impI)
  fix k :: nat assume k: "k < 3"
  have m: "word_at body (entry_pos a) = attribute_flags (attributes (geo_layout geo) ! a)"
    using assms(1,3) by (simp add: serialised_def entry_ok_def Let_def)
  have g: "attribute_group (body @ pad) (header_of body) (of_nat v) a (of_nat k) =
      Some (if is_color a then replicate 4 (f32_of_int 1)
        else if a = 10 then [f32_of_int 1, 0, 0, 0] else replicate 4 0)"
    using attribute_flags_none[OF assms(4)]
    by (simp add: attribute_group_def serialised_meta(2)[OF assms(1,3)] m is_color_def Let_def)
  have i: "attribute_value out a k = attribute_value GxDecodedVertex_init a k" using assms(5) k by (simp add: fresh_def)
  show "group_agrees (body @ pad) v out a k"
  proof (rule group_agreesI[OF assms(1,3) g])
    consider "a = 9" | "a = 10" | "is_color a" "a \<noteq> 9" "a \<noteq> 10" | "13 \<le> a"
      using attr_numbers[OF assms(2,3)] by (auto simp: is_color_def)
    thus "values_agree a (if is_color a then replicate 4 (f32_of_int 1)
        else if a = 10 then [f32_of_int 1, 0, 0, 0] else replicate 4 0) (attribute_value out a k)"
    proof cases
      case 3
      hence "a - 11 < 2" by (auto simp: is_color_def)
      thus ?thesis
        using 3 unfolding i by (simp add: values_agree_def attribute_value_def nth_colors_init list_all2_conv_all_nth channel_pair_one)
    next
      case 4
      hence "a - 13 < 8" "\<not> is_color a" using assms(3) by (auto simp: is_color_def)
      thus ?thesis
        using 4 unfolding i by (simp add: values_agree_def attribute_value_def nth_uv_init numeral_eq_Suc)
    qed (unfold i, simp_all add: values_agree_def attribute_value_def GxDecodedVertex_init_def is_color_def one_bits numeral_eq_Suc)
  qed
qed

section \<open>One step of the reader\<close>

lemma overwrite_full: "length vals = length old \<Longrightarrow> overwrite old vals = vals"
  by (simp add: overwrite_def)

lemma attr_value_store:
  "b \<noteq> a \<Longrightarrow> 9 \<le> b \<Longrightarrow> \<not> is_color a \<Longrightarrow> 9 \<le> a \<Longrightarrow> attribute_value (store_group a grp vals out) b k = attribute_value out b k"
proof -
  assume h: "b \<noteq> a" "9 \<le> b" "\<not> is_color a" "9 \<le> a"
  have "a = 9 \<or> a = 10 \<or> 13 \<le> a" "b = 9 \<or> b = 10 \<or> is_color b \<or> 13 \<le> b" using h by (auto simp: is_color_def)
  moreover have "13 \<le> a \<Longrightarrow> 13 \<le> b \<Longrightarrow> a - 13 \<noteq> b - 13" using h(1) by linarith
  ultimately show ?thesis
    using h(1) by (elim disjE) (auto simp: store_group_def attribute_value_def upd_at_def is_color_def)
qed

lemma store_group_frame [simp]:
  "dv_positionMatrix (store_group a grp vals out) = dv_positionMatrix out"
  "vertex_shape (store_group a grp vals out) = vertex_shape out"
  by (simp_all add: store_group_def vertex_shape_def)

text \<open>What the step of attribute a delivers.\<close>
definition step_ok :: "GxGeometry \<Rightarrow> u8 list \<Rightarrow> nat \<Rightarrow> nat \<Rightarrow> GxDecodedVertex \<Rightarrow> GxDecodedVertex \<Rightarrow> bool" where
  "step_ok geo b v a out out' \<longleftrightarrow> vertex_shape out' \<and> same_elsewhere out out' a \<and>
     dv_positionMatrix out' = dv_positionMatrix out \<and> attribute_agrees b v out' a"

lemma group_irrelevant: "a \<noteq> 10 \<Longrightarrow> attribute_group b header v a grp = attribute_group b header v a 0"
  by (simp only: attribute_group_def Let_def simp_thms if_True)

lemma colour_step:
  assumes "serialised geo body" "a < 21" "v < geo_count geo" "vertex_enums_ok g x" "vertex_shape out"
  defines "d \<equiv> attributes (geo_layout geo) ! a"
  assumes "al_mode d \<noteq> 0" "is_color a"
  obtains out' where "decode_groups g x geo a d (record_at geo d v) [0..<1] out = Inr out'"
    "step_ok geo (body @ pad) v a out out'"
proof -
  obtain gpu cpu where c: "list_all2 channel_pair gpu cpu"
      "\<And>out. decode_group g x geo a d (record_at geo d v) 0 out = Inr (out\<lparr>dv_colors := (dv_colors out)[a - GX_VA_CLR0 := cpu]\<rparr>)"
      "attribute_group (body @ pad) (header_of body) (of_nat v) a 0 = Some gpu"
    by (rule colour_group[OF assms(1-4), folded d_def, OF assms(7,8), of pad]) (rule that)
  let ?o = "out\<lparr>dv_colors := (dv_colors out)[a - GX_VA_CLR0 := cpu]\<rparr>"
  have a: "a = 11 \<or> a = 12" using assms(8) by (simp add: is_color_def)
  have l: "a - 11 < length (dv_colors out)" using assms(5) a by (auto simp: vertex_shape_def)
  have v: "attribute_value ?o a k = cpu" for k using a l by (auto simp: attribute_value_def is_color_def)
  have gk: "attribute_group (body @ pad) (header_of body) (of_nat v) a (of_nat k) = Some gpu" if "k < 3" for k
    by (subst group_irrelevant) (use a c(3) in auto)
  show ?thesis
  proof (rule that[of ?o])
    show "decode_groups g x geo a d (record_at geo d v) [0..<1] out = Inr ?o" by (simp add: c(2))
    have "attribute_agrees (body @ pad) v ?o a"
      unfolding attribute_agrees_def
      by (intro allI impI group_agreesI[OF assms(1,2) gk]) (simp_all add: v values_agree_def assms(8) c(1))
    moreover have "same_elsewhere out ?o a"
      unfolding same_elsewhere_def attribute_value_def using a by (auto simp: is_color_def nth_list_update)
    ultimately show "step_ok geo (body @ pad) v a out ?o"
      using assms(5) by (simp add: step_ok_def vertex_shape_def)
  qed
qed

text \<open>A stored group of an attribute that nothing has touched yet.\<close>
lemma stored_value:
  assumes "9 \<le> a" "a < 21" "\<not> is_color a" "a \<noteq> 10" "vertex_shape out" "fresh out a" "attr_shape a d"
    "length vals = value_count a d"
  shows "attribute_value (store_group a grp vals out) a k = vals @ replicate (4 - length vals) 0"
proof -
  have i: "attribute_value out a 0 = attribute_value GxDecodedVertex_init a 0" using assms(6) by (simp add: fresh_def)
  show ?thesis
  proof (cases "a = 9")
    case True
    hence "dv_position out = [0, 0, 0]" using i by (simp add: attribute_value_def GxDecodedVertex_init_def)
    moreover have "length vals = 2 \<or> length vals = 3" using assms(7,8) True by (simp add: attr_shape_def value_count_def is_color_def)
    ultimately show ?thesis
      using True by (elim disjE) (simp_all add: attribute_value_def store_group_def overwrite_def numeral_eq_Suc)
  next
    case False
    hence a: "13 \<le> a" "a - 13 < 8" using assms(1-4) attr_numbers[of a] by auto
    hence "dv_uv out ! (a - 13) = [0, 0]"
      using i False assms(3,4) nth_uv_init[OF a(2)] by (simp add: attribute_value_def)
    moreover have "length vals = 1 \<or> length vals = 2"
      using assms(1,3,4,7,8) False by (auto simp: attr_shape_def value_count_def)
    moreover have "a - 13 < length (dv_uv out)" using a(2) assms(5) by (simp add: vertex_shape_def)
    ultimately show ?thesis
      using False assms(3,4) by (elim disjE) (simp_all add: attribute_value_def store_group_def overwrite_def upd_at_def numeral_eq_Suc)
  qed
qed

lemma numeric_step:
  assumes "serialised geo body" "9 \<le> a" "a < 21" "v < geo_count geo" "vertex_enums_ok g x" "vertex_shape out" "fresh out a"
  defines "d \<equiv> attributes (geo_layout geo) ! a"
  assumes "al_mode d \<noteq> 0" "\<not> is_color a" "a \<noteq> 10"
  obtains out' where "decode_groups g x geo a d (record_at geo d v) [0..<1] out = Inr out'"
    "step_ok geo (body @ pad) v a out out'"
proof -
  have m: "al_mode (attributes (geo_layout geo) ! a) \<noteq> 0" using assms(9) by (simp add: d_def)
  note f = serialised_facts[OF assms(1,3) m, folded d_def]
  have s0: "0 = shader_group a d 0" by (simp add: shader_group_def)
  obtain vals where n: "length vals = value_count a d"
      "\<And>out. decode_group g x geo a d (record_at geo d v) 0 out = Inr (store_group a 0 vals out)"
      "attribute_group (body @ pad) (header_of body) (of_nat v) a (of_nat 0) = Some (vals @ replicate (4 - length vals) 0)"
    by (rule numeric_group[OF assms(1-5), folded d_def, OF assms(9,10) _ s0, of pad]) (simp, rule that)
  have gk: "attribute_group (body @ pad) (header_of body) (of_nat v) a (of_nat k) = Some (vals @ replicate (4 - length vals) 0)" for k
    by (subst group_irrelevant[OF assms(11)]) (use n(3) in simp)
  let ?o = "store_group a 0 vals out"
  note v = stored_value[OF assms(2,3,10,11,6,7) f(1) n(1)]
  show ?thesis
  proof (rule that[of ?o])
    show "decode_groups g x geo a d (record_at geo d v) [0..<1] out = Inr ?o" by (simp add: n(2))
    have "attribute_agrees (body @ pad) v ?o a"
      unfolding attribute_agrees_def
      by (intro allI impI group_agreesI[OF assms(1,3) gk]) (simp add: v values_agree_def assms(10))
    moreover have "same_elsewhere out ?o a"
      unfolding same_elsewhere_def using attr_value_store assms(2,10) by blast
    ultimately show "step_ok geo (body @ pad) v a out ?o"
      using assms(6) by (simp add: step_ok_def)
  qed
qed

lemma normal_step:
  assumes "serialised geo body" "v < geo_count geo" "vertex_enums_ok g x" "vertex_shape out" "fresh out 10"
  defines "d \<equiv> attributes (geo_layout geo) ! 10"
  assumes "al_mode d \<noteq> 0"
  shows "\<exists>out'. decode_attr g x geo v 10 out = Inr out' \<and> step_ok geo (body @ pad) v 10 out out'"
proof -
  have m: "al_mode (attributes (geo_layout geo) ! 10) \<noteq> 0" using assms(7) by (simp add: d_def)
  have ten: "(9 :: nat) \<le> 10" "(10 :: nat) < 21" "\<not> is_color 10" by (simp_all add: is_color_def)
  note f = serialised_facts[OF assms(1) ten(2) m, folded d_def]
  have comps: "components d = 3 \<or> components d = 9" using f(1) by (auto simp: attr_shape_def is_color_def)
  have e0: "GX_NONE g = 0" using assms(3) by (simp add: vertex_enums_ok_def)
  have "attribute_value out 10 k = attribute_value GxDecodedVertex_init 10 k" if "k < 3" for k
    using assms(5) that by (simp add: fresh_def)
  from this[of 0] this[of 1] this[of 2]
  have l: "length (dv_normal out) = 3" "length (dv_binormal out) = 3" "length (dv_tangent out) = 3"
    by (simp_all add: attribute_value_def GxDecodedVertex_init_def)
  have grp: "\<exists>vals. length vals = 3 \<and>
      (\<forall>out. decode_group g x geo 10 d (record_at geo d v) (shader_group 10 d k) out = Inr (store_group 10 (shader_group 10 d k) vals out)) \<and>
      attribute_group (body @ pad) (header_of body) (of_nat v) 10 (of_nat k) = Some (vals @ [0])" if k3: "k < 3" for k
  proof -
    obtain vals where "length vals = value_count 10 d"
        "\<And>out. decode_group g x geo 10 d (record_at geo d v) (shader_group 10 d k) out =
           Inr (store_group 10 (shader_group 10 d k) vals out)"
        "attribute_group (body @ pad) (header_of body) (of_nat v) 10 (of_nat k) = Some (vals @ replicate (4 - length vals) 0)"
      by (rule numeric_group[OF assms(1) ten(1,2) assms(2,3), folded d_def, OF assms(7) ten(3) k3 refl, of pad]) (rule that)
    thus ?thesis by (intro exI[of _ vals]) (simp add: value_count_def numeral_eq_Suc)
  qed
  have finish: ?thesis
    if o: "decode_attr g x geo v 10 out = Inr o1" "vertex_shape o1" "same_elsewhere out o1 10"
        "dv_positionMatrix o1 = dv_positionMatrix out"
      and v: "\<And>k. k < 3 \<Longrightarrow> attribute_group (body @ pad) (header_of body) (of_nat v) 10 (of_nat k) = Some (attribute_value o1 10 k)" for o1
  proof -
    have "attribute_agrees (body @ pad) v o1 10"
      unfolding attribute_agrees_def
      by (intro allI impI group_agreesI[OF assms(1) ten(2) v]) (simp_all add: values_agree_def ten(3))
    thus ?thesis using o by (auto simp: step_ok_def)
  qed
  show ?thesis
  proof (cases "components d = 9")
    case True
    hence sg: "shader_group 10 d k = k" for k by (simp add: shader_group_def)
    obtain v0 where v0: "length v0 = 3"
        "\<And>out. decode_group g x geo 10 d (record_at geo d v) 0 out = Inr (store_group 10 0 v0 out)"
        "attribute_group (body @ pad) (header_of body) (of_nat v) 10 (of_nat 0) = Some (v0 @ [0])"
      using grp[of 0] unfolding sg by auto
    obtain v1 where v1: "length v1 = 3"
        "\<And>out. decode_group g x geo 10 d (record_at geo d v) 1 out = Inr (store_group 10 1 v1 out)"
        "attribute_group (body @ pad) (header_of body) (of_nat v) 10 (of_nat 1) = Some (v1 @ [0])"
      using grp[of 1] unfolding sg by auto
    obtain v2 where v2: "length v2 = 3"
        "\<And>out. decode_group g x geo 10 d (record_at geo d v) 2 out = Inr (store_group 10 2 v2 out)"
        "attribute_group (body @ pad) (header_of body) (of_nat v) 10 (of_nat 2) = Some (v2 @ [0])"
      using grp[of 2] unfolding sg by auto
    note v = v0(1) v1(1) v2(1) v0(2) v1(2) v2(2) v0(3) v1(3) v2(3)
    let ?o = "out\<lparr>dv_normal := v0, dv_binormal := v1, dv_tangent := v2\<rparr>"
    have "store_group 10 2 v2 (store_group 10 1 v1 (store_group 10 0 v0 out)) = ?o"
      using l v(1-3) by (simp add: store_group_def overwrite_full)
    hence o: "decode_attr g x geo v 10 out = Inr ?o"
      using True assms(7) e0 v(4-6) by (simp add: decode_attr_def Let_def upt_small d_def[symmetric])
    have "k = 0 \<or> k = 1 \<or> k = 2" if "k < 3" for k :: nat using that by auto
    hence a: "k < 3 \<Longrightarrow> attribute_group (body @ pad) (header_of body) (of_nat v) 10 (of_nat k) = Some (attribute_value ?o 10 k)" for k
      using v(7-9) by (fastforce simp: attribute_value_def)
    show ?thesis
      by (rule finish[OF o _ _ _ a]) (use assms(4) in \<open>simp_all add: vertex_shape_def same_elsewhere_def attribute_value_def\<close>)
  next
    case False
    hence c3: "components d = 3" using comps by simp
    hence sg: "shader_group 10 d k = 0" for k by (simp add: shader_group_def)
    obtain v0 where v0: "length v0 = 3"
        "\<And>out. decode_group g x geo 10 d (record_at geo d v) 0 out = Inr (store_group 10 0 v0 out)"
      using grp[of 0] unfolding sg by auto
    have same: "attribute_group (body @ pad) (header_of body) (of_nat v) 10 (of_nat k) = Some (v0 @ [0])" if k3: "k < 3" for k
    proof -
      obtain w where w: "length w = 3"
          "decode_group g x geo 10 d (record_at geo d v) 0 out = Inr (store_group 10 0 w out)"
          "attribute_group (body @ pad) (header_of body) (of_nat v) 10 (of_nat k) = Some (w @ [0])"
        using grp[OF k3] unfolding sg by blast
      have "dv_normal (store_group 10 0 w out) = dv_normal (store_group 10 0 v0 out)" using w(2) v0(2)[of out] by simp
      hence "w = v0" using w(1) v0(1) l(1) by (simp add: store_group_def overwrite_full)
      thus ?thesis using w(3) by simp
    qed
    let ?o = "out\<lparr>dv_normal := v0, dv_binormal := v0, dv_tangent := v0\<rparr>"
    have "store_group 10 0 v0 out = out\<lparr>dv_normal := v0\<rparr>"
      using l(1) v0(1) by (simp add: store_group_def overwrite_full)
    hence "decode_attr g x geo v 10 out = Inr ?o"
      using c3 assms(7) e0 v0(2) by (simp add: decode_attr_def Let_def upt_small d_def[symmetric])
    thus ?thesis
      by (rule finish) (use assms(4) same in \<open>simp_all add: vertex_shape_def same_elsewhere_def attribute_value_def\<close>)
  qed
qed

section \<open>All attributes\<close>

lemma matrix_index_read:
  assumes "serialised geo body" "a < 9" "v < geo_count geo" "al_mode (attributes (geo_layout geo) ! a) \<noteq> 0"
  defines "d \<equiv> attributes (geo_layout geo) ! a"
  obtains m where "load_attr (geo_records geo) (record_at geo d v) 1 False = Inr m"
    "read_uint (body @ pad) (word_at body 8 + of_nat v * word_at body 4 + of_nat (al_offset d)) 1 False = Some m"
proof -
  have a21: "a < 21" using assms(2) by simp
  note f = serialised_facts[OF assms(1) a21 assms(4), folded d_def]
  have sh: "al_mode d = 1" "components d = 1" "componentBytes d = 1" using f(1) assms(2) by (simp_all add: attr_shape_def)
  let ?s = "vl_stride (geo_layout geo)" let ?k = "v * ?s + al_offset d"
  have k: "?k + 1 \<le> length (geo_records geo)"
    by (rule vertex_inside[OF f(6) assms(3)]) (use f(3)[OF sh(1)] sh in simp)
  have c: "unat (record_at geo d v) = ?k"
  proof -
    have "?k < 2 ^ LENGTH(64)" using k f(2) by simp
    hence "unat (of_nat ?k :: u64) = ?k" by (rule unat_of_small)
    moreover have "record_at geo d v = of_nat ?k" by simp
    ultimately show ?thesis by (simp only:)
  qed
  have hs: "word_at body 4 = of_nat ?s" using assms(1) by (simp add: serialised_def)
  have g: "word_at body 8 + of_nat v * word_at body 4 + of_nat (al_offset d) = word_at body 8 + of_nat ?k"
    by (simp add: hs algebra_simps)
  obtain i where "read_uint (body @ pad) (word_at body 8 + of_nat v * word_at body 4 + of_nat (al_offset d)) 1 False = Some i"
      "load_attr (geo_records geo) (record_at geo d v) 1 False = Inr i"
    by (rule index_read[OF assms(1) k _ c g, of pad]) simp_all
  thus ?thesis using that by blast
qed

text \<open>What the step of any attribute delivers; the first one may set the position matrix.\<close>
definition attr_result :: "GxGeometry \<Rightarrow> u8 list \<Rightarrow> u8 list \<Rightarrow> nat \<Rightarrow> nat \<Rightarrow> GxDecodedVertex \<Rightarrow> GxDecodedVertex \<Rightarrow> bool" where
  "attr_result geo body pad v a out out' \<longleftrightarrow> vertex_shape out' \<and> same_elsewhere out out' a \<and>
     (9 \<le> a \<longrightarrow> attribute_agrees (body @ pad) v out' a) \<and>
     (let d = attributes (geo_layout geo) ! 0
      in if a = 0 \<and> al_mode d \<noteq> 0
         then map_option (\<lambda>m. m div 3) (read_uint (body @ pad) (word_at body 8 + of_nat v * word_at body 4 + of_nat (al_offset d)) 1 False) =
           Some (dv_positionMatrix out')
         else dv_positionMatrix out' = dv_positionMatrix out)"

lemma step_result: "step_ok geo (body @ pad) v a out out' \<Longrightarrow> 9 \<le> a \<Longrightarrow> attr_result geo body pad v a out out'"
  by (simp add: step_ok_def attr_result_def Let_def)

lemma decode_attr_step:
  assumes "serialised geo body" "a < 21" "v < geo_count geo" "vertex_enums_ok g x" "vertex_shape out" "9 \<le> a \<longrightarrow> fresh out a"
  shows "\<exists>out'. decode_attr g x geo v a out = Inr out' \<and> attr_result geo body pad v a out out'"
proof -
  let ?d = "attributes (geo_layout geo) ! a"
  have e0: "GX_NONE g = 0" using assms(4) by (simp add: vertex_enums_ok_def)
  consider (absent) "al_mode ?d = 0" | (matrix) "al_mode ?d \<noteq> 0" "a < 9" | (normal) "al_mode ?d \<noteq> 0" "a = 10"
    | (colour) "al_mode ?d \<noteq> 0" "9 \<le> a" "is_color a" | (numeric) "al_mode ?d \<noteq> 0" "9 \<le> a" "\<not> is_color a" "a \<noteq> 10"
    by linarith
  thus ?thesis
  proof cases
    case absent
    have "attribute_agrees (body @ pad) v out a" if "9 \<le> a"
      by (rule absent_agrees[OF assms(1) that assms(2) absent]) (use assms(6) that in simp)
    hence "attr_result geo body pad v a out out"
      using assms(5) absent by (auto simp: attr_result_def same_elsewhere_def Let_def)
    thus ?thesis using absent e0 by (simp add: decode_attr_def Let_def)
  next
    case matrix
    obtain m where m: "load_attr (geo_records geo) (record_at geo ?d v) 1 False = Inr m"
        "read_uint (body @ pad) (word_at body 8 + of_nat v * word_at body 4 + of_nat (al_offset ?d)) 1 False = Some m"
      by (rule matrix_index_read[OF assms(1) matrix(2) assms(3) matrix(1)])
    let ?o = "if a = 0 then out\<lparr>dv_positionMatrix := m div 3\<rparr>
      else out\<lparr>dv_textureMatrices := (dv_textureMatrices out)[a - 1 := m]\<rparr>"
    have "decode_attr g x geo v a out = Inr ?o"
      using matrix e0 m(1) by (simp add: decode_attr_def Let_def)
    moreover have "attr_result geo body pad v a out ?o"
      using assms(5) matrix m(2)
      by (auto simp: attr_result_def vertex_shape_def same_elsewhere_def attribute_value_def Let_def)
    ultimately show ?thesis by blast
  next
    case normal
    have "fresh out 10" using assms(6) normal(2) by simp
    from normal_step[OF assms(1,3,4,5) this, of pad] show ?thesis
      using normal step_result by fastforce
  next
    case colour
    obtain out' where o: "decode_groups g x geo a ?d (record_at geo ?d v) [0..<1] out = Inr out'"
        "step_ok geo (body @ pad) v a out out'"
      by (rule colour_step[OF assms(1-5) colour(1,3), of pad]) (rule that)
    have "a \<noteq> 10" using colour(3) by (auto simp: is_color_def)
    hence "decode_attr g x geo v a out = Inr out'"
      using colour(1,2) e0 o(1) by (simp add: decode_attr_def Let_def)
    thus ?thesis using step_result[OF o(2) colour(2)] by blast
  next
    case numeric
    obtain out' where o: "decode_groups g x geo a ?d (record_at geo ?d v) [0..<1] out = Inr out'"
        "step_ok geo (body @ pad) v a out out'"
      by (rule numeric_step[OF assms(1) numeric(2) assms(2-5) _ numeric(1,3,4), of pad])
         (use assms(6) numeric(2) in simp, rule that)
    have "decode_attr g x geo v a out = Inr out'"
      using numeric(1,2,4) e0 o(1) by (simp add: decode_attr_def Let_def)
    thus ?thesis using step_result[OF o(2) numeric(2)] by blast
  qed
qed

lemma agrees_elsewhere:
  "same_elsewhere out out' a \<Longrightarrow> 9 \<le> b \<Longrightarrow> b < 21 \<Longrightarrow> b \<noteq> a \<Longrightarrow> attribute_agrees c v out b \<Longrightarrow> attribute_agrees c v out' b"
  by (auto simp: same_elsewhere_def attribute_agrees_def group_agrees_def split: option.splits)

lemma fresh_elsewhere:
  "same_elsewhere out out' a \<Longrightarrow> 9 \<le> b \<Longrightarrow> b < 21 \<Longrightarrow> b \<noteq> a \<Longrightarrow> fresh out b \<Longrightarrow> fresh out' b"
  by (auto simp: same_elsewhere_def fresh_def)

lemma decode_attrs_run:
  assumes "serialised geo body" "v < geo_count geo" "vertex_enums_ok g x"
    "set as \<subseteq> {1..<21}" "distinct as" "vertex_shape out" "\<forall>a\<in>set as. 9 \<le> a \<longrightarrow> fresh out a"
  shows "\<exists>out'. decode_attrs g x geo v as out = Inr out' \<and> dv_positionMatrix out' = dv_positionMatrix out \<and>
    (\<forall>a. 9 \<le> a \<longrightarrow> a < 21 \<longrightarrow> a \<in> set as \<or> attribute_agrees (body @ pad) v out a \<longrightarrow> attribute_agrees (body @ pad) v out' a)"
  using assms(4-7)
proof (induction "as" arbitrary: out)
  case (Cons a as)
  have a: "a < 21" "a \<noteq> 0" "a \<notin> set as" "set as \<subseteq> {1..<21}" "distinct as" using Cons.prems(1,2) by auto
  have "9 \<le> a \<longrightarrow> fresh out a" using Cons.prems(4) by simp
  then obtain o1 where o1: "decode_attr g x geo v a out = Inr o1" "attr_result geo body pad v a out o1"
    using decode_attr_step[OF assms(1) a(1) assms(2,3) Cons.prems(3)] by blast
  have r: "vertex_shape o1" "same_elsewhere out o1 a" "9 \<le> a \<longrightarrow> attribute_agrees (body @ pad) v o1 a"
      "dv_positionMatrix o1 = dv_positionMatrix out"
    using o1(2) a(2) by (simp_all add: attr_result_def Let_def)
  have "\<forall>b\<in>set as. 9 \<le> b \<longrightarrow> fresh o1 b"
  proof (intro ballI impI)
    fix b assume b: "b \<in> set as" "9 \<le> b"
    show "fresh o1 b"
      by (rule fresh_elsewhere[OF r(2) b(2)]) (use b a Cons.prems(4) in auto)
  qed
  from Cons.IH[OF a(4,5) r(1) this] obtain o2 where o2: "decode_attrs g x geo v as o1 = Inr o2"
      "dv_positionMatrix o2 = dv_positionMatrix o1"
      "\<forall>b. 9 \<le> b \<longrightarrow> b < 21 \<longrightarrow> b \<in> set as \<or> attribute_agrees (body @ pad) v o1 b \<longrightarrow> attribute_agrees (body @ pad) v o2 b"
    by blast
  have "attribute_agrees (body @ pad) v o2 b"
    if b: "9 \<le> b" "b < 21" "b \<in> set (a # as) \<or> attribute_agrees (body @ pad) v out b" for b
  proof (cases "b = a")
    case True
    thus ?thesis using r(3) o2(3) b(1,2) by simp
  next
    case False
    thus ?thesis using b o2(3) agrees_elsewhere[OF r(2) b(1,2) False] by auto
  qed
  thus ?case using o1(1) o2(1,2) r(4) by auto
qed auto

end
