(* ===== verification/VertexProps.thy ===== *)
theory VertexProps
  imports VertexAgreement NativeBackend DecoderProps
begin

text \<open>
  The properties of the vertex path: the size and the contents of the serialised geometry buffer, and
  the agreement of the vertex shader's fetch with the CPU reference reader.  The witnesses use a
  draw of two points with an indexed position and a direct colour.
\<close>

section \<open>The size of the buffer\<close>

text \<open>The capacity that \<open>serialize_gx_geometry\<close> computes: header and metadata, and every range rounded up to words.\<close>
definition buffer_total :: "GxGeometry \<Rightarrow> nat" where
  "buffer_total g = 704 + align4 (length (geo_records g)) + (\<Sum>a\<leftarrow>[0..<21]. align4 (length (as_bytes (geo_arrays g ! a))))"

lemma align4_0 [simp]: "align4 0 = 0" by (simp add: align4_def)

lemma align4_add: "n mod 4 = 0 \<Longrightarrow> align4 (n + m) = n + align4 m"
  unfolding align4_def by presburger

lemma append_interval_cases:
  assumes "buffer_ok out"
  shows "(case append_interval xs out of
      Inl e \<Rightarrow> length out + align4 (length xs) > 2 ^ 32 - 8
    | Inr (out', pos) \<Rightarrow> buffer_ok out' \<and> length out' = length out + align4 (length xs))"
proof (cases "append_interval xs out")
  case (Inl e)
  have "int (length xs) > (2 ^ 32 - 1 - int (length out) - 7) mod 2 ^ 64"
    using Inl by (auto simp: append_interval_def Let_def split: if_splits)
  moreover have "(2 ^ 32 - 1 - int (length out) - 7) mod 2 ^ 64 = 2 ^ 32 - 8 - int (length out)"
    using assms by (subst mod_pos_pos_trivial) (auto simp: buffer_ok_def)
  ultimately have "length out + length xs > 2 ^ 32 - 8" using assms by (auto simp: buffer_ok_def)
  thus ?thesis using Inl align4_props(1)[of "length xs"] by simp
next
  case (Inr r)
  obtain out' pos where r: "r = (out', pos)" by (cases r)
  have "length out' = align4 (length out + length xs)"
    using Inr r align4_props(1)[of "length out + length xs"] by (auto simp: append_interval_def Let_def split: if_splits)
  thus ?thesis
    using Inr r append_interval_ok(1)[of xs out out' pos] assms align4_add[of "length out"] by (simp add: buffer_ok_def)
qed

lemma serialize_attributes_size:
  fixes g :: GxGeometry
  assumes "buffer_ok out" "set as \<subseteq> {..<21}"
  defines "n \<equiv> length out + (\<Sum>a\<leftarrow>as. align4 (length (as_bytes (geo_arrays g ! a))))"
  shows "(case serialize_attributes g as out of Inl e \<Rightarrow> n > 2 ^ 32 - 8
    | Inr out' \<Rightarrow> n \<le> 2 ^ 32 - 8 \<and> length out' = n)"
  using assms(1,2) unfolding n_def
proof (induction "as" arbitrary: out)
  case Nil
  thus ?case by (simp add: buffer_ok_def)
next
  case (Cons a as)
  let ?s = "geo_arrays g ! a"
  let ?w = "write_attribute (32 + a * 32) (attributes (geo_layout g) ! a) ?s out"
  have w: "buffer_ok ?w" "length ?w = length out" using Cons.prems write_attribute_keeps[of a] by simp_all
  show ?case
  proof (cases "as_bytes ?s = []")
    case True
    thus ?thesis using Cons.IH[OF w(1)] Cons.prems w(2) by (simp add: Let_def split: sum.splits)
  next
    case F: False
    show ?thesis
    proof (cases "append_interval (as_bytes ?s) ?w")
      case (Inl e)
      thus ?thesis using append_interval_cases[OF w(1), of "as_bytes ?s"] F w(2) by (simp add: Let_def split: sum.splits)
    next
      case (Inr r)
      obtain out2 pos where r: "r = (out2, pos)" by (cases r)
      have o: "buffer_ok out2" "length out2 = length out + align4 (length (as_bytes ?s))"
        using append_interval_cases[OF w(1), of "as_bytes ?s"] Inr r w(2) by simp_all
      show ?thesis
        using Cons.IH[of "write_u32 (32 + a * 32 + 20) (of_nat (length (as_bytes ?s))) (write_u32 (32 + a * 32 + 16) pos out2)"]
          Cons.prems o F Inr r by (simp add: Let_def add.assoc split: sum.splits)
    qed
  qed
qed

lemma buffer_size_cases:
  "(case serialize_gx_geometry geo of Inl e \<Rightarrow> buffer_total geo > 2 ^ 32 - 8
    | Inr b \<Rightarrow> buffer_total geo \<le> 2 ^ 32 - 8 \<and> length b = buffer_total geo + 4)"
proof -
  let ?h = "geometry_header geo"
  have h: "buffer_ok ?h" "length ?h = 704" by (simp_all add: buffer_ok_def geometry_header_words)
  have sub: "set [0..<21] \<subseteq> {..<21 :: nat}" by auto
  show ?thesis
  proof (cases "append_interval (geo_records geo) ?h")
    case (Inl e)
    thus ?thesis
      using append_interval_cases[OF h(1), of "geo_records geo"] h(2)
      by (simp add: serialize_gx_geometry_def buffer_total_def)
  next
    case (Inr r)
    obtain out pos where r: "r = (out, pos)" by (cases r)
    have o: "buffer_ok (write_u32 8 pos out)" "length (write_u32 8 pos out) = 704 + align4 (length (geo_records geo))"
      using append_interval_cases[OF h(1), of "geo_records geo"] Inr r h(2) by simp_all
    note a = serialize_attributes_size[OF o(1) sub, of geo, unfolded o(2)]
    show ?thesis
      using a Inr r unfolding serialize_gx_geometry_def buffer_total_def by (simp split: sum.splits)
  qed
qed

text \<open>C4. The serialised geometry has exactly the size that is reserved for it, header, word-aligned ranges
  and four bytes of padding, and serialising fails exactly when that would leave the 32-bit offsets.\<close>
theorem geometry_buffer_size:
  "(case serialize_gx_geometry geo of Inl e \<Rightarrow> buffer_total geo > 2 ^ 32 - 8
    | Inr b \<Rightarrow> buffer_total geo \<le> 2 ^ 32 - 8 \<and> length b = buffer_total geo + 4)"
  by (rule buffer_size_cases)

section \<open>Contents and fetch\<close>

text \<open>The draw of the witnesses: two points, an 8-bit index for the position (a pair of bytes with six bytes
  stride) and a direct RGB565 colour.\<close>
definition demo_state :: native_ctx where
  "demo_state = (let s = GXRegisterState_init sdk_enums native_init
     in s\<lparr>vtxDesc := (vtxDesc s)[9 := 2, 11 := 1],
          arrays := (arrays s)[9 := (arrays s ! 9)\<lparr>arr_data := 0x1000, arr_size := 64, arr_stride := 6\<rparr>]\<rparr>)"

definition demo_resolver :: gx_resolver where
  "demo_resolver = (\<lambda>_ _ off n. Inr (map of_nat [unat off..<unat off + unat n]))"

lemmas demo_simps = demo_state_def GxVertexLayout_build_def upt_21 attr_layout_def Let_def attr_format_def
  GXRegisterState_init_def sdk_enums_def sdk_render_def is_color_def GxAttributeLayout_init_def AttrArray_init_def
  color_sizes_def

abbreviation (input) no_attr :: GxAttributeLayout where
  "no_attr \<equiv> \<lparr>al_mode = 0, al_type = 4, al_offset = 0, componentBytes = 0, components = 0, indexCount = 1,
     arrayStride = 0, fraction = 0, arrayLittleEndian = False\<rparr>"

definition demo_layout :: GxVertexLayout where
  "demo_layout = \<lparr>attributes = replicate 9 no_attr @
     [\<lparr>al_mode = 2, al_type = 0, al_offset = 0, componentBytes = 1, components = 2, indexCount = 1,
        arrayStride = 6, fraction = 0, arrayLittleEndian = True\<rparr>, no_attr,
      \<lparr>al_mode = 1, al_type = 0, al_offset = 1, componentBytes = 2, components = 1, indexCount = 1,
        arrayStride = 0, fraction = 0, arrayLittleEndian = False\<rparr>] @ replicate 9 no_attr, vl_stride = 3\<rparr>"

lemma replicate_9: "replicate 9 y = [y, y, y, y, y, y, y, y, y]"
  by (simp add: numeral_eq_Suc)

lemma demo_layout_built: "GxVertexLayout_build sdk_enums sdk_render demo_state 0 = Inr demo_layout"
  by (simp add: demo_simps demo_layout_def replicate_9)

definition demo_geometry :: GxGeometry where
  "demo_geometry = \<lparr>geo_layout = demo_layout, geo_records = [4, 0xF8, 0x1F, 9, 0x07, 0xE0],
     geo_arrays = (replicate 21 \<lparr>sourceOffset = 0, as_bytes = []\<rparr>)[9 := \<lparr>sourceOffset = 24, as_bytes = map of_nat [24..<56]\<rparr>],
     geo_indices = [0, 1], geo_primitive = GX_POINTS, geo_count = 2, geo_currentPnMtx = 0\<rparr>"

lemma demo_snapshot:
  "GxGeometry_snapshot sdk_enums demo_resolver demo_layout demo_state GX_POINTS 2 [4, 0xF8, 0x1F, 9, 0x07, 0xE0] =
     Inr demo_geometry"
proof -
  have nine: "[9..<21] = [9, 10, 11, 12, 13, 14, 15, 16, 17, 18, 19, 20 :: nat]" by (simp add: upt_rec)
  have d: "attributes demo_layout ! 9 = \<lparr>al_mode = 2, al_type = 0, al_offset = 0, componentBytes = 1, components = 2,
      indexCount = 1, arrayStride = 6, fraction = 0, arrayLittleEndian = True\<rparr>"
    "\<And>a. a \<in> {10, 11, 12, 13, 14, 15, 16, 17, 18, 19, 20} \<Longrightarrow> \<not> is_indexed (attributes demo_layout ! a)"
    by (auto simp: demo_layout_def is_indexed_def nth_append nth_Cons')
  have a: "snapshot_array demo_resolver 9 (arrays demo_state ! 9) (attributes demo_layout ! 9) [4, 0xF8, 0x1F, 9, 0x07, 0xE0] 2 3 =
      Inr \<lparr>sourceOffset = 24, as_bytes = map of_nat [24..<56]\<rparr>"
    unfolding d(1)
    by (simp add: snapshot_array_def demo_state_def Let_def GXRegisterState_init_def sdk_enums_def scan_indices_def index_width_def
        min_max_def element_bytes_def demo_resolver_def upt_rec)
  have s: "vl_stride demo_layout = 3" by (simp add: demo_layout_def)
  have e0: "is_indexed (attributes demo_layout ! 9)" by (simp add: d(1) is_indexed_def)
  have "snapshot_records sdk_enums demo_resolver demo_layout demo_state 2 [4, 0xF8, 0x1F, 9, 0x07, 0xE0] =
      Inr (demo_geometry\<lparr>geo_indices := [], geo_primitive := GX_TRIANGLES\<rparr>)"
    unfolding snapshot_records_def nine s
    by (simp add: d(2) a s e0 Let_def)
       (simp add: demo_geometry_def demo_state_def Let_def GXRegisterState_init_def sdk_enums_def d(1) is_indexed_def)
  thus ?thesis by (simp add: GxGeometry_snapshot_def build_indices_def demo_geometry_def upt_rec)
qed

lemma demo_total: "buffer_total demo_geometry = 744"
  by (simp add: buffer_total_def demo_geometry_def upt_21 align4_def)

lemma demo_serialized: "\<exists>b. serialize_gx_geometry demo_geometry = Inr b"
  using buffer_size_cases[of demo_geometry] demo_total by (auto split: sum.splits)

text \<open>The bytes at an offset, with the padding that lets a word load run past their end.\<close>
definition holds_at :: "u8 list \<Rightarrow> nat \<Rightarrow> u8 list \<Rightarrow> bool" where
  "holds_at b p xs \<longleftrightarrow> p + length xs + 4 \<le> length b \<and> take (length xs) (drop p b) = xs"

lemma range_holds: "range_at body p xs \<Longrightarrow> holds_at (body @ replicate 4 0) p xs"
  unfolding holds_at_def by (auto simp: range_at_def intro!: nth_equalityI)

text \<open>C3. What is serialised is read back: the header words, the four layout words of an attribute, the vertex
  records at the offset the header names and the captured array range at the offset the metadata names,
  each of these with at least four more bytes of the buffer behind it.\<close>
theorem geometry_buffer_round_trip:
  assumes "serialize_gx_geometry geo = Inr b" "a < 21"
  shows "let d = attributes (geo_layout geo) ! a; arr = geo_arrays geo ! a; pos = 32 + 32 * a in
    [word_at b 0, word_at b 4, word_at b 12, word_at b 16] =
      [0x31565847, of_nat (vl_stride (geo_layout geo)), of_nat (geo_count geo), geo_currentPnMtx geo] \<and>
    holds_at b (unat (word_at b 8)) (geo_records geo) \<and>
    [word_at b pos, word_at b (pos + 4), word_at b (pos + 8), word_at b (pos + 12)] =
      [attribute_flags d, of_nat (al_offset d), of_nat (arrayStride d), of_nat (sourceOffset arr)] \<and>
    (as_bytes arr = [] \<or> holds_at b (unat (word_at b (pos + 16))) (as_bytes arr))"
proof -
  obtain body where o: "b = body @ replicate 4 0" "buffer_ok body"
    "word_at body 0 = MKW_GX_VERTEX_MAGIC" "word_at body 4 = of_nat (vl_stride (geo_layout geo))"
    "range_at body (unat (word_at body 8)) (geo_records geo)"
    "word_at body 12 = of_nat (geo_count geo)" "word_at body 16 = geo_currentPnMtx geo"
    "\<And>a. a < 21 \<Longrightarrow> entry_ok geo body a"
    by (rule serialize_gx_geometry_ok[OF assms(1)]) (rule that)
  have w: "word_at b i = word_at body i" if "i + 4 \<le> 704" for i
    unfolding o(1) by (rule word_at_append) (use that o(2) in \<open>simp add: buffer_ok_def\<close>)
  have e: "entry_ok geo body a" by (rule o(8)[OF assms(2)])
  have m: "mult32 = 32 * a \<Longrightarrow> mult32 \<le> 640" for mult32 using assms(2) by simp
  show ?thesis
    using e range_holds[OF o(5), folded o(1)] range_holds[of body _ "as_bytes (geo_arrays geo ! a)", folded o(1)]
      o(3,4,6,7) m[OF refl]
    by (auto simp: Let_def w entry_ok_def mult.commute)
qed

theorem geometry_buffer_round_trip_witness:
  "\<exists>b. serialize_gx_geometry demo_geometry = Inr b \<and> holds_at b (unat (word_at b 8)) [4, 0xF8, 0x1F, 9, 0x07, 0xE0] \<and>
    word_at b 4 = 3"
proof -
  obtain b where b: "serialize_gx_geometry demo_geometry = Inr b" using demo_serialized by blast
  from geometry_buffer_round_trip[OF b, of 9]
  have "holds_at b (unat (word_at b 8)) (geo_records demo_geometry) \<and> word_at b 4 = of_nat (vl_stride (geo_layout demo_geometry))"
    by (simp add: Let_def)
  thus ?thesis using b by (simp add: demo_geometry_def demo_layout_def)
qed

text \<open>C2. The vertex shader's fetch of any attribute of any vertex of a snapshot reads only inside the serialised
  buffer and gives what the CPU reference reader decodes: the same floats for positions, normals and texture
  coordinates, the same colour channels up to the conversion to a float, and the same position matrix up
  to the shader's clamp.\<close>
theorem vertex_fetch_matches_reference:
  assumes "GxVertexLayout_build g x s0 format = Inr lay" "vertex_enums_ok g x"
    "GxGeometry_snapshot g rsv lay s p count rs = Inr geo \<or> GxGeometry_snapshot_segments g rsv lay s sgs rs = Some (Inr geo)"
    "serialize_gx_geometry geo = Inr b" "v < geo_count geo"
  shows "\<exists>out. decode_gx_vertex g x geo v = Inr out \<and>
    list_all (\<lambda>a. list_all (group_agrees b v out a) [0..<3]) [9..<21] \<and>
    vertex_matrix b (of_nat v) = Some (if dv_positionMatrix out < 20 then dv_positionMatrix out else 19)"
proof -
  have ok: "geometry_ok geo" using assms(3) snapshot_geometry_ok[OF assms(1,2)] by blast
  obtain body where o: "b = body @ replicate 4 0" "buffer_ok body" "word_at body 4 = of_nat (vl_stride (geo_layout geo))"
    "range_at body (unat (word_at body 8)) (geo_records geo)" "word_at body 16 = geo_currentPnMtx geo"
    "\<And>a. a < 21 \<Longrightarrow> entry_ok geo body a"
    by (rule serialize_gx_geometry_ok[OF assms(4)]) (rule that)
  have ser: "serialised geo body" using ok o by (simp add: serialised_def)
  let ?i = "GxDecodedVertex_init\<lparr>dv_positionMatrix := geo_currentPnMtx geo\<rparr>"
  have i: "vertex_shape ?i" "fresh ?i a" for a
    by (simp_all add: vertex_shape_def fresh_def attribute_value_def GxDecodedVertex_init_def)
  obtain o1 where o1: "decode_attr g x geo v 0 ?i = Inr o1" "attr_result geo body (replicate 4 0) v 0 ?i o1"
    using decode_attr_step[OF ser _ assms(5,2) i(1), of 0 "replicate 4 0"] by auto
  have sh: "vertex_shape o1" "same_elsewhere ?i o1 0" using o1(2) by (simp_all add: attr_result_def)
  have fr: "\<forall>a\<in>set [1..<21]. 9 \<le> a \<longrightarrow> fresh o1 a"
    using fresh_elsewhere[OF sh(2) _ _ _ i(2)] by auto
  have sub: "set [1..<21] \<subseteq> {1..<21 :: nat}" by auto
  obtain out where out: "decode_attrs g x geo v [1..<21] o1 = Inr out" "dv_positionMatrix out = dv_positionMatrix o1"
      "\<forall>a. 9 \<le> a \<longrightarrow> a < 21 \<longrightarrow> a \<in> set [1..<21] \<or> attribute_agrees (body @ replicate 4 0) v o1 a \<longrightarrow>
         attribute_agrees (body @ replicate 4 0) v out a"
    using decode_attrs_run[OF ser assms(5,2) sub distinct_upt sh(1) fr, of "replicate 4 0"] by blast
  have "[0..<21] = 0 # [1..<21 :: nat]" by (simp add: upt_rec)
  hence d: "decode_gx_vertex g x geo v = Inr out"
    unfolding decode_gx_vertex_def if_P[OF assms(5)] using o1(1) out(1) by (simp del: upt_Suc)
  have "attribute_agrees b v out a" if "9 \<le> a" "a < 21" for a
    using out(3) that unfolding o(1) by auto
  hence l: "list_all (\<lambda>a. list_all (group_agrees b v out a) [0..<3]) [9..<21]"
    by (simp add: list_all_iff attribute_agrees_def)
  have "vertex_matrix b (of_nat v) = Some (if dv_positionMatrix out < 20 then dv_positionMatrix out else 19)"
  proof -
    let ?d = "attributes (geo_layout geo) ! 0"
    have bl: "704 \<le> length body" using o(2) by (simp add: buffer_ok_def)
    have m: "load_meta b 0 = Some (header_of body)"
        "load_meta b 32 = Some (word_at body 32, word_at body 36, word_at body 40, word_at body 44)"
        "load_meta b 16 = Some (word_at body 16, word_at body 20, word_at body 24, word_at body 28)"
      unfolding o(1) using bl by (simp_all add: load_meta_def word_at_append)
    have f: "word_at body 32 = attribute_flags ?d" "word_at body 36 = of_nat (al_offset ?d)"
      using o(6)[of 0] by (simp_all add: entry_ok_def Let_def)
    show ?thesis
    proof (cases "al_mode ?d = 0")
      case True
      hence "dv_positionMatrix o1 = geo_currentPnMtx geo" using o1(2) by (simp add: attr_result_def Let_def)
      moreover have "word_at body 32 AND 3 = 0" using attribute_flags_none[OF True] f(1) by simp
      ultimately show ?thesis by (simp add: vertex_matrix_def m o(5) out(2))
    next
      case False
      have "attr_shape 0 ?d" using ok False by (simp add: geometry_ok_def Let_def)
      hence "word_at body 32 AND 3 \<noteq> 0" using attribute_flags_fields(1) f(1) False by metis
      moreover have "map_option (\<lambda>m. m div 3) (read_uint b (word_at body 8 + of_nat v * word_at body 4 + word_at body 36) 1 False) =
          Some (dv_positionMatrix out)"
        using o1(2) False out(2) unfolding o(1) by (simp add: attr_result_def Let_def f(2))
      ultimately show ?thesis by (auto simp: vertex_matrix_def m)
    qed
  qed
  thus ?thesis using d l by blast
qed

theorem vertex_fetch_matches_reference_witness:
  "\<exists>b out. serialize_gx_geometry demo_geometry = Inr b \<and> decode_gx_vertex sdk_enums sdk_render demo_geometry 1 = Inr out \<and>
    vertex_attribute b 1 9 0 = Some (attribute_value out 9 0)"
proof -
  obtain b where b: "serialize_gx_geometry demo_geometry = Inr b" using demo_serialized by blast
  have e: "vertex_enums_ok sdk_enums sdk_render" by (simp add: vertex_enums_ok_def sdk_enums_def sdk_render_def)
  have "1 < geo_count demo_geometry" by (simp add: demo_geometry_def)
  from vertex_fetch_matches_reference[OF demo_layout_built e disjI1[OF demo_snapshot] b this]
  obtain out where "decode_gx_vertex sdk_enums sdk_render demo_geometry 1 = Inr out"
      "list_all (\<lambda>a. list_all (group_agrees b 1 out a) [0..<3]) [9..<21]" by blast
  moreover from this(2) have "group_agrees b 1 out 9 0" by (simp add: list_all_iff)
  ultimately show ?thesis
    using b by (auto simp: group_agrees_def values_agree_def is_color_def split: option.splits)
qed


end
