(* ===== verification/GxColorCopy.thy ===== *)
theory GxColorCopy
  imports TextureLayout GxShaderConfig ErrorLists
begin

text \<open>
  ps5/gpu/gx_copy_texture_cache.cpp and gx_copy_readback.cpp: a finished copy of the embedded frame
  buffer, the cache that offers such copies as textures under the host address of their
  destination, and the readback of a copy into the tiled storage of the console.

  A target is immutable while a copy holds it, so it is its layout, its address (zero once released)
  and the bytes at that address.  The encoder of the console's formats is in the game's runtime, not in this repository:
  it is the pair \<open>encoded_size\<close>, \<open>ram_encode\<close> of the parameter record.
\<close>

record GpuColorTarget =
  ct_layout :: TextureLayout
  ct_address :: u64
  ct_pixels :: "nat \<Rightarrow> u8"

record GxColorCopy =
  cp_width :: u32
  cp_height :: u32
  cp_target :: "GpuColorTarget option"
  cp_format :: u32
  cp_nativeReadback :: "GpuColorTarget option"

record ram_encoder =
  encoded_size :: "u32 \<Rightarrow> u32 \<Rightarrow> u32 \<Rightarrow> nat"
  ram_encode :: "u32 \<Rightarrow> u32 \<Rightarrow> u32 \<Rightarrow> u8 list \<Rightarrow> (nat \<Rightarrow> u8) option"

definition target_live :: "GpuColorTarget option \<Rightarrow> bool" where
  "target_live t \<longleftrightarrow> (case t of None \<Rightarrow> False | Some c \<Rightarrow> ct_address c \<noteq> 0)"

definition texture_descriptor :: "GpuColorTarget \<Rightarrow> string + u32 list" where
  "texture_descriptor t =
     (if ct_address t = 0 then Inl ''Color target is released''
      else bgra_descriptor (ct_layout t) (ct_address t))"

definition mkw_copy_color_format :: "u32 \<Rightarrow> bool" where
  "mkw_copy_color_format fmt \<longleftrightarrow> fmt \<le> 6 \<or> fmt = 0x20 \<or> fmt = 0x22 \<or> fmt = 0x23 \<or> (fmt \<ge> 0x27 \<and> fmt \<le> 0x2c)"

definition mkw_copy_depth_format :: "u32 \<Rightarrow> bool" where
  "mkw_copy_depth_format fmt \<longleftrightarrow> fmt = 0x13 \<or> fmt = 0x16"

section \<open>The cache of copies\<close>

type_synonym copy_cache = "u64 \<rightharpoonup> GxColorCopy"

definition publish_handle :: "u64 \<Rightarrow> GxColorCopy option \<Rightarrow> copy_cache \<Rightarrow> string + copy_cache" where
  "publish_handle destination copy c =
     (case copy of None \<Rightarrow> Inl ''Null GX copy handle''
      | Some h \<Rightarrow>
         if destination = 0 \<or> cp_width h = 0 \<or> cp_height h = 0 \<or> cp_width h > 16384 \<or> cp_height h > 16384 \<or>
            \<not> target_live (cp_target h) then Inl ''Invalid completed GX color copy''
         else if \<not> mkw_copy_color_format (cp_format h) \<and> \<not> mkw_copy_depth_format (cp_format h) then
           Inl ''Unsupported GX color-copy format''
         else case texture_descriptor (the (cp_target h)) of
           Inl err \<Rightarrow> Inl err | Inr _ \<Rightarrow> Inr (c(destination \<mapsto> h)))"

definition publish_copy :: "u64 \<Rightarrow> u32 \<Rightarrow> u32 \<Rightarrow> u32 \<Rightarrow> GpuColorTarget option \<Rightarrow> copy_cache \<Rightarrow>
   string + copy_cache" where
  "publish_copy destination w h fmt t =
     publish_handle destination (Some \<lparr>cp_width = w, cp_height = h, cp_target = t, cp_format = fmt,
       cp_nativeReadback = None\<rparr>)"

definition publish_rgba8 :: "gx_texture_enums \<Rightarrow> u64 \<Rightarrow> u32 \<Rightarrow> u32 \<Rightarrow> GpuColorTarget option \<Rightarrow> copy_cache \<Rightarrow>
   string + copy_cache" where
  "publish_rgba8 g destination w h = publish_copy destination w h (GX_TF_RGBA8 g)"

definition copy_resolve :: "gx_texture_enums \<Rightarrow> GXTexObj \<Rightarrow> copy_cache \<Rightarrow> string + GxColorCopy option" where
  "copy_resolve g t c =
     (case c (to_data t) of None \<Rightarrow> Inr None
      | Some copy \<Rightarrow>
         if to_width t \<noteq> cp_width copy \<or> to_height t \<noteq> cp_height copy \<or>
            \<not> copy_texture_format_compatible g (cp_format copy) (to_format t) \<or> mip_count t \<noteq> 1 then
           Inl ''GX copy reinterpretation/mip conversion requires deferred readback or GPU conversion''
         else case texture_descriptor (the (cp_target copy)) of
           Inl err \<Rightarrow> Inl err | Inr _ \<Rightarrow> Inr (Some copy))"

definition copy_evict :: "u64 \<Rightarrow> copy_cache \<Rightarrow> copy_cache" where
  "copy_evict destination c = c(destination := None)"

definition copy_clear :: "copy_cache \<Rightarrow> copy_cache" where
  "copy_clear c = (\<lambda>_. None)"

text \<open>What the decoder's callback for a destroyed copy texture does to the cache.\<close>
definition evict_copies :: "u64 \<Rightarrow> copy_cache \<Rightarrow> copy_cache" where
  "evict_copies destination c = (if destination \<noteq> 0 then copy_evict destination c else copy_clear c)"

section \<open>Readback\<close>

definition readback_target :: "GxColorCopy \<Rightarrow> GpuColorTarget option" where
  "readback_target copy = (case cp_nativeReadback copy of Some n \<Rightarrow> Some n | None \<Rightarrow> cp_target copy)"

definition native_size :: "GxColorCopy \<Rightarrow> GpuColorTarget \<Rightarrow> bool" where
  "native_size copy t \<longleftrightarrow> unat (cp_width copy) = tx_width (ct_layout t) \<and> unat (cp_height copy) = tx_height (ct_layout t)"

definition readable_format :: "GxColorCopy \<Rightarrow> bool" where
  "readable_format copy \<longleftrightarrow> mkw_copy_color_format (cp_format copy) \<or> mkw_copy_depth_format (cp_format copy)"

text \<open>The texels of level 0, row by row, four bytes each.\<close>
definition linear_pixels :: "GpuColorTarget \<Rightarrow> nat \<Rightarrow> nat \<Rightarrow> string + u8 list" where
  "linear_pixels t w h =
     (case map_err (\<lambda>(x, y). case pixel_offset (ct_layout t) x y 0 of
                      Inl err \<Rightarrow> Inl err | Inr off \<Rightarrow> Inr (map (ct_pixels t) [off ..< off + 4]))
             (concat (map (\<lambda>y. map (\<lambda>x. (x, y)) [0..<w]) [0..<h])) of
        Inl err \<Rightarrow> Inl err | Inr texels \<Rightarrow> Inr (concat texels))"

definition encode_native_color_copy :: "ram_encoder \<Rightarrow> GxColorCopy \<Rightarrow> string + u8 list" where
  "encode_native_color_copy e copy =
     (if \<not> target_live (cp_target copy) \<or> \<not> readable_format copy then
        Inl ''Invalid completed color copy for readback''
      else
        (let t = the (readback_target copy); w = cp_width copy; h = cp_height copy
         in if ct_address t = 0 then Inl ''Released native copy readback target''
            else if \<not> native_size copy t then
              Inl ''Color copy must be GPU-downscaled to native dimensions before RAM encoding''
            else if encoded_size e (cp_format copy) w h = 0 then Inl ''Unsupported Wii RAM copy encoding''
            else case linear_pixels t (unat w) (unat h) of Inl err \<Rightarrow> Inl err
              | Inr pixels \<Rightarrow>
                  (case ram_encode e (cp_format copy) w h pixels of
                     None \<Rightarrow> Inl ''WiiCompiled color-copy encoder failed''
                   | Some f \<Rightarrow> Inr (map f [0 ..< encoded_size e (cp_format copy) w h]))))"

definition native_color_copy_bytes :: "ram_encoder \<Rightarrow> GxColorCopy \<Rightarrow> string + nat" where
  "native_color_copy_bytes e copy =
     (if \<not> target_live (cp_target copy) \<or> \<not> readable_format copy \<or> \<not> target_live (readback_target copy) \<or>
         \<not> native_size copy (the (readback_target copy)) then
        Inl ''Deferred readback requires an idle native-size color copy''
      else
        (let n = encoded_size e (cp_format copy) (cp_width copy) (cp_height copy)
         in if n = 0 \<or> n > 4294967295 then Inl ''Invalid deferred copy byte count'' else Inr n))"

lemma encode_length:
  "encode_native_color_copy e copy = Inr bs \<Longrightarrow>
   length bs = encoded_size e (cp_format copy) (cp_width copy) (cp_height copy)"
  by (auto simp: encode_native_color_copy_def Let_def split: if_splits sum.splits option.splits)

lemma native_color_copy_bytes_Inr:
  "native_color_copy_bytes e copy = Inr n \<Longrightarrow>
   n = encoded_size e (cp_format copy) (cp_width copy) (cp_height copy) \<and> 0 < n \<and> n < 2 ^ 32 \<and> target_live (cp_target copy)"
  by (auto simp: native_color_copy_bytes_def Let_def split: if_splits)

end
