(* ===== verification/DeferredReads.thy ===== *)
theory DeferredReads
  imports GxColorCopy
begin

text \<open>
  Guest RAM with the copies that have not been written to it yet: \<open>PendingColorCopy\<close> of
  ps5/gpu/gx_copy_deferred.cpp and the registry that the patch
  ps5/patches/wiicompiled-ps5-memory-policy.patch puts into the runtime's memory.cpp.

  RAM is seen through three windows; \<open>gr_bytes\<close> holds it by physical address, so a \<open>memcpy\<close> through the
  pointer of an alias writes the bytes at its physical address.  The region table of the runtime is
  not in the repository: bank limits, \<open>Contains\<close>, \<open>GetPointer\<close>, \<open>RangesOverlap\<close> and
  \<open>CanonicalizeGxMainRamAddress\<close> are the parameter record \<open>ram_map\<close>.  Page protection, locking and the
  notification of guest writes have no effect on this state.  Callbacks run to completion without
  entering the registry again, so a registration is never found executing.
\<close>

record ram_map =
  kMem1Size :: u32
  kMem2PhysicalBase :: u32
  kMem2PhysicalEnd :: u32
  Contains :: "u32 \<Rightarrow> nat \<Rightarrow> bool"
  GetPointer :: "u32 \<Rightarrow> nat \<Rightarrow> u64"
  RangesOverlap :: "u32 \<Rightarrow> nat \<Rightarrow> u32 \<Rightarrow> nat \<Rightarrow> bool"
  CanonicalizeGxMainRamAddress :: "u32 \<Rightarrow> u32"

record copy_env = ram_map +
  ce_encoder :: ram_encoder

record PendingColorCopy =
  pc_address :: u32
  pc_bytes :: nat
  pc_copy :: GxColorCopy

record DeferredRead =
  dr_token :: u64
  dr_physical :: u32
  dr_length :: nat
  dr_user :: PendingColorCopy

record guest_ram =
  gr_bytes :: "u32 \<Rightarrow> u8"
  gr_reads :: "DeferredRead list"
  gr_nextToken :: u64

definition windows :: "u32 list" where "windows = [0, 0x80000000, 0xC0000000]"

definition physical_of :: "u32 \<Rightarrow> u32" where "physical_of a = a AND 0x3FFFFFFF"

text \<open>\<open>n\<close> bytes from the physical address \<open>a\<close> on.\<close>
definition in_range :: "u32 \<Rightarrow> nat \<Rightarrow> u32 \<Rightarrow> bool" where
  "in_range a n p \<longleftrightarrow> unat a \<le> unat p \<and> unat p < unat a + n"

definition write_bytes :: "u32 \<Rightarrow> u8 list \<Rightarrow> (u32 \<Rightarrow> u8) \<Rightarrow> u32 \<Rightarrow> u8" where
  "write_bytes a bs m p = (if in_range a (length bs) p then bs ! (unat p - unat a) else m p)"

definition materialize :: "ram_encoder \<Rightarrow> PendingColorCopy \<Rightarrow> (u32 \<Rightarrow> u8) \<Rightarrow> string + (u32 \<Rightarrow> u8)" where
  "materialize e pending m =
     (case encode_native_color_copy e (pc_copy pending) of Inl err \<Rightarrow> Inl err
      | Inr bs \<Rightarrow> if length bs \<noteq> pc_bytes pending then Inl ''Changed deferred copy size''
                else Inr (write_bytes (physical_of (pc_address pending)) bs m))"

text \<open>Every alias must be mapped, and to the same host bytes.\<close>
fun coherent_aliases :: "'a ram_map_scheme \<Rightarrow> u32 \<Rightarrow> nat \<Rightarrow> u32 list \<Rightarrow> u64 \<Rightarrow> bool" where
  "coherent_aliases e physical len [] host = True"
| "coherent_aliases e physical len (w # ws) host =
     (Contains e (physical OR w) len \<and> (host = 0 \<or> GetPointer e (physical OR w) len = host) \<and>
      coherent_aliases e physical len ws (GetPointer e (physical OR w) len))"

definition InsertDeferredRead :: "u32 \<Rightarrow> nat \<Rightarrow> PendingColorCopy \<Rightarrow> guest_ram \<Rightarrow> u64 \<times> guest_ram" where
  "InsertDeferredRead physical len user r =
     (let first = gr_nextToken r; token = (if first = 0 then first + 1 else first)
      in (token, r\<lparr>gr_reads := gr_reads r @ [\<lparr>dr_token = token, dr_physical = physical, dr_length = len, dr_user = user\<rparr>],
                   gr_nextToken := token + 1\<rparr>))"

text \<open>Token 0 means that the range was refused.\<close>
definition RegisterDeferredRamRead :: "'a ram_map_scheme \<Rightarrow> u32 \<Rightarrow> nat \<Rightarrow> PendingColorCopy \<Rightarrow> guest_ram \<Rightarrow>
   u64 \<times> guest_ram" where
  "RegisterDeferredRamRead e addr len user r =
     (let window = addr AND 0xC0000000; physical = physical_of addr;
          mem1 = physical < kMem1Size e;
          mem2 = physical \<ge> kMem2PhysicalBase e \<and> physical < kMem2PhysicalEnd e;
          end' = unat (if mem1 then kMem1Size e else kMem2PhysicalEnd e)
      in if len = 0 \<or> window \<notin> set windows \<or> \<not> mem1 \<and> \<not> mem2 \<or> len > end' - unat physical \<or>
            \<not> coherent_aliases e physical len windows 0
         then (0, r) else InsertDeferredRead physical len user r)"

definition CancelDeferredRead :: "u64 \<Rightarrow> guest_ram \<Rightarrow> guest_ram" where
  "CancelDeferredRead token r =
     (case find (\<lambda>d. dr_token d = token) (gr_reads r) of None \<Rightarrow> r
      | Some d \<Rightarrow> r\<lparr>gr_reads := remove1 d (gr_reads r)\<rparr>)"

definition read_overlaps :: "'a ram_map_scheme \<Rightarrow> u32 \<Rightarrow> nat \<Rightarrow> DeferredRead \<Rightarrow> bool" where
  "read_overlaps e addr len d \<longleftrightarrow>
     (\<exists>w \<in> set windows. RangesOverlap e addr len (dr_physical d OR w) (dr_length d))"

text \<open>The loop takes the first overlapping registration, runs its callback and removes it; a callback
  that throws leaves it registered.\<close>
function resolve_loop :: "copy_env \<Rightarrow> u32 \<Rightarrow> nat \<Rightarrow> guest_ram \<Rightarrow> string option \<times> guest_ram" where
  "resolve_loop e addr len r =
     (case find (read_overlaps e addr len) (gr_reads r) of None \<Rightarrow> (None, r)
      | Some d \<Rightarrow>
          (case materialize (ce_encoder e) (dr_user d) (gr_bytes r) of Inl err \<Rightarrow> (Some err, r)
           | Inr m \<Rightarrow> resolve_loop e addr len (r\<lparr>gr_bytes := m, gr_reads := remove1 d (gr_reads r)\<rparr>)))"
  by pat_completeness auto
termination
proof (relation "measure (\<lambda>(e, addr, len, r). length (gr_reads r))", goal_cases)
  case (2 e addr len r d m)
  hence "d \<in> set (gr_reads r)" by (auto simp: find_Some_iff)
  hence "0 < length (gr_reads r)" "length (remove1 d (gr_reads r)) = length (gr_reads r) - 1"
    by (auto simp: length_remove1)
  thus ?case by simp
qed simp

declare resolve_loop.simps [simp del]

definition ResolveDeferredReads :: "copy_env \<Rightarrow> u32 \<Rightarrow> nat \<Rightarrow> guest_ram \<Rightarrow> string option \<times> guest_ram" where
  "ResolveDeferredReads e addr len r =
     (if len = 0 then (None, r)
      else if len > 2 ^ 32 - unat addr then (Some ''deferred read range overflow'', r)
      else resolve_loop e addr len r)"

end
