(* ===== verification/GxCopyStore.thy ===== *)
theory GxCopyStore
  imports DeferredReads
begin

text \<open>
  ps5/gpu/gx_copy_store.cpp: publication of a finished frame-buffer copy at a guest address.  The
  copy becomes a texture at once (the cache of GxColorCopy) and guest RAM lazily (the registry of
  DeferredReads); the store keeps the published ranges so that a later copy or a bulk write retires
  the copies it overwrites.  The three parts change together, so they are one state.

  \<open>ranges_\<close> is a \<open>std::map\<close>, here the list of its nodes in key order.  Timing and allocation failure
  are left out.  An operation that throws still returns the state it leaves behind.
\<close>

record CopyEntry =
  ce_bytes :: nat
  ce_token :: u64
  ce_destination :: u64

record copy_store =
  cs_ranges :: "(u32 \<times> CopyEntry) list"
  cs_cache :: copy_cache
  cs_ram :: guest_ram

datatype 's outcome = Finished 's | Throws string 's

section \<open>Ranges\<close>

fun checked_aliases :: "'a ram_map_scheme \<Rightarrow> u32 \<Rightarrow> nat \<Rightarrow> u32 list \<Rightarrow> u64 \<Rightarrow> string + u64" where
  "checked_aliases e physical bytes [] host = Inr host"
| "checked_aliases e physical bytes (w # ws) host =
     (if \<not> Contains e (physical OR w) bytes then Inl ''Copy RAM alias is unmapped''
      else if host \<noteq> 0 \<and> host \<noteq> GetPointer e (physical OR w) bytes then Inl ''Copy RAM aliases are not coherent''
      else checked_aliases e physical bytes ws (GetPointer e (physical OR w) bytes))"

definition checked_ram :: "'a ram_map_scheme \<Rightarrow> u32 \<Rightarrow> nat \<Rightarrow> string + u32 \<times> nat \<times> u64" where
  "checked_ram e address bytes =
     (let physical = CanonicalizeGxMainRamAddress e address;
          limit = (if physical < kMem1Size e then kMem1Size e
                   else if physical \<ge> kMem2PhysicalBase e \<and> physical < kMem2PhysicalEnd e then kMem2PhysicalEnd e else 0)
      in if limit = 0 \<or> bytes = 0 \<or> bytes > unat limit - unat physical then Inl ''Copy range outside Wii RAM''
         else case checked_aliases e physical bytes windows 0 of
           Inl err \<Rightarrow> Inl err | Inr host \<Rightarrow> Inr (physical, bytes, host))"

definition overlaps :: "u32 \<Rightarrow> nat \<Rightarrow> u32 \<Rightarrow> nat \<Rightarrow> bool" where
  "overlaps a an b bn \<longleftrightarrow> unat a < unat b + bn \<and> unat b < unat a + an"

definition covered :: "u32 \<Rightarrow> nat \<Rightarrow> u32 \<Rightarrow> nat \<Rightarrow> bool" where
  "covered physical bytes start n \<longleftrightarrow> physical \<le> start \<and> unat physical + bytes \<ge> unat start + n"

text \<open>\<open>std::map\<close>: a key that is present keeps its value.\<close>
definition map_insert :: "u32 \<Rightarrow> CopyEntry \<Rightarrow> (u32 \<times> CopyEntry) list \<Rightarrow> (u32 \<times> CopyEntry) list" where
  "map_insert k v m = (if k \<in> fst ` set m then m else insort_key fst (k, v) m)"

section \<open>Publication\<close>

definition defer_native_color_copy :: "copy_env \<Rightarrow> u32 \<Rightarrow> GxColorCopy option \<Rightarrow> guest_ram \<Rightarrow>
   string + u64 \<times> guest_ram" where
  "defer_native_color_copy e guestAddress copy r =
     (case copy of None \<Rightarrow> Inl ''Null deferred copy''
      | Some c \<Rightarrow>
         (case native_color_copy_bytes (ce_encoder e) c of Inl err \<Rightarrow> Inl err
          | Inr bytes \<Rightarrow>
              (let (token, r') = RegisterDeferredRamRead e guestAddress bytes
                     \<lparr>pc_address = guestAddress, pc_bytes = bytes, pc_copy = c\<rparr> r
               in if token = 0 then Inl ''Copy destination is not a coherent Wii RAM range'' else Inr (token, r'))))"

text \<open>The first loop: copies the new one overwrites only partly are written to RAM now.\<close>
fun resolve_partial :: "copy_env \<Rightarrow> u32 \<Rightarrow> nat \<Rightarrow> (u32 \<times> CopyEntry) list \<Rightarrow> guest_ram \<Rightarrow> string option \<times> guest_ram" where
  "resolve_partial e physical bytes [] r = (None, r)"
| "resolve_partial e physical bytes ((start, entry) # m) r =
     (if \<not> overlaps start (ce_bytes entry) physical bytes \<or> covered physical bytes start (ce_bytes entry)
      then resolve_partial e physical bytes m r
      else case ResolveDeferredReads e start (ce_bytes entry) r of
        (Some err, r') \<Rightarrow> (Some err, r')
      | (None, r') \<Rightarrow> resolve_partial e physical bytes m r')"

text \<open>The second loop, over the nodes in order; the kept nodes are the first component.\<close>
fun retire :: "u32 \<Rightarrow> nat \<Rightarrow> u64 \<Rightarrow> (u32 \<times> CopyEntry) list \<Rightarrow> copy_cache \<times> guest_ram \<Rightarrow>
   (u32 \<times> CopyEntry) list \<times> copy_cache \<times> guest_ram" where
  "retire physical bytes host [] (c, r) = ([], c, r)"
| "retire physical bytes host ((start, entry) # m) (c, r) =
     (if \<not> overlaps start (ce_bytes entry) physical bytes then
        (let (m', c', r') = retire physical bytes host m (c, r) in ((start, entry) # m', c', r'))
      else retire physical bytes host m
        (if ce_destination entry \<noteq> host then copy_evict (ce_destination entry) c else c,
         CancelDeferredRead (ce_token entry) r))"

definition publish_ranges :: "copy_env \<Rightarrow> u32 \<Rightarrow> u32 \<Rightarrow> nat \<Rightarrow> u64 \<Rightarrow> GxColorCopy \<Rightarrow> copy_store \<Rightarrow> copy_store outcome" where
  "publish_ranges e address physical bytes host copy s =
     (case resolve_partial e physical bytes (cs_ranges s) (cs_ram s) of
        (Some err, r) \<Rightarrow> Throws err (s\<lparr>cs_ram := r\<rparr>)
      | (None, r) \<Rightarrow>
         (case defer_native_color_copy e address (Some copy) r of
            Inl err \<Rightarrow> Throws err (s\<lparr>cs_ram := r\<rparr>)
          | Inr (token, r1) \<Rightarrow>
             (case publish_handle host (Some copy) (cs_cache s) of
                Inl err \<Rightarrow> Throws err (s\<lparr>cs_ram := CancelDeferredRead token r1\<rparr>)
              | Inr c \<Rightarrow>
                 (let (m, c', r') = retire physical bytes host (cs_ranges s) (c, r1)
                  in Finished \<lparr>cs_ranges = map_insert physical \<lparr>ce_bytes = bytes, ce_token = token, ce_destination = host\<rparr> m,
                               cs_cache = c', cs_ram = r'\<rparr>))))"

definition publish :: "copy_env \<Rightarrow> u32 \<Rightarrow> GxColorCopy option \<Rightarrow> copy_store \<Rightarrow> copy_store outcome" where
  "publish e address copy s =
     (case copy of None \<Rightarrow> Throws ''Null copy publication'' s
      | Some c \<Rightarrow>
         (case native_color_copy_bytes (ce_encoder e) c of Inl err \<Rightarrow> Throws err s
          | Inr n \<Rightarrow>
             (case checked_ram e address n of Inl err \<Rightarrow> Throws err s
              | Inr (physical, bytes, host) \<Rightarrow>
                 (case texture_descriptor (the (cp_target c)) of Inl err \<Rightarrow> Throws err s
                  | Inr _ \<Rightarrow> publish_ranges e address physical bytes host c s))))"

section \<open>Writes behind the guarded accessors\<close>

fun drop_overlapping :: "u32 \<Rightarrow> nat \<Rightarrow> (u32 \<times> CopyEntry) list \<Rightarrow> copy_cache \<Rightarrow> (u32 \<times> CopyEntry) list \<times> copy_cache" where
  "drop_overlapping physical bytes [] c = ([], c)"
| "drop_overlapping physical bytes ((start, entry) # m) c =
     (if \<not> overlaps start (ce_bytes entry) physical bytes then
        (let (m', c') = drop_overlapping physical bytes m c in ((start, entry) # m', c'))
      else drop_overlapping physical bytes m (copy_evict (ce_destination entry) c))"

definition prepare_write :: "copy_env \<Rightarrow> u32 \<Rightarrow> nat \<Rightarrow> copy_store \<Rightarrow> copy_store outcome" where
  "prepare_write e address bytes s =
     (if bytes = 0 then Finished s
      else case checked_ram e address bytes of Inl err \<Rightarrow> Throws err s
        | Inr (physical, n, host) \<Rightarrow>
           (case ResolveDeferredReads e physical n (cs_ram s) of
              (Some err, r) \<Rightarrow> Throws err (s\<lparr>cs_ram := r\<rparr>)
            | (None, r) \<Rightarrow>
               (let (m, c) = drop_overlapping physical n (cs_ranges s) (cs_cache s)
                in Finished \<lparr>cs_ranges = m, cs_cache = c, cs_ram = r\<rparr>)))"

section \<open>The store in use\<close>

text \<open>A guarded access first resolves its range; a store then writes its bytes.  Textures may be
  destroyed at any time.\<close>
definition guest_access :: "copy_env \<Rightarrow> u32 \<Rightarrow> nat \<Rightarrow> (u32 \<Rightarrow> u8) \<Rightarrow> copy_store \<Rightarrow> copy_store" where
  "guest_access e address len stored s =
     (case ResolveDeferredReads e address len (cs_ram s) of
        (Some err, r) \<Rightarrow> s\<lparr>cs_ram := r\<rparr>
      | (None, r) \<Rightarrow> s\<lparr>cs_ram := r\<lparr>gr_bytes := (\<lambda>p. if in_range (physical_of address) len p then stored p else gr_bytes r p)\<rparr>\<rparr>)"

definition outcome_state :: "'s outcome \<Rightarrow> 's" where
  "outcome_state x = (case x of Finished s \<Rightarrow> s | Throws _ s \<Rightarrow> s)"

text \<open>Everything that can happen to the store: calls that return or throw, guest accesses, writes behind the
  accessors, destroyed textures.\<close>
inductive copy_reachable :: "copy_env \<Rightarrow> copy_store \<Rightarrow> bool" for e where
  start: "copy_reachable e \<lparr>cs_ranges = [], cs_cache = (\<lambda>_. None), cs_ram = \<lparr>gr_bytes = m, gr_reads = [], gr_nextToken = 1\<rparr>\<rparr>"
| publish: "copy_reachable e s \<Longrightarrow> gr_nextToken (cs_ram s) < - 1 \<Longrightarrow> copy_reachable e (outcome_state (publish e a c s))"
| prepare: "copy_reachable e s \<Longrightarrow> copy_reachable e (outcome_state (prepare_write e a n s))"
| access: "copy_reachable e s \<Longrightarrow> copy_reachable e (guest_access e a n stored s)"
| raw: "copy_reachable e s \<Longrightarrow> copy_reachable e (s\<lparr>cs_ram := (cs_ram s)\<lparr>gr_bytes := m\<rparr>\<rparr>)"
| evict: "copy_reachable e s \<Longrightarrow> copy_reachable e (s\<lparr>cs_cache := evict_copies h (cs_cache s)\<rparr>)"

end
