(* ===== verification/CopyStoreLemmas.thy ===== *)
theory CopyStoreLemmas
  imports GxCopyStore
begin

text \<open>
  What a guest read sees, and the invariants of the registry and of the copy store.  The view of RAM
  is the abstract state: resolving deferred reads must not change it, publication overrides one range
  of it.
\<close>

section \<open>The view of RAM\<close>

definition copy_byte :: "ram_encoder \<Rightarrow> GxColorCopy \<Rightarrow> nat \<Rightarrow> u8 option" where
  "copy_byte e c i = (case encode_native_color_copy e c of Inl _ \<Rightarrow> None | Inr bs \<Rightarrow> Some (bs ! i))"

abbreviation covers :: "DeferredRead \<Rightarrow> u32 \<Rightarrow> bool" where
  "covers d p \<equiv> in_range (dr_physical d) (dr_length d) p"

definition read_byte :: "ram_encoder \<Rightarrow> DeferredRead \<Rightarrow> u32 \<Rightarrow> u8 option" where
  "read_byte e d p = copy_byte e (pc_copy (dr_user d)) (unat p - unat (dr_physical d))"

text \<open>The byte a read of physical address p returns; None where the pending copy cannot be encoded.\<close>
definition guest_view :: "ram_encoder \<Rightarrow> guest_ram \<Rightarrow> u32 \<Rightarrow> u8 option" where
  "guest_view e r p = (case find (\<lambda>d. covers d p) (gr_reads r) of Some d \<Rightarrow> read_byte e d p | None \<Rightarrow> Some (gr_bytes r p))"

definition read_fits :: "ram_encoder \<Rightarrow> DeferredRead \<Rightarrow> bool" where
  "read_fits e d \<longleftrightarrow> dr_physical d = physical_of (pc_address (dr_user d)) \<and> pc_bytes (dr_user d) = dr_length d \<and>
     native_color_copy_bytes e (pc_copy (dr_user d)) = Inr (dr_length d)"

definition reads_ok :: "ram_encoder \<Rightarrow> DeferredRead list \<Rightarrow> bool" where
  "reads_ok e ds \<longleftrightarrow> distinct (map dr_token ds) \<and> (\<forall>d \<in> set ds. read_fits e d) \<and>
     (\<forall>d \<in> set ds. \<forall>d' \<in> set ds. \<forall>p. covers d p \<longrightarrow> covers d' p \<longrightarrow> d = d')"

lemma reads_okD:
  assumes "reads_ok e ds"
  shows "distinct (map dr_token ds)" "d \<in> set ds \<Longrightarrow> read_fits e d"
    "d \<in> set ds \<Longrightarrow> d' \<in> set ds \<Longrightarrow> covers d p \<Longrightarrow> covers d' p \<Longrightarrow> d = d'"
  using assms by (auto simp: reads_ok_def)

lemma reads_ok_sub: "reads_ok e ds \<Longrightarrow> set ds' \<subseteq> set ds \<Longrightarrow> distinct (map dr_token ds') \<Longrightarrow> reads_ok e ds'"
  unfolding reads_ok_def by blast

lemma guest_view_covered:
  assumes "reads_ok e (gr_reads r)" "d \<in> set (gr_reads r)" "covers d p"
  shows "guest_view e r p = read_byte e d p"
proof -
  obtain d' where "find (\<lambda>d. covers d p) (gr_reads r) = Some d'"
    using assms(2,3) by (cases "find (\<lambda>d. covers d p) (gr_reads r)") (auto simp: find_None_iff)
  moreover from this have "d' = d" using reads_okD(3)[OF assms(1) _ assms(2) _ assms(3)] by (auto simp: find_Some_iff)
  ultimately show ?thesis by (simp add: guest_view_def)
qed

lemma guest_view_free: "(\<And>d. d \<in> set (gr_reads r) \<Longrightarrow> \<not> covers d p) \<Longrightarrow> guest_view e r p = Some (gr_bytes r p)"
  by (cases "find (\<lambda>d. covers d p) (gr_reads r)") (auto simp: guest_view_def find_Some_iff)

text \<open>Two registries with the same reads and bytes at p show the same byte there.\<close>
lemma guest_view_cong:
  assumes "reads_ok e (gr_reads r)" "reads_ok e (gr_reads r')"
    and "\<And>d. covers d p \<Longrightarrow> d \<in> set (gr_reads r) \<longleftrightarrow> d \<in> set (gr_reads r')" and "gr_bytes r p = gr_bytes r' p"
  shows "guest_view e r p = guest_view e r' p"
proof (cases "\<exists>d \<in> set (gr_reads r). covers d p")
  case True
  then obtain d where "d \<in> set (gr_reads r)" "covers d p" by blast
  thus ?thesis using guest_view_covered[OF assms(1)] guest_view_covered[OF assms(2)] assms(3) by metis
next
  case False
  thus ?thesis using assms(3,4) guest_view_free[of r p e] guest_view_free[of r' p e] by metis
qed

section \<open>Resolving\<close>

lemma materialize_Inr:
  assumes "materialize e (dr_user d) m = Inr m'" "read_fits e d"
  shows "covers d p \<Longrightarrow> read_byte e d p = Some (m' p)" "\<not> covers d p \<Longrightarrow> m' p = m p"
  using assms by (auto simp: materialize_def read_fits_def read_byte_def copy_byte_def write_bytes_def
      split: sum.splits if_splits)

lemma remove1_token:
  assumes "distinct (map dr_token ds)" "d \<in> set ds"
  shows "set (remove1 d ds) = set ds - {d}" "distinct (map dr_token (remove1 d ds))"
    "remove1 d ds = filter (\<lambda>x. dr_token x \<noteq> dr_token d) ds"
proof -
  show "set (remove1 d ds) = set ds - {d}" using assms(1) by (simp add: distinct_map)
  show f: "remove1 d ds = filter (\<lambda>x. dr_token x \<noteq> dr_token d) ds"
    using assms
  proof (induction ds)
    case (Cons a ds)
    show ?case
    proof (cases "a = d")
      case True
      hence "\<forall>x \<in> set ds. dr_token x \<noteq> dr_token d" using Cons.prems(1) by (simp add: image_iff) metis
      with True show ?thesis by (simp add: filter_id_conv)
    next
      case False
      hence "d \<in> set ds" using Cons.prems by simp
      hence "dr_token a \<noteq> dr_token d" using Cons.prems(1) by auto
      thus ?thesis using Cons False \<open>d \<in> set ds\<close> by simp
    qed
  qed simp
  show "distinct (map dr_token (remove1 d ds))" unfolding f using assms(1) by (simp add: distinct_map_filter)
qed

definition keeps_view :: "ram_encoder \<Rightarrow> guest_ram \<Rightarrow> guest_ram \<Rightarrow> bool" where
  "keeps_view e r r' \<longleftrightarrow> reads_ok e (gr_reads r') \<and> set (gr_reads r') \<subseteq> set (gr_reads r) \<and>
     gr_nextToken r' = gr_nextToken r \<and> (\<forall>p. guest_view e r' p = guest_view e r p)"

lemma keeps_view_refl [simp]: "keeps_view e r r = reads_ok e (gr_reads r)"
  by (auto simp: keeps_view_def)

lemma keeps_view_trans: "keeps_view e r r' \<Longrightarrow> keeps_view e r' r'' \<Longrightarrow> keeps_view e r r''"
  unfolding keeps_view_def by auto

lemma keeps_view_materialize:
  assumes "reads_ok e (gr_reads r)" "d \<in> set (gr_reads r)" "materialize e (dr_user d) (gr_bytes r) = Inr m"
  shows "keeps_view e r (r\<lparr>gr_bytes := m, gr_reads := remove1 d (gr_reads r)\<rparr>)"
proof -
  let ?r = "r\<lparr>gr_bytes := m, gr_reads := remove1 d (gr_reads r)\<rparr>"
  note d = reads_okD(1)[OF assms(1)] and fits = reads_okD(2)[OF assms(1,2)]
  note mat = materialize_Inr[OF assms(3) fits] and rem = remove1_token[OF d assms(2)]
  have ok: "reads_ok e (gr_reads ?r)" using assms(1) rem(1,2) by (auto intro: reads_ok_sub)
  have "guest_view e ?r p = guest_view e r p" for p
  proof (cases "covers d p")
    case True
    hence "guest_view e ?r p = Some (m p)"
      using guest_view_free[of ?r p e] rem(1) reads_okD(3)[OF assms(1) assms(2)] by auto
    thus ?thesis using mat(1)[OF True] guest_view_covered[OF assms(1,2) True] by simp
  next
    case False
    show ?thesis by (rule guest_view_cong[OF ok assms(1)]) (use False rem(1) mat(2)[OF False] in auto)
  qed
  with ok rem(1) show ?thesis by (auto simp: keeps_view_def)
qed

lemma resolve_loop_cases:
  "find (read_overlaps e a n) (gr_reads r) = None \<Longrightarrow> resolve_loop e a n r = (None, r)"
  "find (read_overlaps e a n) (gr_reads r) = Some d \<Longrightarrow>
   materialize (ce_encoder e) (dr_user d) (gr_bytes r) = Inl err \<Longrightarrow> resolve_loop e a n r = (Some err, r)"
  "find (read_overlaps e a n) (gr_reads r) = Some d \<Longrightarrow>
   materialize (ce_encoder e) (dr_user d) (gr_bytes r) = Inr m \<Longrightarrow>
   resolve_loop e a n r = resolve_loop e a n (r\<lparr>gr_bytes := m, gr_reads := remove1 d (gr_reads r)\<rparr>)"
  by (subst resolve_loop.simps; simp)+

lemma resolve_loop_view:
  assumes "reads_ok (ce_encoder e) (gr_reads r)"
  shows "keeps_view (ce_encoder e) r (snd (resolve_loop e a n r)) \<and>
    (fst (resolve_loop e a n r) = None \<longrightarrow>
       (\<forall>d \<in> set (gr_reads (snd (resolve_loop e a n r))). \<not> read_overlaps e a n d))"
  using assms
proof (induction e a n r rule: resolve_loop.induct)
  case (1 e a n r)
  show ?case
  proof (cases "find (read_overlaps e a n) (gr_reads r)")
    case None
    thus ?thesis using 1(2) by (simp add: resolve_loop_cases(1)) (simp add: find_None_iff)
  next
    case (Some d)
    hence d: "d \<in> set (gr_reads r)" by (auto simp: find_Some_iff)
    show ?thesis
    proof (cases "materialize (ce_encoder e) (dr_user d) (gr_bytes r)")
      case (Inl err)
      thus ?thesis using 1(2) by (simp add: resolve_loop_cases(2)[OF Some])
    next
      case (Inr m)
      note k = keeps_view_materialize[OF 1(2) d Inr]
      hence "reads_ok (ce_encoder e) (gr_reads (r\<lparr>gr_bytes := m, gr_reads := remove1 d (gr_reads r)\<rparr>))"
        by (simp add: keeps_view_def)
      from 1(1)[OF Some Inr this] keeps_view_trans[OF k] show ?thesis
        unfolding resolve_loop_cases(3)[OF Some Inr] by blast
    qed
  qed
qed

text \<open>What the code relies on in the runtime: overlap is overlap of intervals, and the canonical form of
  an address in a window is its physical address.\<close>
definition ram_map_ok :: "'a ram_map_scheme \<Rightarrow> bool" where
  "ram_map_ok e \<longleftrightarrow> (\<forall>a n b m. RangesOverlap e a n b m = overlaps a n b m) \<and>
     (\<forall>a. a AND 0xC0000000 \<in> set windows \<longrightarrow> CanonicalizeGxMainRamAddress e a = physical_of a)"

lemma resolve_view:
  assumes "ram_map_ok e" "reads_ok (ce_encoder e) (gr_reads r)"
  shows "keeps_view (ce_encoder e) r (snd (ResolveDeferredReads e a n r)) \<and>
    (fst (ResolveDeferredReads e a n r) = None \<longrightarrow> 0 < n \<longrightarrow>
       (\<forall>d \<in> set (gr_reads (snd (ResolveDeferredReads e a n r))). \<not> overlaps a n (dr_physical d) (dr_length d)))"
proof -
  have "\<not> overlaps a n (dr_physical d) (dr_length d)" if "\<not> read_overlaps e a n d" for d
    using that assms(1) by (auto simp: read_overlaps_def ram_map_ok_def windows_def)
  thus ?thesis using resolve_loop_view[OF assms(2), of a n] assms(2) by (auto simp: ResolveDeferredReads_def)
qed

section \<open>The store\<close>

abbreviation entry_of :: "DeferredRead \<Rightarrow> u32 \<times> CopyEntry \<Rightarrow> bool" where
  "entry_of d x \<equiv> fst x = dr_physical d \<and> ce_token (snd x) = dr_token d \<and> ce_bytes (snd x) = dr_length d"

abbreviation disjoint_ranges :: "u32 \<times> CopyEntry \<Rightarrow> u32 \<times> CopyEntry \<Rightarrow> bool" where
  "disjoint_ranges x y \<equiv> \<not> overlaps (fst x) (ce_bytes (snd x)) (fst y) (ce_bytes (snd y))"

abbreviation token_of :: "u32 \<times> CopyEntry \<Rightarrow> u64" where "token_of x \<equiv> ce_token (snd x)"

definition ranges_ok :: "(u32 \<times> CopyEntry) list \<Rightarrow> u64 \<Rightarrow> bool" where
  "ranges_ok m next \<longleftrightarrow> distinct (map fst m) \<and> distinct (map token_of m) \<and>
     (\<forall>x \<in> set m. \<forall>y \<in> set m. x \<noteq> y \<longrightarrow> disjoint_ranges x y) \<and>
     (\<forall>x \<in> set m. 0 < ce_bytes (snd x) \<and> token_of x \<noteq> 0 \<and> token_of x < next)"

text \<open>Published ranges are disjoint, every pending read belongs to one of them, and every cached copy is
  the destination of one of them.\<close>
definition store_ok :: "copy_env \<Rightarrow> copy_store \<Rightarrow> bool" where
  "store_ok e s \<longleftrightarrow> ranges_ok (cs_ranges s) (gr_nextToken (cs_ram s)) \<and>
     reads_ok (ce_encoder e) (gr_reads (cs_ram s)) \<and>
     (\<forall>d \<in> set (gr_reads (cs_ram s)). \<exists>x \<in> set (cs_ranges s). entry_of d x) \<and>
     (\<forall>h \<in> dom (cs_cache s). \<exists>x \<in> set (cs_ranges s). ce_destination (snd x) = h)"

lemma ranges_ok_mono: "ranges_ok m n \<Longrightarrow> n \<le> n' \<Longrightarrow> ranges_ok m n'"
  unfolding ranges_ok_def by (blast intro: order_less_le_trans)

lemma store_ok_ram:
  assumes "store_ok e s" "keeps_view (ce_encoder e) (cs_ram s) r"
  shows "store_ok e (s\<lparr>cs_ram := r\<rparr>)"
  using assms ranges_ok_mono unfolding store_ok_def keeps_view_def by auto

lemma overlaps_sym: "overlaps a n b m = overlaps b m a n"
  by (auto simp: overlaps_def)

lemma overlaps_cover: "in_range a n p \<Longrightarrow> in_range b m p \<Longrightarrow> overlaps a n b m"
  by (auto simp: in_range_def overlaps_def)

lemma resolve_partial_view:
  assumes "ram_map_ok e" "reads_ok (ce_encoder e) (gr_reads r)"
    and "\<forall>x \<in> set m. 0 < ce_bytes (snd x)"
  shows "keeps_view (ce_encoder e) r (snd (resolve_partial e a n m r)) \<and>
    (fst (resolve_partial e a n m r) = None \<longrightarrow>
       (\<forall>d \<in> set (gr_reads (snd (resolve_partial e a n m r))). \<forall>x \<in> set m.
          overlaps (fst x) (ce_bytes (snd x)) a n \<longrightarrow> covered a n (fst x) (ce_bytes (snd x)) \<or>
          \<not> overlaps (fst x) (ce_bytes (snd x)) (dr_physical d) (dr_length d)))"
  using assms
proof (induction e a n m r rule: resolve_partial.induct)
  case (2 e a n start x m r)
  show ?case
  proof (cases "\<not> overlaps start (ce_bytes x) a n \<or> covered a n start (ce_bytes x)")
    case True
    thus ?thesis using 2 by auto
  next
    case False
    note v = resolve_view[OF 2(3,4), of start "ce_bytes x"]
    obtain q r' where q: "ResolveDeferredReads e start (ce_bytes x) r = (q, r')" by force
    show ?thesis
    proof (cases q)
      case (Some err)
      thus ?thesis using v q False by simp
    next
      case None
      have k: "keeps_view (ce_encoder e) r r'" and n: "\<forall>d \<in> set (gr_reads r'). \<not> overlaps start (ce_bytes x) (dr_physical d) (dr_length d)"
        using v q None 2(5) by auto
      have "reads_ok (ce_encoder e) (gr_reads r')" using k by (simp add: keeps_view_def)
      note ih = 2(2)[OF False q[symmetric] None 2(3) this]
      have i: "keeps_view (ce_encoder e) r' (snd (resolve_partial e a n m r'))"
        using ih 2(5) by simp
      have step: "resolve_partial e a n ((start, x) # m) r = resolve_partial e a n m r'"
        using False q None by simp
      have "\<not> overlaps start (ce_bytes x) (dr_physical d) (dr_length d)"
        if "d \<in> set (gr_reads (snd (resolve_partial e a n m r')))" for d
        using n i that by (auto simp: keeps_view_def)
      thus ?thesis unfolding step using ih 2(5) keeps_view_trans[OF k i] by auto
    qed
  qed
qed simp

lemma CancelDeferredRead_reads:
  assumes "distinct (map dr_token (gr_reads r))"
  shows "CancelDeferredRead t r = r\<lparr>gr_reads := filter (\<lambda>d. dr_token d \<noteq> t) (gr_reads r)\<rparr>"
proof (cases "find (\<lambda>d. dr_token d = t) (gr_reads r)")
  case None
  hence "filter (\<lambda>d. dr_token d \<noteq> t) (gr_reads r) = gr_reads r" by (auto simp: find_None_iff filter_id_conv)
  thus ?thesis using None by (simp add: CancelDeferredRead_def)
next
  case (Some d)
  hence "d \<in> set (gr_reads r)" "dr_token d = t" by (auto simp: find_Some_iff)
  thus ?thesis using remove1_token(3)[OF assms, of d] Some by (simp add: CancelDeferredRead_def)
qed

abbreviation overlapping :: "u32 \<Rightarrow> nat \<Rightarrow> u32 \<times> CopyEntry \<Rightarrow> bool" where
  "overlapping a n x \<equiv> overlaps (fst x) (ce_bytes (snd x)) a n"

lemma retire_eq:
  assumes "distinct (map dr_token (gr_reads r))"
  shows "retire a n host m (c, r) =
    (filter (\<lambda>x. \<not> overlapping a n x) m,
     (\<lambda>h. if h \<noteq> host \<and> (\<exists>x \<in> set m. overlapping a n x \<and> ce_destination (snd x) = h) then None else c h),
     r\<lparr>gr_reads := filter (\<lambda>d. \<forall>x \<in> set m. overlapping a n x \<longrightarrow> dr_token d \<noteq> token_of x) (gr_reads r)\<rparr>)"
  using assms
proof (induction m arbitrary: c r)
  case (Cons y m)
  obtain start x where y: "y = (start, x)" by force
  show ?case
  proof (cases "overlaps start (ce_bytes x) a n")
    case False
    thus ?thesis using Cons.IH[OF Cons.prems, of c] by (simp add: y)
  next
    case True
    let ?r = "CancelDeferredRead (ce_token x) r"
    have r: "?r = r\<lparr>gr_reads := filter (\<lambda>d. dr_token d \<noteq> ce_token x) (gr_reads r)\<rparr>"
      by (rule CancelDeferredRead_reads[OF Cons.prems])
    have "distinct (map dr_token (gr_reads ?r))" using Cons.prems by (simp add: r distinct_map_filter)
    note ih = Cons.IH[OF this, of "if ce_destination x \<noteq> host then copy_evict (ce_destination x) c else c"]
    have "retire a n host (y # m) (c, r) =
        retire a n host m (if ce_destination x \<noteq> host then copy_evict (ce_destination x) c else c, ?r)"
      using True by (simp add: y)
    also note ih
    finally show ?thesis unfolding r using True by (auto simp: y copy_evict_def fun_eq_iff intro!: filter_cong)
  qed
qed simp

lemma drop_overlapping_eq:
  "drop_overlapping a n m c =
    (filter (\<lambda>x. \<not> overlapping a n x) m,
     (\<lambda>h. if \<exists>x \<in> set m. overlapping a n x \<and> ce_destination (snd x) = h then None else c h))"
proof (induction m arbitrary: c)
  case (Cons y m)
  obtain start x where y: "y = (start, x)" by force
  show ?case
  proof (cases "overlaps start (ce_bytes x) a n")
    case True
    hence "drop_overlapping a n (y # m) c = drop_overlapping a n m (copy_evict (ce_destination x) c)" by (simp add: y)
    also note Cons.IH
    finally show ?thesis using True by (auto simp: y copy_evict_def fun_eq_iff)
  qed (simp add: y Cons.IH)
qed simp

lemma register_cases:
  assumes "RegisterDeferredRamRead e addr n user r = (t, r')" "t \<noteq> 0"
  shows "addr AND 0xC0000000 \<in> set windows" "t = (if gr_nextToken r = 0 then 1 else gr_nextToken r)"
    "r' = r\<lparr>gr_reads := gr_reads r @ [\<lparr>dr_token = t, dr_physical = physical_of addr, dr_length = n, dr_user = user\<rparr>],
            gr_nextToken := t + 1\<rparr>"
  using assms by (auto simp: RegisterDeferredRamRead_def InsertDeferredRead_def Let_def split: if_splits)

lemma checked_ram_Inr:
  assumes "checked_ram e a n = Inr (p, n', host)"
  shows "n' = n" "0 < n" "p = CanonicalizeGxMainRamAddress e a"
  using assms by (auto simp: checked_ram_def Let_def split: if_splits sum.splits)

lemma publish_cases:
  assumes "publish e a copy s = x"
  shows "(\<exists>err. x = Throws err s) \<or>
    (\<exists>c n p host. copy = Some c \<and> native_color_copy_bytes (ce_encoder e) c = Inr n \<and> checked_ram e a n = Inr (p, n, host) \<and>
       x = publish_ranges e a p n host c s)"
  using assms
  by (auto simp: publish_def split: option.splits sum.splits prod.splits dest: checked_ram_Inr(1))

lemma map_insert_fresh: "k \<notin> fst ` set m \<Longrightarrow> map_insert k v m = insort_key fst (k, v) m"
  by (simp add: map_insert_def)

lemma store_token_fresh:
  assumes "store_ok e s" "d \<in> set (gr_reads (cs_ram s))"
  shows "dr_token d \<noteq> 0" "dr_token d < gr_nextToken (cs_ram s)"
  using assms unfolding store_ok_def ranges_ok_def by metis+

lemma new_token:
  assumes "t = (if next = 0 then 1 else next)" "(next :: u64) < - 1"
  shows "next \<le> t" "t < t + 1" "t \<noteq> 0"
proof -
  have "t \<noteq> - 1" using assms by (auto split: if_splits)
  hence "1 + t \<noteq> 0" using max_word_wrap[of t] by (auto simp: add.commute)
  thus "t < t + 1" by (simp add: word_less_nat_alt unatSuc add.commute)
qed (use assms in \<open>auto split: if_splits\<close>)

lemma distinct_insort: "distinct (map f (insort_key k x m)) = distinct (map f (x # m))"
  by (induction m) (auto simp: set_insort_key)

text \<open>The state after a successful publication: \<open>r\<close> is the registry after the partly overwritten copies
  were materialised, t the new token.\<close>
lemma publish_final:
  assumes s: "store_ok e (s\<lparr>cs_ram := r\<rparr>)"
    and m: "\<forall>d \<in> set (gr_reads r). \<forall>x \<in> set (cs_ranges s). overlapping p n x \<longrightarrow>
      covered p n (fst x) (ce_bytes (snd x)) \<or> \<not> overlaps (fst x) (ce_bytes (snd x)) (dr_physical d) (dr_length d)"
    and t: "t = (if gr_nextToken r = 0 then 1 else gr_nextToken r)" "gr_nextToken r < - 1"
    and d: "new = \<lparr>dr_token = t, dr_physical = p, dr_length = n, dr_user = u\<rparr>" "read_fits (ce_encoder e) new" "0 < n"
    and s': "s' = \<lparr>cs_ranges = map_insert p \<lparr>ce_bytes = n, ce_token = t, ce_destination = host\<rparr>
          (filter (\<lambda>x. \<not> overlapping p n x) (cs_ranges s)),
        cs_cache = (\<lambda>h. if h \<noteq> host \<and> (\<exists>x \<in> set (cs_ranges s). overlapping p n x \<and> ce_destination (snd x) = h)
          then None else ((cs_cache s)(host \<mapsto> copy)) h),
        cs_ram = r\<lparr>gr_reads := filter (\<lambda>d. \<forall>x \<in> set (cs_ranges s). overlapping p n x \<longrightarrow> dr_token d \<noteq> token_of x)
          (gr_reads r @ [new]), gr_nextToken := t + 1\<rparr>\<rparr>"
  shows "store_ok e s'"
    and "guest_view (ce_encoder e) (cs_ram s') q =
      (if in_range p n q then copy_byte (ce_encoder e) (pc_copy u) (unat q - unat p) else guest_view (ce_encoder e) r q)"
proof -
  let ?m = "cs_ranges s" and ?keep = "filter (\<lambda>x. \<not> overlapping p n x) (cs_ranges s)"
  note fresh = store_token_fresh[OF s, simplified] and nt = new_token[OF t]
  have rok: "ranges_ok ?m (gr_nextToken r)" and dok: "reads_ok (ce_encoder e) (gr_reads r)"
    and own: "\<forall>d \<in> set (gr_reads r). \<exists>x \<in> set ?m. entry_of d x"
    and cok: "\<forall>h \<in> dom (cs_cache s). \<exists>x \<in> set ?m. ce_destination (snd x) = h"
    using s by (simp_all add: store_ok_def)
  have tr: "\<forall>d \<in> set (gr_reads r). dr_token d \<noteq> t" using fresh(2) nt(1) by (metis leD)
  have tm: "t \<notin> token_of ` set ?m" using rok nt(1,3) t(1) by (auto simp: ranges_ok_def)
  have reads: "gr_reads (cs_ram s') = filter (\<lambda>d. \<forall>x \<in> set ?m. overlapping p n x \<longrightarrow> dr_token d \<noteq> token_of x) (gr_reads r) @ [new]"
    using tm by (auto simp: s' d(1))
  have pm: "p \<notin> fst ` set ?keep" using rok d(3) by (auto simp: ranges_ok_def overlaps_def)
  have sm: "set (cs_ranges s') = insert (p, \<lparr>ce_bytes = n, ce_token = t, ce_destination = host\<rparr>) (set ?keep)"
    by (simp add: s' map_insert_fresh[OF pm] set_insort_key)
  have free: "\<not> in_range p n q'"
    if r: "d \<in> set (gr_reads r)" "\<forall>x \<in> set ?m. overlapping p n x \<longrightarrow> dr_token d \<noteq> token_of x" "covers d q'" for d q'
  proof -
    obtain x where "x \<in> set ?m" "entry_of d x" using own r(1) by blast
    thus ?thesis using r(2,3) overlaps_cover[of "dr_physical d" "dr_length d" q' p n] by auto
  qed
  have reads_ok': "reads_ok (ce_encoder e) (gr_reads (cs_ram s'))"
    unfolding reads reads_ok_def
  proof (intro conjI)
    show "distinct (map dr_token (filter (\<lambda>d. \<forall>x \<in> set ?m. overlapping p n x \<longrightarrow> dr_token d \<noteq> token_of x) (gr_reads r) @ [new]))"
      using reads_okD(1)[OF dok] tr by (auto simp: distinct_map_filter d(1))
  qed (use dok d free in \<open>auto simp: reads_ok_def\<close>)
  show "store_ok e s'" unfolding store_ok_def
  proof (intro conjI)
    have "ranges_ok ?m (t + 1)" using rok nt(1,2) by (rule_tac ranges_ok_mono) auto
    moreover have "distinct (map fst (cs_ranges s'))" "distinct (map token_of (cs_ranges s'))"
      using rok pm tm by (auto simp: s' map_insert_fresh[OF pm] distinct_insort distinct_map_filter ranges_ok_def)
    moreover have "disjoint_ranges x y" if xy: "x \<in> set (cs_ranges s')" "y \<in> set (cs_ranges s')" "x \<noteq> y" for x y
    proof (cases "x \<in> set ?keep \<and> y \<in> set ?keep")
      case True
      with rok xy(3) show ?thesis by (simp add: ranges_ok_def)
    next
      case False
      have "x \<in> set ?keep \<and> y = (p, \<lparr>ce_bytes = n, ce_token = t, ce_destination = host\<rparr>) \<or>
          y \<in> set ?keep \<and> x = (p, \<lparr>ce_bytes = n, ce_token = t, ce_destination = host\<rparr>)"
        using xy False unfolding sm by blast
      thus ?thesis using overlaps_sym by auto
    qed
    moreover have "\<forall>x \<in> set (cs_ranges s'). 0 < ce_bytes (snd x) \<and> token_of x \<noteq> 0 \<and> token_of x < t + 1"
      using nt d(3) \<open>ranges_ok ?m (t + 1)\<close> unfolding sm ranges_ok_def by simp
    moreover have "gr_nextToken (cs_ram s') = t + 1" by (simp add: s')
    ultimately show "ranges_ok (cs_ranges s') (gr_nextToken (cs_ram s'))" by (simp add: ranges_ok_def)
    show "\<forall>d \<in> set (gr_reads (cs_ram s')). \<exists>x \<in> set (cs_ranges s'). entry_of d x"
      using own unfolding reads sm by (fastforce simp: d(1))
    show "\<forall>h \<in> dom (cs_cache s'). \<exists>x \<in> set (cs_ranges s'). ce_destination (snd x) = h"
    proof
      fix h assume h: "h \<in> dom (cs_cache s')"
      show "\<exists>x \<in> set (cs_ranges s'). ce_destination (snd x) = h"
      proof (cases "h = host")
        case False
        let ?E = "\<exists>x \<in> set ?m. overlapping p n x \<and> ce_destination (snd x) = h"
        have c: "cs_cache s' h = (if ?E then None else cs_cache s h)"
          unfolding s' copy_store.select_convs fun_upd_apply if_not_P[OF False] using False by (simp only: simp_thms)
        hence k: "h \<in> dom (cs_cache s)" "\<not> ?E" using h by (metis domIff)+
        then obtain x where x: "x \<in> set ?m" "ce_destination (snd x) = h" using cok by blast
        with k(2) have "x \<in> set ?keep" unfolding set_filter by blast
        with x(2) show ?thesis unfolding sm by blast
      qed (simp add: sm)
    qed
  qed (rule reads_ok')
  show "guest_view (ce_encoder e) (cs_ram s') q =
      (if in_range p n q then copy_byte (ce_encoder e) (pc_copy u) (unat q - unat p) else guest_view (ce_encoder e) r q)"
  proof (cases "in_range p n q")
    case True
    thus ?thesis using guest_view_covered[OF reads_ok', of new q] reads by (simp add: d(1) read_byte_def)
  next
    case False
    have "dr_token d \<noteq> token_of y" if h: "d \<in> set (gr_reads r)" "covers d q" "y \<in> set ?m" "overlapping p n y" for d y
    proof
      assume e: "dr_token d = token_of y"
      obtain x where x: "x \<in> set ?m" "entry_of d x" using own h(1) by blast
      with e h(3) rok have "x = y" by (auto simp: ranges_ok_def distinct_map dest: inj_onD)
      with m h x False show False
        using overlaps_cover[OF h(2) h(2)] by (fastforce simp: covered_def in_range_def word_le_nat_alt)
    qed
    hence "guest_view (ce_encoder e) (cs_ram s') q = guest_view (ce_encoder e) r q"
      by (intro guest_view_cong[OF reads_ok' dok]) (use False in \<open>auto simp: reads d(1), simp add: s'\<close>)
    with False show ?thesis by simp
  qed
qed

lemma guest_view_token [simp]: "guest_view e (r\<lparr>gr_nextToken := t\<rparr>) = guest_view e r"
  by (simp add: guest_view_def fun_eq_iff split: option.split)

definition unchanged :: "copy_env \<Rightarrow> copy_store \<Rightarrow> copy_store \<Rightarrow> bool" where
  "unchanged e s s' \<longleftrightarrow> store_ok e s' \<and> cs_ranges s' = cs_ranges s \<and> cs_cache s' = cs_cache s \<and>
     (\<forall>q. guest_view (ce_encoder e) (cs_ram s') q = guest_view (ce_encoder e) (cs_ram s) q)"

lemma unchanged_ram:
  "store_ok e s \<Longrightarrow> keeps_view (ce_encoder e) (cs_ram s) r \<Longrightarrow> unchanged e s (s\<lparr>cs_ram := r\<rparr>)"
  by (simp add: unchanged_def store_ok_ram) (simp add: keeps_view_def)

lemma store_ok_reads: "store_ok e s \<Longrightarrow> reads_ok (ce_encoder e) (gr_reads (cs_ram s))"
  by (simp add: store_ok_def)

lemma publish_ranges_outcome:
  assumes e: "ram_map_ok e" and s: "store_ok e s" and t: "gr_nextToken (cs_ram s) < - 1"
    and n: "native_color_copy_bytes (ce_encoder e) c = Inr n" "checked_ram e a n = Inr (p, n, host)"
  shows "case publish_ranges e a p n host c s of
      Throws err s' \<Rightarrow> unchanged e s s'
    | Finished s' \<Rightarrow> store_ok e s' \<and> cs_cache s' host = Some c \<and> p = physical_of a \<and>
        (\<forall>q. guest_view (ce_encoder e) (cs_ram s') q =
          (if in_range p n q then copy_byte (ce_encoder e) c (unat q - unat p)
           else guest_view (ce_encoder e) (cs_ram s) q))"
proof -
  obtain q r where q: "resolve_partial e p n (cs_ranges s) (cs_ram s) = (q, r)" by force
  have pos: "\<forall>x \<in> set (cs_ranges s). 0 < ce_bytes (snd x)" using s by (simp add: store_ok_def ranges_ok_def)
  note v = resolve_partial_view[OF e store_ok_reads[OF s] pos, of p n, unfolded q fst_conv snd_conv]
  hence u: "unchanged e s (s\<lparr>cs_ram := r\<rparr>)" and k: "keeps_view (ce_encoder e) (cs_ram s) r"
    using unchanged_ram[OF s] by auto
  show ?thesis
  proof (cases q)
    case (Some err)
    thus ?thesis using u q by (simp add: publish_ranges_def)
  next
    case None
    obtain t r1 where r1: "RegisterDeferredRamRead e a n \<lparr>pc_address = a, pc_bytes = n, pc_copy = c\<rparr> r = (t, r1)"
      by force
    show ?thesis
    proof (cases "t = 0")
      case True
      thus ?thesis using u q None n r1 by (simp add: publish_ranges_def defer_native_color_copy_def)
    next
      case False
      note reg = register_cases[OF r1 False]
      have sr: "store_ok e (s\<lparr>cs_ram := r\<rparr>)" using u by (simp add: unchanged_def)
      have tr: "gr_nextToken r < - 1" using k t by (simp add: keeps_view_def)
      note nt = new_token[OF reg(2) tr]
      let ?new = "\<lparr>dr_token = t, dr_physical = p, dr_length = n, dr_user = \<lparr>pc_address = a, pc_bytes = n, pc_copy = c\<rparr>\<rparr>"
      have p: "p = physical_of a" using e reg(1) checked_ram_Inr(3)[OF n(2)] by (simp add: ram_map_ok_def)
      have fits: "read_fits (ce_encoder e) ?new" using n(1) p by (simp add: read_fits_def)
      have fresh: "\<forall>d \<in> set (gr_reads r). dr_token d \<noteq> t"
        using store_token_fresh(2)[OF sr] nt(1) by (simp, metis leD)
      have dist: "distinct (map dr_token (gr_reads r1))"
        using fresh reads_okD(1)[OF store_ok_reads[OF sr]] by (auto simp: reg(3))
      have dn: "defer_native_color_copy e a (Some c) r = Inr (t, r1)"
        using n(1) r1 False by (simp add: defer_native_color_copy_def)
      show ?thesis
      proof (cases "publish_handle host (Some c) (cs_cache s)")
        case (Inl err)
        have "CancelDeferredRead t r1 = r\<lparr>gr_nextToken := t + 1\<rparr>"
          using fresh CancelDeferredRead_reads[OF dist, of t] by (simp add: reg(3) filter_id_conv)
        moreover have "unchanged e s (s\<lparr>cs_ram := r\<lparr>gr_nextToken := t + 1\<rparr>\<rparr>)"
          using u nt ranges_ok_mono unfolding unchanged_def store_ok_def by fastforce
        ultimately show ?thesis using q None dn Inl by (simp add: publish_ranges_def)
      next
        case (Inr c')
        hence c': "c' = (cs_cache s)(host \<mapsto> c)" by (auto simp: publish_handle_def split: if_splits sum.splits)
        obtain m c2 r2 where ret: "retire p n host (cs_ranges s) (c', r1) = (m, c2, r2)" by (metis prod_cases3)
        let ?s = "\<lparr>cs_ranges = map_insert p \<lparr>ce_bytes = n, ce_token = t, ce_destination = host\<rparr> m,
          cs_cache = c2, cs_ram = r2\<rparr>"
        have eq: "publish_ranges e a p n host c s = Finished ?s"
          using q None dn Inr ret by (simp add: publish_ranges_def)
        note m = retire_eq[OF dist, of p n host "cs_ranges s" c', unfolded ret prod.inject]
        have sq: "?s = \<lparr>cs_ranges = map_insert p \<lparr>ce_bytes = n, ce_token = t, ce_destination = host\<rparr>
          (filter (\<lambda>x. \<not> overlapping p n x) (cs_ranges s)),
        cs_cache = (\<lambda>h. if h \<noteq> host \<and> (\<exists>x \<in> set (cs_ranges s). overlapping p n x \<and> ce_destination (snd x) = h)
          then None else ((cs_cache s)(host \<mapsto> c)) h),
        cs_ram = r\<lparr>gr_reads := filter (\<lambda>d. \<forall>x \<in> set (cs_ranges s). overlapping p n x \<longrightarrow> dr_token d \<noteq> token_of x)
          (gr_reads r @ [?new]), gr_nextToken := t + 1\<rparr>\<rparr>"
          unfolding m[THEN conjunct1] m[THEN conjunct2, THEN conjunct1] m[THEN conjunct2, THEN conjunct2] c'
          by (simp add: reg(3) p)
        have "0 < n" by (rule checked_ram_Inr(2)[OF n(2)])
        note fin = publish_final[OF sr _ reg(2) tr refl fits this sq]
        have vr: "guest_view (ce_encoder e) r = guest_view (ce_encoder e) (cs_ram s)" using k by (auto simp: keeps_view_def)
        have ov: "\<forall>d \<in> set (gr_reads r). \<forall>x \<in> set (cs_ranges s). overlapping p n x \<longrightarrow>
            covered p n (fst x) (ce_bytes (snd x)) \<or> \<not> overlaps (fst x) (ce_bytes (snd x)) (dr_physical d) (dr_length d)"
          using v None by simp
        have "cs_cache ?s host = Some c" unfolding sq by simp
        thus ?thesis unfolding eq outcome.case using fin[OF ov] p vr by simp
      qed
    qed
  qed
qed

end
