(* ===== verification/CopyProps.thy ===== *)
theory CopyProps
  imports CopyStoreLemmas
begin

text \<open>
  The properties of the copy store: its invariant over every sequence of operations, what a guest
  read returns after a publication, that a publication that throws changes nothing, and what a bulk
  write may rely on.
\<close>

lemma prepare_write_outcome:
  assumes e: "ram_map_ok e" and s: "store_ok e s"
  shows "case prepare_write e a n s of Throws err s' \<Rightarrow> unchanged e s s'
    | Finished s' \<Rightarrow> store_ok e s' \<and>
        (\<forall>q. guest_view (ce_encoder e) (cs_ram s') q = guest_view (ce_encoder e) (cs_ram s) q) \<and>
        (0 < n \<longrightarrow> (\<forall>d \<in> set (gr_reads (cs_ram s')). \<not> overlaps (CanonicalizeGxMainRamAddress e a) n (dr_physical d) (dr_length d)) \<and>
          (\<forall>h \<in> dom (cs_cache s'). \<exists>x \<in> set (cs_ranges s'). ce_destination (snd x) = h \<and>
             \<not> overlapping (CanonicalizeGxMainRamAddress e a) n x) \<and>
          cs_ranges s' = filter (\<lambda>x. \<not> overlapping (CanonicalizeGxMainRamAddress e a) n x) (cs_ranges s) \<and>
          cs_cache s' = (\<lambda>h. if \<exists>x \<in> set (cs_ranges s). overlapping (CanonicalizeGxMainRamAddress e a) n x \<and>
            ce_destination (snd x) = h then None else cs_cache s h))"
proof (cases "n = 0 \<or> (\<exists>err. checked_ram e a n = Inl err)")
  case True
  thus ?thesis using s by (auto simp: prepare_write_def unchanged_def)
next
  case False
  then obtain p n' host where c: "checked_ram e a n = Inr (p, n', host)" by (cases "checked_ram e a n") auto
  note cr = checked_ram_Inr[OF c]
  obtain q r where q: "ResolveDeferredReads e p n (cs_ram s) = (q, r)" by force
  note v = resolve_view[OF e store_ok_reads[OF s], of p n, unfolded q fst_conv snd_conv]
  hence k: "keeps_view (ce_encoder e) (cs_ram s) r" by simp
  note u = unchanged_ram[OF s k]
  show ?thesis
  proof (cases q)
    case (Some err)
    thus ?thesis using u c cr q by (simp add: prepare_write_def)
  next
    case None
    let ?m = "filter (\<lambda>x. \<not> overlapping p n x) (cs_ranges s)"
    let ?c = "\<lambda>h. if \<exists>x \<in> set (cs_ranges s). overlapping p n x \<and> ce_destination (snd x) = h then None else cs_cache s h"
    have eq: "prepare_write e a n s = Finished \<lparr>cs_ranges = ?m, cs_cache = ?c, cs_ram = r\<rparr>"
      using None False c cr q by (simp add: prepare_write_def drop_overlapping_eq)
    have free: "\<forall>d \<in> set (gr_reads r). \<not> overlaps p n (dr_physical d) (dr_length d)" using v None False by simp
    have sr: "store_ok e (s\<lparr>cs_ram := r\<rparr>)" using u by (simp add: unchanged_def)
    have m: "ranges_ok ?m (gr_nextToken r)" using sr by (simp add: store_ok_def ranges_ok_def distinct_map_filter)
    have own: "\<exists>x \<in> set ?m. entry_of d x" if d: "d \<in> set (gr_reads r)" for d
    proof -
      obtain x where x: "x \<in> set (cs_ranges s)" "entry_of d x" using sr d by (auto simp: store_ok_def)
      moreover have "\<not> overlapping p n x" using free d x(2) overlaps_sym by metis
      ultimately show ?thesis unfolding set_filter by blast
    qed
    have cache: "\<exists>x \<in> set ?m. ce_destination (snd x) = h \<and> \<not> overlapping p n x" if h: "h \<in> dom ?c" for h
    proof -
      let ?E = "\<exists>x \<in> set (cs_ranges s). overlapping p n x \<and> ce_destination (snd x) = h"
      have k: "(if ?E then None else cs_cache s h) \<noteq> None" using h by (simp only: domIff not_False_eq_True)
      have n: "\<not> ?E"
      proof
        assume ?E
        hence "(if ?E then None else cs_cache s h) = None" by (rule if_P)
        with k show False by contradiction
      qed
      from k have "h \<in> dom (cs_cache s)" unfolding if_not_P[OF n] by (simp only: domIff not_False_eq_True)
      then obtain x where "x \<in> set (cs_ranges s)" "ce_destination (snd x) = h" using s unfolding store_ok_def by blast
      with n show ?thesis unfolding set_filter by blast
    qed
    have "store_ok e \<lparr>cs_ranges = ?m, cs_cache = ?c, cs_ram = r\<rparr>"
      unfolding store_ok_def copy_store.select_convs
    proof (intro conjI ballI)
      show "reads_ok (ce_encoder e) (gr_reads r)" using k by (simp add: keeps_view_def)
      show "\<exists>x \<in> set ?m. ce_destination (snd x) = h" if "h \<in> dom ?c" for h using cache[OF that] by blast
    qed (use m own in simp_all)
    moreover have "\<forall>q. guest_view (ce_encoder e) r q = guest_view (ce_encoder e) (cs_ram s) q" using k by (simp add: keeps_view_def)
    ultimately show ?thesis unfolding eq outcome.case copy_store.select_convs using free cache cr(3) by blast
  qed
qed

lemma guest_view_writes:
  "store_ok e s \<Longrightarrow> store_ok e (s\<lparr>cs_ram := (cs_ram s)\<lparr>gr_bytes := m\<rparr>\<rparr>)"
  by (simp add: store_ok_def)

lemma store_ok_access:
  assumes "ram_map_ok e" "store_ok e s"
  shows "store_ok e (guest_access e a n stored s)"
proof -
  obtain q r where q: "ResolveDeferredReads e a n (cs_ram s) = (q, r)" by force
  have "store_ok e (s\<lparr>cs_ram := r\<rparr>)"
    using resolve_view[OF assms(1) store_ok_reads[OF assms(2)], of a n] q by (auto intro: store_ok_ram[OF assms(2)])
  thus ?thesis using q by (cases q) (auto simp: guest_access_def store_ok_def)
qed

lemma store_ok_reachable:
  assumes "copy_reachable e s" "ram_map_ok e"
  shows "store_ok e s"
  using assms(1)
proof induction
  case (start m)
  show ?case by (simp add: store_ok_def ranges_ok_def reads_ok_def)
next
  case (publish s a c)
  consider err where "publish e a c s = Throws err s"
    | c' n p host where "native_color_copy_bytes (ce_encoder e) c' = Inr n" "checked_ram e a n = Inr (p, n, host)"
      "publish e a c s = publish_ranges e a p n host c' s"
    using publish_cases[of e a c s] by blast
  thus ?case
  proof cases
    case 1
    thus ?thesis using publish.IH by (simp add: outcome_state_def)
  next
    case 2
    thus ?thesis using publish_ranges_outcome[OF assms(2) publish.IH publish.hyps(2) 2(1,2)]
      by (auto simp: outcome_state_def unchanged_def split: outcome.splits)
  qed
next
  case (prepare s a n)
  thus ?case using prepare_write_outcome[OF assms(2) prepare.IH, where a = a and n = n]
    by (auto simp: outcome_state_def unchanged_def split: outcome.splits)
next
  case (access s a n stored)
  thus ?case using store_ok_access[OF assms(2)] by blast
next
  case (raw s m)
  thus ?case by (rule_tac guest_view_writes)
next
  case (evict s h)
  thus ?case by (auto simp: store_ok_def evict_copies_def copy_evict_def copy_clear_def split: if_splits)
qed

text \<open>C8. In every state of the copy store the published ranges are disjoint and not empty, every pending
  write to guest RAM belongs to exactly the range that carries its token, and every copy offered as
  a texture is the destination of a range, so that a later overlapping write will find and retire it.\<close>
theorem copy_store_invariant:
  assumes "copy_reachable e s" "ram_map_ok e" "x \<in> set (cs_ranges s)" "y \<in> set (cs_ranges s)" "x \<noteq> y"
    "d \<in> set (gr_reads (cs_ram s))" "cs_cache s h = Some c"
  shows "\<not> overlaps (fst x) (ce_bytes (snd x)) (fst y) (ce_bytes (snd y)) \<and> 0 < ce_bytes (snd x) \<and>
    (\<exists>!z. z \<in> set (cs_ranges s) \<and> ce_token (snd z) = dr_token d) \<and>
    (\<exists>z \<in> set (cs_ranges s). ce_token (snd z) = dr_token d \<and> fst z = dr_physical d \<and> ce_bytes (snd z) = dr_length d) \<and>
    (\<exists>z \<in> set (cs_ranges s). ce_destination (snd z) = h)"
proof -
  note s = store_ok_reachable[OF assms(1,2)]
  have r: "ranges_ok (cs_ranges s) (gr_nextToken (cs_ram s))" using s by (simp add: store_ok_def)
  obtain z where z: "z \<in> set (cs_ranges s)" "entry_of d z" using s assms(6) by (auto simp: store_ok_def)
  have "z' = z" if "z' \<in> set (cs_ranges s)" "token_of z' = dr_token d" for z'
    using r z that unfolding ranges_ok_def distinct_map by (metis inj_onD)
  hence "\<exists>!z. z \<in> set (cs_ranges s) \<and> ce_token (snd z) = dr_token d" using z by blast
  moreover have "\<exists>z \<in> set (cs_ranges s). ce_destination (snd z) = h"
    using s assms(7) unfolding store_ok_def by (metis domI)
  ultimately show ?thesis using r assms(3-5) z unfolding ranges_ok_def by blast
qed

text \<open>C7. Publishing a copy overrides the guest's view of RAM on exactly its range: after a successful
  publication a guest read returns there the byte the encoder makes of the copy and everywhere else
  what it returned before, although copies that were still pending have been dropped or written out;
  and the copy is a texture at its destination.\<close>
theorem copy_publish_replaces_range:
  assumes "copy_reachable e s" "ram_map_ok e" "gr_nextToken (cs_ram s) < - 1"
    and "publish e a (Some c) s = Finished s'"
  shows "\<exists>n host. native_color_copy_bytes (ce_encoder e) c = Inr n \<and> checked_ram e a n = Inr (physical_of a, n, host) \<and>
    cs_cache s' host = Some c \<and>
    (\<forall>q. guest_view (ce_encoder e) (cs_ram s') q =
      (if in_range (physical_of a) n q then copy_byte (ce_encoder e) c (unat q - unat (physical_of a))
       else guest_view (ce_encoder e) (cs_ram s) q))"
proof -
  obtain n p host where n: "native_color_copy_bytes (ce_encoder e) c = Inr n" "checked_ram e a n = Inr (p, n, host)"
    "publish_ranges e a p n host c s = Finished s'"
    using publish_cases[OF assms(4)] by auto
  from publish_ranges_outcome[OF assms(2) store_ok_reachable[OF assms(1,2)] assms(3) n(1,2), unfolded n(3) outcome.case]
  show ?thesis using n(1,2) by auto
qed

text \<open>C9. A publication that throws, wherever it does, leaves the published ranges, the textures and the guest's
  view of RAM as they were.\<close>
theorem copy_publish_failure_changes_nothing:
  assumes "copy_reachable e s" "ram_map_ok e" "gr_nextToken (cs_ram s) < - 1"
    and "publish e a copy s = Throws err s'"
  shows "cs_ranges s' = cs_ranges s \<and> cs_cache s' = cs_cache s \<and>
    (\<forall>q. guest_view (ce_encoder e) (cs_ram s') q = guest_view (ce_encoder e) (cs_ram s) q)"
proof -
  note s = store_ok_reachable[OF assms(1,2)]
  from publish_cases[OF assms(4)] show ?thesis
  proof
    assume "\<exists>c n p host. copy = Some c \<and> native_color_copy_bytes (ce_encoder e) c = Inr n \<and>
      checked_ram e a n = Inr (p, n, host) \<and> Throws err s' = publish_ranges e a p n host c s"
    then obtain c n p host where n: "native_color_copy_bytes (ce_encoder e) c = Inr n"
      "checked_ram e a n = Inr (p, n, host)" "publish_ranges e a p n host c s = Throws err s'" by metis
    from publish_ranges_outcome[OF assms(2) s assms(3) n(1,2), unfolded n(3) outcome.case]
    show ?thesis by (simp add: unchanged_def)
  qed simp
qed

lemma prepare_write_facts:
  assumes "copy_reachable e s" "ram_map_ok e" "0 < n" "prepare_write e a n s = Finished s'"
  defines "p \<equiv> CanonicalizeGxMainRamAddress e a"
  shows "(\<forall>d \<in> set (gr_reads (cs_ram s')). \<not> overlaps p n (dr_physical d) (dr_length d)) \<and>
    (\<forall>q. in_range p n q \<longrightarrow> guest_view (ce_encoder e) (cs_ram s) q = Some (gr_bytes (cs_ram s') q)) \<and>
    (\<forall>q. guest_view (ce_encoder e) (cs_ram s') q = guest_view (ce_encoder e) (cs_ram s) q) \<and>
    cs_ranges s' = filter (\<lambda>x. \<not> overlapping p n x) (cs_ranges s) \<and>
    (\<forall>h. cs_cache s' h = (if \<exists>x \<in> set (cs_ranges s). overlapping p n x \<and> ce_destination (snd x) = h then None
       else cs_cache s h)) \<and>
    (\<forall>h \<in> dom (cs_cache s'). \<exists>x \<in> set (cs_ranges s'). ce_destination (snd x) = h \<and> \<not> overlapping p n x)"
proof -
  from prepare_write_outcome[OF assms(2) store_ok_reachable[OF assms(1,2)], where a = a and n = n, unfolded assms(4) outcome.case]
  have v: "\<forall>q. guest_view (ce_encoder e) (cs_ram s') q = guest_view (ce_encoder e) (cs_ram s) q"
    and d: "\<forall>d \<in> set (gr_reads (cs_ram s')). \<not> overlaps p n (dr_physical d) (dr_length d)"
    and t: "\<forall>h \<in> dom (cs_cache s'). \<exists>x \<in> set (cs_ranges s'). ce_destination (snd x) = h \<and> \<not> overlapping p n x"
    and r: "cs_ranges s' = filter (\<lambda>x. \<not> overlapping p n x) (cs_ranges s)"
    and c: "cs_cache s' = (\<lambda>h. if \<exists>x \<in> set (cs_ranges s). overlapping p n x \<and> ce_destination (snd x) = h then None
      else cs_cache s h)"
    using assms(3) unfolding p_def by blast+
  have "guest_view (ce_encoder e) (cs_ram s') q = Some (gr_bytes (cs_ram s') q)" if "in_range p n q" for q
    by (rule guest_view_free) (use d overlaps_cover[OF that] in blast)
  hence b: "\<forall>q. in_range p n q \<longrightarrow> guest_view (ce_encoder e) (cs_ram s) q = Some (gr_bytes (cs_ram s') q)" using v by simp
  have c': "\<forall>h. cs_cache s' h = (if \<exists>x \<in> set (cs_ranges s). overlapping p n x \<and> ce_destination (snd x) = h then None
      else cs_cache s h)" using c by (rule fun_cong[THEN allI])
  show ?thesis by (intro conjI) (rule d b v r c' t)+
qed

text \<open>C10. After \<open>prepare_write\<close> a caller may write the range behind the accessors: no deferred read is left
  registered on it, the bytes in RAM there are what the guest read before, and the guest's view of
  every address is unchanged.  Exactly the ranges that touch the write are forgotten, and with them
  exactly the textures that are their destinations; every texture that is left belongs to a range
  outside the write.\<close>
theorem prepare_write_exposes_bytes:
  assumes "copy_reachable e s" "ram_map_ok e" "0 < n" "prepare_write e a n s = Finished s'"
  shows "let p = CanonicalizeGxMainRamAddress e a in
    (\<forall>d \<in> set (gr_reads (cs_ram s')). \<not> overlaps p n (dr_physical d) (dr_length d)) \<and>
    (\<forall>q. in_range p n q \<longrightarrow> guest_view (ce_encoder e) (cs_ram s) q = Some (gr_bytes (cs_ram s') q)) \<and>
    (\<forall>q. guest_view (ce_encoder e) (cs_ram s') q = guest_view (ce_encoder e) (cs_ram s) q) \<and>
    cs_ranges s' = filter (\<lambda>x. \<not> overlapping p n x) (cs_ranges s) \<and>
    (\<forall>h. cs_cache s' h = (if \<exists>x \<in> set (cs_ranges s). overlapping p n x \<and> ce_destination (snd x) = h then None
       else cs_cache s h)) \<and>
    (\<forall>h \<in> dom (cs_cache s'). \<exists>x \<in> set (cs_ranges s'). ce_destination (snd x) = h \<and> \<not> overlapping p n x)"
  unfolding Let_def by (rule prepare_write_facts[OF assms])

section \<open>Witnesses\<close>

text \<open>A runtime whose RAM is mapped at one host address, an encoder that makes 32 bytes of any copy, and a
  copy of one texel.\<close>
definition sample_env :: copy_env where
  "sample_env = \<lparr>kMem1Size = 0x1800000, kMem2PhysicalBase = 0x10000000, kMem2PhysicalEnd = 0x14000000,
     Contains = (\<lambda>_ _. True), GetPointer = (\<lambda>a _. ucast (physical_of a) + 0x100000000),
     RangesOverlap = overlaps, CanonicalizeGxMainRamAddress = physical_of,
     ce_encoder = \<lparr>encoded_size = (\<lambda>_ _ _. 32), ram_encode = (\<lambda>_ _ _ bs. Some (\<lambda>i. hd bs))\<rparr>\<rparr>"

definition sample_copy :: "u8 \<Rightarrow> GxColorCopy" where
  "sample_copy b = \<lparr>cp_width = 1, cp_height = 1,
     cp_target = Some \<lparr>ct_layout = \<lparr>tx_width = 1, tx_height = 1, tx_count = 1, tx_bytes = 65536, tx_linearBytes = 4,
         tx_mips = [\<lparr>mp_width = 1, mp_height = 1, mp_paddedWidth = 128, mp_tailX = 0, mp_tailY = 0, mp_offset = 0\<rparr>]\<rparr>,
       ct_address = 0x10000, ct_pixels = (\<lambda>_. b)\<rparr>,
     cp_format = 0x23, cp_nativeReadback = None\<rparr>"

definition sample_start :: copy_store where
  "sample_start = \<lparr>cs_ranges = [], cs_cache = (\<lambda>_. None), cs_ram = \<lparr>gr_bytes = (\<lambda>_. 7), gr_reads = [], gr_nextToken = 1\<rparr>\<rparr>"

lemma sample_env_ok: "ram_map_ok sample_env"
  by (simp add: ram_map_ok_def sample_env_def)

lemmas sample_simps = sample_env_def sample_copy_def publish_def publish_ranges_def
  native_color_copy_bytes_def target_live_def readable_format_def readback_target_def native_size_def mkw_copy_color_format_def
  checked_ram_def windows_def physical_of_def texture_descriptor_def bgra_descriptor_def tx_descriptor_def
  defer_native_color_copy_def RegisterDeferredRamRead_def InsertDeferredRead_def publish_handle_def map_insert_def Let_def

abbreviation sample_read :: "u64 \<Rightarrow> u32 \<Rightarrow> u32 \<Rightarrow> u8 \<Rightarrow> DeferredRead" where
  "sample_read t p a b \<equiv> \<lparr>dr_token = t, dr_physical = p, dr_length = 32,
     dr_user = \<lparr>pc_address = a, pc_bytes = 32, pc_copy = sample_copy b\<rparr>\<rparr>"

abbreviation sample_entry :: "u32 \<Rightarrow> u64 \<Rightarrow> u64 \<Rightarrow> u32 \<times> CopyEntry" where
  "sample_entry p t h \<equiv> (p, \<lparr>ce_bytes = 32, ce_token = t, ce_destination = h\<rparr>)"

text \<open>Copies published at two addresses of the cached window.\<close>
abbreviation sample_one :: copy_store where
  "sample_one \<equiv> \<lparr>cs_ranges = [sample_entry 0x300000 1 0x100300000], cs_cache = [0x100300000 \<mapsto> sample_copy 5],
     cs_ram = \<lparr>gr_bytes = (\<lambda>_. 7), gr_reads = [sample_read 1 0x300000 0x80300000 5], gr_nextToken = 2\<rparr>\<rparr>"

abbreviation sample_two :: copy_store where
  "sample_two \<equiv> \<lparr>cs_ranges = [sample_entry 0x300000 1 0x100300000, sample_entry 0x300100 2 0x100300100],
     cs_cache = [0x100300000 \<mapsto> sample_copy 5, 0x100300100 \<mapsto> sample_copy 6],
     cs_ram = \<lparr>gr_bytes = (\<lambda>_. 7), gr_reads = [sample_read 1 0x300000 0x80300000 5, sample_read 2 0x300100 0x80300100 6],
       gr_nextToken = 3\<rparr>\<rparr>"

lemma sample_publish:
  "publish sample_env 0x80300000 (Some (sample_copy 5)) sample_start = Finished sample_one"
  "publish sample_env 0x80300100 (Some (sample_copy 6)) sample_one = Finished sample_two"
  by (simp_all add: sample_simps sample_start_def overlaps_def)

lemma below_max: "(1 :: u64) < - 1" "(2 :: u64) < - 1"
  by (simp_all add: word_order.not_eq_extremum[symmetric])

lemma sample_reachable: "copy_reachable sample_env sample_one" "copy_reachable sample_env sample_two"
proof -
  have "copy_reachable sample_env sample_start" unfolding sample_start_def by (rule copy_reachable.start)
  from copy_reachable.publish[OF this, where a = "0x80300000" and c = "Some (sample_copy 5)"]
  show one: "copy_reachable sample_env sample_one" by (simp add: sample_publish outcome_state_def) (simp add: sample_start_def below_max)
  from copy_reachable.publish[OF this, where a = "0x80300100" and c = "Some (sample_copy 6)"]
  show "copy_reachable sample_env sample_two" by (simp add: sample_publish outcome_state_def below_max)
qed

lemma sample_encode: "encode_native_color_copy (ce_encoder sample_env) (sample_copy b) = Inr (map (\<lambda>_. b) [0..<32])"
  by (simp add: sample_simps encode_native_color_copy_def linear_pixels_def pixel_offset_def tx_mip_def
      mip_texel_offset_def swizzle_def hd_map)

lemma resolve_loop_one:
  assumes "read_overlaps e a n d" "\<not> list_ex (read_overlaps e a n) ds"
    "materialize (ce_encoder e) (dr_user d) f = Inr m"
  shows "resolve_loop e a n \<lparr>gr_bytes = f, gr_reads = d # ds, gr_nextToken = t\<rparr> =
    (None, \<lparr>gr_bytes = m, gr_reads = ds, gr_nextToken = t\<rparr>)"
proof -
  have "find (read_overlaps e a n) ds = None" using assms(2) by (simp add: find_None_iff list_ex_iff)
  thus ?thesis using assms(1,3) by (subst resolve_loop.simps) (simp add: resolve_loop_cases(1))
qed

lemma sample_materialize:
  "materialize (ce_encoder sample_env) \<lparr>pc_address = a, pc_bytes = 32, pc_copy = sample_copy b\<rparr> f =
   Inr (write_bytes (physical_of a) (map (\<lambda>_. b) [0..<32]) f)"
  by (simp add: materialize_def sample_encode)

lemma sample_resolve:
  "ResolveDeferredReads sample_env 0x300000 32 (cs_ram sample_one) =
   (None, \<lparr>gr_bytes = write_bytes 0x300000 (map (\<lambda>_. 5) [0..<32]) (\<lambda>_. 7), gr_reads = [], gr_nextToken = 2\<rparr>)"
  "ResolveDeferredReads sample_env 0x300004 4 (cs_ram sample_two) =
   (None, \<lparr>gr_bytes = write_bytes 0x300000 (map (\<lambda>_. 5) [0..<32]) (\<lambda>_. 7),
           gr_reads = [sample_read 2 0x300100 0x80300100 6], gr_nextToken = 3\<rparr>)"
  by (simp_all add: ResolveDeferredReads_def resolve_loop_one sample_materialize physical_of_def read_overlaps_def windows_def
      sample_env_def[THEN arg_cong[of _ _ RangesOverlap]] overlaps_def)


lemma sample_overlap:
  "publish sample_env 0x80300010 (Some (sample_copy 9)) sample_one = Finished
     \<lparr>cs_ranges = [sample_entry 0x300010 2 0x100300010], cs_cache = [0x100300010 \<mapsto> sample_copy 9],
      cs_ram = \<lparr>gr_bytes = write_bytes 0x300000 (map (\<lambda>_. 5) [0..<32]) (\<lambda>_. 7),
        gr_reads = [sample_read 2 0x300010 0x80300010 9], gr_nextToken = 3\<rparr>\<rparr>"
proof -
  have a: "publish sample_env 0x80300010 (Some (sample_copy 9)) sample_one =
      publish_ranges sample_env 0x80300010 0x300010 32 0x100300010 (sample_copy 9) sample_one"
    by (simp add: sample_simps)
  have b: "resolve_partial sample_env 0x300010 32 (cs_ranges sample_one) (cs_ram sample_one) =
      (None, \<lparr>gr_bytes = write_bytes 0x300000 (map (\<lambda>_. 5) [0..<32]) (\<lambda>_. 7), gr_reads = [], gr_nextToken = 2\<rparr>)"
    using sample_resolve(1) by (simp add: overlaps_def covered_def word_le_nat_alt)
  have c: "defer_native_color_copy sample_env 0x80300010 (Some (sample_copy 9)) \<lparr>gr_bytes = f, gr_reads = [], gr_nextToken = 2\<rparr> =
      Inr (2, \<lparr>gr_bytes = f, gr_reads = [sample_read 2 0x300010 0x80300010 9], gr_nextToken = 3\<rparr>)" for f
    by (simp add: sample_simps)
  have d: "publish_handle 0x100300010 (Some (sample_copy 9)) m = Inr (m(0x100300010 \<mapsto> sample_copy 9))" for m
    by (simp add: sample_simps)
  show ?thesis unfolding a publish_ranges_def b prod.case option.case c sum.case d
    by (simp add: overlaps_def CancelDeferredRead_def copy_evict_def map_insert_def fun_eq_iff)
qed

theorem copy_store_invariant_witness:
  "\<not> overlaps 0x300000 32 0x300100 32 \<and> 0 < (32 :: nat) \<and>
   (\<exists>!z. z \<in> set (cs_ranges sample_two) \<and> ce_token (snd z) = 2) \<and>
   (\<exists>z \<in> set (cs_ranges sample_two). ce_token (snd z) = 2 \<and> fst z = 0x300100 \<and> ce_bytes (snd z) = 32) \<and>
   (\<exists>z \<in> set (cs_ranges sample_two). ce_destination (snd z) = 0x100300000)"
proof -
  have "sample_entry 0x300000 1 0x100300000 \<in> set (cs_ranges sample_two)"
    "sample_entry 0x300100 2 0x100300100 \<in> set (cs_ranges sample_two)"
    "sample_entry 0x300000 1 0x100300000 \<noteq> sample_entry 0x300100 2 0x100300100"
    "sample_read 2 0x300100 0x80300100 6 \<in> set (gr_reads (cs_ram sample_two))"
    "cs_cache sample_two 0x100300000 = Some (sample_copy 5)" by simp_all
  from copy_store_invariant[OF sample_reachable(2) sample_env_ok this]
  show ?thesis unfolding fst_conv snd_conv CopyEntry.select_convs DeferredRead.select_convs .
qed

theorem copy_publish_replaces_range_witness:
  "\<exists>n host. native_color_copy_bytes (ce_encoder sample_env) (sample_copy 9) = Inr n \<and>
     checked_ram sample_env 0x80300010 n = Inr (physical_of 0x80300010, n, host) \<and>
     cs_cache (outcome_state (publish sample_env 0x80300010 (Some (sample_copy 9)) sample_one)) host = Some (sample_copy 9) \<and>
     (\<forall>q. guest_view (ce_encoder sample_env)
            (cs_ram (outcome_state (publish sample_env 0x80300010 (Some (sample_copy 9)) sample_one))) q =
        (if in_range (physical_of 0x80300010) n q
         then copy_byte (ce_encoder sample_env) (sample_copy 9) (unat q - unat (physical_of 0x80300010))
         else guest_view (ce_encoder sample_env) (cs_ram sample_one) q))"
proof -
  have "gr_nextToken (cs_ram sample_one) < - 1" by (simp add: below_max)
  from copy_publish_replaces_range[OF sample_reachable(1) sample_env_ok this sample_overlap]
  show ?thesis unfolding sample_overlap outcome_state_def outcome.case .
qed

theorem copy_publish_failure_changes_nothing_witness:
  "cs_cache (outcome_state (publish sample_env 0x40300000 (Some (sample_copy 9)) sample_one)) 0x100300000 = Some (sample_copy 5)"
proof -
  have t: "gr_nextToken (cs_ram sample_one) < - 1" by (simp add: below_max)
  have f: "publish sample_env 0x40300000 (Some (sample_copy 9)) sample_one =
      Throws ''Copy destination is not a coherent Wii RAM range'' sample_one"
    by (simp add: sample_simps overlaps_def covered_def)
  from copy_publish_failure_changes_nothing[OF sample_reachable(1) sample_env_ok t f]
  show ?thesis by (simp add: f outcome_state_def)
qed

theorem prepare_write_exposes_bytes_witness:
  "guest_view (ce_encoder sample_env) (cs_ram sample_two) 0x300005 = Some 5"
proof -
  have f: "prepare_write sample_env 0xC0300004 4 sample_two = Finished
      \<lparr>cs_ranges = [sample_entry 0x300100 2 0x100300100], cs_cache = [0x100300100 \<mapsto> sample_copy 6],
       cs_ram = \<lparr>gr_bytes = write_bytes 0x300000 (map (\<lambda>_. 5) [0..<32]) (\<lambda>_. 7),
         gr_reads = [sample_read 2 0x300100 0x80300100 6], gr_nextToken = 3\<rparr>\<rparr>"
  proof -
    have c: "checked_ram sample_env 0xC0300004 4 = Inr (0x300004, 4, 0x100300004)" by (simp add: sample_simps)
    show ?thesis unfolding prepare_write_def c sum.case prod.case sample_resolve(2) option.case
      by (simp add: overlaps_def copy_evict_def fun_eq_iff)
  qed
  have r: "in_range (CanonicalizeGxMainRamAddress sample_env 0xC0300004) 4 0x300005"
    by (simp add: sample_env_def physical_of_def in_range_def)
  show ?thesis
    using prepare_write_exposes_bytes[OF sample_reachable(2) sample_env_ok _ f] r
    by (simp add: Let_def write_bytes_def in_range_def)
qed

end
