(* ===== verification/Ieee32Order.thy ===== *)
theory Ieee32Order
  imports Ieee32Round
begin

text \<open>
  The order of non-negative binary32 values: it is the order of their bit patterns, and rounding is
  monotone, so that sums and differences of ordered values are ordered.
\<close>

text \<open>Finite with a clear sign bit; and the same with the infinity.\<close>
definition nn :: "f32 \<Rightarrow> bool" where "nn x \<longleftrightarrow> uint x < (2 ^ 8 - 1) * 2 ^ 23"

definition nn_inf :: "f32 \<Rightarrow> bool" where "nn_inf x \<longleftrightarrow> uint x \<le> (2 ^ 8 - 1) * 2 ^ 23"

definition f32_real :: "f32 \<Rightarrow> real" where "f32_real x = rv (f32_val x)"

lemma nn_inf_nn: "nn x \<Longrightarrow> nn_inf x" by (simp add: nn_def nn_inf_def)

text \<open>Significand and exponent of a pattern.\<close>
definition pat_sig :: "int \<Rightarrow> int" where "pat_sig b = (if b div 2 ^ 23 = 0 then b mod 2 ^ 23 else b mod 2 ^ 23 + 2 ^ 23)"
definition pat_exp :: "int \<Rightarrow> int" where "pat_exp b = (if b div 2 ^ 23 = 0 then - 149 else b div 2 ^ 23 - 150)"

lemma nn_val: "nn x \<Longrightarrow> f32_val x = FFin False (pat_sig (uint x)) (pat_exp (uint x))"
  using f32_decode_small[of "uint x" False] by (auto simp: nn_def pat_sig_def pat_exp_def f_sign_bit_def)

lemma nn_inf_cases: "nn_inf x \<Longrightarrow> nn x \<or> x = 0x7F800000"
proof -
  assume "nn_inf x"
  hence "nn x \<or> uint x = uint (0x7F800000 :: u32)" by (auto simp: nn_def nn_inf_def)
  thus ?thesis by (auto simp: word_uint_eq_iff)
qed

lemma inf_val: "f32_val 0x7F800000 = FInf False"
  by (simp add: f32_val_def f_decode_def)

lemma pat_bounds:
  assumes "0 \<le> b" "b < (2 ^ 8 - 1) * 2 ^ 23"
  shows "0 \<le> pat_sig b" "pat_sig b < 2 ^ 24" "- 149 \<le> pat_exp b" "pat_exp b \<le> 104"
    "pat_exp b = - 149 \<or> 2 ^ 23 \<le> pat_sig b" "b = pat_sig b + (pat_exp b + 149) * 2 ^ 23"
proof -
  have "b div 2 ^ 23 < 2 ^ 8 - 1" "0 \<le> b div 2 ^ 23" "b mod 2 ^ 23 < 2 ^ 23" "0 \<le> b mod 2 ^ 23"
    "b = b div 2 ^ 23 * 2 ^ 23 + b mod 2 ^ 23" using assms by auto
  thus "0 \<le> pat_sig b" "pat_sig b < 2 ^ 24" "- 149 \<le> pat_exp b" "pat_exp b \<le> 104"
    "pat_exp b = - 149 \<or> 2 ^ 23 \<le> pat_sig b" "b = pat_sig b + (pat_exp b + 149) * 2 ^ 23"
    by (auto simp: pat_sig_def pat_exp_def)
qed

lemma powi_mono: "(a :: int) \<le> b \<Longrightarrow> (2 :: real) powi a \<le> 2 powi b"
  by (rule power_int_increasing) simp_all

lemma pat_real_mono:
  assumes "0 \<le> b" "b < b'" "b' < (2 ^ 8 - 1) * 2 ^ 23"
  shows "real_of_int (pat_sig b) * 2 powi pat_exp b < real_of_int (pat_sig b') * 2 powi pat_exp b'"
proof -
  have "b < (2 ^ 8 - 1) * 2 ^ 23" "0 \<le> b'" using assms by simp_all
  note p = pat_bounds[OF assms(1) this(1)] and p' = pat_bounds[OF this(2) assms(3)]
  have eq: "pat_sig b + (pat_exp b + 149) * 2 ^ 23 < pat_sig b' + (pat_exp b' + 149) * 2 ^ 23"
    using assms(2) p(6) p'(6) by simp
  consider "pat_exp b = pat_exp b'" | "pat_exp b < pat_exp b'" | "pat_exp b' < pat_exp b" by linarith
  thus ?thesis
  proof cases
    case 1
    hence "pat_sig b < pat_sig b'" using eq by simp
    thus ?thesis using 1 by simp
  next
    case 2
    hence s: "2 ^ 23 \<le> pat_sig b'" using p'(5) p(3) by simp
    have "real_of_int (pat_sig b) * 2 powi pat_exp b < 2 ^ 24 * 2 powi pat_exp b"
      using p(2) by (simp add: of_int_less_iff[of _ "2 ^ 24", symmetric, where 'a = real])
    also have "\<dots> = 2 ^ 23 * 2 powi (pat_exp b + 1)" by (simp add: power_int_add)
    also have "\<dots> \<le> 2 ^ 23 * 2 powi pat_exp b'" using 2 by (intro mult_left_mono powi_mono) simp_all
    also have "\<dots> \<le> real_of_int (pat_sig b') * 2 powi pat_exp b'"
      using s by (intro mult_right_mono) (simp_all add: of_int_le_iff[of "2 ^ 23", symmetric, where 'a = real])
    finally show ?thesis .
  next
    case 3
    hence "2 ^ 23 \<le> pat_sig b" using p(5) p'(3) by simp
    hence False using eq 3 p'(2) by simp
    thus ?thesis ..
  qed
qed

lemma f32_real_nn: "nn x \<Longrightarrow> f32_real x = real_of_int (pat_sig (uint x)) * 2 powi pat_exp (uint x)"
  by (simp add: f32_real_def nn_val)

lemma f32_real_less: "nn x \<Longrightarrow> nn y \<Longrightarrow> f32_real x < f32_real y \<longleftrightarrow> x < y"
proof -
  assume n: "nn x" "nn y"
  have "f32_real a < f32_real b" if "nn a" "nn b" "a < b" for a b
    using that pat_real_mono[of "uint a" "uint b"] by (simp add: f32_real_nn nn_def word_less_def)
  from this[OF n] this[OF n(2,1)] show ?thesis by (cases x y rule: linorder_cases) auto
qed

lemma f32_real_le: "nn x \<Longrightarrow> nn y \<Longrightarrow> f32_real x \<le> f32_real y \<longleftrightarrow> x \<le> y"
  using f32_real_less[of y x] by (simp add: not_less[symmetric])

lemma f32_lt_nn_inf: "nn_inf x \<Longrightarrow> nn_inf y \<Longrightarrow> f32_lt x y \<longleftrightarrow> x < y"
proof -
  assume n: "nn_inf x" "nn_inf y"
  have top': "y \<le> 0x7F800000" "x \<le> 0x7F800000" using n by (simp_all add: nn_inf_def word_le_def)
  from nn_inf_cases[OF n(1)] nn_inf_cases[OF n(2)] show ?thesis
  proof (elim disjE)
    assume "nn x" "nn y"
    thus ?thesis using f32_real_less[of x y]
      by (simp add: f32_lt_def nn_val f32_real_def f_lt_rv del: f_lt_val.simps rv.simps)
  next
    assume x: "nn x" and y: "y = 0x7F800000"
    hence "uint x < uint y" by (simp add: nn_def)
    thus ?thesis using x by (simp add: y f32_lt_def nn_val inf_val word_less_def)
  qed (use top' in \<open>auto simp: f32_lt_def nn_val inf_val\<close>)
qed

lemma f32_lt_nn: "nn x \<Longrightarrow> nn y \<Longrightarrow> f32_lt x y \<longleftrightarrow> x < y"
  by (simp add: f32_lt_nn_inf nn_inf_nn)

lemma f32_le_nn: "nn x \<Longrightarrow> nn y \<Longrightarrow> f32_le x y \<Longrightarrow> x \<le> y"
  unfolding f32_le_def
proof (elim disjE)
  assume n: "nn x" "nn y" and "f32_eq x y"
  hence "f_eq_val (f32_val x) (f32_val y)" by (simp add: f32_eq_def)
  from f_le_rv[OF disjI2[OF this[unfolded nn_val[OF n(1)] nn_val[OF n(2)]]]]
  show "x \<le> y" using f32_real_le[OF n] n by (simp add: f32_real_def nn_val del: rv.simps)
qed (simp add: f32_lt_nn)

section \<open>Rounding is monotone\<close>

lemma round_shift_mono: "m \<le> m' \<Longrightarrow> round_shift m k \<le> round_shift m' k"
proof (cases k)
  case (Suc j)
  assume "m \<le> m'"
  define q r q' r' where "q = m div 2 ^ k" "r = m mod 2 ^ k" "q' = m' div 2 ^ k" "r' = m' mod 2 ^ k"
  note d = this
  have "q \<le> q'" unfolding d using \<open>m \<le> m'\<close> by (rule zdiv_mono1) simp
  moreover have "r \<le> r'" if "q = q'"
  proof -
    have "m = q * 2 ^ k + r" "m' = q' * 2 ^ k + r'" by (simp_all only: d div_mult_mod_eq)
    with that \<open>m \<le> m'\<close> show ?thesis by simp
  qed
  moreover have "round_shift m k = (if r > 2 ^ (k - 1) \<or> (r = 2 ^ (k - 1) \<and> q mod 2 = 1) then q + 1 else q)"
    "round_shift m' k = (if r' > 2 ^ (k - 1) \<or> (r' = 2 ^ (k - 1) \<and> q' mod 2 = 1) then q' + 1 else q')"
    using Suc by (simp_all add: round_shift_def Let_def d)
  ultimately show ?thesis by (cases "q = q'") auto
qed (simp add: round_shift_def)

text \<open>The rounded significand stays within the precision, and reaches it unless the value is subnormal.\<close>
lemma round_shift_bounds:
  assumes "0 < m" "int_bits m = b" "k + 24 = b"
  shows "2 ^ 23 \<le> round_shift m k" "round_shift m k \<le> 2 ^ 24"
proof -
  have m: "2 ^ (b - 1) \<le> m" "m < 2 ^ b" using int_bits_bounds[OF assms(1)] assms(2) by auto
  have b: "b = 24 + k" "b - 1 = 23 + k" using assms(3) by simp_all
  have e: "(2 :: int) ^ (b - 1) = 2 ^ 23 * 2 ^ k" "(2 :: int) ^ b = 2 ^ 24 * 2 ^ k"
    unfolding b(2) by (simp_all only: b(1) power_add)
  have "round_shift (2 ^ 23 * 2 ^ k) k \<le> round_shift m k" by (rule round_shift_mono) (use m e in simp)
  thus "2 ^ 23 \<le> round_shift m k" by (simp only: round_shift_exact)
  have "round_shift m k \<le> round_shift (2 ^ 24 * 2 ^ k) k" by (rule round_shift_mono) (use m e in simp)
  thus "round_shift m k \<le> 2 ^ 24" by (simp only: round_shift_exact)
qed

lemma round_shift_small:
  assumes "0 < m" "int_bits m \<le> k + 24"
  shows "0 \<le> round_shift m k" "round_shift m k \<le> 2 ^ 24"
proof -
  have "m < 2 ^ int_bits m" using int_bits_bounds[OF assms(1)] by simp
  also have "(2 :: int) ^ int_bits m \<le> 2 ^ (k + 24)" using assms(2) by (rule power_increasing) simp
  finally have "m \<le> 2 ^ 24 * 2 ^ k" by (simp add: power_add mult.commute)
  from round_shift_mono[OF this, of k] show "round_shift m k \<le> 2 ^ 24" by (simp only: round_shift_exact)
  from round_shift_mono[of "0 * 2 ^ k" m k] assms(1) show "0 \<le> round_shift m k"
    using round_shift_exact[of 0 k] by simp
qed

text \<open>The pattern before the check for overflow, for a value given with a small enough exponent.\<close>
definition round_bits :: "int \<Rightarrow> int \<Rightarrow> int" where
  "round_bits m e = (let q = max (e + int (int_bits m) - 24) (- 149) in round_shift m (nat (q - e)) + (q + 149) * 2 ^ 23)"

lemma f_round32_bits:
  assumes "0 < m" "e \<le> - 149"
  shows "f_round binary32 False m e = min (round_bits m e) ((2 ^ 8 - 1) * 2 ^ 23)" "0 \<le> round_bits m e"
proof -
  define q where "q = max (e + int (int_bits m) - 24) (- 149)"
  have qe: "e \<le> q" "- 149 \<le> q" using assms(2) by (simp_all add: q_def)
  define M where "M = round_shift m (nat (q - e))"
  have M: "(if q \<le> e then m * 2 ^ nat (e - q) else M) = M" using qe by (auto simp: M_def round_shift_def)
  have "0 \<le> M" unfolding M_def by (rule round_shift_small(1)[OF assms(1)]) (simp add: q_def)
  hence b: "0 \<le> M + (q + 149) * 2 ^ 23" using qe by simp
  have rb: "round_bits m e = M + (q + 149) * 2 ^ 23" by (simp add: round_bits_def q_def M_def Let_def)
  show "0 \<le> round_bits m e" using b rb by simp
  have z: "M = 0 \<Longrightarrow> q = - 149"
  proof (rule ccontr)
    assume "M = 0" "q \<noteq> - 149"
    hence "q = e + int (int_bits m) - 24" "nat (q - e) + 24 = int_bits m" using qe by (auto simp: q_def max_def split: if_splits)
    from round_shift_bounds(1)[OF assms(1) refl this(2)] \<open>M = 0\<close> show False by (simp add: M_def)
  qed
  show "f_round binary32 False m e = min (round_bits m e) ((2 ^ 8 - 1) * 2 ^ 23)"
    unfolding rb f_round_def Let_def fmt32 of_nat_numeral q_def[symmetric] M_def[symmetric] M
    using z b by (auto simp: f_inf_def f_sign_bit_def min_def)
qed

lemma round_bits_mono:
  assumes "0 < m" "m \<le> m'" "e \<le> - 149"
  shows "round_bits m e \<le> round_bits m' e"
proof -
  define q q' where "q = max (e + int (int_bits m) - 24) (- 149)" "q' = max (e + int (int_bits m') - 24) (- 149)"
  note d = this
  have m': "0 < m'" using assms by simp
  have "int_bits m \<le> int_bits m'"
    by (rule int_bits_le[OF assms(1)]) (use int_bits_bounds[OF m'] assms(2) in linarith)
  hence q: "q \<le> q'" by (simp add: d)
  show ?thesis
  proof (cases "q = q'")
    case True
    thus ?thesis using round_shift_mono[OF assms(2), of "nat (q - e)"] by (simp add: round_bits_def Let_def d[symmetric])
  next
    case False
    hence q': "q' = e + int (int_bits m') - 24" "- 149 < q'" using q by (auto simp: d max_def split: if_splits)
    hence "2 ^ 23 \<le> round_shift m' (nat (q' - e))"
      using assms(3) by (intro round_shift_bounds(1)[OF m' refl]) simp
    moreover have "round_shift m (nat (q - e)) \<le> 2 ^ 24"
      by (rule round_shift_small(2)[OF assms(1)]) (simp add: d)
    moreover have "q + 1 \<le> q'" using q False by simp
    ultimately show ?thesis by (simp add: round_bits_def Let_def d[symmetric])
  qed
qed

lemma f_round32_range:
  assumes "0 \<le> m"
  shows "0 \<le> f_round binary32 False m e" "f_round binary32 False m e \<le> (2 ^ 8 - 1) * 2 ^ 23"
proof -
  have "f_round binary32 False 0 e = 0" by (simp add: f_round_def Let_def round_shift_def f_sign_bit_def)
  moreover have "0 \<le> f_round binary32 False m e \<and> f_round binary32 False m e \<le> (2 ^ 8 - 1) * 2 ^ 23" if "0 < m"
  proof -
    define j where "j = nat (e + 149)"
    have e: "e - int j \<le> - 149" by (simp add: j_def)
    have "0 < m * 2 ^ j" using that by simp
    from f_round32_bits[OF this e] f_round_scale[OF that, of binary32 False j e] show ?thesis by simp
  qed
  ultimately show "0 \<le> f_round binary32 False m e" "f_round binary32 False m e \<le> (2 ^ 8 - 1) * 2 ^ 23"
    using assms by (cases "m = 0"; force)+
qed

lemma round_scaled:
  assumes "0 < m" "real_of_int m * 2 powi e = real_of_int m' * 2 powi e'" "e' \<le> e"
  shows "f_round binary32 False m e = f_round binary32 False m' e'"
proof -
  define j where "j = nat (e - e')"
  have j: "e' = e - int j" using assms(3) by (simp add: j_def)
  have "(2 :: real) powi e = 2 ^ j * 2 powi e'" unfolding j by (simp add: power_int_diff)
  hence "real_of_int (m * 2 ^ j) = real_of_int m'" using assms(2) by simp
  hence "m' = m * 2 ^ j" by (simp only: of_int_eq_iff)
  thus ?thesis using f_round_scale[OF assms(1), of binary32 False j e] j by simp
qed

text \<open>Rounding respects the order of the exact values, however they are given.\<close>
lemma f_round32_mono:
  assumes "0 < m" "0 < m'" "real_of_int m * 2 powi e \<le> real_of_int m' * 2 powi e'"
  shows "f_round binary32 False m e \<le> f_round binary32 False m' e'"
proof -
  define g where "g = min (min e e') (- 149)"
  define a b where "a = m * 2 ^ nat (e - g)" "b = m' * 2 ^ nat (e' - g)"
  note ab = this
  have g: "g \<le> e" "g \<le> e'" "g \<le> - 149" by (simp_all add: g_def)
  have p: "(0 :: real) < 2 powi g" by simp
  have "real_of_int a = real_of_int m * 2 powi e / 2 powi g" "real_of_int b = real_of_int m' * 2 powi e' / 2 powi g"
    unfolding ab by (simp_all only: scale_real g)
  with assms(3) p have le: "a \<le> b" by (simp add: divide_right_mono del: of_int_mult flip: of_int_le_iff[where 'a = real])
  have pos: "0 < a" "0 < b" using assms(1,2) by (simp_all add: ab)
  have "f_round binary32 False m e = f_round binary32 False a g" "f_round binary32 False m' e' = f_round binary32 False b g"
    using f_round_scale[OF assms(1), of binary32 False "nat (e - g)" e] f_round_scale[OF assms(2), of binary32 False "nat (e' - g)" e'] g
    by (simp_all add: ab)
  thus ?thesis using f_round32_bits(1)[OF pos(1) g(3)] f_round32_bits(1)[OF pos(2) g(3)] round_bits_mono[OF pos(1) le g(3)]
    by (simp add: min_def)
qed

section \<open>Rounded reals\<close>

text \<open>x is the non-negative real r, rounded.\<close>
definition rounds :: "f32 \<Rightarrow> real \<Rightarrow> bool" where
  "rounds x r \<longleftrightarrow> (\<exists>c g. 0 \<le> c \<and> real_of_int c * 2 powi g = r \<and> x = word_of_int (if c = 0 then 0 else f_round binary32 False c g))"

lemma word_small: "0 \<le> b \<Longrightarrow> b \<le> (2 ^ 8 - 1) * 2 ^ 23 \<Longrightarrow> uint (word_of_int b :: f32) = b"
  by (simp add: uint_word_of_int)

lemma rounds_nn_inf: "rounds x r \<Longrightarrow> nn_inf x"
  using f_round32_range by (auto simp: rounds_def nn_inf_def word_small)

lemma rounds_mono:
  assumes "rounds x r" "rounds y t" "r \<le> t"
  shows "x \<le> y"
proof -
  obtain c g where x: "0 \<le> c" "real_of_int c * 2 powi g = r" "x = word_of_int (if c = 0 then 0 else f_round binary32 False c g)"
    using assms(1) by (auto simp: rounds_def)
  obtain d h where y: "0 \<le> d" "real_of_int d * 2 powi h = t" "y = word_of_int (if d = 0 then 0 else f_round binary32 False d h)"
    using assms(2) by (auto simp: rounds_def)
  show ?thesis
  proof (cases "c = 0")
    case False
    hence "0 < r" using x by auto
    hence "0 < d" using y assms(3) by (cases "d = 0") auto
    with False x y assms(3) f_round32_mono[of c d g h] f_round32_range show ?thesis
      by (simp add: word_le_def word_small)
  qed (simp add: x(3))
qed

lemma rounds_self:
  assumes "nn x"
  shows "rounds x (f32_real x)"
proof -
  define m e where "m = pat_sig (uint x)" "e = pat_exp (uint x)"
  note me = this
  have b: "0 \<le> uint x" "uint x < (2 ^ 8 - 1) * 2 ^ 23" using assms by (simp_all add: nn_def)
  note p = pat_bounds[OF b, folded me]
  have "uint x = (if m = 0 then 0 else f_round binary32 False m e)"
  proof (cases "m = 0")
    case True
    thus ?thesis using p by auto
  next
    case False
    hence m: "0 < m" using p(1) by simp
    define q where "q = max (e + int (int_bits m) - 24) (- 149)"
    have bits: "int_bits m \<le> 24" by (rule int_bits_le[OF m p(2)])
    have "q = e"
    proof (cases "e = - 149")
      case False
      hence "2 ^ 23 \<le> m" using p(5) by simp
      hence "\<not> int_bits m \<le> 23"
        using int_bits_bounds[OF m] power_increasing[of "int_bits m" 23 "2 :: int"] by auto
      thus ?thesis using bits p(3) by (simp add: q_def)
    qed (use bits in \<open>simp add: q_def\<close>)
    hence "f_round binary32 False m e = m + (e + 149) * 2 ^ 23"
      using m b(2) p(6) unfolding f_round_def Let_def fmt32 of_nat_numeral q_def[symmetric]
      by (simp add: f_sign_bit_def)
    thus ?thesis using False p(6) by simp
  qed
  hence "x = word_of_int (if m = 0 then 0 else f_round binary32 False m e)" by (metis word_of_int_uint)
  moreover have "real_of_int m * 2 powi e = f32_real x" by (simp add: f32_real_nn[OF assms] me)
  ultimately show ?thesis using p(1) unfolding rounds_def by blast
qed

lemma rounds_add_val:
  assumes "0 \<le> rv (FFin s m e) + rv (FFin t n d)" "\<not> (s \<and> t)"
  shows "rounds (word_of_int (f_add_val binary32 (FFin s m e) (FFin t n d))) (rv (FFin s m e) + rv (FFin t n d))"
proof -
  define g where "g = min e d"
  define c where "c = (if s then - m else m) * 2 ^ nat (e - g) + (if t then - n else n) * 2 ^ nat (d - g)"
  have "real_of_int c = rv (FFin s m e) / 2 powi g + rv (FFin t n d) / 2 powi g"
    unfolding c_def of_int_add by (simp only: scale_real g_def min.cobounded1 min.cobounded2) simp
  hence c: "real_of_int c * 2 powi g = rv (FFin s m e) + rv (FFin t n d)" by (simp add: field_simps del: rv.simps)
  hence "0 \<le> real_of_int c * 2 powi g" using assms(1) by simp
  moreover have "(0 :: real) < 2 powi g" by simp
  ultimately have "0 \<le> c" by (simp only: zero_le_mult_iff of_int_0_le_iff) linarith
  moreover have v: "f_add_val binary32 (FFin s m e) (FFin t n d) = (if c = 0 then 0 else f_round binary32 False c g)"
  proof -
    have st: "(s \<and> t) = False" using assms(2) by simp
    have n: "(c < 0) = False" "\<bar>c\<bar> = c" using \<open>0 \<le> c\<close> by simp_all
    show ?thesis unfolding f_add_val.simps Let_def g_def[symmetric] c_def[symmetric] st n f_sign_bit_def if_False ..
  qed
  ultimately show ?thesis unfolding rounds_def v using c by (intro exI[of _ c] exI[of _ g] conjI) (rule refl | assumption)+
qed

lemma rounds_add: "nn a \<Longrightarrow> nn b \<Longrightarrow> rounds (f32_add a b) (f32_real a + f32_real b)"
proof -
  assume n: "nn a" "nn b"
  have "0 \<le> f32_real x" if "nn x" for x
    using that pat_bounds(1)[of "uint x"] by (simp add: f32_real_nn nn_def)
  hence "0 \<le> rv (f32_val a) + rv (f32_val b)" using n by (simp add: f32_real_def)
  thus ?thesis using rounds_add_val unfolding f32_add_def f32_real_def nn_val[OF n(1)] nn_val[OF n(2)] by blast
qed

lemma rounds_sub: "nn a \<Longrightarrow> nn b \<Longrightarrow> b \<le> a \<Longrightarrow> rounds (f32_sub a b) (f32_real a - f32_real b)"
proof -
  assume n: "nn a" "nn b" "b \<le> a"
  have r: "rv (FFin True m e) = - rv (FFin False m e)" for m e by simp
  have "f32_real b \<le> f32_real a" using f32_real_le[OF n(2,1)] n(3) by simp
  hence "0 \<le> rv (f32_val a) + - rv (f32_val b)" by (simp add: f32_real_def)
  from rounds_add_val[of False _ _ True, folded r, unfolded r, OF this[unfolded nn_val[OF n(1)] nn_val[OF n(2)]]]
  show ?thesis unfolding f32_sub_def f32_real_def nn_val[OF n(1)] nn_val[OF n(2)] f_neg_val.simps by (simp del: f_add_val.simps rv.simps add: r)
qed

lemma rounds_of_int: "0 \<le> n \<Longrightarrow> rounds (f32_of_int n) (real_of_int n)"
proof -
  assume n: "0 \<le> n"
  have "f_round binary32 False 0 0 = 0" by (simp add: f_round_def Let_def round_shift_def f_sign_bit_def)
  thus ?thesis unfolding rounds_def using n by (intro exI[of _ n] exI[of _ 0]) (auto simp: f32_of_int_def)
qed

end
