(* ===== verification/GxBlit.thy ===== *)
theory GxBlit
  imports Ieee32
begin

text \<open>
  ps5/gpu/blit_vertices.cpp: the four vertices of a rectangle copied from one image to another, with
  the checks that both rectangles lie inside their images.
\<close>

record BlitRect =
  br_x :: u32
  br_y :: u32
  br_width :: u32
  br_height :: u32

record BlitSampleRect =
  sr_x :: f32
  sr_y :: f32
  sr_width :: f32
  sr_height :: f32

text \<open>\<open>normal\<close> carries the texture coordinate; the third entries are constants of the code.\<close>
record BlitVertex =
  bv_position :: "f32 list"
  bv_normal :: "f32 list"
  bv_uv :: "f32 list"
  bv_color :: u32

definition blit_rect_bad :: "u32 \<Rightarrow> u32 \<Rightarrow> BlitRect \<Rightarrow> bool" where
  "blit_rect_bad width height r \<longleftrightarrow> width = 0 \<or> height = 0 \<or> width > 16384 \<or> height > 16384 \<or> br_width r = 0 \<or> br_height r = 0 \<or>
     br_x r \<ge> width \<or> br_y r \<ge> height \<or> br_width r > width - br_x r \<or> br_height r > height - br_y r"

definition sample_rect_bad :: "u32 \<Rightarrow> u32 \<Rightarrow> BlitSampleRect \<Rightarrow> bool" where
  "sample_rect_bad sw sh s \<longleftrightarrow> sw = 0 \<or> sh = 0 \<or> sw > 16384 \<or> sh > 16384 \<or>
     \<not> f32_isfinite (sr_x s) \<or> \<not> f32_isfinite (sr_y s) \<or> \<not> f32_isfinite (sr_width s) \<or> \<not> f32_isfinite (sr_height s) \<or>
     f32_lt (sr_x s) 0 \<or> f32_lt (sr_y s) 0 \<or> f32_le (sr_width s) 0 \<or> f32_le (sr_height s) 0 \<or>
     f32_le (f32_of_u32 sw) (sr_x s) \<or> f32_le (f32_of_u32 sh) (sr_y s) \<or>
     f32_lt (f32_sub (f32_of_u32 sw) (sr_x s)) (sr_width s) \<or> f32_lt (f32_sub (f32_of_u32 sh) (sr_y s)) (sr_height s)"

text \<open>2.f * a / b - 1.f; the vertical axis points the other way.\<close>
definition clip_x :: "u32 \<Rightarrow> u32 \<Rightarrow> f32" where
  "clip_x a b = f32_sub (f32_div (f32_mul 0x40000000 (f32_of_u32 a)) (f32_of_u32 b)) 0x3F800000"

definition clip_y :: "u32 \<Rightarrow> u32 \<Rightarrow> f32" where
  "clip_y a b = f32_sub 0x3F800000 (f32_div (f32_mul 0x40000000 (f32_of_u32 a)) (f32_of_u32 b))"

definition blit_vertex :: "(f32 \<times> f32) \<Rightarrow> (f32 \<times> f32) \<Rightarrow> (f32 \<times> f32) \<Rightarrow> (f32 \<times> f32) \<Rightarrow> nat \<Rightarrow> BlitVertex" where
  "blit_vertex x y u v i =
     (let right = (i = 1 \<or> i = 2); bottom = (i \<ge> 2); pick = (\<lambda>b p. if b then snd p else fst p)
      in \<lparr>bv_position = [pick right x, pick bottom y, 0x3F000000], bv_normal = [pick right u, pick bottom v, 0],
          bv_uv = [0, 0], bv_color = 0xFFFFFFFF\<rparr>)"

definition sampled_blit_vertices :: "u32 \<Rightarrow> u32 \<Rightarrow> u32 \<Rightarrow> u32 \<Rightarrow> BlitSampleRect \<Rightarrow> BlitRect \<Rightarrow> string + BlitVertex list" where
  "sampled_blit_vertices sw sh dw dh s d =
     (if blit_rect_bad dw dh d then Inl ''Blit rectangle outside image''
      else if sample_rect_bad sw sh s then Inl ''Sampled blit rectangle outside image''
      else
        (let x = (clip_x (br_x d) dw, clip_x (br_x d + br_width d) dw);
             y = (clip_y (br_y d) dh, clip_y (br_y d + br_height d) dh);
             u = (f32_div (sr_x s) (f32_of_u32 sw), f32_div (f32_add (sr_x s) (sr_width s)) (f32_of_u32 sw));
             v = (f32_div (sr_y s) (f32_of_u32 sh), f32_div (f32_add (sr_y s) (sr_height s)) (f32_of_u32 sh))
         in Inr (map (blit_vertex x y u v) [0..<4])))"

definition blit_vertices :: "u32 \<Rightarrow> u32 \<Rightarrow> u32 \<Rightarrow> u32 \<Rightarrow> BlitRect \<Rightarrow> BlitRect \<Rightarrow> string + BlitVertex list" where
  "blit_vertices sw sh dw dh s d =
     (if blit_rect_bad sw sh s \<or> blit_rect_bad dw dh d then Inl ''Blit rectangle outside image''
      else sampled_blit_vertices sw sh dw dh
        \<lparr>sr_x = f32_of_u32 (br_x s), sr_y = f32_of_u32 (br_y s), sr_width = f32_of_u32 (br_width s),
         sr_height = f32_of_u32 (br_height s)\<rparr> d)"

end
