(* ===== verification/GxCopyPlan.thy ===== *)
theory GxCopyPlan
  imports GxBlit GxColorCopy GxViewport
begin

text \<open>
  ps5/gpu/gx_texture_copy_plan.cpp and gx_display_copy_plan.cpp: what a copy out of the embedded frame
  buffer samples, how large its result is, what it clears afterwards and how it filters.

  \<open>GX_CLAMP_TOP\<close> and \<open>GX_CLAMP_BOTTOM\<close> are enumerators of the GX headers, the parameter \<open>copy_enums\<close>.
\<close>

record copy_enums =
  GX_CLAMP_TOP :: u32
  GX_CLAMP_BOTTOM :: u32

record GxCopyOptions =
  co_format :: u32
  co_filter :: "u32 \<times> u32 \<times> u32"
  co_rowStride :: f32
  co_linear :: bool
  co_forceOpaqueAlpha :: bool
  co_clampTop :: bool
  co_clampBottom :: bool

record GxTextureCopyPlan =
  pl_source :: BlitSampleRect
  pl_logicalWidth :: u32
  pl_logicalHeight :: u32
  pl_scaledWidth :: u32
  pl_scaledHeight :: u32
  pl_options :: GxCopyOptions
  pl_clearRect :: BlitRect
  pl_clearMask :: u32
  pl_clearColor :: u32
  pl_preCopyAlpha :: u32
  pl_clearDepth :: bool
  pl_depth :: bool
  pl_depthClearValue :: f32

definition GxCopyOptions_init :: GxCopyOptions where
  "GxCopyOptions_init = \<lparr>co_format = 6, co_filter = (0, 64, 0), co_rowStride = 0x3F800000, co_linear = False,
     co_forceOpaqueAlpha = False, co_clampTop = False, co_clampBottom = False\<rparr>"

section \<open>Library functions\<close>

definition f32_clamp :: "f32 \<Rightarrow> f32 \<Rightarrow> f32 \<Rightarrow> f32" where
  "f32_clamp v lo hi = (if f32_lt v lo then lo else if f32_lt hi v then hi else v)"

text \<open>\<open>round\<close>: to the nearest integer, halves away from zero, with the sign of the argument.\<close>
definition f32_round :: "f32 \<Rightarrow> f32" where
  "f32_round x = (case lround_val (f32_val x) of None \<Rightarrow> x
     | Some i \<Rightarrow> if i = 0 then x AND 0x80000000 else f32_of_int i)"

definition f64_round :: "f64 \<Rightarrow> f64" where
  "f64_round x = (case lround_val (f64_val x) of None \<Rightarrow> x
     | Some i \<Rightarrow> if i = 0 then x AND 0x8000000000000000 else f64_of_int i)"

section \<open>The pieces of a plan\<close>

definition copy_extent_bad :: "GxRenderExtent \<Rightarrow> bool" where
  "copy_extent_bad e \<longleftrightarrow> logicalWidth e = 0 \<or> logicalHeight e = 0 \<or> targetWidth e = 0 \<or> targetHeight e = 0 \<or>
     logicalWidth e > 16384 \<or> logicalHeight e > 16384 \<or> targetWidth e > 16384 \<or> targetHeight e > 16384"

definition copy_source_bad :: "ClipRect \<Rightarrow> bool" where
  "copy_source_bad r \<longleftrightarrow> sint (cr_x r) < 0 \<or> sint (cr_y r) < 0 \<or> sint (cr_width r) \<le> 0 \<or> sint (cr_height r) \<le> 0"

text \<open>An interval of the source, clipped to the target but at least one texel wide.\<close>
definition clip_interval :: "f32 \<Rightarrow> f32 \<Rightarrow> f32 \<Rightarrow> f32 \<times> f32" where
  "clip_interval start size' limit =
     (let low = f32_clamp start 0 limit; high = f32_clamp (f32_add start size') low limit
      in if f32_lt (f32_sub high low) 0x3F800000 then
           (let high = f32_min (f32_add low 0x3F800000) limit; low = f32_max (f32_sub high 0x3F800000) 0
            in (low, f32_sub high low))
         else (low, f32_sub high low))"

text \<open>The size of the result at the resolution of the target.\<close>
definition copy_scale :: "u32 \<Rightarrow> u32 \<Rightarrow> u32 \<Rightarrow> string + u32" where
  "copy_scale size' logical target =
     (let v = f64_round (f64_div (f64_mul (f64_of_int (uint size')) (f64_of_int (uint target))) (f64_of_int (uint logical)))
      in if f64_lt (f64_of_int 16384) v then Inl ''Scaled GX copy exceeds AGC texture dimensions''
         else Inr (edge_word (f64_trunc (f64_max v 0x3FF0000000000000))))"

definition clear_edge :: "bool \<Rightarrow> int \<Rightarrow> u32 \<Rightarrow> u32 \<Rightarrow> u32" where
  "clear_edge unscaled v logical target =
     (if unscaled then word_of_int v
      else edge_word (lround_val (f64_val (f64_div (f64_mul (f64_of_int v) (f64_of_int (uint target))) (f64_of_int (uint logical))))))"

definition clear_rect :: "bool \<Rightarrow> ClipRect \<Rightarrow> GxRenderExtent \<Rightarrow> BlitRect" where
  "clear_rect unscaled r e =
     (let left = min (clear_edge unscaled (sint (cr_x r)) (logicalWidth e) (targetWidth e)) (targetWidth e - 1);
          top = min (clear_edge unscaled (sint (cr_y r)) (logicalHeight e) (targetHeight e)) (targetHeight e - 1);
          right = min (max (clear_edge unscaled (sint (cr_x r) + sint (cr_width r)) (logicalWidth e) (targetWidth e)) (left + 1))
                    (targetWidth e);
          bottom = min (max (clear_edge unscaled (sint (cr_y r) + sint (cr_height r)) (logicalHeight e) (targetHeight e)) (top + 1))
                    (targetHeight e)
      in \<lparr>br_x = left, br_y = top, br_width = right - left, br_height = bottom - top\<rparr>)"

text \<open>24-bit depth to a float, reversed because the constant \<open>UseReversedZ\<close> of register_state.hpp is true.\<close>
definition depth_clear_value :: "u32 \<Rightarrow> f32" where
  "depth_clear_value d =
     (let normalized = f32_min (f32_div (f32_of_u32 d) 0x4B800000) (f32_div 0x4B7FFFFF 0x4B800000)
      in f32_sub 0x3F800000 normalized)"

definition color_byte :: "f32 \<Rightarrow> string + u32" where
  "color_byte v =
     (if \<not> f32_isfinite v then Inl ''Nonfinite GX clear color''
      else Inr (edge_word (lround_val (f32_val (f32_mul (f32_clamp v 0 0x3F800000) 0x437F0000)))))"

text \<open>The bytes are converted in the order red, green, blue, alpha; an alpha byte only where it is
  cleared.\<close>
definition clear_color :: "u32 \<Rightarrow> vec4 \<Rightarrow> string + u32" where
  "clear_color mask' c =
     (case (if mask' AND 7 \<noteq> 0 then map_err color_byte [v0 c, v1 c, v2 c] else Inr [0, 0, 0]) of Inl err \<Rightarrow> Inl err
      | Inr bs \<Rightarrow>
          (let rgb = push_bit 16 (bs ! 0) OR push_bit 8 (bs ! 1) OR bs ! 2
           in if mask' AND 8 \<noteq> 0 then (case color_byte (v3 c) of Inl err \<Rightarrow> Inl err | Inr a \<Rightarrow> Inr (rgb OR push_bit 24 a))
              else Inr rgb))"

definition copy_filter_sums :: "bool \<Rightarrow> u8 list \<Rightarrow> string + u32 \<times> u32 \<times> u32" where
  "copy_filter_sums vf f =
     (if \<not> vf then Inr (0, 64, 0)
      else if \<exists>x \<in> set f. x > 63 then Inl ''Invalid GX copy filter coefficient''
      else Inr (ucast (f ! 0) + ucast (f ! 1), ucast (f ! 2) + ucast (f ! 3) + ucast (f ! 4), ucast (f ! 5) + ucast (f ! 6)))"

text \<open>0.01f.\<close>
definition fractional :: "f32 \<Rightarrow> bool" where
  "fractional v \<longleftrightarrow> f32_lt 0x3C23D70A (f32_abs (f32_sub v (f32_round v)))"

definition differs :: "f32 \<Rightarrow> u32 \<Rightarrow> bool" where
  "differs size' scaled \<longleftrightarrow> f32_lt 0x3C23D70A (f32_abs (f32_sub size' (f32_of_u32 scaled)))"

section \<open>Texture copies\<close>

definition copy_format_error :: "gx_texture_enums \<Rightarrow> u32 \<Rightarrow> string" where
  "copy_format_error t fmt =
     (if is_depth_format t fmt then ''GX copy depth format requires unimplemented RAM encoding''
      else ''Invalid GX texture copy format'')"

definition copy_pixel_scale :: "bool \<Rightarrow> u32 \<Rightarrow> u32 \<Rightarrow> f32" where
  "copy_pixel_scale unscaled target logical =
     (if unscaled then 0x3F800000 else f32_div (f32_of_u32 target) (f32_of_u32 logical))"

definition copy_sample_rect :: "ClipRect \<Rightarrow> f32 \<Rightarrow> f32 \<Rightarrow> GxRenderExtent \<Rightarrow> BlitSampleRect" where
  "copy_sample_rect r sx sy e =
     (let (x, w) = clip_interval (f32_mul (f32_of_s32 (cr_x r)) sx) (f32_mul (f32_of_s32 (cr_width r)) sx) (f32_of_u32 (targetWidth e));
          (y, h) = clip_interval (f32_mul (f32_of_s32 (cr_y r)) sy) (f32_mul (f32_of_s32 (cr_height r)) sy) (f32_of_u32 (targetHeight e))
      in \<lparr>sr_x = x, sr_y = y, sr_width = w, sr_height = h\<rparr>)"

definition copy_size :: "bool \<Rightarrow> u32 \<Rightarrow> u32 \<Rightarrow> u32 \<Rightarrow> string + u32" where
  "copy_size native size' logical target = (if native then Inr size' else copy_scale size' logical target)"

definition pre_copy_alpha :: "'b GXRegisterState_scheme \<Rightarrow> string + u32" where
  "pre_copy_alpha s =
     (if render_target_has_alpha (pixelFmt s) \<and> alphaUpdate s \<and> dstAlpha s \<noteq> - 1 then
        (if dstAlpha s > 255 then Inl ''Invalid GX destination alpha'' else Inr (dstAlpha s))
      else Inr (- 1))"

record clear_plan =
  cl_mask :: u32
  cl_rect :: BlitRect
  cl_depth :: bool
  cl_value :: f32
  cl_color :: u32

definition plan_clear :: "'b GXRegisterState_scheme \<Rightarrow> bool \<Rightarrow> ClipRect \<Rightarrow> GxRenderExtent \<Rightarrow> bool \<Rightarrow> string + clear_plan" where
  "plan_clear s unscaled r e clear =
     (if \<not> clear then Inr \<lparr>cl_mask = 0, cl_rect = \<lparr>br_x = 0, br_y = 0, br_width = 0, br_height = 0\<rparr>, cl_depth = False,
          cl_value = 0, cl_color = 0\<rparr>
      else
        (let rect = clear_rect unscaled r e; some = (br_width rect \<noteq> 0 \<and> br_height rect \<noteq> 0);
             mask' = (if \<not> some then 0 else (if colorUpdate s then 7 else 0) OR
                        (if alphaUpdate s \<and> render_target_has_alpha (pixelFmt s) then 8 else 0));
             d = (depthUpdate s \<and> some)
         in case clear_color mask' (clearColor s) of Inl err \<Rightarrow> Inl err
          | Inr c \<Rightarrow> Inr \<lparr>cl_mask = mask', cl_rect = rect, cl_depth = d,
              cl_value = (if d then depth_clear_value (clearDepth s) else 0), cl_color = c\<rparr>))"

text \<open>The options, with the depth formats' exceptions at the end of the function.\<close>
definition copy_options :: "copy_enums \<Rightarrow> 'b GXRegisterState_scheme \<Rightarrow> BlitSampleRect \<Rightarrow> u32 \<Rightarrow> u32 \<Rightarrow> f32 \<Rightarrow> u32 \<times> u32 \<times> u32 \<Rightarrow>
   GxCopyOptions" where
  "copy_options k s src w h rowStride filter' =
     (let alpha = render_target_has_alpha (pixelFmt s); filtered = (filter' \<noteq> (0, 64, 0)); deep = mkw_copy_depth_format (texCopyFmt s);
          sampled = (texCopyHalfScale s \<or> filtered \<or> \<not> alpha \<or> fractional (sr_x src) \<or> fractional (sr_y src) \<or>
                     fractional (sr_width src) \<or> fractional (sr_height src) \<or> differs (sr_width src) w \<or> differs (sr_height src) h)
      in \<lparr>co_format = texCopyFmt s, co_filter = filter', co_rowStride = rowStride,
          co_linear = (\<not> deep \<and> (texCopyHalfScale s \<or> (sampled \<and> \<not> filtered))), co_forceOpaqueAlpha = (\<not> deep \<and> \<not> alpha),
          co_clampTop = (copyClamp s AND GX_CLAMP_TOP k \<noteq> 0), co_clampBottom = (copyClamp s AND GX_CLAMP_BOTTOM k \<noteq> 0)\<rparr>)"

definition plan_gx_texture_copy :: "gx_enums \<Rightarrow> gx_texture_enums \<Rightarrow> copy_enums \<Rightarrow> 'b GXRegisterState_scheme \<Rightarrow> GxRenderExtent \<Rightarrow>
   bool \<Rightarrow> string + GxTextureCopyPlan" where
  "plan_gx_texture_copy g t k s e clear =
     (if copy_extent_bad e then Inl ''Invalid EFB copy extent''
      else if \<not> mkw_copy_color_format (texCopyFmt s) \<and> \<not> mkw_copy_depth_format (texCopyFmt s) then
        Inl (copy_format_error t (texCopyFmt s))
      else if copyFilterAa s then Inl ''GX multisample copy is not implemented''
      else if copy_source_bad (texCopySrc s) then Inl ''Invalid GX texture copy source''
      else
        (let r = texCopySrc s; native = (viewportPolicy s = AURORA_VIEWPORT_NATIVE g);
             unscaled = (native \<or> texCopySrcRenderSpace s);
             sx = copy_pixel_scale unscaled (targetWidth e) (logicalWidth e);
             sy = copy_pixel_scale unscaled (targetHeight e) (logicalHeight e);
             src = copy_sample_rect r sx sy e;
             lw = max (ucast (texCopyDstWidth s)) 1; lh = max (ucast (texCopyDstHeight s)) 1
         in case copy_size native lw (logicalWidth e) (targetWidth e) of Inl err \<Rightarrow> Inl err
          | Inr w \<Rightarrow>
         (case copy_size native lh (logicalHeight e) (targetHeight e) of Inl err \<Rightarrow> Inl err
          | Inr h \<Rightarrow>
         (case sampled_blit_vertices (targetWidth e) (targetHeight e) w h src
                 \<lparr>br_x = 0, br_y = 0, br_width = w, br_height = h\<rparr> of Inl err \<Rightarrow> Inl err
          | Inr _ \<Rightarrow>
         (case pre_copy_alpha s of Inl err \<Rightarrow> Inl err
          | Inr alpha \<Rightarrow>
         (case plan_clear s unscaled r e clear of Inl err \<Rightarrow> Inl err
          | Inr c \<Rightarrow>
         (case copy_filter_sums (copyFilterVf s) (copyFilterVFilter s) of Inl err \<Rightarrow> Inl err
          | Inr f \<Rightarrow>
            Inr \<lparr>pl_source = src, pl_logicalWidth = lw, pl_logicalHeight = lh, pl_scaledWidth = w, pl_scaledHeight = h,
              pl_options = copy_options k s src w h
                (f32_div (f32_mul (f32_of_s32 (cr_height r)) sy) (f32_of_s32 (cr_height r))) f,
              pl_clearRect = cl_rect c, pl_clearMask = cl_mask c, pl_clearColor = cl_color c, pl_preCopyAlpha = alpha,
              pl_clearDepth = cl_depth c, pl_depth = mkw_copy_depth_format (texCopyFmt s), pl_depthClearValue = cl_value c\<rparr>)))))))"

section \<open>Display copies\<close>

text \<open>\<open>floor\<close> for a lower edge, \<open>ceil\<close> for an upper one.\<close>
definition f32_ceil :: "f32 \<Rightarrow> f32" where
  "f32_ceil x = (case floor_val (f_neg_val (f32_val x)) of None \<Rightarrow> x
     | Some i \<Rightarrow> if i = 0 then x AND 0x80000000 else f32_of_int (- i))"

definition display_edge :: "bool \<Rightarrow> int \<Rightarrow> u32 \<Rightarrow> u32 \<Rightarrow> bool \<Rightarrow> int" where
  "display_edge native v logical target upper =
     (if native then v
      else
        (let scaled = f32_div (f32_mul (f32_of_int v) (f32_of_u32 target)) (f32_of_u32 logical);
             n = (if upper then f32_ceil scaled else f32_floor scaled)
         in case f32_trunc (f32_clamp n 0 (f32_of_u32 target)) of None \<Rightarrow> 0 | Some i \<Rightarrow> i))"

text \<open>The copy of the register state that the texture-copy planner gets.\<close>
definition display_state :: "gx_texture_enums \<Rightarrow> 'b GXRegisterState_scheme \<Rightarrow> int \<Rightarrow> int \<Rightarrow> int \<Rightarrow> int \<Rightarrow> 'b GXRegisterState_scheme" where
  "display_state t s x0 y0 x1 y1 =
     s\<lparr>texCopySrc := \<lparr>cr_x = word_of_int x0, cr_y = word_of_int y0, cr_width = word_of_int (max (x1 - x0) 1),
                       cr_height = word_of_int (max (y1 - y0) 1)\<rparr>,
       texCopySrcRenderSpace := True,
       texCopyDstWidth := (if dispCopyDstWidth s \<noteq> 0 then dispCopyDstWidth s else ucast (cr_width (dispCopySrc s))),
       texCopyDstHeight := (if dispCopyDstHeight s \<noteq> 0 then dispCopyDstHeight s else ucast (cr_height (dispCopySrc s))),
       texCopyFmt := GX_TF_RGBA8 t, texCopyHalfScale := False, dstAlpha := - 1\<rparr>"

definition display_options :: "GxTextureCopyPlan \<Rightarrow> f32 \<Rightarrow> bool \<Rightarrow> GxCopyOptions" where
  "display_options p stride disableFilter =
     (let o1 = pl_options p; (a, b, c) = co_filter o1;
          f = (if disableFilter then (0, a + b + c, 0) else (a, b, c)); src = pl_source p
      in o1\<lparr>co_forceOpaqueAlpha := False, co_rowStride := stride, co_filter := f,
           co_linear := (f = (0, 64, 0) \<and>
             (\<not> f32_eq (sr_width src) (f32_of_u32 (pl_scaledWidth p)) \<or> \<not> f32_eq (sr_height src) (f32_of_u32 (pl_scaledHeight p))))\<rparr>)"

definition plan_gx_display_copy :: "gx_enums \<Rightarrow> gx_texture_enums \<Rightarrow> copy_enums \<Rightarrow> 'b GXRegisterState_scheme \<Rightarrow> GxRenderExtent \<Rightarrow>
   bool \<Rightarrow> bool \<Rightarrow> string + GxTextureCopyPlan" where
  "plan_gx_display_copy g t k s e clear disableFilter =
     (if copy_extent_bad e then Inl ''Invalid display-copy extent''
      else if copy_source_bad (dispCopySrc s) then Inl ''Invalid display-copy source''
      else
        (let r = dispCopySrc s; native = (viewportPolicy s = AURORA_VIEWPORT_NATIVE g);
             left = display_edge native (sint (cr_x r)) (logicalWidth e) (targetWidth e) False;
             top = display_edge native (sint (cr_y r)) (logicalHeight e) (targetHeight e) False;
             right = display_edge native (sint (cr_x r) + sint (cr_width r)) (logicalWidth e) (targetWidth e) True;
             bottom = display_edge native (sint (cr_y r) + sint (cr_height r)) (logicalHeight e) (targetHeight e) True
         in if left \<ge> right \<or> top \<ge> bottom \<or> right > uint (targetWidth e) \<or> bottom > uint (targetHeight e) then
              Inl ''Display-copy source exceeds EFB''
            else
              (let copy = display_state t s left top right bottom
               in case plan_gx_texture_copy g t k copy e clear of Inl err \<Rightarrow> Inl err
                | Inr p \<Rightarrow>
                    (let stride = f32_max (f32_div (f32_of_s32 (cr_height (texCopySrc copy))) (f32_of_s32 (cr_height r))) 0x3F800000
                     in Inr (p\<lparr>pl_options := display_options p stride disableFilter\<rparr>)))))"

end
