(* ===== verification/CopyPlanLemmas.thy ===== *)
theory CopyPlanLemmas
  imports Ieee32Order GxCopyPlan
begin

text \<open>
  The numbers of a copy plan: what products and quotients of coordinates and scales can be, and the
  clipping of an interval of the source, which always leaves something inside the target.
\<close>

section \<open>Non-negative operands\<close>

lemma nn_lit [simp]: "nn 0" "nn 1" "nn 0x3F800000" by (simp_all add: nn_def)

lemma real_lit: "f32_real 0 = 0" "f32_real 0x3F800000 = 1" "f32_real 1 = 2 powi (- 149)"
  by (simp_all add: f32_real_nn pat_sig_def pat_exp_def power_int_minus)

lemma nn_word_of_int: "0 \<le> b \<Longrightarrow> b < (2 ^ 8 - 1) * 2 ^ 23 \<Longrightarrow> nn (word_of_int b)"
  by (simp add: nn_def uint_word_of_int)

lemma nn_inf_word_of_int: "0 \<le> b \<Longrightarrow> b \<le> (2 ^ 8 - 1) * 2 ^ 23 \<Longrightarrow> nn_inf (word_of_int b)"
  by (simp add: nn_inf_def uint_word_of_int)

text \<open>Below 2^100 nothing overflows.\<close>
lemma nn_round:
  assumes "0 \<le> m" "real_of_int m * 2 powi e \<le> 2 powi 100"
  shows "nn (word_of_int (f_round binary32 False m e))"
proof (cases "m = 0")
  case True
  thus ?thesis by (simp add: f_round_def Let_def round_shift_def f_sign_bit_def)
next
  case False
  have "f_round binary32 False 1 100 = 1904214016"
    by (simp add: f_round_def Let_def round_shift_def f_sign_bit_def int_bits.simps)
  moreover have "f_round binary32 False m e \<le> f_round binary32 False 1 100"
    by (rule f_round32_mono) (use assms False in simp_all)
  ultimately show ?thesis using f_round32_range(1)[OF assms(1), of e] by (intro nn_word_of_int) simp_all
qed

lemma nn_of_int: "0 \<le> n \<Longrightarrow> n \<le> 2 ^ 32 \<Longrightarrow> nn (f32_of_int n)"
proof -
  assume n: "0 \<le> n" "n \<le> 2 ^ 32"
  have "real_of_int n \<le> real_of_int (2 ^ 32)" using n(2) by (simp only: of_int_le_iff)
  also have "\<dots> \<le> (2 :: real) powi 100" by (simp add: power_int_def)
  finally have "real_of_int n \<le> 2 powi 100" .
  thus ?thesis using n nn_round[of n 0] by (simp add: f32_of_int_def)
qed

text \<open>Small integers are exact.\<close>
lemma real_of_int_exact: "0 \<le> n \<Longrightarrow> n < 2 ^ 24 \<Longrightarrow> f32_real (f32_of_int n) = real_of_int n"
proof (cases "n = 0")
  case True
  thus ?thesis by (simp add: f32_of_int_def f_round_def Let_def round_shift_def f_sign_bit_def real_lit)
next
  case False
  assume n: "0 \<le> n" "n < 2 ^ 24"
  define b where "b = int_bits n"
  have pos: "0 < n" using False n by simp
  have b: "b \<le> 24" "0 < b" "2 ^ (b - 1) \<le> n" "n < 2 ^ b"
    using int_bits_le[OF pos n(2)] int_bits_bounds[OF pos] by (auto simp: b_def)
  define M where "M = n * 2 ^ (24 - b)"
  have "2 ^ (b - 1) * 2 ^ (24 - b) \<le> M" "M < 2 ^ b * 2 ^ (24 - b)" using b unfolding M_def by simp_all
  moreover have "b - 1 + (24 - b) = 23" "b + (24 - b) = 24" using b by simp_all
  ultimately have M: "2 ^ 23 \<le> M" "M < 2 ^ 24" by (simp_all only: power_add[symmetric])
  have r: "f_round binary32 False n 0 = M + (int b + 125) * 2 ^ 23"
  proof -
    have q: "max (0 + int b - 24) (- 149) = int b - 24" using b by simp
    have sh: "nat (0 - (int b - 24)) = 24 - b" using b by simp
    show ?thesis
      using M b(1) unfolding f_round_def Let_def fmt32 of_nat_numeral b_def[symmetric] q sh M_def[symmetric]
      by (simp add: f_sign_bit_def)
  qed
  define p where "p = M + (int b + 125) * 2 ^ 23"
  have pd: "p div 2 ^ 23 = int b + 126" "p mod 2 ^ 23 = M - 2 ^ 23"
  proof -
    have p: "p = (M - 2 ^ 23) + (int b + 126) * 2 ^ 23" by (simp add: p_def)
    have r: "0 \<le> M - 2 ^ 23" "M - 2 ^ 23 < 2 ^ 23" using M by simp_all
    show "p mod 2 ^ 23 = M - 2 ^ 23" unfolding p by (simp only: mod_mult_self1 mod_pos_pos_trivial[OF r])
    show "p div 2 ^ 23 = int b + 126" unfolding p using div_pos_pos_trivial[OF r] by (subst div_mult_self1) simp_all
  qed
  have up: "uint (word_of_int p :: f32) = p" using M b(1) by (intro word_small) (simp_all add: p_def)
  have "nn (word_of_int p)" using M b(1) up by (simp add: nn_def p_def)
  moreover have "pat_sig p = M" "pat_exp p = int b - 24" unfolding pat_sig_def pat_exp_def pd by simp_all
  ultimately have "f32_real (word_of_int p) = real_of_int M * 2 powi (int b - 24)"
    by (simp add: f32_real_nn up)
  also have "int b - 24 = - int (24 - b)" using b(1) by simp
  also have "real_of_int M * 2 powi (- int (24 - b)) = real_of_int n" by (simp only: M_def of_int_mult power_int_minus power_int_of_nat of_int_power) simp
  finally show ?thesis using n by (simp add: f32_of_int_def r p_def)
qed

lemma val_of_int:
  assumes "0 \<le> n" "n \<le> 2 ^ 32"
  obtains m e where "f32_val (f32_of_int n) = FFin False m e" "0 \<le> m" "m < 2 ^ 24" "- 149 \<le> e"
proof -
  have "nn (f32_of_int n)" by (rule nn_of_int[OF assms])
  thus ?thesis using that nn_val pat_bounds by (auto simp: nn_def)
qed

lemma nn_inf_mul: "nn a \<Longrightarrow> nn b \<Longrightarrow> nn_inf (f32_mul a b)"
  using f_round32_range pat_bounds(1) nn_inf_nn[OF nn_lit(1)]
  by (auto simp: f32_mul_def nn_val f_sign_bit_def nn_def intro!: nn_inf_word_of_int mult_nonneg_nonneg)

lemma nn_div:
  assumes "0 < t" "t \<le> 16384" "0 < l" "l \<le> 16384"
  shows "nn (f32_div (f32_of_int t) (f32_of_int l))"
proof -
  obtain m e where t: "f32_val (f32_of_int t) = FFin False m e" "0 \<le> m" "m < 2 ^ 24"
    by (rule val_of_int[of t]) (use assms in auto)
  obtain n d where l: "f32_val (f32_of_int l) = FFin False n d" "0 \<le> n" "n < 2 ^ 24"
    by (rule val_of_int[of l]) (use assms in auto)
  have tr: "real_of_int m * 2 powi e = real_of_int t" and lr: "real_of_int n * 2 powi d = real_of_int l"
    using real_of_int_exact[of t] real_of_int_exact[of l] assms t l by (simp_all add: f32_real_def)
  have n0: "0 < n" using lr l(2) assms(3) by (cases "n = 0") auto
  have m0: "0 < m" using tr t(2) assms(1) by (cases "m = 0") auto
  define k where "k = 26 + int_bits n"
  define q where "q = 2 * ((m * 2 ^ k) div n) + (if (m * 2 ^ k) mod n = 0 then 0 else 1)"
  have "0 \<le> m * 2 ^ k div n" using n0 m0 by (simp add: pos_imp_zdiv_nonneg_iff)
  hence q0: "0 \<le> q" by (simp add: q_def)
  have "m * 2 ^ k div n \<le> m * 2 ^ k" using zdiv_mono2[of "m * 2 ^ k" 1 n] n0 m0 by simp
  moreover have "1 \<le> m * 2 ^ k" using m0 by (simp add: int_one_le_iff_zero_less)
  ultimately have "q \<le> 4 * (m * 2 ^ k)" by (simp add: q_def)
  hence qr: "real_of_int q \<le> 4 * (real_of_int m * 2 ^ k)" by (simp add: of_int_le_iff[symmetric, where 'a = real])
  have d: "- 24 \<le> d"
  proof (rule ccontr)
    assume "\<not> - 24 \<le> d"
    hence "(2 :: real) powi d \<le> 2 powi (- 24)" by (intro powi_mono) simp
    hence "real_of_int n * 2 powi d \<le> real_of_int n * 2 powi (- 24)" using l(2) by (intro mult_left_mono) simp_all
    also have "\<dots> < 1" using l(3) by (simp add: power_int_minus of_int_less_iff[of _ "2 ^ 24", symmetric, where 'a = real])
    finally show False using lr assms(3) by simp
  qed
  have "real_of_int q * 2 powi (e - d - int k - 1) \<le> 4 * (real_of_int m * 2 ^ k) * 2 powi (e - d - int k - 1)"
    using qr by (intro mult_right_mono) simp_all
  also have "\<dots> = 2 * (real_of_int m * 2 powi e) * 2 powi (- d)"
    by (simp add: power_int_diff power_int_minus power_int_add field_simps)
  also have "\<dots> \<le> 2 * 16384 * 2 powi 24"
    unfolding tr using d assms(1,2) by (intro mult_mono powi_mono) simp_all
  also have "\<dots> \<le> 2 powi 100" by (simp add: power_int_def)
  finally have "nn (word_of_int (f_round binary32 False q (e - d - int k - 1)))" by (rule nn_round[OF q0])
  moreover have "f_div_val binary32 (FFin False m e) (FFin False n d) = f_round binary32 False q (e - d - int k - 1)"
    using n0 m0 by (simp add: Let_def q_def k_def)
  ultimately show ?thesis by (simp add: f32_div_def t(1) l(1))
qed

section \<open>A clipped interval\<close>

lemma nn_below: "x \<le> y \<Longrightarrow> nn y \<Longrightarrow> nn x" by (simp add: nn_def word_le_def)

lemma nn_inf_add:
  assumes "nn_inf a" "nn_inf b"
  shows "nn_inf (f32_add a b)"
proof (cases "nn a \<and> nn b")
  case True
  thus ?thesis using rounds_nn_inf[OF rounds_add] by simp
next
  case False
  have i: "nn_inf (word_of_int (f_inf binary32 False))" by (simp add: nn_inf_def f_inf_def f_sign_bit_def)
  from nn_inf_cases[OF assms(1)] nn_inf_cases[OF assms(2)] False show ?thesis
    by (auto simp: f32_add_def nn_val inf_val intro: i)
qed

text \<open>A positive difference is at least the least positive number.\<close>
lemma sub_pos:
  assumes "nn a" "nn b" "b < a"
  shows "0 < f32_sub a b"
proof -
  have mult: "\<exists>k. f32_real x = real_of_int k * 2 powi (- 149)" if "nn x" for x
  proof -
    have "- 149 \<le> pat_exp (uint x)" using that pat_bounds(3)[of "uint x"] by (simp add: nn_def)
    hence "f32_real x = real_of_int (pat_sig (uint x) * 2 ^ nat (pat_exp (uint x) - (- 149))) * 2 powi (- 149)"
      unfolding scale_real[OF \<open>- 149 \<le> pat_exp (uint x)\<close>] by (simp add: f32_real_nn[OF that])
    thus ?thesis by blast
  qed
  obtain i j where ij: "f32_real a = real_of_int i * 2 powi (- 149)" "f32_real b = real_of_int j * 2 powi (- 149)"
    using mult assms(1,2) by metis
  have "f32_real b < f32_real a" using f32_real_less assms by blast
  hence "j < i" unfolding ij by (simp add: power_int_minus)
  hence "1 * 2 powi (- 149) \<le> real_of_int (i - j) * (2 :: real) powi (- 149)" by (intro mult_right_mono) simp_all
  hence "f32_real 1 \<le> f32_real a - f32_real b" by (simp add: ij real_lit(3) left_diff_distrib)
  with rounds_mono[OF rounds_self rounds_sub] assms have "1 \<le> f32_sub a b" by simp
  thus ?thesis by (simp add: word_le_def word_less_def)
qed

definition inside :: "f32 \<Rightarrow> f32 \<times> f32 \<Rightarrow> bool" where
  "inside limit p \<longleftrightarrow> nn (fst p) \<and> nn (snd p) \<and> fst p < limit \<and> 0 < snd p \<and> snd p \<le> f32_sub limit (fst p)"

text \<open>The interval of one texel that replaces a shorter one.\<close>
lemma clip_one:
  assumes "nn low" "1 \<le> n" "n \<le> 16384"
  defines "h \<equiv> f32_min (f32_add low 0x3F800000) (f32_of_int n)"
  defines "l \<equiv> f32_max (f32_sub h 0x3F800000) 0"
  shows "inside (f32_of_int n) (l, f32_sub h l)"
proof -
  define L where "L = f32_of_int n"
  have L: "nn L" "f32_real L = real_of_int n" using assms(2,3) nn_of_int[of n] real_of_int_exact[of n] by (simp_all add: L_def)
  have pos: "0 \<le> f32_real x" if "nn x" for x using f32_real_le[OF nn_lit(1) that] by (simp add: real_lit)
  have one: "rounds 0x3F800000 1" using rounds_self[OF nn_lit(3)] by (simp add: real_lit)
  define u where "u = f32_add low 0x3F800000"
  have u: "rounds u (f32_real low + 1)" using rounds_add[OF assms(1) nn_lit(3)] by (simp add: u_def real_lit)
  from rounds_mono[OF one this] pos[OF assms(1)] have u1: "0x3F800000 \<le> u" by simp
  have L1: "0x3F800000 \<le> L" using f32_real_le[OF nn_lit(3) L(1)] assms(2) by (simp add: L(2) real_lit)
  have "h = min L u"
    by (auto simp: h_def u_def[symmetric] L_def[symmetric] f32_min_def min_def f32_lt_nn_inf rounds_nn_inf[OF u] nn_inf_nn L(1))
  hence h: "0x3F800000 \<le> h" "h \<le> L" "nn h" using u1 L1 nn_below[OF _ L(1)] by simp_all
  have hr: "1 \<le> f32_real h" "f32_real h \<le> real_of_int n"
    using f32_real_le[OF nn_lit(3) h(3)] f32_real_le[OF h(3) L(1)] h by (simp_all add: real_lit L(2))
  have d: "rounds (f32_sub h 0x3F800000) (f32_real h - 1)" using rounds_sub[OF h(3) nn_lit(3) h(1)] by (simp add: real_lit)
  have l: "l = f32_sub h 0x3F800000"
    using rounds_nn_inf[OF d] by (auto simp: l_def f32_max_def f32_lt_nn_inf nn_inf_nn)
  \<comment> \<open>an integer between, which is exact\<close>
  define k where "k = \<lceil>f32_real h\<rceil> - 1"
  have k: "0 \<le> k" "k < n" "f32_real h - 1 \<le> real_of_int k" "real_of_int k < f32_real h"
    using hr unfolding k_def by linarith+
  have kn: "nn (f32_of_int k)" "f32_real (f32_of_int k) = real_of_int k"
    using k assms(3) nn_of_int[of k] real_of_int_exact[of k] by simp_all
  have lk: "l \<le> f32_of_int k" using rounds_mono[OF d rounds_of_int[OF k(1)] k(3)] by (simp add: l)
  have "f32_of_int k < h" using f32_real_less[OF kn(1) h(3)] k(4) by (simp add: kn(2))
  with lk have lh: "l < h" by simp
  have nl: "nn l" using nn_below[OF lk kn(1)] .
  have r: "rounds (f32_sub h l) (f32_real h - f32_real l)" by (rule rounds_sub) (use h nl lh in simp_all)
  have rL: "rounds (f32_sub L l) (f32_real L - f32_real l)" by (rule rounds_sub) (use h L nl lh in auto)
  from rounds_mono[OF r rL] hr have "f32_sub h l \<le> f32_sub L l" by (simp add: L(2))
  moreover have "nn (f32_sub h l)"
    using rounds_mono[OF r rounds_self[OF h(3)]] pos[OF nl] nn_below[OF _ h(3)] by simp
  moreover have "0 < f32_sub h l" by (rule sub_pos[OF h(3) nl lh])
  moreover have "l < L" using lh h(2) by simp
  ultimately show ?thesis using nl by (simp add: inside_def L_def)
qed

lemma clip_interval_inside:
  assumes "nn_inf s" "nn_inf z" "1 \<le> n" "n \<le> 16384"
  shows "inside (f32_of_int n) (clip_interval s z (f32_of_int n))"
proof -
  define L where "L = f32_of_int n"
  have L: "nn L" "f32_real L = real_of_int n" using assms nn_of_int[of n] real_of_int_exact[of n] by (simp_all add: L_def)
  have n': "nn_inf x \<Longrightarrow> \<not> f32_lt x 0" for x by (simp add: f32_lt_nn_inf nn_inf_nn)
  have le: "nn x \<Longrightarrow> nn y \<Longrightarrow> f32_real x \<le> f32_real y \<longleftrightarrow> x \<le> y" for x y by (rule f32_real_le)
  define low where "low = f32_clamp s 0 L"
  have low: "low = min L s"
    using n'[OF assms(1)] by (auto simp: low_def f32_clamp_def min_def f32_lt_nn_inf assms(1) nn_inf_nn L(1))
  hence low': "low \<le> L" "nn low" using nn_below[OF _ L(1)] by simp_all
  define high where "high = f32_clamp (f32_add s z) low L"
  have "high = max low (min L (f32_add s z))"
    using low' nn_inf_add[OF assms(1,2)] by (auto simp: high_def f32_clamp_def min_def max_def f32_lt_nn_inf nn_inf_nn L(1))
  hence high: "low \<le> high" "high \<le> L" "nn high" using low'(1) nn_below[OF _ L(1)] by (simp_all add: le_max_iff_disj)
  have h_real: "f32_real low \<le> f32_real high" "f32_real high \<le> f32_real L" using high low' L(1) le by blast+
  define w where "w = f32_sub high low"
  have w: "rounds w (f32_real high - f32_real low)" unfolding w_def by (rule rounds_sub) (use high low' in simp_all)
  have "f32_real low \<ge> 0" using le[OF nn_lit(1) low'(2)] by (simp add: real_lit)
  with rounds_mono[OF w rounds_self[OF L(1)]] h_real have "w \<le> L" by simp
  hence nw: "nn w" using nn_below[OF _ L(1)] by simp
  show ?thesis
  proof (cases "w < 0x3F800000")
    case False
    have "rounds (f32_sub L low) (f32_real L - f32_real low)" by (rule rounds_sub) (use L low' in simp_all)
    from rounds_mono[OF w this] h_real have "w \<le> f32_sub L low" by simp
    moreover have "low \<noteq> L"
    proof
      assume "low = L"
      hence "f32_real high - f32_real low = f32_real 0" using h_real by (simp add: real_lit)
      with rounds_mono[OF w rounds_self[of 0]] have "w \<le> 0" by simp
      with False show False by simp
    qed
    moreover have "0 < w" using False by (auto simp: word_gt_0)
    ultimately show ?thesis using False low' nw
      by (simp add: inside_def clip_interval_def Let_def L_def[symmetric] low_def[symmetric] high_def[symmetric] w_def[symmetric] f32_lt_nn)
  next
    case True
    define h where "h = f32_min (f32_add low 0x3F800000) L"
    define l where "l = f32_max (f32_sub h 0x3F800000) 0"
    have "clip_interval s z L = (l, f32_sub h l)"
      using True nw by (simp add: clip_interval_def Let_def low_def[symmetric] high_def[symmetric] w_def[symmetric] f32_lt_nn
          h_def[symmetric] l_def[symmetric])
    moreover have "inside L (l, f32_sub h l)" unfolding h_def l_def by (rule clip_one[OF low'(2) assms(3,4), folded L_def])
    ultimately show ?thesis by (simp add: L_def)
  qed
qed

section \<open>The sampled rectangle of a plan\<close>

lemma inside_ok:
  assumes "inside (f32_of_u32 n) (x, w)" "0 < n" "n \<le> 16384"
  shows "f32_isfinite x" "f32_isfinite w" "\<not> f32_lt x 0" "\<not> f32_le w 0" "\<not> f32_le (f32_of_u32 n) x"
    "\<not> f32_lt (f32_sub (f32_of_u32 n) x) w"
proof -
  define L where "L = f32_of_u32 n"
  have "0 \<le> uint n" "uint n \<le> 2 ^ 32" using uint_lt2p[of n] by simp_all
  hence L: "nn L" unfolding L_def f32_of_u32_def by (rule nn_of_int)
  have i: "nn x" "nn w" "x < L" "0 < w" "w \<le> f32_sub L x" using assms(1) by (simp_all add: inside_def L_def)
  have s: "nn_inf (f32_sub L x)" using rounds_nn_inf[OF rounds_sub[OF L i(1)]] i(3) by simp
  show "f32_isfinite x" "f32_isfinite w" using i by (simp_all add: f32_isfinite_def nn_val)
  show "\<not> f32_lt x 0" using i by (simp add: f32_lt_nn)
  show "\<not> f32_le w 0" using f32_le_nn[OF i(2) nn_lit(1)] i(4) by auto
  show "\<not> f32_le (f32_of_u32 n) x" using f32_le_nn[OF L i(1)] i(3) by (auto simp: L_def)
  show "\<not> f32_lt (f32_sub (f32_of_u32 n) x) w" using i(5) s by (simp add: L_def[symmetric] f32_lt_nn_inf nn_inf_nn i(2))
qed

lemma u32_dim: "0 < n \<Longrightarrow> n \<le> 16384 \<Longrightarrow> 1 \<le> uint n \<and> uint n \<le> 16384" for n :: u32
  by (simp add: word_le_def word_less_def)

lemma copy_pixel_scale_nn:
  assumes "t \<noteq> 0" "t \<le> 16384" "l \<noteq> 0" "l \<le> (16384 :: u32)"
  shows "nn (copy_pixel_scale u t l)"
proof -
  from assms have "0 < t" "0 < l" by (simp_all add: word_gt_0)
  with u32_dim[of t] u32_dim[of l] assms nn_div[of "uint t" "uint l"] show ?thesis
    by (simp add: copy_pixel_scale_def f32_of_u32_def)
qed

lemma nn_of_s32: "0 \<le> sint (x :: s32) \<Longrightarrow> nn (f32_of_s32 x)"
  using sint_lt[of x] nn_of_int[of "sint x"] by (simp add: f32_of_s32_def)

lemma copy_sample_rect_good:
  assumes "\<not> copy_extent_bad e" "\<not> copy_source_bad r" "nn sx" "nn sy"
  shows "\<not> sample_rect_bad (targetWidth e) (targetHeight e) (copy_sample_rect r sx sy e)"
proof -
  have e: "0 < targetWidth e" "targetWidth e \<le> 16384" "0 < targetHeight e" "targetHeight e \<le> 16384"
    using assms(1) by (auto simp: copy_extent_bad_def word_gt_0 not_less)
  have r: "0 \<le> sint (cr_x r)" "0 \<le> sint (cr_y r)" "0 \<le> sint (cr_width r)" "0 \<le> sint (cr_height r)"
    using assms(2) by (auto simp: copy_source_bad_def)
  obtain x w where xw: "clip_interval (f32_mul (f32_of_s32 (cr_x r)) sx) (f32_mul (f32_of_s32 (cr_width r)) sx)
      (f32_of_u32 (targetWidth e)) = (x, w)" by fastforce
  obtain y h where yh: "clip_interval (f32_mul (f32_of_s32 (cr_y r)) sy) (f32_mul (f32_of_s32 (cr_height r)) sy)
      (f32_of_u32 (targetHeight e)) = (y, h)" by fastforce
  have "inside (f32_of_u32 (targetWidth e)) (x, w)"
    unfolding xw[symmetric] f32_of_u32_def
    by (rule clip_interval_inside) (use u32_dim[OF e(1,2)] nn_inf_mul nn_of_s32 r assms(3) in auto)
  note X = inside_ok[OF this e(1,2)]
  have "inside (f32_of_u32 (targetHeight e)) (y, h)"
    unfolding yh[symmetric] f32_of_u32_def
    by (rule clip_interval_inside) (use u32_dim[OF e(3,4)] nn_inf_mul nn_of_s32 r assms(4) in auto)
  note Y = inside_ok[OF this e(3,4)]
  show ?thesis using X Y e unfolding copy_sample_rect_def xw yh by (simp add: sample_rect_bad_def not_less word_gt_0)
qed

section \<open>The size of the result\<close>

lemma sign_only: "x AND 0x8000000000000000 = (if bit x 63 then 0x8000000000000000 else (0 :: f64))"
proof -
  have n: "63 \<le> n \<Longrightarrow> n < 64 \<Longrightarrow> n = 63" for n :: nat by simp
  have "x AND push_bit 63 1 = (if bit x 63 then push_bit 63 1 else 0)"
    by (rule bit_eqI) (auto simp: bit_simps simp del: push_bit_of_1 push_bit_numeral push_bit_eq_mult dest: n)
  moreover have "push_bit 63 1 = (0x8000000000000000 :: f64)" by simp
  ultimately show ?thesis by (simp only:)
qed

lemma f64_round_not_nan: "f64_val x \<noteq> FNan \<Longrightarrow> f64_val (f64_round x) \<noteq> FNan"
proof -
  assume x: "f64_val x \<noteq> FNan"
  have z: "f64_val 0 \<noteq> FNan" "f64_val 0x8000000000000000 \<noteq> FNan" by (simp_all add: f64_val_def f_decode_def)
  show ?thesis
    using x z f_round64_nan by (auto simp: f64_round_def f64_of_int_def sign_only split: option.splits)
qed

lemma trunc_val_ge:
  assumes "x = FFin s m e" "0 \<le> m" "1 \<le> rv x" "rv x \<le> real_of_int T"
  shows "\<exists>i. trunc_val x = Some i \<and> 1 \<le> i \<and> i \<le> T"
proof -
  obtain i where i: "trunc_val x = Some i" "0 \<le> i" "i \<le> T" using trunc_val_bounds[OF assms(1,2)] assms(3,4) by auto
  have s: "\<not> s"
  proof
    assume s
    hence "rv x \<le> 0" using assms(1,2) by simp
    thus False using assms(3) by simp
  qed
  have "i \<noteq> 0"
  proof
    assume "i = 0"
    hence z: "(if 0 \<le> e then m * 2 ^ nat e else m div 2 ^ nat (- e)) = 0" using i(1) s assms(1) by (simp split: if_splits)
    show False
    proof (cases "0 \<le> e")
      case True
      thus False using z assms(1,3) s by simp
    next
      case False
      have "(0 :: int) < 2 ^ nat (- e)" by simp
      hence "m < 2 ^ nat (- e)" using False z assms(2) pos_imp_zdiv_pos_iff[of "2 ^ nat (- e)" m] by auto
      hence "real_of_int m < 2 ^ nat (- e)" by (metis of_int_less_iff of_int_numeral of_int_power)
      hence "real_of_int m / 2 ^ nat (- e) < 1" by (subst divide_less_eq_1_pos) simp_all
      moreover have "(2 :: real) powi e = 1 / 2 ^ nat (- e)" using False by (simp only: power_int_def if_False inverse_eq_divide power_one_over)
      ultimately have "real_of_int m * 2 powi e < 1" by simp
      thus False using assms(1,3) s by simp
    qed
  qed
  thus ?thesis using i by simp
qed

lemma copy_scale_range:
  assumes "copy_scale n l t = Inr w" "l \<noteq> 0"
  shows "1 \<le> w" "w \<le> 16384"
proof -
  define v where "v = f64_round (f64_div (f64_mul (f64_of_int (uint n)) (f64_of_int (uint t))) (f64_of_int (uint l)))"
  have "0 < uint l" using assms(2) by (metis uint_0_iff uint_ge_0 order_less_le)
  hence nan: "f64_val v \<noteq> FNan"
    unfolding v_def using uint_lt2p[of n] uint_lt2p[of t] uint_lt2p[of l]
    by (intro f64_round_not_nan f64_mul_div_not_nan) simp_all
  have le: "\<not> f64_lt (f64_of_int 16384) v" and w: "w = edge_word (f64_trunc (f64_max v 0x3FF0000000000000))"
    using assms(1) by (simp_all add: copy_scale_def Let_def v_def[symmetric] split: if_splits)
  obtain c j where c: "f64_val (f64_of_int 16384) = FFin False c j" "0 \<le> c" "rv (FFin False c j) = real_of_int 16384"
    by (rule f64_of_int_exact[of 16384]) simp_all
  have one: "f64_val 0x3FF0000000000000 = FFin False (2 ^ 52) (- 52)" by (simp add: f64_val_def f_decode_def)
  have "\<exists>i. f64_trunc (f64_max v 0x3FF0000000000000) = Some i \<and> 1 \<le> i \<and> i \<le> 16384"
  proof (cases "f64_lt v 0x3FF0000000000000")
    case True
    thus ?thesis by (simp add: f64_max_def f64_trunc_def one)
  next
    case False
    show ?thesis
    proof (cases "f64_val v")
      case (FFin s m e)
      have "1 \<le> rv (FFin s m e)" "rv (FFin s m e) \<le> real_of_int 16384"
        using False le unfolding f64_lt_def FFin c(1) one f_lt_rv not_less c(3) by (simp_all add: power_int_minus)
      from trunc_val_ge[OF refl f64_val_nonneg[OF FFin] this] False show ?thesis
        by (simp add: f64_max_def f64_trunc_def FFin)
    qed (use False le nan in \<open>auto simp: f64_lt_def c(1) one\<close>)
  qed
  then obtain i where i: "w = edge_word (Some i)" "1 \<le> i" "i \<le> 16384" using w by auto
  hence "uint w = i" by (simp add: edge_word_def uint_word_of_int)
  thus "1 \<le> w" "w \<le> 16384" using i(2,3) by (simp_all add: word_le_def)
qed

section \<open>The cleared rectangle\<close>

lemma clear_span:
  fixes a b t :: u32
  assumes "0 < t"
  defines "l \<equiv> min a (t - 1)"
  defines "r \<equiv> min (max b (l + 1)) t"
  shows "l < t" "r - l \<noteq> 0" "r - l \<le> t - l"
proof -
  have "l \<le> t - 1" by (simp add: l_def)
  hence l: "l < t" using assms(1) by uint_arith
  hence "l + 1 \<le> t" "l < l + 1" by uint_arith+
  hence r: "l < r" "r \<le> t" by (auto simp: r_def min_def max_def)
  show "l < t" by (rule l)
  show "r - l \<noteq> 0" "r - l \<le> t - l" using r by uint_arith+
qed

lemma clear_rect_inside:
  assumes "\<not> copy_extent_bad e"
  shows "\<not> blit_rect_bad (targetWidth e) (targetHeight e) (clear_rect unscaled r e)"
proof -
  have e: "0 < targetWidth e" "0 < targetHeight e" "\<not> targetWidth e > 16384" "\<not> targetHeight e > 16384"
    using assms by (simp_all add: copy_extent_bad_def word_gt_0)
  note x = clear_span[OF e(1)] and y = clear_span[OF e(2)]
  show ?thesis
    unfolding blit_rect_bad_def clear_rect_def Let_def BlitRect.simps de_Morgan_disj not_le not_less
    using x y e by (intro conjI) (simp_all only: not_less word_gt_0 not_False_eq_True)
qed

section \<open>Whole texels\<close>

lemma rounds_unique: "rounds x r \<Longrightarrow> rounds y r \<Longrightarrow> x = y"
  using rounds_mono[of x r y r] rounds_mono[of y r x r] by simp

lemma of_int_small:
  assumes "0 \<le> n" "n \<le> 16384"
  shows "nn (f32_of_int n)" "f32_real (f32_of_int n) = real_of_int n"
  using assms nn_of_int[of n] real_of_int_exact[of n] by simp_all

lemma of_int_less:
  assumes "0 \<le> a" "a \<le> 16384" "0 \<le> b" "b \<le> 16384"
  shows "f32_lt (f32_of_int a) (f32_of_int b) \<longleftrightarrow> a < b"
  using f32_real_less[of "f32_of_int a" "f32_of_int b"] of_int_small[OF assms(1,2)] of_int_small[OF assms(3,4)]
  by (simp add: f32_lt_nn)

lemma of_int_add:
  assumes "0 \<le> a" "0 \<le> b" "a + b \<le> 16384"
  shows "f32_add (f32_of_int a) (f32_of_int b) = f32_of_int (a + b)"
proof (rule rounds_unique)
  show "rounds (f32_add (f32_of_int a) (f32_of_int b)) (real_of_int (a + b))"
    using rounds_add[of "f32_of_int a" "f32_of_int b"] of_int_small[of a] of_int_small[of b] assms by simp
  show "rounds (f32_of_int (a + b)) (real_of_int (a + b))" by (rule rounds_of_int) (use assms in simp)
qed

lemma of_int_sub:
  assumes "0 \<le> b" "b \<le> a" "a \<le> 16384"
  shows "f32_sub (f32_of_int a) (f32_of_int b) = f32_of_int (a - b)"
proof (rule rounds_unique)
  have "f32_of_int b \<le> f32_of_int a"
    using f32_real_le[of "f32_of_int b" "f32_of_int a"] of_int_small[of a] of_int_small[of b] assms by simp
  thus "rounds (f32_sub (f32_of_int a) (f32_of_int b)) (real_of_int (a - b))"
    using rounds_sub[of "f32_of_int a" "f32_of_int b"] of_int_small[of a] of_int_small[of b] assms by simp
  show "rounds (f32_of_int (a - b)) (real_of_int (a - b))" by (rule rounds_of_int) (use assms in simp)
qed

lemma mul_one: "nn x \<Longrightarrow> f32_mul x 0x3F800000 = x"
proof (rule rounds_unique)
  assume x: "nn x"
  show "rounds x (f32_real x)" by (rule rounds_self[OF x])
  define m e where "m = pat_sig (uint x)" "e = pat_exp (uint x)"
  have m: "0 \<le> m" using pat_bounds(1)[of "uint x"] x by (simp add: m_e_def nn_def)
  have one: "f32_val 0x3F800000 = FFin False (2 ^ 23) (- 23)" by (simp add: f32_val_def f_decode_def)
  have "f32_mul x 0x3F800000 = word_of_int (if m * 2 ^ 23 = 0 then 0 else f_round binary32 False (m * 2 ^ 23) (e + - 23))"
    unfolding f32_mul_def nn_val[OF x] one m_e_def[symmetric] by (simp add: f_sign_bit_def)
  moreover have "real_of_int (m * 2 ^ 23) * 2 powi (e + - 23) = f32_real x"
    by (simp add: f32_real_nn[OF x] m_e_def power_int_diff)
  moreover have "0 \<le> m * 2 ^ 23" using m by simp
  ultimately show "rounds (f32_mul x 0x3F800000) (f32_real x)" unfolding rounds_def by blast
qed

text \<open>An interval of whole texels inside the target is left alone.\<close>
lemma clip_interval_whole:
  assumes "0 \<le> a" "1 \<le> b" "a + b \<le> n" "n \<le> 16384"
  shows "clip_interval (f32_of_int a) (f32_of_int b) (f32_of_int n) = (f32_of_int a, f32_of_int b)"
proof -
  have o: "f32_of_int 0 = 0" "f32_of_int 1 = 0x3F800000"
    by (simp_all add: f32_of_int_def f_round_def Let_def round_shift_def f_sign_bit_def int_bits.simps)
  have low: "f32_clamp (f32_of_int a) 0 (f32_of_int n) = f32_of_int a"
    using of_int_less[of a 0] of_int_less[of n a] assms by (simp add: f32_clamp_def o)
  have sum': "f32_add (f32_of_int a) (f32_of_int b) = f32_of_int (a + b)" by (rule of_int_add) (use assms in simp_all)
  have high: "f32_clamp (f32_of_int (a + b)) (f32_of_int a) (f32_of_int n) = f32_of_int (a + b)"
    using of_int_less[of "a + b" a] of_int_less[of n "a + b"] assms by (simp add: f32_clamp_def)
  have w: "f32_sub (f32_of_int (a + b)) (f32_of_int a) = f32_of_int b"
    using of_int_sub[of a "a + b"] assms by simp
  have "\<not> f32_lt (f32_of_int b) 0x3F800000" using of_int_less[of b 1] assms by (simp add: o)
  thus ?thesis by (simp add: clip_interval_def Let_def low sum' high w)
qed

section \<open>The edges of a display copy\<close>

lemma f32_trunc_clamp:
  assumes "0 \<le> T" "T \<le> 16384"
  shows "case f32_trunc (f32_clamp n 0 (f32_of_int T)) of None \<Rightarrow> True | Some i \<Rightarrow> 0 \<le> i \<and> i \<le> T"
proof -
  obtain c j where c: "f32_val (f32_of_int T) = FFin False c j" "0 \<le> c" by (rule val_of_int[of T]) (use assms in auto)
  have cr: "rv (FFin False c j) = real_of_int T" using of_int_small(2)[OF assms] by (simp only: f32_real_def c(1))
  have z: "f32_val 0 = FFin False 0 (- 149)" by (simp add: f32_val_def f_decode_def)
  have lo: "f32_trunc 0 = Some 0" by (simp add: f32_trunc_def z)
  have hi: "\<exists>i. f32_trunc (f32_of_int T) = Some i \<and> 0 \<le> i \<and> i \<le> T"
    unfolding f32_trunc_def c(1) by (rule trunc_val_bounds[OF refl c(2)]) (use cr assms in simp_all)
  have mid: "case f32_trunc n of None \<Rightarrow> True | Some i \<Rightarrow> 0 \<le> i \<and> i \<le> T"
    if "\<not> f32_lt n 0" "\<not> f32_lt (f32_of_int T) n"
  proof (cases "f32_val n")
    case (FFin s m e)
    have "0 \<le> rv (FFin s m e)" "rv (FFin s m e) \<le> real_of_int T"
      using that cr by (simp_all only: f32_lt_def FFin z c(1) f_lt_rv not_less) simp
    from trunc_val_bounds[OF refl f32_val_nonneg[OF FFin] this] show ?thesis unfolding f32_trunc_def FFin by auto
  qed (simp_all add: f32_trunc_def)
  show ?thesis unfolding f32_clamp_def using lo hi mid assms(1) by auto
qed

lemma f32_trunc_clampD:
  "f32_trunc (f32_clamp n 0 (f32_of_u32 t)) = Some i \<Longrightarrow> t \<le> 16384 \<Longrightarrow> 0 \<le> i"
  using f32_trunc_clamp[of "uint t" n] by (simp add: f32_of_u32_def word_le_def)

lemma display_edge_range:
  assumes "0 \<le> v" "target \<le> 16384"
  shows "0 \<le> display_edge native v logical target upper"
  using assms by (auto simp: display_edge_def Let_def split: option.splits dest: f32_trunc_clampD)

end
