(* ===== verification/CopyPlanProps.thy ===== *)
theory CopyPlanProps
  imports CopyPlanLemmas
begin

text \<open>
  The properties of copy plans: when planning succeeds, what a plan guarantees to the code that runs
  it, and that a display copy samples the whole texels it has computed.
\<close>

lemma max1_range: "1 \<le> max (x :: u32) 1" by simp

lemma copy_size_pos:
  assumes "copy_size native n l t = Inr w" "l \<noteq> 0" "1 \<le> n"
  shows "1 \<le> w" "native \<or> w \<le> 16384"
  using assms copy_scale_range[of n l t w] by (auto simp: copy_size_def split: if_splits)

text \<open>With the source guaranteed to be inside, the check of the blit mesh is about the size of the result.\<close>
lemma plan_blit:
  assumes "\<not> sample_rect_bad sw sh src" "1 \<le> w" "1 \<le> (h :: u32)"
  shows "(\<exists>v. sampled_blit_vertices sw sh w h src \<lparr>br_x = 0, br_y = 0, br_width = w, br_height = h\<rparr> = Inr v) \<longleftrightarrow>
    w \<le> 16384 \<and> h \<le> 16384"
proof -
  have "w \<noteq> 0" "h \<noteq> 0" "0 < w" "0 < h" using assms(2,3) by (auto simp: word_gt_0)
  thus ?thesis using assms(1) by (auto simp: sampled_blit_vertices_def blit_rect_bad_def Let_def not_le)
qed

lemma plan_source_good:
  assumes "\<not> copy_extent_bad e" "\<not> copy_source_bad r"
  shows "\<not> sample_rect_bad (targetWidth e) (targetHeight e)
    (copy_sample_rect r (copy_pixel_scale u (targetWidth e) (logicalWidth e)) (copy_pixel_scale u (targetHeight e) (logicalHeight e)) e)"
  by (rule copy_sample_rect_good[OF assms]; rule copy_pixel_scale_nn) (use assms(1) in \<open>auto simp: copy_extent_bad_def\<close>)

lemma ex_Inr: "(\<exists>p. (case x of Inl err \<Rightarrow> Inl err | Inr y \<Rightarrow> f y) = Inr p) \<longleftrightarrow> (\<exists>y. x = Inr y \<and> (\<exists>p. f y = Inr p))"
  by (cases x) auto

lemma pre_copy_alpha_cases:
  "(\<exists>a. pre_copy_alpha s = Inr a) \<longleftrightarrow>
    \<not> (render_target_has_alpha (pixelFmt s) \<and> alphaUpdate s \<and> dstAlpha s \<noteq> - 1 \<and> dstAlpha s > 255)"
  by (auto simp: pre_copy_alpha_def)

lemma filter_sums_cases:
  "(\<exists>f'. copy_filter_sums vf f = Inr f') \<longleftrightarrow> \<not> (vf \<and> (\<exists>x \<in> set f. x > 63))"
  by (auto simp: copy_filter_sums_def)

lemma clear_color_cases:
  "(\<exists>w. clear_color m c = Inr w) \<longleftrightarrow>
    \<not> (m AND 7 \<noteq> 0 \<and> \<not> (f32_isfinite (v0 c) \<and> f32_isfinite (v1 c) \<and> f32_isfinite (v2 c))) \<and>
    \<not> (m AND 8 \<noteq> 0 \<and> \<not> f32_isfinite (v3 c))"
  by (auto simp: clear_color_def color_byte_def Let_def)

lemma plan_clear_cases:
  assumes "\<not> copy_extent_bad e"
  shows "(\<exists>c. plan_clear s u r e clear = Inr c) \<longleftrightarrow>
    \<not> (clear \<and> colorUpdate s \<and>
       \<not> (f32_isfinite (v0 (clearColor s)) \<and> f32_isfinite (v1 (clearColor s)) \<and> f32_isfinite (v2 (clearColor s)))) \<and>
    \<not> (clear \<and> alphaUpdate s \<and> render_target_has_alpha (pixelFmt s) \<and> \<not> f32_isfinite (v3 (clearColor s)))"
proof -
  define m where "m = (if colorUpdate s then 7 else 0) OR (if alphaUpdate s \<and> render_target_has_alpha (pixelFmt s) then 8 else (0 :: u32))"
  have m: "m AND 7 \<noteq> 0 \<longleftrightarrow> colorUpdate s" "m AND 8 \<noteq> 0 \<longleftrightarrow> alphaUpdate s \<and> render_target_has_alpha (pixelFmt s)"
    by (simp_all add: m_def)
  have "br_width (clear_rect u r e) \<noteq> 0 \<and> br_height (clear_rect u r e) \<noteq> 0"
    using clear_rect_inside[OF assms, of u r] by (simp add: blit_rect_bad_def)
  hence "clear \<Longrightarrow> (\<exists>c. plan_clear s u r e clear = Inr c) \<longleftrightarrow> (\<exists>w. clear_color m (clearColor s) = Inr w)"
    by (auto simp: plan_clear_def Let_def m_def split: sum.split)
  thus ?thesis using clear_color_cases[of m "clearColor s"] m by (cases clear) (auto simp: plan_clear_def)
qed

lemma plan_copy_succeeds:
  "(\<exists>p. plan_gx_texture_copy g t k s e clear = Inr p) \<longleftrightarrow>
    \<not> copy_extent_bad e \<and> (mkw_copy_color_format (texCopyFmt s) \<or> mkw_copy_depth_format (texCopyFmt s)) \<and>
    \<not> copyFilterAa s \<and> \<not> copy_source_bad (texCopySrc s) \<and>
    (\<exists>w \<le> 16384. copy_size (viewportPolicy s = AURORA_VIEWPORT_NATIVE g) (max (ucast (texCopyDstWidth s)) 1)
       (logicalWidth e) (targetWidth e) = Inr w) \<and>
    (\<exists>h \<le> 16384. copy_size (viewportPolicy s = AURORA_VIEWPORT_NATIVE g) (max (ucast (texCopyDstHeight s)) 1)
       (logicalHeight e) (targetHeight e) = Inr h) \<and>
    \<not> (render_target_has_alpha (pixelFmt s) \<and> alphaUpdate s \<and> dstAlpha s \<noteq> - 1 \<and> dstAlpha s > 255) \<and>
    \<not> (clear \<and> colorUpdate s \<and>
       \<not> (f32_isfinite (v0 (clearColor s)) \<and> f32_isfinite (v1 (clearColor s)) \<and> f32_isfinite (v2 (clearColor s)))) \<and>
    \<not> (clear \<and> alphaUpdate s \<and> render_target_has_alpha (pixelFmt s) \<and> \<not> f32_isfinite (v3 (clearColor s))) \<and>
    \<not> (copyFilterVf s \<and> (\<exists>x \<in> set (copyFilterVFilter s). x > 63))"
proof (cases "copy_extent_bad e \<or> \<not> (mkw_copy_color_format (texCopyFmt s) \<or> mkw_copy_depth_format (texCopyFmt s)) \<or>
    copyFilterAa s \<or> copy_source_bad (texCopySrc s)")
  case True
  thus ?thesis by (auto simp: plan_gx_texture_copy_def)
next
  case False
  let ?n = "viewportPolicy s = AURORA_VIEWPORT_NATIVE g"
  let ?u = "?n \<or> texCopySrcRenderSpace s"
  let ?src = "copy_sample_rect (texCopySrc s) (copy_pixel_scale ?u (targetWidth e) (logicalWidth e))
    (copy_pixel_scale ?u (targetHeight e) (logicalHeight e)) e"
  let ?W = "copy_size ?n (max (ucast (texCopyDstWidth s)) 1) (logicalWidth e) (targetWidth e)"
  let ?H = "copy_size ?n (max (ucast (texCopyDstHeight s)) 1) (logicalHeight e) (targetHeight e)"
  have e: "\<not> copy_extent_bad e" using False by simp
  have g: "\<not> (\<not> mkw_copy_color_format (texCopyFmt s) \<and> \<not> mkw_copy_depth_format (texCopyFmt s))"
    "\<not> copyFilterAa s" "\<not> copy_source_bad (texCopySrc s)" using False by auto
  have l: "logicalWidth e \<noteq> 0" "logicalHeight e \<noteq> 0" using e by (simp_all add: copy_extent_bad_def)
  have blit: "(\<exists>v. sampled_blit_vertices (targetWidth e) (targetHeight e) w h ?src
      \<lparr>br_x = 0, br_y = 0, br_width = w, br_height = h\<rparr> = Inr v) \<longleftrightarrow> w \<le> 16384 \<and> h \<le> 16384"
    if "?W = Inr w" "?H = Inr h" for w h
    by (rule plan_blit[OF plan_source_good[OF e g(3)] copy_size_pos(1)[OF that(1) l(1) max1_range]
          copy_size_pos(1)[OF that(2) l(2) max1_range]])
  have "(\<exists>p. plan_gx_texture_copy g t k s e clear = Inr p) \<longleftrightarrow>
    (\<exists>w. ?W = Inr w \<and> (\<exists>h. ?H = Inr h \<and>
      (\<exists>v. sampled_blit_vertices (targetWidth e) (targetHeight e) w h ?src \<lparr>br_x = 0, br_y = 0, br_width = w, br_height = h\<rparr> = Inr v) \<and>
      (\<exists>a. pre_copy_alpha s = Inr a) \<and> (\<exists>c. plan_clear s ?u (texCopySrc s) e clear = Inr c) \<and>
      (\<exists>f. copy_filter_sums (copyFilterVf s) (copyFilterVFilter s) = Inr f)))"
    unfolding plan_gx_texture_copy_def if_not_P[OF e] if_not_P[OF g(1)] if_not_P[OF g(2)] if_not_P[OF g(3)] Let_def ex_Inr
    by (simp only: sum.inject ex_simps simp_thms)
  also have "\<dots> \<longleftrightarrow> (\<exists>w \<le> 16384. ?W = Inr w) \<and> (\<exists>h \<le> 16384. ?H = Inr h) \<and>
      (\<exists>a. pre_copy_alpha s = Inr a) \<and> (\<exists>c. plan_clear s ?u (texCopySrc s) e clear = Inr c) \<and>
      (\<exists>f. copy_filter_sums (copyFilterVf s) (copyFilterVFilter s) = Inr f)"
    using blit by blast
  finally show ?thesis unfolding pre_copy_alpha_cases filter_sums_cases plan_clear_cases[OF e] using False by blast
qed

section \<open>What a plan guarantees\<close>

lemma eq_Inr: "(case x of Inl err \<Rightarrow> Inl err | Inr y \<Rightarrow> f y) = Inr p \<longleftrightarrow> (\<exists>y. x = Inr y \<and> f y = Inr p)"
  by (cases x) auto

lemma plan_decompose:
  assumes "plan_gx_texture_copy g t k s e clear = Inr p"
  defines "n \<equiv> viewportPolicy s = AURORA_VIEWPORT_NATIVE g"
  defines "u \<equiv> n \<or> texCopySrcRenderSpace s"
  shows "\<not> copy_extent_bad e" "\<not> copy_source_bad (texCopySrc s)"
    "pl_source p = copy_sample_rect (texCopySrc s) (copy_pixel_scale u (targetWidth e) (logicalWidth e))
       (copy_pixel_scale u (targetHeight e) (logicalHeight e)) e"
    "copy_size n (max (ucast (texCopyDstWidth s)) 1) (logicalWidth e) (targetWidth e) = Inr (pl_scaledWidth p)"
    "copy_size n (max (ucast (texCopyDstHeight s)) 1) (logicalHeight e) (targetHeight e) = Inr (pl_scaledHeight p)"
    "\<exists>v. sampled_blit_vertices (targetWidth e) (targetHeight e) (pl_scaledWidth p) (pl_scaledHeight p) (pl_source p)
       \<lparr>br_x = 0, br_y = 0, br_width = pl_scaledWidth p, br_height = pl_scaledHeight p\<rparr> = Inr v"
    "pre_copy_alpha s = Inr (pl_preCopyAlpha p)"
    "\<exists>c. plan_clear s u (texCopySrc s) e clear = Inr c \<and> pl_clearRect p = cl_rect c \<and> pl_clearMask p = cl_mask c"
    "copy_filter_sums (copyFilterVf s) (copyFilterVFilter s) = Inr (co_filter (pl_options p))"
    "pl_depth p = mkw_copy_depth_format (texCopyFmt s)"
    "pl_depth p \<Longrightarrow> \<not> co_linear (pl_options p)" "pl_depth p \<Longrightarrow> \<not> co_forceOpaqueAlpha (pl_options p)"
proof -
  have e: "\<not> copy_extent_bad e" and f: "\<not> (\<not> mkw_copy_color_format (texCopyFmt s) \<and> \<not> mkw_copy_depth_format (texCopyFmt s))"
    and a: "\<not> copyFilterAa s" and b: "\<not> copy_source_bad (texCopySrc s)"
    using assms(1) by (auto simp: plan_gx_texture_copy_def split: if_splits)
  note eq = assms(1)[unfolded plan_gx_texture_copy_def if_not_P[OF e] if_not_P[OF f] if_not_P[OF a] if_not_P[OF b]
      Let_def eq_Inr, folded n_def, folded u_def]
  from eq obtain w h v al c fl where
    d: "copy_size n (max (ucast (texCopyDstWidth s)) 1) (logicalWidth e) (targetWidth e) = Inr w"
    "copy_size n (max (ucast (texCopyDstHeight s)) 1) (logicalHeight e) (targetHeight e) = Inr h"
    "sampled_blit_vertices (targetWidth e) (targetHeight e) w h
       (copy_sample_rect (texCopySrc s) (copy_pixel_scale u (targetWidth e) (logicalWidth e))
         (copy_pixel_scale u (targetHeight e) (logicalHeight e)) e) \<lparr>br_x = 0, br_y = 0, br_width = w, br_height = h\<rparr> = Inr v"
    "pre_copy_alpha s = Inr al" "plan_clear s u (texCopySrc s) e clear = Inr c"
    "copy_filter_sums (copyFilterVf s) (copyFilterVFilter s) = Inr fl"
    and p: "p = \<lparr>pl_source = copy_sample_rect (texCopySrc s) (copy_pixel_scale u (targetWidth e) (logicalWidth e))
         (copy_pixel_scale u (targetHeight e) (logicalHeight e)) e, pl_logicalWidth = max (ucast (texCopyDstWidth s)) 1,
       pl_logicalHeight = max (ucast (texCopyDstHeight s)) 1, pl_scaledWidth = w, pl_scaledHeight = h,
       pl_options = copy_options k s (copy_sample_rect (texCopySrc s) (copy_pixel_scale u (targetWidth e) (logicalWidth e))
         (copy_pixel_scale u (targetHeight e) (logicalHeight e)) e) w h
         (f32_div (f32_mul (f32_of_s32 (cr_height (texCopySrc s))) (copy_pixel_scale u (targetHeight e) (logicalHeight e)))
           (f32_of_s32 (cr_height (texCopySrc s)))) fl,
       pl_clearRect = cl_rect c, pl_clearMask = cl_mask c, pl_clearColor = cl_color c, pl_preCopyAlpha = al,
       pl_clearDepth = cl_depth c, pl_depth = mkw_copy_depth_format (texCopyFmt s), pl_depthClearValue = cl_value c\<rparr>"
    by (elim exE conjE) (rule that, assumption+, erule sum.inject(2)[THEN iffD1, THEN sym])
  show "\<not> copy_extent_bad e" "\<not> copy_source_bad (texCopySrc s)" by (rule e, rule b)
  show "pl_source p = copy_sample_rect (texCopySrc s) (copy_pixel_scale u (targetWidth e) (logicalWidth e))
       (copy_pixel_scale u (targetHeight e) (logicalHeight e)) e" by (simp add: p)
  show "copy_size n (max (ucast (texCopyDstWidth s)) 1) (logicalWidth e) (targetWidth e) = Inr (pl_scaledWidth p)"
    "copy_size n (max (ucast (texCopyDstHeight s)) 1) (logicalHeight e) (targetHeight e) = Inr (pl_scaledHeight p)"
    using d(1,2) by (simp_all add: p)
  show "\<exists>v. sampled_blit_vertices (targetWidth e) (targetHeight e) (pl_scaledWidth p) (pl_scaledHeight p) (pl_source p)
       \<lparr>br_x = 0, br_y = 0, br_width = pl_scaledWidth p, br_height = pl_scaledHeight p\<rparr> = Inr v"
    using d(3) by (simp add: p)
  show "pre_copy_alpha s = Inr (pl_preCopyAlpha p)" using d(4) by (simp add: p)
  show "\<exists>c. plan_clear s u (texCopySrc s) e clear = Inr c \<and> pl_clearRect p = cl_rect c \<and> pl_clearMask p = cl_mask c"
    using d(5) by (simp add: p)
  show "copy_filter_sums (copyFilterVf s) (copyFilterVFilter s) = Inr (co_filter (pl_options p))"
    using d(6) by (simp add: p copy_options_def Let_def)
  show "pl_depth p = mkw_copy_depth_format (texCopyFmt s)" by (simp add: p)
  show "pl_depth p \<Longrightarrow> \<not> co_linear (pl_options p)" "pl_depth p \<Longrightarrow> \<not> co_forceOpaqueAlpha (pl_options p)"
    by (simp_all add: p copy_options_def Let_def)
qed

lemma plan_clear_facts:
  assumes "plan_clear s u r e clear = Inr c" "\<not> copy_extent_bad e"
  shows "blit_rect_bad (targetWidth e) (targetHeight e) (cl_rect c) = (\<not> clear)" "cl_mask c \<le> 15" "clear \<or> cl_mask c = 0"
  using assms(1) clear_rect_inside[OF assms(2), of u r]
  by (auto simp: plan_clear_def Let_def blit_rect_bad_def split: sum.splits if_splits)

lemma byte_le: "x \<le> (63 :: u8) \<Longrightarrow> (ucast x :: u32) \<le> 63"
  by (simp add: word_le_def uint_up_ucast is_up)

lemma small_sums:
  fixes a b c :: u32
  assumes "a \<le> 63" "b \<le> 63" "c \<le> 63"
  shows "a + b \<le> 126" "a + b + c \<le> 189"
  using assms by unat_arith+

lemma filter_sums_bounds:
  assumes "copy_filter_sums vf f = Inr r" "length f = 7"
  shows "fst r \<le> 126 \<and> fst (snd r) \<le> 189 \<and> snd (snd r) \<le> 126"
proof (cases vf)
  case False
  thus ?thesis using assms(1) by (auto simp: copy_filter_sums_def)
next
  case True
  hence f: "\<not> (\<exists>x \<in> set f. x > 63)" and r: "r = (ucast (f ! 0) + ucast (f ! 1), ucast (f ! 2) + ucast (f ! 3) + ucast (f ! 4),
      ucast (f ! 5) + ucast (f ! 6))"
    using assms(1) by (simp_all add: copy_filter_sums_def split: if_splits)
  have "ucast (f ! i) \<le> (63 :: u32)" if "i < 7" for i
    using f that assms(2) nth_mem[of i f] by (intro byte_le) (simp add: not_less)
  thus ?thesis unfolding r fst_conv snd_conv by (intro conjI small_sums(1)[where c = 0] small_sums(2)) simp_all
qed

section \<open>Display copies\<close>

lemma display_state_sel:
  "texCopySrc (display_state t s x0 y0 x1 y1) = \<lparr>cr_x = word_of_int x0, cr_y = word_of_int y0,
     cr_width = word_of_int (max (x1 - x0) 1), cr_height = word_of_int (max (y1 - y0) 1)\<rparr>"
  "texCopySrcRenderSpace (display_state t s x0 y0 x1 y1)" "dstAlpha (display_state t s x0 y0 x1 y1) = - 1"
  by (simp_all add: display_state_def)

lemma s32_small: "0 \<le> i \<Longrightarrow> i \<le> 16384 \<Longrightarrow> f32_of_s32 (word_of_int i) = f32_of_int i"
  by (simp add: f32_of_s32_def sint_sbintrunc' signed_take_bit_int_eq_self)

text \<open>A source of whole texels inside the target is sampled as it is.\<close>
lemma whole_sample:
  assumes "0 \<le> x0" "x0 < x1" "x1 \<le> uint (targetWidth e)" "0 \<le> y0" "y0 < y1" "y1 \<le> uint (targetHeight e)"
    "\<not> copy_extent_bad e"
  shows "copy_sample_rect (texCopySrc (display_state t s x0 y0 x1 y1)) (copy_pixel_scale True w' lw) (copy_pixel_scale True h' lh) e =
    \<lparr>sr_x = f32_of_int x0, sr_y = f32_of_int y0, sr_width = f32_of_int (x1 - x0), sr_height = f32_of_int (y1 - y0)\<rparr>"
proof -
  have t: "uint (targetWidth e) \<le> 16384" "uint (targetHeight e) \<le> 16384"
    using assms(7) by (simp_all add: copy_extent_bad_def not_less word_le_def)
  have c: "clip_interval (f32_mul (f32_of_s32 (word_of_int a)) 0x3F800000) (f32_mul (f32_of_s32 (word_of_int (max (b - a) 1))) 0x3F800000)
      (f32_of_u32 n) = (f32_of_int a, f32_of_int (b - a))" if "0 \<le> a" "a < b" "b \<le> uint n" "uint n \<le> 16384" for a b n
  proof -
    have m: "max (b - a) 1 = b - a" and o: "0 \<le> b - a" "b - a \<le> 16384" "a \<le> 16384" using that by simp_all
    show ?thesis
      unfolding m s32_small[OF that(1) o(3)] s32_small[OF o(1,2)] mul_one[OF of_int_small(1)[OF that(1) o(3)]]
        mul_one[OF of_int_small(1)[OF o(1,2)]] f32_of_u32_def
      by (rule clip_interval_whole) (use that in simp_all)
  qed
  show ?thesis
    unfolding copy_sample_rect_def display_state_sel ClipRect.simps
    using c[OF assms(1-3) t(1)] c[OF assms(4-6) t(2)] by (simp add: copy_pixel_scale_def)
qed

lemma display_decompose:
  assumes "plan_gx_display_copy g t k s e clear df = Inr p"
  defines "n \<equiv> viewportPolicy s = AURORA_VIEWPORT_NATIVE g" and "r \<equiv> dispCopySrc s"
  defines "x0 \<equiv> display_edge n (sint (cr_x r)) (logicalWidth e) (targetWidth e) False"
    and "y0 \<equiv> display_edge n (sint (cr_y r)) (logicalHeight e) (targetHeight e) False"
    and "x1 \<equiv> display_edge n (sint (cr_x r) + sint (cr_width r)) (logicalWidth e) (targetWidth e) True"
    and "y1 \<equiv> display_edge n (sint (cr_y r) + sint (cr_height r)) (logicalHeight e) (targetHeight e) True"
  shows "\<not> copy_extent_bad e" "\<not> copy_source_bad r" "x0 < x1" "y0 < y1" "x1 \<le> uint (targetWidth e)" "y1 \<le> uint (targetHeight e)"
    "\<exists>q stride. plan_gx_texture_copy g t k (display_state t s x0 y0 x1 y1) e clear = Inr q \<and>
       p = q\<lparr>pl_options := display_options q (f32_max stride 0x3F800000) df\<rparr>"
proof -
  have e: "\<not> copy_extent_bad e" and b: "\<not> copy_source_bad r"
    using assms(1) by (auto simp: plan_gx_display_copy_def r_def split: if_splits)
  show "\<not> copy_extent_bad e" "\<not> copy_source_bad r" by (rule e, rule b)
  have i: "\<not> (x0 \<ge> x1 \<or> y0 \<ge> y1 \<or> x1 > uint (targetWidth e) \<or> y1 > uint (targetHeight e))"
  proof
    assume "x0 \<ge> x1 \<or> y0 \<ge> y1 \<or> x1 > uint (targetWidth e) \<or> y1 > uint (targetHeight e)"
    note this[unfolded x0_def x1_def y0_def y1_def n_def r_def]
    from assms(1)[unfolded plan_gx_display_copy_def if_not_P[OF e] if_not_P[OF b[unfolded r_def]] Let_def if_P[OF this]] show False by simp
  qed
  thus "x0 < x1" "y0 < y1" "x1 \<le> uint (targetWidth e)" "y1 \<le> uint (targetHeight e)" by auto
  from assms(1)[unfolded plan_gx_display_copy_def if_not_P[OF e] if_not_P[OF b[unfolded r_def]] Let_def
      if_not_P[OF i[unfolded x0_def x1_def y0_def y1_def n_def r_def]] eq_Inr]
  show "\<exists>q stride. plan_gx_texture_copy g t k (display_state t s x0 y0 x1 y1) e clear = Inr q \<and>
       p = q\<lparr>pl_options := display_options q (f32_max stride 0x3F800000) df\<rparr>"
    unfolding x0_def x1_def y0_def y1_def n_def r_def by (simp only: sum.inject) metis
qed

lemma display_facts:
  assumes "plan_gx_display_copy g t k s e clear df = Inr p"
  defines "n \<equiv> viewportPolicy s = AURORA_VIEWPORT_NATIVE g" and "r \<equiv> dispCopySrc s"
  defines "x0 \<equiv> display_edge n (sint (cr_x r)) (logicalWidth e) (targetWidth e) False"
    and "y0 \<equiv> display_edge n (sint (cr_y r)) (logicalHeight e) (targetHeight e) False"
    and "x1 \<equiv> display_edge n (sint (cr_x r) + sint (cr_width r)) (logicalWidth e) (targetWidth e) True"
    and "y1 \<equiv> display_edge n (sint (cr_y r) + sint (cr_height r)) (logicalHeight e) (targetHeight e) True"
  shows "0 \<le> x0" "0 \<le> y0"
    "pl_source p = \<lparr>sr_x = f32_of_int x0, sr_y = f32_of_int y0, sr_width = f32_of_int (x1 - x0), sr_height = f32_of_int (y1 - y0)\<rparr>"
    "pl_preCopyAlpha p = - 1" "\<not> co_forceOpaqueAlpha (pl_options p)" "\<not> f32_lt (co_rowStride (pl_options p)) 0x3F800000"
proof -
  note d = display_decompose[OF assms(1), folded n_def r_def, folded x0_def y0_def x1_def y1_def]
  obtain q stride where q: "plan_gx_texture_copy g t k (display_state t s x0 y0 x1 y1) e clear = Inr q"
    and p: "p = q\<lparr>pl_options := display_options q (f32_max stride 0x3F800000) df\<rparr>" using d(7) by blast
  have r: "0 \<le> sint (cr_x r)" "0 \<le> sint (cr_y r)" "targetWidth e \<le> 16384" "targetHeight e \<le> 16384"
    using d(1,2) by (simp_all add: copy_source_bad_def copy_extent_bad_def not_less)
  show z: "0 \<le> x0" "0 \<le> y0"
    unfolding x0_def y0_def by (rule display_edge_range[OF r(1,3)], rule display_edge_range[OF r(2,4)])
  have "pl_source q = copy_sample_rect (texCopySrc (display_state t s x0 y0 x1 y1)) (copy_pixel_scale True (targetWidth e) (logicalWidth e))
      (copy_pixel_scale True (targetHeight e) (logicalHeight e)) e"
    using plan_decompose(3)[OF q] by (simp only: display_state_sel(2) simp_thms)
  thus "pl_source p = \<lparr>sr_x = f32_of_int x0, sr_y = f32_of_int y0, sr_width = f32_of_int (x1 - x0), sr_height = f32_of_int (y1 - y0)\<rparr>"
    using whole_sample[OF z(1) d(3) d(5) z(2) d(4) d(6) d(1)] by (simp add: p)
  show "pl_preCopyAlpha p = - 1" using plan_decompose(7)[OF q] by (simp add: p pre_copy_alpha_def display_state_sel)
  show "\<not> co_forceOpaqueAlpha (pl_options p)" by (simp add: p display_options_def Let_def split: prod.split)
  have "\<not> f32_lt 0x3F800000 0x3F800000" by (simp add: f32_lt_nn)
  thus "\<not> f32_lt (co_rowStride (pl_options p)) 0x3F800000"
    by (simp add: p display_options_def Let_def f32_max_def split: prod.split)
qed

section \<open>A concrete copy\<close>

definition demo_copy_enums :: copy_enums where "demo_copy_enums = \<lparr>GX_CLAMP_TOP = 1, GX_CLAMP_BOTTOM = 2\<rparr>"

definition demo_copy_extent :: GxRenderExtent where
  "demo_copy_extent = \<lparr>logicalWidth = 8, logicalHeight = 8, targetWidth = 8, targetHeight = 8\<rparr>"

definition demo_copy_state :: "unit gx_ctx" where
  "demo_copy_state = (GXRegisterState_init sdk_enums ())\<lparr>viewportPolicy := 1,
     texCopySrc := \<lparr>cr_x = 6, cr_y = 0, cr_width = 4, cr_height = 4\<rparr>, dispCopySrc := \<lparr>cr_x = 0, cr_y = 2, cr_width = 8, cr_height = 4\<rparr>,
     texCopyFmt := 6, texCopyDstWidth := 4, texCopyDstHeight := 4\<rparr>"

lemma demo_copy_sel:
  "viewportPolicy demo_copy_state = 1" "texCopyFmt demo_copy_state = 6" "texCopyDstWidth demo_copy_state = 4"
  "texCopyDstHeight demo_copy_state = 4" "texCopySrc demo_copy_state = \<lparr>cr_x = 6, cr_y = 0, cr_width = 4, cr_height = 4\<rparr>"
  "dispCopySrc demo_copy_state = \<lparr>cr_x = 0, cr_y = 2, cr_width = 8, cr_height = 4\<rparr>" "copyFilterAa demo_copy_state = False"
  "copyFilterVf demo_copy_state = False" "pixelFmt demo_copy_state = PF_RGB8_Z24" "length (copyFilterVFilter demo_copy_state) = 7"
  "clearColor demo_copy_state = vec4_zero\<lparr>v3 := f32_1\<rparr>" "dispCopyDstWidth demo_copy_state = 640" "dispCopyDstHeight demo_copy_state = 480"
  by (simp_all add: demo_copy_state_def GXRegisterState_init_def)

lemma demo_native: "AURORA_VIEWPORT_NATIVE sdk_enums = 1" by (simp add: sdk_enums_def)

lemma demo_finite: "f32_isfinite 0" "f32_isfinite 0x3F800000" by (simp_all add: f32_isfinite_def f32_val_def f_decode_def)

lemma demo_plan: "\<exists>p. plan_gx_texture_copy sdk_enums sdk_texture demo_copy_enums demo_copy_state demo_copy_extent True = Inr p"
  unfolding plan_copy_succeeds demo_copy_sel demo_native
  by (simp add: copy_extent_bad_def demo_copy_extent_def mkw_copy_color_format_def copy_source_bad_def copy_size_def
      render_target_has_alpha_def demo_finite vec4_zero_def)

lemma demo_display_plan:
  "\<exists>p. plan_gx_display_copy sdk_enums sdk_texture demo_copy_enums demo_copy_state demo_copy_extent True False = Inr p"
proof -
  let ?d = "display_state sdk_texture demo_copy_state 0 2 8 6"
  have "\<exists>p. plan_gx_texture_copy sdk_enums sdk_texture demo_copy_enums ?d demo_copy_extent True = Inr p"
    unfolding plan_copy_succeeds display_state_sel
    by (simp add: display_state_def demo_copy_sel demo_native sdk_texture_def copy_extent_bad_def demo_copy_extent_def
        mkw_copy_color_format_def copy_source_bad_def copy_size_def render_target_has_alpha_def demo_finite vec4_zero_def)
  thus ?thesis
    by (auto simp: plan_gx_display_copy_def demo_copy_sel demo_native copy_extent_bad_def demo_copy_extent_def copy_source_bad_def
        display_edge_def Let_def)
qed

lemma plan_guarantees:
  assumes "plan_gx_texture_copy g t k s e clear = Inr p" "length (copyFilterVFilter s) = 7"
  shows "\<not> sample_rect_bad (targetWidth e) (targetHeight e) (pl_source p)"
    "1 \<le> pl_scaledWidth p \<and> pl_scaledWidth p \<le> 16384 \<and> 1 \<le> pl_scaledHeight p \<and> pl_scaledHeight p \<le> 16384"
    "blit_rect_bad (targetWidth e) (targetHeight e) (pl_clearRect p) = (\<not> clear)"
    "pl_clearMask p \<le> 15 \<and> (clear \<or> pl_clearMask p = 0)"
    "pl_preCopyAlpha p = - 1 \<or> pl_preCopyAlpha p \<le> 255"
    "fst (co_filter (pl_options p)) \<le> 126 \<and> fst (snd (co_filter (pl_options p))) \<le> 189 \<and>
     snd (snd (co_filter (pl_options p))) \<le> 126"
    "\<not> (pl_depth p \<and> (co_linear (pl_options p) \<or> co_forceOpaqueAlpha (pl_options p)))"
proof -
  note d = plan_decompose[OF assms(1)]
  have l: "logicalWidth e \<noteq> 0" "logicalHeight e \<noteq> 0" using d(1) by (simp_all add: copy_extent_bad_def)
  show s: "\<not> sample_rect_bad (targetWidth e) (targetHeight e) (pl_source p)"
    unfolding d(3) by (rule plan_source_good[OF d(1,2)])
  note w = copy_size_pos(1)[OF d(4) l(1) max1_range] copy_size_pos(1)[OF d(5) l(2) max1_range]
  show "1 \<le> pl_scaledWidth p \<and> pl_scaledWidth p \<le> 16384 \<and> 1 \<le> pl_scaledHeight p \<and> pl_scaledHeight p \<le> 16384"
    using d(6) plan_blit[OF s w] w by simp
  obtain c where c: "plan_clear s (viewportPolicy s = AURORA_VIEWPORT_NATIVE g \<or> texCopySrcRenderSpace s) (texCopySrc s) e clear = Inr c"
    "pl_clearRect p = cl_rect c" "pl_clearMask p = cl_mask c" using d(8) by blast
  show "blit_rect_bad (targetWidth e) (targetHeight e) (pl_clearRect p) = (\<not> clear)"
    "pl_clearMask p \<le> 15 \<and> (clear \<or> pl_clearMask p = 0)"
    using plan_clear_facts[OF c(1) d(1)] c(2,3) by simp_all
  show "pl_preCopyAlpha p = - 1 \<or> pl_preCopyAlpha p \<le> 255"
    using d(7) by (auto simp: pre_copy_alpha_def not_less split: if_splits)
  show "fst (co_filter (pl_options p)) \<le> 126 \<and> fst (snd (co_filter (pl_options p))) \<le> 189 \<and>
     snd (snd (co_filter (pl_options p))) \<le> 126"
    by (rule filter_sums_bounds[OF d(9) assms(2)])
  show "\<not> (pl_depth p \<and> (co_linear (pl_options p) \<or> co_forceOpaqueAlpha (pl_options p)))" using d(11,12) by blast
qed

section \<open>The properties\<close>

text \<open>C12. Planning a texture copy succeeds exactly when the extent is within limits, the format is a copy
  format, no multisampling is asked for, the source is not negative or empty, both scaled sizes are at
  most 16384, a destination alpha that is used is a byte, the colours that are cleared are finite and
  the filter coefficients in use are at most 63.  The check of the sampled rectangle by the blit mesh
  never rejects a plan: clipping leaves a rectangle inside the target, whatever the source is.\<close>
theorem copy_plan_succeeds_iff:
  "(\<exists>p. plan_gx_texture_copy g t k s e clear = Inr p) \<longleftrightarrow>
    \<not> copy_extent_bad e \<and> (mkw_copy_color_format (texCopyFmt s) \<or> mkw_copy_depth_format (texCopyFmt s)) \<and>
    \<not> copyFilterAa s \<and> \<not> copy_source_bad (texCopySrc s) \<and>
    (\<exists>w \<le> 16384. copy_size (viewportPolicy s = AURORA_VIEWPORT_NATIVE g) (max (ucast (texCopyDstWidth s)) 1)
       (logicalWidth e) (targetWidth e) = Inr w) \<and>
    (\<exists>h \<le> 16384. copy_size (viewportPolicy s = AURORA_VIEWPORT_NATIVE g) (max (ucast (texCopyDstHeight s)) 1)
       (logicalHeight e) (targetHeight e) = Inr h) \<and>
    \<not> (render_target_has_alpha (pixelFmt s) \<and> alphaUpdate s \<and> dstAlpha s \<noteq> - 1 \<and> dstAlpha s > 255) \<and>
    \<not> (clear \<and> colorUpdate s \<and>
       \<not> (f32_isfinite (v0 (clearColor s)) \<and> f32_isfinite (v1 (clearColor s)) \<and> f32_isfinite (v2 (clearColor s)))) \<and>
    \<not> (clear \<and> alphaUpdate s \<and> render_target_has_alpha (pixelFmt s) \<and> \<not> f32_isfinite (v3 (clearColor s))) \<and>
    \<not> (copyFilterVf s \<and> (\<exists>x \<in> set (copyFilterVFilter s). x > 63))"
  by (rule plan_copy_succeeds)

text \<open>C11. What a plan guarantees: the sampled rectangle and the result pass the checks of the blit mesh; with
  the clear requested the cleared rectangle is a non-empty part of the target, and without it empty
  with an empty mask; the mask, the destination alpha and the filter stay in their ranges; and a depth
  copy is neither filtered linearly nor made opaque.\<close>
theorem copy_plan_inside_target:
  assumes "plan_gx_texture_copy g t k s e clear = Inr p" "length (copyFilterVFilter s) = 7"
  shows "\<not> sample_rect_bad (targetWidth e) (targetHeight e) (pl_source p) \<and>
    1 \<le> pl_scaledWidth p \<and> pl_scaledWidth p \<le> 16384 \<and> 1 \<le> pl_scaledHeight p \<and> pl_scaledHeight p \<le> 16384 \<and>
    blit_rect_bad (targetWidth e) (targetHeight e) (pl_clearRect p) = (\<not> clear) \<and>
    pl_clearMask p \<le> 15 \<and> (clear \<or> pl_clearMask p = 0) \<and>
    (pl_preCopyAlpha p = - 1 \<or> pl_preCopyAlpha p \<le> 255) \<and>
    fst (co_filter (pl_options p)) \<le> 126 \<and> fst (snd (co_filter (pl_options p))) \<le> 189 \<and>
    snd (snd (co_filter (pl_options p))) \<le> 126 \<and>
    \<not> (pl_depth p \<and> (co_linear (pl_options p) \<or> co_forceOpaqueAlpha (pl_options p)))"
  using plan_guarantees[OF assms] by (intro conjI) blast+

theorem copy_plan_inside_target_witness:
  "\<exists>p. plan_gx_texture_copy sdk_enums sdk_texture demo_copy_enums demo_copy_state demo_copy_extent True = Inr p \<and>
     \<not> sample_rect_bad 8 8 (pl_source p) \<and> \<not> blit_rect_bad 8 8 (pl_clearRect p) \<and> pl_clearMask p \<le> 15"
proof -
  obtain p where p: "plan_gx_texture_copy sdk_enums sdk_texture demo_copy_enums demo_copy_state demo_copy_extent True = Inr p"
    using demo_plan by blast
  from copy_plan_inside_target[OF p demo_copy_sel(10)] p show ?thesis by (intro exI[of _ p]) (simp add: demo_copy_extent_def)
qed

text \<open>C13. A display copy samples exactly the whole texels between its rounded edges, which lie inside the target; it never
  overwrites the alpha channel before copying nor makes the result opaque, and its row stride is at
  least one texel.\<close>
theorem display_copy_samples_whole_texels:
  assumes "plan_gx_display_copy g t k s e clear df = Inr p"
  shows "let native = (viewportPolicy s = AURORA_VIEWPORT_NATIVE g); r = dispCopySrc s;
      left = display_edge native (sint (cr_x r)) (logicalWidth e) (targetWidth e) False;
      top = display_edge native (sint (cr_y r)) (logicalHeight e) (targetHeight e) False;
      right = display_edge native (sint (cr_x r) + sint (cr_width r)) (logicalWidth e) (targetWidth e) True;
      bottom = display_edge native (sint (cr_y r) + sint (cr_height r)) (logicalHeight e) (targetHeight e) True
    in 0 \<le> left \<and> left < right \<and> right \<le> uint (targetWidth e) \<and> 0 \<le> top \<and> top < bottom \<and> bottom \<le> uint (targetHeight e) \<and>
      pl_source p = \<lparr>sr_x = f32_of_int left, sr_y = f32_of_int top, sr_width = f32_of_int (right - left),
        sr_height = f32_of_int (bottom - top)\<rparr> \<and>
      pl_preCopyAlpha p = - 1 \<and> \<not> co_forceOpaqueAlpha (pl_options p) \<and> \<not> f32_lt (co_rowStride (pl_options p)) 0x3F800000"
  using display_decompose(3-6)[OF assms] display_facts[OF assms] unfolding Let_def by simp_all

theorem display_copy_samples_whole_texels_witness:
  "\<exists>p. plan_gx_display_copy sdk_enums sdk_texture demo_copy_enums demo_copy_state demo_copy_extent True False = Inr p \<and>
     pl_source p = \<lparr>sr_x = f32_of_int 0, sr_y = f32_of_int 2, sr_width = f32_of_int 8, sr_height = f32_of_int 4\<rparr> \<and>
     pl_preCopyAlpha p = - 1"
proof -
  obtain p where p: "plan_gx_display_copy sdk_enums sdk_texture demo_copy_enums demo_copy_state demo_copy_extent True False = Inr p"
    using demo_display_plan by blast
  from display_copy_samples_whole_texels[OF p] p show ?thesis
    by (intro exI[of _ p]) (simp add: demo_copy_extent_def demo_copy_sel demo_native display_edge_def Let_def)
qed

end
