(* ===== verification/FastClock.thy ===== *)
theory FastClock
  imports Prelude
begin

text \<open>
  ps5/runtime/fast_clock.h: the monotonic clock that derives nanoseconds from a cheap counter and is
  re-anchored to the kernel clock by whichever reader finds the anchor old.  Any number of threads
  run \<open>now_nanos\<close> on the shared atomics; a step of the model is one access to one of them, made by
  one thread, so an interleaving of the program is a sequence of steps.  All atomic accesses of the
  code are acquire/release, and the model takes them to be sequentially consistent.

  The two time sources are parameters of the class: a step that reads one takes the value read
  from outside, and nothing is assumed of it.  A weak compare-exchange may fail spuriously, which
  is also an input of its step.

  Three fields of the state are history only, no step's behaviour depends on them: the anchors that
  have been published, the values returned so far, each with the number of values that had been
  returned when its call began, and that number for the call each thread is in.
\<close>

section \<open>Conversions\<close>

text \<open>The \<open>__int128\<close> products do not wrap; the quotient is cut to 64 bits.  A frequency of zero is a
  division by zero in \<open>scale\<close>, undefined in C++: the runs below start from another frequency.\<close>
definition scale :: "u64 \<Rightarrow> u64 \<Rightarrow> u64" where
  "scale freq ticks = of_nat (unat ticks * 1000000000 div unat freq)"

definition ticks_for :: "u64 \<Rightarrow> u64 \<Rightarrow> u64" where
  "ticks_for nanos freq =
     (let ticks = unat nanos * unat freq div 1000000000 in if ticks \<noteq> 0 then of_nat ticks else 1)"

section \<open>State\<close>

record clock_config =
  cc_frequency :: u64
  cc_resyncTicks :: u64

text \<open>The values a re-anchoring thread has computed: the anchor, the kernel time and its own result.\<close>
record resync_values =
  rv_anchor :: u64
  rv_base :: u64
  rv_nanos :: u64

text \<open>Where a thread is, with its local variables: the access it makes next.\<close>
datatype clock_pc =
    Idle
  | LoadSequence (counter: u64)
  | LoadCounter u64 (seen: u64)
  | LoadNanos u64 u64 u64
  | CheckSequence u64 u64 u64 u64
  | TestElapsed u64 u64 u64
  | KernelTime u64
  | CounterAfter u64 u64
  | WriterSequence resync_values
  | WriterOdd resync_values u64
  | WriterCounter resync_values u64
  | WriterNanos resync_values u64
  | WriterEven resync_values u64
  | WriterCount resync_values
  | WriterClear u64
  | LoadLast u64
  | CompareLast u64 u64
  | Done u64

record clock_state =
  ck_sequence :: u64
  ck_baseCounter :: u64
  ck_baseNanos :: u64
  ck_last :: u64
  ck_resyncs :: u64
  ck_resyncing :: bool
  pcs :: "nat \<Rightarrow> clock_pc"
  published :: "(u64 \<times> u64) list"
  returned :: "(u64 \<times> nat) list"
  started :: "nat \<Rightarrow> nat"

text \<open>The constructor, from the three readings it takes.\<close>
definition clock_init :: "u64 \<Rightarrow> u64 \<Rightarrow> u64 \<Rightarrow> clock_state" where
  "clock_init counterBefore nanos counterAfter =
     (let anchor = counterBefore + (counterAfter - counterBefore) div 2
      in \<lparr>ck_sequence = 0, ck_baseCounter = anchor, ck_baseNanos = nanos, ck_last = nanos, ck_resyncs = 0,
          ck_resyncing = False, pcs = (\<lambda>_. Idle), published = [(anchor, nanos)], returned = [], started = (\<lambda>_. 0)\<rparr>)"

definition FastMonotonicClock :: "u64 \<Rightarrow> u64 \<Rightarrow> clock_config" where
  "FastMonotonicClock freq resyncNanos = \<lparr>cc_frequency = freq, cc_resyncTicks = ticks_for resyncNanos freq\<rparr>"

section \<open>Steps\<close>

definition goto :: "nat \<Rightarrow> clock_pc \<Rightarrow> clock_state \<Rightarrow> clock_state" where
  "goto t p s = s\<lparr>pcs := (pcs s)(t := p)\<rparr>"

definition elapsed_ticks :: "u64 \<Rightarrow> u64 \<Rightarrow> u64" where
  "elapsed_ticks c base = (if c > base then c - base else 0)"

definition resync_result :: "clock_config \<Rightarrow> u64 \<Rightarrow> u64 \<Rightarrow> u64 \<Rightarrow> resync_values" where
  "resync_result cfg counterBefore real counterAfter =
     (let anchor = counterBefore + (counterAfter - counterBefore) div 2
      in \<lparr>rv_anchor = anchor, rv_base = real,
          rv_nanos = real + scale (cc_frequency cfg) (elapsed_ticks counterAfter anchor)\<rparr>)"

text \<open>The loop test of the final maximum, with the last value just seen.\<close>
definition after_last :: "u64 \<Rightarrow> u64 \<Rightarrow> clock_pc" where
  "after_last nanos previous = (if nanos > previous then CompareLast nanos previous else Done previous)"

text \<open>The next access of thread t; x is what a time source answers, \<open>spurious\<close> that a weak exchange fails.\<close>
definition thread_step :: "clock_config \<Rightarrow> nat \<Rightarrow> u64 \<Rightarrow> bool \<Rightarrow> clock_state \<Rightarrow> clock_state" where
  "thread_step cfg t x spurious s =
     (case pcs s t of
        Idle \<Rightarrow> goto t (LoadSequence x) (s\<lparr>started := (started s)(t := length (returned s))\<rparr>)
      | LoadSequence c \<Rightarrow> goto t (LoadCounter c (ck_sequence s)) s
      | LoadCounter c q \<Rightarrow> goto t (LoadNanos c q (ck_baseCounter s)) s
      | LoadNanos c q bc \<Rightarrow> goto t (CheckSequence c q bc (ck_baseNanos s)) s
      | CheckSequence c q bc bn \<Rightarrow>
          (if q AND 1 \<noteq> 0 \<or> q \<noteq> ck_sequence s then goto t (LoadSequence c) s else goto t (TestElapsed c bc bn) s)
      | TestElapsed c bc bn \<Rightarrow>
          (let elapsed = elapsed_ticks c bc; nanos = bn + scale (cc_frequency cfg) elapsed
           in if elapsed \<ge> cc_resyncTicks cfg \<and> \<not> ck_resyncing s
              then goto t (KernelTime c) (s\<lparr>ck_resyncing := True\<rparr>)
              else goto t (LoadLast nanos) s)
      | KernelTime c \<Rightarrow> goto t (CounterAfter c x) s
      | CounterAfter c real \<Rightarrow> goto t (WriterSequence (resync_result cfg c real x)) s
      | WriterSequence r \<Rightarrow> goto t (WriterOdd r (ck_sequence s)) s
      | WriterOdd r q \<Rightarrow> goto t (WriterCounter r q) (s\<lparr>ck_sequence := q + 1\<rparr>)
      | WriterCounter r q \<Rightarrow> goto t (WriterNanos r q) (s\<lparr>ck_baseCounter := rv_anchor r\<rparr>)
      | WriterNanos r q \<Rightarrow> goto t (WriterEven r q) (s\<lparr>ck_baseNanos := rv_base r\<rparr>)
      | WriterEven r q \<Rightarrow> goto t (WriterCount r)
          (s\<lparr>ck_sequence := q + 2, published := published s @ [(rv_anchor r, rv_base r)]\<rparr>)
      | WriterCount r \<Rightarrow> goto t (WriterClear (rv_nanos r)) (s\<lparr>ck_resyncs := ck_resyncs s + 1\<rparr>)
      | WriterClear nanos \<Rightarrow> goto t (LoadLast nanos) (s\<lparr>ck_resyncing := False\<rparr>)
      | LoadLast nanos \<Rightarrow> goto t (after_last nanos (ck_last s)) s
      | CompareLast nanos previous \<Rightarrow>
          (if ck_last s = previous \<and> \<not> spurious then goto t (Done nanos) (s\<lparr>ck_last := nanos\<rparr>)
           else goto t (after_last nanos (ck_last s)) s)
      | Done v \<Rightarrow> goto t Idle (s\<lparr>returned := returned s @ [(v, started s t)]\<rparr>))"

text \<open>The states that some interleaving reaches after the constructor.\<close>
inductive clock_reachable :: "clock_config \<Rightarrow> clock_state \<Rightarrow> bool" for cfg where
  start: "cc_frequency cfg \<noteq> 0 \<Longrightarrow> clock_reachable cfg (clock_init counterBefore nanos counterAfter)"
| step: "clock_reachable cfg s \<Longrightarrow> clock_reachable cfg (thread_step cfg t x spurious s)"

text \<open>A run of given steps, for concrete schedules.\<close>
fun clock_run :: "clock_config \<Rightarrow> (nat \<times> u64 \<times> bool) list \<Rightarrow> clock_state \<Rightarrow> clock_state" where
  "clock_run cfg [] s = s"
| "clock_run cfg ((t, x, spurious) # steps) s = clock_run cfg steps (thread_step cfg t x spurious s)"

lemma clock_run_reachable: "clock_reachable cfg s \<Longrightarrow> clock_reachable cfg (clock_run cfg steps s)"
  by (induction cfg steps s rule: clock_run.induct) (auto intro: clock_reachable.step)

end
