(* ===== verification/FastClockProps.thy ===== *)
theory FastClockProps
  imports FastClock
begin

text \<open>
  The two promises of the clock over all interleavings of its threads: returned values never
  decrease, and a reader computes only from an anchor that was published as a pair.  The invariants
  are kept by every step, proved by a case split on where the moving thread stands.
\<close>

section \<open>Returned values\<close>

abbreviation values_below :: "clock_state \<Rightarrow> nat \<Rightarrow> u64 \<Rightarrow> bool" where
  "values_below s n v \<equiv> \<forall>j < n. fst (returned s ! j) \<le> v"

definition result_ok :: "clock_state \<Rightarrow> nat \<Rightarrow> bool" where
  "result_ok s t \<longleftrightarrow> started s t \<le> length (returned s) \<and>
     (\<forall>nanos previous. pcs s t = CompareLast nanos previous \<longrightarrow>
        previous < nanos \<and> previous \<le> ck_last s \<and> values_below s (started s t) previous) \<and>
     (\<forall>v. pcs s t = Done v \<longrightarrow> v \<le> ck_last s \<and> values_below s (started s t) v)"

definition history_ok :: "clock_state \<Rightarrow> bool" where
  "history_ok s \<longleftrightarrow> values_below s (length (returned s)) (ck_last s) \<and>
     (\<forall>i < length (returned s). snd (returned s ! i) \<le> i \<and>
        values_below s (snd (returned s ! i)) (fst (returned s ! i)))"

lemma goto_simps [simp]:
  "ck_sequence (goto t p s) = ck_sequence s" "ck_baseCounter (goto t p s) = ck_baseCounter s"
  "ck_baseNanos (goto t p s) = ck_baseNanos s" "ck_last (goto t p s) = ck_last s"
  "ck_resyncing (goto t p s) = ck_resyncing s" "published (goto t p s) = published s"
  "returned (goto t p s) = returned s" "started (goto t p s) = started s"
  "pcs (goto t p s) = (pcs s)(t := p)"
  by (simp_all add: goto_def)

lemma result_ok_last:
  assumes "history_ok s" "result_ok s t"
  shows "result_ok (goto t (after_last nanos (ck_last s)) s) t"
  using assms by (auto simp: result_ok_def history_ok_def after_last_def)

lemma results_step:
  assumes h: "history_ok s" and r: "\<And>u. result_ok s u"
  shows "history_ok (thread_step cfg t x spurious s) \<and> result_ok (thread_step cfg t x spurious s) u"
proof (cases "pcs s t")
  case Idle
  with h r[of u] show ?thesis
    by (cases "u = t") (auto simp: thread_step_def history_ok_def result_ok_def)
next
  case (CompareLast nanos previous)
  with h r[of u] r[of t] result_ok_last[OF h r] show ?thesis
    by (cases "u = t") (fastforce simp: thread_step_def history_ok_def result_ok_def)+
next
  case (Done v)
  with h r[of u] r[of t] show ?thesis
    by (cases "u = t") (fastforce simp: thread_step_def history_ok_def result_ok_def nth_append less_Suc_eq
       )+
next
  case (LoadLast nanos)
  with h r[of u] result_ok_last[OF h r] show ?thesis
    by (cases "u = t") (auto simp: thread_step_def history_ok_def result_ok_def)
qed (use h r[of u] r[of t] in \<open>cases "u = t"; auto simp: thread_step_def history_ok_def result_ok_def Let_def\<close>)+


lemma results_reachable: "clock_reachable cfg s \<Longrightarrow> history_ok s \<and> (\<forall>u. result_ok s u)"
proof (induction rule: clock_reachable.induct)
  case start
  show ?case by (simp add: history_ok_def result_ok_def clock_init_def Let_def)
next
  case step
  thus ?case using results_step by blast
qed

section \<open>The sequence lock\<close>

text \<open>Between winning and clearing \<open>resyncing_\<close>; and while the stored sequence is odd.\<close>
fun in_resync :: "clock_pc \<Rightarrow> bool" where
  "in_resync (KernelTime _) = True"
| "in_resync (CounterAfter _ _) = True"
| "in_resync (WriterSequence _) = True"
| "in_resync (WriterOdd _ _) = True"
| "in_resync (WriterCounter _ _) = True"
| "in_resync (WriterNanos _ _) = True"
| "in_resync (WriterEven _ _) = True"
| "in_resync (WriterCount _) = True"
| "in_resync (WriterClear _) = True"
| "in_resync _ = False"

fun odd_phase :: "clock_pc \<Rightarrow> bool" where
  "odd_phase (WriterCounter _ _) = True"
| "odd_phase (WriterNanos _ _) = True"
| "odd_phase (WriterEven _ _) = True"
| "odd_phase _ = False"

definition lock_ok :: "clock_state \<Rightarrow> bool" where
  "lock_ok s \<longleftrightarrow> (\<forall>t. in_resync (pcs s t) \<longrightarrow> ck_resyncing s \<and> (\<forall>u. in_resync (pcs s u) \<longrightarrow> u = t))"

lemma lock_step:
  assumes "lock_ok s"
  shows "lock_ok (thread_step cfg t x spurious s)"
proof (cases "in_resync (pcs s t)")
  case True
  hence "ck_resyncing s" and "in_resync (pcs s u) = (u = t)" for u using assms by (auto simp: lock_ok_def)
  thus ?thesis using True by (cases "pcs s t") (simp_all add: thread_step_def lock_ok_def)
next
  case False
  thus ?thesis using assms
    by (cases "pcs s t") (auto simp: thread_step_def lock_ok_def Let_def after_last_def)
qed

lemma lock_reachable: "clock_reachable cfg s \<Longrightarrow> lock_ok s"
proof (induction rule: clock_reachable.induct)
  case start
  show ?case by (simp add: lock_ok_def clock_init_def Let_def)
qed (rule lock_step)

text \<open>With m stores made to the sequence so far: the stored value, the anchor while m is even, the
  progress of the one writer.\<close>
definition writer_ok :: "nat \<Rightarrow> clock_state \<Rightarrow> clock_pc \<Rightarrow> bool" where
  "writer_ok m s p \<longleftrightarrow> (in_resync p \<longrightarrow> odd m = odd_phase p) \<and>
     (\<forall>r q. p = WriterOdd r q \<longrightarrow> q = of_nat m) \<and>
     (\<forall>r q. p = WriterCounter r q \<or> p = WriterNanos r q \<or> p = WriterEven r q \<longrightarrow> q + 1 = of_nat m) \<and>
     (\<forall>r q. p = WriterNanos r q \<or> p = WriterEven r q \<longrightarrow> ck_baseCounter s = rv_anchor r) \<and>
     (\<forall>r q. p = WriterEven r q \<longrightarrow> ck_baseNanos s = rv_base r)"

text \<open>A reader saw the sequence after k of the stores; what it read since is the current anchor if no
  store was made in between.\<close>
definition reader_ok :: "nat \<Rightarrow> clock_state \<Rightarrow> clock_pc \<Rightarrow> bool" where
  "reader_ok m s p \<longleftrightarrow>
     (\<forall>c q. p = LoadCounter c q \<longrightarrow> (\<exists>k \<le> m. q = of_nat k)) \<and>
     (\<forall>c q bc. p = LoadNanos c q bc \<longrightarrow>
        (\<exists>k \<le> m. q = of_nat k \<and> (even k \<and> k = m \<longrightarrow> bc = fst (last (published s))))) \<and>
     (\<forall>c q bc bn. p = CheckSequence c q bc bn \<longrightarrow>
        (\<exists>k \<le> m. q = of_nat k \<and> (even k \<and> k = m \<longrightarrow> (bc, bn) = last (published s)))) \<and>
     (\<forall>c bc bn. p = TestElapsed c bc bn \<longrightarrow> (bc, bn) \<in> set (published s))"

definition anchor_ok :: "nat \<Rightarrow> clock_state \<Rightarrow> bool" where
  "anchor_ok m s \<longleftrightarrow> published s \<noteq> [] \<and> m div 2 = length (published s) - 1 \<and> ck_sequence s = of_nat m \<and>
     (even m \<longrightarrow> (ck_baseCounter s, ck_baseNanos s) = last (published s)) \<and>
     (\<not> ck_resyncing s \<longrightarrow> even m)"

text \<open>A later store spoils what a reader saw, so the reader's invariant only gets weaker.\<close>
lemma reader_ok_store:
  assumes "reader_ok m s p" "published s' = published s \<or> published s' = published s @ [a]"
  shows "reader_ok (Suc m) s' p"
proof (cases p)
  case (LoadCounter c q)
  thus ?thesis using assms by (auto simp: reader_ok_def intro: le_SucI)
next
  case (LoadNanos c q bc)
  then obtain k where "k \<le> m" "q = of_nat k" using assms(1) by (auto simp: reader_ok_def)
  thus ?thesis using LoadNanos unfolding reader_ok_def by (auto intro!: exI[of _ k])
next
  case (CheckSequence c q bc bn)
  then obtain k where "k \<le> m" "q = of_nat k" using assms(1) by (auto simp: reader_ok_def)
  thus ?thesis using CheckSequence unfolding reader_ok_def by (auto intro!: exI[of _ k])
next
  case (TestElapsed c bc bn)
  thus ?thesis using assms by (auto simp: reader_ok_def)
qed (simp_all add: reader_ok_def)

lemma reader_ok_keep:
  assumes "reader_ok m s p" "published s' = published s"
  shows "reader_ok m s' p"
  using assms unfolding reader_ok_def by simp


definition clock_ok :: "nat \<Rightarrow> clock_state \<Rightarrow> bool" where
  "clock_ok m s \<longleftrightarrow> anchor_ok m s \<and> (\<forall>u. writer_ok m s (pcs s u)) \<and> (\<forall>u. reader_ok m s (pcs s u))"

lemma writer_ok_keep:
  assumes "writer_ok m s p" "ck_baseCounter s' = ck_baseCounter s" "ck_baseNanos s' = ck_baseNanos s"
  shows "writer_ok m s' p"
  using assms unfolding writer_ok_def by simp

lemma clock_ok_goto:
  assumes "clock_ok m s" and "anchor_ok m s'"
    and "ck_baseCounter s' = ck_baseCounter s" "ck_baseNanos s' = ck_baseNanos s" "published s' = published s"
    and p: "pcs s' = (pcs s)(t := p)" "writer_ok m s' p" "reader_ok m s' p"
  shows "clock_ok m s'"
proof -
  have "writer_ok m s' (pcs s' u) \<and> reader_ok m s' (pcs s' u)" for u
  proof (cases "u = t")
    case True
    with p show ?thesis by simp
  next
    case False
    with assms p(1) show ?thesis by (auto simp: clock_ok_def intro: writer_ok_keep reader_ok_keep)
  qed
  with assms(2) show ?thesis by (simp add: clock_ok_def)
qed

lemmas clock_oks = clock_ok_def anchor_ok_def writer_ok_def reader_ok_def

text \<open>A step of the writer: no other thread is inside the lock, so only readers have to be kept.\<close>
lemma clock_ok_writer:
  assumes c: "clock_ok m s" "lock_ok s" "in_resync (pcs s t)" and "anchor_ok m' s'"
    and m': "m' = m \<and> published s' = published s \<or>
      m' = Suc m \<and> (published s' = published s \<or> published s' = published s @ [a])"
    and p: "pcs s' = (pcs s)(t := p)" "writer_ok m' s' p" "reader_ok m' s' p"
  shows "clock_ok m' s'"
proof -
  have "writer_ok m' s' (pcs s' u) \<and> reader_ok m' s' (pcs s' u)" for u
  proof (cases "u = t")
    case True
    with p show ?thesis by simp
  next
    case False
    hence "\<not> in_resync (pcs s u)" using c by (auto simp: lock_ok_def)
    hence w: "writer_ok m' s' (pcs s u)" by (cases "pcs s u") (simp_all add: writer_ok_def)
    have "reader_ok m s (pcs s u)" using c by (simp add: clock_ok_def)
    with m' have "reader_ok m' s' (pcs s u)" by (auto intro: reader_ok_keep reader_ok_store)
    with w False p show ?thesis by simp
  qed
  with assms(4) show ?thesis by (simp add: clock_ok_def)
qed

lemma even_of_nat_u64: "(of_nat k :: u64) AND 1 = 0 \<longleftrightarrow> even k"
proof -
  have "(of_nat k :: u64) AND 1 = of_bool (bit (of_nat k :: u64) 0)" by (simp only: and_one_eq bit_0 mod2_eq_if) simp
  thus ?thesis by (simp add: bit_of_nat_iff_bit bit_0 del: and_one_eq)
qed

lemma of_nat_u64_inj: "k \<le> m \<Longrightarrow> m < 2 ^ 64 \<Longrightarrow> (of_nat k :: u64) = of_nat m \<longleftrightarrow> k = m"
  by (auto simp: word_of_nat_eq_iff take_bit_nat_eq_self)

lemma clock_step:
  assumes c: "clock_ok m s" and l: "lock_ok s" and b: "m < 2 ^ 64"
  shows "\<exists>m'. clock_ok m' (thread_step cfg t x spurious s)"
proof -
  have t: "anchor_ok m s" "writer_ok m s (pcs s t)" "reader_ok m s (pcs s t)" using c by (auto simp: clock_ok_def)
  have r: "in_resync (pcs s t) \<Longrightarrow> ck_resyncing s" using l by (simp add: lock_ok_def)
  have base: "even m \<Longrightarrow> ck_baseCounter s = fst (last (published s))"
    "even m \<Longrightarrow> (fst (last (published s)), ck_baseNanos s) = last (published s)"
    using t(1) unfolding anchor_ok_def by (metis fst_conv)+
  have move: "\<exists>m'. clock_ok m' s'"
    if "writer_ok m s p" "reader_ok m s p" "pcs s' = (pcs s)(t := p)" "ck_sequence s' = ck_sequence s"
      "ck_baseCounter s' = ck_baseCounter s" "ck_baseNanos s' = ck_baseNanos s" "published s' = published s"
      "ck_resyncing s' = ck_resyncing s" for s' p
    using clock_ok_goto[OF c, of s' t p] that t(1) writer_ok_keep reader_ok_keep
    unfolding anchor_ok_def by metis
  show ?thesis
  proof (cases "pcs s t")
    case (CheckSequence n q bc bn)
    have "clock_ok m (thread_step cfg t x spurious s)"
    proof (cases "q AND 1 \<noteq> 0 \<or> q \<noteq> ck_sequence s")
      case True
      show ?thesis
        by (rule clock_ok_goto[OF c, where p = "LoadSequence n" and t = t])
           (use t CheckSequence True in \<open>simp_all add: thread_step_def clock_oks\<close>)
    next
      case False
      obtain k where k: "k \<le> m" "q = of_nat k" "even k \<and> k = m \<longrightarrow> (bc, bn) = last (published s)"
        using t(3) CheckSequence by (auto simp: reader_ok_def)
      have "q = of_nat m" using False t(1) by (simp add: anchor_ok_def)
      hence "of_nat k = (of_nat m :: u64)" by (rule trans[OF k(2)[symmetric]])
      hence "k = m" by (rule iffD1[OF of_nat_u64_inj[OF k(1) b]])
      moreover have "q AND 1 = 0" using False by blast
      hence "even k" unfolding k(2) even_of_nat_u64 .
      ultimately have "(bc, bn) \<in> set (published s)" using k(3) t(1) by (simp add: anchor_ok_def)
      moreover have "thread_step cfg t x spurious s = goto t (TestElapsed n bc bn) s"
        unfolding thread_step_def CheckSequence clock_pc.case if_not_P[OF False] ..
      ultimately show ?thesis
        by (intro clock_ok_goto[OF c, where p = "TestElapsed n bc bn" and t = t])
           (use t in \<open>simp_all add: clock_oks\<close>)
    qed
    thus ?thesis ..
  next
    case (TestElapsed n bc bn)
    let ?p = "if elapsed_ticks n bc \<ge> cc_resyncTicks cfg \<and> \<not> ck_resyncing s then KernelTime n
      else LoadLast (bn + scale (cc_frequency cfg) (elapsed_ticks n bc))"
    have "clock_ok m (thread_step cfg t x spurious s)"
      by (rule clock_ok_goto[OF c, where p = ?p and t = t])
         (use t TestElapsed in \<open>simp_all add: thread_step_def clock_oks Let_def\<close>)
    thus ?thesis ..
  next
    case (WriterOdd r q)
    have "clock_ok (Suc m) (thread_step cfg t x spurious s)"
      by (rule clock_ok_writer[OF c l, where p = "WriterCounter r q" and t = t])
         (use t r WriterOdd in \<open>auto simp: thread_step_def clock_oks\<close>)
    thus ?thesis ..
  next
    case (WriterCounter r q)
    have "clock_ok m (thread_step cfg t x spurious s)"
      by (rule clock_ok_writer[OF c l, where p = "WriterNanos r q" and t = t])
         (use t WriterCounter in \<open>auto simp: thread_step_def clock_oks\<close>)
    thus ?thesis ..
  next
    case (WriterNanos r q)
    have "clock_ok m (thread_step cfg t x spurious s)"
      by (rule clock_ok_writer[OF c l, where p = "WriterEven r q" and t = t])
         (use t WriterNanos in \<open>auto simp: thread_step_def clock_oks\<close>)
    thus ?thesis ..
  next
    case (WriterEven r q)
    have "clock_ok (Suc m) (thread_step cfg t x spurious s)"
      by (rule clock_ok_writer[OF c l, where p = "WriterCount r" and t = t and a = "(rv_anchor r, rv_base r)"])
         (use t WriterEven in \<open>auto simp: thread_step_def clock_oks add.commute\<close>)
    thus ?thesis ..
  next
    case (WriterClear n)
    have "clock_ok m (thread_step cfg t x spurious s)"
      by (rule clock_ok_writer[OF c l, where p = "LoadLast n" and t = t])
         (use t WriterClear in \<open>auto simp: thread_step_def clock_oks\<close>)
    thus ?thesis ..
  next
    case Idle
    show ?thesis by (rule move[where p = "LoadSequence x"]) (use t Idle in \<open>auto simp: thread_step_def writer_ok_def reader_ok_def\<close>)
  next
    case (LoadSequence n)
    show ?thesis by (rule move[where p = "LoadCounter n (ck_sequence s)"]) (use t LoadSequence in \<open>auto simp: thread_step_def writer_ok_def reader_ok_def anchor_ok_def\<close>)
  next
    case (LoadCounter n q)
    show ?thesis by (rule move[where p = "LoadNanos n q (ck_baseCounter s)"]) (use t(3) base(1) LoadCounter in \<open>auto simp: thread_step_def writer_ok_def reader_ok_def\<close>)
  next
    case (LoadNanos n q bc)
    show ?thesis by (rule move[where p = "CheckSequence n q bc (ck_baseNanos s)"]) (use t(3) base(2) LoadNanos in \<open>auto simp: thread_step_def writer_ok_def reader_ok_def\<close>)
  next
    case (KernelTime n)
    show ?thesis by (rule move[where p = "CounterAfter n x"]) (use t KernelTime in \<open>auto simp: thread_step_def writer_ok_def reader_ok_def\<close>)
  next
    case (CounterAfter n real)
    show ?thesis by (rule move[where p = "WriterSequence (resync_result cfg n real x)"]) (use t CounterAfter in \<open>auto simp: thread_step_def writer_ok_def reader_ok_def\<close>)
  next
    case (WriterSequence r)
    show ?thesis by (rule move[where p = "WriterOdd r (ck_sequence s)"]) (use t WriterSequence in \<open>auto simp: thread_step_def writer_ok_def reader_ok_def anchor_ok_def\<close>)
  next
    case (WriterCount r)
    show ?thesis by (rule move[where p = "WriterClear (rv_nanos r)"]) (use t WriterCount in \<open>auto simp: thread_step_def writer_ok_def reader_ok_def\<close>)
  next
    case (LoadLast n)
    show ?thesis by (rule move[where p = "after_last n (ck_last s)"]) (use t LoadLast in \<open>auto simp: thread_step_def writer_ok_def reader_ok_def after_last_def\<close>)
  next
    case (CompareLast n previous)
    show ?thesis by (rule move[where p = "if ck_last s = previous \<and> \<not> spurious then Done n else after_last n (ck_last s)"]) (use t CompareLast in \<open>auto simp: thread_step_def writer_ok_def reader_ok_def after_last_def\<close>)
  next
    case (Done v)
    show ?thesis by (rule move[where p = "Idle"]) (use t Done in \<open>auto simp: thread_step_def writer_ok_def reader_ok_def\<close>)
  qed
qed

lemma published_grows: "length (published s) \<le> length (published (thread_step cfg t x spurious s))"
  by (cases "pcs s t") (simp_all add: thread_step_def Let_def)

lemma clock_reachable_ok:
  "clock_reachable cfg s \<Longrightarrow> length (published s) < 2 ^ 63 \<Longrightarrow> \<exists>m. clock_ok m s"
proof (induction rule: clock_reachable.induct)
  case (start n0 nanos n1)
  have "clock_ok 0 (clock_init n0 nanos n1)" by (simp add: clock_oks clock_init_def Let_def)
  thus ?case ..
next
  case (step s t x spurious)
  hence n: "length (published s) < 2 ^ 63" using published_grows[of s cfg t x spurious] by linarith
  then obtain m where m: "clock_ok m s" using step.IH by blast
  hence "m div 2 < 2 ^ 63" using n by (auto simp: clock_oks)
  hence "m < 2 ^ 64" by simp
  with m lock_reachable[OF step.hyps(1)] show ?case by (rule clock_step)
qed

section \<open>Properties\<close>

text \<open>C14. Returned values never decrease across threads and re-anchors: a call that began after n values had been
  returned returns at least each of those n, whatever the time sources answer, in every
  interleaving.\<close>
theorem clock_never_decreases:
  assumes "clock_reachable cfg s" "i < length (returned s)" "returned s ! i = (v, n)" "j < n"
  shows "j < i \<and> fst (returned s ! j) \<le> v"
proof -
  have "snd (returned s ! i) \<le> i \<and> values_below s (snd (returned s ! i)) (fst (returned s ! i))"
    using results_reachable[OF assms(1)] assms(2) by (simp add: history_ok_def)
  with assms(3,4) show ?thesis by auto
qed

text \<open>C15. The sequence lock: a thread that leaves the read loop holds a counter and a time that were
  published together, and at most one thread is between winning and clearing the re-anchor flag;
  as long as fewer than 2^63 anchors have been published, so that the sequence has not come round.\<close>
theorem clock_reads_published_anchor:
  assumes "clock_reachable cfg s" "length (published s) < 2 ^ 63" "pcs s t = TestElapsed c bc bn"
  shows "(bc, bn) \<in> set (published s) \<and> (\<exists>u. {w. in_resync (pcs s w)} \<subseteq> {u})"
proof -
  obtain m where "clock_ok m s" using clock_reachable_ok[OF assms(1,2)] by blast
  hence "reader_ok m s (pcs s t)" by (simp add: clock_ok_def)
  hence "(bc, bn) \<in> set (published s)" using assms(3) by (auto simp: reader_ok_def)
  moreover have "\<exists>u. {w. in_resync (pcs s w)} \<subseteq> {u}"
    using lock_reachable[OF assms(1)] unfolding lock_ok_def by blast
  ultimately show ?thesis ..
qed


text \<open>A thousand ticks a second, re-anchored after ten ticks.  Thread 0 reads at tick 3 and returns;
  thread 1 then reads an older tick and is held at the value of thread 0; thread 2 reads at tick 20,
  re-anchors to the kernel time 5, and thread 3 reads the new anchor.\<close>
abbreviation (input) sample_clock :: clock_config where
  "sample_clock \<equiv> FastMonotonicClock 1000 10000000"

abbreviation (input) sample_start :: clock_state where
  "sample_start \<equiv> clock_init 0 7 2"

abbreviation (input) call_of :: "nat \<Rightarrow> u64 \<Rightarrow> (nat \<times> u64 \<times> bool) list" where
  "call_of t x \<equiv> [(t, x, False), (t, x, False), (t, x, False), (t, x, False), (t, x, False), (t, x, False)]"

lemmas run_simps = clock_init_def FastMonotonicClock_def ticks_for_def thread_step_def elapsed_ticks_def
  scale_def after_last_def resync_result_def Let_def

theorem clock_never_decreases_witness:
  "(0 :: nat) < 1 \<and> fst (returned (clock_run sample_clock (call_of 0 3 @ [(0, 0, False), (0, 0, False), (0, 0, False)] @
     call_of 1 2 @ [(1, 0, False), (1, 0, False)]) sample_start) ! 0) \<le> (2000007 :: u64)"
proof -
  let ?s = "clock_run sample_clock (call_of 0 3 @ [(0, 0, False), (0, 0, False), (0, 0, False)] @
     call_of 1 2 @ [(1, 0, False), (1, 0, False)]) sample_start"
  have "returned ?s = [(2000007, 0), (2000007, 1)]" by (simp add: run_simps goto_def word_le_nat_alt)
  moreover have "clock_reachable sample_clock ?s"
    by (intro clock_run_reachable clock_reachable.start) (simp add: FastMonotonicClock_def)
  ultimately show ?thesis using clock_never_decreases[of sample_clock ?s 1 2000007 1 0] by simp
qed

theorem clock_reads_published_anchor_witness:
  "(21, 5) \<in> set (published (clock_run sample_clock (call_of 2 20 @ [(2, 5, False), (2, 22, False)] @
     call_of 2 0 @ [(2, 0, False)] @ take 5 (call_of 3 23)) sample_start)) \<and>
   (\<exists>u. {w. in_resync (pcs (clock_run sample_clock (call_of 2 20 @ [(2, 5, False), (2, 22, False)] @
     call_of 2 0 @ [(2, 0, False)] @ take 5 (call_of 3 23)) sample_start) w)} \<subseteq> {u})"
proof -
  let ?s = "clock_run sample_clock (call_of 2 20 @ [(2, 5, False), (2, 22, False)] @
     call_of 2 0 @ [(2, 0, False)] @ take 5 (call_of 3 23)) sample_start"
  have "pcs ?s 3 = TestElapsed 23 21 5 \<and> length (published ?s) = 2"
    by (simp add: run_simps goto_def word_le_nat_alt)
  moreover have "clock_reachable sample_clock ?s"
    by (intro clock_run_reachable clock_reachable.start) (simp add: FastMonotonicClock_def)
  ultimately show ?thesis using clock_reads_published_anchor[of sample_clock ?s 3 23 21 5] by simp
qed

end
