(* ===== verification/Spec2Isabelle.thy ===== *)
theory Spec2Isabelle
  imports DecoderProps TextureProps TevProps VertexProps CopyProps CopyPlanProps FastClockProps
begin

text \<open>
  A verification development for the PlayStation 5 port of the Wii graphics pipeline
  (src/ps5/gpu and the vendored aurora command processor under src/dependency-additions).

  The program.  Guest code writes a FIFO of GX commands.  \<open>aurora::gx::fifo::process\<close>
  (register_dispatch.cpp) walks the bytes, decodes writes to the BP, CP and XF register banks
  (register_decoder.cpp) into the register file \<open>GXRegisterState\<close> (register_state.hpp), and hands
  draw commands, viewports, scissors and evictions to the renderer through the callbacks of
  register_backend.hpp.  The ps5 renderer implements them: gx_viewport.cpp and
  gx_viewport_backend.cpp map the logical viewport to the render target, gx_geometry.cpp snapshots
  the vertices of a draw, gx_draw.cpp merges consecutive triangle draws, gx_draw_dispatch.cpp
  delivers them to the installed receiver.  A draw's snapshot is serialised (gx_geometry_buffer.cpp)
  and read by the vertex shader (shaders/gx_vertex_raw.c); textures go through texture_layout.cpp
  and gx_texture_cache.cpp; the texture environment is packed by gx_tev_program.cpp and run by
  tev_stage.h.  Copies out of the embedded frame buffer are planned by gx_texture_copy_plan.cpp and
  gx_display_copy_plan.cpp, published in gx_copy_store.cpp and read back lazily by the guest.  All
  threads of the port read time from runtime/fast_clock.h.

  The theories.
  \<^item> Prelude: words, byte sources (a read outside the object is None), loops, array updates.
    Ieee and IeeeLemmas: binary32 and binary64 arithmetic on bit patterns, round to nearest even.
  \<^item> GxSdk, GxSdkRender: the enumerators of the GX headers, which are not part of the repository,
    as parameters (records \<open>gx_opcodes\<close>, \<open>gx_enums\<close>, \<open>gx_render_enums\<close>) with the documented SDK
    values as instances for the witnesses.
  \<^item> GxState, GxInit: the register file as a record, its defaults, and the invariants \<open>wf_ctx\<close>
    (array shapes) and \<open>wf_tev\<close> (ranges of the decoded TEV fields).  RegCache: the locale
    \<open>write_cache\<close>, the contract of a register cache, interpreted on the XF and the CP cache.
  \<^item> GxBackend: the callbacks as a record, and the locale \<open>gx_backend_contract\<close>, what the decoder
    relies on; RendererFrame: the locale \<open>renderer_keeps\<close>, which lifts a renderer invariant through
    the decoder.  Both are interpreted on the ps5 renderer in NativeLemmas.
  \<^item> BpDecoder, CpDecoder, XfDecoder: \<open>handle_bp\<close>, \<open>handle_cp\<close>, \<open>handle_xf\<close>, one definition per
    register group; BpLemmas, XfLemmas, XfCoherence: their invariants, among them that the XF
    cache agrees with the decoded registers.  CommandReader, FifoDispatch: the byte readers,
    the command loop, indexed loads and the aurora sub-commands; FifoLemmas: the loop is safe
    and terminates under the contract.
  \<^item> GxViewport, GxGeometry, GxGeometryLemmas, NativeBackend, NativeLemmas: the ps5 renderer.
  \<^item> GxShaderConfig: the shader configuration derived from the register file (tail of
    register_state.hpp).  GxSdkTexture: the texture formats, a parameter like the other enumerators.
  \<^item> TextureObject, TextureLayout (with TextureLayoutLemmas and TextureTile): texture objects and the
    tiled storage of texture_layout.cpp.  GxTextureCache, GxTextureCacheLemmas: the cache of converted
    textures (budget, eviction, digest memo) and its transparency.  GxSampler: sampler descriptors.
  \<^item> TevInteger, TevStageEval, TevEquivalence: the integer combiner of tev_integer.h, the float
    interpreter of tev_stage.h and their agreement.  GxTevProgram, GxTevProgramLemmas: the packing of
    the texture environment.  TevRefinement, TevRun: the packed stage computes the combiner of the
    register file, and the stage loop of the pixel program never converts a float out of range.
  \<^item> GxTexgen, GxBlend: coordinate generators and blend state.  BitFields, ErrorLists, Ieee32,
    Ieee32Round: bit fields of packed words, loops that throw, exact binary32 integers, rounding.
  \<^item> GxVertexDecode, GxGeometryBuffer, GxVertexFetch: the reference vertex reader of gx_geometry.cpp, the
    serialised draw and the shader that fetches from it.  VertexReads, VertexNumbers, VertexGeometry,
    VertexFetchLemmas, VertexValues, VertexAgreement: the buffer's words are read back, and the shader
    computes, inside the buffer, what the reference reader decodes.
  \<^item> GxColorCopy, DeferredReads, GxCopyStore, CopyStoreLemmas: frame-buffer copies as textures and as
    pending writes to guest memory; their invariant and the guest's view of memory.
  \<^item> GxBlit, GxCopyPlan: the vertices of a blit and the plans of copies.  Ieee32Order, CopyPlanLemmas:
    the order of non-negative floats, monotone rounding, and the clipped interval that is always
    inside the target.
  \<^item> FastClock: the clock as steps of any number of threads on its shared atomics.
  \<^item> DecoderProps: lemmas behind the decoder properties.  TextureProps, TevProps, VertexProps, CopyProps,
    CopyPlanProps, FastClockProps: the properties of their parts.  This theory: the other properties.

  Bounds.  The command loop is a \<open>partial_function\<close>; it is total because the position strictly
  grows below the 32-bit size, so no fuel is needed.  The eviction loop removes an entry per round.
  All counters keep their width; the clock's anchors are below 2^63 and the tokens of pending writes
  below 2^64 - 1, as hypotheses where they matter.  Copy extents are at most 16384, the code's bound.

  Not modelled: logging, performance counters, mutexes (the decoder runs under one lock), GPU buffers,
  fences, shaders and command encoders (agc_*.cpp, gpu_*.cpp), the frame renderer that drives them,
  the running of a copy plan, the constants of fog, lighting and transform (gx_draw_packet.cpp and
  its parts), video output, the console system calls (runtime, input, audio), tests and diagnostics;
  PROJECT.json lists them with the reasons.
\<close>

abbreviation (input) boot :: native_ctx where
  "boot \<equiv> GXRegisterState_init sdk_enums native_init"

section \<open>The command stream\<close>

text \<open>C1. On any readable buffer the command processor, with the renderer of ps5/gpu behind it,
  returns (or passes on an exception of the renderer), never reads outside the buffer, and leaves a
  well-formed register state whose XF cache agrees with the decoded registers.\<close>
theorem process_total_and_safe:
  assumes "\<And>b. d = Some b \<Longrightarrow> readable b (unat sz)" and "\<And>a. mem a \<noteq> None"
    and "sdk_ranges_ok g" and "fifo_inv g s"
  shows "\<exists>t. fifo_inv g t \<and> (process k g (native_backend g x) mem d sz be s = Some (FifoDone t) \<or>
    (\<exists>e. process k g (native_backend g x) mem d sz be s = Some (FifoThrow e t)))"
  by (rule native.process_safe) (use assms in auto)

theorem process_total_and_safe_witness:
  "\<exists>t. fifo_inv sdk_enums t \<and>
    (process sdk_opcodes sdk_enums (native_backend sdk_enums sdk_render) (\<lambda>_. Some 0)
       (Some (buf [0x61, 0x28, 1, 2, 3, 0x90, 0, 7])) 8 True boot = Some (FifoDone t) \<or>
    (\<exists>e. process sdk_opcodes sdk_enums (native_backend sdk_enums sdk_render) (\<lambda>_. Some 0)
       (Some (buf [0x61, 0x28, 1, 2, 3, 0x90, 0, 7])) 8 True boot = Some (FifoThrow e t)))"
  by (rule process_total_and_safe) (auto simp: readable_buf sdk_ranges_ok_sdk fifo_inv_init)

text \<open>C5. Merged draws never survive a stream: when the loop ends, the group of pending triangle
  draws has been submitted or dropped, on an exception too.\<close>
theorem stream_leaves_no_pending_draws:
  assumes "draw_opcodes_ok k" "readable d (unat sz)" "no_pending (backend s)"
    and "sdk_ranges_ok g" "fifo_inv g s" "\<And>a. mem a \<noteq> None"
  shows "\<exists>t. no_pending (backend t) \<and>
    (process k g (native_backend g x) mem (Some d) sz be s = Some (FifoDone t) \<or>
     (\<exists>e. process k g (native_backend g x) mem (Some d) sz be s = Some (FifoThrow e t)))"
proof -
  have p: "pending_ok d (unat (0 :: u32)) (unat sz) be (backend s)"
    using assms(3) by (simp add: pending_ok_def)
  obtain t where t: "process k g (native_backend g x) mem (Some d) sz be s = Some (FifoDone t) \<or>
      (\<exists>e. process k g (native_backend g x) mem (Some d) sz be s = Some (FifoThrow e t))"
    using native.process_safe[of "Some d" sz mem g s k x be] assms by auto
  with process_loop_pending[OF assms(1,2) p assms(4,5), of mem x] assms(6)
  have "no_pending (backend t)" by (auto simp: process_def)
  thus ?thesis using t by blast
qed

text \<open>C6. A stream of encoded BP and CP register writes, in either byte order, decodes to exactly
  those writes in order, whatever the register state.\<close>
theorem process_decodes_encoded_writes:
  assumes "length (concat (map (encode be) cs)) < 2 ^ 32"
  shows "process sdk_opcodes g B mem (Some (buf (concat (map (encode be) cs))))
      (of_nat (length (concat (map (encode be) cs)))) be s =
    Some (FifoDone (fold (apply_write g B) cs s))"
proof -
  let ?d = "concat (map (encode be) cs)"
  have "unat (of_nat (length ?d) :: u32) = length ?d" using assms by (simp add: unat_of_nat)
  from process_loop_encode[OF _ _ this, where xs = "[]" and be = be and cs = cs and pos = 0]
  show ?thesis by (simp add: process_def)
qed

theorem stream_leaves_no_pending_draws_witness:
  "\<exists>t. no_pending (backend t) \<and>
    (process sdk_opcodes sdk_enums (native_backend sdk_enums sdk_render) (\<lambda>_. Some 0)
       (Some (buf [0x90, 0, 0, 0x90, 0, 0])) 6 True boot = Some (FifoDone t) \<or>
     (\<exists>e. process sdk_opcodes sdk_enums (native_backend sdk_enums sdk_render) (\<lambda>_. Some 0)
       (Some (buf [0x90, 0, 0, 0x90, 0, 0])) 6 True boot = Some (FifoThrow e t)))"
  by (rule stream_leaves_no_pending_draws[OF draw_opcodes_ok_sdk _ _ sdk_ranges_ok_sdk
      fifo_inv_init[OF sdk_ranges_ok_sdk]])
     (simp_all add: readable_buf no_pending_def GXRegisterState_init_def native_init_def
      PendingDraws_init_def)

theorem process_decodes_encoded_writes_witness:
  "process sdk_opcodes sdk_enums (native_backend sdk_enums sdk_render) (\<lambda>_. None)
     (Some (buf [0x61, 0xFE, 0, 0, 0xFF, 8, 0x50, 0, 0, 2, 0])) 11 True boot =
   Some (FifoDone (handle_cp sdk_enums 0x50 0x200
     (handle_bp sdk_enums (native_backend sdk_enums sdk_render) 0xFE0000FF boot)))"
proof -
  have e: "concat (map (encode True) [BpWrite 0xFE0000FF, CpWrite 0x50 0x200]) =
      [0x61, 0xFE, 0, 0, 0xFF, 8, 0x50, 0, 0, 2, 0]"
    by (simp add: wire32_def)
  show ?thesis
    using process_decodes_encoded_writes[of True "[BpWrite 0xFE0000FF, CpWrite 0x50 0x200]"
      sdk_enums "native_backend sdk_enums sdk_render" "\<lambda>_. None" boot]
    unfolding e by simp
qed

text \<open>C16. The XF cache is only an optimisation: with a coherent cache, the register write that is
  skipped because the cache holds its value would have changed no decoded state (only the markers
  that ask for another upload).\<close>
theorem xf_skip_is_sound:
  assumes "fifo_inv g s" "xf_skippable reg" "xfRegMatches s reg v"
  shows "settled (xf_reg_decode reg v s) = settled s"
proof (rule xf_decode_settled)
  have "xf_valid s reg" "xfRegCache s ! unat reg = v"
    using assms(3) by (simp_all add: xfRegMatches_iff)
  thus "xf_holds reg v s" using assms(1,2) by (auto simp: fifo_inv_def xf_coherent_def)
qed (use assms fifo_inv_sizes in auto)

theorem xf_skip_is_sound_witness:
  "settled (xf_reg_decode 0x12 5 (xf_reg_decode 0x12 5 (storeXfReg 0x12 5 boot))) =
   settled (xf_reg_decode 0x12 5 (storeXfReg 0x12 5 boot))"
proof -
  have w: "xf_reg_write 0x12 5 (False, False, boot) =
      (False, False, xf_reg_decode 0x12 5 (storeXfReg 0x12 5 boot))"
    by (simp add: xf_reg_write_def Let_def xfRegMatches_def GXRegisterState_init_def)
  have i: "fifo_inv sdk_enums boot" by (rule fifo_inv_init[OF sdk_ranges_ok_sdk])
  have "fifo_inv sdk_enums (xf_reg_decode 0x12 5 (storeXfReg 0x12 5 boot))"
    using i xf_reg_write_wf[OF w, of sdk_enums] xf_reg_write_props[OF w fifo_inv_sizes[OF i]]
    by (simp add: fifo_inv_def)
  moreover have "xfRegMatches (xf_reg_decode 0x12 5 (storeXfReg 0x12 5 boot)) 0x12 5"
    by (simp add: xfRegMatches_iff xf_valid_cong[OF xf_decode_cache(2)] xf_decode_cache(1)
        xf_store_lookup[OF fifo_inv_sizes[OF i]])
      (simp add: storeXfReg_def GXRegisterState_init_def)
  ultimately show ?thesis
    by (intro xf_skip_is_sound) (auto simp: xf_skippable_def)
qed

text \<open>C22. A masked BP write: the register takes the written bits where the one-shot mask is set
  and keeps its own elsewhere, the mask is consumed, and no other cached register changes.\<close>
theorem bp_masked_write:
  assumes "wf_shape g s" "bp_reg v \<noteq> 0xFE"
  shows "(\<forall>k<24. bit (bpRegCache (handle_bp g (native_backend g x) v s) ! unat (bp_reg v)) k =
      (if bit (bpRegCache s ! 0xFE) k then bit v k else bit (bpRegCache s ! unat (bp_reg v)) k)) \<and>
    bpRegCache (handle_bp g (native_backend g x) v s) ! 0xFE = 0x00FFFFFF \<and>
    (\<forall>q<256. q \<noteq> 0xFE \<longrightarrow> q \<noteq> unat (bp_reg v) \<longrightarrow>
      bpRegCache (handle_bp g (native_backend g x) v s) ! q = bpRegCache s ! q)"
proof -
  have len: "length (bpRegCache s) = 256" using assms(1) by (simp add: wf_shape_def)
  have ne: "unat (bp_reg v) \<noteq> 0xFE" using assms(2) by (simp add: word_unat_eq_iff)
  show ?thesis
    unfolding native.handle_bp_cache[OF assms]
    using ne len unat_bp_reg_less[of v] by (simp add: bit_bp_merged)
qed

theorem bp_masked_write_witness:
  "bpRegCache (handle_bp sdk_enums (native_backend sdk_enums sdk_render) 0x40000017 boot) ! 0xFE = 0x00FFFFFF"
  using bp_masked_write[where g = sdk_enums and s = boot and v = "0x40000017" and x = sdk_render]
  by (simp add: wf_shape_init bp_reg_def)

text \<open>Writing a BP register twice with the full mask is the same as writing it once: the second
  write is recognised as a repetition.\<close>
theorem bp_repeated_write:
  assumes "wf_shape g s" "bpRegCache s ! 0xFE = 0x00FFFFFF"
  shows "handle_bp g (native_backend g x) v (handle_bp g (native_backend g x) v s) =
    handle_bp g (native_backend g x) v s"
  by (rule native.handle_bp_twice[OF assms])

theorem bp_repeated_write_witness:
  "handle_bp sdk_enums (native_backend sdk_enums sdk_render) 0x40000017
     (handle_bp sdk_enums (native_backend sdk_enums sdk_render) 0x40000017 boot) =
   handle_bp sdk_enums (native_backend sdk_enums sdk_render) 0x40000017 boot"
  by (rule bp_repeated_write) (simp_all add: wf_shape_init, simp add: GXRegisterState_init_def)

text \<open>Writing a CP register twice is the same as writing it once, for every register address.\<close>
theorem cp_repeated_write:
  assumes "wf_ctx g s"
  shows "handle_cp g a v (handle_cp g a v s) = handle_cp g a v s"
  by (rule handle_cp_twice[OF assms])

theorem cp_repeated_write_witness:
  "handle_cp sdk_enums 0xB2 12 (handle_cp sdk_enums 0xB2 12 boot) = handle_cp sdk_enums 0xB2 12 boot"
  by (rule cp_repeated_write) (rule wf_ctx_init)

text \<open>C23. The two vertex-descriptor registers: unless the cache skips them, every one of the 21
  attributes gets the field of the two words that belongs to it.\<close>
theorem vertex_descriptor_fields:
  assumes "sdk_attrs_ok k g" "wf_ctx g s" "\<not> cp_hit s 0x50 lo" "\<not> cp_hit s 0x60 hi"
  shows "\<forall>a<21. vtxDesc (handle_cp g 0x60 hi (handle_cp g 0x50 lo s)) ! a = vcd_field lo hi a"
  unfolding handle_cp_vcd[OF assms(2-4)]
  by (rule vcd_words) (use assms(1,2) in \<open>auto simp: sdk_attrs_ok_def wf_ctx_def wf_shape_def\<close>)

theorem vertex_descriptor_fields_witness:
  "vtxDesc (handle_cp sdk_enums 0x60 0x1 (handle_cp sdk_enums 0x50 0x600 boot)) ! 9 = 3"
proof -
  have "\<not> cp_hit boot 0x50 0x600" "\<not> cp_hit boot 0x60 0x1"
    by (simp_all add: cp_hit_def GXRegisterState_init_def)
  from vertex_descriptor_fields[OF sdk_attrs_ok_sdk wf_ctx_init this] show ?thesis
    by (simp add: vcd_field_def)
qed

text \<open>C24. The texture-unit register table is the hardware's: the seven kinds of register of the units
  0 to 3 start at 0x80 and those of the units 4 to 7 at 0xA0, four addresses per kind (mode 0, mode 1,
  images 0 to 3, palette), one per unit; a BP address decodes to unit \<open>i\<close> and kind \<open>k\<close> exactly when it
  is that address, so no address is missing, shared or assigned to another unit.\<close>
theorem texture_registers_decode:
  "decode_tex_bp_reg r = Some (i, k) \<longleftrightarrow>
    i < 8 \<and> uint r = (if i < 4 then 0x80 + int i else 0xA0 + int i - 4) +
      4 * (case k of Mode0 \<Rightarrow> 0 | Mode1 \<Rightarrow> 1 | Image0 \<Rightarrow> 2 | Image1 \<Rightarrow> 3 | Image2 \<Rightarrow> 4 | Image3 \<Rightarrow> 5 | Tlut \<Rightarrow> 6)"
proof -
  have "decode_tex_bp_reg r = Some (i, k) \<longleftrightarrow> i < 8 \<and> tex_ids k ! i = r"
    using decode_tex_bp_reg_ids[of i k] tex_bp_scan_some[of r "[0..<8]" i k] by (auto simp: decode_tex_bp_reg_def)
  thus ?thesis using tex_ids_address[of i k] by (auto simp: word_uint_eq_iff)
qed

text \<open>C20. An indexed XF load reads only the declared extent of its array: if those bytes can be read
  it returns, whatever the index, the count and the stride, and with 32-bit wrap-around.\<close>
theorem indexed_load_stays_in_array:
  assumes "arr = arrays s ! (GX_POS_MTX_ARRAY k + unat ((opc - GX_LOAD_INDX_A k) div 8))"
    and "\<And>i. i < unat (arr_size arr) \<Longrightarrow> mem (arr_data arr + of_nat i) \<noteq> None"
  shows "\<exists>t. load_indexed k mem opc v be s = Some t"
  by (rule load_indexed_inside[where arr = arr]) (use assms in auto)

theorem indexed_load_stays_in_array_witness:
  "\<exists>t. load_indexed sdk_opcodes (\<lambda>a. if 0x1000 \<le> a \<and> a < 0x1040 then Some 0 else None) 0x20 0xB000 True
     (boot\<lparr>arrays := (arrays boot)[21 := AttrArray_init\<lparr>arr_data := 0x1000, arr_size := 0x40, arr_stride := 48\<rparr>]\<rparr>) = Some t"
proof (rule indexed_load_stays_in_array[OF refl], goal_cases)
  case (1 i)
  hence "i < 0x40" by (simp add: sdk_opcodes_def GXRegisterState_init_def sdk_enums_def)
  hence "unat (0x1000 + of_nat i :: u64) = 0x1000 + i"
    by (simp add: unat_word_ariths unat_of_nat)
  thus ?case
    using \<open>i < 0x40\<close> by (simp add: sdk_opcodes_def GXRegisterState_init_def sdk_enums_def word_le_nat_alt word_less_nat_alt)
qed

text \<open>A 32-bit word written to the stream in either byte order is read back.\<close>
theorem read_u32_round_trip:
  "read_u32 (buf (xs @ wire32 be w @ ys)) (length xs) be = Some w"
  by (rule read_u32_wire32)

text \<open>C25. A CP write of the current matrix index that repeats the last CP value is dropped even when an
  XF write has changed the index in between: the XF value stays.\<close>
theorem cp_matrix_write_lost_after_xf:
  assumes "wf_ctx g s"
  shows "currentPnMtx (handle_cp g 0x30 a (xf_reg_decode 0x18 b (handle_cp g 0x30 a s))) =
    bp_get b 6 0 div 3"
proof -
  have c: "cacheable_cp_register 0x30" by (simp add: cacheable_cp_register_def)
  have "cp_hit (xf_reg_decode 0x18 b (handle_cp g 0x30 a s)) 0x30 a"
    unfolding xf_decode_keeps_cp_cache by (rule handle_cp_hits[OF assms c])
  hence "handle_cp g 0x30 a (xf_reg_decode 0x18 b (handle_cp g 0x30 a s)) =
      xf_reg_decode 0x18 b (handle_cp g 0x30 a s)"
    by (simp add: handle_cp_def[of _ _ _ "xf_reg_decode _ _ _"] cp_register_write_unchanged_def c)
  thus ?thesis by (simp add: xf_reg_decode_def mark_pipeline_state_dirty_alt)
qed

theorem cp_matrix_write_lost_after_xf_witness:
  "currentPnMtx (handle_cp sdk_enums 0x30 0 (xf_reg_decode 0x18 6 (handle_cp sdk_enums 0x30 0 boot))) = 2"
  by (subst cp_matrix_write_lost_after_xf) (simp_all add: wf_ctx_init bp_get_def)

section \<open>Draws\<close>

text \<open>The indices generated for a primitive stay below its vertex count, and the triangle
  classes generate whole triangles, as many as the primitive has.\<close>
theorem primitive_indices:
  assumes "build_indices p n = Inr is"
  shows "set is \<subseteq> {..<n} \<and>
    (triangle_class p \<longrightarrow> length is =
      (if p = GX_QUADS then n div 4 * 6 else if p = GX_TRIANGLES then n div 3 * 3
       else if n > 2 then (n - 2) * 3 else 0))"
  using build_indices_below[OF assms] assms quad_loop_props[of 0 n] tri_loop_props[of 0 n]
    strip_loop_props[of 2 n] fan_loop_props[of 2 n]
  by (auto simp: build_indices_def triangle_class_def strip_loop.simps[of 2] fan_loop.simps[of 2]
      split: GXPrimitive.splits)

theorem primitive_indices_witness:
  "build_indices GX_QUADS 5 = Inr [0, 1, 2, 2, 3, 0] \<and> set [0, 1, 2, 2, 3, 0 :: nat] \<subseteq> {..<5}"
proof -
  have b: "build_indices GX_QUADS 5 = Inr [0, 1, 2, 2, 3, 0]"
    by (simp add: build_indices_def quad_loop.simps)
  show ?thesis using primitive_indices[OF b] b by simp
qed

text \<open>C17. Merging draws changes no triangle: whenever the merged snapshot succeeds, its indices are the
  separate draws' indices, each shifted by the vertices before it, all below the merged vertex
  count; and the in-place writer never leaves its buffer.\<close>
theorem merged_draw_is_concatenation:
  "\<exists>r. GxGeometry_snapshot_segments g rsv lay s sgs rs = Some r \<and>
     (\<forall>out. r = Inr out \<longrightarrow> geo_indices out = merged_indices sgs 0 \<and>
        set (geo_indices out) \<subseteq> {..<geo_count out} \<and> geo_count out = segment_total sgs \<and>
        geo_records out = rs)"
proof (cases rule: snapshot_segments_cases[of g rsv lay s sgs rs])
  case (ok out)
  thus ?thesis using merged_indices_below[OF ok(2), of 0] by simp
qed simp

theorem merged_draw_is_concatenation_witness:
  "\<exists>out. GxGeometry_snapshot_segments sdk_enums (\<lambda>_ _ _ _. Inl ''none'')
      \<lparr>attributes = replicate 21 (GxAttributeLayout_init sdk_enums sdk_render), vl_stride = 1\<rparr>
      (boot\<lparr>vtxDesc := (vtxDesc boot)[9 := 1]\<rparr>)
      [\<lparr>seg_primitive = GX_TRIANGLES, seg_count = 3\<rparr>, \<lparr>seg_primitive = GX_TRIANGLEFAN, seg_count = 4\<rparr>]
      (replicate 7 0) = Some (Inr out) \<and> geo_indices out = [0, 1, 2, 3, 4, 5, 3, 5, 6]"
  (is "\<exists>out. ?G = Some (Inr out) \<and> ?P out")
proof -
  have "?G \<noteq> None \<and> (\<forall>e. ?G \<noteq> Some (Inl e))"
    by (simp add: GxGeometry_snapshot_segments_def segment_indices_def snapshot_records_def
        write_triangle_indices_def triangle_list_def tri_loop.simps fan_loop.simps
        GXRegisterState_init_def sdk_enums_def)
       (simp add: write_triangle_indices_def triangle_list_def tri_loop.simps fan_loop.simps
        upt_rec GxAttributeLayout_init_def is_indexed_def)
  then obtain out where o: "?G = Some (Inr out)" by (cases ?G) (metis obj_sumE)+
  hence "geo_indices out = merged_indices
      [\<lparr>seg_primitive = GX_TRIANGLES, seg_count = 3\<rparr>, \<lparr>seg_primitive = GX_TRIANGLEFAN, seg_count = 4\<rparr>] 0"
    using merged_draw_is_concatenation[where g = sdk_enums and rsv = "\<lambda>_ _ _ _. Inl ''none''" and
      lay = "\<lparr>attributes = replicate 21 (GxAttributeLayout_init sdk_enums sdk_render), vl_stride = 1\<rparr>" and
      s = "boot\<lparr>vtxDesc := (vtxDesc boot)[9 := 1]\<rparr>" and rs = "replicate 7 0" and
      sgs = "[\<lparr>seg_primitive = GX_TRIANGLES, seg_count = 3\<rparr>, \<lparr>seg_primitive = GX_TRIANGLEFAN, seg_count = 4\<rparr>]"]
    by auto
  thus ?thesis using o by (simp add: build_indices_def tri_loop.simps fan_loop.simps)
qed

text \<open>C18. The bytes captured for an indexed attribute cover every element that the vertex records
  name, and lie inside the declared array.\<close>
theorem array_snapshot_covers_indices:
  assumes "snapshot_array rsv attr arr d rs count stride = Inr sn"
    "i \<in> set (scan_indices rs count stride (al_offset d) (index_width d) (indexCount d))"
  shows "sourceOffset sn \<le> i * arrayStride d \<and>
    i * arrayStride d + element_bytes d \<le> sourceOffset sn + length (as_bytes sn) \<and>
    sourceOffset sn + length (as_bytes sn) \<le> unat (arr_size arr)"
  using snapshot_array_covers[OF assms] by blast

theorem array_snapshot_covers_indices_witness:
  "\<exists>sn. snapshot_array (\<lambda>_ _ off n. Inr (replicate (unat n) 7)) 9
      (AttrArray_init\<lparr>arr_data := 0x1000, arr_size := 64\<rparr>)
      (GxAttributeLayout_init sdk_enums sdk_render\<lparr>al_mode := 2, componentBytes := 2, components := 3, arrayStride := 6\<rparr>)
      [4, 9] 2 1 = Inr sn \<and>
    sourceOffset sn \<le> 9 * 6 \<and> 9 * 6 + 6 \<le> sourceOffset sn + length (as_bytes sn)"
proof -
  let ?S = "snapshot_array (\<lambda>_ _ off n. Inr (replicate (unat n) 7)) 9
      (AttrArray_init\<lparr>arr_data := 0x1000, arr_size := 64\<rparr>)
      (GxAttributeLayout_init sdk_enums sdk_render\<lparr>al_mode := 2, componentBytes := 2, components := 3, arrayStride := 6\<rparr>)
      [4, 9] 2 1"
  have "?S = Inr \<lparr>sourceOffset = 24, as_bytes = replicate 36 7\<rparr>"
    by (simp add: snapshot_array_def GxAttributeLayout_init_def AttrArray_init_def scan_indices_def
        index_width_def min_max_def upt_rec element_bytes_def)
  from array_snapshot_covers_indices[OF this, of 9] this show ?thesis
    by (simp add: GxAttributeLayout_init_def scan_indices_def index_width_def upt_rec element_bytes_def)
qed

text \<open>C19. Reading the indices of a vertex stays inside the vertex records: with a layout built from
  the registers and records of the matching size, every index byte of every vertex is inside.\<close>
theorem layout_indices_inside_records:
  assumes "GxVertexLayout_build g x s format = Inr lay" "GX_NONE g = 0" "a < 21"
    and "is_indexed (attributes lay ! a)" "length rs = count * vl_stride lay"
    and "v < count" "grp < indexCount (attributes lay ! a)"
  shows "v * vl_stride lay + al_offset (attributes lay ! a) + grp * index_width (attributes lay ! a) +
    index_width (attributes lay ! a) \<le> length rs"
proof (rule index_read_inside[OF assms(5) _ assms(6,7)])
  show "al_offset (attributes lay ! a) + indexCount (attributes lay ! a) * index_width (attributes lay ! a)
      \<le> vl_stride lay"
    using layout_build_ok[OF assms(1,2)] assms(3,4)
    by (auto simp: list_all_length layout_attr_ok_def)
qed

theorem layout_indices_inside_records_witness:
  "\<exists>lay. GxVertexLayout_build sdk_enums sdk_render (boot\<lparr>vtxDesc := (vtxDesc boot)[9 := 2, 13 := 3]\<rparr>) 0 = Inr lay \<and>
    1 * vl_stride lay + al_offset (attributes lay ! 13) + 0 * index_width (attributes lay ! 13) +
      index_width (attributes lay ! 13) \<le> length [0 :: u8, 1, 2, 3, 4, 5]"
proof -
  let ?B = "GxVertexLayout_build sdk_enums sdk_render (boot\<lparr>vtxDesc := (vtxDesc boot)[9 := 2, 13 := 3]\<rparr>) 0"
  have "\<exists>lay. ?B = Inr lay \<and> al_mode (attributes lay ! 13) = 3 \<and> indexCount (attributes lay ! 13) = 1 \<and>
      vl_stride lay = 3"
    by (simp add: GxVertexLayout_build_def upt_21 attr_layout_def Let_def attr_format_def
        GXRegisterState_init_def sdk_enums_def sdk_render_def is_color_def GxAttributeLayout_init_def
        AttrArray_init_def)
  then obtain lay where b: "?B = Inr lay" "al_mode (attributes lay ! 13) = 3"
      "indexCount (attributes lay ! 13) = 1" "vl_stride lay = 3" by blast
  have "1 * vl_stride lay + al_offset (attributes lay ! 13) + 0 * index_width (attributes lay ! 13) +
      index_width (attributes lay ! 13) \<le> length [0 :: u8, 1, 2, 3, 4, 5]"
    by (rule layout_indices_inside_records[OF b(1), where count = 2])
       (simp_all add: b sdk_enums_def is_indexed_def)
  thus ?thesis using b(1) by blast
qed

section \<open>Viewport\<close>

text \<open>C21. The scissor given to the renderer lies inside the render target, with the one exception that the
  native policy hands the logical scissor through unchanged (when the extent and the viewport are
  usable; otherwise the scissor is empty under every policy).\<close>
theorem mapped_scissor_inside_target:
  "if viewportPolicy s = AURORA_VIEWPORT_NATIVE g \<and> valid_extent e \<and> finite_vp (logicalViewport s)
   then mv_scissor (map_gx_viewport g s e) = logicalScissor s
   else rect_inside (mv_scissor (map_gx_viewport g s e)) (targetWidth e) (targetHeight e)"
proof -
  have "mv_scissor (map_gx_viewport g s e) = ClipRect_empty" if "\<not> valid_extent e \<or> \<not> finite_vp (logicalViewport s)"
    using that by (simp add: map_gx_viewport_def)
  moreover have "rect_inside ClipRect_empty w h" for w h by (simp add: rect_inside_def ClipRect_empty_def)
  moreover have "mv_scissor (map_gx_viewport g s e) = logicalScissor s"
    if "viewportPolicy s = AURORA_VIEWPORT_NATIVE g" "valid_extent e" "finite_vp (logicalViewport s)"
    using that by (simp add: map_gx_viewport_def)
  ultimately show ?thesis using map_gx_viewport_inside[of s g e] by auto
qed

theorem mapped_scissor_inside_target_witness:
  "rect_inside (mv_scissor (map_gx_viewport sdk_enums boot
      \<lparr>logicalWidth = 640, logicalHeight = 480, targetWidth = 1920, targetHeight = 1080\<rparr>)) 1920 1080"
  using mapped_scissor_inside_target[of boot sdk_enums
    "\<lparr>logicalWidth = 640, logicalHeight = 480, targetWidth = 1920, targetHeight = 1080\<rparr>"]
  by (simp add: GXRegisterState_init_def sdk_enums_def)

text \<open>The two scissor registers never describe an inverted rectangle and never exceed the 15-bit
  coordinates, for any rectangle.\<close>
theorem scissor_registers_ordered:
  "let tl = crg_value (scissor_regs r ! 0); br = crg_value (scissor_regs r ! 1) in
     scissor_field_x tl \<le> scissor_field_x br \<and> scissor_field_y tl \<le> scissor_field_y br \<and>
     scissor_field_x br \<le> 32767 \<and> scissor_field_y br \<le> 32767"
proof -
  have m: "nat (clamp a 0 32767) \<le> nat (clamp (a + max b 0) 0 32767)" for a b :: int
    using clamp_mono[of a "a + max b 0" 0 "32767 :: int"] by simp
  have u: "nat (clamp a 0 32767) \<le> 32767" for a :: int
    using clamp_bounds[of 0 "32767 :: int" a] by linarith
  show ?thesis
    using m u by (simp add: scissor_regs_def Let_def word_le_nat_alt corner_coords)
qed

end
